(* ===== verification/Prelude.thy ===== *)
theory Prelude
  imports Main "HOL-Library.Sublist"
begin

text \<open>
  Shared base of the development: the collections of simplification rules, the types of Go
  values that have no structure of their own (instants, durations), and generic lemmas on
  finite families and prefixes that several components use.
\<close>

section \<open>Collections\<close>

text \<open>
  \<open>go_eval\<close> holds the equations that evaluate the model of Go's string functions on literals;
  \<open>code_const\<close> holds the definitions of the program's string constants, which stay folded in
  proofs and are unfolded to compare two of them.
\<close>

named_theorems go_eval
named_theorems code_const

section \<open>Instants and durations\<close>

text \<open>
  A \<open>time.Time\<close> is the number of nanoseconds since Go's zero instant, so \<open>IsZero\<close> is
  equality with 0; a \<open>time.Duration\<close> is a number of nanoseconds.
\<close>

type_synonym instant = int
type_synonym duration = int

definition IsZero :: "instant \<Rightarrow> bool" where
  "IsZero t \<longleftrightarrow> t = 0"

abbreviation Millisecond :: duration where "Millisecond \<equiv> 1000000"
abbreviation Second :: duration where "Second \<equiv> 1000000000"
abbreviation Minute :: duration where "Minute \<equiv> 60000000000"

section \<open>Counting in updated lists\<close>

text \<open>
  Updating one member of a list changes the number of members with a property by at most one.
\<close>

definition countP :: "('a \<Rightarrow> bool) \<Rightarrow> 'a list \<Rightarrow> nat" where
  "countP P xs = length (filter P xs)"

lemma countP_simps [simp]:
  "countP P [] = 0"
  "countP P (x # xs) = (if P x then 1 else 0) + countP P xs"
  "countP P (xs @ ys) = countP P xs + countP P ys"
  by (simp_all add: countP_def)

lemma countP_update:
  "i < length xs \<Longrightarrow> countP P (xs[i := x]) + (if P (xs ! i) then 1 else 0) =
     countP P xs + (if P x then 1 else 0)"
proof (induction xs arbitrary: i)
  case (Cons y ys)
  then show ?case by (cases i) auto
qed simp

lemma countP_pos: "i < length xs \<Longrightarrow> P (xs ! i) \<Longrightarrow> 0 < countP P xs"
  unfolding countP_def by (metis length_greater_0_conv filter_empty_conv nth_mem)

lemma countP_mono: "(\<And>x. P x \<Longrightarrow> Q x) \<Longrightarrow> countP P xs \<le> countP Q xs"
  by (induction xs) auto

lemma countP_zero: "countP P xs = 0 \<longleftrightarrow> (\<forall>x \<in> set xs. \<not> P x)"
  by (simp add: countP_def filter_empty_conv)

section \<open>Runs of a step relation\<close>

text \<open>\<open>run start stp ls s\<close>: the steps labelled \<open>ls\<close> lead from \<open>start\<close> to \<open>s\<close>.\<close>

inductive run :: "'s \<Rightarrow> ('l \<Rightarrow> 's \<Rightarrow> 's \<Rightarrow> bool) \<Rightarrow> 'l list \<Rightarrow> 's \<Rightarrow> bool"
  for start :: 's and stp :: "'l \<Rightarrow> 's \<Rightarrow> 's \<Rightarrow> bool" where
  run_none: "run start stp [] start"
| run_snoc: "run start stp ls s \<Longrightarrow> stp l s s' \<Longrightarrow> run start stp (ls @ [l]) s'"

text \<open>
  The contract of a concurrent component: every step of the relation keeps the invariant that
  the start has. Its client gets the invariant after every run.
\<close>

locale step_machine =
  fixes start :: 's
    and stp :: "'l \<Rightarrow> 's \<Rightarrow> 's \<Rightarrow> bool"
    and inv :: "'s \<Rightarrow> bool"
  assumes inv_start: "inv start"
    and inv_step: "inv s \<Longrightarrow> stp l s s' \<Longrightarrow> inv s'"
begin

lemma inv_run: "run start stp ls s \<Longrightarrow> inv s"
  by (induction rule: run.induct) (auto intro: inv_start inv_step)

end

section \<open>Reachable states of a deterministic machine\<close>

text \<open>
  The contract of a component driven by a sequence of operations: a start state, a step
  function and an invariant that the start has and every step keeps. Its client gets the
  invariant for every run.
\<close>

locale op_machine =
  fixes start :: 's
    and exec :: "'op \<Rightarrow> 's \<Rightarrow> 's"
    and good :: "'s \<Rightarrow> bool"
  assumes good_start: "good start"
    and good_exec: "good s \<Longrightarrow> good (exec x s)"
begin

lemma good_run_from: "good s \<Longrightarrow> good (fold exec xs s)"
  by (induction xs arbitrary: s) (auto intro: good_exec)

lemma good_run: "good (fold exec xs start)"
  by (rule good_run_from [OF good_start])

end

section \<open>Prefixes\<close>

lemma prefix_take_eq: "prefix p s \<longleftrightarrow> take (length p) s = p"
  by (metis append_eq_conv_conj prefix_def)

lemma prefix_of_prefix_None:
  assumes "prefix r l" and "prefix p r"
  shows "prefix p l"
  using assms prefix_order.trans by blast

lemmas prefix_eval [go_eval] = prefix_code
lemmas sublist_eval [go_eval] = sublist_code

end
