(* ===== verification/GoStrings.thy ===== *)
theory GoStrings
  imports Prelude "HOL-Library.Sublist"
begin

text \<open>
  Go strings are byte sequences; a HOL \<open>string\<close> is a list of bytes (\<open>char\<close>). This theory
  models the functions of Go's package \<open>strings\<close> that the governed core uses.

  \<^item> \<open>TrimSpace\<close> is exact: it removes every UTF-8 encoded code point for which
    \<open>unicode.IsSpace\<close> holds, at both ends.
  \<^item> \<open>ToLower\<close> and \<open>ToUpper\<close> are exact wherever the result is ASCII: besides the ASCII
    letters, only U+0130 and U+212A have an ASCII lower case, and only U+0131 and U+017F an
    ASCII upper case. All other bytes are kept, so the comparisons of the code with ASCII
    keywords have the outcome they have in Go; a non-ASCII letter that has a non-ASCII lower
    case is kept as it is.
  \<^item> \<open>HasPrefix\<close>, \<open>HasSuffix\<close> and \<open>Contains\<close> are the library's \<open>prefix\<close>,
    \<open>suffix\<close> and \<open>sublist\<close>.
\<close>

section \<open>Trimming\<close>

definition ascii_spaces :: "char list" where
  "ascii_spaces = [CHR 0x09, CHR 0x0A, CHR 0x0B, CHR 0x0C, CHR 0x0D, CHR 0x20]"

definition wide_spaces :: "string list" where
  "wide_spaces =
    [[CHR 0xC2, CHR 0x85], [CHR 0xC2, CHR 0xA0], [CHR 0xE1, CHR 0x9A, CHR 0x80],
     [CHR 0xE2, CHR 0x80, CHR 0x80], [CHR 0xE2, CHR 0x80, CHR 0x81],
     [CHR 0xE2, CHR 0x80, CHR 0x82], [CHR 0xE2, CHR 0x80, CHR 0x83],
     [CHR 0xE2, CHR 0x80, CHR 0x84], [CHR 0xE2, CHR 0x80, CHR 0x85],
     [CHR 0xE2, CHR 0x80, CHR 0x86], [CHR 0xE2, CHR 0x80, CHR 0x87],
     [CHR 0xE2, CHR 0x80, CHR 0x88], [CHR 0xE2, CHR 0x80, CHR 0x89],
     [CHR 0xE2, CHR 0x80, CHR 0x8A], [CHR 0xE2, CHR 0x80, CHR 0xA8],
     [CHR 0xE2, CHR 0x80, CHR 0xA9], [CHR 0xE2, CHR 0x80, CHR 0xAF],
     [CHR 0xE2, CHR 0x81, CHR 0x9F], [CHR 0xE3, CHR 0x80, CHR 0x80]]"

text \<open>The ASCII fast path decides on the byte; other bytes are compared with the encodings.\<close>

definition is_ascii :: "char \<Rightarrow> bool" where
  "is_ascii c \<longleftrightarrow> \<not> digit7 c"

fun strip_one :: "'a list list \<Rightarrow> 'a list \<Rightarrow> 'a list option" where
  "strip_one [] s = None"
| "strip_one (p # ps) s =
     (if p \<noteq> [] \<and> prefix p s then Some (drop (length p) s) else strip_one ps s)"

definition strip_lead :: "string list \<Rightarrow> string \<Rightarrow> string option" where
  "strip_lead wide s = (case s of [] \<Rightarrow> None
     | c # r \<Rightarrow> if is_ascii c then (if c \<in> set ascii_spaces then Some r else None)
                else strip_one wide s)"

lemma strip_one_shorter: "strip_one ps s = Some r \<Longrightarrow> length r < length s"
proof (induction ps)
  case (Cons p ps)
  show ?case
  proof (cases "p \<noteq> [] \<and> prefix p s")
    case True
    then have "s \<noteq> []" by auto
    with True Cons.prems show ?thesis by auto
  qed (use Cons in \<open>simp split: if_splits\<close>)
qed simp

lemma strip_lead_shorter: "strip_lead wide s = Some r \<Longrightarrow> length r < length s"
  by (auto simp: strip_lead_def dest: strip_one_shorter split: list.splits if_splits)

function trim_lead :: "string list \<Rightarrow> string \<Rightarrow> string" where
  "trim_lead wide s = (case strip_lead wide s of None \<Rightarrow> s | Some r \<Rightarrow> trim_lead wide r)"
  by pat_completeness auto
termination
  by (relation "measure (\<lambda>(wide, s). length s)") (auto dest: strip_lead_shorter)

declare trim_lead.simps [simp del]

definition TrimLeftSpace :: "string \<Rightarrow> string" where
  "TrimLeftSpace s = trim_lead wide_spaces s"

definition TrimRightSpace :: "string \<Rightarrow> string" where
  "TrimRightSpace s = rev (trim_lead (map rev wide_spaces) (rev s))"

definition TrimSpace :: "string \<Rightarrow> string" where
  "TrimSpace s = TrimRightSpace (TrimLeftSpace s)"

lemmas trim_eval [go_eval] = TrimSpace_def TrimLeftSpace_def TrimRightSpace_def
  trim_lead.simps strip_lead_def ascii_spaces_def wide_spaces_def is_ascii_def

subsection \<open>Trimming is idempotent\<close>

lemma strip_trim_lead: "strip_lead wide (trim_lead wide s) = None"
  by (induction wide s rule: trim_lead.induct)
     (subst trim_lead.simps, auto split: option.splits)

lemma trim_lead_fix: "strip_lead wide s = None \<Longrightarrow> trim_lead wide s = s"
  by (subst trim_lead.simps) simp

lemma trim_lead_suffix: "suffix (trim_lead wide s) s"
proof (induction wide s rule: trim_lead.induct)
  case (1 wide s)
  show ?case
  proof (cases "strip_lead wide s")
    case None
    then show ?thesis by (simp add: trim_lead_fix)
  next
    case (Some r)
    have "suffix r s"
    proof (cases s)
      case (Cons c t)
      show ?thesis
      proof (cases "is_ascii c")
        case True
        with Some Cons show ?thesis
          by (auto simp: strip_lead_def suffix_ConsI split: if_splits)
      next
        case False
        have "strip_one ps s = Some r \<Longrightarrow> suffix r s" for ps
          by (induction ps) (auto split: if_splits simp: suffix_drop)
        with Some Cons False show ?thesis by (simp add: strip_lead_def)
      qed
    qed (use Some in \<open>simp add: strip_lead_def\<close>)
    with 1 [OF Some] Some show ?thesis
      by (subst trim_lead.simps) (auto intro: suffix_order.trans)
  qed
qed

lemma strip_one_prefix_None:
  assumes "strip_one ps l = None" and "prefix r l"
  shows "strip_one ps r = None"
  using assms by (induction ps) (auto split: if_splits dest: prefix_of_prefix_None)

lemma strip_lead_prefix_None:
  assumes "strip_lead wide l = None" and "prefix r l"
  shows "strip_lead wide r = None"
proof (cases r)
  case (Cons c r')
  with assms(2) obtain l' where l: "l = c # l'" and "prefix r' l'"
    by (cases l) auto
  have wide: "strip_one wide l = None \<Longrightarrow> strip_one wide r = None"
    using assms(2) by (auto dest: strip_one_prefix_None)
  show ?thesis
    using assms(1) wide by (auto simp: strip_lead_def l Cons split: if_splits)
qed (simp add: strip_lead_def)

lemma TrimRightSpace_prefix: "prefix (TrimRightSpace s) s"
  using trim_lead_suffix [of "map rev wide_spaces" "rev s"]
  by (simp add: TrimRightSpace_def suffix_to_prefix)

lemma TrimLeftSpace_TrimSpace: "TrimLeftSpace (TrimSpace s) = TrimSpace s"
proof -
  have "strip_lead wide_spaces (TrimSpace s) = None"
    unfolding TrimSpace_def
    by (rule strip_lead_prefix_None [OF _ TrimRightSpace_prefix])
       (simp add: TrimLeftSpace_def strip_trim_lead)
  then show ?thesis by (simp add: TrimLeftSpace_def trim_lead_fix)
qed

lemma TrimRightSpace_idem: "TrimRightSpace (TrimRightSpace s) = TrimRightSpace s"
  by (simp add: TrimRightSpace_def trim_lead_fix strip_trim_lead)

lemma TrimSpace_idem [simp]: "TrimSpace (TrimSpace s) = TrimSpace s"
  by (metis TrimLeftSpace_TrimSpace TrimRightSpace_idem TrimSpace_def)

lemma TrimSpace_Nil [simp]: "TrimSpace [] = []"
  by (simp add: TrimSpace_def TrimLeftSpace_def TrimRightSpace_def trim_lead_fix strip_lead_def)

lemma TrimSpace_sublist: "sublist (TrimSpace s) s"
proof -
  have "sublist (TrimSpace s) (TrimLeftSpace s)"
    unfolding TrimSpace_def by (rule prefix_imp_sublist [OF TrimRightSpace_prefix])
  moreover have "sublist (TrimLeftSpace s) s"
    unfolding TrimLeftSpace_def by (rule suffix_imp_sublist [OF trim_lead_suffix])
  ultimately show ?thesis by (rule sublist_order.order.trans)
qed

lemma TrimSpace_set: "set (TrimSpace s) \<subseteq> set s"
  by (rule set_mono_sublist [OF TrimSpace_sublist])

lemma TrimSpace_length: "length (TrimSpace s) \<le> length s"
  by (rule sublist_length_le [OF TrimSpace_sublist])

text \<open>A string whose first and last bytes are ASCII and no space is left as it is.\<close>

definition solid :: "char \<Rightarrow> bool" where
  "solid c \<longleftrightarrow> is_ascii c \<and> c \<notin> set ascii_spaces"

lemma TrimSpace_solid:
  assumes "s \<noteq> []" and "solid (hd s)" and "solid (last s)"
  shows "TrimSpace s = s"
proof -
  have ends: "strip_lead w t = None" if "t \<noteq> []" and "solid (hd t)" for w t
    using that by (cases t) (auto simp: strip_lead_def solid_def)
  have "TrimLeftSpace s = s"
    using assms(1,2) by (simp add: TrimLeftSpace_def trim_lead_fix ends)
  moreover have "TrimRightSpace s = s"
    using assms(1,3) by (simp add: TrimRightSpace_def trim_lead_fix ends hd_rev)
  ultimately show ?thesis by (simp add: TrimSpace_def)
qed

section \<open>Case mapping\<close>

definition is_upper_byte :: "char \<Rightarrow> bool" where
  "is_upper_byte c \<longleftrightarrow> 65 \<le> (of_char c :: nat) \<and> (of_char c :: nat) \<le> 90"

definition is_lower_byte :: "char \<Rightarrow> bool" where
  "is_lower_byte c \<longleftrightarrow> 97 \<le> (of_char c :: nat) \<and> (of_char c :: nat) \<le> 122"

definition lower_byte :: "char \<Rightarrow> char" where
  "lower_byte c = (if is_upper_byte c
     then (case c of Char b0 b1 b2 b3 b4 b5 b6 b7 \<Rightarrow> Char b0 b1 b2 b3 b4 True b6 b7) else c)"

definition upper_byte :: "char \<Rightarrow> char" where
  "upper_byte c = (if is_lower_byte c
     then (case c of Char b0 b1 b2 b3 b4 b5 b6 b7 \<Rightarrow> Char b0 b1 b2 b3 b4 False b6 b7) else c)"

text \<open>Bit 5 is the difference between the two cases of an ASCII letter.\<close>

lemma char_low_bits:
  "\<exists>n::nat. n \<le> 31 \<and> (\<forall>b5 b6 b7. of_char (Char b0 b1 b2 b3 b4 b5 b6 b7) =
     n + 32 * of_bool b5 + 64 * of_bool b6 + 128 * of_bool b7)"
  by (rule exI [of _ "of_bool b0 + 2 * of_bool b1 + 4 * of_bool b2 + 8 * of_bool b3 + 16 * of_bool b4"])
     (simp add: of_bool_def)

lemma lower_byte_of_char:
  "(of_char (lower_byte c) :: nat) = (if is_upper_byte c then of_char c + 32 else of_char c)"
proof (cases c)
  case (Char b0 b1 b2 b3 b4 b5 b6 b7)
  obtain n :: nat where "n \<le> 31" and n: "\<And>b5 b6 b7. of_char (Char b0 b1 b2 b3 b4 b5 b6 b7) =
      n + 32 * of_bool b5 + 64 * of_bool b6 + 128 * of_bool b7"
    using char_low_bits by blast
  then show ?thesis
    unfolding Char lower_byte_def is_upper_byte_def char.case if_distrib [of of_char] n
    by (cases b5; cases b6; cases b7) auto
qed

lemma upper_byte_of_char:
  "(of_char (upper_byte c) :: nat) = (if is_lower_byte c then of_char c - 32 else of_char c)"
proof (cases c)
  case (Char b0 b1 b2 b3 b4 b5 b6 b7)
  obtain n :: nat where "n \<le> 31" and n: "\<And>b5 b6 b7. of_char (Char b0 b1 b2 b3 b4 b5 b6 b7) =
      n + 32 * of_bool b5 + 64 * of_bool b6 + 128 * of_bool b7"
    using char_low_bits by blast
  then show ?thesis
    unfolding Char upper_byte_def is_lower_byte_def char.case if_distrib [of of_char] n
    by (cases b5; cases b6; cases b7) auto
qed

text \<open>
  A case mapping is a function on bytes and a list of UTF-8 encoded code points with an ASCII
  image.
\<close>

function map_case :: "(string \<times> char) list \<Rightarrow> (char \<Rightarrow> char) \<Rightarrow> string \<Rightarrow> string" where
  "map_case wide f [] = []"
| "map_case wide f (c # s) =
     (case find (\<lambda>(p, d). p \<noteq> [] \<and> prefix p (c # s)) wide of
        None \<Rightarrow> f c # map_case wide f s
      | Some (p, d) \<Rightarrow> d # map_case wide f (drop (length p) (c # s)))"
  by pat_completeness auto
termination
proof (relation "measure (\<lambda>(wide, f, s). length s)", goal_cases)
  case (3 wide f c s x p d)
  then have "p \<noteq> []" by (auto simp: find_Some_iff)
  then show ?case using 3 by (cases p) auto
qed auto

definition lower_wide :: "(string \<times> char) list" where
  "lower_wide = [([CHR 0xE2, CHR 0x84, CHR 0xAA], CHR ''k''), ([CHR 0xC4, CHR 0xB0], CHR ''i'')]"

definition upper_wide :: "(string \<times> char) list" where
  "upper_wide = [([CHR 0xC4, CHR 0xB1], CHR ''I''), ([CHR 0xC5, CHR 0xBF], CHR ''S'')]"

definition fold_wide :: "(string \<times> char) list" where
  "fold_wide = [([CHR 0xE2, CHR 0x84, CHR 0xAA], CHR ''k''), ([CHR 0xC5, CHR 0xBF], CHR ''s'')]"

definition ToLower :: "string \<Rightarrow> string" where
  "ToLower s = map_case lower_wide lower_byte s"

definition ToUpper :: "string \<Rightarrow> string" where
  "ToUpper s = map_case upper_wide upper_byte s"

definition EqualFold :: "string \<Rightarrow> string \<Rightarrow> bool" where
  "EqualFold s t \<longleftrightarrow> map_case fold_wide lower_byte s = map_case fold_wide lower_byte t"

lemmas case_eval [go_eval] = ToLower_def ToUpper_def EqualFold_def lower_wide_def upper_wide_def
  fold_wide_def lower_byte_def upper_byte_def is_upper_byte_def is_lower_byte_def

subsection \<open>Well-behaved mappings\<close>

text \<open>
  What the case mappings have in common: encodings are not ASCII, images are ASCII, non-space
  and fixed, bytes above 0x7F are kept, and the mapping of a byte is idempotent and makes no
  spaces.
\<close>

definition case_ok :: "(string \<times> char) list \<Rightarrow> (char \<Rightarrow> char) \<Rightarrow> bool" where
  "case_ok wide f \<longleftrightarrow>
     (\<forall>(p, d) \<in> set wide. list_all (\<lambda>c. \<not> is_ascii c) p \<and> solid d \<and> f d = d) \<and>
     (\<forall>c. \<not> is_ascii c \<longrightarrow> f c = c) \<and> (\<forall>c. is_ascii c \<longrightarrow> is_ascii (f c)) \<and>
     (\<forall>c. f (f c) = f c) \<and> (\<forall>c. f c \<in> set ascii_spaces \<longrightarrow> f c = c)"

lemma is_ascii_of_char: "is_ascii c \<longleftrightarrow> (of_char c :: nat) < 128"
proof (cases c)
  case (Char b0 b1 b2 b3 b4 b5 b6 b7)
  obtain n :: nat where "n \<le> 31" and n: "\<And>b5 b6 b7. of_char (Char b0 b1 b2 b3 b4 b5 b6 b7) =
      n + 32 * of_bool b5 + 64 * of_bool b6 + 128 * of_bool b7"
    using char_low_bits by blast
  then show ?thesis
    unfolding Char is_ascii_def char.sel char.case if_distrib [of of_char] n
    by (cases b5; cases b6; cases b7) auto
qed

lemma char_eq_nat: "c = d \<longleftrightarrow> (of_char c :: nat) = of_char d"
  by (simp add: inj_eq [OF inj_of_char])

lemma ascii_space_nat: "c \<in> set ascii_spaces \<longleftrightarrow> (of_char c :: nat) \<in> {9, 10, 11, 12, 13, 32}"
  by (simp add: ascii_spaces_def char_eq_nat)

lemma lower_byte_cases:
  "is_upper_byte c \<or> lower_byte c = c" by (simp add: lower_byte_def)

lemma lower_byte_idem: "lower_byte (lower_byte c) = lower_byte c"
proof -
  have "\<not> is_upper_byte (lower_byte c)"
    by (auto simp: is_upper_byte_def lower_byte_of_char split: if_splits)
  then show ?thesis by (simp add: lower_byte_def [of "lower_byte c"])
qed

lemma upper_byte_idem: "upper_byte (upper_byte c) = upper_byte c"
proof -
  have "\<not> is_lower_byte (upper_byte c)"
    by (auto simp: is_lower_byte_def upper_byte_of_char split: if_splits)
  then show ?thesis by (simp add: upper_byte_def [of "upper_byte c"])
qed

lemma lower_byte_ok:
  "\<not> is_ascii c \<Longrightarrow> lower_byte c = c"
  "is_ascii c \<Longrightarrow> is_ascii (lower_byte c)"
  "lower_byte c \<in> set ascii_spaces \<Longrightarrow> lower_byte c = c"
  by (auto simp: char_eq_nat is_ascii_of_char lower_byte_of_char is_upper_byte_def ascii_space_nat
      split: if_splits)

lemma upper_byte_ok:
  "\<not> is_ascii c \<Longrightarrow> upper_byte c = c"
  "is_ascii c \<Longrightarrow> is_ascii (upper_byte c)"
  "upper_byte c \<in> set ascii_spaces \<Longrightarrow> upper_byte c = c"
  by (auto simp: char_eq_nat is_ascii_of_char upper_byte_of_char is_lower_byte_def ascii_space_nat
      split: if_splits)

lemma case_ok_lower: "case_ok lower_wide lower_byte"
  by (simp add: case_ok_def lower_byte_idem lower_byte_ok)
     (simp add: lower_wide_def solid_def is_ascii_def ascii_spaces_def lower_byte_def is_upper_byte_def)

lemma case_ok_fold: "case_ok fold_wide lower_byte"
  by (simp add: case_ok_def lower_byte_idem lower_byte_ok)
     (simp add: fold_wide_def solid_def is_ascii_def ascii_spaces_def lower_byte_def is_upper_byte_def)

lemma case_ok_upper: "case_ok upper_wide upper_byte"
  by (simp add: case_ok_def upper_byte_idem upper_byte_ok)
     (simp add: upper_wide_def solid_def is_ascii_def ascii_spaces_def upper_byte_def is_lower_byte_def)

subsection \<open>What a case mapping keeps\<close>

definition non_ascii :: "string \<Rightarrow> bool" where
  "non_ascii p \<longleftrightarrow> list_all (\<lambda>c. \<not> is_ascii c) p"

lemma case_okD:
  assumes "case_ok wide f"
  shows "(p, d) \<in> set wide \<Longrightarrow> non_ascii p" "(p, d) \<in> set wide \<Longrightarrow> solid d"
    "(p, d) \<in> set wide \<Longrightarrow> f d = d" "\<not> is_ascii c \<Longrightarrow> f c = c" "is_ascii c \<Longrightarrow> is_ascii (f c)"
    "f (f c) = f c" "f c \<in> set ascii_spaces \<Longrightarrow> f c = c"
  using assms unfolding case_ok_def non_ascii_def by fast+

text \<open>A step of the mapping, by the two ways a byte is consumed.\<close>

lemma map_case_cases:
  assumes "s \<noteq> []"
  obtains (wide) p d r where "(p, d) \<in> set wide" "p \<noteq> []" "s = p @ r"
      "map_case wide f s = d # map_case wide f r"
  | (byte) c r where "s = c # r" "find (\<lambda>(p, d). p \<noteq> [] \<and> prefix p s) wide = None"
      "map_case wide f s = f c # map_case wide f r"
proof -
  obtain c r where s: "s = c # r" using assms by (cases s) auto
  show thesis
  proof (cases "find (\<lambda>(p, d). p \<noteq> [] \<and> prefix p s) wide")
    case None
    then show thesis using byte [OF s] s by simp
  next
    case (Some pd)
    obtain p d where pd: "pd = (p, d)" by (cases pd)
    from Some have "(p, d) \<in> set wide" and "p \<noteq> []" and "prefix p s"
      unfolding pd by (auto simp: find_Some_iff) (metis nth_mem)
    then show thesis
      using wide [of p d "drop (length p) s"] Some s pd by (auto simp: prefix_def)
  qed
qed

lemma map_case_length: "length (map_case wide f s) \<le> length s"
proof (induction s rule: length_induct)
  case (1 s)
  show ?case
  proof (cases "s = []")
    case False
    then show ?thesis
    proof (cases rule: map_case_cases [of s wide f])
      case (wide p d r)
      then have "length r < length s" by (cases p) auto
      with 1 [rule_format, of r] wide show ?thesis by (cases p) simp_all
    next
      case (byte c r)
      with 1 [rule_format, of r] show ?thesis by simp
    qed
  qed simp
qed

lemma map_case_Nil_iff [simp]: "map_case wide f s = [] \<longleftrightarrow> s = []"
  by (cases "s = []") (simp, erule map_case_cases [of s wide f], simp_all)

lemma map_case_prefix_non_ascii:
  assumes ok: "case_ok wide f"
  shows "non_ascii q \<Longrightarrow> prefix q (map_case wide f s) \<Longrightarrow> prefix q s"
proof (induction q arbitrary: s)
  case (Cons b q)
  then have "s \<noteq> []" by auto
  then show ?case
  proof (cases rule: map_case_cases [of s wide f])
    case (wide p d r)
    with Cons.prems case_okD(2) [OF ok] show ?thesis by (auto simp: non_ascii_def solid_def)
  next
    case (byte c r)
    with Cons.prems have b: "b = f c" "\<not> is_ascii b" "prefix q (map_case wide f r)"
      by (auto simp: non_ascii_def)
    have "\<not> is_ascii c" using b case_okD(5) [OF ok, of c] by blast
    then have "f c = c" by (rule case_okD(4) [OF ok])
    moreover have "prefix q r" using Cons.IH Cons.prems(1) b(3) by (simp add: non_ascii_def)
    ultimately show ?thesis using b(1) byte(1) by simp
  qed
qed simp

lemma map_case_idem:
  assumes ok: "case_ok wide f"
  shows "map_case wide f (map_case wide f s) = map_case wide f s"
proof (induction s rule: length_induct)
  case (1 s)
  show ?case
  proof (cases "s = []")
    case False
    let ?m = "map_case wide f"
    have none: "find (\<lambda>(p, d). p \<noteq> [] \<and> prefix p (?m s)) wide = None"
    proof (rule ccontr)
      assume "\<not> ?thesis"
      then obtain p d where pd: "(p, d) \<in> set wide" "p \<noteq> []" "prefix p (?m s)"
        by (auto simp: find_None_iff)
      then have na: "non_ascii p" and pre: "prefix p s"
        using case_okD(1) [OF ok] map_case_prefix_non_ascii [OF ok] by blast+
      from False show False
      proof (cases rule: map_case_cases [of s wide f])
        case (wide p' d' r)
        with pd na case_okD(2) [OF ok] show False
          by (cases p) (auto simp: non_ascii_def solid_def)
      next
        case (byte c r)
        with pd pre show False by (auto simp: find_None_iff)
      qed
    qed
    from False show ?thesis
    proof (cases rule: map_case_cases [of s wide f])
      case (wide p d r)
      then have "length r < length s" by (cases p) auto
      with 1 have "?m (?m r) = ?m r" by blast
      with none wide case_okD(3) [OF ok] show ?thesis by simp
    next
      case (byte c r)
      with 1 have "?m (?m r) = ?m r" by simp
      with none byte case_okD(6) [OF ok] show ?thesis by simp
    qed
  qed simp
qed

lemma ToLower_idem [simp]: "ToLower (ToLower s) = ToLower s"
  by (simp add: ToLower_def map_case_idem [OF case_ok_lower])

lemma ToUpper_idem [simp]: "ToUpper (ToUpper s) = ToUpper s"
  by (simp add: ToUpper_def map_case_idem [OF case_ok_upper])

lemma ToLower_Nil [simp]: "ToLower [] = []"
  by (simp add: ToLower_def)

lemma ToUpper_Nil [simp]: "ToUpper [] = []"
  by (simp add: ToUpper_def)

lemma EqualFold_refl [simp]: "EqualFold s s"
  by (simp add: EqualFold_def)

lemma map_case_all_non_ascii:
  assumes ok: "case_ok wide f"
  shows "non_ascii (map_case wide f s) \<Longrightarrow> map_case wide f s = s"
proof (induction s rule: length_induct)
  case (1 s)
  show ?case
  proof (cases "s = []")
    case False
    then show ?thesis
    proof (cases rule: map_case_cases [of s wide f])
      case (wide p d r)
      with 1(2) case_okD(2) [OF ok] show ?thesis by (auto simp: non_ascii_def solid_def)
    next
      case (byte c r)
      with 1(2) have "\<not> is_ascii (f c)" and "non_ascii (map_case wide f r)"
        by (auto simp: non_ascii_def)
      with 1(1) byte case_okD(4,5) [OF ok] show ?thesis by (metis lessI length_Cons)
    qed
  qed simp
qed

text \<open>A mapped string ends in an encoding only where the string itself does.\<close>

lemma map_case_suffix_non_ascii:
  assumes ok: "case_ok wide f" and "non_ascii q"
  shows "suffix q (map_case wide f s) \<Longrightarrow> suffix q s"
proof (induction s rule: length_induct)
  case (1 s)
  show ?case
  proof (cases "s = []")
    case False
    then show ?thesis
    proof (cases rule: map_case_cases [of s wide f])
      case (wide p d r)
      then have "length r < length s" by (cases p) auto
      have "q \<noteq> d # map_case wide f r"
        using assms(2) case_okD(2) [OF ok wide(1)] by (auto simp: non_ascii_def solid_def)
      with 1 wide \<open>length r < length s\<close> have "suffix q r" by (simp add: suffix_Cons)
      with wide show ?thesis by (simp add: suffix_appendI)
    next
      case (byte c r)
      show ?thesis
      proof (cases "q = f c # map_case wide f r")
        case True
        with assms(2) byte(3) have "non_ascii (map_case wide f s)" by simp
        then have "map_case wide f s = s" by (rule map_case_all_non_ascii [OF ok])
        with True byte(3) show ?thesis by simp
      next
        case False
        with 1 byte have "suffix q r" by (simp add: suffix_Cons)
        with byte show ?thesis by (simp add: suffix_ConsI)
      qed
    qed
  qed (use 1 in simp)
qed

lemma map_case_hd:
  assumes ok: "case_ok wide f" and "s \<noteq> []" and "hd (map_case wide f s) \<in> set ascii_spaces"
  shows "hd s = hd (map_case wide f s)"
  using assms(2)
proof (cases rule: map_case_cases [of s wide f])
  case (wide p d r)
  with assms(3) case_okD(2) [OF ok] show ?thesis by (auto simp: solid_def)
next
  case (byte c r)
  with assms(3) case_okD(7) [OF ok, of c] show ?thesis by simp
qed

lemma map_case_last:
  assumes ok: "case_ok wide f"
  shows "s \<noteq> [] \<Longrightarrow> last (map_case wide f s) \<in> set ascii_spaces \<Longrightarrow> last s = last (map_case wide f s)"
proof (induction s rule: length_induct)
  case (1 s)
  from 1(2) show ?case
  proof (cases rule: map_case_cases [of s wide f])
    case (wide p d r)
    then have "length r < length s" by (cases p) auto
    with 1 wide case_okD(2) [OF ok] show ?thesis by (cases "r = []") (auto simp: solid_def)
  next
    case (byte c r)
    with 1 case_okD(7) [OF ok, of c] show ?thesis by (cases "r = []") auto
  qed
qed

lemma strip_one_non_ascii:
  assumes "list_all non_ascii ps" and "\<And>q. non_ascii q \<Longrightarrow> prefix q t \<Longrightarrow> prefix q s"
    and "strip_one ps s = None"
  shows "strip_one ps t = None"
  using assms(1,3) by (induction ps) (auto split: if_splits dest: assms(2))

lemma spaces_non_ascii: "list_all non_ascii wide_spaces" "list_all non_ascii (map rev wide_spaces)"
  by (simp_all add: wide_spaces_def non_ascii_def is_ascii_def)

lemma strip_lead_transfer:
  assumes "list_all non_ascii ps" and "strip_lead ps s = None"
    and "\<And>q. non_ascii q \<Longrightarrow> prefix q t \<Longrightarrow> prefix q s" and "s = [] \<Longrightarrow> t = []"
    and "t \<noteq> [] \<Longrightarrow> hd t \<in> set ascii_spaces \<Longrightarrow> hd s = hd t"
  shows "strip_lead ps t = None"
proof (cases t)
  case (Cons b t')
  show ?thesis
  proof (cases "is_ascii b")
    case True
    have "b \<notin> set ascii_spaces"
    proof
      assume "b \<in> set ascii_spaces"
      with assms Cons have "s \<noteq> []" and "hd s = b" by auto
      with assms(2) True \<open>b \<in> set ascii_spaces\<close> show False
        by (cases s) (auto simp: strip_lead_def)
    qed
    with Cons True show ?thesis by (simp add: strip_lead_def)
  next
    case False
    have "prefix [b] s" using assms(3) [of "[b]"] False Cons by (simp add: non_ascii_def)
    then have "strip_one ps s = None"
      using assms(2) False by (cases s) (auto simp: strip_lead_def)
    then have "strip_one ps t = None"
      using strip_one_non_ascii [of ps t s] assms(1,3) by blast
    with Cons False show ?thesis by (simp add: strip_lead_def)
  qed
qed (simp add: strip_lead_def)

lemma TrimSpace_fix:
  "TrimSpace s = s \<longleftrightarrow> strip_lead wide_spaces s = None \<and> strip_lead (map rev wide_spaces) (rev s) = None"
proof
  assume eq: "TrimSpace s = s"
  have "strip_lead wide_spaces s = None"
    using TrimLeftSpace_TrimSpace [of s] strip_trim_lead [of wide_spaces s] eq
    by (simp add: TrimLeftSpace_def)
  moreover have "strip_lead (map rev wide_spaces) (rev s) = None"
    using eq strip_trim_lead [of "map rev wide_spaces" "rev (TrimLeftSpace s)"]
    by (metis TrimRightSpace_def TrimSpace_def rev_swap)
  ultimately show "strip_lead wide_spaces s = None \<and> strip_lead (map rev wide_spaces) (rev s) = None" ..
next
  assume "strip_lead wide_spaces s = None \<and> strip_lead (map rev wide_spaces) (rev s) = None"
  then show "TrimSpace s = s"
    by (simp add: TrimSpace_def TrimLeftSpace_def TrimRightSpace_def trim_lead_fix)
qed

lemma TrimSpace_map_case:
  assumes ok: "case_ok wide f" and "TrimSpace s = s"
  shows "TrimSpace (map_case wide f s) = map_case wide f s"
proof -
  let ?t = "map_case wide f s"
  from assms(2) have "strip_lead wide_spaces s = None"
    and "strip_lead (map rev wide_spaces) (rev s) = None"
    by (simp_all add: TrimSpace_fix)
  moreover have "strip_lead wide_spaces ?t = None" if "strip_lead wide_spaces s = None"
    using that map_case_hd [OF ok, of s]
    by (intro strip_lead_transfer [OF spaces_non_ascii(1), of s ?t])
       (auto intro: map_case_prefix_non_ascii [OF ok])
  moreover have "strip_lead (map rev wide_spaces) (rev s) = None \<Longrightarrow>
      strip_lead (map rev wide_spaces) (rev ?t) = None"
  proof (rule strip_lead_transfer [OF spaces_non_ascii(2)])
    fix q assume "non_ascii q" and "prefix q (rev ?t)"
    then have "non_ascii (rev q)" and "suffix (rev q) ?t"
      by (simp_all add: non_ascii_def suffix_to_prefix)
    then show "prefix q (rev s)"
      using map_case_suffix_non_ascii [OF ok] by (fastforce simp: suffix_to_prefix)
  qed (auto simp: hd_rev intro: map_case_last [OF ok])
  ultimately show ?thesis by (simp add: TrimSpace_fix)
qed

lemma TrimSpace_ToLower [simp]: "TrimSpace (ToLower (TrimSpace s)) = ToLower (TrimSpace s)"
  unfolding ToLower_def by (rule TrimSpace_map_case [OF case_ok_lower TrimSpace_idem])

section \<open>Bounding\<close>

text \<open>\<open>s[:n]\<close> for a length in range.\<close>

definition upto_len :: "nat \<Rightarrow> string \<Rightarrow> string" where
  "upto_len n s = take n s"

section \<open>When trimming removes everything\<close>

lemma strip_one_suffix: "strip_one ps s = Some r \<Longrightarrow> \<exists>p \<in> set ps. p \<noteq> [] \<and> s = p @ r"
  by (induction ps) (auto split: if_splits simp: prefix_def)

lemma strip_lead_unit:
  assumes "strip_lead W s = Some r"
  shows "\<exists>p. s = p @ r \<and> p \<noteq> [] \<and> (p \<in> set W \<or> (\<exists>c. p = [c] \<and> is_ascii c \<and> c \<in> set ascii_spaces))"
  using assms strip_one_suffix [of W s r] by (auto simp: strip_lead_def split: list.splits if_splits)

lemma trim_lead_Nil_unit:
  "trim_lead W u = [] \<Longrightarrow> u \<noteq> [] \<Longrightarrow>
   \<exists>p. suffix p u \<and> p \<noteq> [] \<and> (p \<in> set W \<or> (\<exists>c. p = [c] \<and> is_ascii c \<and> c \<in> set ascii_spaces))"
proof (induction W u rule: trim_lead.induct)
  case (1 W u)
  show ?case
  proof (cases "strip_lead W u")
    case None
    with 1 show ?thesis by (simp add: trim_lead_fix)
  next
    case (Some r)
    from strip_lead_unit [OF Some] obtain p where p: "u = p @ r" "p \<noteq> []"
      "p \<in> set W \<or> (\<exists>c. p = [c] \<and> is_ascii c \<and> c \<in> set ascii_spaces)" by blast
    show ?thesis
    proof (cases "r = []")
      case True
      with p show ?thesis by (intro exI [of _ p]) auto
    next
      case False
      have "trim_lead W r = []" using "1.prems"(1) Some by (subst (asm) trim_lead.simps) simp
      from "1.IH" [OF Some this False] obtain q where q: "suffix q r" "q \<noteq> []"
        "q \<in> set W \<or> (\<exists>c. q = [c] \<and> is_ascii c \<and> c \<in> set ascii_spaces)" by blast
      from q(1) have "suffix q u" unfolding p(1) by (rule suffix_appendI)
      with q(2,3) show ?thesis by blast
    qed
  qed
qed

lemma strip_one_member: "p \<in> set ps \<Longrightarrow> p \<noteq> [] \<Longrightarrow> strip_one ps (p @ x) \<noteq> None"
  by (induction ps) auto

lemma TrimRightSpace_not_Nil:
  assumes "t \<noteq> []" and "strip_lead wide_spaces t = None"
  shows "TrimRightSpace t \<noteq> []"
proof
  assume "TrimRightSpace t = []"
  then have "trim_lead (map rev wide_spaces) (rev t) = []" by (simp add: TrimRightSpace_def)
  from trim_lead_Nil_unit [OF this] assms(1) obtain p where p: "suffix p (rev t)" "p \<noteq> []"
    "p \<in> set (map rev wide_spaces) \<or> (\<exists>c. p = [c] \<and> is_ascii c \<and> c \<in> set ascii_spaces)"
    by auto
  obtain x where t: "t = rev p @ x" using p(1) by (metis prefix_def rev_rev_ident suffix_to_prefix)
  from p(3) show False
  proof
    assume "p \<in> set (map rev wide_spaces)"
    then have w: "rev p \<in> set wide_spaces" by auto
    then have "non_ascii (rev p)" using spaces_non_ascii(1) by (simp add: list_all_iff)
    with p(2) have "\<not> is_ascii (hd t)" "t \<noteq> []" unfolding t by (cases "rev p"; auto simp: non_ascii_def)+
    with assms(2) have "strip_one wide_spaces t = None" by (cases t) (auto simp: strip_lead_def)
    with strip_one_member [OF w, of x] p(2) t show False by simp
  next
    assume "\<exists>c. p = [c] \<and> is_ascii c \<and> c \<in> set ascii_spaces"
    with t assms(2) show False by (auto simp: strip_lead_def)
  qed
qed

lemma TrimSpace_prefix_not_Nil:
  assumes "TrimSpace s \<noteq> []" and "prefix r (TrimSpace s)" and "r \<noteq> []"
  shows "TrimSpace r \<noteq> []"
proof -
  have "strip_lead wide_spaces (TrimSpace s) = None"
    using TrimSpace_idem [of s] by (simp only: TrimSpace_fix)
  then have r: "strip_lead wide_spaces r = None" using assms(2) by (rule strip_lead_prefix_None)
  then have "TrimSpace r = TrimRightSpace r"
    by (simp add: TrimSpace_def TrimLeftSpace_def trim_lead_fix)
  with TrimRightSpace_not_Nil [OF assms(3) r] show ?thesis by simp
qed

section \<open>Replacing\<close>

text \<open>\<open>strings.ReplaceAll\<close> for a non-empty pattern: left to right, without overlaps.\<close>

function ReplaceAll :: "string \<Rightarrow> string \<Rightarrow> string \<Rightarrow> string" where
  "ReplaceAll old new [] = []"
| "ReplaceAll old new (c # s) =
     (if old \<noteq> [] \<and> prefix old (c # s)
      then new @ ReplaceAll old new (drop (length old) (c # s))
      else c # ReplaceAll old new s)"
  by pat_completeness auto
termination
proof (relation "measure (\<lambda>(old, new, s). length s)", goal_cases)
  case (2 old new c s)
  then show ?case by (cases old) auto
qed auto

lemma ReplaceAll_char: "ReplaceAll [a] [b] s = map (\<lambda>c. if c = a then b else c) s"
  by (induction s) auto

lemma ReplaceAll_delete: "ReplaceAll [a] [] s = filter (\<lambda>c. c \<noteq> a) s"
  by (induction s) auto

definition trim_char :: "char \<Rightarrow> string \<Rightarrow> string" where
  "trim_char a s = rev (dropWhile (\<lambda>c. c = a) (rev (dropWhile (\<lambda>c. c = a) s)))"

definition ContainsAny :: "string \<Rightarrow> string \<Rightarrow> bool" where
  "ContainsAny s chars = list_ex (\<lambda>c. c \<in> set chars) s"

end
