(* ===== verification/Breaker.thy ===== *)
theory Breaker
  imports GoStrings
begin

text \<open>
  The circuit breaker of \<open>pkg/execution/breaker.go\<close>. Every method holds the breaker's mutex
  for its whole body, so a concurrent history is a sequence of method calls; each call takes
  the instants it reads from the clock as arguments.
\<close>

datatype BreakerState = BREAKER_CLOSED | BREAKER_OPEN | BREAKER_HALF_OPEN

record CircuitBreaker =
  cb_Name :: string
  cb_FailureThreshold :: int
  cb_SuccessThreshold :: int
  cb_Cooldown :: duration
  cb_Window :: duration
  cb_state :: BreakerState
  cb_failureCount :: int
  cb_successCount :: int
  cb_openedAt :: instant
  cb_lastReason :: string
  cb_lastFailureAt :: instant

definition NewCircuitBreaker :: "string \<Rightarrow> int \<Rightarrow> duration \<Rightarrow> CircuitBreaker" where
  "NewCircuitBreaker name failureThreshold cooldown =
     \<lparr>cb_Name = name,
      cb_FailureThreshold = (if failureThreshold \<le> 0 then 1 else failureThreshold),
      cb_SuccessThreshold = 1, cb_Cooldown = cooldown, cb_Window = 0,
      cb_state = BREAKER_CLOSED, cb_failureCount = 0, cb_successCount = 0,
      cb_openedAt = 0, cb_lastReason = [], cb_lastFailureAt = 0\<rparr>"

definition Allow :: "instant \<Rightarrow> CircuitBreaker \<Rightarrow> bool \<times> CircuitBreaker" where
  "Allow now b =
     (if cb_state b = BREAKER_CLOSED then (True, b)
      else if cb_state b = BREAKER_OPEN then
        (if cb_Cooldown b \<le> 0 \<or> now - cb_openedAt b \<ge> cb_Cooldown b
         then (True, b\<lparr>cb_state := BREAKER_HALF_OPEN, cb_successCount := 0\<rparr>)
         else (False, b))
      else (True, b))"

definition RecordSuccess :: "CircuitBreaker \<Rightarrow> CircuitBreaker" where
  "RecordSuccess b =
     (case cb_state b of
        BREAKER_CLOSED \<Rightarrow> b\<lparr>cb_failureCount := 0\<rparr>
      | BREAKER_HALF_OPEN \<Rightarrow>
          (let b' = b\<lparr>cb_successCount := cb_successCount b + 1\<rparr>
           in if cb_successCount b' \<ge> max 1 (cb_SuccessThreshold b')
              then b'\<lparr>cb_state := BREAKER_CLOSED, cb_failureCount := 0, cb_successCount := 0\<rparr>
              else b')
      | BREAKER_OPEN \<Rightarrow> b)"

text \<open>The clock is read twice: for \<open>lastFailureAt\<close> and then for \<open>openedAt\<close>.\<close>

definition RecordFailure :: "string \<Rightarrow> instant \<Rightarrow> instant \<Rightarrow> CircuitBreaker \<Rightarrow> CircuitBreaker" where
  "RecordFailure reason now now' b0 =
     (let b = b0\<lparr>cb_lastReason := reason, cb_lastFailureAt := now\<rparr>
      in case cb_state b of
           BREAKER_CLOSED \<Rightarrow>
             (let b1 = b\<lparr>cb_failureCount := cb_failureCount b + 1\<rparr>
              in if cb_failureCount b1 \<ge> max 1 (cb_FailureThreshold b1)
                 then b1\<lparr>cb_state := BREAKER_OPEN, cb_openedAt := now', cb_successCount := 0\<rparr>
                 else b1)
         | BREAKER_HALF_OPEN \<Rightarrow>
             b\<lparr>cb_state := BREAKER_OPEN, cb_openedAt := now', cb_successCount := 0,
               cb_failureCount := max 1 (cb_FailureThreshold b)\<rparr>
         | BREAKER_OPEN \<Rightarrow> b\<lparr>cb_openedAt := now'\<rparr>)"

definition State :: "CircuitBreaker \<Rightarrow> BreakerState" where
  "State b = cb_state b"

definition LastReason :: "CircuitBreaker \<Rightarrow> string" where
  "LastReason b = cb_lastReason b"

record BreakerSet =
  bs_VCSE :: "CircuitBreaker option"
  bs_Provider :: "CircuitBreaker option"
  bs_Tool :: "CircuitBreaker option"
  bs_Puter :: "CircuitBreaker option"
  bs_Search :: "CircuitBreaker option"
  bs_Subagent :: "CircuitBreaker option"

definition NewDefaultBreakerSet :: BreakerSet where
  "NewDefaultBreakerSet =
     \<lparr>bs_VCSE = Some (NewCircuitBreaker ''vcse'' 3 (2 * Minute)),
      bs_Provider = Some (NewCircuitBreaker ''provider'' 3 (1 * Minute)),
      bs_Tool = Some (NewCircuitBreaker ''tool'' 3 (1 * Minute)),
      bs_Puter = Some (NewCircuitBreaker ''puter'' 3 (2 * Minute)),
      bs_Search = Some (NewCircuitBreaker ''search'' 3 (1 * Minute)),
      bs_Subagent = Some (NewCircuitBreaker ''subagent'' 2 (2 * Minute))\<rparr>"

section \<open>Runs\<close>

datatype breaker_op = OpAllow instant | OpSuccess | OpFailure string instant instant

fun breaker_exec :: "breaker_op \<Rightarrow> CircuitBreaker \<Rightarrow> CircuitBreaker" where
  "breaker_exec (OpAllow t) b = snd (Allow t b)"
| "breaker_exec OpSuccess b = RecordSuccess b"
| "breaker_exec (OpFailure r t t') b = RecordFailure r t t' b"

text \<open>The answers that the \<open>Allow\<close> calls of a run return.\<close>

fun breaker_answers :: "breaker_op list \<Rightarrow> CircuitBreaker \<Rightarrow> bool list" where
  "breaker_answers [] b = []"
| "breaker_answers (OpAllow t # xs) b = fst (Allow t b) # breaker_answers xs (snd (Allow t b))"
| "breaker_answers (x # xs) b = breaker_answers xs (breaker_exec x b)"

text \<open>
  The invariant: thresholds are positive; the success counter is 0 between calls; a closed
  breaker has seen fewer consecutive failures than its threshold, any other one exactly as
  many.
\<close>

definition breaker_wf :: "CircuitBreaker \<Rightarrow> bool" where
  "breaker_wf b \<longleftrightarrow>
     1 \<le> cb_FailureThreshold b \<and> cb_SuccessThreshold b = 1 \<and> cb_successCount b = 0 \<and>
     0 \<le> cb_failureCount b \<and>
     (if cb_state b = BREAKER_CLOSED then cb_failureCount b < cb_FailureThreshold b
      else cb_failureCount b = cb_FailureThreshold b)"

lemmas breaker_defs = Allow_def RecordSuccess_def RecordFailure_def Let_def

lemma breaker_wf_New: "breaker_wf (NewCircuitBreaker n k c)"
  by (simp add: breaker_wf_def NewCircuitBreaker_def)

lemma breaker_wf_exec: "breaker_wf b \<Longrightarrow> breaker_wf (breaker_exec x b)"
  by (cases x) (auto simp: breaker_wf_def breaker_defs split: BreakerState.splits)

interpretation breaker: op_machine "NewCircuitBreaker n k c" breaker_exec breaker_wf
  by unfold_locales (auto intro: breaker_wf_New breaker_wf_exec)

section \<open>The contract of a call guard\<close>

text \<open>
  What a client that guards calls to a dependency relies on: while the guard cools down it
  denies the call and changes nothing, otherwise it admits the call.
\<close>

locale call_guard =
  fixes admit :: "instant \<Rightarrow> 'g \<Rightarrow> bool \<times> 'g"
    and cooling :: "'g \<Rightarrow> instant \<Rightarrow> bool"
  assumes cooling_denies: "cooling g t \<Longrightarrow> admit t g = (False, g)"
    and warm_admits: "\<not> cooling g t \<Longrightarrow> fst (admit t g)"
begin

lemma admit_iff: "fst (admit t g) \<longleftrightarrow> \<not> cooling g t"
  using cooling_denies warm_admits by (metis fst_conv)

lemma denied_unchanged: "\<not> fst (admit t g) \<Longrightarrow> snd (admit t g) = g"
  using cooling_denies warm_admits by (metis snd_conv)

end

definition breaker_cooling :: "CircuitBreaker \<Rightarrow> instant \<Rightarrow> bool" where
  "breaker_cooling b t \<longleftrightarrow> cb_state b = BREAKER_OPEN \<and> 0 < cb_Cooldown b \<and> t < cb_openedAt b + cb_Cooldown b"

interpretation guard: call_guard Allow breaker_cooling
  by unfold_locales (auto simp: breaker_cooling_def Allow_def)

section \<open>Properties\<close>

lemma failures_from_closed:
  assumes "cb_state b = BREAKER_CLOSED" and "cb_FailureThreshold b \<ge> 1"
    and "int (length fs) + cb_failureCount b < cb_FailureThreshold b"
  shows "cb_state (fold (\<lambda>(r, t, t'). RecordFailure r t t') fs b) = BREAKER_CLOSED \<and>
    cb_failureCount (fold (\<lambda>(r, t, t'). RecordFailure r t t') fs b) = cb_failureCount b + int (length fs)"
  using assms by (induction fs arbitrary: b) (auto simp: RecordFailure_def Let_def)

lemma failure_keeps_open:
  "cb_state b = BREAKER_OPEN \<Longrightarrow>
   cb_state (fold (\<lambda>(r, t, t'). RecordFailure r t t') fs b) = BREAKER_OPEN"
  by (induction fs arbitrary: b) (auto simp: RecordFailure_def Let_def)

lemma failures_trip_closed:
  assumes "cb_state b = BREAKER_CLOSED" and "cb_FailureThreshold b \<ge> 1"
    and "int (length fs) + cb_failureCount b \<ge> cb_FailureThreshold b"
    and "cb_failureCount b < cb_FailureThreshold b"
  shows "cb_state (fold (\<lambda>(r, t, t'). RecordFailure r t t') fs b) = BREAKER_OPEN"
  using assms
proof (induction fs arbitrary: b)
  case (Cons f fs)
  obtain r t t' where f: "f = (r, t, t')" by (cases f)
  let ?b = "RecordFailure r t t' b"
  show ?case
  proof (cases "cb_failureCount b + 1 \<ge> cb_FailureThreshold b")
    case True
    then have "cb_state ?b = BREAKER_OPEN" using Cons.prems by (simp add: RecordFailure_def Let_def)
    then show ?thesis by (simp add: f failure_keeps_open)
  next
    case False
    then have "cb_state ?b = BREAKER_CLOSED" "cb_FailureThreshold ?b = cb_FailureThreshold b"
      "cb_failureCount ?b = cb_failureCount b + 1"
      using Cons.prems by (simp_all add: RecordFailure_def Let_def)
    with Cons.IH [of ?b] Cons.prems False show ?thesis by (simp add: f)
  qed
qed simp

text \<open>
  Whatever sequence of calls a breaker built by \<open>NewCircuitBreaker\<close> receives, its
  invariant holds: it is closed exactly while it has counted fewer consecutive failures than
  its threshold, and the half-open success counter never survives a call.
\<close>

theorem breaker_invariant:
  "breaker_wf (fold breaker_exec xs (NewCircuitBreaker name failureThreshold cooldown))"
  by (rule breaker.good_run)

text \<open>
  A fresh breaker trips after exactly its threshold of failures (a threshold below 1
  counts as 1), never earlier and never later.
\<close>

theorem breaker_trips_at_threshold:
  "cb_state (fold (\<lambda>(r, t, t'). RecordFailure r t t') fs (NewCircuitBreaker name k cooldown))
     = BREAKER_OPEN \<longleftrightarrow> max 1 k \<le> int (length fs)"
proof (cases "max 1 k \<le> int (length fs)")
  case True
  then show ?thesis
    by (subst failures_trip_closed) (auto simp: NewCircuitBreaker_def)
next
  case False
  then have "cb_state (fold (\<lambda>(r, t, t'). RecordFailure r t t') fs (NewCircuitBreaker name k cooldown))
      = BREAKER_CLOSED"
    by (intro conjunct1 [OF failures_from_closed]) (auto simp: NewCircuitBreaker_def not_le split: if_splits)
  with False show ?thesis by simp
qed

lemma open_answers_false:
  assumes "cb_state b = BREAKER_OPEN" "0 < cb_Cooldown b" "d \<le> cb_openedAt b + cb_Cooldown b"
    and "\<And>t. OpAllow t \<in> set xs \<Longrightarrow> t < d"
    and "\<And>r t t'. OpFailure r t t' \<in> set xs \<Longrightarrow> d \<le> t' + cb_Cooldown b"
  shows "cb_state (fold breaker_exec xs b) = BREAKER_OPEN \<and> True \<notin> set (breaker_answers xs b)"
  using assms
proof (induction xs arbitrary: b)
  case (Cons x xs)
  show ?case
  proof (cases x)
    case (OpAllow t)
    with Cons.prems have "breaker_cooling b t" by (fastforce simp: breaker_cooling_def)
    then have "Allow t b = (False, b)" by (rule guard.cooling_denies)
    with OpAllow Cons.IH [of b] Cons.prems show ?thesis by simp
  next
    case OpSuccess
    with Cons.IH [of b] Cons.prems show ?thesis by (simp add: RecordSuccess_def)
  next
    case (OpFailure r t t')
    let ?b = "RecordFailure r t t' b"
    have "cb_state ?b = BREAKER_OPEN" "cb_Cooldown ?b = cb_Cooldown b" "cb_openedAt ?b = t'"
      using Cons.prems(1) by (simp_all add: RecordFailure_def Let_def)
    moreover have "d \<le> t' + cb_Cooldown b" using Cons.prems(5) [of r t t'] OpFailure by simp
    ultimately have "cb_state (fold breaker_exec xs ?b) = BREAKER_OPEN \<and>
        True \<notin> set (breaker_answers xs ?b)"
      using Cons.prems(2,4,5) by (intro Cons.IH) auto
    with OpFailure show ?thesis by simp
  qed
qed simp

text \<open>
  From the moment a breaker with a positive cooldown opens until the cooldown has elapsed,
  no interleaving of \<open>Allow\<close>, \<open>RecordSuccess\<close> and \<open>RecordFailure\<close> calls (with a
  clock that does not run backwards) admits a call or leaves the open state.
\<close>

theorem breaker_denies_during_cooldown:
  assumes "cb_state b = BREAKER_OPEN" and "0 < cb_Cooldown b"
    and "\<forall>x \<in> set xs. case x of OpAllow t \<Rightarrow> t < cb_openedAt b + cb_Cooldown b
       | OpSuccess \<Rightarrow> True | OpFailure r t t' \<Rightarrow> cb_openedAt b \<le> t'"
  shows "cb_state (fold breaker_exec xs b) = BREAKER_OPEN \<and> True \<notin> set (breaker_answers xs b)"
proof (rule open_answers_false [OF assms(1,2) order_refl])
  show "t < cb_openedAt b + cb_Cooldown b" if "OpAllow t \<in> set xs" for t
    using assms(3) that by fastforce
  show "cb_openedAt b + cb_Cooldown b \<le> t' + cb_Cooldown b" if "OpFailure r t t' \<in> set xs" for r t t'
    using assms(3) that by fastforce
qed

definition tripped_example :: CircuitBreaker where
  "tripped_example = RecordFailure ''down'' 100 100 (NewCircuitBreaker ''vcse'' 1 50)"

lemma breaker_denies_during_cooldown_witness:
  "cb_state (fold breaker_exec [OpAllow 120, OpSuccess, OpFailure ''x'' 130 131, OpAllow 149] tripped_example)
     = BREAKER_OPEN \<and>
   True \<notin> set (breaker_answers [OpAllow 120, OpSuccess, OpFailure ''x'' 130 131, OpAllow 149] tripped_example)"
proof (rule breaker_denies_during_cooldown)
  show "cb_state tripped_example = BREAKER_OPEN" and "0 < cb_Cooldown tripped_example"
    by (simp_all add: tripped_example_def RecordFailure_def NewCircuitBreaker_def)
  show "\<forall>x \<in> set [OpAllow 120, OpSuccess, OpFailure ''x'' 130 131, OpAllow 149].
      case x of OpAllow t \<Rightarrow> t < cb_openedAt tripped_example + cb_Cooldown tripped_example
       | OpSuccess \<Rightarrow> True | OpFailure r t t' \<Rightarrow> cb_openedAt tripped_example \<le> t'"
    by (simp add: tripped_example_def RecordFailure_def NewCircuitBreaker_def)
qed

text \<open>
  Recovery: once the cooldown has elapsed, the next \<open>Allow\<close> admits a probe; a
  successful probe closes the breaker with a clean failure count, a failed one opens it again
  for a whole new cooldown.
\<close>

theorem breaker_probe:
  assumes "breaker_wf b" and "cb_state b = BREAKER_OPEN"
    and "cb_openedAt b + cb_Cooldown b \<le> now"
  shows "fst (Allow now b) \<and>
    cb_state (RecordSuccess (snd (Allow now b))) = BREAKER_CLOSED \<and>
    cb_failureCount (RecordSuccess (snd (Allow now b))) = 0 \<and>
    cb_state (RecordFailure r t t' (snd (Allow now b))) = BREAKER_OPEN \<and>
    cb_openedAt (RecordFailure r t t' (snd (Allow now b))) = t'"
proof -
  have "Allow now b = (True, b\<lparr>cb_state := BREAKER_HALF_OPEN, cb_successCount := 0\<rparr>)"
    using assms(2,3) by (simp add: Allow_def)
  then show ?thesis using assms(1) by (simp_all add: breaker_wf_def RecordSuccess_def RecordFailure_def Let_def)
qed

lemma breaker_probe_witness:
  "fst (Allow 150 tripped_example) \<and>
   cb_state (RecordSuccess (snd (Allow 150 tripped_example))) = BREAKER_CLOSED"
proof -
  have "breaker_wf tripped_example" "cb_state tripped_example = BREAKER_OPEN"
    "cb_openedAt tripped_example + cb_Cooldown tripped_example \<le> 150"
    by (simp_all add: tripped_example_def RecordFailure_def NewCircuitBreaker_def breaker_wf_def)
  from breaker_probe [OF this] show ?thesis by simp
qed

end
