(* ===== verification/GoValues.thy ===== *)
theory GoValues
  imports GoStrings
begin

text \<open>
  Dynamic values: what a \<open>map[string]any\<close> of tool parameters holds. The parameters of a tool
  call are decoded from JSON, so the values are nil, booleans, numbers, strings, slices and
  maps; \<open>[]string\<close> is the one static slice type the code looks for. A number is kept as
  its printed form, since the code only copies it. A Go map is an association list with
  distinct keys (\<open>wf_any\<close>): the list is the order in which one iteration visits it.
\<close>

datatype any =
    VNil
  | VBool bool
  | VNum string
  | VStr string
  | VStrs "string list"
  | VList "any list"
  | VMap "(string \<times> any) list"

type_synonym gomap = "(string \<times> any) list"

text \<open>A map variable: \<open>None\<close> is the nil map, which reads like an empty one.\<close>

type_synonym params = "gomap option"

fun map_get :: "params \<Rightarrow> string \<Rightarrow> any option" where
  "map_get None k = None"
| "map_get (Some m) k = map_of m k"

fun as_string :: "any option \<Rightarrow> string option" where
  "as_string (Some (VStr s)) = Some s"
| "as_string _ = None"

fun wf_any :: "any \<Rightarrow> bool" where
  "wf_any (VList xs) = (\<forall>x \<in> set xs. wf_any x)"
| "wf_any (VMap m) = (distinct (map fst m) \<and> (\<forall>(k, v) \<in> set m. wf_any v))"
| "wf_any _ = True"

definition wf_params :: "params \<Rightarrow> bool" where
  "wf_params p = (case p of None \<Rightarrow> True | Some m \<Rightarrow> wf_any (VMap m))"

lemma map_get_some_iff [simp]: "map_get (Some m) k = map_of m k"
  by simp

section \<open>Decimal numerals\<close>

fun digit_char :: "nat \<Rightarrow> char" where
  "digit_char d = ''0123456789'' ! d"

fun itoa :: "nat \<Rightarrow> string" where
  "itoa n = (if n < 10 then [digit_char n] else itoa (n div 10) @ [digit_char (n mod 10)])"

declare itoa.simps [simp del]

lemma itoa_not_Nil [simp]: "itoa n \<noteq> []"
  by (subst itoa.simps) simp

lemma digit_char_inj: "d < 10 \<Longrightarrow> e < 10 \<Longrightarrow> digit_char d = digit_char e \<longleftrightarrow> d = e"
proof -
  have "distinct ''0123456789''" by simp
  then show "d < 10 \<Longrightarrow> e < 10 \<Longrightarrow> digit_char d = digit_char e \<longleftrightarrow> d = e"
    unfolding digit_char.simps by (subst nth_eq_iff_index_eq) simp_all
qed

lemma itoa_length: "n < 10 ^ Suc k \<Longrightarrow> length (itoa n) \<le> Suc k"
proof (induction k arbitrary: n)
  case 0
  then show ?case by (subst itoa.simps) simp
next
  case (Suc k)
  then have "n div 10 < 10 ^ Suc k" by (simp add: less_mult_imp_div_less)
  then have "length (itoa (n div 10)) \<le> Suc k" by (rule Suc.IH)
  then show ?case by (subst itoa.simps) simp
qed

lemma itoa_inj: "itoa m = itoa n \<longleftrightarrow> m = n"
proof (induction m arbitrary: n rule: itoa.induct)
  case (1 m)
  have two: "length (itoa k) \<ge> 2" if "\<not> k < 10" for k
    using that itoa_not_Nil [of "k div 10"] by (subst itoa.simps) (cases "itoa (k div 10)", auto)
  have one: "length (itoa k) = 1" if "k < 10" for k
    using that by (subst itoa.simps) simp
  show ?case
  proof (cases "m < 10"; cases "n < 10")
    assume "m < 10" "n < 10"
    then show ?thesis using digit_char_inj by (simp add: itoa.simps [of m] itoa.simps [of n] del: digit_char.simps)
  next
    assume "m < 10" "\<not> n < 10"
    then show ?thesis using one [of m] two [of n] by fastforce
  next
    assume "\<not> m < 10" "n < 10"
    then show ?thesis using one [of n] two [of m] by fastforce
  next
    assume mn: "\<not> m < 10" "\<not> n < 10"
    then have "itoa m = itoa n \<longleftrightarrow> m div 10 = n div 10 \<and> m mod 10 = n mod 10"
      using "1.IH" [of "n div 10"] digit_char_inj [of "m mod 10" "n mod 10"]
      by (simp add: itoa.simps [of m] itoa.simps [of n] del: digit_char.simps)
    then show ?thesis by (metis div_mult_mod_eq)
  qed
qed

text \<open>
  \<open>strconv.Atoi\<close> on 64-bit platforms: an optional sign, then decimal digits, in the range of
  \<open>int\<close>.
\<close>

definition digit_of :: "char \<Rightarrow> nat option" where
  "digit_of c = (if 48 \<le> (of_char c :: nat) \<and> (of_char c :: nat) \<le> 57
     then Some (of_char c - 48) else None)"

fun digits_value :: "nat \<Rightarrow> string \<Rightarrow> nat option" where
  "digits_value n [] = Some n"
| "digits_value n (c # s) =
     (case digit_of c of None \<Rightarrow> None | Some d \<Rightarrow> digits_value (10 * n + d) s)"

definition Atoi :: "string \<Rightarrow> int option" where
  "Atoi s =
     (let neg = (s \<noteq> [] \<and> hd s = CHR ''-'');
          ds = (if s \<noteq> [] \<and> (hd s = CHR ''-'' \<or> hd s = CHR ''+'') then tl s else s)
      in if ds = [] then None
         else (case digits_value 0 ds of
                 None \<Rightarrow> None
               | Some n \<Rightarrow>
                   let v = (if neg then - int n else int n)
                   in if - (2 ^ 63) \<le> v \<and> v < 2 ^ 63 then Some v else None))"

section \<open>Encodings\<close>

text \<open>
  The encodings of Go's standard library that the code calls, as parameters: SHA-256 with hex
  output, \<open>json.Marshal\<close> and \<open>json.Unmarshal\<close> into a map (\<open>Inl\<close> holds the text of the error),
  a JSON string literal, and \<open>fmt\<close>'s rendering of a number.
\<close>

record Codec =
  c_Sha256Hex :: "string \<Rightarrow> string"
  c_Marshal :: "any \<Rightarrow> string option"
  c_Unmarshal :: "string \<Rightarrow> string + gomap"
  c_Quote :: "string \<Rightarrow> string"
  c_FormatNum :: "string \<Rightarrow> string"

text \<open>A concrete instance, on which the witnesses evaluate.\<close>

definition sample_codec :: Codec where
  "sample_codec = \<lparr>c_Sha256Hex = (\<lambda>s. ''00''), c_Marshal = (\<lambda>v. None), c_Unmarshal = (\<lambda>s. Inr []),
     c_Quote = (\<lambda>s. s), c_FormatNum = (\<lambda>s. s)\<rparr>"

end
