(* ===== verification/ExecBudget.thy ===== *)
theory ExecBudget
  imports GoValues
begin

text \<open>
  Time and output budgets of a turn: \<open>pkg/execution/budget.go\<close> and
  \<open>pkg/execution/timeout.go\<close>. A \<open>context.Context\<close> is represented by the deadline it
  carries, the only part of it that the budgets change.
\<close>

record ToolBudget =
  tb_DecisionTimeout :: duration
  tb_ExecutionTimeout :: duration
  tb_MaxOutputChars :: int
  tb_MaxErrorChars :: int

record ExecutionBudget =
  eb_TurnTimeout :: duration
  eb_ToolDecisionTimeout :: duration
  eb_ToolExecutionTimeout :: duration
  eb_VCSEFastTimeout :: duration
  eb_VCSEReasonTimeout :: duration
  eb_MaxToolCalls :: int
  eb_MaxRepeatedToolCalls :: int
  eb_MaxConsecutiveFailures :: int
  eb_MaxIdleDuration :: duration
  eb_MaxPlanRevisions :: int
  eb_ToolTimeouts :: "string \<rightharpoonup> ToolBudget"

definition common_budget :: "duration \<Rightarrow> duration \<Rightarrow> ToolBudget" where
  "common_budget decision execution =
     \<lparr>tb_DecisionTimeout = decision, tb_ExecutionTimeout = execution,
      tb_MaxOutputChars = 12000, tb_MaxErrorChars = 4000\<rparr>"

definition default_tool_timeouts :: "string \<rightharpoonup> ToolBudget" where
  "default_tool_timeouts =
    [''read_file'' \<mapsto> common_budget (50 * Millisecond) (1 * Second),
     ''list_directory'' \<mapsto> common_budget (50 * Millisecond) (1 * Second),
     ''write_file'' \<mapsto> common_budget (250 * Millisecond) (2 * Second),
     ''delete_file'' \<mapsto> common_budget (500 * Millisecond) (2 * Second),
     ''bash'' \<mapsto> common_budget (500 * Millisecond) (10 * Second),
     ''structured_bash'' \<mapsto> common_budget (500 * Millisecond) (10 * Second),
     ''web_fetch'' \<mapsto> common_budget (250 * Millisecond) (8 * Second),
     ''http_request'' \<mapsto> common_budget (250 * Millisecond) (8 * Second),
     ''download_file'' \<mapsto> \<lparr>tb_DecisionTimeout = 500 * Millisecond,
        tb_ExecutionTimeout = 15 * Second, tb_MaxOutputChars = 8000, tb_MaxErrorChars = 4000\<rparr>,
     ''git_commit'' \<mapsto> common_budget (500 * Millisecond) (10 * Second),
     ''git_push'' \<mapsto> common_budget (750 * Millisecond) (20 * Second),
     ''create_tool'' \<mapsto> common_budget (750 * Millisecond) (20 * Second),
     ''spawn_agent'' \<mapsto> common_budget (750 * Millisecond) (15 * Second)]"

definition DefaultBudget :: ExecutionBudget where
  "DefaultBudget =
     \<lparr>eb_TurnTimeout = 60 * Second, eb_ToolDecisionTimeout = 750 * Millisecond,
      eb_ToolExecutionTimeout = 15 * Second, eb_VCSEFastTimeout = 250 * Millisecond,
      eb_VCSEReasonTimeout = 5 * Second, eb_MaxToolCalls = 12, eb_MaxRepeatedToolCalls = 2,
      eb_MaxConsecutiveFailures = 3, eb_MaxIdleDuration = 3 * Second, eb_MaxPlanRevisions = 2,
      eb_ToolTimeouts = default_tool_timeouts\<rparr>"

definition BudgetForTool :: "ExecutionBudget \<Rightarrow> string \<Rightarrow> ToolBudget" where
  "BudgetForTool b toolName =
     (case eb_ToolTimeouts b (TrimSpace (ToLower toolName)) of
        Some tb \<Rightarrow> tb
      | None \<Rightarrow>
          \<lparr>tb_DecisionTimeout = eb_ToolDecisionTimeout b,
           tb_ExecutionTimeout = eb_ToolExecutionTimeout b,
           tb_MaxOutputChars = 12000, tb_MaxErrorChars = 4000\<rparr>)"

section \<open>Contexts\<close>

record Ctx =
  ctx_Deadline :: "instant option"

text \<open>
  \<open>context.WithCancel\<close> keeps the deadline of its parent; \<open>context.WithTimeout\<close> keeps the
  parent's when that is the earlier one.
\<close>

definition ctx_WithCancel :: "Ctx \<Rightarrow> Ctx" where
  "ctx_WithCancel c = c"

definition ctx_WithTimeout :: "instant \<Rightarrow> Ctx \<Rightarrow> duration \<Rightarrow> Ctx" where
  "ctx_WithTimeout now c d =
     (case ctx_Deadline c of
        None \<Rightarrow> c\<lparr>ctx_Deadline := Some (now + d)\<rparr>
      | Some e \<Rightarrow> c\<lparr>ctx_Deadline := Some (min e (now + d))\<rparr>)"

definition WithTurnTimeout :: "instant \<Rightarrow> ExecutionBudget \<Rightarrow> Ctx \<Rightarrow> Ctx" where
  "WithTurnTimeout now b c =
     (if eb_TurnTimeout b \<le> 0 then ctx_WithCancel c
      else ctx_WithTimeout now c (eb_TurnTimeout b))"

definition WithToolDecisionTimeout :: "instant \<Rightarrow> ExecutionBudget \<Rightarrow> Ctx \<Rightarrow> string \<Rightarrow> Ctx" where
  "WithToolDecisionTimeout now b c toolName =
     (let timeout = tb_DecisionTimeout (BudgetForTool b toolName);
          timeout = (if timeout \<le> 0 then eb_ToolDecisionTimeout b else timeout)
      in if timeout \<le> 0 then ctx_WithCancel c else ctx_WithTimeout now c timeout)"

definition WithToolExecutionTimeout :: "instant \<Rightarrow> ExecutionBudget \<Rightarrow> Ctx \<Rightarrow> string \<Rightarrow> Ctx" where
  "WithToolExecutionTimeout now b c toolName =
     (let timeout = tb_ExecutionTimeout (BudgetForTool b toolName);
          timeout = (if timeout \<le> 0 then eb_ToolExecutionTimeout b else timeout)
      in if timeout \<le> 0 then ctx_WithCancel c else ctx_WithTimeout now c timeout)"

section \<open>Output truncation\<close>

definition truncation_marker :: "nat \<Rightarrow> string" where
  "truncation_marker n = CHR 0x0A # ''...[truncated '' @ itoa n @ '' bytes]''"

definition TruncateOutput :: "string \<Rightarrow> int \<Rightarrow> string" where
  "TruncateOutput s mx =
     (if mx \<le> 0 then []
      else if int (length s) \<le> mx then s
      else take (nat mx) s @ truncation_marker (nat (int (length s) - mx)))"

section \<open>Lemmas\<close>

text \<open>A deadline is never later than the parent's, and never later than the timeout allows.\<close>

definition deadline_by :: "instant \<Rightarrow> Ctx \<Rightarrow> bool" where
  "deadline_by t c \<longleftrightarrow> (case ctx_Deadline c of None \<Rightarrow> False | Some e \<Rightarrow> e \<le> t)"

lemma WithTimeout_deadline [simp]:
  "deadline_by t (ctx_WithTimeout now c d) \<longleftrightarrow> now + d \<le> t \<or> deadline_by t c"
  by (auto simp: ctx_WithTimeout_def deadline_by_def split: option.splits)

lemma WithCancel_deadline [simp]: "deadline_by t (ctx_WithCancel c) \<longleftrightarrow> deadline_by t c"
  by (simp add: ctx_WithCancel_def)

lemma default_tool_timeouts_bounds:
  assumes "default_tool_timeouts k = Some tb"
  shows "50 * Millisecond \<le> tb_DecisionTimeout tb \<and> tb_DecisionTimeout tb \<le> 750 * Millisecond \<and>
    1 * Second \<le> tb_ExecutionTimeout tb \<and> tb_ExecutionTimeout tb \<le> 20 * Second \<and>
    tb_MaxErrorChars tb = 4000 \<and> 8000 \<le> tb_MaxOutputChars tb \<and> tb_MaxOutputChars tb \<le> 12000"
  using assms by (auto simp: default_tool_timeouts_def common_budget_def split: if_splits)

lemma BudgetForTool_bounds:
  "50 * Millisecond \<le> tb_DecisionTimeout (BudgetForTool DefaultBudget tool) \<and>
   tb_DecisionTimeout (BudgetForTool DefaultBudget tool) \<le> 750 * Millisecond \<and>
   1 * Second \<le> tb_ExecutionTimeout (BudgetForTool DefaultBudget tool) \<and>
   tb_ExecutionTimeout (BudgetForTool DefaultBudget tool) \<le> 20 * Second"
  by (auto simp: BudgetForTool_def DefaultBudget_def split: option.splits
      dest: default_tool_timeouts_bounds)

section \<open>Properties\<close>

text \<open>
  With the default budget every tool call, whatever the tool's name, gets a deadline from
  every context: at most 750 milliseconds for its decision and 20 seconds for its execution,
  both well inside the turn, and never later than a deadline the context already has.
\<close>

theorem default_budget_deadlines:
  "deadline_by (now + 750 * Millisecond) (WithToolDecisionTimeout now DefaultBudget c tool) \<and>
   deadline_by (now + 20 * Second) (WithToolExecutionTimeout now DefaultBudget c tool) \<and>
   deadline_by (now + 60 * Second) (WithTurnTimeout now DefaultBudget c) \<and>
   (deadline_by t c \<longrightarrow>
      deadline_by t (WithToolDecisionTimeout now DefaultBudget c tool) \<and>
      deadline_by t (WithToolExecutionTimeout now DefaultBudget c tool) \<and>
      deadline_by t (WithTurnTimeout now DefaultBudget c))"
  using BudgetForTool_bounds [of tool]
  by (auto simp: WithToolDecisionTimeout_def WithToolExecutionTimeout_def WithTurnTimeout_def
      Let_def DefaultBudget_def)

lemma default_budget_deadlines_witness:
  "deadline_by 5 (WithToolDecisionTimeout 0 DefaultBudget \<lparr>ctx_Deadline = Some 5\<rparr> ''bash'')"
  using default_budget_deadlines [of 0 "\<lparr>ctx_Deadline = Some 5\<rparr>" "''bash''" 5]
  by (simp add: deadline_by_def)

text \<open>
  Truncation bounds every output a Go program can hold: the result keeps the first
  \<open>max\<close> bytes in place, adds at most 41 bytes of marker, and an output that fits is
  returned unchanged.
\<close>

theorem TruncateOutput_bounds:
  assumes "int (length s) < 2 ^ 63"
  shows "int (length (TruncateOutput s mx)) \<le> max 0 mx + 41 \<and>
    take (nat mx) (TruncateOutput s mx) = take (nat mx) s \<and>
    (0 < mx \<and> int (length s) \<le> mx \<longrightarrow> TruncateOutput s mx = s)"
proof (cases "mx \<le> 0 \<or> int (length s) \<le> mx")
  case True
  then show ?thesis by (auto simp: TruncateOutput_def)
next
  case False
  let ?n = "nat (int (length s) - mx)"
  have "?n < 10 ^ Suc 18" using assms False by simp linarith
  then have "length (itoa ?n) \<le> 19" using itoa_length by fastforce
  then have "length (truncation_marker ?n) \<le> 41" by (simp add: truncation_marker_def)
  with False show ?thesis by (auto simp: TruncateOutput_def)
qed

lemma TruncateOutput_bounds_witness:
  "int (length (TruncateOutput ''governed'' 3)) \<le> 44"
  using TruncateOutput_bounds [of "''governed''" 3] by simp

end
