(* ===== verification/Watchdog.thy ===== *)
theory Watchdog
  imports ExecBudget
begin

text \<open>
  The turn watchdog of \<open>pkg/execution/watchdog.go\<close>. Every method holds the mutex for its
  whole body and reads the clock at most once, so a concurrent use is a sequence of method
  calls, each with the instant it reads.
\<close>

datatype TurnState =
    TURN_IDLE | TURN_PLANNING | TURN_DECIDING | TURN_WAITING_FOR_TOOL | TURN_EXECUTING_TOOL
  | TURN_VERIFYING | TURN_RENDERING | TURN_COMPLETE | TURN_FAILED | TURN_INTERRUPTED

record WatchdogState =
  w_state :: TurnState
  w_enteredAt :: instant
  w_turnStartedAt :: instant
  w_budget :: ExecutionBudget
  w_lastProgressAt :: instant
  w_cancelled :: bool
  w_reason :: string

definition NewWatchdog :: "instant \<Rightarrow> ExecutionBudget \<Rightarrow> WatchdogState" where
  "NewWatchdog now budget =
     \<lparr>w_state = TURN_IDLE, w_enteredAt = now, w_turnStartedAt = now, w_budget = budget,
      w_lastProgressAt = now, w_cancelled = False, w_reason = []\<rparr>"

definition Enter :: "instant \<Rightarrow> TurnState \<Rightarrow> WatchdogState \<Rightarrow> WatchdogState" where
  "Enter now st w = w\<lparr>w_state := st, w_enteredAt := now, w_lastProgressAt := now\<rparr>"

definition Progressed :: "instant \<Rightarrow> WatchdogState \<Rightarrow> WatchdogState" where
  "Progressed now w = w\<lparr>w_lastProgressAt := now\<rparr>"

definition Watchdog_State :: "WatchdogState \<Rightarrow> TurnState" where
  "Watchdog_State w = w_state w"

definition TimedOut :: "instant \<Rightarrow> WatchdogState \<Rightarrow> bool \<times> WatchdogState" where
  "TimedOut now w =
     (if eb_TurnTimeout (w_budget w) > 0 \<and> now - w_turnStartedAt w > eb_TurnTimeout (w_budget w)
      then (True, w\<lparr>w_reason := ''turn timeout exceeded''\<rparr>)
      else if eb_MaxIdleDuration (w_budget w) > 0 \<and>
              now - w_lastProgressAt w > eb_MaxIdleDuration (w_budget w)
      then (True, w\<lparr>w_reason := ''state idle timeout exceeded''\<rparr>)
      else (False, w))"

definition TimeoutReason :: "WatchdogState \<Rightarrow> string" where
  "TimeoutReason w = w_reason w"

definition Cancel :: "string \<Rightarrow> WatchdogState \<Rightarrow> WatchdogState" where
  "Cancel reason w = w\<lparr>w_cancelled := True, w_reason := reason\<rparr>"

definition Cancelled :: "WatchdogState \<Rightarrow> bool" where
  "Cancelled w = w_cancelled w"

section \<open>Histories\<close>

datatype watchdog_op =
    WEnter instant TurnState
  | WProgress instant
  | WCheck instant
  | WCancel string

fun watchdog_exec :: "watchdog_op \<Rightarrow> WatchdogState \<Rightarrow> WatchdogState" where
  "watchdog_exec (WEnter t st) w = Enter t st w"
| "watchdog_exec (WProgress t) w = Progressed t w"
| "watchdog_exec (WCheck t) w = snd (TimedOut t w)"
| "watchdog_exec (WCancel r) w = Cancel r w"

text \<open>The instants at which a history recorded progress.\<close>

fun progress_times :: "watchdog_op list \<Rightarrow> instant list" where
  "progress_times [] = []"
| "progress_times (WEnter t st # xs) = t # progress_times xs"
| "progress_times (WProgress t # xs) = t # progress_times xs"
| "progress_times (x # xs) = progress_times xs"

lemma TimedOut_fields [simp]:
  "w_turnStartedAt (snd (TimedOut t w)) = w_turnStartedAt w"
  "w_lastProgressAt (snd (TimedOut t w)) = w_lastProgressAt w"
  "w_budget (snd (TimedOut t w)) = w_budget w"
  "w_cancelled (snd (TimedOut t w)) = w_cancelled w"
  by (simp_all add: TimedOut_def)

lemma watchdog_run_fields:
  "w_turnStartedAt (fold watchdog_exec xs w) = w_turnStartedAt w \<and>
   w_budget (fold watchdog_exec xs w) = w_budget w \<and>
   w_lastProgressAt (fold watchdog_exec xs w) = last (w_lastProgressAt w # progress_times xs)"
  by (induction xs arbitrary: w rule: progress_times.induct)
     (auto simp: Enter_def Progressed_def Cancel_def)

section \<open>Properties\<close>

text \<open>
  C40. The watchdog decides from the clock alone: after any history, it times out exactly when
  the turn has lasted longer than the turn timeout or more than the idle limit has passed since
  the last progress; a limit of zero or less is off. So no amount of reported progress postpones the turn timeout, and neither
  a cancellation nor an earlier check changes the verdict.
\<close>

theorem watchdog_verdict:
  "fst (TimedOut now (fold watchdog_exec xs (NewWatchdog t0 b))) \<longleftrightarrow>
     (0 < eb_TurnTimeout b \<and> eb_TurnTimeout b < now - t0) \<or>
     (0 < eb_MaxIdleDuration b \<and> eb_MaxIdleDuration b < now - last (t0 # progress_times xs))"
  using watchdog_run_fields [of xs "NewWatchdog t0 b"]
  by (simp add: TimedOut_def NewWatchdog_def)

end
