(* ===== verification/GovTypes.thy ===== *)
theory GovTypes
  imports GoValues
begin

text \<open>
  The data of the governance package: \<open>pkg/governance/action.go\<close>, \<open>risk.go\<close>,
  \<open>decision.go\<close>, \<open>approval.go\<close> and \<open>receipt.go\<close>. A Go string type with named
  constants is a datatype with one constructor per constant and one more for every other
  string; a final status or a reason code is a plain string in the code and here.
\<close>

datatype RiskClass =
    RISK_READ_ONLY | RISK_LOCAL_MUTATION | RISK_EXTERNAL_SIDE_EFFECT | RISK_PRIVILEGED_BRIDGE
  | RISK_DESTRUCTIVE | RISK_SELF_MODIFICATION | RISK_UNKNOWN | RISK_OTHER string

fun risk_string :: "RiskClass \<Rightarrow> string" where
  "risk_string RISK_READ_ONLY = ''RISK_READ_ONLY''"
| "risk_string RISK_LOCAL_MUTATION = ''RISK_LOCAL_MUTATION''"
| "risk_string RISK_EXTERNAL_SIDE_EFFECT = ''RISK_EXTERNAL_SIDE_EFFECT''"
| "risk_string RISK_PRIVILEGED_BRIDGE = ''RISK_PRIVILEGED_BRIDGE''"
| "risk_string RISK_DESTRUCTIVE = ''RISK_DESTRUCTIVE''"
| "risk_string RISK_SELF_MODIFICATION = ''RISK_SELF_MODIFICATION''"
| "risk_string RISK_UNKNOWN = ''RISK_UNKNOWN''"
| "risk_string (RISK_OTHER s) = s"

datatype Mode =
    GOVERNANCE_OFF | GOVERNANCE_AUDIT | GOVERNANCE_FAST | GOVERNANCE_ENFORCE
  | GOVERNANCE_CORRECTNESS | GOVERNANCE_OTHER string

fun mode_string :: "Mode \<Rightarrow> string" where
  "mode_string GOVERNANCE_OFF = ''GOVERNANCE_OFF''"
| "mode_string GOVERNANCE_AUDIT = ''GOVERNANCE_AUDIT''"
| "mode_string GOVERNANCE_FAST = ''GOVERNANCE_FAST''"
| "mode_string GOVERNANCE_ENFORCE = ''GOVERNANCE_ENFORCE''"
| "mode_string GOVERNANCE_CORRECTNESS = ''GOVERNANCE_CORRECTNESS''"
| "mode_string (GOVERNANCE_OTHER s) = s"

definition ParseMode :: "string \<Rightarrow> Mode \<times> bool" where
  "ParseMode raw =
     (let s = ToLower (TrimSpace raw)
      in if s = ''off'' then (GOVERNANCE_OFF, True)
         else if s = ''audit'' then (GOVERNANCE_AUDIT, True)
         else if s = ''fast'' then (GOVERNANCE_FAST, True)
         else if s = ''enforce'' then (GOVERNANCE_ENFORCE, True)
         else if s = ''correctness'' then (GOVERNANCE_CORRECTNESS, True)
         else (GOVERNANCE_OTHER [], False))"

section \<open>Final statuses and reason codes\<close>

definition GOVERNANCE_ALLOWED :: string where [code_const]: "GOVERNANCE_ALLOWED = ''GOVERNANCE_ALLOWED''"
definition GOVERNANCE_BLOCKED :: string where [code_const]: "GOVERNANCE_BLOCKED = ''GOVERNANCE_BLOCKED''"
definition GOVERNANCE_AUDIT_ONLY :: string where [code_const]: "GOVERNANCE_AUDIT_ONLY = ''GOVERNANCE_AUDIT_ONLY''"
definition GOVERNANCE_REQUIRES_HUMAN :: string where [code_const]: "GOVERNANCE_REQUIRES_HUMAN = ''GOVERNANCE_REQUIRES_HUMAN''"
definition GOVERNANCE_DEGRADED :: string where [code_const]: "GOVERNANCE_DEGRADED = ''GOVERNANCE_DEGRADED''"

definition REASON_FAST_PATH_READ_ONLY :: string where [code_const]: "REASON_FAST_PATH_READ_ONLY = ''REASON_FAST_PATH_READ_ONLY''"
definition REASON_AUDIT_MODE :: string where [code_const]: "REASON_AUDIT_MODE = ''REASON_AUDIT_MODE''"
definition REASON_POLICY_ALLOWED :: string where [code_const]: "REASON_POLICY_ALLOWED = ''REASON_POLICY_ALLOWED''"
definition REASON_POLICY_BLOCKED :: string where [code_const]: "REASON_POLICY_BLOCKED = ''REASON_POLICY_BLOCKED''"
definition REASON_VCSE_UNAVAILABLE :: string where [code_const]: "REASON_VCSE_UNAVAILABLE = ''REASON_VCSE_UNAVAILABLE''"
definition REASON_VCSE_TIMEOUT :: string where [code_const]: "REASON_VCSE_TIMEOUT = ''REASON_VCSE_TIMEOUT''"
definition REASON_UNKNOWN_RISK :: string where [code_const]: "REASON_UNKNOWN_RISK = ''REASON_UNKNOWN_RISK''"
definition REASON_REPEATED_ACTION_NO_STATE_PROGRESS :: string where [code_const]: "REASON_REPEATED_ACTION_NO_STATE_PROGRESS = ''REASON_REPEATED_ACTION_NO_STATE_PROGRESS''"
definition REASON_EXTERNAL_SIDE_EFFECT_REQUIRES_APPROVAL :: string where [code_const]: "REASON_EXTERNAL_SIDE_EFFECT_REQUIRES_APPROVAL = ''REASON_EXTERNAL_SIDE_EFFECT_REQUIRES_APPROVAL''"
definition REASON_DESTRUCTIVE_REQUIRES_APPROVAL :: string where [code_const]: "REASON_DESTRUCTIVE_REQUIRES_APPROVAL = ''REASON_DESTRUCTIVE_REQUIRES_APPROVAL''"
definition REASON_SELF_MODIFICATION_REQUIRES_MANIFEST :: string where [code_const]: "REASON_SELF_MODIFICATION_REQUIRES_MANIFEST = ''REASON_SELF_MODIFICATION_REQUIRES_MANIFEST''"
definition REASON_HUMAN_APPROVAL_GRANTED :: string where [code_const]: "REASON_HUMAN_APPROVAL_GRANTED = ''REASON_HUMAN_APPROVAL_GRANTED''"
definition REASON_HUMAN_APPROVAL_DENIED :: string where [code_const]: "REASON_HUMAN_APPROVAL_DENIED = ''REASON_HUMAN_APPROVAL_DENIED''"
definition REASON_HUMAN_APPROVAL_TIMEOUT :: string where [code_const]: "REASON_HUMAN_APPROVAL_TIMEOUT = ''REASON_HUMAN_APPROVAL_TIMEOUT''"
definition REASON_HUMAN_APPROVAL_CANCELLED :: string where [code_const]: "REASON_HUMAN_APPROVAL_CANCELLED = ''REASON_HUMAN_APPROVAL_CANCELLED''"
definition REASON_HUMAN_APPROVAL_UNAVAILABLE :: string where [code_const]: "REASON_HUMAN_APPROVAL_UNAVAILABLE = ''REASON_HUMAN_APPROVAL_UNAVAILABLE''"
definition REASON_APPROVAL_RUNTIME_SHUTDOWN :: string where [code_const]: "REASON_APPROVAL_RUNTIME_SHUTDOWN = ''REASON_APPROVAL_RUNTIME_SHUTDOWN''"
definition REASON_APPROVAL_INFLIGHT_LIMIT :: string where [code_const]: "REASON_APPROVAL_INFLIGHT_LIMIT = ''REASON_APPROVAL_INFLIGHT_LIMIT''"
definition REASON_APPROVAL_DUPLICATE_JOINED :: string where [code_const]: "REASON_APPROVAL_DUPLICATE_JOINED = ''REASON_APPROVAL_DUPLICATE_JOINED''"
definition REASON_DYNAMIC_MANIFEST_MISSING :: string where [code_const]: "REASON_DYNAMIC_MANIFEST_MISSING = ''REASON_DYNAMIC_MANIFEST_MISSING''"
definition REASON_DYNAMIC_MANIFEST_INVALID_JSON :: string where [code_const]: "REASON_DYNAMIC_MANIFEST_INVALID_JSON = ''REASON_DYNAMIC_MANIFEST_INVALID_JSON''"
definition REASON_DYNAMIC_MANIFEST_MISSING_REQUIRED_FIELD :: string where [code_const]: "REASON_DYNAMIC_MANIFEST_MISSING_REQUIRED_FIELD = ''REASON_DYNAMIC_MANIFEST_MISSING_REQUIRED_FIELD''"
definition REASON_DYNAMIC_AUTHORITY_FIELD_FORBIDDEN :: string where [code_const]: "REASON_DYNAMIC_AUTHORITY_FIELD_FORBIDDEN = ''REASON_DYNAMIC_AUTHORITY_FIELD_FORBIDDEN''"
definition REASON_DYNAMIC_CAPABILITY_FORBIDDEN :: string where [code_const]: "REASON_DYNAMIC_CAPABILITY_FORBIDDEN = ''REASON_DYNAMIC_CAPABILITY_FORBIDDEN''"
definition REASON_DYNAMIC_CAPABILITY_REQUIRES_APPROVAL :: string where [code_const]: "REASON_DYNAMIC_CAPABILITY_REQUIRES_APPROVAL = ''REASON_DYNAMIC_CAPABILITY_REQUIRES_APPROVAL''"
definition REASON_DYNAMIC_PATH_OUTSIDE_STAGING :: string where [code_const]: "REASON_DYNAMIC_PATH_OUTSIDE_STAGING = ''REASON_DYNAMIC_PATH_OUTSIDE_STAGING''"
definition REASON_DYNAMIC_PATH_TRAVERSAL :: string where [code_const]: "REASON_DYNAMIC_PATH_TRAVERSAL = ''REASON_DYNAMIC_PATH_TRAVERSAL''"
definition REASON_DYNAMIC_CONTROL_CHAR :: string where [code_const]: "REASON_DYNAMIC_CONTROL_CHAR = ''REASON_DYNAMIC_CONTROL_CHAR''"
definition REASON_DYNAMIC_STATIC_SCAN_FAILED :: string where [code_const]: "REASON_DYNAMIC_STATIC_SCAN_FAILED = ''REASON_DYNAMIC_STATIC_SCAN_FAILED''"
definition REASON_DYNAMIC_IMPORT_FORBIDDEN :: string where [code_const]: "REASON_DYNAMIC_IMPORT_FORBIDDEN = ''REASON_DYNAMIC_IMPORT_FORBIDDEN''"
definition REASON_DYNAMIC_INIT_FORBIDDEN :: string where [code_const]: "REASON_DYNAMIC_INIT_FORBIDDEN = ''REASON_DYNAMIC_INIT_FORBIDDEN''"
definition REASON_DYNAMIC_NETWORK_FORBIDDEN :: string where [code_const]: "REASON_DYNAMIC_NETWORK_FORBIDDEN = ''REASON_DYNAMIC_NETWORK_FORBIDDEN''"
definition REASON_DYNAMIC_EXEC_FORBIDDEN :: string where [code_const]: "REASON_DYNAMIC_EXEC_FORBIDDEN = ''REASON_DYNAMIC_EXEC_FORBIDDEN''"
definition REASON_DYNAMIC_CREDENTIAL_ACCESS_FORBIDDEN :: string where [code_const]: "REASON_DYNAMIC_CREDENTIAL_ACCESS_FORBIDDEN = ''REASON_DYNAMIC_CREDENTIAL_ACCESS_FORBIDDEN''"
definition REASON_DYNAMIC_PROTECTED_TARGET :: string where [code_const]: "REASON_DYNAMIC_PROTECTED_TARGET = ''REASON_DYNAMIC_PROTECTED_TARGET''"
definition REASON_DYNAMIC_PROMOTION_REQUIRES_APPROVAL :: string where [code_const]: "REASON_DYNAMIC_PROMOTION_REQUIRES_APPROVAL = ''REASON_DYNAMIC_PROMOTION_REQUIRES_APPROVAL''"

section \<open>Actions and decisions\<close>

record Condition =
  co_Kind :: string
  co_Target :: string
  co_Operator :: string
  co_Value :: any

record ExpectedEffect =
  ee_Kind :: string
  ee_Target :: string
  ee_Value :: any

record RollbackPlan =
  rp_Available :: bool
  rp_Strategy :: string
  rp_SnapshotRef :: string

record ProvenanceRef =
  pv_Kind :: string
  pv_Ref :: string
  pv_Hash :: string

record GovernedAction =
  ga_ID :: string
  ga_MissionID :: string
  ga_Actor :: string
  ga_Capability :: string
  ga_ToolName :: string
  ga_Workspace :: string
  ga_Parameters :: params
  ga_RiskClass :: RiskClass
  ga_Preconditions :: "Condition list"
  ga_ExpectedEffects :: "ExpectedEffect list"
  ga_Rollback :: "RollbackPlan option"
  ga_Provenance :: "ProvenanceRef list"
  ga_CreatedAt :: instant

record GovernanceDecision =
  gd_ActionID :: string
  gd_Allowed :: bool
  gd_Mode :: Mode
  gd_FinalStatus :: string
  gd_ReasonCode :: string
  gd_Issues :: "string list"
  gd_RiskClass :: RiskClass
  gd_RequiresHuman :: bool
  gd_ApprovedAction :: "GovernedAction option"
  gd_DurationMS :: int

record Receipt =
  rc_ID :: string
  rc_Action :: GovernedAction
  rc_Decision :: GovernanceDecision
  rc_CreatedAt :: instant

section \<open>Approvals\<close>

datatype ApprovalDecision =
    APPROVAL_GRANTED | APPROVAL_DENIED | APPROVAL_TIMEOUT | APPROVAL_CANCELLED
  | APPROVAL_NOT_REQUIRED | APPROVAL_UNAVAILABLE | APPROVAL_DECISION_OTHER string

fun approval_decision_string :: "ApprovalDecision \<Rightarrow> string" where
  "approval_decision_string APPROVAL_GRANTED = ''APPROVAL_GRANTED''"
| "approval_decision_string APPROVAL_DENIED = ''APPROVAL_DENIED''"
| "approval_decision_string APPROVAL_TIMEOUT = ''APPROVAL_TIMEOUT''"
| "approval_decision_string APPROVAL_CANCELLED = ''APPROVAL_CANCELLED''"
| "approval_decision_string APPROVAL_NOT_REQUIRED = ''APPROVAL_NOT_REQUIRED''"
| "approval_decision_string APPROVAL_UNAVAILABLE = ''APPROVAL_UNAVAILABLE''"
| "approval_decision_string (APPROVAL_DECISION_OTHER s) = s"

datatype ApprovalScope =
    APPROVAL_ONCE | APPROVAL_SESSION | APPROVAL_ALWAYS | APPROVAL_NEVER
  | APPROVAL_SCOPE_OTHER string

record ApprovalRequest =
  aq_ActionID :: string
  aq_ToolName :: string
  aq_Capability :: string
  aq_RiskClass :: RiskClass
  aq_ReasonCode :: string
  aq_Summary :: string
  aq_Parameters :: params
  aq_RedactedParams :: params
  aq_ExpectedEffects :: "ExpectedEffect list"
  aq_Rollback :: "RollbackPlan option"
  aq_CreatedAt :: instant
  aq_Timeout :: duration

record ApprovalResult =
  ar_ActionID :: string
  ar_Decision :: ApprovalDecision
  ar_Scope :: ApprovalScope
  ar_Reason :: string
  ar_ApprovedBy :: string
  ar_DurationMS :: int

text \<open>The result of the composite literals of the code: the fields they name, zero values elsewhere.\<close>

definition approval_result :: "string \<Rightarrow> ApprovalDecision \<Rightarrow> ApprovalScope \<Rightarrow> string \<Rightarrow> ApprovalResult" where
  "approval_result actionID decision scope reason =
     \<lparr>ar_ActionID = actionID, ar_Decision = decision, ar_Scope = scope, ar_Reason = reason,
      ar_ApprovedBy = [], ar_DurationMS = 0\<rparr>"

definition ApprovalGranted :: "ApprovalResult \<Rightarrow> bool" where
  "ApprovalGranted result =
     (if ar_Decision result \<noteq> APPROVAL_GRANTED then False
      else (case ar_Scope result of
              APPROVAL_ONCE \<Rightarrow> True
            | APPROVAL_SESSION \<Rightarrow> True
            | APPROVAL_ALWAYS \<Rightarrow> True
            | _ \<Rightarrow> False))"

lemma approval_result_sel [simp]:
  "ar_Decision (approval_result i d s r) = d"
  "ar_Scope (approval_result i d s r) = s"
  "ar_ActionID (approval_result i d s r) = i"
  "ar_Reason (approval_result i d s r) = r"
  by (simp_all add: approval_result_def)

lemma ApprovalGranted_decision: "ApprovalGranted r \<Longrightarrow> ar_Decision r = APPROVAL_GRANTED"
  by (simp add: ApprovalGranted_def split: if_splits)

lemma ApprovalGranted_scope: "ApprovalGranted r \<Longrightarrow> ar_Scope r \<noteq> APPROVAL_NEVER"
  by (auto simp: ApprovalGranted_def split: if_splits)

end
