(* ===== verification/Classifier.thy ===== *)
theory Classifier
  imports GovTypes
begin

text \<open>
  The risk classifier of \<open>pkg/governance/classifier.go\<close>. Parsing of URLs and IP addresses is
  the standard library's and a parameter (\<open>NetEnv\<close>); the address predicates are written out.
\<close>

record Url =
  u_Host :: string
  u_Hostname :: string
  u_Port :: string

text \<open>An address is what \<open>net.ParseIP\<close> returns: 16 bytes, an IPv4 address in its mapped form.\<close>

type_synonym ip = "nat list"

record NetEnv =
  ne_ParseURL :: "string \<Rightarrow> Url option"
  ne_ParseIP :: "string \<Rightarrow> ip option"

definition v4_prefix :: "nat list" where
  "v4_prefix = [0, 0, 0, 0, 0, 0, 0, 0, 0, 0, 255, 255]"

definition To4 :: "ip \<Rightarrow> nat list option" where
  "To4 i = (if length i = 16 \<and> take 12 i = v4_prefix then Some (drop 12 i) else None)"

definition IsLoopback :: "ip \<Rightarrow> bool" where
  "IsLoopback i = (case To4 i of
     Some v \<Rightarrow> v ! 0 = 127
   | None \<Rightarrow> i = replicate 15 0 @ [1])"

definition IsPrivate :: "ip \<Rightarrow> bool" where
  "IsPrivate i = (case To4 i of
     Some v \<Rightarrow> v ! 0 = 10 \<or> (v ! 0 = 172 \<and> v ! 1 div 16 = 1) \<or> (v ! 0 = 192 \<and> v ! 1 = 168)
   | None \<Rightarrow> length i = 16 \<and> i ! 0 div 2 = 126)"

definition IsLinkLocalUnicast :: "ip \<Rightarrow> bool" where
  "IsLinkLocalUnicast i = (case To4 i of
     Some v \<Rightarrow> v ! 0 = 169 \<and> v ! 1 = 254
   | None \<Rightarrow> length i = 16 \<and> i ! 0 = 254 \<and> i ! 1 div 64 = 2)"

definition IsLinkLocalMulticast :: "ip \<Rightarrow> bool" where
  "IsLinkLocalMulticast i = (case To4 i of
     Some v \<Rightarrow> v ! 0 = 224 \<and> v ! 1 = 0 \<and> v ! 2 = 0
   | None \<Rightarrow> length i = 16 \<and> i ! 0 = 255 \<and> i ! 1 mod 16 = 2)"

definition trim_right_dots :: "string \<Rightarrow> string" where
  "trim_right_dots s = rev (dropWhile (\<lambda>c. c = CHR ''.'') (rev s))"

definition isPrivateTarget :: "NetEnv \<Rightarrow> string \<Rightarrow> bool" where
  "isPrivateTarget N rawURL =
     (case ne_ParseURL N (TrimSpace rawURL) of
        None \<Rightarrow> False
      | Some u \<Rightarrow>
          if u_Host u = [] then False
          else
            (let host = trim_right_dots (ToLower (u_Hostname u))
             in if host = ''localhost'' then True
                else if host = ''169.254.169.254'' then True
                else if prefix ''127.'' host then True
                else (case ne_ParseIP N host of
                        None \<Rightarrow> False
                      | Some i \<Rightarrow>
                          if IsLoopback i \<or> IsPrivate i \<or> IsLinkLocalUnicast i \<or> IsLinkLocalMulticast i
                          then True
                          else if To4 i = None \<and> length i = 16 \<and> i ! 0 div 2 = 126 then True
                          else if u_Port u \<noteq> [] \<and> Atoi (u_Port u) = Some 0 then True
                          else False)))"

text \<open>
  \<open>getString\<close> also takes a \<open>fmt.Stringer\<close>; no value decoded from JSON is one.
\<close>

definition getString :: "params \<Rightarrow> string \<Rightarrow> string" where
  "getString ps key =
     (if ps = None then []
      else (case map_get ps key of Some (VStr t) \<Rightarrow> t | _ \<Rightarrow> []))"

definition hasAny :: "params \<Rightarrow> string list \<Rightarrow> bool" where
  "hasAny ps keys = list_ex (\<lambda>k. map_get ps k \<noteq> None) keys"

definition credential_header :: "string \<Rightarrow> bool" where
  "credential_header k =
     (let key = ToLower (TrimSpace k)
      in key = ''authorization'' \<or> key = ''cookie'' \<or> sublist ''token'' key \<or>
         sublist ''secret'' key \<or> sublist ''api-key'' key)"

definition hasCredentialHeaders :: "params \<Rightarrow> bool" where
  "hasCredentialHeaders ps =
     (case map_get ps ''headers'' of
        Some (VMap headers) \<Rightarrow> list_ex (\<lambda>(k, v). credential_header k) headers
      | _ \<Rightarrow> False)"

definition credential_keys :: "string list" where
  "credential_keys = [''credentials'', ''credential'', ''auth'', ''authorization'', ''token'',
     ''body'', ''api_key'', ''password'', ''secret'']"

definition classifyHTTPRequest :: "NetEnv \<Rightarrow> params \<Rightarrow> RiskClass" where
  "classifyHTTPRequest N ps =
     (let method = ToUpper (TrimSpace (getString ps ''method''));
          method = (if method = [] then ''GET'' else method)
      in if method = ''GET'' \<or> method = ''HEAD'' then
           (if hasAny ps credential_keys then RISK_PRIVILEGED_BRIDGE
            else if hasCredentialHeaders ps then RISK_PRIVILEGED_BRIDGE
            else if isPrivateTarget N (getString ps ''url'') then RISK_PRIVILEGED_BRIDGE
            else RISK_READ_ONLY)
         else if isPrivateTarget N (getString ps ''url'') then RISK_PRIVILEGED_BRIDGE
         else RISK_EXTERNAL_SIDE_EFFECT)"

definition read_only_tools :: "string list" where
  "read_only_tools = [''read_file'', ''list_directory'', ''file_info'', ''git_status'',
     ''git_diff'', ''git_log'', ''system_info'', ''disk_usage'', ''list_tools'', ''tool_info'',
     ''context_stats'', ''puter.fs.read'', ''puter.kv.get'', ''puter.app.preview'']"

definition local_mutation_tools :: "string list" where
  "local_mutation_tools = [''write_file'', ''edit_file'', ''download_file'', ''git_commit'',
     ''puter.fs.write'', ''puter.kv.set'']"

definition destructive_tools :: "string list" where
  "destructive_tools = [''delete_file'', ''kill_process'', ''stop_managed_process'',
     ''puter.fs.delete'', ''puter.kv.delete'']"

definition bridge_tools :: "string list" where
  "bridge_tools = [''bash'', ''structured_bash'', ''code_exec'', ''python_sandbox'', ''jupyter'',
     ''browser_control'', ''android_control'', ''android_system'', ''adb_setup'', ''spawn_agent'',
     ''spawn_subagent'', ''run_pipeline'', ''puter.bridge.host'', ''puter.auth.request'']"

definition self_modification_tools :: "string list" where
  "self_modification_tools = [''create_tool'', ''modify_tool'', ''define_command'', ''rebuild'']"

definition external_tools :: "string list" where
  "external_tools = [''git_push'', ''post_notify'', ''webhook'', ''puter.hosting.publish'',
     ''puter.network.fetch'']"

text \<open>The part of \<open>ClassifyTool\<close> after the switch: matching on parts of the name.\<close>

definition classify_by_name :: "string \<Rightarrow> params \<Rightarrow> RiskClass" where
  "classify_by_name name ps =
     (let action = ToLower (getString ps ''action'')
      in if sublist ''service_control'' name \<and>
            (action = ''stop'' \<or> action = ''restart'' \<or> action = ''disable'')
         then RISK_DESTRUCTIVE
         else if sublist ''send'' name \<or> sublist ''email'' name \<or> sublist ''message'' name \<or>
                 sublist ''publish'' name
         then RISK_EXTERNAL_SIDE_EFFECT
         else if sublist ''delete'' name \<or> sublist ''remove'' name \<or> sublist ''rm'' name
         then RISK_DESTRUCTIVE
         else if sublist ''dynamic'' name \<and> (sublist ''loader'' name \<or> sublist ''updater'' name)
         then RISK_SELF_MODIFICATION
         else if sublist ''worktree'' name \<and>
                 (sublist ''create'' name \<or> sublist ''delete'' name \<or> sublist ''move'' name)
         then RISK_SELF_MODIFICATION
         else RISK_UNKNOWN)"

definition ClassifyTool :: "NetEnv \<Rightarrow> string \<Rightarrow> params \<Rightarrow> RiskClass" where
  "ClassifyTool N toolName ps =
     (let name = ToLower (TrimSpace toolName)
      in if (name = ''web_fetch'' \<or> name = ''download_file'') \<and> isPrivateTarget N (getString ps ''url'')
         then RISK_PRIVILEGED_BRIDGE
         else if name \<in> set read_only_tools then RISK_READ_ONLY
         else if name \<in> set local_mutation_tools then RISK_LOCAL_MUTATION
         else if name \<in> set destructive_tools then RISK_DESTRUCTIVE
         else if name \<in> set bridge_tools then RISK_PRIVILEGED_BRIDGE
         else if name \<in> set self_modification_tools then RISK_SELF_MODIFICATION
         else if name = ''sense_evolve'' then
           (if map_get ps ''dry_run'' = Some (VBool True) then RISK_READ_ONLY
            else RISK_SELF_MODIFICATION)
         else if name \<in> set external_tools then RISK_EXTERNAL_SIDE_EFFECT
         else if name = ''http_request'' then classifyHTTPRequest N ps
         else classify_by_name name ps)"

section \<open>Lemmas\<close>

lemma classify_by_name_not_read_only: "classify_by_name name ps \<noteq> RISK_READ_ONLY"
  by (simp add: classify_by_name_def Let_def)

lemma tool_lists_disjoint:
  "''sense_evolve'' \<notin> set (read_only_tools @ local_mutation_tools @ destructive_tools @ bridge_tools @
     self_modification_tools)"
  "''http_request'' \<notin> set (read_only_tools @ local_mutation_tools @ destructive_tools @ bridge_tools @
     self_modification_tools @ external_tools)"
  "''web_fetch'' \<notin> set read_only_tools" "''download_file'' \<notin> set read_only_tools"
  by (simp_all add: read_only_tools_def local_mutation_tools_def destructive_tools_def
      bridge_tools_def self_modification_tools_def external_tools_def)

definition safe_read_request :: "NetEnv \<Rightarrow> params \<Rightarrow> bool" where
  "safe_read_request N ps \<longleftrightarrow>
     ToUpper (TrimSpace (getString ps ''method'')) \<in> {[], ''GET'', ''HEAD''} \<and>
     \<not> hasAny ps credential_keys \<and> \<not> hasCredentialHeaders ps \<and>
     \<not> isPrivateTarget N (getString ps ''url'')"

lemma classifyHTTPRequest_read_only:
  "classifyHTTPRequest N ps = RISK_READ_ONLY \<longleftrightarrow> safe_read_request N ps"
  by (auto simp: classifyHTTPRequest_def safe_read_request_def Let_def)

lemma classifyHTTPRequest_private:
  "isPrivateTarget N (getString ps ''url'') \<Longrightarrow> classifyHTTPRequest N ps = RISK_PRIVILEGED_BRIDGE"
  by (auto simp: classifyHTTPRequest_def Let_def)

lemma To4_mapped [simp]: "To4 (v4_prefix @ [a, b, c, d]) = Some [a, b, c, d]"
  by (simp add: To4_def v4_prefix_def)

lemma isPrivateTarget_v4:
  assumes "ne_ParseURL N (TrimSpace url) = Some u" and "u_Host u \<noteq> []"
    and "ne_ParseIP N (trim_right_dots (ToLower (u_Hostname u))) = Some (v4_prefix @ [a, b, c, d])"
    and "a = 127 \<or> a = 10 \<or> (a = 172 \<and> 16 \<le> b \<and> b \<le> 31) \<or> (a = 192 \<and> b = 168) \<or>
      (a = 169 \<and> b = 254)"
  shows "isPrivateTarget N url"
proof -
  have "16 \<le> b \<and> b \<le> 31 \<Longrightarrow> b div 16 = 1" by arith
  then have "IsLoopback (v4_prefix @ [a, b, c, d]) \<or> IsPrivate (v4_prefix @ [a, b, c, d]) \<or>
      IsLinkLocalUnicast (v4_prefix @ [a, b, c, d])"
    using assms(4) by (auto simp: IsLoopback_def IsPrivate_def IsLinkLocalUnicast_def)
  then show ?thesis using assms(1-3) by (auto simp: isPrivateTarget_def Let_def)
qed

section \<open>Properties\<close>

text \<open>
  The read-only class, which skips every check, is reached in three ways only: a tool of
  the fixed list, a \<open>sense_evolve\<close> whose \<open>dry_run\<close> is the boolean true, or an HTTP GET or
  HEAD that carries no credential parameter, no credential header and no private target.
\<close>

theorem read_only_classification:
  "ClassifyTool N tool ps = RISK_READ_ONLY \<longleftrightarrow>
     (ToLower (TrimSpace tool) \<in> set read_only_tools \<or>
      (ToLower (TrimSpace tool) = ''sense_evolve'' \<and> map_get ps ''dry_run'' = Some (VBool True)) \<or>
      (ToLower (TrimSpace tool) = ''http_request'' \<and> safe_read_request N ps))"
proof -
  define name where "name = ToLower (TrimSpace tool)"
  consider (ro) "name \<in> set read_only_tools" | (evolve) "name = ''sense_evolve''"
    | (http) "name = ''http_request''"
    | (other) "name \<notin> set read_only_tools" "name \<noteq> ''sense_evolve''" "name \<noteq> ''http_request''"
    by blast
  then show ?thesis
  proof cases
    case ro
    then have "name \<noteq> ''web_fetch''" "name \<noteq> ''download_file''"
      using tool_lists_disjoint(3,4) by metis+
    with ro show ?thesis by (simp add: ClassifyTool_def name_def [symmetric])
  next
    case evolve
    with tool_lists_disjoint(1) show ?thesis by (simp add: ClassifyTool_def name_def [symmetric])
  next
    case http
    with tool_lists_disjoint(2) show ?thesis
      by (simp add: ClassifyTool_def name_def [symmetric] classifyHTTPRequest_read_only)
  next
    case other
    then show ?thesis
      by (simp add: ClassifyTool_def name_def [symmetric] Let_def classify_by_name_not_read_only)
  qed
qed

text \<open>
  No fetching tool reaches a loopback, private or link-local target unnoticed: whatever
  the case and the trailing dots of the host name, \<open>web_fetch\<close>, \<open>download_file\<close> and
  \<open>http_request\<close> are classified as privileged for the name \<open>localhost\<close>, for every
  abbreviated form that begins with 127., and for every IPv4 address of the private ranges.
\<close>

theorem private_targets_are_privileged:
  assumes "ToLower (TrimSpace tool) \<in> {''web_fetch'', ''download_file'', ''http_request''}"
    and "ne_ParseURL N (TrimSpace (getString ps ''url'')) = Some u" and "u_Host u \<noteq> []"
    and "host = trim_right_dots (ToLower (u_Hostname u))"
    and "host = ''localhost'' \<or> prefix ''127.'' host \<or>
      (\<exists>a b c d. ne_ParseIP N host = Some (v4_prefix @ [a, b, c, d]) \<and>
         (a = 127 \<or> a = 10 \<or> (a = 172 \<and> 16 \<le> b \<and> b \<le> 31) \<or> (a = 192 \<and> b = 168) \<or>
          (a = 169 \<and> b = 254)))"
  shows "ClassifyTool N tool ps = RISK_PRIVILEGED_BRIDGE"
proof -
  have priv: "isPrivateTarget N (getString ps ''url'')"
  proof (cases "host = ''localhost'' \<or> prefix ''127.'' host")
    case True
    with assms(2-4) show ?thesis by (auto simp: isPrivateTarget_def Let_def)
  next
    case False
    with assms show ?thesis by (auto intro: isPrivateTarget_v4)
  qed
  show ?thesis
  proof (cases "ToLower (TrimSpace tool) = ''http_request''")
    case True
    with tool_lists_disjoint(2) classifyHTTPRequest_private [OF priv] show ?thesis
      by (simp add: ClassifyTool_def Let_def)
  next
    case False
    with assms(1) priv show ?thesis by (auto simp: ClassifyTool_def Let_def)
  qed
qed

definition net_example :: NetEnv where
  "net_example =
     \<lparr>ne_ParseURL = (\<lambda>s. if s = ''http://10.1.2.3/x''
        then Some \<lparr>u_Host = ''10.1.2.3'', u_Hostname = ''10.1.2.3'', u_Port = []\<rparr> else None),
      ne_ParseIP = (\<lambda>s. if s = ''10.1.2.3'' then Some (v4_prefix @ [10, 1, 2, 3]) else None)\<rparr>"

lemma private_targets_are_privileged_witness:
  "ClassifyTool net_example '' Web_Fetch '' (Some [(''url'', VStr ''http://10.1.2.3/x'')])
     = RISK_PRIVILEGED_BRIDGE"
  by (rule private_targets_are_privileged
        [where u = "\<lparr>u_Host = ''10.1.2.3'', u_Hostname = ''10.1.2.3'', u_Port = []\<rparr>"
           and host = "''10.1.2.3''"])
     (simp_all add: net_example_def getString_def trim_right_dots_def go_eval)

end
