(* ===== verification/GoPath.thy ===== *)
theory GoPath
  imports GoStrings
begin

text \<open>
  Go's \<open>path/filepath\<close> on a Unix system, as far as the code uses it: \<open>Clean\<close>, \<open>Join\<close>,
  \<open>Dir\<close> and \<open>IsAbs\<close> (\<open>ToSlash\<close> is the identity there). \<open>Clean\<close> is purely lexical:
  it drops empty and \<open>.\<close> elements and lets \<open>..\<close> remove the element before it.
\<close>

fun split_slash :: "string \<Rightarrow> string list" where
  "split_slash [] = [[]]"
| "split_slash (c # s) =
     (if c = CHR ''/'' then [] # split_slash s
      else (case split_slash s of [] \<Rightarrow> [[c]] | e # es \<Rightarrow> (c # e) # es))"

fun join_slash :: "string list \<Rightarrow> string" where
  "join_slash [] = []"
| "join_slash [e] = e"
| "join_slash (e # f # es) = e @ CHR ''/'' # join_slash (f # es)"

text \<open>The elements kept so far are a stack, the last one first.\<close>

fun clean_elems :: "bool \<Rightarrow> string list \<Rightarrow> string list \<Rightarrow> string list" where
  "clean_elems rooted st [] = rev st"
| "clean_elems rooted st (e # es) =
     (if e = [] \<or> e = ''.'' then clean_elems rooted st es
      else if e = ''..'' then
        (case st of
           [] \<Rightarrow> if rooted then clean_elems rooted [] es else clean_elems rooted [''..''] es
         | t # st' \<Rightarrow> if t = ''..'' then clean_elems rooted (''..'' # t # st') es
                      else clean_elems rooted st' es)
      else clean_elems rooted (e # st) es)"

definition IsAbs :: "string \<Rightarrow> bool" where
  "IsAbs p = prefix ''/'' p"

definition Clean_elems :: "string \<Rightarrow> string list" where
  "Clean_elems p = clean_elems (IsAbs p) [] (split_slash p)"

definition Clean :: "string \<Rightarrow> string" where
  "Clean p =
     (if IsAbs p then CHR ''/'' # join_slash (Clean_elems p)
      else if Clean_elems p = [] then ''.'' else join_slash (Clean_elems p))"

definition Join_path :: "string list \<Rightarrow> string" where
  "Join_path parts =
     (let es = filter (\<lambda>e. e \<noteq> []) parts in if es = [] then [] else Clean (join_slash es))"

definition Dir :: "string \<Rightarrow> string" where
  "Dir p = Clean (rev (dropWhile (\<lambda>c. c \<noteq> CHR ''/'') (rev p)))"

section \<open>Elements\<close>

definition slashless :: "string \<Rightarrow> bool" where
  "slashless e \<longleftrightarrow> CHR ''/'' \<notin> set e"

lemma split_slash_not_Nil [simp]: "split_slash s \<noteq> []"
  by (cases s) (auto split: list.splits)

lemma split_slash_slashless: "list_all slashless (split_slash s)"
  by (induction s) (auto simp: slashless_def split: list.splits)

lemma split_slash_append: "slashless e \<Longrightarrow> split_slash (e @ CHR ''/'' # s) = e # split_slash s"
  by (induction e) (auto simp: slashless_def)

lemma split_slash_id: "slashless e \<Longrightarrow> split_slash e = [e]"
  by (induction e) (auto simp: slashless_def)

lemma split_join_slash:
  "es \<noteq> [] \<Longrightarrow> list_all slashless es \<Longrightarrow> split_slash (join_slash es) = es"
  by (induction es rule: join_slash.induct) (auto simp: split_slash_append split_slash_id)

text \<open>What \<open>Clean\<close> keeps: only proper elements, after a run of leading \<open>..\<close>.\<close>

definition proper :: "string \<Rightarrow> bool" where
  "proper e \<longleftrightarrow> e \<noteq> [] \<and> e \<noteq> ''.'' \<and> e \<noteq> ''..'' \<and> slashless e"

definition clean_shape :: "string list \<Rightarrow> bool" where
  "clean_shape es \<longleftrightarrow> (\<exists>n fs. es = replicate n ''..'' @ fs \<and> list_all proper fs)"

lemma clean_shape_Nil: "clean_shape []"
  unfolding clean_shape_def by (rule exI [of _ 0]) simp

lemma clean_shape_snoc:
  assumes "clean_shape (rev st)" and "proper e"
  shows "clean_shape (rev (e # st))"
proof -
  from assms(1) obtain n fs where "rev st = replicate n ''..'' @ fs" "list_all proper fs"
    unfolding clean_shape_def by blast
  with assms(2) have "rev (e # st) = replicate n ''..'' @ (fs @ [e])" "list_all proper (fs @ [e])"
    by simp_all
  then show ?thesis unfolding clean_shape_def by blast
qed

lemma clean_shape_up:
  assumes "clean_shape (rev st)" and "st = [] \<or> hd st = ''..''"
  shows "clean_shape (rev (''..'' # st))"
proof -
  from assms(1) obtain n fs where e: "rev st = replicate n ''..'' @ fs" "list_all proper fs"
    unfolding clean_shape_def by blast
  have "fs = []"
  proof (rule ccontr)
    assume "fs \<noteq> []"
    with e(1) have "st \<noteq> []" and "hd st = last fs"
      by (auto simp: hd_rev [symmetric] last_append rev_swap)
    moreover have "proper (last fs)" using \<open>fs \<noteq> []\<close> e(2) by (simp add: list_all_iff)
    ultimately show False using assms(2) by (simp add: proper_def)
  qed
  with e(1) have "rev (''..'' # st) = replicate (Suc n) ''..'' @ []"
    by (simp add: replicate_append_same)
  then show ?thesis unfolding clean_shape_def by (metis list.pred_inject(1))
qed

lemma clean_shape_pop:
  assumes "clean_shape (rev (t # st))" and "t \<noteq> ''..''"
  shows "clean_shape (rev st)"
proof -
  from assms(1) obtain n fs where e: "rev st @ [t] = replicate n ''..'' @ fs" "list_all proper fs"
    unfolding clean_shape_def by auto
  have "fs \<noteq> []"
  proof
    assume "fs = []"
    with e(1) have "t \<in> set (replicate n ''..'')" by (metis append_Nil2 in_set_conv_decomp)
    with assms(2) show False by simp
  qed
  then have "rev st = replicate n ''..'' @ butlast fs"
    using arg_cong [OF e(1), of butlast] by (simp add: butlast_append)
  moreover have "list_all proper (butlast fs)"
    using e(2) by (auto simp: list_all_iff dest: in_set_butlastD)
  ultimately show ?thesis unfolding clean_shape_def by blast
qed

lemma clean_elems_shape:
  "clean_shape (rev st) \<Longrightarrow> list_all slashless es \<Longrightarrow> clean_shape (clean_elems rooted st es)"
proof (induction rooted st es rule: clean_elems.induct)
  case (2 rooted st e es)
  consider (skip) "e = [] \<or> e = ''.''" | (up) "e = ''..''" | (keep) "proper e"
    using "2.prems"(2) by (auto simp: proper_def)
  then show ?case
  proof cases
    case skip
    with 2 show ?thesis by auto
  next
    case up
    show ?thesis
    proof (cases st)
      case Nil
      with 2 up show ?thesis using clean_shape_up [of "[]"] by (auto simp: clean_shape_Nil)
    next
      case (Cons t st')
      with 2 up show ?thesis
        using clean_shape_up [of st] clean_shape_pop [of t st'] by (cases "t = ''..''") auto
    qed
  next
    case keep
    with 2 clean_shape_snoc [OF "2.prems"(1) keep] show ?thesis by (simp add: proper_def)
  qed
qed simp

lemma Clean_elems_shape: "clean_shape (Clean_elems p)"
  unfolding Clean_elems_def
  by (rule clean_elems_shape) (simp_all add: clean_shape_Nil split_slash_slashless)

text \<open>A cleaned path that does not begin with \<open>..\<close> never goes up.\<close>

lemma clean_shape_no_up:
  assumes "clean_shape es" and "es = [] \<or> hd es \<noteq> ''..''"
  shows "list_all proper es"
proof -
  from assms(1) obtain n fs where "es = replicate n ''..'' @ fs" "list_all proper fs"
    unfolding clean_shape_def by blast
  with assms(2) show ?thesis by (cases n) auto
qed

lemma clean_elems_proper:
  "list_all proper es \<Longrightarrow> clean_elems rooted st es = rev st @ es"
  by (induction es arbitrary: st) (auto simp: proper_def)

lemma proper_slashless: "list_all proper es \<Longrightarrow> list_all slashless es"
  by (auto simp: list_all_iff proper_def)

lemma join_slash_hd: "es \<noteq> [] \<Longrightarrow> hd es \<noteq> [] \<Longrightarrow> join_slash es \<noteq> [] \<and> hd (join_slash es) = hd (hd es)"
  by (cases es rule: join_slash.cases) auto

lemma join_proper_not_abs:
  assumes "es \<noteq> []" and "list_all proper es"
  shows "\<not> IsAbs (join_slash es)" and "join_slash es \<noteq> []"
proof -
  from assms obtain e r where e: "es = e # r" "proper e" by (cases es) auto
  then have "hd e \<noteq> CHR ''/''" and "e \<noteq> []" by (cases e; auto simp: proper_def slashless_def)+
  with e join_slash_hd [of es] have "join_slash es \<noteq> []" "hd (join_slash es) \<noteq> CHR ''/''" by auto
  then show "\<not> IsAbs (join_slash es)" and "join_slash es \<noteq> []"
    by (cases "join_slash es"; auto simp: IsAbs_def)+
qed

lemma Clean_join:
  assumes "es \<noteq> []" and "list_all proper es"
  shows "Clean_elems (join_slash es) = es" and "Clean (join_slash es) = join_slash es"
proof -
  show "Clean_elems (join_slash es) = es"
    using assms by (simp add: Clean_elems_def split_join_slash proper_slashless clean_elems_proper)
  then show "Clean (join_slash es) = join_slash es"
    using assms by (simp add: Clean_def join_proper_not_abs)
qed

lemma split_slash_slash: "split_slash (a @ CHR ''/'' # s) = split_slash a @ split_slash s"
  by (induction a) (auto split: list.splits)

lemma join_proper_no_up:
  assumes "es \<noteq> []" and "list_all proper es"
  shows "\<not> sublist ''/../'' (join_slash es)" "\<not> prefix ''../'' (join_slash es)" "join_slash es \<noteq> ''..''"
    "join_slash es \<noteq> ''.''"
proof -
  have es: "split_slash (join_slash es) = es"
    by (rule split_join_slash [OF assms(1) proper_slashless [OF assms(2)]])
  have bad: "''..'' \<notin> set es" "''.'' \<notin> set es" using assms(2) by (auto simp: list_all_iff proper_def)
  show "\<not> sublist ''/../'' (join_slash es)"
  proof
    assume "sublist ''/../'' (join_slash es)"
    then obtain a b where "join_slash es = a @ CHR ''/'' # (''..'' @ CHR ''/'' # b)"
      by (auto simp: sublist_def)
    then have "es = split_slash a @ split_slash (''..'' @ CHR ''/'' # b)"
      using es split_slash_slash [of a "''..'' @ CHR ''/'' # b"] by metis
    then show False using bad by simp
  qed
  show "\<not> prefix ''../'' (join_slash es)"
  proof
    assume "prefix ''../'' (join_slash es)"
    then obtain b where "join_slash es = ''..'' @ CHR ''/'' # b" by (auto simp: prefix_def)
    then have "es = ''..'' # split_slash b"
      using es by simp
    then show False using bad by simp
  qed
  show "join_slash es \<noteq> ''..''" "join_slash es \<noteq> ''.''"
    using es bad by (auto simp: slashless_def)
qed

lemma clean_shape_slashless:
  assumes "clean_shape es"
  shows "list_all slashless es" and "[] \<notin> set es"
proof -
  from assms obtain n fs where es: "es = replicate n ''..'' @ fs" "list_all proper fs"
    unfolding clean_shape_def by blast
  have "slashless ''..''" by (simp add: slashless_def)
  then show "list_all slashless es"
    using proper_slashless [OF es(2)] unfolding es(1) by (auto simp: list_all_iff)
  have "[] \<notin> set fs" using es(2) by (auto simp: list_all_iff proper_def)
  then show "[] \<notin> set es" unfolding es(1) by simp
qed

lemma join_slash_append:
  "es \<noteq> [] \<Longrightarrow> fs \<noteq> [] \<Longrightarrow> join_slash (es @ fs) = join_slash es @ CHR ''/'' # join_slash fs"
proof (induction es rule: join_slash.induct)
  case (2 e)
  then show ?case by (cases fs) simp_all
qed simp_all

text \<open>Below a directory, by elements: the textual test with a trailing slash is the right one.\<close>

lemma join_slash_below:
  assumes "es \<noteq> []" "list_all slashless es" "list_all slashless fs"
  shows "fs \<noteq> [] \<and> (join_slash es = join_slash fs \<or> prefix (join_slash es @ ''/'') (join_slash fs))
    \<longleftrightarrow> prefix es fs"
proof
  assume l: "fs \<noteq> [] \<and> (join_slash es = join_slash fs \<or> prefix (join_slash es @ ''/'') (join_slash fs))"
  then have fs: "split_slash (join_slash fs) = fs" using assms(3) by (simp add: split_join_slash)
  have es: "split_slash (join_slash es) = es" using assms(1,2) by (simp add: split_join_slash)
  from l show "prefix es fs"
  proof (elim conjE disjE)
    assume "join_slash es = join_slash fs"
    then have "es = fs" using es fs by metis
    then show ?thesis by simp
  next
    assume "prefix (join_slash es @ ''/'') (join_slash fs)"
    then obtain x where "join_slash fs = join_slash es @ CHR ''/'' # x" by (auto simp: prefix_def)
    then have "fs = es @ split_slash x" using fs es split_slash_slash [of "join_slash es" x] by metis
    then show ?thesis by simp
  qed
next
  assume "prefix es fs"
  then obtain gs where gs: "fs = es @ gs" by (auto simp: prefix_def)
  with assms(1) show "fs \<noteq> [] \<and> (join_slash es = join_slash fs \<or> prefix (join_slash es @ ''/'') (join_slash fs))"
    by (cases "gs = []") (simp_all add: join_slash_append)
qed

lemma join_slash_not_abs:
  assumes "es \<noteq> []" and "list_all slashless es" and "[] \<notin> set es"
  shows "\<not> IsAbs (join_slash es)"
proof -
  obtain e r where e: "es = e # r" using assms(1) by (cases es) auto
  with assms(2,3) have "e \<noteq> []" "hd e \<noteq> CHR ''/''" by (cases e; auto simp: slashless_def)+
  with e join_slash_hd [of es] have "join_slash es \<noteq> []" "hd (join_slash es) \<noteq> CHR ''/''" by auto
  then show ?thesis by (cases "join_slash es"; auto simp: IsAbs_def)
qed

lemma Clean_not_abs: "\<not> IsAbs p \<Longrightarrow> \<not> IsAbs (Clean p)"
  using join_slash_not_abs [OF _ clean_shape_slashless [OF Clean_elems_shape], of p]
  by (auto simp: Clean_def IsAbs_def)

end
