(* ===== verification/SelfmodPaths.thy ===== *)
theory SelfmodPaths
  imports GoPath GovTypes
begin

text \<open>
  Target paths and artifact names of self-modification proposals: \<open>pkg/selfmod/path.go\<close>,
  \<open>safe_name.go\<close> and \<open>staging_path.go\<close>. Writing the staged file is I/O and not modelled.
  The reason codes of \<open>pkg/selfmod/errors.go\<close> are those of \<open>pkg/governance/decision.go\<close>.
\<close>

definition stagingPrefixes :: "string list" where
  "stagingPrefixes = [''.gorkbot/staging/'', ''.gorkbot/generated/'', ''pkg/tools/custom/_staged/'']"

definition protectedPrefixes :: "string list" where
  "protectedPrefixes = [''.git/'', ''.github/'', ''configs/'', ''scripts/'', ''cmd/'', ''internal/'',
     ''pkg/governance/'', ''pkg/researchgate/'', ''pkg/puteradapter/'', ''pkg/vcseclient/'']"

definition protectedFiles :: "string list" where
  "protectedFiles = [''pkg/tools/registry.go'', ''pkg/tools/permissions.go'',
     ''pkg/tools/audit_db.go'', ''go.mod'', ''go.sum'', ''README.md'', ''LICENSE'',
     ''configs/promotion-manifest.txt'']"

definition is_control :: "char \<Rightarrow> bool" where
  "is_control c \<longleftrightarrow> (of_char c :: nat) < 32"

definition hasControlChars :: "string \<Rightarrow> bool" where
  "hasControlChars s = list_ex is_control s"

text \<open>The four results of \<open>validateTargetPath\<close>.\<close>

record PathVerdict =
  pa_requiresApproval :: bool
  pa_hardBlock :: bool
  pa_reason :: string
  pa_issue :: string

definition path_block :: "string \<Rightarrow> string \<Rightarrow> PathVerdict" where
  "path_block reason issue =
     \<lparr>pa_requiresApproval = False, pa_hardBlock = True, pa_reason = reason, pa_issue = issue\<rparr>"

text \<open>The loop over the protected prefixes, which tests the workflow directory in every round.\<close>

fun protected_loop :: "string list \<Rightarrow> string \<Rightarrow> PathVerdict option" where
  "protected_loop [] clean = None"
| "protected_loop (p # ps) clean =
     (if prefix ''.github/workflows/'' clean
      then Some \<lparr>pa_requiresApproval = True, pa_hardBlock = False,
        pa_reason = REASON_DYNAMIC_PROMOTION_REQUIRES_APPROVAL,
        pa_issue = ''workflow promotion requires approval''\<rparr>
      else if prefix p clean
      then Some (path_block REASON_DYNAMIC_PROTECTED_TARGET (''protected path: '' @ clean))
      else protected_loop ps clean)"

definition validateTargetPath :: "string \<Rightarrow> PathVerdict" where
  "validateTargetPath path =
     (if path = [] then path_block REASON_DYNAMIC_PATH_OUTSIDE_STAGING ''empty path''
      else if hasControlChars path
      then path_block REASON_DYNAMIC_CONTROL_CHAR ''control characters in path''
      else if CHR 0x00 \<in> set path
      then path_block REASON_DYNAMIC_CONTROL_CHAR ''NUL byte in path''
      else if IsAbs path
      then path_block REASON_DYNAMIC_PATH_OUTSIDE_STAGING ''absolute path is forbidden''
      else
        (let clean = Clean path
         in if clean = ''.'' \<or> clean = []
            then path_block REASON_DYNAMIC_PATH_OUTSIDE_STAGING ''empty cleaned path''
            else if prefix ''../'' clean \<or> clean = ''..'' \<or> sublist ''/../'' clean
            then path_block REASON_DYNAMIC_PATH_TRAVERSAL ''path traversal''
            else (case protected_loop protectedPrefixes clean of
                    Some v \<Rightarrow> v
                  | None \<Rightarrow>
                      if clean \<in> set protectedFiles
                      then path_block REASON_DYNAMIC_PROTECTED_TARGET (''protected file: '' @ clean)
                      else if list_ex (\<lambda>p. prefix p clean) stagingPrefixes
                      then \<lparr>pa_requiresApproval = False, pa_hardBlock = False, pa_reason = [], pa_issue = []\<rparr>
                      else path_block REASON_DYNAMIC_PATH_OUTSIDE_STAGING ''path must be staged first'')))"

definition ValidateStagedTargetPath :: "string \<Rightarrow> PathVerdict" where
  "ValidateStagedTargetPath path = validateTargetPath path"

section \<open>Safe names\<close>

text \<open>An error is its message; \<open>None\<close> is a nil error.\<close>

definition ValidateSafeArtifactName :: "string \<Rightarrow> string option" where
  "ValidateSafeArtifactName raw =
     (let v = TrimSpace raw
      in if v = [] then Some (REASON_DYNAMIC_MANIFEST_MISSING_REQUIRED_FIELD @ '': name'')
         else if ContainsAny v [CHR ''/'', CHR 0x5C]
         then Some (REASON_DYNAMIC_PATH_TRAVERSAL @ '': name contains path separator'')
         else if sublist ''..'' v
         then Some (REASON_DYNAMIC_PATH_TRAVERSAL @ '': name contains parent reference'')
         else if list_ex (\<lambda>r. is_control r \<or> r = CHR 0x7F) v
         then Some (REASON_DYNAMIC_CONTROL_CHAR @ '': name contains control character'')
         else if prefix ''.'' v \<or> prefix ''-'' v
         then Some (REASON_DYNAMIC_PATH_TRAVERSAL @ '': name has reserved prefix'')
         else None)"

definition normalizeSafeName :: "string \<Rightarrow> string + string" where
  "normalizeSafeName raw =
     (let v = TrimSpace raw
      in case ValidateSafeArtifactName v of Some err \<Rightarrow> Inl err | None \<Rightarrow> Inr v)"

section \<open>Staging paths\<close>

definition toolStagingPrefix :: string where
  "toolStagingPrefix = ''.gorkbot/staging/tools''"

definition commandStagingPrefix :: string where
  "commandStagingPrefix = ''.gorkbot/staging/commands''"

definition pythonStagingPrefix :: string where
  "pythonStagingPrefix = ''.gorkbot/staging/python_tools''"

definition newSafeStagingPath :: "string list \<Rightarrow> string + string" where
  "newSafeStagingPath parts =
     (let joined = Join_path parts;
          clean = Clean joined
      in if clean = ''.'' \<or> clean = []
         then Inl (REASON_DYNAMIC_PATH_OUTSIDE_STAGING @ '': empty staging path'')
         else
           (let v = ValidateStagedTargetPath clean
            in if pa_hardBlock v then Inl (pa_reason v @ '': '' @ pa_issue v)
               else if pa_requiresApproval v then Inl (pa_reason v @ '': '' @ pa_issue v)
               else Inr clean))"

definition NewToolStagingPath :: "string \<Rightarrow> string + string" where
  "NewToolStagingPath name =
     (case normalizeSafeName name of
        Inl err \<Rightarrow> Inl err
      | Inr safeName \<Rightarrow> newSafeStagingPath [toolStagingPrefix, safeName @ ''.go''])"

definition NewCommandStagingPath :: "string \<Rightarrow> string + string" where
  "NewCommandStagingPath name =
     (case normalizeSafeName name of
        Inl err \<Rightarrow> Inl err
      | Inr safeName \<Rightarrow> newSafeStagingPath [commandStagingPrefix, safeName @ ''.json''])"

definition NewPythonToolStagingPath :: "string \<Rightarrow> string \<Rightarrow> string + string" where
  "NewPythonToolStagingPath name filename =
     (case normalizeSafeName name of
        Inl err \<Rightarrow> Inl err
      | Inr safeName \<Rightarrow>
          (case normalizeSafeName filename of
             Inl err \<Rightarrow> Inl err
           | Inr safeFile \<Rightarrow> newSafeStagingPath [pythonStagingPrefix, safeName, safeFile]))"

definition StagingPath_Dir :: "string \<Rightarrow> string" where
  "StagingPath_Dir p = Dir p"

section \<open>Lemmas on verdicts\<close>

lemma path_block_sel [simp]:
  "pa_hardBlock (path_block r i)" "\<not> pa_requiresApproval (path_block r i)" "pa_reason (path_block r i) = r"
  "pa_issue (path_block r i) = i"
  by (simp_all add: path_block_def)

lemma protected_loop_cases:
  assumes "protected_loop ps clean = Some v"
  shows "(pa_hardBlock v \<and> \<not> pa_requiresApproval v) \<or>
    (pa_requiresApproval v \<and> \<not> pa_hardBlock v \<and> prefix ''.github/workflows/'' clean)"
  using assms by (induction ps) (auto split: if_splits)

text \<open>An unblocked path passed the guards on its raw and its cleaned form.\<close>

lemma validateTargetPath_open:
  assumes "\<not> pa_hardBlock (validateTargetPath path)"
  shows "\<not> IsAbs path" "\<not> hasControlChars path" "Clean path \<noteq> ''.''"
    "\<not> prefix ''../'' (Clean path)" "Clean path \<noteq> ''..''"
    "(pa_requiresApproval (validateTargetPath path) \<and> prefix ''.github/workflows/'' (Clean path)) \<or>
     (\<not> pa_requiresApproval (validateTargetPath path) \<and>
      list_ex (\<lambda>p. prefix p (Clean path)) stagingPrefixes \<and>
      protected_loop protectedPrefixes (Clean path) = None)"
  using assms
  by (auto simp: validateTargetPath_def Let_def split: if_splits option.splits
      dest: protected_loop_cases)

lemma relative_no_up_proper:
  assumes "\<not> IsAbs path" and "Clean path \<noteq> ''.''" and "\<not> prefix ''../'' (Clean path)"
    and "Clean path \<noteq> ''..''"
  shows "list_all proper (Clean_elems path)" and "Clean_elems path \<noteq> []"
    and "Clean path = join_slash (Clean_elems path)"
proof -
  show ne: "Clean_elems path \<noteq> []" using assms(1,2) by (auto simp: Clean_def)
  then show eq: "Clean path = join_slash (Clean_elems path)" using assms(1) by (simp add: Clean_def)
  have "hd (Clean_elems path) \<noteq> ''..''"
  proof
    assume up: "hd (Clean_elems path) = ''..''"
    with ne obtain es where es: "Clean_elems path = ''..'' # es" by (cases "Clean_elems path") auto
    show False
    proof (cases es)
      case Nil
      with es eq assms(4) show False by simp
    next
      case (Cons f fs)
      with es eq assms(3) show False by simp
    qed
  qed
  then show "list_all proper (Clean_elems path)"
    using clean_shape_no_up [OF Clean_elems_shape] by blast
qed

section \<open>Lemmas on safe names\<close>

lemma normalizeSafeName_eq:
  "normalizeSafeName raw =
     (case ValidateSafeArtifactName raw of Some err \<Rightarrow> Inl err | None \<Rightarrow> Inr (TrimSpace raw))"
  by (simp add: normalizeSafeName_def ValidateSafeArtifactName_def Let_def)

definition safe_elem :: "string \<Rightarrow> bool" where
  "safe_elem e \<longleftrightarrow> proper e \<and> \<not> hasControlChars e"

lemma safe_name_elem:
  assumes "ValidateSafeArtifactName raw = None" and "\<not> hasControlChars ext" and "slashless ext"
    and "ext = [] \<or> last ext \<noteq> CHR ''.''"
  shows "safe_elem (TrimSpace raw @ ext)"
proof -
  let ?v = "TrimSpace raw"
  have v: "?v \<noteq> []" "slashless ?v" "\<not> hasControlChars ?v" "\<not> prefix ''.'' ?v"
    using assms(1)
    by (auto simp: ValidateSafeArtifactName_def Let_def ContainsAny_def list_ex_iff slashless_def
        hasControlChars_def split: if_splits)
  then have "hd (?v @ ext) \<noteq> CHR ''.''" by (cases ?v) auto
  then have "?v @ ext \<noteq> ''.''" "?v @ ext \<noteq> ''..''" by auto
  with v assms(2,3) show ?thesis
    by (auto simp: safe_elem_def proper_def slashless_def hasControlChars_def list_ex_iff)
qed

lemma join_slash_control:
  "list_all safe_elem es \<Longrightarrow> \<not> hasControlChars (join_slash es)"
  by (induction es rule: join_slash.induct)
     (auto simp: safe_elem_def hasControlChars_def is_control_def)

lemma not_hasControlChars_NUL: "\<not> hasControlChars s \<Longrightarrow> CHR 0x00 \<notin> set s"
  by (auto simp: hasControlChars_def list_ex_iff is_control_def)

lemma staged_path_open:
  assumes "list_all safe_elem es" and "prefix ''.gorkbot/staging/'' (join_slash es)"
  shows "newSafeStagingPath [join_slash es] = Inr (join_slash es)"
proof -
  let ?p = "join_slash es"
  have es: "es \<noteq> []" "list_all proper es"
    using assms by (auto simp: safe_elem_def list_all_iff)
  have clean: "Clean ?p = ?p" by (rule Clean_join(2) [OF es])
  from assms(2) obtain r where r: "?p = ''.gorkbot/staging/'' @ r" by (auto simp: prefix_def)
  have "protected_loop protectedPrefixes ?p = None"
    unfolding r by (simp add: protectedPrefixes_def)
  moreover have "?p \<notin> set protectedFiles" unfolding r by (simp add: protectedFiles_def)
  moreover have "list_ex (\<lambda>p. prefix p ?p) stagingPrefixes" unfolding r by (simp add: stagingPrefixes_def)
  moreover have "?p \<noteq> []" "\<not> IsAbs ?p" using join_proper_not_abs [OF es] by auto
  ultimately have "validateTargetPath ?p =
      \<lparr>pa_requiresApproval = False, pa_hardBlock = False, pa_reason = [], pa_issue = []\<rparr>"
    using join_proper_no_up [OF es] join_slash_control [OF assms(1)]
      not_hasControlChars_NUL [OF join_slash_control [OF assms(1)]]
    by (simp add: validateTargetPath_def clean)
  with \<open>?p \<noteq> []\<close> join_proper_no_up(4) [OF es] show ?thesis
    by (simp add: newSafeStagingPath_def Join_path_def ValidateStagedTargetPath_def clean)
qed

lemma Join_path_join:
  assumes "es \<noteq> []" and "\<forall>e \<in> set es. e \<noteq> []"
  shows "newSafeStagingPath es = newSafeStagingPath [join_slash es]"
proof -
  have "filter (\<lambda>e. e \<noteq> []) es = es" using assms(2) by (simp add: filter_id_conv)
  moreover have "join_slash es \<noteq> []" using assms by (cases es rule: join_slash.cases) auto
  ultimately show ?thesis using assms(1) by (simp add: newSafeStagingPath_def Join_path_def)
qed

lemma staged_dir:
  assumes "prefix_dir = join_slash [''.gorkbot'', ''staging'', d]" and "safe_elem d"
    and "es \<noteq> []" and "list_all safe_elem es"
  shows "newSafeStagingPath (prefix_dir # es) = Inr (prefix_dir @ CHR ''/'' # join_slash es)"
proof -
  let ?all = "[''.gorkbot'', ''staging'', d] @ es"
  have lits: "safe_elem ''.gorkbot''" "safe_elem ''staging''"
    by (simp_all add: safe_elem_def proper_def slashless_def hasControlChars_def is_control_def)
  obtain f fs where es: "es = f # fs" using assms(3) by (cases es) auto
  have join: "join_slash (prefix_dir # es) = join_slash ?all"
    "join_slash ?all = prefix_dir @ CHR ''/'' # join_slash es"
    by (simp_all add: assms(1) es)
  have "newSafeStagingPath (prefix_dir # es) = newSafeStagingPath [join_slash (prefix_dir # es)]"
    using assms(4) by (intro Join_path_join) (auto simp: assms(1) list_all_iff safe_elem_def proper_def)
  also have "\<dots> = Inr (join_slash ?all)"
    unfolding join(1)
    by (rule staged_path_open) (use lits assms(2,4) es in auto)
  finally show ?thesis unfolding join(2) .
qed

section \<open>Properties\<close>

text \<open>
  C4. A target path that is not blocked names, once cleaned, a chain of proper elements (no
  \<open>..\<close>, no \<open>.\<close>, nothing empty) below a staging directory, or below
  \<open>.github/workflows/\<close> in which case the validator demands approval; the raw path is relative
  and has no control character.
\<close>

theorem target_paths_stay_staged:
  assumes "\<not> pa_hardBlock (validateTargetPath path)"
  shows "Clean path = join_slash (Clean_elems path) \<and> list_all proper (Clean_elems path) \<and>
    \<not> IsAbs path \<and> \<not> hasControlChars path \<and>
    (if pa_requiresApproval (validateTargetPath path)
     then prefix ''.github/workflows/'' (Clean path)
     else \<exists>p \<in> set stagingPrefixes. prefix p (Clean path))"
  using validateTargetPath_open [OF assms] relative_no_up_proper [of path]
  by (auto simp: list_ex_iff)

lemma target_paths_stay_staged_witness:
  "list_all proper (Clean_elems ''./.gorkbot/x/../staging//tools/t.go'')"
proof -
  have open_path: "\<not> pa_hardBlock (validateTargetPath ''./.gorkbot/x/../staging//tools/t.go'')"
    by code_simp
  show ?thesis by (rule conjunct1 [OF conjunct2 [OF target_paths_stay_staged [OF open_path]]])
qed

text \<open>
  The three constructors of staging paths are total and exact: they fail with the name
  validator's error, or return the fixed staging directory with the trimmed name below it. The
  path checks after the name check never reject a name.
\<close>

theorem staging_path_constructors:
  "NewToolStagingPath name =
     (case ValidateSafeArtifactName name of Some err \<Rightarrow> Inl err
      | None \<Rightarrow> Inr (''.gorkbot/staging/tools/'' @ TrimSpace name @ ''.go'')) \<and>
   NewCommandStagingPath name =
     (case ValidateSafeArtifactName name of Some err \<Rightarrow> Inl err
      | None \<Rightarrow> Inr (''.gorkbot/staging/commands/'' @ TrimSpace name @ ''.json'')) \<and>
   NewPythonToolStagingPath name filename =
     (case ValidateSafeArtifactName name of Some err \<Rightarrow> Inl err
      | None \<Rightarrow> (case ValidateSafeArtifactName filename of Some err \<Rightarrow> Inl err
        | None \<Rightarrow> Inr (''.gorkbot/staging/python_tools/'' @ TrimSpace name @ ''/'' @ TrimSpace filename)))"
proof (intro conjI)
  have dirs: "safe_elem ''tools''" "safe_elem ''commands''" "safe_elem ''python_tools''"
    by (simp_all add: safe_elem_def proper_def slashless_def hasControlChars_def is_control_def)
  have exts: "\<not> hasControlChars ''.go''" "slashless ''.go''" "\<not> hasControlChars ''.json''"
    "slashless ''.json''" "\<not> hasControlChars []" "slashless []"
    by (simp_all add: slashless_def hasControlChars_def is_control_def)
  have elem: "safe_elem (TrimSpace n @ ext)"
    if "ValidateSafeArtifactName n = None" "ext \<in> {''.go'', ''.json'', []}" for n ext
    using that exts by (intro safe_name_elem) auto
  show "NewToolStagingPath name =
     (case ValidateSafeArtifactName name of Some err \<Rightarrow> Inl err
      | None \<Rightarrow> Inr (''.gorkbot/staging/tools/'' @ TrimSpace name @ ''.go''))"
    using staged_dir [of toolStagingPrefix "''tools''" "[TrimSpace name @ ''.go'']"] dirs elem [of name "''.go''"]
    by (auto simp: NewToolStagingPath_def normalizeSafeName_eq toolStagingPrefix_def split: option.split)
  show "NewCommandStagingPath name =
     (case ValidateSafeArtifactName name of Some err \<Rightarrow> Inl err
      | None \<Rightarrow> Inr (''.gorkbot/staging/commands/'' @ TrimSpace name @ ''.json''))"
    using staged_dir [of commandStagingPrefix "''commands''" "[TrimSpace name @ ''.json'']"] dirs
      elem [of name "''.json''"]
    by (auto simp: NewCommandStagingPath_def normalizeSafeName_eq commandStagingPrefix_def
        split: option.split)
  show "NewPythonToolStagingPath name filename =
     (case ValidateSafeArtifactName name of Some err \<Rightarrow> Inl err
      | None \<Rightarrow> (case ValidateSafeArtifactName filename of Some err \<Rightarrow> Inl err
        | None \<Rightarrow> Inr (''.gorkbot/staging/python_tools/'' @ TrimSpace name @ ''/'' @ TrimSpace filename)))"
    using staged_dir [of pythonStagingPrefix "''python_tools''" "[TrimSpace name, TrimSpace filename]"] dirs
      elem [of name "[]"] elem [of filename "[]"]
    by (auto simp: NewPythonToolStagingPath_def normalizeSafeName_eq pythonStagingPrefix_def
        split: option.split)
qed

end
