(* ===== verification/SelfmodManifest.thy ===== *)
theory SelfmodManifest
  imports SelfmodPaths
begin

text \<open>
  Capabilities, manifests and the static scan of generated code: \<open>pkg/selfmod/capability.go\<close>,
  \<open>manifest.go\<close> and \<open>static_scan.go\<close>. JSON is a parameter (\<open>Codec\<close>), and so are Go's
  parser and \<open>strconv.Unquote\<close> (\<open>GoParser\<close>). A Go error is its message.
\<close>

section \<open>Capabilities\<close>

definition allowedCapabilities :: "string list" where
  "allowedCapabilities = [''dynamic.skill.stage'', ''dynamic.workflow.stage'',
     ''dynamic.puter.app.stage'', ''dynamic.puter.app.preview'', ''dynamic.vcse.submit'']"

definition approvalCapabilities :: "string list" where
  "approvalCapabilities = [''dynamic.write_file'', ''dynamic.tool.register'',
     ''dynamic.tool.execute'', ''dynamic.workflow.execute'', ''dynamic.git.write'',
     ''dynamic.delete_file'', ''dynamic.network.fetch'', ''dynamic.hook.install'',
     ''dynamic.puter.hosting.publish'', ''dynamic.skill.promote'']"

definition blockedCapabilities :: "string list" where
  "blockedCapabilities = [''dynamic.credentials.read'', ''dynamic.network.private'',
     ''dynamic.exec'', ''dynamic.host.bridge'', ''dynamic.policy.modify'',
     ''dynamic.governance.modify'', ''dynamic.vcse.promote'', ''dynamic.git.push'']"

definition normalizeCapability :: "string \<Rightarrow> string" where
  "normalizeCapability raw =
     (let v = TrimSpace (ToLower raw);
          v = ReplaceAll ''_'' ''.'' v;
          v = ReplaceAll '' '' [] v
      in v)"

record CapVerdict =
  cv_requiresApproval :: bool
  cv_hardBlock :: bool
  cv_reason :: string
  cv_issues :: "string list"

fun classify_caps_loop :: "bool \<Rightarrow> string list \<Rightarrow> string list \<Rightarrow> CapVerdict" where
  "classify_caps_loop requiresApproval issues [] =
     (if requiresApproval
      then \<lparr>cv_requiresApproval = True, cv_hardBlock = False,
        cv_reason = REASON_DYNAMIC_CAPABILITY_REQUIRES_APPROVAL, cv_issues = issues\<rparr>
      else \<lparr>cv_requiresApproval = False, cv_hardBlock = False, cv_reason = [], cv_issues = []\<rparr>)"
| "classify_caps_loop requiresApproval issues (cap # caps) =
     (let c = normalizeCapability cap
      in if c \<in> set blockedCapabilities
         then \<lparr>cv_requiresApproval = False, cv_hardBlock = True,
           cv_reason = REASON_DYNAMIC_CAPABILITY_FORBIDDEN, cv_issues = [c]\<rparr>
         else if c \<in> set approvalCapabilities
         then classify_caps_loop True (issues @ [c]) caps
         else if c \<in> set allowedCapabilities
         then classify_caps_loop requiresApproval issues caps
         else \<lparr>cv_requiresApproval = False, cv_hardBlock = True,
           cv_reason = REASON_DYNAMIC_CAPABILITY_FORBIDDEN,
           cv_issues = [''unknown capability: '' @ c]\<rparr>)"

definition classifyCapabilities :: "string list \<Rightarrow> CapVerdict" where
  "classifyCapabilities caps = classify_caps_loop False [] caps"

section \<open>Manifests\<close>

definition allowedKinds :: "string list" where
  "allowedKinds = [''dynamic_tool'', ''generated_skill'', ''generated_workflow'',
     ''generated_hook'', ''generated_script'', ''generated_puter_app'', ''tool_plugin_manifest'',
     ''passive_documentation'']"

definition ArtifactDocs :: string where
  "ArtifactDocs = ''passive_documentation''"

record SelfModificationManifest =
  sm_name :: string
  sm_version :: string
  sm_description :: string
  sm_kind :: string
  sm_riskClass :: string
  sm_capabilities :: "string list"
  sm_targetPaths :: "string list"
  sm_entrypoints :: "string list"
  sm_expectedEffects :: "string list"
  sm_rollbackPlan :: string
  sm_tests :: "string list"
  sm_provenance :: "gomap option"
  sm_raw :: gomap

text \<open>
  \<open>copyMap\<close> goes through JSON and ignores both errors: a failed encoding gives no bytes, and
  decoding them fails and leaves the empty map.
\<close>

definition copyMap :: "Codec \<Rightarrow> gomap \<Rightarrow> gomap" where
  "copyMap H m =
     (case c_Marshal H (VMap m) of
        None \<Rightarrow> []
      | Some b \<Rightarrow> (case c_Unmarshal H b of Inl err \<Rightarrow> [] | Inr out \<Rightarrow> out))"

definition Manifest_Raw :: "Codec \<Rightarrow> SelfModificationManifest \<Rightarrow> gomap" where
  "Manifest_Raw H m = copyMap H (sm_raw m)"

definition IsMutating :: "SelfModificationManifest \<Rightarrow> bool" where
  "IsMutating m \<longleftrightarrow> sm_kind m \<noteq> ArtifactDocs"

definition newArtifactName :: "string \<Rightarrow> string + string" where
  "newArtifactName raw =
     (let v = TrimSpace raw
      in if v = [] then Inl (REASON_DYNAMIC_MANIFEST_MISSING_REQUIRED_FIELD @ '': name'') else Inr v)"

definition newArtifactPath :: "string \<Rightarrow> string + string" where
  "newArtifactPath raw =
     (let v = TrimSpace raw
      in if v = [] then Inl (REASON_DYNAMIC_MANIFEST_MISSING_REQUIRED_FIELD @ '': target_paths'')
         else Inr v)"

definition trimmed_strings :: "string list \<Rightarrow> string list" where
  "trimmed_strings t = filter (\<lambda>v. v \<noteq> []) (map TrimSpace t)"

fun parseStringList :: "any \<Rightarrow> string list" where
  "parseStringList (VStrs t) = trimmed_strings t"
| "parseStringList (VList t) =
     trimmed_strings (List.map_filter (\<lambda>item. as_string (Some item)) t)"
| "parseStringList (VStr t) = trimmed_strings [t]"
| "parseStringList _ = []"

definition toCapabilities :: "string list \<Rightarrow> string list" where
  "toCapabilities raw = map normalizeCapability raw"

definition parseRawManifest :: "Codec \<Rightarrow> any \<Rightarrow> string + gomap" where
  "parseRawManifest H raw =
     (case raw of
        VMap t \<Rightarrow> if t = [] then Inl REASON_DYNAMIC_MANIFEST_MISSING else Inr (copyMap H t)
      | VStr t \<Rightarrow>
          (let trimmed = TrimSpace t
           in if trimmed = [] then Inl REASON_DYNAMIC_MANIFEST_MISSING
              else (case c_Unmarshal H trimmed of
                      Inl err \<Rightarrow> Inl (REASON_DYNAMIC_MANIFEST_INVALID_JSON @ '': '' @ err)
                    | Inr out \<Rightarrow>
                        if out = [] then Inl REASON_DYNAMIC_MANIFEST_MISSING else Inr out))
      | _ \<Rightarrow> Inl REASON_DYNAMIC_MANIFEST_INVALID_JSON)"

text \<open>The zero value of a failed type assertion and of a missing key.\<close>

definition string_field :: "gomap \<Rightarrow> string \<Rightarrow> string" where
  "string_field m k = (case as_string (map_of m k) of None \<Rightarrow> [] | Some s \<Rightarrow> s)"

definition any_field :: "gomap \<Rightarrow> string \<Rightarrow> any" where
  "any_field m k = (case map_of m k of None \<Rightarrow> VNil | Some v \<Rightarrow> v)"

definition missing_field :: "string \<Rightarrow> string + 'a" where
  "missing_field f = Inl (REASON_DYNAMIC_MANIFEST_MISSING_REQUIRED_FIELD @ '': '' @ f)"

fun target_paths_loop :: "string list \<Rightarrow> string + string list" where
  "target_paths_loop [] = Inr []"
| "target_paths_loop (p # ps) =
     (case newArtifactPath p of
        Inl err \<Rightarrow> Inl err
      | Inr v \<Rightarrow> (case target_paths_loop ps of Inl err \<Rightarrow> Inl err | Inr vs \<Rightarrow> Inr (v # vs)))"

definition ParseManifest :: "Codec \<Rightarrow> any \<Rightarrow> string + SelfModificationManifest" where
  "ParseManifest H raw =
     (case parseRawManifest H raw of Inl err \<Rightarrow> Inl err | Inr decoded \<Rightarrow>
      case newArtifactName (string_field decoded ''name'') of Inl err \<Rightarrow> Inl err | Inr n \<Rightarrow>
      (let kind = TrimSpace (string_field decoded ''artifact_kind'');
           riskClass = string_field decoded ''risk_class'';
           caps = parseStringList (any_field decoded ''capabilities'');
           pathVals = parseStringList (any_field decoded ''target_paths'');
           effects = parseStringList (any_field decoded ''expected_effects'');
           rollback = string_field decoded ''rollback_plan''
       in if kind \<notin> set allowedKinds then missing_field ''artifact_kind''
          else if TrimSpace riskClass = [] then missing_field ''risk_class''
          else if map_of decoded ''capabilities'' = None then missing_field ''capabilities''
          else if caps = [] \<and> kind \<noteq> ArtifactDocs then missing_field ''capabilities''
          else if map_of decoded ''target_paths'' = None then missing_field ''target_paths''
          else if pathVals = [] \<and> kind \<noteq> ArtifactDocs then missing_field ''target_paths''
          else (case target_paths_loop pathVals of Inl err \<Rightarrow> Inl err | Inr targetPaths \<Rightarrow>
            if kind \<noteq> ArtifactDocs \<and> effects = [] then missing_field ''expected_effects''
            else if kind \<noteq> ArtifactDocs \<and> TrimSpace rollback = [] then missing_field ''rollback_plan''
            else Inr
              \<lparr>sm_name = n,
               sm_version = TrimSpace (string_field decoded ''version''),
               sm_description = TrimSpace (string_field decoded ''description''),
               sm_kind = kind,
               sm_riskClass = TrimSpace riskClass,
               sm_capabilities = toCapabilities caps,
               sm_targetPaths = targetPaths,
               sm_entrypoints = parseStringList (any_field decoded ''entrypoints''),
               sm_expectedEffects = effects,
               sm_rollbackPlan = TrimSpace rollback,
               sm_tests = parseStringList (any_field decoded ''tests''),
               sm_provenance = (case map_of decoded ''provenance'' of
                  Some (VMap p) \<Rightarrow> Some (copyMap H p) | _ \<Rightarrow> None),
               sm_raw = decoded\<rparr>)))"

definition manifest_keys :: "string list" where
  "manifest_keys = [''manifest'', ''tool_manifest'', ''governance_manifest'']"

fun first_present :: "string list \<Rightarrow> params \<Rightarrow> any option" where
  "first_present [] ps = None"
| "first_present (k # ks) ps =
     (case map_get ps k of Some raw \<Rightarrow> Some raw | None \<Rightarrow> first_present ks ps)"

definition ExtractManifest :: "Codec \<Rightarrow> params \<Rightarrow> string + SelfModificationManifest" where
  "ExtractManifest H ps =
     (if ps = None then Inl REASON_DYNAMIC_MANIFEST_MISSING
      else (case first_present manifest_keys ps of
              Some raw \<Rightarrow> ParseManifest H raw
            | None \<Rightarrow> Inl REASON_DYNAMIC_MANIFEST_MISSING))"

section \<open>Static scan\<close>

text \<open>
  What the scan reads of a syntax tree: function declarations (with a receiver or not), calls
  of the form \<open>ident.sel(...)\<close>, and every other node. \<open>ast.Inspect\<close> visits in preorder.
\<close>

datatype go_kind = KFunc bool string | KCall string string | KOther

datatype go_node = GoNode go_kind "go_node list"

record GoImport =
  gi_Name :: "string option"
  gi_Path :: string

record GoFile =
  gf_Imports :: "GoImport list"
  gf_Root :: go_node

record GoParser =
  gp_Parse :: "string \<Rightarrow> string + GoFile"
  gp_Unquote :: "string \<Rightarrow> string option"

record StaticScanResult =
  ss_Allowed :: bool
  ss_ReasonCode :: string
  ss_Issues :: "string list"

definition scan_block :: "string \<Rightarrow> string \<Rightarrow> StaticScanResult" where
  "scan_block reason issue = \<lparr>ss_Allowed = False, ss_ReasonCode = reason, ss_Issues = [issue]\<rparr>"

definition forbiddenImports :: "string \<rightharpoonup> string" where
  "forbiddenImports =
     [''unsafe'' \<mapsto> REASON_DYNAMIC_IMPORT_FORBIDDEN, ''syscall'' \<mapsto> REASON_DYNAMIC_IMPORT_FORBIDDEN,
      ''os/exec'' \<mapsto> REASON_DYNAMIC_EXEC_FORBIDDEN, ''plugin'' \<mapsto> REASON_DYNAMIC_IMPORT_FORBIDDEN]"

definition network_packages :: "string list" where
  "network_packages = [''net'', ''net/http'', ''net/url'']"

fun scan_imports :: "GoParser \<Rightarrow> string list \<Rightarrow> GoImport list \<Rightarrow> StaticScanResult option" where
  "scan_imports P capSet [] = None"
| "scan_imports P capSet (imp # imps) =
     (case gp_Unquote P (gi_Path imp) of
        None \<Rightarrow> scan_imports P capSet imps
      | Some path \<Rightarrow>
          if gi_Name imp = Some ''.''
          then Some (scan_block REASON_DYNAMIC_IMPORT_FORBIDDEN (''dot import is forbidden: '' @ path))
          else (case forbiddenImports path of
                  Some reason \<Rightarrow> Some (scan_block reason (''forbidden import: '' @ path))
                | None \<Rightarrow>
                    if path \<in> set network_packages \<and> ''dynamic.network.fetch'' \<notin> set capSet
                    then Some (scan_block REASON_DYNAMIC_NETWORK_FORBIDDEN
                      (''missing capability for import: '' @ path))
                    else scan_imports P capSet imps))"

definition http_calls :: "string list" where
  "http_calls = [''http.NewRequest'', ''http.NewRequestWithContext'', ''http.DefaultClient'',
     ''http.Get'', ''http.Post'']"

definition write_calls :: "string list" where
  "write_calls = [''os.WriteFile'', ''os.Create'', ''os.Symlink'', ''os.Link'', ''os.Rename'',
     ''os.Mkdir'', ''os.MkdirAll'', ''os.Chmod'', ''os.Chown'', ''os.Truncate'']"

definition env_calls :: "string list" where
  "env_calls = [''os.Getenv'', ''os.LookupEnv'', ''os.Environ'', ''os.Setenv'']"

text \<open>The reason and the issue; \<open>None\<close> is the pair of empty strings.\<close>

definition classifyCall :: "string list \<Rightarrow> string \<Rightarrow> string \<Rightarrow> (string \<times> string) option" where
  "classifyCall caps pkg sel =
     (let n = pkg @ ''.'' @ sel
      in if n \<in> set [''exec.Command'', ''exec.CommandContext'']
         then Some (REASON_DYNAMIC_EXEC_FORBIDDEN, ''process execution is forbidden'')
         else if n \<in> set http_calls
         then (if ''dynamic.network.fetch'' \<notin> set caps
               then Some (REASON_DYNAMIC_NETWORK_FORBIDDEN, ''network call without dynamic.network.fetch'')
               else None)
         else if n \<in> set [''os.Remove'', ''os.RemoveAll'']
         then (if ''dynamic.delete_file'' \<notin> set caps
               then Some (REASON_DYNAMIC_CAPABILITY_FORBIDDEN, ''file delete sink requires dynamic.delete_file'')
               else None)
         else if n \<in> set write_calls
         then (if ''dynamic.write_file'' \<notin> set caps
               then Some (REASON_DYNAMIC_CAPABILITY_FORBIDDEN, ''file mutation sink requires dynamic.write_file'')
               else None)
         else if n \<in> set [''os.Open'', ''os.ReadFile'']
         then (if ''dynamic.read_file'' \<notin> set caps
               then Some (REASON_DYNAMIC_CAPABILITY_FORBIDDEN, ''file read sink requires dynamic.read_file'')
               else None)
         else if n \<in> set env_calls
         then Some (REASON_DYNAMIC_CREDENTIAL_ACCESS_FORBIDDEN,
           ''environment variable access is forbidden in generated code'')
         else if n = ''os.Exit''
         then Some (REASON_DYNAMIC_EXEC_FORBIDDEN, ''process termination is forbidden in generated code'')
         else if n = ''os.Hostname''
         then Some (REASON_DYNAMIC_CREDENTIAL_ACCESS_FORBIDDEN,
           ''host environment access is forbidden in generated code'')
         else None)"

fun node_issue :: "string list \<Rightarrow> go_kind \<Rightarrow> (string \<times> string) option" where
  "node_issue caps (KFunc recv name) =
     (if \<not> recv \<and> name = ''init''
      then Some (REASON_DYNAMIC_INIT_FORBIDDEN, ''init function is forbidden'') else None)"
| "node_issue caps (KCall pkg sel) = classifyCall caps pkg sel"
| "node_issue caps KOther = None"

text \<open>The walk: the first issue found stops it.\<close>

fun scan_node :: "string list \<Rightarrow> go_node \<Rightarrow> (string \<times> string) option"
  and scan_nodes :: "string list \<Rightarrow> go_node list \<Rightarrow> (string \<times> string) option" where
  "scan_node caps (GoNode k children) =
     (case node_issue caps k of Some i \<Rightarrow> Some i | None \<Rightarrow> scan_nodes caps children)"
| "scan_nodes caps [] = None"
| "scan_nodes caps (n # ns) =
     (case scan_node caps n of Some i \<Rightarrow> Some i | None \<Rightarrow> scan_nodes caps ns)"

definition StaticScanGoSource :: "GoParser \<Rightarrow> string \<Rightarrow> string list \<Rightarrow> StaticScanResult" where
  "StaticScanGoSource P source caps =
     (case gp_Parse P source of
        Inl err \<Rightarrow> scan_block REASON_DYNAMIC_STATIC_SCAN_FAILED err
      | Inr file \<Rightarrow>
          (let capSet = map normalizeCapability caps
           in case scan_imports P capSet (gf_Imports file) of
                Some r \<Rightarrow> r
              | None \<Rightarrow>
                  (case scan_node capSet (gf_Root file) of
                     Some (reason, issue) \<Rightarrow> scan_block reason issue
                   | None \<Rightarrow> \<lparr>ss_Allowed = True, ss_ReasonCode = [], ss_Issues = []\<rparr>)))"

section \<open>Lemmas\<close>

lemma normalizeCapability_no_underscore: "CHR ''_'' \<notin> set (normalizeCapability raw)"
  by (auto simp: normalizeCapability_def Let_def ReplaceAll_char ReplaceAll_delete)

lemma capability_tables_disjoint:
  "set blockedCapabilities \<inter> set (approvalCapabilities @ allowedCapabilities) = {}"
  by (simp add: blockedCapabilities_def approvalCapabilities_def allowedCapabilities_def)

definition known_capability :: "string \<Rightarrow> bool" where
  "known_capability cap \<longleftrightarrow>
     normalizeCapability cap \<in> set (approvalCapabilities @ allowedCapabilities)"

definition approval_capability :: "string \<Rightarrow> bool" where
  "approval_capability cap \<longleftrightarrow> normalizeCapability cap \<in> set approvalCapabilities"

lemma classify_caps_loop_verdict:
  "cv_hardBlock (classify_caps_loop r is caps) = (\<not> list_all known_capability caps) \<and>
   cv_requiresApproval (classify_caps_loop r is caps) =
     (list_all known_capability caps \<and> (r \<or> list_ex approval_capability caps)) \<and>
   cv_reason (classify_caps_loop r is caps) =
     (if \<not> list_all known_capability caps then REASON_DYNAMIC_CAPABILITY_FORBIDDEN
      else if r \<or> list_ex approval_capability caps
      then REASON_DYNAMIC_CAPABILITY_REQUIRES_APPROVAL else [])"
proof (induction r "is" caps rule: classify_caps_loop.induct)
  case (2 r "is" cap caps)
  let ?c = "normalizeCapability cap"
  consider (blocked) "?c \<in> set blockedCapabilities"
    | (approval) "?c \<notin> set blockedCapabilities" "?c \<in> set approvalCapabilities"
    | (allowed) "?c \<notin> set blockedCapabilities" "?c \<notin> set approvalCapabilities" "?c \<in> set allowedCapabilities"
    | (unknown) "?c \<notin> set blockedCapabilities" "?c \<notin> set approvalCapabilities" "?c \<notin> set allowedCapabilities"
    by blast
  then show ?case
  proof cases
    case blocked
    then have "\<not> known_capability cap" using capability_tables_disjoint by (auto simp: known_capability_def)
    with blocked show ?thesis by (simp add: Let_def)
  next
    case approval
    then have "known_capability cap" "approval_capability cap"
      by (simp_all add: known_capability_def approval_capability_def)
    with approval 2(1) [OF refl approval] show ?thesis by (simp add: Let_def)
  next
    case allowed
    then have "known_capability cap" "\<not> approval_capability cap"
      by (simp_all add: known_capability_def approval_capability_def)
    with allowed 2(2) [OF refl allowed] show ?thesis by (simp add: Let_def)
  next
    case unknown
    then have "\<not> known_capability cap" by (simp add: known_capability_def)
    with unknown show ?thesis by (simp add: Let_def)
  qed
qed simp

text \<open>The kinds of the nodes of a tree, in preorder.\<close>

fun node_kinds :: "go_node \<Rightarrow> go_kind list"
  and nodes_kinds :: "go_node list \<Rightarrow> go_kind list" where
  "node_kinds (GoNode k children) = k # nodes_kinds children"
| "nodes_kinds [] = []"
| "nodes_kinds (n # ns) = node_kinds n @ nodes_kinds ns"

lemma scan_node_None:
  "scan_node caps n = None \<longleftrightarrow> list_all (\<lambda>k. node_issue caps k = None) (node_kinds n)"
  "scan_nodes caps ns = None \<longleftrightarrow> list_all (\<lambda>k. node_issue caps k = None) (nodes_kinds ns)"
  by (induction caps n and caps ns rule: scan_node_scan_nodes.induct)
     (auto split: option.splits)

definition import_ok :: "GoParser \<Rightarrow> string list \<Rightarrow> GoImport \<Rightarrow> bool" where
  "import_ok P caps imp \<longleftrightarrow>
     (case gp_Unquote P (gi_Path imp) of
        None \<Rightarrow> True
      | Some path \<Rightarrow>
          gi_Name imp \<noteq> Some ''.'' \<and> forbiddenImports path = None \<and>
          (path \<in> set network_packages \<longrightarrow> ''dynamic.network.fetch'' \<in> set caps))"

lemma forbiddenImports_None: "forbiddenImports path = None \<longleftrightarrow> path \<notin> {''unsafe'', ''syscall'', ''os/exec'', ''plugin''}"
  by (auto simp: forbiddenImports_def)

lemma scan_imports_None: "scan_imports P caps imps = None \<longleftrightarrow> list_all (import_ok P caps) imps"
  by (induction imps) (auto simp: import_ok_def split: option.splits)

lemma scan_imports_Some: "scan_imports P caps imps = Some r \<Longrightarrow> \<not> ss_Allowed r"
  by (induction imps) (auto simp: scan_block_def split: option.splits if_splits)

lemma scan_block_sel [simp]:
  "\<not> ss_Allowed (scan_block r i)" "ss_ReasonCode (scan_block r i) = r"
  by (simp_all add: scan_block_def)

lemma StaticScan_allowed:
  "ss_Allowed (StaticScanGoSource P source caps) \<longleftrightarrow>
     (\<exists>file. gp_Parse P source = Inr file \<and>
        list_all (import_ok P (map normalizeCapability caps)) (gf_Imports file) \<and>
        list_all (\<lambda>k. node_issue (map normalizeCapability caps) k = None) (node_kinds (gf_Root file)))"
  unfolding scan_imports_None [symmetric] scan_node_None [symmetric]
  by (auto simp: StaticScanGoSource_def Let_def split: sum.splits option.splits dest: scan_imports_Some)

lemma no_file_capability:
  assumes "c \<in> {''dynamic.write_file'', ''dynamic.delete_file'', ''dynamic.read_file''}"
  shows "c \<notin> set (map normalizeCapability caps)"
proof
  assume "c \<in> set (map normalizeCapability caps)"
  then obtain raw where "c = normalizeCapability raw" by auto
  with normalizeCapability_no_underscore [of raw] have "CHR ''_'' \<notin> set c" by simp
  with assms show False by auto
qed

definition file_sink_calls :: "string list" where
  "file_sink_calls = write_calls @ [''os.Remove'', ''os.RemoveAll'', ''os.Open'', ''os.ReadFile'']"

definition always_forbidden_calls :: "string list" where
  "always_forbidden_calls =
     [''exec.Command'', ''exec.CommandContext'', ''os.Exit'', ''os.Hostname''] @ env_calls"

lemma call_tables_disjoint:
  "set always_forbidden_calls \<inter> set (http_calls @ file_sink_calls) = {}"
  "set file_sink_calls \<inter> set http_calls = {}"
  by (simp_all add: always_forbidden_calls_def http_calls_def file_sink_calls_def write_calls_def
      env_calls_def)

lemma classifyCall_None:
  assumes "classifyCall (map normalizeCapability caps) pkg sel = None"
  shows "pkg @ ''.'' @ sel \<notin> set always_forbidden_calls"
    and "pkg @ ''.'' @ sel \<notin> set file_sink_calls"
    and "pkg @ ''.'' @ sel \<in> set http_calls \<longrightarrow> ''dynamic.network.fetch'' \<in> set (map normalizeCapability caps)"
proof -
  define n where "n = pkg @ ''.'' @ sel"
  have files: "''dynamic.write_file'' \<notin> set (map normalizeCapability caps)"
    "''dynamic.delete_file'' \<notin> set (map normalizeCapability caps)"
    "''dynamic.read_file'' \<notin> set (map normalizeCapability caps)"
    by (rule no_file_capability; simp)+
  note c = assms [unfolded classifyCall_def Let_def n_def [symmetric]]
  show "n \<in> set http_calls \<longrightarrow> ''dynamic.network.fetch'' \<in> set (map normalizeCapability caps)"
    using c by (auto split: if_splits)
  show sinks: "n \<notin> set file_sink_calls"
    using c files call_tables_disjoint(2) by (auto simp: file_sink_calls_def split: if_splits)
  show "n \<notin> set always_forbidden_calls"
    using c call_tables_disjoint(1) sinks
    by (auto simp: always_forbidden_calls_def file_sink_calls_def split: if_splits)
qed

section \<open>Properties\<close>

text \<open>
  The verdict on a list of capabilities does not depend on its order: it is a hard block
  exactly when some capability, once normalised, is in neither the approval nor the allowed
  table; otherwise approval is required exactly when one is in the approval table.
\<close>

theorem capability_verdict:
  "cv_hardBlock (classifyCapabilities caps) = (\<not> list_all known_capability caps) \<and>
   cv_requiresApproval (classifyCapabilities caps) =
     (list_all known_capability caps \<and> list_ex approval_capability caps) \<and>
   cv_reason (classifyCapabilities caps) =
     (if \<not> list_all known_capability caps then REASON_DYNAMIC_CAPABILITY_FORBIDDEN
      else if list_ex approval_capability caps
      then REASON_DYNAMIC_CAPABILITY_REQUIRES_APPROVAL else [])"
  unfolding classifyCapabilities_def using classify_caps_loop_verdict [of False "[]" caps] by simp

text \<open>
  The capabilities with an underscore in their name can never be granted:
  \<open>normalizeCapability\<close> turns every underscore into a dot, so a manifest that declares
  \<open>dynamic.write_file\<close>, \<open>dynamic.delete_file\<close> or \<open>dynamic.read_file\<close> is blocked as
  having an unknown capability, although the approval table lists the first two, and the static
  scan rejects a file sink whatever the manifest declares.
\<close>

theorem file_capabilities_unreachable:
  "cv_hardBlock (classifyCapabilities (xs @ [''dynamic.write_file''] @ ys)) \<and>
   cv_hardBlock (classifyCapabilities (xs @ [''dynamic.delete_file''] @ ys)) \<and>
   cv_hardBlock (classifyCapabilities (xs @ [''dynamic.read_file''] @ ys)) \<and>
   classifyCall (map normalizeCapability caps) ''os'' ''WriteFile'' \<noteq> None \<and>
   classifyCall (map normalizeCapability caps) ''os'' ''Remove'' \<noteq> None \<and>
   classifyCall (map normalizeCapability caps) ''os'' ''ReadFile'' \<noteq> None"
proof -
  have "\<not> known_capability ''dynamic.write_file''" "\<not> known_capability ''dynamic.delete_file''"
    "\<not> known_capability ''dynamic.read_file''"
    by code_simp+
  moreover have "''dynamic.write_file'' \<notin> set (map normalizeCapability caps)"
    "''dynamic.delete_file'' \<notin> set (map normalizeCapability caps)"
    "''dynamic.read_file'' \<notin> set (map normalizeCapability caps)"
    by (rule no_file_capability; simp)+
  ultimately show ?thesis
    using classify_caps_loop_verdict [of False "[]"]
    by (simp add: classifyCapabilities_def classifyCall_def http_calls_def write_calls_def)
qed

text \<open>
  C14. Generated source that the static scan allows parses, imports none of the forbidden
  packages, has no dot import, declares no \<open>init\<close> function, and contains, anywhere in its
  tree, no call by name of a process, environment, termination or file function; network imports
  and calls appear only with the network capability.
\<close>

theorem static_scan_safety:
  assumes "ss_Allowed (StaticScanGoSource P source caps)"
  shows "\<exists>file. gp_Parse P source = Inr file \<and>
    list_all (import_ok P (map normalizeCapability caps)) (gf_Imports file) \<and>
    KFunc False ''init'' \<notin> set (node_kinds (gf_Root file)) \<and>
    (\<forall>pkg sel. KCall pkg sel \<in> set (node_kinds (gf_Root file)) \<longrightarrow>
       pkg @ ''.'' @ sel \<notin> set (always_forbidden_calls @ file_sink_calls) \<and>
       (pkg @ ''.'' @ sel \<in> set http_calls \<longrightarrow>
          list_ex (\<lambda>c. normalizeCapability c = ''dynamic.network.fetch'') caps))"
proof -
  from assms obtain "file" where p: "gp_Parse P source = Inr file"
    and i: "list_all (import_ok P (map normalizeCapability caps)) (gf_Imports file)"
    and n: "list_all (\<lambda>k. node_issue (map normalizeCapability caps) k = None) (node_kinds (gf_Root file))"
    unfolding StaticScan_allowed by blast
  have "KFunc False ''init'' \<notin> set (node_kinds (gf_Root file))"
    using n by (auto simp: list_all_iff dest: bspec)
  moreover have "pkg @ ''.'' @ sel \<notin> set (always_forbidden_calls @ file_sink_calls) \<and>
      (pkg @ ''.'' @ sel \<in> set http_calls \<longrightarrow>
         list_ex (\<lambda>c. normalizeCapability c = ''dynamic.network.fetch'') caps)"
    if "KCall pkg sel \<in> set (node_kinds (gf_Root file))" for pkg sel
  proof -
    have "classifyCall (map normalizeCapability caps) pkg sel = None"
      using n that by (fastforce simp: list_all_iff)
    from classifyCall_None [OF this] show ?thesis by (auto simp: list_ex_iff)
  qed
  ultimately show ?thesis using p i by blast
qed

definition scan_example :: GoParser where
  "scan_example =
     \<lparr>gp_Parse = (\<lambda>s. Inr \<lparr>gf_Imports = [\<lparr>gi_Name = None, gi_Path = ''fmt''\<rparr>],
        gf_Root = GoNode KOther [GoNode (KFunc False ''run'') [GoNode (KCall ''fmt'' ''Println'') []]]\<rparr>),
      gp_Unquote = (\<lambda>s. Some s)\<rparr>"

lemma static_scan_safety_witness:
  "\<exists>file. gp_Parse scan_example ''package g'' = Inr file \<and>
     KFunc False ''init'' \<notin> set (node_kinds (gf_Root file))"
proof -
  have "ss_Allowed (StaticScanGoSource scan_example ''package g'' [])"
    by (simp add: StaticScanGoSource_def scan_example_def forbiddenImports_def network_packages_def
        classifyCall_def http_calls_def write_calls_def env_calls_def)
  from static_scan_safety [OF this] show ?thesis by blast
qed

end
