(* ===== verification/Trace.thy ===== *)
theory Trace
  imports GoValues "HOL-Library.AList"
begin

text \<open>
  The canonical trace of \<open>pkg/trace\<close>: bounded references, metadata with redaction, events and
  their normalisation, validation and emission. UUIDs and instants are arguments. A Go map of
  metadata is an association list in the order in which one iteration visits it; a nil and an
  empty slice or map are the same list, as no code tells them apart.
\<close>

definition truncateString :: "string \<Rightarrow> int \<Rightarrow> string" where
  "truncateString s mx =
     (if mx \<le> 0 then [] else if int (length s) \<le> mx then s else take (nat mx) s)"

definition RedactString :: "string \<Rightarrow> int \<Rightarrow> string" where
  "RedactString raw maxLen =
     (let trimmed = TrimSpace raw
      in if maxLen \<le> 0 then []
         else if int (length trimmed) \<le> maxLen then trimmed
         else take (nat maxLen) trimmed)"

definition sensitiveNeedles :: "string list" where
  "sensitiveNeedles = [''token'', ''secret'', ''password'', ''passwd'', ''authorization'', ''cookie'',
     ''api_key'', ''bearer'', ''credential'', ''private_key'', ''access_key'', ''refresh_token'',
     ''session'']"

definition IsSensitiveKey :: "string \<Rightarrow> bool" where
  "IsSensitiveKey key =
     (let norm = ReplaceAll ''-'' ''_'' (ToLower (TrimSpace key))
      in list_ex (\<lambda>needle. norm = needle \<or> sublist needle norm) sensitiveNeedles)"

section \<open>Operators and references\<close>

definition validOperators :: "string list" where
  "validOperators = [''classify'', ''retrieve'', ''plan'', ''execute'', ''verify'', ''repair'',
     ''escalate'', ''summarize'', ''stage'', ''promote'', ''reject'', ''unknown'']"

definition Operator_Valid :: "string \<Rightarrow> bool" where
  "Operator_Valid op = (op \<in> set validOperators)"

definition NormalizeOperator :: "string \<Rightarrow> string" where
  "NormalizeOperator raw =
     (let op = ToLower (TrimSpace raw) in if \<not> Operator_Valid op then ''unknown'' else op)"

record Ref =
  r_Kind :: string
  r_Ref :: string
  r_Hash :: string
  r_SizeBytes :: int

definition NewRef :: "string \<Rightarrow> string \<Rightarrow> string \<Rightarrow> int \<Rightarrow> Ref" where
  "NewRef kind ref hash sizeBytes =
     \<lparr>r_Kind = RedactString kind 32, r_Ref = RedactString ref 256, r_Hash = RedactString hash 128,
      r_SizeBytes = sizeBytes\<rparr>"

definition bound_ref :: "Ref \<Rightarrow> Ref" where
  "bound_ref r =
     \<lparr>r_Kind = truncateString (TrimSpace (r_Kind r)) 32,
      r_Ref = truncateString (TrimSpace (r_Ref r)) 256,
      r_Hash = truncateString (TrimSpace (r_Hash r)) 128,
      r_SizeBytes = (if r_SizeBytes r < 0 then 0 else r_SizeBytes r)\<rparr>"

definition boundRefs :: "Ref list \<Rightarrow> Ref list" where
  "boundRefs rs = filter (\<lambda>r. r_Ref r \<noteq> []) (map bound_ref (take 64 rs))"

section \<open>Metadata\<close>

type_synonym metadata = "(string \<times> string) list"

text \<open>The loop over the input map, with the output map built so far.\<close>

fun bound_metadata_loop :: "metadata \<Rightarrow> metadata \<Rightarrow> metadata" where
  "bound_metadata_loop out [] = out"
| "bound_metadata_loop out ((k, v) # kvs) =
     (if length out \<ge> 24 then out
      else
        (let key = truncateString (TrimSpace k) 64
         in if key = [] then bound_metadata_loop out kvs
            else if IsSensitiveKey key
            then bound_metadata_loop (AList.update key ''[REDACTED]'' out) kvs
            else
              (let clean = truncateString (TrimSpace v) 256
               in if clean = [] then bound_metadata_loop out kvs
                  else bound_metadata_loop (AList.update key clean out) kvs)))"

definition BoundMetadata :: "metadata \<Rightarrow> metadata" where
  "BoundMetadata kvs = bound_metadata_loop [] kvs"

definition NewMetadata :: "metadata \<Rightarrow> metadata" where
  "NewMetadata pairs = BoundMetadata pairs"

section \<open>Hashes\<close>

definition StableHash :: "Codec \<Rightarrow> string list \<Rightarrow> string" where
  "StableHash H parts = c_Sha256Hex H (concat (map (\<lambda>p. TrimSpace p @ [CHR 0x00]) parts))"

definition StableHashBytes :: "Codec \<Rightarrow> string \<Rightarrow> string" where
  "StableHashBytes H b = c_Sha256Hex H b"

section \<open>Events\<close>

record TokenUsage =
  tu_InputTokens :: int
  tu_OutputTokens :: int
  tu_CachedInputToken :: int

record CostEstimate =
  ce_Currency :: string
  ce_InputMicros :: int
  ce_OutputMicros :: int
  ce_TotalMicros :: int

record Event =
  ev_EventID :: string
  ev_TrajectoryID :: string
  ev_ParentEventID :: string
  ev_Timestamp :: instant
  ev_Component :: string
  ev_Operator :: string
  ev_EventKind :: string
  ev_Decision :: string
  ev_ReasonCode :: string
  ev_ArtifactRefs :: "Ref list"
  ev_ValidationRefs :: "Ref list"
  ev_ReceiptRefs :: "Ref list"
  ev_Provider :: string
  ev_Model :: string
  ev_TokenUsage :: TokenUsage
  ev_CostEstimate :: CostEstimate
  ev_Duration :: int
  ev_Status :: string
  ev_ErrorClass :: string
  ev_RedactionState :: string
  ev_Metadata :: metadata

definition no_tokens :: TokenUsage where
  "no_tokens = \<lparr>tu_InputTokens = 0, tu_OutputTokens = 0, tu_CachedInputToken = 0\<rparr>"

definition no_cost :: CostEstimate where
  "no_cost = \<lparr>ce_Currency = [], ce_InputMicros = 0, ce_OutputMicros = 0, ce_TotalMicros = 0\<rparr>"

definition NewEventID :: "string \<Rightarrow> string" where
  "NewEventID uuid = ''evt_'' @ uuid"

definition NewTrajectoryID :: "string \<Rightarrow> string" where
  "NewTrajectoryID uuid = ''traj_'' @ uuid"

definition NewEvent :: "string \<Rightarrow> instant \<Rightarrow> string \<Rightarrow> string \<Rightarrow> Event" where
  "NewEvent uuid now component eventKind =
     \<lparr>ev_EventID = NewEventID uuid, ev_TrajectoryID = [], ev_ParentEventID = [],
      ev_Timestamp = now, ev_Component = TrimSpace component, ev_Operator = ''unknown'',
      ev_EventKind = TrimSpace eventKind, ev_Decision = [], ev_ReasonCode = [],
      ev_ArtifactRefs = [], ev_ValidationRefs = [], ev_ReceiptRefs = [],
      ev_Provider = [], ev_Model = [], ev_TokenUsage = no_tokens, ev_CostEstimate = no_cost,
      ev_Duration = 0, ev_Status = [], ev_ErrorClass = [], ev_RedactionState = ''unknown'',
      ev_Metadata = []\<rparr>"

text \<open>Durations are rounded towards zero; the guard makes this one positive.\<close>

definition NewEventWithTiming ::
    "string \<Rightarrow> instant \<Rightarrow> string \<Rightarrow> string \<Rightarrow> instant \<Rightarrow> instant \<Rightarrow> Event" where
  "NewEventWithTiming uuid now component kind startedAt finishedAt =
     (let e = NewEvent uuid now component kind;
          startedAt = (if IsZero startedAt then now else startedAt);
          e = e\<lparr>ev_Timestamp := startedAt\<rparr>
      in if \<not> IsZero finishedAt \<and> finishedAt > startedAt
         then e\<lparr>ev_Duration := (finishedAt - startedAt) div Millisecond\<rparr> else e)"

definition nonneg :: "int \<Rightarrow> int" where
  "nonneg n = (if n < 0 then 0 else n)"

definition trunc_trim :: "int \<Rightarrow> string \<Rightarrow> string" where
  "trunc_trim mx s = truncateString (TrimSpace s) mx"

definition Event_Normalized :: "string \<Rightarrow> instant \<Rightarrow> Event \<Rightarrow> Event" where
  "Event_Normalized uuid now e =
     \<lparr>ev_EventID = (if TrimSpace (ev_EventID e) = [] then NewEventID uuid else ev_EventID e),
      ev_TrajectoryID = trunc_trim 256 (ev_TrajectoryID e),
      ev_ParentEventID = trunc_trim 256 (ev_ParentEventID e),
      ev_Timestamp = (if IsZero (ev_Timestamp e) then now else ev_Timestamp e),
      ev_Component = trunc_trim 64 (ev_Component e),
      ev_Operator = (if \<not> Operator_Valid (ev_Operator e) then ''unknown'' else ev_Operator e),
      ev_EventKind = trunc_trim 64 (ev_EventKind e),
      ev_Decision = trunc_trim 64 (ev_Decision e),
      ev_ReasonCode = trunc_trim 128 (ev_ReasonCode e),
      ev_ArtifactRefs = boundRefs (ev_ArtifactRefs e),
      ev_ValidationRefs = boundRefs (ev_ValidationRefs e),
      ev_ReceiptRefs = boundRefs (ev_ReceiptRefs e),
      ev_Provider = trunc_trim 64 (ev_Provider e),
      ev_Model = trunc_trim 64 (ev_Model e),
      ev_TokenUsage =
        \<lparr>tu_InputTokens = nonneg (tu_InputTokens (ev_TokenUsage e)),
         tu_OutputTokens = nonneg (tu_OutputTokens (ev_TokenUsage e)),
         tu_CachedInputToken = nonneg (tu_CachedInputToken (ev_TokenUsage e))\<rparr>,
      ev_CostEstimate =
        \<lparr>ce_Currency = trunc_trim 8 (ce_Currency (ev_CostEstimate e)),
         ce_InputMicros = nonneg (ce_InputMicros (ev_CostEstimate e)),
         ce_OutputMicros = nonneg (ce_OutputMicros (ev_CostEstimate e)),
         ce_TotalMicros = nonneg (ce_TotalMicros (ev_CostEstimate e))\<rparr>,
      ev_Duration = nonneg (ev_Duration e),
      ev_Status = trunc_trim 64 (ev_Status e),
      ev_ErrorClass = trunc_trim 64 (ev_ErrorClass e),
      ev_RedactionState = (if ev_RedactionState e = [] then ''unknown'' else ev_RedactionState e),
      ev_Metadata = BoundMetadata (ev_Metadata e)\<rparr>"

text \<open>An error is its message, \<open>None\<close> a nil error. The operator is printed with \<open>%q\<close>.\<close>

definition Event_Validate :: "Codec \<Rightarrow> Event \<Rightarrow> string option" where
  "Event_Validate H e =
     (if TrimSpace (ev_EventID e) = [] then Some ''trace event requires event_id''
      else if IsZero (ev_Timestamp e) then Some ''trace event requires timestamp''
      else if TrimSpace (ev_Component e) = [] then Some ''trace event requires component''
      else if TrimSpace (ev_EventKind e) = [] then Some ''trace event requires event_kind''
      else if \<not> Operator_Valid (ev_Operator e)
      then Some (''trace event has invalid operator '' @ c_Quote H (ev_Operator e))
      else if length (ev_ArtifactRefs e) > 64 then Some ''trace event artifact refs exceed 64''
      else if length (ev_ValidationRefs e) > 64 then Some ''trace event validation refs exceed 64''
      else if length (ev_ReceiptRefs e) > 64 then Some ''trace event receipt refs exceed 64''
      else if length (ev_Metadata e) > 24 then Some ''trace event metadata entries exceed 24''
      else None)"

section \<open>Emission\<close>

datatype TraceMode = ModeOff | ModeMinimal | ModeAudit | ModeDebug | ModeReplay | ModeOther string

definition Trace_ParseMode :: "string \<Rightarrow> TraceMode" where
  "Trace_ParseMode raw =
     (let s = ToLower (TrimSpace raw)
      in if s = ''minimal'' then ModeMinimal else if s = ''audit'' then ModeAudit
         else if s = ''debug'' then ModeDebug else if s = ''replay'' then ModeReplay else ModeOff)"

definition ApplyMode :: "TraceMode \<Rightarrow> Event \<Rightarrow> Event" where
  "ApplyMode mode e =
     (case mode of
        ModeMinimal \<Rightarrow>
          e\<lparr>ev_Decision := [], ev_ArtifactRefs := [], ev_ValidationRefs := [], ev_ReceiptRefs := [],
            ev_TokenUsage := no_tokens, ev_CostEstimate := no_cost,
            ev_Metadata := BoundMetadata (ev_Metadata e)\<rparr>
      | ModeAudit \<Rightarrow>
          e\<lparr>ev_Metadata := BoundMetadata (ev_Metadata e),
            ev_ArtifactRefs := boundRefs (ev_ArtifactRefs e),
            ev_ValidationRefs := boundRefs (ev_ValidationRefs e),
            ev_ReceiptRefs := boundRefs (ev_ReceiptRefs e)\<rparr>
      | ModeDebug \<Rightarrow> e\<lparr>ev_Metadata := BoundMetadata (ev_Metadata e)\<rparr>
      | ModeReplay \<Rightarrow>
          (let e' = e\<lparr>ev_Metadata := BoundMetadata (ev_Metadata e)\<rparr>
           in if ev_RedactionState e' = [] then e'\<lparr>ev_RedactionState := ''redacted''\<rparr> else e')
      | _ \<Rightarrow> e\<lparr>ev_Metadata := BoundMetadata (ev_Metadata e)\<rparr>)"

text \<open>
  The result of \<open>Emit\<close>: nothing for a nil sink or the mode off, an error, or the event that is
  handed to the sink. The code's second check of the timestamp comes after \<open>Normalized\<close>, which
  has already filled it in.
\<close>

datatype emission = Dropped | Rejected string | Delivered Event

definition Emit :: "Codec \<Rightarrow> string \<Rightarrow> instant \<Rightarrow> bool \<Rightarrow> TraceMode \<Rightarrow> Event \<Rightarrow> emission" where
  "Emit H uuid now has_sink mode event =
     (if \<not> has_sink \<or> mode = ModeOff then Dropped
      else
        (let normalized = Event_Normalized uuid now (ApplyMode mode event);
             normalized = (if IsZero (ev_Timestamp normalized)
               then normalized\<lparr>ev_Timestamp := now\<rparr> else normalized)
         in case Event_Validate H normalized of
              Some err \<Rightarrow> Rejected err
            | None \<Rightarrow> Delivered normalized))"

section \<open>Lemmas\<close>

lemma truncateString_length: "0 \<le> mx \<Longrightarrow> int (length (truncateString s mx)) \<le> mx"
  by (auto simp: truncateString_def)

lemma truncateString_prefix: "prefix (truncateString s mx) s"
  by (auto simp: truncateString_def take_is_prefix)

lemma truncateString_Nil_iff: "0 < mx \<Longrightarrow> truncateString s mx = [] \<longleftrightarrow> s = []"
  by (auto simp: truncateString_def)

lemma trunc_trim_blank: "0 < mx \<Longrightarrow> TrimSpace (trunc_trim mx s) = [] \<longleftrightarrow> TrimSpace s = []"
proof
  assume mx: "0 < mx" and eq: "TrimSpace (trunc_trim mx s) = []"
  show "TrimSpace s = []"
  proof (rule ccontr)
    assume ne: "TrimSpace s \<noteq> []"
    with mx have "trunc_trim mx s \<noteq> []" by (simp add: trunc_trim_def truncateString_Nil_iff)
    with TrimSpace_prefix_not_Nil [OF ne] eq show False
      by (simp add: trunc_trim_def truncateString_prefix)
  qed
qed (simp add: trunc_trim_def truncateString_def)

lemma boundRefs_length: "length (boundRefs rs) \<le> 64"
proof -
  have "length (boundRefs rs) \<le> length (map bound_ref (take 64 rs))"
    unfolding boundRefs_def by (rule length_filter_le)
  then show ?thesis by simp
qed

definition metadata_entry_ok :: "string \<times> string \<Rightarrow> bool" where
  "metadata_entry_ok kv = (case kv of (k, v) \<Rightarrow>
     0 < length k \<and> length k \<le> 64 \<and> 0 < length v \<and> length v \<le> 256 \<and>
     (IsSensitiveKey k \<longrightarrow> v = ''[REDACTED]''))"

lemma update_ok:
  assumes "list_all metadata_entry_ok out" and "metadata_entry_ok (k, v)"
  shows "list_all metadata_entry_ok (AList.update k v out)"
  using assms by (induction out) auto

lemma update_length: "length (AList.update k v out) \<le> Suc (length out)"
  by (induction out) auto

lemma bound_metadata_loop_ok:
  assumes "list_all metadata_entry_ok out" and "length out \<le> 24" and "distinct (map fst out)"
  shows "list_all metadata_entry_ok (bound_metadata_loop out kvs) \<and>
    length (bound_metadata_loop out kvs) \<le> 24 \<and> distinct (map fst (bound_metadata_loop out kvs))"
  using assms
proof (induction out kvs rule: bound_metadata_loop.induct)
  case (2 out k v kvs)
  let ?key = "truncateString (TrimSpace k) 64" and ?clean = "truncateString (TrimSpace v) 256"
  have len: "length ?key \<le> 64" "length ?clean \<le> 256"
    using truncateString_length [of 64] truncateString_length [of 256] by force+
  have step: "length (AList.update x y out) \<le> 24" "distinct (map fst (AList.update x y out))"
    if "\<not> length out \<ge> 24" for x y
    using that update_length [of x y out] "2.prems"(3) by (auto intro: distinct_update)
  consider (full) "length out \<ge> 24" | (blank) "\<not> length out \<ge> 24" "?key = []"
    | (sensitive) "\<not> length out \<ge> 24" "?key \<noteq> []" "IsSensitiveKey ?key"
    | (empty) "\<not> length out \<ge> 24" "?key \<noteq> []" "\<not> IsSensitiveKey ?key" "?clean = []"
    | (keep) "\<not> length out \<ge> 24" "?key \<noteq> []" "\<not> IsSensitiveKey ?key" "?clean \<noteq> []"
    by blast
  then show ?case
  proof cases
    case sensitive
    then have "list_all metadata_entry_ok (AList.update ?key ''[REDACTED]'' out)"
      using len by (intro update_ok [OF "2.prems"(1)]) (auto simp: metadata_entry_ok_def)
    with 2(2) [OF sensitive(1) refl sensitive(2,3)] step sensitive show ?thesis by simp
  next
    case keep
    then have "list_all metadata_entry_ok (AList.update ?key ?clean out)"
      using len by (intro update_ok [OF "2.prems"(1)]) (auto simp: metadata_entry_ok_def)
    with 2(4) [OF keep(1) refl keep(2,3) refl keep(4)] step keep show ?thesis by simp
  qed (use 2 in \<open>auto simp: Let_def\<close>)
qed simp

lemma BoundMetadata_ok:
  "list_all metadata_entry_ok (BoundMetadata kvs) \<and> length (BoundMetadata kvs) \<le> 24 \<and>
   distinct (map fst (BoundMetadata kvs))"
  unfolding BoundMetadata_def by (rule bound_metadata_loop_ok) simp_all

section \<open>Properties\<close>

text \<open>
  Whatever the order in which the map is visited, bounded metadata has at most 24 entries
  with distinct keys, every key and value is non-empty and within its bound, and the value of
  every key that the trace recognises as sensitive is the redaction mark.
\<close>

theorem BoundMetadata_bounds:
  "length (BoundMetadata kvs) \<le> 24 \<and> distinct (map fst (BoundMetadata kvs)) \<and>
   list_all (\<lambda>(k, v). k \<noteq> [] \<and> length k \<le> 64 \<and> v \<noteq> [] \<and> length v \<le> 256 \<and>
     v = (if IsSensitiveKey k then ''[REDACTED]'' else v)) (BoundMetadata kvs)"
  using BoundMetadata_ok [of kvs] by (auto simp: metadata_entry_ok_def list_all_iff)

lemma ApplyMode_names [simp]:
  "ev_Component (ApplyMode m e) = ev_Component e" "ev_EventKind (ApplyMode m e) = ev_EventKind e"
  "ev_EventID (ApplyMode m e) = ev_EventID e" "ev_Timestamp (ApplyMode m e) = ev_Timestamp e"
  by (auto simp: ApplyMode_def Let_def split: TraceMode.splits)

lemma NewEventID_not_blank: "TrimSpace (NewEventID uuid) \<noteq> []"
proof -
  have "strip_lead wide_spaces (NewEventID uuid) = None"
    by (simp add: NewEventID_def strip_lead_def is_ascii_def ascii_spaces_def)
  then have "TrimSpace (NewEventID uuid) = TrimRightSpace (NewEventID uuid)"
    by (simp add: TrimSpace_def TrimLeftSpace_def trim_lead_fix)
  with TrimRightSpace_not_Nil [OF _ \<open>strip_lead wide_spaces (NewEventID uuid) = None\<close>]
  show ?thesis by (simp add: NewEventID_def)
qed

lemma Normalized_Validate:
  assumes "now \<noteq> 0"
  shows "Event_Validate H (Event_Normalized uuid now e) =
    (if TrimSpace (ev_Component e) = [] then Some ''trace event requires component''
     else if TrimSpace (ev_EventKind e) = [] then Some ''trace event requires event_kind''
     else None)"
proof -
  let ?n = "Event_Normalized uuid now e"
  have "Operator_Valid ''unknown''" by (simp add: Operator_Valid_def validOperators_def)
  then have n: "TrimSpace (ev_EventID ?n) \<noteq> []" "\<not> IsZero (ev_Timestamp ?n)"
    "Operator_Valid (ev_Operator ?n)"
    using assms NewEventID_not_blank [of uuid] by (simp_all add: Event_Normalized_def IsZero_def)
  have refs: "\<not> length (ev_ArtifactRefs ?n) > 64" "\<not> length (ev_ValidationRefs ?n) > 64"
    "\<not> length (ev_ReceiptRefs ?n) > 64" "\<not> length (ev_Metadata ?n) > 24"
    using BoundMetadata_ok [of "ev_Metadata e"]
    by (simp_all add: Event_Normalized_def boundRefs_length not_less)
  have names: "TrimSpace (ev_Component ?n) = [] \<longleftrightarrow> TrimSpace (ev_Component e) = []"
    "TrimSpace (ev_EventKind ?n) = [] \<longleftrightarrow> TrimSpace (ev_EventKind e) = []"
    by (simp_all add: Event_Normalized_def trunc_trim_blank)
  show ?thesis unfolding Event_Validate_def using n refs names by (simp only: if_False if_True simp_thms)
qed

text \<open>
  Emission is total: with a sink and a mode other than off, an event is handed to the sink
  normalised, and the only two rejections are a blank component and a blank event kind. Bounds,
  operators, missing identifiers and missing timestamps are repaired, never rejected.
\<close>

theorem Emit_rejects_only_blank_names:
  assumes "now \<noteq> 0" and "mode \<noteq> ModeOff"
  shows "Emit H uuid now True mode e =
    (if TrimSpace (ev_Component e) = [] then Rejected ''trace event requires component''
     else if TrimSpace (ev_EventKind e) = [] then Rejected ''trace event requires event_kind''
     else Delivered (Event_Normalized uuid now (ApplyMode mode e)))"
proof -
  have "ev_Timestamp (Event_Normalized uuid now (ApplyMode mode e)) \<noteq> 0"
    using assms(1) by (simp add: Event_Normalized_def IsZero_def)
  then show ?thesis
    using assms by (simp add: Emit_def Let_def IsZero_def Normalized_Validate)
qed

lemma Emit_rejects_only_blank_names_witness:
  "\<exists>e'. Emit sample_codec ''u'' 7 True ModeAudit (NewEvent ''x'' 0 ''selfmod'' ''kind'') = Delivered e'"
  using Emit_rejects_only_blank_names [where now = 7 and mode = ModeAudit and uuid = "''u''"
      and e = "NewEvent ''x'' 0 ''selfmod'' ''kind''"]
  by (simp add: NewEvent_def go_eval)

definition long_key :: string where
  "long_key = replicate 64 (CHR ''x'') @ ''_password''"

text \<open>
  A sensitive key is recognised after it has been cut to 64 bytes: a key whose secret word
  lies beyond the cut is sensitive by \<open>IsSensitiveKey\<close>, yet its value is stored in clear.
\<close>

theorem long_sensitive_key_leaks:
  "IsSensitiveKey long_key \<and>
   BoundMetadata [(long_key, ''hunter2'')] = [(replicate 64 (CHR ''x''), ''hunter2'')]"
  by (intro conjI; code_simp)

end
