(* ===== verification/SelfmodValidator.thy ===== *)
theory SelfmodValidator
  imports SelfmodManifest Trace
begin

text \<open>
  The validator of self-modification proposals: \<open>pkg/selfmod/validator.go\<close>, with its receipt
  (\<open>receipt.go\<close>), its harness artifact (\<open>audit_integration.go\<close>) and its trace event. The
  harness runtime that turns an artifact into an audit summary is a parameter; it only adds the
  summary. The current time is an argument.
\<close>

section \<open>Forbidden authority fields\<close>

definition forbiddenAuthorityKeys :: "string list" where
  "forbiddenAuthorityKeys = [''verified'', ''certified'', ''trusted'', ''approved'', ''safe'',
     ''privileged'', ''authorized'', ''authority'', ''root'', ''admin'', ''superuser'', ''system'',
     ''owner'', ''bypass'', ''bypass_governance'', ''governance_exempt'', ''no_approval_required'',
     ''approval_granted'', ''user_approved'', ''vcse_verified'', ''vcse_certified'',
     ''ledger_verified'', ''render_verified'', ''production_ready'', ''auto_promote'',
     ''promote_now'', ''allow_credentials'', ''allow_private_network'', ''allow_host_bridge'',
     ''unrestricted_network'', ''disable_sandbox'', ''disable_audit'', ''disable_logging'']"

text \<open>The \<open>strings.NewReplacer\<close> of the code replaces single bytes.\<close>

definition separator_to_underscore :: "char \<Rightarrow> char" where
  "separator_to_underscore c = (if c \<in> {CHR ''-'', CHR '' '', CHR ''.''} then CHR ''_'' else c)"

lemma ReplaceAll_shrinks:
  "length (ReplaceAll [a, a] [a] s) + (if sublist [a, a] s then 1 else 0) \<le> length s"
proof (induction "[a, a]" "[a]" s rule: ReplaceAll.induct)
  case (2 c s)
  show ?case
  proof (cases "prefix [a, a] (c # s)")
    case True
    then obtain r where "c # s = a # a # r" by (auto simp: prefix_def)
    with 2(1) True show ?thesis by (auto split: if_splits)
  next
    case False
    then have "sublist [a, a] (c # s) \<longleftrightarrow> sublist [a, a] s" by (auto simp: sublist_Cons_right)
    moreover have "ReplaceAll [a, a] [a] (c # s) = c # ReplaceAll [a, a] [a] s"
      using False by auto
    ultimately show ?thesis using 2(2) False by (simp del: ReplaceAll.simps sublist_Cons_right)
  qed
qed simp

function collapse_underscores :: "string \<Rightarrow> string" where
  "collapse_underscores k =
     (if sublist ''__'' k then collapse_underscores (ReplaceAll ''__'' ''_'' k) else k)"
  by pat_completeness auto
termination
proof (relation "measure length", goal_cases)
  case (2 k)
  with ReplaceAll_shrinks [of "CHR ''_''" k] show ?case by simp
qed simp

declare collapse_underscores.simps [simp del]

definition normalizeAuthorityKey :: "string \<Rightarrow> string" where
  "normalizeAuthorityKey raw =
     (let k = ToLower (TrimSpace raw);
          k = map separator_to_underscore k;
          k = collapse_underscores k
      in trim_char (CHR ''_'') k)"

fun first_some :: "'a option list \<Rightarrow> 'a option" where
  "first_some [] = None"
| "first_some (None # xs) = first_some xs"
| "first_some (Some x # xs) = Some x"

text \<open>The path of the first forbidden field, in the order of the iteration; \<open>None\<close> is \<open>false\<close>.\<close>

function containsForbiddenAuthority :: "any \<Rightarrow> string \<Rightarrow> string option" where
  "containsForbiddenAuthority (VMap t) pre =
     first_some (map (\<lambda>(k, child).
       (let nxt = (if pre \<noteq> [] then pre @ ''.'' @ k else k)
        in if normalizeAuthorityKey k \<in> set forbiddenAuthorityKeys then Some nxt
           else containsForbiddenAuthority child nxt)) t)"
| "containsForbiddenAuthority (VList t) pre =
     first_some (map (\<lambda>(i, child). containsForbiddenAuthority child (pre @ ''['' @ itoa i @ '']''))
       (enumerate 0 t))"
| "containsForbiddenAuthority VNil pre = None"
| "containsForbiddenAuthority (VBool b) pre = None"
| "containsForbiddenAuthority (VNum n) pre = None"
| "containsForbiddenAuthority (VStr s) pre = None"
| "containsForbiddenAuthority (VStrs ss) pre = None"
  by pat_completeness auto
termination
proof (relation "measure (\<lambda>(v, pre). size v)", goal_cases)
  case (2 t pre x k child nxt)
  then have "(k, child) \<in> set t" by simp
  then have "size_prod (\<lambda>_. 0) size (k, child) \<le> size_list (size_prod (\<lambda>_. 0) size) t"
    by (intro size_list_estimation') auto
  then show ?case by simp
next
  case (3 t pre x i child)
  then have "child \<in> set t" by (auto simp: in_set_enumerate_eq)
  then have "size child \<le> size_list size t" by (intro size_list_estimation') auto
  then show ?case by simp
qed simp

section \<open>Decisions and receipts\<close>

record ValidateInput =
  vi_OperationID :: string
  vi_ToolName :: string
  vi_Mode :: string
  vi_Parameters :: params
  vi_GeneratedGoSrc :: string

record AuditSummary =
  as_Mode :: string
  as_Status :: string
  as_ReportID :: string
  as_HarnessID :: string
  as_ArtifactID :: string
  as_FailedCount :: int
  as_WarnCount :: int
  as_DurationMS :: int

record DynamicValidationReceipt =
  dr_OperationID :: string
  dr_ArtifactKind :: string
  dr_ArtifactName :: string
  dr_TargetPaths :: "string list"
  dr_Capabilities :: "string list"
  dr_RiskClass :: string
  dr_Allowed :: bool
  dr_RequiresApproval :: bool
  dr_ReasonCode :: string
  dr_IssuesCount :: nat
  dr_ManifestHash :: string
  dr_ArtifactHash :: string
  dr_CreatedAt :: instant
  dr_AuditSummary :: "AuditSummary option"

record DynamicValidationDecision =
  dv_Allowed :: bool
  dv_RequiresApproval :: bool
  dv_HardBlock :: bool
  dv_ReasonCode :: string
  dv_Issues :: "string list"
  dv_Manifest :: "SelfModificationManifest option"
  dv_Receipt :: "DynamicValidationReceipt option"
  dv_AuditSummary :: "AuditSummary option"

definition IssuesCopy :: "DynamicValidationDecision \<Rightarrow> string list" where
  "IssuesCopy d = dv_Issues d"

definition hashAny :: "Codec \<Rightarrow> any \<Rightarrow> string" where
  "hashAny H v = c_Sha256Hex H (case c_Marshal H v of None \<Rightarrow> [] | Some b \<Rightarrow> b)"

definition receiptFrom ::
    "Codec \<Rightarrow> instant \<Rightarrow> ValidateInput \<Rightarrow> SelfModificationManifest option \<Rightarrow>
     DynamicValidationDecision \<Rightarrow> string \<Rightarrow> DynamicValidationReceipt" where
  "receiptFrom H now input manifest decision artifactHash =
     (let receipt =
        \<lparr>dr_OperationID = vi_OperationID input, dr_ArtifactKind = [], dr_ArtifactName = [],
         dr_TargetPaths = [], dr_Capabilities = [], dr_RiskClass = [],
         dr_Allowed = dv_Allowed decision, dr_RequiresApproval = dv_RequiresApproval decision,
         dr_ReasonCode = dv_ReasonCode decision, dr_IssuesCount = length (dv_Issues decision),
         dr_ManifestHash = [], dr_ArtifactHash = artifactHash, dr_CreatedAt = now,
         dr_AuditSummary = None\<rparr>
      in case manifest of
           None \<Rightarrow> receipt
         | Some m \<Rightarrow> receipt\<lparr>dr_ArtifactKind := sm_kind m, dr_ArtifactName := sm_name m,
             dr_RiskClass := sm_riskClass m, dr_TargetPaths := sm_targetPaths m,
             dr_Capabilities := sm_capabilities m,
             dr_ManifestHash := hashAny H (VMap (Manifest_Raw H m))\<rparr>)"

definition errorReasonCode :: "string \<Rightarrow> string \<Rightarrow> string" where
  "errorReasonCode msg fallback =
     (case find (\<lambda>reason. sublist reason msg)
        [REASON_DYNAMIC_MANIFEST_MISSING_REQUIRED_FIELD, REASON_DYNAMIC_MANIFEST_INVALID_JSON,
         REASON_DYNAMIC_MANIFEST_MISSING] of
        Some reason \<Rightarrow> reason
      | None \<Rightarrow> fallback)"

section \<open>Extraction\<close>

fun first_non_nil :: "string list \<Rightarrow> params \<Rightarrow> any option" where
  "first_non_nil [] ps = None"
| "first_non_nil (k # ks) ps =
     (case map_get ps k of
        Some VNil \<Rightarrow> first_non_nil ks ps
      | Some raw \<Rightarrow> Some raw
      | None \<Rightarrow> first_non_nil ks ps)"

definition extractManifestRaw :: "params \<Rightarrow> any option" where
  "extractManifestRaw ps = (if ps = None then None else first_non_nil manifest_keys ps)"

definition extractGeneratedSource :: "params \<Rightarrow> string" where
  "extractGeneratedSource ps =
     (if ps = None then []
      else (case first_some (map (\<lambda>k. as_string (map_get ps k))
              [''go_source'', ''generated_source'', ''source'', ''tool_source'']) of
              Some v \<Rightarrow> TrimSpace v
            | None \<Rightarrow> []))"

section \<open>Validation\<close>

text \<open>The loop over the target paths: the decision so far and whether a path blocked it.\<close>

fun target_loop :: "string list \<Rightarrow> DynamicValidationDecision \<Rightarrow> bool \<times> DynamicValidationDecision" where
  "target_loop [] d = (False, d)"
| "target_loop (p # ps) d =
     (let v = validateTargetPath p;
          d = (if pa_issue v \<noteq> [] then d\<lparr>dv_Issues := dv_Issues d @ [pa_issue v]\<rparr> else d)
      in if pa_hardBlock v
         then (True, d\<lparr>dv_Allowed := False, dv_HardBlock := True, dv_ReasonCode := pa_reason v\<rparr>)
         else
           (let d = (if pa_requiresApproval v
                     then (let d = d\<lparr>dv_RequiresApproval := True\<rparr>
                           in if dv_ReasonCode d = []
                              then d\<lparr>dv_ReasonCode := REASON_DYNAMIC_PROMOTION_REQUIRES_APPROVAL\<rparr>
                              else d)
                     else d)
            in target_loop ps d))"

definition dv_start :: DynamicValidationDecision where
  "dv_start = \<lparr>dv_Allowed = True, dv_RequiresApproval = False, dv_HardBlock = False,
     dv_ReasonCode = [], dv_Issues = [], dv_Manifest = None, dv_Receipt = None, dv_AuditSummary = None\<rparr>"

definition dv_block :: "string \<Rightarrow> string list \<Rightarrow> DynamicValidationDecision \<Rightarrow> DynamicValidationDecision" where
  "dv_block reason issues d =
     d\<lparr>dv_Allowed := False, dv_HardBlock := True, dv_ReasonCode := reason,
       dv_Issues := dv_Issues d @ issues\<rparr>"

text \<open>Filling in the manifest and the receipt, as every return of the code does.\<close>

definition with_receipt ::
    "Codec \<Rightarrow> instant \<Rightarrow> ValidateInput \<Rightarrow> SelfModificationManifest option \<Rightarrow> string \<Rightarrow>
     DynamicValidationDecision \<Rightarrow> DynamicValidationDecision" where
  "with_receipt H now input manifest artifactHash d =
     (let d = d\<lparr>dv_Manifest := manifest\<rparr>
      in d\<lparr>dv_Receipt := Some (receiptFrom H now input manifest d artifactHash)\<rparr>)"

text \<open>The checks after the manifest has been extracted.\<close>

definition validate_manifest ::
    "Codec \<Rightarrow> GoParser \<Rightarrow> instant \<Rightarrow> ValidateInput \<Rightarrow> SelfModificationManifest \<Rightarrow>
     DynamicValidationDecision" where
  "validate_manifest H P now input m =
     (let cv = classifyCapabilities (sm_capabilities m)
      in if cv_hardBlock cv
         then with_receipt H now input (Some m) [] (dv_block (cv_reason cv) (cv_issues cv) dv_start)
         else
           (let d = (if cv_requiresApproval cv
                     then dv_start\<lparr>dv_RequiresApproval := True, dv_ReasonCode := cv_reason cv,
                            dv_Issues := dv_Issues dv_start @ cv_issues cv\<rparr>
                     else dv_start);
                (blocked, d) = target_loop (sm_targetPaths m) d
            in if blocked then with_receipt H now input (Some m) [] d
               else
                 (let source = TrimSpace (vi_GeneratedGoSrc input);
                      source = (if source = [] then extractGeneratedSource (vi_Parameters input) else source);
                      scan = StaticScanGoSource P source (sm_capabilities m)
                  in if source \<noteq> [] \<and> \<not> ss_Allowed scan
                     then with_receipt H now input (Some m) (hashAny H (VStr source))
                            (dv_block (ss_ReasonCode scan) (ss_Issues scan) d)
                     else if EqualFold (TrimSpace (vi_Mode input)) ''GOVERNANCE_CORRECTNESS'' \<and> IsMutating m \<and>
                             (sm_expectedEffects m = [] \<or> TrimSpace (sm_rollbackPlan m) = [])
                     then with_receipt H now input (Some m) (hashAny H (VStr source))
                            (dv_block REASON_DYNAMIC_MANIFEST_MISSING_REQUIRED_FIELD
                              [''correctness mode requires expected_effects and rollback_plan''] d)
                     else with_receipt H now input (Some m) (hashAny H (VStr source))
                            (if dv_ReasonCode d = [] then d\<lparr>dv_ReasonCode := REASON_POLICY_ALLOWED\<rparr>
                             else d))))"

text \<open>The body of \<open>ValidateDynamicProposal\<close>, before its deferred call.\<close>

definition validate_proposal_body ::
    "Codec \<Rightarrow> GoParser \<Rightarrow> instant \<Rightarrow> ValidateInput \<Rightarrow> DynamicValidationDecision" where
  "validate_proposal_body H P now input =
     (case extractManifestRaw (vi_Parameters input) of
        None \<Rightarrow> with_receipt H now input None []
          (dv_block REASON_DYNAMIC_MANIFEST_MISSING [REASON_DYNAMIC_MANIFEST_MISSING] dv_start)
      | Some rawManifest \<Rightarrow>
          (case (case parseRawManifest H rawManifest of
                   Inl err \<Rightarrow> None
                 | Inr decoded \<Rightarrow> containsForbiddenAuthority (VMap decoded) []) of
             Some path \<Rightarrow> with_receipt H now input None []
               (dv_block REASON_DYNAMIC_AUTHORITY_FIELD_FORBIDDEN
                 [''forbidden authority field: '' @ path] dv_start)
           | None \<Rightarrow>
               (case ExtractManifest H (vi_Parameters input) of
                  Inl err \<Rightarrow> with_receipt H now input None []
                    (dv_block (errorReasonCode err REASON_DYNAMIC_MANIFEST_MISSING) [err] dv_start)
                | Inr m \<Rightarrow> validate_manifest H P now input m)))"

section \<open>Harness artifact and trace event\<close>

record Artifact =
  at_ID :: string
  at_Kind :: string
  at_Name :: string
  at_Content :: string
  at_ContentHash :: string
  at_Refs :: "Ref list"
  at_Metadata :: metadata

definition boolString :: "bool \<Rightarrow> string" where
  "boolString v = (if v then ''true'' else ''false'')"

definition intString :: "nat \<Rightarrow> string" where
  "intString n = itoa n"

definition buildHarnessArtifact ::
    "Codec \<Rightarrow> ValidateInput \<Rightarrow> DynamicValidationDecision \<Rightarrow> DynamicValidationReceipt \<Rightarrow> Artifact" where
  "buildHarnessArtifact H input decision receipt =
     (let contentHash = TrimSpace (dr_ArtifactHash receipt);
          contentHash = (if contentHash = [] then TrimSpace (dr_ManifestHash receipt) else contentHash);
          artifactID = StableHash H [''selfmod-audit'', TrimSpace (vi_OperationID input),
            TrimSpace (dr_ManifestHash receipt), TrimSpace (dr_ArtifactHash receipt),
            TrimSpace (dv_ReasonCode decision)];
          refs = [NewRef ''operation_id'' (dr_OperationID receipt) [] 0,
                  NewRef ''manifest_hash'' (dr_ManifestHash receipt) (dr_ManifestHash receipt) 0,
                  NewRef ''artifact_hash'' (dr_ArtifactHash receipt) (dr_ArtifactHash receipt) 0]
            @ map (\<lambda>target. NewRef ''target_path'' target [] 0) (dr_TargetPaths receipt)
      in \<lparr>at_ID = artifactID, at_Kind = ''selfmod_manifest'', at_Name = ''selfmod.dynamic_validation'',
          at_Content = [], at_ContentHash = contentHash, at_Refs = refs,
          at_Metadata =
            [(''surface'', ''selfmod''), (''operation_id'', dr_OperationID receipt),
             (''tool_name'', vi_ToolName input), (''mode'', vi_Mode input),
             (''reason_code'', dv_ReasonCode decision), (''allowed'', boolString (dv_Allowed decision)),
             (''requires_approval'', boolString (dv_RequiresApproval decision)),
             (''hard_block'', boolString (dv_HardBlock decision)),
             (''artifact_kind'', dr_ArtifactKind receipt), (''risk_class'', dr_RiskClass receipt),
             (''issues_count'', intString (dr_IssuesCount receipt)),
             (''target_count'', intString (length (dr_TargetPaths receipt))),
             (''capability_count'', intString (length (dr_Capabilities receipt))),
             (''manifest_hash'', dr_ManifestHash receipt),
             (''artifact_hash'', dr_ArtifactHash receipt)]\<rparr>)"

text \<open>\<open>None\<close> is a harness runtime that is switched off.\<close>

definition applyHarnessAudit ::
    "Codec \<Rightarrow> (Artifact \<Rightarrow> AuditSummary) option \<Rightarrow> ValidateInput \<Rightarrow>
     DynamicValidationDecision \<Rightarrow> DynamicValidationDecision" where
  "applyHarnessAudit H runtime input decision =
     (case (runtime, dv_Receipt decision) of
        (Some validate, Some receipt) \<Rightarrow>
          (let summary = validate (buildHarnessArtifact H input decision receipt)
           in decision\<lparr>dv_AuditSummary := Some summary,
                dv_Receipt := Some (receipt\<lparr>dr_AuditSummary := Some summary\<rparr>)\<rparr>)
      | _ \<Rightarrow> decision)"

definition ValidateDynamicProposal ::
    "Codec \<Rightarrow> GoParser \<Rightarrow> (Artifact \<Rightarrow> AuditSummary) option \<Rightarrow> instant \<Rightarrow> ValidateInput \<Rightarrow>
     DynamicValidationDecision" where
  "ValidateDynamicProposal H P runtime now input =
     applyHarnessAudit H runtime input (validate_proposal_body H P now input)"

text \<open>The event that the deferred call emits for the decision.\<close>

definition validation_event ::
    "string \<Rightarrow> instant \<Rightarrow> DynamicValidationDecision \<Rightarrow> DynamicValidationReceipt \<Rightarrow> Event" where
  "validation_event uuid now decision receipt =
     (let ev = NewEvent uuid now ''selfmod'' ''selfmod_validation'';
          ev = ev\<lparr>ev_Operator := ''verify'',
            ev_Decision := RedactString (dv_ReasonCode decision) 64,
            ev_ReasonCode := RedactString (dv_ReasonCode decision) 128,
            ev_Status := (if \<not> dv_Allowed decision \<or> dv_HardBlock decision then ''blocked'' else ''ok''),
            ev_ErrorClass := RedactString (dr_RiskClass receipt) 64,
            ev_RedactionState := ''redacted'',
            ev_ReceiptRefs :=
              [NewRef ''operation_id'' (dr_OperationID receipt) [] 0,
               NewRef ''manifest_hash'' (dr_ManifestHash receipt) (dr_ManifestHash receipt) 0,
               NewRef ''artifact_hash'' (dr_ArtifactHash receipt) (dr_ArtifactHash receipt) 0],
            ev_ArtifactRefs :=
              [NewRef (dr_ArtifactKind receipt) (dr_ArtifactName receipt) (dr_ArtifactHash receipt) 0],
            ev_Metadata := NewMetadata
              [(''allowed'', boolString (dv_Allowed decision)),
               (''requires_approval'', boolString (dv_RequiresApproval decision)),
               (''hard_block'', boolString (dv_HardBlock decision)),
               (''issue_count'', intString (dr_IssuesCount receipt)),
               (''target_count'', intString (length (dr_TargetPaths receipt)))]\<rparr>;
          ev = (case dr_AuditSummary receipt of
                  None \<Rightarrow> ev
                | Some a \<Rightarrow> ev\<lparr>ev_ValidationRefs := ev_ValidationRefs ev @
                      [NewRef ''harness_report'' (as_ReportID a) [] 0],
                    ev_Metadata := AList.update ''harness_status'' (as_Status a)
                      (AList.update ''harness_mode'' (as_Mode a) (ev_Metadata ev))\<rparr>)
      in if \<not> IsZero (dr_CreatedAt receipt) then ev\<lparr>ev_Timestamp := dr_CreatedAt receipt\<rparr> else ev)"

definition emitValidationTrace ::
    "Codec \<Rightarrow> string \<Rightarrow> instant \<Rightarrow> bool \<Rightarrow> TraceMode \<Rightarrow> DynamicValidationDecision \<Rightarrow>
     DynamicValidationReceipt \<Rightarrow> emission" where
  "emitValidationTrace H uuid now has_sink mode decision receipt =
     (if \<not> has_sink \<or> mode = ModeOff then Dropped
      else Emit H uuid now has_sink mode (validation_event uuid now decision receipt))"

section \<open>Lemmas on authority fields\<close>

lemma first_some_None: "first_some xs = None \<longleftrightarrow> list_all (\<lambda>x. x = None) xs"
  by (induction xs rule: first_some.induct) auto

text \<open>Every key at every depth, in any order.\<close>

fun all_keys :: "any \<Rightarrow> string list" where
  "all_keys (VMap t) = concat (map (\<lambda>(k, child). k # all_keys child) t)"
| "all_keys (VList t) = concat (map all_keys t)"
| "all_keys _ = []"

definition authority_key :: "string \<Rightarrow> bool" where
  "authority_key k \<longleftrightarrow> normalizeAuthorityKey k \<in> set forbiddenAuthorityKeys"

lemma containsForbiddenAuthority_iff:
  "containsForbiddenAuthority v pre \<noteq> None \<longleftrightarrow> list_ex authority_key (all_keys v)"
proof (induction v pre rule: containsForbiddenAuthority.induct)
  case (1 t pre)
  have step: "(let nxt = (if pre \<noteq> [] then pre @ ''.'' @ k else k)
        in if normalizeAuthorityKey k \<in> set forbiddenAuthorityKeys then Some nxt
           else containsForbiddenAuthority child nxt) = None \<longleftrightarrow>
      \<not> authority_key k \<and> \<not> list_ex authority_key (all_keys child)"
    if "(k, child) \<in> set t" for k child
  proof (cases "normalizeAuthorityKey k \<in> set forbiddenAuthorityKeys")
    case False
    have "\<not> authority_key k" using False by (simp add: authority_key_def)
    moreover note ih = 1 [OF that refl refl False]
    ultimately show ?thesis
      using False by (cases "pre = []"; cases "list_ex authority_key (all_keys child)") auto
  qed (simp add: authority_key_def)
  have "containsForbiddenAuthority (VMap t) pre = None \<longleftrightarrow>
      (\<forall>(k, child) \<in> set t. \<not> authority_key k \<and> \<not> list_ex authority_key (all_keys child))"
    unfolding containsForbiddenAuthority.simps first_some_None list_all_iff set_map ball_simps
    by (rule ball_cong [OF refl]) (simp only: split_paired_all prod.case step)
  then show ?case by (auto simp: list_ex_iff)
next
  case (2 t pre)
  have enumerated: "set (enumerate 0 t) = (\<lambda>i. (i, t ! i)) ` {..<length t}"
    by (auto simp: in_set_enumerate_eq)
  have "containsForbiddenAuthority (t ! i) (pre @ ''['' @ itoa i @ '']'') = None \<longleftrightarrow>
      \<not> list_ex authority_key (all_keys (t ! i))" if "i < length t" for i
    using 2 [of "(i, t ! i)" i "t ! i"] that by (auto simp: in_set_enumerate_eq)
  then have "containsForbiddenAuthority (VList t) pre = None \<longleftrightarrow>
      (\<forall>child \<in> set t. \<not> list_ex authority_key (all_keys child))"
    unfolding containsForbiddenAuthority.simps first_some_None list_all_iff set_map ball_simps
      enumerated all_set_conv_all_nth by auto
  then show ?case by (auto simp: list_ex_iff)
qed simp_all

text \<open>A run of underscores counts as one: the reference for the loop of the code.\<close>

definition glue :: "char \<Rightarrow> string \<Rightarrow> string" where
  "glue c t = (case t of [] \<Rightarrow> [c] | d # r \<Rightarrow> if c = CHR ''_'' \<and> d = CHR ''_'' then t else c # t)"

fun squeeze :: "string \<Rightarrow> string" where
  "squeeze [] = []"
| "squeeze (c # s) = glue c (squeeze s)"

lemma glue_twice: "glue (CHR ''_'') (glue (CHR ''_'') t) = glue (CHR ''_'') t"
  by (auto simp: glue_def split: list.splits)

lemma squeeze_ReplaceAll: "squeeze (ReplaceAll ''__'' ''_'' s) = squeeze s"
proof (induction "''__''" "''_''" s rule: ReplaceAll.induct)
  case (2 c s)
  show ?case
  proof (cases "prefix ''__'' (c # s)")
    case True
    then obtain r where r: "c # s = CHR ''_'' # CHR ''_'' # r" by (auto simp: prefix_def)
    with 2(1) True show ?thesis by (simp add: glue_twice)
  next
    case False
    then have "ReplaceAll ''__'' ''_'' (c # s) = c # ReplaceAll ''__'' ''_'' s" by auto
    with 2(2) False show ?thesis by simp
  qed
qed simp

lemma squeeze_fix: "\<not> sublist ''__'' s \<Longrightarrow> squeeze s = s"
  by (induction s) (auto simp: glue_def sublist_Cons_right split: list.splits)

lemma collapse_squeeze: "collapse_underscores k = squeeze k"
proof (induction k rule: collapse_underscores.induct)
  case (1 k)
  show ?case
  proof (cases "sublist ''__'' k")
    case True
    with 1 have "collapse_underscores (ReplaceAll ''__'' ''_'' k) = squeeze k"
      by (simp add: squeeze_ReplaceAll)
    with True show ?thesis by (subst collapse_underscores.simps) simp
  next
    case False
    then show ?thesis by (subst collapse_underscores.simps) (simp add: squeeze_fix)
  qed
qed

section \<open>Lemmas on the validation\<close>

lemma with_receipt_sel [simp]:
  "dv_Allowed (with_receipt H now input m h d) = dv_Allowed d"
  "dv_HardBlock (with_receipt H now input m h d) = dv_HardBlock d"
  "dv_RequiresApproval (with_receipt H now input m h d) = dv_RequiresApproval d"
  "dv_ReasonCode (with_receipt H now input m h d) = dv_ReasonCode d"
  "dv_Issues (with_receipt H now input m h d) = dv_Issues d"
  "dv_Manifest (with_receipt H now input m h d) = m"
  by (simp_all add: with_receipt_def Let_def)

lemma dv_block_sel [simp]:
  "\<not> dv_Allowed (dv_block r is d)" "dv_HardBlock (dv_block r is d)" "dv_ReasonCode (dv_block r is d) = r"
  by (simp_all add: dv_block_def)

lemma dv_start_sel [simp]:
  "dv_Allowed dv_start" "\<not> dv_HardBlock dv_start" "\<not> dv_RequiresApproval dv_start"
  "dv_ReasonCode dv_start = []" "dv_Issues dv_start = []"
  by (simp_all add: dv_start_def)

text \<open>The body's receipt repeats the decision it belongs to.\<close>

definition receipt_matches :: "DynamicValidationDecision \<Rightarrow> bool" where
  "receipt_matches d \<longleftrightarrow> (case dv_Receipt d of None \<Rightarrow> False | Some r \<Rightarrow>
     dr_Allowed r = dv_Allowed d \<and> dr_RequiresApproval r = dv_RequiresApproval d \<and>
     dr_ReasonCode r = dv_ReasonCode d \<and> dr_IssuesCount r = length (dv_Issues d) \<and>
     dr_TargetPaths r = (case dv_Manifest d of None \<Rightarrow> [] | Some m \<Rightarrow> sm_targetPaths m))"

lemma with_receipt_matches [simp]: "receipt_matches (with_receipt H now input m h d)"
  by (cases m) (simp_all add: receipt_matches_def with_receipt_def receiptFrom_def Let_def)

text \<open>The reasons of a hard block.\<close>

definition hard_reason :: "string \<Rightarrow> bool" where
  "hard_reason r \<longleftrightarrow> prefix ''REASON_DYNAMIC_'' r \<and> r \<noteq> REASON_DYNAMIC_CAPABILITY_REQUIRES_APPROVAL \<and>
     r \<noteq> REASON_DYNAMIC_PROMOTION_REQUIRES_APPROVAL"

definition soft_reason :: "string \<Rightarrow> bool" where
  "soft_reason r \<longleftrightarrow> r = REASON_DYNAMIC_CAPABILITY_REQUIRES_APPROVAL \<or>
     r = REASON_DYNAMIC_PROMOTION_REQUIRES_APPROVAL"

lemma hard_reasons:
  "hard_reason REASON_DYNAMIC_MANIFEST_MISSING" "hard_reason REASON_DYNAMIC_MANIFEST_INVALID_JSON"
  "hard_reason REASON_DYNAMIC_MANIFEST_MISSING_REQUIRED_FIELD"
  "hard_reason REASON_DYNAMIC_AUTHORITY_FIELD_FORBIDDEN" "hard_reason REASON_DYNAMIC_CAPABILITY_FORBIDDEN"
  "hard_reason REASON_DYNAMIC_PATH_OUTSIDE_STAGING" "hard_reason REASON_DYNAMIC_PATH_TRAVERSAL"
  "hard_reason REASON_DYNAMIC_CONTROL_CHAR" "hard_reason REASON_DYNAMIC_PROTECTED_TARGET"
  "hard_reason REASON_DYNAMIC_STATIC_SCAN_FAILED" "hard_reason REASON_DYNAMIC_IMPORT_FORBIDDEN"
  "hard_reason REASON_DYNAMIC_INIT_FORBIDDEN" "hard_reason REASON_DYNAMIC_NETWORK_FORBIDDEN"
  "hard_reason REASON_DYNAMIC_EXEC_FORBIDDEN" "hard_reason REASON_DYNAMIC_CREDENTIAL_ACCESS_FORBIDDEN"
  by (simp_all add: hard_reason_def code_const)

lemma soft_reason_not_Nil: "soft_reason r \<Longrightarrow> r \<noteq> []"
  by (auto simp: soft_reason_def code_const)

lemma hard_not_soft: "hard_reason r \<Longrightarrow> \<not> soft_reason r"
  by (simp add: hard_reason_def soft_reason_def)

lemma protected_loop_reason:
  "protected_loop ps clean = Some v \<Longrightarrow>
   pa_issue v \<noteq> [] \<and> (if pa_hardBlock v then hard_reason (pa_reason v) else soft_reason (pa_reason v))"
  by (induction ps) (auto simp: hard_reasons soft_reason_def split: if_splits)

lemma validateTargetPath_reason:
  "pa_hardBlock (validateTargetPath p) \<Longrightarrow> hard_reason (pa_reason (validateTargetPath p))"
  using protected_loop_reason [of protectedPrefixes "Clean p"]
  by (auto simp: validateTargetPath_def Let_def hard_reasons split: if_splits option.splits)

lemma classifyCall_reason: "classifyCall caps pkg sel = Some (r, i) \<Longrightarrow> hard_reason r"
  by (auto simp: classifyCall_def Let_def hard_reasons split: if_splits)

lemma scan_node_reason:
  "scan_node caps n = Some (r, i) \<Longrightarrow> hard_reason r"
  "scan_nodes caps ns = Some (r, i) \<Longrightarrow> hard_reason r"
proof (induction caps n and caps ns rule: scan_node_scan_nodes.induct)
  case (1 caps k children)
  then show ?case
    by (cases k) (auto simp: hard_reasons dest: classifyCall_reason split: option.splits if_splits)
qed (auto split: option.splits)

lemma forbiddenImports_reason: "forbiddenImports path = Some r \<Longrightarrow> hard_reason r"
  by (auto simp: forbiddenImports_def hard_reasons split: if_splits)

lemma scan_imports_reason: "scan_imports P caps imps = Some r \<Longrightarrow> hard_reason (ss_ReasonCode r)"
  by (induction imps) (auto simp: hard_reasons dest: forbiddenImports_reason split: option.splits if_splits)

lemma StaticScan_reason:
  "\<not> ss_Allowed (StaticScanGoSource P source caps) \<Longrightarrow>
   hard_reason (ss_ReasonCode (StaticScanGoSource P source caps))"
  by (auto simp: StaticScanGoSource_def Let_def hard_reasons split: sum.splits option.splits
      dest: scan_imports_reason scan_node_reason)

definition dv_open :: "DynamicValidationDecision \<Rightarrow> bool" where
  "dv_open d \<longleftrightarrow> dv_Allowed d \<and> \<not> dv_HardBlock d \<and>
     (if dv_RequiresApproval d then soft_reason (dv_ReasonCode d) else dv_ReasonCode d = [])"

definition dv_blocked :: "DynamicValidationDecision \<Rightarrow> bool" where
  "dv_blocked d \<longleftrightarrow> \<not> dv_Allowed d \<and> dv_HardBlock d \<and> hard_reason (dv_ReasonCode d)"

lemma dv_block_blocked: "hard_reason r \<Longrightarrow> dv_blocked (dv_block r is d)"
  by (simp add: dv_blocked_def)

lemma with_receipt_status [simp]:
  "dv_blocked (with_receipt H now input m h d) \<longleftrightarrow> dv_blocked d"
  by (simp add: dv_blocked_def)

lemma target_loop_result:
  assumes "dv_open d"
  shows "if fst (target_loop ps d)
    then dv_blocked (snd (target_loop ps d))
    else dv_open (snd (target_loop ps d)) \<and>
      list_all (\<lambda>p. \<not> pa_hardBlock (validateTargetPath p)) ps \<and>
      dv_RequiresApproval (snd (target_loop ps d)) =
        (dv_RequiresApproval d \<or> list_ex (\<lambda>p. pa_requiresApproval (validateTargetPath p)) ps)"
  using assms
proof (induction ps arbitrary: d)
  case (Cons p ps)
  let ?v = "validateTargetPath p"
  define d1 where "d1 = (if pa_issue ?v \<noteq> [] then d\<lparr>dv_Issues := dv_Issues d @ [pa_issue ?v]\<rparr> else d)"
  have d1: "dv_open d1" "dv_RequiresApproval d1 = dv_RequiresApproval d"
    using Cons.prems by (auto simp: d1_def dv_open_def)
  show ?case
  proof (cases "pa_hardBlock ?v")
    case True
    then have "target_loop (p # ps) d =
        (True, d1\<lparr>dv_Allowed := False, dv_HardBlock := True, dv_ReasonCode := pa_reason ?v\<rparr>)"
      by (simp add: Let_def d1_def)
    with validateTargetPath_reason [OF True] show ?thesis by (simp add: dv_blocked_def)
  next
    case False
    define d2 where "d2 = (if pa_requiresApproval ?v
       then (let d = d1\<lparr>dv_RequiresApproval := True\<rparr>
             in if dv_ReasonCode d = []
                then d\<lparr>dv_ReasonCode := REASON_DYNAMIC_PROMOTION_REQUIRES_APPROVAL\<rparr> else d)
       else d1)"
    have d2: "dv_open d2" "dv_RequiresApproval d2 = (dv_RequiresApproval d \<or> pa_requiresApproval ?v)"
      using d1 by (auto simp: d2_def dv_open_def Let_def soft_reason_def split: if_splits)
    have "target_loop (p # ps) d = target_loop ps d2"
      using False by (simp add: Let_def d1_def d2_def)
    with Cons.IH [OF d2(1)] d2(2) False show ?thesis by auto
  qed
qed simp

text \<open>The decision on a manifest, by the ways its checks can end.\<close>

definition scanned_source :: "ValidateInput \<Rightarrow> string" where
  "scanned_source input =
     (if TrimSpace (vi_GeneratedGoSrc input) = [] then extractGeneratedSource (vi_Parameters input)
      else TrimSpace (vi_GeneratedGoSrc input))"

definition manifest_accepted :: "GoParser \<Rightarrow> ValidateInput \<Rightarrow> SelfModificationManifest \<Rightarrow> bool" where
  "manifest_accepted P input m \<longleftrightarrow>
     list_all known_capability (sm_capabilities m) \<and>
     list_all (\<lambda>p. \<not> pa_hardBlock (validateTargetPath p)) (sm_targetPaths m) \<and>
     (scanned_source input = [] \<or>
      ss_Allowed (StaticScanGoSource P (scanned_source input) (sm_capabilities m)))"

definition manifest_needs_approval :: "SelfModificationManifest \<Rightarrow> bool" where
  "manifest_needs_approval m \<longleftrightarrow>
     list_ex approval_capability (sm_capabilities m) \<or>
     list_ex (\<lambda>p. pa_requiresApproval (validateTargetPath p)) (sm_targetPaths m)"

definition dv_accepted :: "bool \<Rightarrow> DynamicValidationDecision \<Rightarrow> bool" where
  "dv_accepted approval d \<longleftrightarrow> dv_Allowed d \<and> \<not> dv_HardBlock d \<and> dv_RequiresApproval d = approval \<and>
     (if approval then soft_reason (dv_ReasonCode d) else dv_ReasonCode d = REASON_POLICY_ALLOWED)"

lemma validate_manifest_result:
  "(dv_blocked (validate_manifest H P now input m) \<or>
    (dv_accepted (manifest_needs_approval m) (validate_manifest H P now input m) \<and>
     manifest_accepted P input m)) \<and>
   dv_Manifest (validate_manifest H P now input m) = Some m \<and>
   receipt_matches (validate_manifest H P now input m)"
proof (cases "cv_hardBlock (classifyCapabilities (sm_capabilities m))")
  case True
  with classify_caps_loop_verdict [of False "[]" "sm_capabilities m"] show ?thesis
    by (simp add: validate_manifest_def Let_def classifyCapabilities_def dv_block_blocked hard_reasons)
next
  case False
  let ?cv = "classifyCapabilities (sm_capabilities m)" and ?src = "scanned_source input"
  let ?scan = "StaticScanGoSource P ?src (sm_capabilities m)"
  define d0 where "d0 = (if cv_requiresApproval ?cv
     then dv_start\<lparr>dv_RequiresApproval := True, dv_ReasonCode := cv_reason ?cv,
       dv_Issues := dv_Issues dv_start @ cv_issues ?cv\<rparr> else dv_start)"
  obtain b d where bd: "target_loop (sm_targetPaths m) d0 = (b, d)" by fastforce
  have caps: "list_all known_capability (sm_capabilities m)"
    "cv_requiresApproval ?cv = list_ex approval_capability (sm_capabilities m)"
    "cv_requiresApproval ?cv \<Longrightarrow> soft_reason (cv_reason ?cv)"
    using False classify_caps_loop_verdict [of False "[]" "sm_capabilities m"]
    by (auto simp: classifyCapabilities_def soft_reason_def)
  then have d0: "dv_open d0" "dv_RequiresApproval d0 = list_ex approval_capability (sm_capabilities m)"
    by (auto simp: d0_def dv_open_def)
  note loop = target_loop_result [OF d0(1), of "sm_targetPaths m", unfolded bd fst_conv snd_conv]
  define corr where "corr \<longleftrightarrow> EqualFold (TrimSpace (vi_Mode input)) ''GOVERNANCE_CORRECTNESS'' \<and>
     IsMutating m \<and> (sm_expectedEffects m = [] \<or> TrimSpace (sm_rollbackPlan m) = [])"
  have eq: "validate_manifest H P now input m =
     (if b then with_receipt H now input (Some m) [] d
      else if ?src \<noteq> [] \<and> \<not> ss_Allowed ?scan
      then with_receipt H now input (Some m) (hashAny H (VStr ?src))
             (dv_block (ss_ReasonCode ?scan) (ss_Issues ?scan) d)
      else if corr
      then with_receipt H now input (Some m) (hashAny H (VStr ?src))
             (dv_block REASON_DYNAMIC_MANIFEST_MISSING_REQUIRED_FIELD
               [''correctness mode requires expected_effects and rollback_plan''] d)
      else with_receipt H now input (Some m) (hashAny H (VStr ?src))
             (if dv_ReasonCode d = [] then d\<lparr>dv_ReasonCode := REASON_POLICY_ALLOWED\<rparr> else d))"
    using False bd unfolding validate_manifest_def Let_def d0_def [symmetric] scanned_source_def corr_def
    by simp
  show ?thesis
  proof (cases b)
    case True
    with loop eq show ?thesis by simp
  next
    case nb: False
    with loop have open_d: "dv_open d"
      and paths: "list_all (\<lambda>p. \<not> pa_hardBlock (validateTargetPath p)) (sm_targetPaths m)"
      and ra: "dv_RequiresApproval d = manifest_needs_approval m"
      using d0(2) by (simp_all add: manifest_needs_approval_def)
    consider (scan) "?src \<noteq> [] \<and> \<not> ss_Allowed ?scan" | (corr) "\<not> (?src \<noteq> [] \<and> \<not> ss_Allowed ?scan)" corr
      | (ok) "\<not> (?src \<noteq> [] \<and> \<not> ss_Allowed ?scan)" "\<not> corr" by blast
    then show ?thesis
    proof cases
      case scan
      then have "hard_reason (ss_ReasonCode ?scan)" using StaticScan_reason by blast
      with eq nb scan show ?thesis by (simp add: dv_block_blocked)
    next
      case corr
      with eq nb show ?thesis by (simp add: dv_block_blocked hard_reasons)
    next
      case ok
      then have "manifest_accepted P input m" using caps paths by (auto simp: manifest_accepted_def)
      moreover have "dv_accepted (manifest_needs_approval m) (validate_manifest H P now input m)"
        using eq nb ok open_d ra by (auto simp: dv_accepted_def dv_open_def dest: soft_reason_not_Nil)
      moreover have "validate_manifest H P now input m =
         with_receipt H now input (Some m) (hashAny H (VStr ?src))
             (if dv_ReasonCode d = [] then d\<lparr>dv_ReasonCode := REASON_POLICY_ALLOWED\<rparr> else d)"
        using eq nb ok by simp
      ultimately show ?thesis by simp
    qed
  qed
qed

lemma errorReasonCode_hard: "hard_reason fallback \<Longrightarrow> hard_reason (errorReasonCode msg fallback)"
  by (auto simp: errorReasonCode_def hard_reasons split: option.splits)

text \<open>The manifest that was checked for authority fields is the manifest that was parsed.\<close>

lemma first_present_non_nil:
  assumes "first_present ks ps = Some raw" and "raw \<noteq> VNil"
  shows "first_non_nil ks ps = Some raw"
  using assms by (induction ks) (auto split: option.splits any.splits)

lemma ParseManifest_raw:
  assumes "ParseManifest H raw = Inr m"
  shows "parseRawManifest H raw = Inr (sm_raw m)" and "raw \<noteq> VNil"
proof -
  from assms show "parseRawManifest H raw = Inr (sm_raw m)"
    by (auto simp: ParseManifest_def Let_def missing_field_def split: sum.splits if_splits)
  then show "raw \<noteq> VNil" by (auto simp: parseRawManifest_def)
qed

lemma missing_field_Inr [simp]: "missing_field f \<noteq> Inr m"
  by (simp add: missing_field_def)

lemma missing_field_guard:
  "(if c then missing_field f else X) = Inr m \<longleftrightarrow> \<not> c \<and> X = Inr m"
  by simp

lemma target_paths_loop_Nil: "target_paths_loop ps = Inr [] \<Longrightarrow> ps = []"
  by (cases ps) (auto split: sum.splits)

lemma ParseManifest_mutating:
  assumes "ParseManifest H raw = Inr m"
  shows "sm_kind m \<in> set allowedKinds \<and> sm_name m \<noteq> [] \<and> sm_riskClass m \<noteq> [] \<and>
    (IsMutating m \<longrightarrow> sm_capabilities m \<noteq> [] \<and> sm_targetPaths m \<noteq> [] \<and>
       sm_expectedEffects m \<noteq> [] \<and> sm_rollbackPlan m \<noteq> [])"
proof -
  from assms obtain decoded where raw: "parseRawManifest H raw = Inr decoded"
    by (simp add: ParseManifest_def split: sum.split_asm)
  from assms obtain n where n: "newArtifactName (string_field decoded ''name'') = Inr n"
    by (simp add: ParseManifest_def raw split: sum.split_asm)
  define kind where "kind = TrimSpace (string_field decoded ''artifact_kind'')"
  define riskClass where "riskClass = string_field decoded ''risk_class''"
  define caps where "caps = parseStringList (any_field decoded ''capabilities'')"
  define pathVals where "pathVals = parseStringList (any_field decoded ''target_paths'')"
  define effects where "effects = parseStringList (any_field decoded ''expected_effects'')"
  define rollback where "rollback = string_field decoded ''rollback_plan''"
  note folds = kind_def [symmetric] riskClass_def [symmetric] caps_def [symmetric]
    pathVals_def [symmetric] effects_def [symmetric] rollback_def [symmetric]
  note eq = assms [unfolded ParseManifest_def raw n sum.case Let_def folds]
  note guards = eq [unfolded missing_field_guard]
  from guards obtain targetPaths where paths: "target_paths_loop pathVals = Inr targetPaths"
    by (cases "target_paths_loop pathVals") auto
  note all_guards = guards [unfolded paths sum.case missing_field_guard]
  from all_guards have kind: "kind \<in> set allowedKinds" and risk: "TrimSpace riskClass \<noteq> []"
    and lists: "kind \<noteq> ArtifactDocs \<Longrightarrow> caps \<noteq> []" "kind \<noteq> ArtifactDocs \<Longrightarrow> pathVals \<noteq> []"
    and rest: "kind \<noteq> ArtifactDocs \<Longrightarrow> effects \<noteq> []" "kind \<noteq> ArtifactDocs \<Longrightarrow> TrimSpace rollback \<noteq> []"
    by blast+
  note parsed = all_guards [THEN conjunct2, THEN conjunct2, THEN conjunct2, THEN conjunct2,
      THEN conjunct2, THEN conjunct2, THEN conjunct2, THEN conjunct2]
  from parsed have m: "sm_kind m = kind" "sm_name m = n" "sm_riskClass m = TrimSpace riskClass"
    "sm_capabilities m = toCapabilities caps" "sm_targetPaths m = targetPaths"
    "sm_expectedEffects m = effects" "sm_rollbackPlan m = TrimSpace rollback"
    by auto
  have "n \<noteq> []" using n by (auto simp: newArtifactName_def Let_def split: if_split_asm)
  with m kind risk lists rest target_paths_loop_Nil [of pathVals] paths show ?thesis
    by (auto simp: IsMutating_def toCapabilities_def)
qed

lemma ExtractManifest_accepted:
  assumes "ExtractManifest H ps = Inr m"
  obtains raw where "extractManifestRaw ps = Some raw" and "parseRawManifest H raw = Inr (sm_raw m)"
    and "ParseManifest H raw = Inr m"
proof -
  from assms obtain raw where raw: "first_present manifest_keys ps = Some raw"
    "ParseManifest H raw = Inr m" and "ps \<noteq> None"
    by (auto simp: ExtractManifest_def split: if_splits option.splits)
  with first_present_non_nil [OF raw(1)] ParseManifest_raw [OF raw(2)] show thesis
    by (intro that [of raw]) (simp_all add: extractManifestRaw_def)
qed

definition proposal_accepted ::
    "Codec \<Rightarrow> GoParser \<Rightarrow> ValidateInput \<Rightarrow> SelfModificationManifest \<Rightarrow> bool" where
  "proposal_accepted H P input m \<longleftrightarrow>
     ExtractManifest H (vi_Parameters input) = Inr m \<and> manifest_accepted P input m \<and>
     \<not> list_ex authority_key (all_keys (VMap (sm_raw m)))"

lemma validate_proposal_body_result:
  fixes H P now input
  defines "d \<equiv> validate_proposal_body H P now input"
  shows "(dv_blocked d \<or>
      (\<exists>m. dv_Manifest d = Some m \<and> proposal_accepted H P input m \<and>
           dv_accepted (manifest_needs_approval m) d)) \<and> receipt_matches d"
proof (cases "extractManifestRaw (vi_Parameters input)")
  case None
  then show ?thesis
    by (simp add: d_def validate_proposal_body_def dv_block_blocked hard_reasons)
next
  case raw: (Some raw)
  let ?auth = "case parseRawManifest H raw of Inl err \<Rightarrow> None
     | Inr decoded \<Rightarrow> containsForbiddenAuthority (VMap decoded) []"
  show ?thesis
  proof (cases ?auth)
    case (Some path)
    then show ?thesis
      using raw by (simp add: d_def validate_proposal_body_def dv_block_blocked hard_reasons)
  next
    case no_auth: None
    show ?thesis
    proof (cases "ExtractManifest H (vi_Parameters input)")
      case (Inl err)
      then show ?thesis
        using raw no_auth
        by (simp add: d_def validate_proposal_body_def dv_block_blocked hard_reasons errorReasonCode_hard)
    next
      case (Inr m)
      then have d: "d = validate_manifest H P now input m"
        using raw no_auth by (simp add: d_def validate_proposal_body_def)
      from ExtractManifest_accepted [OF Inr] raw have "parseRawManifest H raw = Inr (sm_raw m)"
        by (metis option.inject)
      with no_auth have "\<not> list_ex authority_key (all_keys (VMap (sm_raw m)))"
        using containsForbiddenAuthority_iff [of "VMap (sm_raw m)" "[]"]
        by (simp del: all_keys.simps containsForbiddenAuthority.simps)
      with validate_manifest_result [of H P now input m] Inr show ?thesis
        unfolding d proposal_accepted_def by (simp del: all_keys.simps) blast
    qed
  qed
qed

lemma applyHarnessAudit_sel [simp]:
  "dv_Allowed (applyHarnessAudit H rt input d) = dv_Allowed d"
  "dv_HardBlock (applyHarnessAudit H rt input d) = dv_HardBlock d"
  "dv_RequiresApproval (applyHarnessAudit H rt input d) = dv_RequiresApproval d"
  "dv_ReasonCode (applyHarnessAudit H rt input d) = dv_ReasonCode d"
  "dv_Issues (applyHarnessAudit H rt input d) = dv_Issues d"
  "dv_Manifest (applyHarnessAudit H rt input d) = dv_Manifest d"
  "receipt_matches (applyHarnessAudit H rt input d) = receipt_matches d"
  by (auto simp: applyHarnessAudit_def receipt_matches_def Let_def split: option.splits)

lemma audit_status:
  "dv_blocked (applyHarnessAudit H rt input d) = dv_blocked d"
  "dv_accepted a (applyHarnessAudit H rt input d) = dv_accepted a d"
  by (simp_all add: dv_blocked_def dv_accepted_def)

section \<open>Properties\<close>

text \<open>
  A value carries a forbidden authority field, at any depth and below any mixture of maps
  and lists, exactly when \<open>containsForbiddenAuthority\<close> reports one: the verdict does not
  depend on the order in which Go iterates over its maps, nor on the path prefix.
\<close>

theorem authority_fields_found:
  "containsForbiddenAuthority v pre \<noteq> None \<longleftrightarrow> list_ex authority_key (all_keys v)"
  by (rule containsForbiddenAuthority_iff)

text \<open>
  The loop that collapses underscores terminates and computes the obvious reference: a key
  is lower-cased and trimmed, its separators become underscores, every run of underscores
  becomes one, and the outer underscores are dropped.
\<close>

theorem normalizeAuthorityKey_reference:
  "normalizeAuthorityKey raw =
     trim_char (CHR ''_'') (squeeze (map separator_to_underscore (ToLower (TrimSpace raw))))"
  by (simp add: normalizeAuthorityKey_def collapse_squeeze)

text \<open>
  C3. Safety of self-modification: a proposal is either hard-blocked, with a reason that the
  governor treats as final, or it carries a manifest that parses, whose raw fields hold no
  forbidden authority key at any depth, whose capabilities are all in the tables, whose target
  paths are all unblocked, and whose generated source, if any, passes the static scan. It is
  accepted without approval exactly when no capability and no path asks for one.
\<close>

theorem proposal_safety:
  "dv_blocked (ValidateDynamicProposal H P runtime now input) \<or>
   (\<exists>m. dv_Manifest (ValidateDynamicProposal H P runtime now input) = Some m \<and>
      proposal_accepted H P input m \<and>
      dv_accepted (manifest_needs_approval m) (ValidateDynamicProposal H P runtime now input))"
  unfolding ValidateDynamicProposal_def audit_status applyHarnessAudit_sel
  by (rule conjunct1 [OF validate_proposal_body_result])

text \<open>
  The receipt of a validation repeats the decision: allowed, approval, reason, number of
  issues and target paths are those of the decision, whichever check ended the validation and
  whether or not the harness added its summary.
\<close>

theorem proposal_receipt:
  "receipt_matches (ValidateDynamicProposal H P runtime now input)"
  using validate_proposal_body_result [of H P now input]
  by (simp add: ValidateDynamicProposal_def)

text \<open>
  A manifest that parses is complete: a known kind, a name and a risk class; and any
  artifact other than passive documentation declares capabilities, target paths, expected
  effects and a rollback plan. So the check of the correctness mode, which asks for the last
  two, never fires after a successful parse.
\<close>

theorem manifest_complete:
  assumes "ParseManifest H raw = Inr m"
  shows "sm_kind m \<in> set allowedKinds \<and> sm_name m \<noteq> [] \<and> sm_riskClass m \<noteq> [] \<and>
    (IsMutating m \<longrightarrow> sm_capabilities m \<noteq> [] \<and> sm_targetPaths m \<noteq> [] \<and>
       sm_expectedEffects m \<noteq> [] \<and> sm_rollbackPlan m \<noteq> [])"
  by (rule ParseManifest_mutating [OF assms])

definition manifest_example :: gomap where
  "manifest_example = [(''name'', VStr ''demo''), (''artifact_kind'', VStr ''dynamic_tool''),
     (''risk_class'', VStr ''low''), (''capabilities'', VList [VStr ''dynamic.skill.stage'']),
     (''target_paths'', VStr '' .gorkbot/staging/demo.go ''), (''expected_effects'', VStrs [''stages'']),
     (''rollback_plan'', VStr ''delete'')]"

definition codec_example :: Codec where
  "codec_example = \<lparr>c_Sha256Hex = (\<lambda>s. s), c_Marshal = (\<lambda>v. Some ''{}''),
     c_Unmarshal = (\<lambda>s. Inr manifest_example), c_Quote = (\<lambda>s. s), c_FormatNum = (\<lambda>s. s)\<rparr>"

lemma manifest_complete_witness:
  "\<exists>m. ParseManifest codec_example (VMap manifest_example) = Inr m \<and> sm_rollbackPlan m \<noteq> []"
proof -
  have trims: "TrimSpace ''demo'' = ''demo''" "TrimSpace ''dynamic_tool'' = ''dynamic_tool''"
    "TrimSpace ''low'' = ''low''" "TrimSpace ''dynamic.skill.stage'' = ''dynamic.skill.stage''"
    "TrimSpace '' .gorkbot/staging/demo.go '' = ''.gorkbot/staging/demo.go''"
    "TrimSpace ''.gorkbot/staging/demo.go'' = ''.gorkbot/staging/demo.go''"
    "TrimSpace ''stages'' = ''stages''" "TrimSpace ''delete'' = ''delete''"
    by (simp_all add: go_eval)
  have "case ParseManifest codec_example (VMap manifest_example) of Inl e \<Rightarrow> False
      | Inr m \<Rightarrow> sm_kind m = ''dynamic_tool''"
    by (simp add: ParseManifest_def parseRawManifest_def copyMap_def codec_example_def Let_def
        manifest_example_def newArtifactName_def newArtifactPath_def string_field_def any_field_def
        trimmed_strings_def List.map_filter_def allowedKinds_def ArtifactDocs_def trims)
  then obtain m where m: "ParseManifest codec_example (VMap manifest_example) = Inr m"
    "sm_kind m = ''dynamic_tool''"
    by (auto split: sum.splits)
  from manifest_complete [OF m(1)] m show ?thesis by (auto simp: IsMutating_def ArtifactDocs_def)
qed

end
