(* ===== verification/GovPolicy.thy ===== *)
theory GovPolicy
  imports SelfmodValidator
begin

text \<open>
  The deterministic local policy of \<open>pkg/governance/policy.go\<close>. What the validator of
  self-modification takes from its environment is bundled in \<open>SelfmodEnv\<close>.
\<close>

record SelfmodEnv =
  se_Codec :: Codec
  se_Parser :: GoParser
  se_Harness :: "(Artifact \<Rightarrow> AuditSummary) option"
  se_Now :: instant

definition selfmod_validate :: "SelfmodEnv \<Rightarrow> ValidateInput \<Rightarrow> DynamicValidationDecision" where
  "selfmod_validate E input =
     ValidateDynamicProposal (se_Codec E) (se_Parser E) (se_Harness E) (se_Now E) input"

definition sample_env :: SelfmodEnv where
  "sample_env = \<lparr>se_Codec = sample_codec, se_Parser = scan_example, se_Harness = None, se_Now = 1\<rparr>"

record Policy =
  po_WorkspaceRoot :: string
  po_Mode :: Mode
  po_ExternalSideEffectsRequireApproval :: bool
  po_DestructiveRequireApproval :: bool
  po_SelfModificationRequireManifest :: bool
  po_PrivilegedBridgeRequireApproval :: bool
  po_AllowReadOnlyFastPath :: bool
  po_AllowUnknownTools :: bool

definition DefaultPolicy :: Policy where
  "DefaultPolicy =
     \<lparr>po_WorkspaceRoot = [], po_Mode = GOVERNANCE_OFF,
      po_ExternalSideEffectsRequireApproval = True, po_DestructiveRequireApproval = True,
      po_SelfModificationRequireManifest = True, po_PrivilegedBridgeRequireApproval = True,
      po_AllowReadOnlyFastPath = True, po_AllowUnknownTools = False\<rparr>"

definition isWithinRoot :: "string \<Rightarrow> string \<Rightarrow> bool" where
  "isWithinRoot target root =
     (let tClean = Clean target; rClean = Clean root
      in if tClean = rClean then True else prefix (rClean @ ''/'') tClean)"

definition HasSelfModificationManifest :: "Codec \<Rightarrow> GovernedAction \<Rightarrow> bool" where
  "HasSelfModificationManifest H action =
     (if ga_Parameters action = None then False
      else (case ExtractManifest H (ga_Parameters action) of Inl err \<Rightarrow> False | Inr m \<Rightarrow> True))"

section \<open>Evaluation\<close>

text \<open>The decision before any check, and the ways in which the checks finish it.\<close>

definition decision_start :: "Policy \<Rightarrow> GovernedAction \<Rightarrow> GovernanceDecision" where
  "decision_start p action =
     \<lparr>gd_ActionID = ga_ID action, gd_Allowed = True, gd_Mode = po_Mode p,
      gd_FinalStatus = GOVERNANCE_ALLOWED, gd_ReasonCode = REASON_POLICY_ALLOWED,
      gd_Issues = [], gd_RiskClass = ga_RiskClass action, gd_RequiresHuman = False,
      gd_ApprovedAction = None, gd_DurationMS = 0\<rparr>"

definition decision_approve :: "GovernedAction \<Rightarrow> GovernanceDecision \<Rightarrow> GovernanceDecision" where
  "decision_approve action d = d\<lparr>gd_ApprovedAction := Some action\<rparr>"

definition decision_audit :: "GovernedAction \<Rightarrow> GovernanceDecision \<Rightarrow> GovernanceDecision" where
  "decision_audit action d =
     d\<lparr>gd_Allowed := True, gd_FinalStatus := GOVERNANCE_AUDIT_ONLY,
       gd_ReasonCode := REASON_AUDIT_MODE, gd_ApprovedAction := Some action\<rparr>"

definition decision_deny :: "string \<Rightarrow> string \<Rightarrow> GovernanceDecision \<Rightarrow> GovernanceDecision" where
  "decision_deny status reason d =
     d\<lparr>gd_Allowed := False, gd_FinalStatus := status, gd_ReasonCode := reason\<rparr>"

definition add_issues :: "string list \<Rightarrow> GovernanceDecision \<Rightarrow> GovernanceDecision" where
  "add_issues is d = d\<lparr>gd_Issues := gd_Issues d @ is\<rparr>"

text \<open>The branch that four risk classes share: a human must approve, unless auditing.\<close>

definition require_human ::
    "Policy \<Rightarrow> GovernedAction \<Rightarrow> string \<Rightarrow> string \<Rightarrow> GovernanceDecision \<Rightarrow> GovernanceDecision" where
  "require_human p action issue reason d =
     (let d = add_issues [issue] (d\<lparr>gd_RequiresHuman := True\<rparr>)
      in if po_Mode p = GOVERNANCE_AUDIT then decision_audit action d
         else decision_deny GOVERNANCE_REQUIRES_HUMAN reason d)"

definition evaluate_selfmod ::
    "SelfmodEnv \<Rightarrow> Policy \<Rightarrow> GovernedAction \<Rightarrow> GovernanceDecision \<Rightarrow> GovernanceDecision" where
  "evaluate_selfmod E p action d =
     (if po_SelfModificationRequireManifest p
      then
        (let selfDecision = selfmod_validate E
               \<lparr>vi_OperationID = ga_ID action, vi_ToolName = ga_ToolName action,
                vi_Mode = mode_string (po_Mode p), vi_Parameters = ga_Parameters action,
                vi_GeneratedGoSrc = []\<rparr>;
             d = add_issues (IssuesCopy selfDecision) d
         in if po_Mode p = GOVERNANCE_AUDIT then decision_audit action d
            else if dv_HardBlock selfDecision \<or> \<not> dv_Allowed selfDecision
            then (decision_deny GOVERNANCE_BLOCKED (dv_ReasonCode selfDecision) d)\<lparr>gd_RequiresHuman := False\<rparr>
            else if dv_RequiresApproval selfDecision
            then (decision_deny GOVERNANCE_REQUIRES_HUMAN (dv_ReasonCode selfDecision) d)\<lparr>gd_RequiresHuman := True\<rparr>
            else decision_approve action d)
      else decision_approve action d)"

definition evaluate_mutation ::
    "Policy \<Rightarrow> GovernedAction \<Rightarrow> GovernanceDecision \<Rightarrow> GovernanceDecision" where
  "evaluate_mutation p action d =
     (let effects = (if po_Mode p = GOVERNANCE_CORRECTNESS \<and> ga_ExpectedEffects action = []
                     then [''missing expected effects''] else []);
          rollback = (if po_Mode p = GOVERNANCE_CORRECTNESS \<and>
                         (case ga_Rollback action of None \<Rightarrow> True | Some r \<Rightarrow> \<not> rp_Available r)
                      then [''missing rollback plan''] else []);
          d = add_issues (effects @ rollback) d
      in if po_Mode p = GOVERNANCE_CORRECTNESS \<and> gd_Issues d \<noteq> []
         then decision_deny GOVERNANCE_BLOCKED REASON_POLICY_BLOCKED d
         else if po_WorkspaceRoot p \<noteq> [] \<and> ga_Workspace action \<noteq> [] \<and>
                 \<not> isWithinRoot (ga_Workspace action) (po_WorkspaceRoot p)
         then
           (let d = add_issues [''workspace outside allowed root''] d
            in if po_Mode p = GOVERNANCE_AUDIT then decision_audit action d
               else decision_deny GOVERNANCE_BLOCKED REASON_POLICY_BLOCKED d)
         else decision_approve action d)"

definition Policy_Evaluate :: "SelfmodEnv \<Rightarrow> Policy \<Rightarrow> GovernedAction \<Rightarrow> GovernanceDecision" where
  "Policy_Evaluate E p action =
     (let d = decision_start p action
      in if po_Mode p = GOVERNANCE_OFF then decision_approve action d
         else if ga_RiskClass action = RISK_READ_ONLY \<and> po_AllowReadOnlyFastPath p
         then decision_approve action
                (d\<lparr>gd_ReasonCode := REASON_FAST_PATH_READ_ONLY, gd_FinalStatus := GOVERNANCE_ALLOWED\<rparr>)
         else if ga_RiskClass action = RISK_UNKNOWN \<and> \<not> po_AllowUnknownTools p
         then
           (let d = add_issues [REASON_UNKNOWN_RISK] d
            in if po_Mode p = GOVERNANCE_AUDIT then decision_audit action d
               else decision_deny GOVERNANCE_BLOCKED REASON_UNKNOWN_RISK d)
         else
           (case ga_RiskClass action of
              RISK_EXTERNAL_SIDE_EFFECT \<Rightarrow>
                if po_ExternalSideEffectsRequireApproval p
                then require_human p action REASON_EXTERNAL_SIDE_EFFECT_REQUIRES_APPROVAL
                       REASON_EXTERNAL_SIDE_EFFECT_REQUIRES_APPROVAL d
                else decision_approve action d
            | RISK_DESTRUCTIVE \<Rightarrow>
                if po_DestructiveRequireApproval p
                then require_human p action REASON_DESTRUCTIVE_REQUIRES_APPROVAL
                       REASON_DESTRUCTIVE_REQUIRES_APPROVAL d
                else decision_approve action d
            | RISK_SELF_MODIFICATION \<Rightarrow> evaluate_selfmod E p action d
            | RISK_PRIVILEGED_BRIDGE \<Rightarrow>
                if po_PrivilegedBridgeRequireApproval p
                then require_human p action ''privileged bridge requires approval''
                       REASON_POLICY_BLOCKED d
                else decision_approve action d
            | RISK_LOCAL_MUTATION \<Rightarrow> evaluate_mutation p action d
            | _ \<Rightarrow> decision_approve action d))"

section \<open>Lemmas\<close>

lemmas decision_defs = decision_approve_def decision_audit_def decision_deny_def add_issues_def
  decision_start_def

lemma decision_allowed [simp]:
  "gd_Allowed (decision_approve action d) = gd_Allowed d" "gd_Allowed (decision_start p action)"
  "\<not> gd_Allowed (decision_deny s r d)" "gd_Allowed (decision_audit action d)"
  "gd_Allowed (add_issues is d) = gd_Allowed d"
  by (simp_all add: decision_defs)

text \<open>What every decision of the policy has in common.\<close>

definition decision_wf :: "Policy \<Rightarrow> GovernedAction \<Rightarrow> GovernanceDecision \<Rightarrow> bool" where
  "decision_wf p action d \<longleftrightarrow>
     gd_ActionID d = ga_ID action \<and> gd_Mode d = po_Mode p \<and> gd_RiskClass d = ga_RiskClass action \<and>
     gd_ApprovedAction d = (if gd_Allowed d then Some action else None) \<and>
     (if gd_Allowed d
      then gd_FinalStatus d = GOVERNANCE_ALLOWED \<or>
           (po_Mode p = GOVERNANCE_AUDIT \<and> gd_FinalStatus d = GOVERNANCE_AUDIT_ONLY)
      else gd_FinalStatus d = (if gd_RequiresHuman d then GOVERNANCE_REQUIRES_HUMAN else GOVERNANCE_BLOCKED) \<and>
           po_Mode p \<notin> {GOVERNANCE_OFF, GOVERNANCE_AUDIT})"

lemma require_human_wf:
  "po_Mode p \<noteq> GOVERNANCE_OFF \<Longrightarrow> decision_wf p action (require_human p action i r (decision_start p action))"
  by (simp add: decision_wf_def require_human_def decision_defs Let_def)

lemma evaluate_selfmod_wf:
  "po_Mode p \<noteq> GOVERNANCE_OFF \<Longrightarrow> decision_wf p action (evaluate_selfmod E p action (decision_start p action))"
  by (simp add: decision_wf_def evaluate_selfmod_def decision_defs Let_def)

lemma evaluate_mutation_wf:
  "po_Mode p \<noteq> GOVERNANCE_OFF \<Longrightarrow> decision_wf p action (evaluate_mutation p action (decision_start p action))"
  by (simp add: decision_wf_def evaluate_mutation_def decision_defs Let_def)

lemma approve_wf: "decision_wf p action (decision_approve action (decision_start p action))"
  by (simp add: decision_wf_def decision_defs)

lemma Policy_Evaluate_wf: "decision_wf p action (Policy_Evaluate E p action)"
proof (cases "po_Mode p = GOVERNANCE_OFF")
  case True
  then show ?thesis by (simp add: Policy_Evaluate_def approve_wf)
next
  case False
  note parts = require_human_wf [OF False] evaluate_selfmod_wf [OF False] evaluate_mutation_wf [OF False] approve_wf
  have fast: "decision_wf p action (decision_approve action ((decision_start p action)
      \<lparr>gd_ReasonCode := REASON_FAST_PATH_READ_ONLY, gd_FinalStatus := GOVERNANCE_ALLOWED\<rparr>))"
    and unknown: "decision_wf p action (if po_Mode p = GOVERNANCE_AUDIT
        then decision_audit action (add_issues [REASON_UNKNOWN_RISK] (decision_start p action))
        else decision_deny GOVERNANCE_BLOCKED REASON_UNKNOWN_RISK
               (add_issues [REASON_UNKNOWN_RISK] (decision_start p action)))"
    using False by (simp_all add: decision_wf_def decision_defs)
  show ?thesis
    using False fast unknown unfolding Policy_Evaluate_def Let_def
    by (auto intro: parts split: RiskClass.split)
qed

section \<open>Properties\<close>

text \<open>
  Every decision of the policy is well formed: it copies the action's identity and risk
  class, it carries the approved action exactly when it allows it, its final status says what
  its flags say, and a policy that is off or only audits allows every action.
\<close>

theorem policy_decision_wf:
  "gd_ActionID (Policy_Evaluate E p action) = ga_ID action \<and>
   gd_RiskClass (Policy_Evaluate E p action) = ga_RiskClass action \<and>
   gd_ApprovedAction (Policy_Evaluate E p action) =
     (if gd_Allowed (Policy_Evaluate E p action) then Some action else None) \<and>
   (if gd_Allowed (Policy_Evaluate E p action)
    then gd_FinalStatus (Policy_Evaluate E p action) \<in> {GOVERNANCE_ALLOWED, GOVERNANCE_AUDIT_ONLY}
    else gd_FinalStatus (Policy_Evaluate E p action) =
           (if gd_RequiresHuman (Policy_Evaluate E p action) then GOVERNANCE_REQUIRES_HUMAN
            else GOVERNANCE_BLOCKED) \<and>
         po_Mode p \<notin> {GOVERNANCE_OFF, GOVERNANCE_AUDIT})"
  using Policy_Evaluate_wf [of p action E] by (auto simp: decision_wf_def split: if_splits)

definition rollback_available :: "GovernedAction \<Rightarrow> bool" where
  "rollback_available action \<longleftrightarrow>
     (case ga_Rollback action of None \<Rightarrow> False | Some r \<Rightarrow> rp_Available r)"

definition selfmod_input :: "Mode \<Rightarrow> GovernedAction \<Rightarrow> ValidateInput" where
  "selfmod_input m action =
     \<lparr>vi_OperationID = ga_ID action, vi_ToolName = ga_ToolName action, vi_Mode = mode_string m,
      vi_Parameters = ga_Parameters action, vi_GeneratedGoSrc = []\<rparr>"

lemma selfmod_validate_open:
  "dv_Allowed (selfmod_validate E input) \<and> \<not> dv_HardBlock (selfmod_validate E input) \<and>
   \<not> dv_RequiresApproval (selfmod_validate E input) \<longleftrightarrow> dv_accepted False (selfmod_validate E input)"
  using conjunct1 [OF validate_proposal_body_result, of "se_Codec E" "se_Parser E" "se_Now E" input]
  unfolding selfmod_validate_def ValidateDynamicProposal_def audit_status applyHarnessAudit_sel
  by (auto simp: dv_blocked_def dv_accepted_def)

lemma evaluate_mutation_allowed:
  assumes "po_Mode p \<noteq> GOVERNANCE_AUDIT"
  shows "gd_Allowed (evaluate_mutation p action (decision_start p action)) \<longleftrightarrow>
    (po_Mode p = GOVERNANCE_CORRECTNESS \<longrightarrow> ga_ExpectedEffects action \<noteq> [] \<and> rollback_available action) \<and>
    (po_WorkspaceRoot p = [] \<or> ga_Workspace action = [] \<or>
     isWithinRoot (ga_Workspace action) (po_WorkspaceRoot p))"
  using assms
  by (simp add: evaluate_mutation_def decision_defs Let_def rollback_available_def split: option.splits)

lemma evaluate_selfmod_allowed:
  assumes "po_Mode p \<noteq> GOVERNANCE_AUDIT" and "po_SelfModificationRequireManifest p"
  shows "gd_Allowed (evaluate_selfmod E p action (decision_start p action)) \<longleftrightarrow>
    dv_accepted False (selfmod_validate E (selfmod_input (po_Mode p) action))"
  using assms selfmod_validate_open [of E "selfmod_input (po_Mode p) action"]
  by (simp add: evaluate_selfmod_def decision_defs Let_def selfmod_input_def [symmetric]) argo

text \<open>
  C2. The decision table of the default policy in every mode that enforces: read-only actions
  pass; a local mutation passes when its workspace is within the root and, in the correctness
  mode, it names its effects and has an available rollback; a self-modification passes only
  when its proposal is accepted without approval; external, destructive, privileged and unknown
  actions never pass. An action whose risk class is none of the named ones (an empty class
  included) passes too: the policy fails open there.
\<close>

theorem policy_default_table:
  assumes "m \<notin> {GOVERNANCE_OFF, GOVERNANCE_AUDIT}"
  shows "gd_Allowed (Policy_Evaluate E (DefaultPolicy\<lparr>po_Mode := m, po_WorkspaceRoot := root\<rparr>) action) \<longleftrightarrow>
    (case ga_RiskClass action of
       RISK_READ_ONLY \<Rightarrow> True
     | RISK_LOCAL_MUTATION \<Rightarrow>
         (m = GOVERNANCE_CORRECTNESS \<longrightarrow> ga_ExpectedEffects action \<noteq> [] \<and> rollback_available action) \<and>
         (root = [] \<or> ga_Workspace action = [] \<or> isWithinRoot (ga_Workspace action) root)
     | RISK_SELF_MODIFICATION \<Rightarrow> dv_accepted False (selfmod_validate E (selfmod_input m action))
     | RISK_OTHER s \<Rightarrow> True
     | _ \<Rightarrow> False)"
proof -
  let ?p = "DefaultPolicy\<lparr>po_Mode := m, po_WorkspaceRoot := root\<rparr>"
  have p: "po_Mode ?p = m" "po_WorkspaceRoot ?p = root" "po_SelfModificationRequireManifest ?p"
    "po_ExternalSideEffectsRequireApproval ?p" "po_DestructiveRequireApproval ?p"
    "po_PrivilegedBridgeRequireApproval ?p" "po_AllowReadOnlyFastPath ?p" "\<not> po_AllowUnknownTools ?p"
    by (simp_all add: DefaultPolicy_def)
  have m: "po_Mode ?p \<noteq> GOVERNANCE_AUDIT" "po_Mode ?p \<noteq> GOVERNANCE_OFF" using assms by simp_all
  note parts = evaluate_mutation_allowed [OF m(1)] evaluate_selfmod_allowed [OF m(1) p(3)]
  have human: "\<not> gd_Allowed (require_human ?p action i r (decision_start ?p action))" for i r
    using m by (simp add: require_human_def Let_def)
  show ?thesis
    using m p parts human unfolding Policy_Evaluate_def Let_def
    by (cases "ga_RiskClass action") simp_all
qed

definition example_action :: GovernedAction where
  "example_action =
     \<lparr>ga_ID = ''a1'', ga_MissionID = [], ga_Actor = ''agent'', ga_Capability = ''fs'',
      ga_ToolName = ''write_file'', ga_Workspace = ''/work/x'', ga_Parameters = None,
      ga_RiskClass = RISK_LOCAL_MUTATION, ga_Preconditions = [], ga_ExpectedEffects = [],
      ga_Rollback = None, ga_Provenance = [], ga_CreatedAt = 1\<rparr>"

lemma policy_default_table_witness:
  "\<not> gd_Allowed (Policy_Evaluate sample_env (DefaultPolicy\<lparr>po_Mode := GOVERNANCE_CORRECTNESS,
      po_WorkspaceRoot := ''/work''\<rparr>) example_action)"
proof -
  have mode: "GOVERNANCE_CORRECTNESS \<notin> {GOVERNANCE_OFF, GOVERNANCE_AUDIT}" by simp
  show ?thesis
    by (subst policy_default_table [OF mode]) (simp add: example_action_def)
qed

text \<open>
  C33. The workspace check is a check on path elements: for an absolute root other than \<open>/\<close>,
  a target is within it exactly when it is absolute and its cleaned elements begin with the
  root's. So \<open>/work-evil\<close> is not within \<open>/work\<close>, and no \<open>..\<close> leads out of it unnoticed.
\<close>

theorem within_root_by_elements:
  assumes "IsAbs root" and "Clean_elems root \<noteq> []"
  shows "isWithinRoot target root \<longleftrightarrow> IsAbs target \<and> prefix (Clean_elems root) (Clean_elems target)"
proof (cases "IsAbs target")
  case False
  have "IsAbs (Clean root)" using assms(1) by (simp add: Clean_def IsAbs_def)
  then have "Clean target \<noteq> Clean root" "\<not> prefix (Clean root @ ''/'') (Clean target)"
    using Clean_not_abs [OF False] by (auto simp: IsAbs_def prefix_def)
  with False show ?thesis by (simp add: isWithinRoot_def)
next
  case True
  let ?r = "Clean_elems root" and ?t = "Clean_elems target"
  have shapes: "list_all slashless ?r" "list_all slashless ?t"
    by (rule clean_shape_slashless [OF Clean_elems_shape])+
  have r: "join_slash ?r \<noteq> []"
    using assms(2) clean_shape_slashless(2) [OF Clean_elems_shape, of root] join_slash_hd [of ?r]
    by (cases ?r) auto
  have "isWithinRoot target root \<longleftrightarrow>
      join_slash ?r = join_slash ?t \<or> prefix (join_slash ?r @ ''/'') (join_slash ?t)"
    using assms(1) True by (auto simp: isWithinRoot_def Clean_def)
  also have "\<dots> \<longleftrightarrow> ?t \<noteq> [] \<and> (join_slash ?r = join_slash ?t \<or> prefix (join_slash ?r @ ''/'') (join_slash ?t))"
    using r by auto
  also have "\<dots> \<longleftrightarrow> prefix ?r ?t" by (rule join_slash_below [OF assms(2) shapes])
  finally show ?thesis using True by simp
qed

lemma within_root_by_elements_witness:
  "\<not> isWithinRoot ''/work-evil/a'' ''/work/''"
proof -
  have abs: "IsAbs ''/work/''" by (simp add: IsAbs_def)
  have ne: "Clean_elems ''/work/'' \<noteq> []" by code_simp
  have "\<not> prefix (Clean_elems ''/work/'') (Clean_elems ''/work-evil/a'')" by code_simp
  with within_root_by_elements [OF abs ne] show ?thesis by simp
qed

end
