(* ===== verification/Progress.thy ===== *)
theory Progress
  imports GoValues "HOL-Library.Multiset" "HOL-Library.List_Lexorder" "HOL-Library.Char_ord"
begin

text \<open>
  The progress tracker of \<open>pkg/execution/progress.go\<close>, which detects a turn that repeats
  the same action in the same state. SHA-256 with its hex encoding, \<open>json.Marshal\<close> and the
  formatting of numbers come from Go's standard library and are parameters (\<open>Codec\<close>); the
  rest is the code's own.
\<close>

definition HashString :: "Codec \<Rightarrow> string \<Rightarrow> string" where
  "HashString H s = c_Sha256Hex H s"

fun normalizeForJSON :: "any \<Rightarrow> any" where
  "normalizeForJSON (VMap t) = VMap (map (\<lambda>(k, v). (k, normalizeForJSON v)) t)"
| "normalizeForJSON (VList t) = VList (map normalizeForJSON t)"
| "normalizeForJSON v = v"

fun join_with :: "string \<Rightarrow> string list \<Rightarrow> string" where
  "join_with sep [] = []"
| "join_with sep [x] = x"
| "join_with sep (x # y # xs) = x @ sep @ join_with sep (y # xs)"

definition strconvQuote :: "Codec \<Rightarrow> string \<Rightarrow> string" where
  "strconvQuote H s = c_Quote H s"

fun stableString :: "Codec \<Rightarrow> any \<Rightarrow> string" where
  "stableString H VNil = ''<nil>''"
| "stableString H (VBool b) = (if b then ''true'' else ''false'')"
| "stableString H (VNum n) = c_FormatNum H n"
| "stableString H (VStr s) = strconvQuote H s"
| "stableString H (VStrs ss) = ''['' @ join_with '','' (map (strconvQuote H) ss) @ '']''"
| "stableString H (VList vs) = ''['' @ join_with '','' (map (stableString H) vs) @ '']''"
| "stableString H (VMap m) =
     (let pairs = map (\<lambda>(k, v). (strconvQuote H k, stableString H v)) m;
          pairs = sort_key fst pairs
      in ''{'' @ join_with '','' (map (\<lambda>(k, v). k @ '':'' @ v) pairs) @ ''}'')"

definition HashParams :: "Codec \<Rightarrow> params \<Rightarrow> string" where
  "HashParams H p =
     (case p of
        None \<Rightarrow> HashString H ''null''
      | Some m \<Rightarrow>
          (case c_Marshal H (normalizeForJSON (VMap m)) of
             None \<Rightarrow> HashString H (stableString H (VMap m))
           | Some b \<Rightarrow> HashString H b))"

record ActionFingerprint =
  af_ToolName :: string
  af_ParamsHash :: string
  af_StateHash :: string

text \<open>A missing key of the Go map \<open>seen\<close> reads as 0.\<close>

record ProgressTracker =
  pt_seen :: "ActionFingerprint \<rightharpoonup> int"
  pt_consecutiveFailures :: int
  pt_lastStateHash :: string

definition NewProgressTracker :: ProgressTracker where
  "NewProgressTracker = \<lparr>pt_seen = Map.empty, pt_consecutiveFailures = 0, pt_lastStateHash = []\<rparr>"

definition seen_count :: "ProgressTracker \<Rightarrow> ActionFingerprint \<Rightarrow> int" where
  "seen_count p fp = (case pt_seen p fp of None \<Rightarrow> 0 | Some n \<Rightarrow> n)"

definition attempt_fingerprint :: "Codec \<Rightarrow> string \<Rightarrow> params \<Rightarrow> string \<Rightarrow> ActionFingerprint" where
  "attempt_fingerprint H toolName ps stateHash =
     \<lparr>af_ToolName = TrimSpace (ToLower toolName), af_ParamsHash = HashParams H ps,
      af_StateHash = HashString H stateHash\<rparr>"

definition RecordAttempt ::
    "Codec \<Rightarrow> string \<Rightarrow> params \<Rightarrow> string \<Rightarrow> ProgressTracker \<Rightarrow> int \<times> ProgressTracker" where
  "RecordAttempt H toolName ps stateHash p =
     (let fp = attempt_fingerprint H toolName ps stateHash;
          p' = p\<lparr>pt_seen := (pt_seen p)(fp \<mapsto> seen_count p fp + 1)\<rparr>
      in (seen_count p' fp, p'))"

definition RecordTurnSuccess :: "Codec \<Rightarrow> string \<Rightarrow> ProgressTracker \<Rightarrow> ProgressTracker" where
  "RecordTurnSuccess H newStateHash p =
     p\<lparr>pt_consecutiveFailures := 0, pt_lastStateHash := HashString H newStateHash\<rparr>"

definition RecordTurnFailure :: "ProgressTracker \<Rightarrow> ProgressTracker" where
  "RecordTurnFailure p = p\<lparr>pt_consecutiveFailures := pt_consecutiveFailures p + 1\<rparr>"

definition IsLooping ::
    "Codec \<Rightarrow> string \<Rightarrow> params \<Rightarrow> string \<Rightarrow> int \<Rightarrow> ProgressTracker \<Rightarrow> bool" where
  "IsLooping H toolName ps stateHash maxRepeats p \<longleftrightarrow>
     seen_count p (attempt_fingerprint H toolName ps stateHash) > maxRepeats"

definition ConsecutiveFailures :: "ProgressTracker \<Rightarrow> int" where
  "ConsecutiveFailures p = pt_consecutiveFailures p"

section \<open>Histories\<close>

datatype progress_op =
    OpAttempt string params string
  | OpTurnSuccess string
  | OpTurnFailure

fun progress_exec :: "Codec \<Rightarrow> progress_op \<Rightarrow> ProgressTracker \<Rightarrow> ProgressTracker" where
  "progress_exec H (OpAttempt tool ps st) p = snd (RecordAttempt H tool ps st p)"
| "progress_exec H (OpTurnSuccess st) p = RecordTurnSuccess H st p"
| "progress_exec H OpTurnFailure p = RecordTurnFailure p"

text \<open>The fingerprints of the attempts of a history, and its trailing run of failures.\<close>

fun attempts_of :: "Codec \<Rightarrow> progress_op list \<Rightarrow> ActionFingerprint list" where
  "attempts_of H [] = []"
| "attempts_of H (OpAttempt tool ps st # xs) = attempt_fingerprint H tool ps st # attempts_of H xs"
| "attempts_of H (_ # xs) = attempts_of H xs"

fun trailing_failures :: "nat \<Rightarrow> progress_op list \<Rightarrow> nat" where
  "trailing_failures n [] = n"
| "trailing_failures n (OpTurnFailure # xs) = trailing_failures (n + 1) xs"
| "trailing_failures n (OpTurnSuccess st # xs) = trailing_failures 0 xs"
| "trailing_failures n (OpAttempt tool ps st # xs) = trailing_failures n xs"

lemma normalizeForJSON_id [simp]: "normalizeForJSON v = v"
  by (induction v rule: normalizeForJSON.induct) (auto intro: map_idI)

lemma seen_count_run:
  "seen_count (fold (progress_exec H) xs p) fp =
     seen_count p fp + int (count_list (attempts_of H xs) fp)"
  by (induction H xs arbitrary: p rule: attempts_of.induct)
     (auto simp: RecordAttempt_def RecordTurnSuccess_def RecordTurnFailure_def seen_count_def Let_def)

lemma failures_run:
  "pt_consecutiveFailures p = int n \<Longrightarrow>
   pt_consecutiveFailures (fold (progress_exec H) xs p) = int (trailing_failures n xs)"
  by (induction n xs arbitrary: p rule: trailing_failures.induct)
     (simp_all add: RecordAttempt_def RecordTurnSuccess_def RecordTurnFailure_def Let_def)

lemma stableString_perm:
  assumes "mset m = mset m'" and "distinct (map (strconvQuote H \<circ> fst) m)"
  shows "stableString H (VMap m) = stableString H (VMap m')"
proof -
  let ?f = "\<lambda>(k, v). (strconvQuote H k, stableString H v)"
  have "distinct (map fst (map ?f m))" using assms(2) by (simp add: comp_def case_prod_beta)
  then have "inj_on fst (set (map ?f m))" by (simp only: distinct_map)
  moreover have "mset (map ?f m) = mset (sort_key fst (map ?f m'))" using assms(1) by simp
  moreover have "sorted (map fst (sort_key fst (map ?f m')))" by (rule sorted_sort_key)
  ultimately have "sort_key fst (map ?f m) = sort_key fst (map ?f m')"
    by (intro sort_key_inj_key_eq)
  then show ?thesis by (simp only: stableString.simps Let_def)
qed

section \<open>Properties\<close>

text \<open>
  Over any history of a tracker, \<open>IsLooping\<close> reports exactly that the attempts with
  the same fingerprint (tool name up to case and outer spaces, hash of the parameters, hash of
  the state) outnumber the allowed repeats; successes and failures in between do not matter.
\<close>

theorem IsLooping_counts_attempts:
  "IsLooping H tool ps st n (fold (progress_exec H) xs NewProgressTracker) \<longleftrightarrow>
     int (count_list (attempts_of H xs) (attempt_fingerprint H tool ps st)) > n"
  by (simp add: IsLooping_def seen_count_run) (simp add: NewProgressTracker_def seen_count_def)

text \<open>
  \<open>ConsecutiveFailures\<close> is the number of failures after the last recorded success.
\<close>

theorem ConsecutiveFailures_trailing:
  "ConsecutiveFailures (fold (progress_exec H) xs NewProgressTracker) = int (trailing_failures 0 xs)"
  by (simp add: ConsecutiveFailures_def failures_run NewProgressTracker_def)

end
