(* ===== verification/ApprovalCache.thy ===== *)
theory ApprovalCache
  imports GovTypes Progress
begin

text \<open>
  Redaction of parameters and the in-memory cache of human approvals:
  \<open>pkg/governance/approval_cache.go\<close>. Every method holds the cache's mutex for its whole body.
  A nil cache, for which \<open>Get\<close> finds nothing and the other methods do nothing, is the
  caller's \<open>None\<close>.
\<close>

section \<open>Redaction\<close>

definition isSecretKey :: "string \<Rightarrow> bool" where
  "isSecretKey k =
     (let key = ToLower (TrimSpace k)
      in if key = [] then False
         else if key \<in> {''authorization'', ''cookie'', ''api_key'', ''token'', ''password'', ''secret''}
         then True
         else if sublist ''token'' key \<or> sublist ''secret'' key \<or> sublist ''password'' key then True
         else if sublist ''api-key'' key \<or> sublist ''api_key'' key then True
         else False)"

text \<open>\<open>redactAnyValue\<close>; on a map it is the loop of \<open>RedactParams\<close>.\<close>

fun redactAnyValue :: "any \<Rightarrow> any" where
  "redactAnyValue (VMap t) =
     VMap (map (\<lambda>(k, v). if isSecretKey k then (k, VStr ''[REDACTED]'') else (k, redactAnyValue v)) t)"
| "redactAnyValue (VList t) = VList (map redactAnyValue t)"
| "redactAnyValue v = v"

fun unmap :: "any \<Rightarrow> gomap" where
  "unmap (VMap t) = t"
| "unmap _ = []"

definition RedactParams :: "params \<Rightarrow> params" where
  "RedactParams ps = (case ps of None \<Rightarrow> None | Some m \<Rightarrow> Some (unmap (redactAnyValue (VMap m))))"

fun normalizeAny :: "any \<Rightarrow> any" where
  "normalizeAny (VMap t) = VMap (map (\<lambda>(k, v). (k, normalizeAny v)) t)"
| "normalizeAny (VList t) = VList (map normalizeAny t)"
| "normalizeAny v = v"

definition hashAnyMap :: "Codec \<Rightarrow> params \<Rightarrow> string" where
  "hashAnyMap H ps =
     (case ps of
        None \<Rightarrow> HashString H ''null''
      | Some m \<Rightarrow> HashParams H (Some (map (\<lambda>(k, v). (k, normalizeAny v)) m)))"

definition MarshalRedactedParams :: "Codec \<Rightarrow> params \<Rightarrow> string" where
  "MarshalRedactedParams H ps =
     (case c_Marshal H (case RedactParams ps of None \<Rightarrow> VNil | Some m \<Rightarrow> VMap m) of
        None \<Rightarrow> ''{}''
      | Some b \<Rightarrow> b)"

section \<open>The cache\<close>

definition approvalKeyFromAction :: "Codec \<Rightarrow> GovernedAction \<Rightarrow> string" where
  "approvalKeyFromAction H action =
     (let redacted = RedactParams (ga_Parameters action)
      in ToLower (TrimSpace (ga_ToolName action)) @ ''|'' @
         ToLower (TrimSpace (ga_Capability action)) @ ''|'' @
         risk_string (ga_RiskClass action) @ ''|'' @ hashAnyMap H redacted)"

record ApprovalCache =
  ac_session :: "string \<rightharpoonup> ApprovalResult"
  ac_always :: "string \<rightharpoonup> ApprovalResult"
  ac_never :: "string \<rightharpoonup> ApprovalResult"

definition NewApprovalCache :: ApprovalCache where
  "NewApprovalCache = \<lparr>ac_session = Map.empty, ac_always = Map.empty, ac_never = Map.empty\<rparr>"

definition Cache_Key :: "Codec \<Rightarrow> GovernedAction \<Rightarrow> string" where
  "Cache_Key H action = approvalKeyFromAction H action"

definition Cache_Get :: "Codec \<Rightarrow> GovernedAction \<Rightarrow> ApprovalCache \<Rightarrow> ApprovalResult option" where
  "Cache_Get H action c =
     (let key = Cache_Key H action
      in case ac_never c key of
           Some res \<Rightarrow> Some res
         | None \<Rightarrow>
             (case ac_always c key of
                Some res \<Rightarrow> Some res
              | None \<Rightarrow>
                  (case ac_session c key of
                     Some res \<Rightarrow> Some res
                   | None \<Rightarrow> None)))"

definition Cache_Put ::
    "Codec \<Rightarrow> GovernedAction \<Rightarrow> ApprovalResult \<Rightarrow> ApprovalCache \<Rightarrow> ApprovalCache" where
  "Cache_Put H action result c =
     (let key = Cache_Key H action
      in case ar_Scope result of
           APPROVAL_SESSION \<Rightarrow>
             if ApprovalGranted result
             then c\<lparr>ac_session := (ac_session c)(key \<mapsto> result)\<rparr> else c
         | APPROVAL_ALWAYS \<Rightarrow>
             if ApprovalGranted result
             then c\<lparr>ac_always := (ac_always c)(key \<mapsto> result)\<rparr> else c
         | APPROVAL_NEVER \<Rightarrow>
             (let res = (if ar_Decision result = APPROVAL_DECISION_OTHER []
                         then result\<lparr>ar_Decision := APPROVAL_DENIED\<rparr> else result)
              in c\<lparr>ac_never := (ac_never c)(key \<mapsto> res)\<rparr>)
         | _ \<Rightarrow> c)"

definition ClearSession :: "ApprovalCache \<Rightarrow> ApprovalCache" where
  "ClearSession c = c\<lparr>ac_session := Map.empty\<rparr>"

definition ClearAll :: "ApprovalCache \<Rightarrow> ApprovalCache" where
  "ClearAll c = c\<lparr>ac_session := Map.empty, ac_always := Map.empty, ac_never := Map.empty\<rparr>"

section \<open>The contract of an approval store\<close>

text \<open>
  What the governor relies on: a result that vetoes an action is found for every action of the
  same key, and neither storing nor forgetting session results takes it away. The operations
  keep the invariant of the store.
\<close>

locale approval_store =
  fixes lookup :: "'a \<Rightarrow> 's \<Rightarrow> 'r option"
    and put :: "'a \<Rightarrow> 'r \<Rightarrow> 's \<Rightarrow> 's"
    and reset :: "'s \<Rightarrow> 's"
    and veto :: "'r \<Rightarrow> bool"
    and same :: "'a \<Rightarrow> 'a \<Rightarrow> bool"
    and ok :: "'s \<Rightarrow> bool"
  assumes ok_put: "ok s \<Longrightarrow> ok (put a r s)"
    and ok_reset: "ok s \<Longrightarrow> ok (reset s)"
    and put_veto: "ok s \<Longrightarrow> veto r \<Longrightarrow> same a b \<Longrightarrow> \<exists>r'. lookup b (put a r s) = Some r' \<and> veto r'"
    and keep_veto: "ok s \<Longrightarrow> lookup b s = Some r' \<Longrightarrow> veto r' \<Longrightarrow>
      \<exists>r''. lookup b (put a r s) = Some r'' \<and> veto r''"
    and reset_veto: "ok s \<Longrightarrow> lookup b s = Some r' \<Longrightarrow> veto r' \<Longrightarrow>
      \<exists>r''. lookup b (reset s) = Some r'' \<and> veto r''"
begin

fun store_op :: "('a \<times> 'r) option \<Rightarrow> 's \<Rightarrow> 's" where
  "store_op None s = reset s"
| "store_op (Some (a, r)) s = put a r s"

lemma ok_run: "ok s \<Longrightarrow> ok (fold store_op xs s)"
proof (induction xs arbitrary: s)
  case (Cons x xs)
  then have "ok (store_op x s)" by (cases x) (auto intro: ok_put ok_reset)
  with Cons.IH show ?case by simp
qed simp

lemma veto_run:
  assumes "ok s" and "lookup b s = Some r'" and "veto r'"
  shows "\<exists>r''. lookup b (fold store_op xs s) = Some r'' \<and> veto r''"
  using assms
proof (induction xs arbitrary: s r')
  case (Cons x xs)
  have "ok (store_op x s)" using Cons.prems by (cases x) (auto intro: ok_put ok_reset)
  moreover have "\<exists>r''. lookup b (store_op x s) = Some r'' \<and> veto r''"
    using Cons.prems by (cases x) (auto intro: keep_veto reset_veto)
  ultimately show ?case using Cons.IH by force
qed simp

lemma veto_persists:
  assumes "ok s" and "veto r" and "same a b"
  shows "\<exists>r'. lookup b (fold store_op xs (put a r s)) = Some r' \<and> veto r'"
  using put_veto [OF assms] veto_run [OF ok_put [OF assms(1)]] by blast

end

text \<open>Each map of the cache holds results of its own scope only.\<close>

definition cache_ok :: "ApprovalCache \<Rightarrow> bool" where
  "cache_ok c \<longleftrightarrow>
     (\<forall>k r. ac_session c k = Some r \<longrightarrow> ApprovalGranted r \<and> ar_Scope r = APPROVAL_SESSION) \<and>
     (\<forall>k r. ac_always c k = Some r \<longrightarrow> ApprovalGranted r \<and> ar_Scope r = APPROVAL_ALWAYS) \<and>
     (\<forall>k r. ac_never c k = Some r \<longrightarrow> ar_Scope r = APPROVAL_NEVER)"

definition never_result :: "ApprovalResult \<Rightarrow> bool" where
  "never_result r \<longleftrightarrow> ar_Scope r = APPROVAL_NEVER"

lemma cache_ok_New: "cache_ok NewApprovalCache"
  by (simp add: cache_ok_def NewApprovalCache_def)

lemma cache_ok_Put: "cache_ok c \<Longrightarrow> cache_ok (Cache_Put H a r c)"
  by (auto simp: cache_ok_def Cache_Put_def Let_def split: ApprovalScope.split)

lemma cache_ok_ClearSession: "cache_ok c \<Longrightarrow> cache_ok (ClearSession c)"
  by (simp add: cache_ok_def ClearSession_def)

lemma Cache_Get_never:
  assumes "cache_ok c"
  shows "(\<exists>r. Cache_Get H a c = Some r \<and> never_result r) \<longleftrightarrow> ac_never c (Cache_Key H a) \<noteq> None"
  using assms by (auto simp: Cache_Get_def Let_def cache_ok_def never_result_def split: option.splits)

lemma ac_never_Put:
  "ac_never c k \<noteq> None \<Longrightarrow> ac_never (Cache_Put H a r c) k \<noteq> None"
  by (auto simp: Cache_Put_def Let_def split: ApprovalScope.split)

interpretation cache: approval_store "Cache_Get H" "Cache_Put H" ClearSession never_result
  "\<lambda>a b. Cache_Key H a = Cache_Key H b" cache_ok
proof
  show "cache_ok c \<Longrightarrow> cache_ok (Cache_Put H a r c)" for c a r by (rule cache_ok_Put)
  show "cache_ok c \<Longrightarrow> cache_ok (ClearSession c)" for c by (rule cache_ok_ClearSession)
  show "\<exists>r'. Cache_Get H b (Cache_Put H a r c) = Some r' \<and> never_result r'"
    if "cache_ok c" "never_result r" "Cache_Key H a = Cache_Key H b" for c r a b
    unfolding Cache_Get_never [OF cache_ok_Put [OF that(1)]]
    using that(2,3) by (simp add: Cache_Put_def never_result_def Let_def)
  show "\<exists>r''. Cache_Get H b (Cache_Put H a r c) = Some r'' \<and> never_result r''"
    if "cache_ok c" "Cache_Get H b c = Some r'" "never_result r'" for c b r' a r
    unfolding Cache_Get_never [OF cache_ok_Put [OF that(1)]]
    using that(2,3) Cache_Get_never [OF that(1), of H b] by (intro ac_never_Put) blast
  show "\<exists>r''. Cache_Get H b (ClearSession c) = Some r'' \<and> never_result r''"
    if "cache_ok c" "Cache_Get H b c = Some r'" "never_result r'" for c b r'
    unfolding Cache_Get_never [OF cache_ok_ClearSession [OF that(1)]]
    using that(2,3) Cache_Get_never [OF that(1), of H b] by (auto simp: ClearSession_def)
qed

section \<open>Lemmas on redaction\<close>

text \<open>Every entry of every map, at any depth.\<close>

fun all_entries :: "any \<Rightarrow> (string \<times> any) list" where
  "all_entries (VMap t) = concat (map (\<lambda>(k, v). (k, v) # all_entries v) t)"
| "all_entries (VList t) = concat (map all_entries t)"
| "all_entries _ = []"

definition entry_redacted :: "string \<times> any \<Rightarrow> bool" where
  "entry_redacted kv = (case kv of (k, v) \<Rightarrow> if isSecretKey k then v = VStr ''[REDACTED]'' else True)"

lemma redactAnyValue_entries: "list_all entry_redacted (all_entries (redactAnyValue v))"
proof (induction v rule: redactAnyValue.induct)
  case (1 t)
  have "list_all entry_redacted (case kv of (k, v) \<Rightarrow> (k, v) # all_entries v)"
    if "kv \<in> set (map (\<lambda>(k, v). if isSecretKey k then (k, VStr ''[REDACTED]'') else (k, redactAnyValue v)) t)" for kv
    using that 1 by (fastforce simp: entry_redacted_def split: if_splits)
  then show ?case by (simp add: list_all_iff) blast
next
  case (2 t)
  then show ?case by (simp add: list_all_iff)
qed simp_all

lemma redactAnyValue_idem: "redactAnyValue (redactAnyValue v) = redactAnyValue v"
proof (induction v rule: redactAnyValue.induct)
  case (1 t)
  then show ?case by (auto split: if_splits)
next
  case (2 t)
  then show ?case by (simp cong: map_cong)
qed simp_all

lemma normalizeAny_id [simp]: "normalizeAny v = v"
  by (induction v rule: normalizeAny.induct) (auto intro: map_idI)

lemma RedactParams_VMap: "RedactParams (Some m) = Some m' \<Longrightarrow> VMap m' = redactAnyValue (VMap m)"
  by (auto simp: RedactParams_def)

section \<open>Lemmas on keys\<close>

lemma last_bar:
  assumes "c \<notin> set x" and "c \<notin> set y" and "a @ [c] @ x = b @ [c] @ y"
  shows "a = b \<and> x = y"
proof -
  have "takeWhile (\<lambda>d. d \<noteq> c) (rev (a @ [c] @ x)) = rev x"
    and "takeWhile (\<lambda>d. d \<noteq> c) (rev (b @ [c] @ y)) = rev y"
    using assms(1,2) by (auto simp: takeWhile_append)
  with assms(3) show ?thesis by auto
qed

definition named_risk :: "RiskClass \<Rightarrow> bool" where
  "named_risk r \<longleftrightarrow> (case r of RISK_OTHER s \<Rightarrow> False | _ \<Rightarrow> True)"

lemma risk_string_no_bar: "named_risk r \<Longrightarrow> CHR ''|'' \<notin> set (risk_string r)"
  by (cases r) (simp_all add: named_risk_def)

lemma risk_string_inj: "named_risk r \<Longrightarrow> named_risk r' \<Longrightarrow> risk_string r = risk_string r' \<Longrightarrow> r = r'"
  by (cases r; cases r') (simp_all add: named_risk_def)

section \<open>Properties\<close>

text \<open>
  Redaction reaches every depth: in redacted parameters each entry whose key is secret, in
  any map below any mixture of maps and lists, holds the redaction mark; and redacting twice is
  redacting once.
\<close>

theorem redaction_complete:
  "list_all entry_redacted (all_entries (redactAnyValue v)) \<and>
   redactAnyValue (redactAnyValue v) = redactAnyValue v"
  using redactAnyValue_entries redactAnyValue_idem by blast

text \<open>
  C13. A human's \<open>APPROVAL_NEVER\<close> is permanent: once stored for an action, whatever results are
  stored afterwards for any actions and however often the session is cleared, the cache answers
  every action of the same key with a never-scoped result, which is no grant.
\<close>

theorem never_is_permanent:
  assumes "cache_ok c" and "ar_Scope r = APPROVAL_NEVER" and "Cache_Key H a = Cache_Key H b"
  shows "\<exists>r'. Cache_Get H b (fold (cache.store_op H) xs (Cache_Put H a r c)) = Some r' \<and>
    ar_Scope r' = APPROVAL_NEVER \<and> \<not> ApprovalGranted r'"
  using cache.veto_persists [OF assms(1) _ assms(3), of r xs] assms(2)
  by (auto simp: never_result_def dest: ApprovalGranted_scope)

definition cached_action :: GovernedAction where
  "cached_action =
     \<lparr>ga_ID = ''a1'', ga_MissionID = [], ga_Actor = ''agent'', ga_Capability = ''fs'',
      ga_ToolName = ''delete_file'', ga_Workspace = [], ga_Parameters = None,
      ga_RiskClass = RISK_DESTRUCTIVE, ga_Preconditions = [], ga_ExpectedEffects = [],
      ga_Rollback = None, ga_Provenance = [], ga_CreatedAt = 1\<rparr>"

lemma never_is_permanent_witness:
  "\<exists>r'. Cache_Get sample_codec cached_action (fold (cache.store_op sample_codec)
      [Some (cached_action, approval_result [] APPROVAL_GRANTED APPROVAL_ALWAYS []), None]
      (Cache_Put sample_codec cached_action (approval_result [] APPROVAL_DENIED APPROVAL_NEVER []) NewApprovalCache)) = Some r' \<and>
    \<not> ApprovalGranted r'"
proof -
  have "ar_Scope (approval_result [] APPROVAL_DENIED APPROVAL_NEVER []) = APPROVAL_NEVER" by simp
  from never_is_permanent [OF cache_ok_New this refl] show ?thesis by blast
qed

lemma cache_provenance_aux:
  assumes "Cache_Get H b (fold (cache.store_op H) xs c) = Some r" and "ApprovalGranted r"
    and "\<And>k q. ac_session c k = Some q \<or> ac_always c k = Some q \<Longrightarrow> Q k q" and "cache_ok c"
    and "\<And>a q. Some (a, q) \<in> set xs \<Longrightarrow> ApprovalGranted q \<Longrightarrow> Q (Cache_Key H a) q"
  shows "Q (Cache_Key H b) r"
  using assms
proof (induction xs arbitrary: c)
  case Nil
  then have "ac_never c (Cache_Key H b) \<noteq> Some r"
    by (auto simp: cache_ok_def dest: ApprovalGranted_scope)
  with Nil show ?case by (auto simp: Cache_Get_def Let_def split: option.splits)
next
  case (Cons x xs)
  let ?c = "cache.store_op H x c"
  have "cache_ok ?c"
    using Cons.prems(4) by (cases x) (auto intro: cache_ok_ClearSession cache_ok_Put)
  moreover have "Q k q" if "ac_session ?c k = Some q \<or> ac_always ?c k = Some q" for k q
  proof (cases x)
    case None
    with that Cons.prems(3) show ?thesis by (auto simp: ClearSession_def)
  next
    case (Some ar)
    obtain a p where ar: "ar = (a, p)" by (cases ar)
    have "ApprovalGranted p \<Longrightarrow> Q (Cache_Key H a) p" using Cons.prems(5) Some ar by simp
    with that Some ar Cons.prems(3) show ?thesis
      by (auto simp: Cache_Put_def Let_def split: ApprovalScope.splits if_splits)
  qed
  ultimately show ?case
    using Cons.IH [of ?c] Cons.prems(1,2,5) by simp
qed

text \<open>
  The cache invents no grant: whatever a run of \<open>Put\<close> and \<open>ClearSession\<close> calls from an
  empty cache leaves, a granted result that \<open>Get\<close> returns for an action was itself stored, as
  granted, for an action with the same key.
\<close>

theorem cache_provenance:
  assumes "Cache_Get H b (fold (cache.store_op H) xs NewApprovalCache) = Some r"
    and "ApprovalGranted r"
  shows "\<exists>a. Some (a, r) \<in> set xs \<and> Cache_Key H a = Cache_Key H b"
  using assms
  by (rule cache_provenance_aux [where Q = "\<lambda>k q. \<exists>a. Some (a, q) \<in> set xs \<and> Cache_Key H a = k"])
     (auto simp: cache_ok_def NewApprovalCache_def)

lemma cache_provenance_witness:
  "\<exists>a. Some (a, approval_result [] APPROVAL_GRANTED APPROVAL_ALWAYS []) \<in>
      set [Some (cached_action, approval_result [] APPROVAL_GRANTED APPROVAL_ALWAYS []), None] \<and>
    Cache_Key sample_codec a = Cache_Key sample_codec cached_action"
  by (rule cache_provenance [where H = sample_codec])
     (simp_all add: Cache_Put_def Cache_Get_def ClearSession_def NewApprovalCache_def
       ApprovalGranted_def Let_def)

text \<open>
  A cached approval never crosses a risk class or a set of parameters: for actions of named
  risk classes, and as long as the hash is free of the separator (it is hexadecimal), equal keys
  have the same risk class and the same hash of the redacted parameters.
\<close>

theorem approval_key_binds_risk:
  assumes "\<forall>s. CHR ''|'' \<notin> set (c_Sha256Hex H s)"
    and "named_risk (ga_RiskClass a)" and "named_risk (ga_RiskClass b)"
    and "approvalKeyFromAction H a = approvalKeyFromAction H b"
  shows "ga_RiskClass a = ga_RiskClass b \<and>
    hashAnyMap H (RedactParams (ga_Parameters a)) = hashAnyMap H (RedactParams (ga_Parameters b))"
proof -
  have hash: "CHR ''|'' \<notin> set (hashAnyMap H ps)" for ps
    using assms(1) by (auto simp: hashAnyMap_def HashParams_def HashString_def split: option.splits)
  let ?l = "\<lambda>x. ToLower (TrimSpace (ga_ToolName x)) @ ''|'' @ ToLower (TrimSpace (ga_Capability x))"
  let ?h = "\<lambda>x. hashAnyMap H (RedactParams (ga_Parameters x))"
  let ?r = "\<lambda>x. risk_string (ga_RiskClass x)"
  have key: "approvalKeyFromAction H x = (?l x @ [CHR ''|''] @ ?r x) @ [CHR ''|''] @ ?h x" for x
    by (simp add: approvalKeyFromAction_def)
  have "?l a @ [CHR ''|''] @ ?r a = ?l b @ [CHR ''|''] @ ?r b \<and> ?h a = ?h b"
    using assms(4) unfolding key by (intro last_bar [OF hash hash])
  moreover from this have "?r a = ?r b"
    using last_bar [OF risk_string_no_bar risk_string_no_bar] assms(2,3) by blast
  ultimately show ?thesis using risk_string_inj assms(2,3) by blast
qed

lemma approval_key_binds_risk_witness:
  "ga_RiskClass cached_action = ga_RiskClass (cached_action\<lparr>ga_ToolName := '' DELETE_file''\<rparr>)"
proof -
  have "approvalKeyFromAction sample_codec cached_action =
      approvalKeyFromAction sample_codec (cached_action\<lparr>ga_ToolName := '' DELETE_file''\<rparr>)"
    by (simp add: approvalKeyFromAction_def cached_action_def go_eval)
  from conjunct1 [OF approval_key_binds_risk [OF _ _ _ this]] show ?thesis
    by (simp add: cached_action_def named_risk_def sample_codec_def)
qed

end
