(* ===== verification/ApprovalRuntime.thy ===== *)
theory ApprovalRuntime
  imports GovTypes
begin

text \<open>
  The bounded workers of human approvals: \<open>pkg/governance/approval_runtime.go\<close>. Callers of
  \<open>Run\<close> and the workers they start run concurrently; the state is shared. Each definition of the
  section on critical sections is what the code does between two points at which another
  goroutine can interleave: a region under the mutex, one channel operation, or a
  \<open>select\<close> that takes one of its ready cases. The relation \<open>rt_step\<close> interleaves them.

  A call and a worker are entries of a list; the index of a worker stands for the pointer to its
  \<open>InflightApproval\<close>. The semaphore channel is represented by the number of tokens in it, its
  capacity by \<open>rt_maxInflight\<close>; \<open>shutdownCh\<close> is closed exactly when \<open>rt_shuttingDown\<close> is set,
  since both change in one region.
\<close>

section \<open>State\<close>

text \<open>
  An error is known by what \<open>errors.Is\<close> answers for \<open>context.Canceled\<close> and
  \<open>context.DeadlineExceeded\<close>, and by its text. \<open>CtxCause\<close> is \<open>ctx.Err()\<close> of a finished context.
\<close>

datatype GoError = GoError (err_Canceled: bool) (err_Deadline: bool) (err_Text: string)

datatype CtxCause = DeadlineExceeded | CtxCanceled

type_synonym answer = "ApprovalResult \<times> GoError option"

datatype WorkerPhase = W_RUNNING | W_DONE | W_DELETED | W_EXITED

record InflightApproval =
  if_Key :: string
  if_StartedAt :: instant
  if_phase :: WorkerPhase
  if_result :: ApprovalResult
  if_err :: "GoError option"

record ApprovalRuntime =
  rt_shuttingDown :: bool
  rt_maxInflight :: int
  rt_sem :: nat
  rt_inflight :: "string \<Rightarrow> nat option"

text \<open>
  Where a call of \<open>Run\<close> is: before the first locked region, in the \<open>select\<close> on the semaphore,
  between that and the second locked region (it owns a slot), about to release the slot, in
  \<open>waitForResult\<close>, or returned.
\<close>

datatype CallPhase =
    C_ENTER
  | C_SELECT
  | C_HOLDING
  | C_RELEASE_RETURN answer
  | C_RELEASE_JOIN nat
  | C_WAIT nat bool
  | C_RETURNED answer

text \<open>
  A call has a context of its own, which ends at most once; \<open>context.Background\<close>, which stands for a nil
  context, never ends.
\<close>

record Call =
  ca_key :: string
  ca_phase :: CallPhase
  ca_ctx :: "CtxCause option"

record System =
  sy_rt :: ApprovalRuntime
  sy_calls :: "Call list"
  sy_workers :: "InflightApproval list"

section \<open>Operations and critical sections\<close>

definition normalizeMaxInflight :: "int \<Rightarrow> int" where
  "normalizeMaxInflight maxInflight = (if maxInflight \<le> 0 then 4 else maxInflight)"

definition NewApprovalRuntime :: "int \<Rightarrow> ApprovalRuntime" where
  "NewApprovalRuntime maxInflight =
     \<lparr>rt_shuttingDown = False, rt_maxInflight = normalizeMaxInflight maxInflight, rt_sem = 0,
      rt_inflight = Map.empty\<rparr>"

definition Runtime_Shutdown :: "ApprovalRuntime option \<Rightarrow> ApprovalRuntime option" where
  "Runtime_Shutdown r =
     (case r of None \<Rightarrow> None
      | Some rt \<Rightarrow> if rt_shuttingDown rt then Some rt else Some (rt\<lparr>rt_shuttingDown := True\<rparr>))"

definition IsShutdown :: "ApprovalRuntime option \<Rightarrow> bool" where
  "IsShutdown r = (case r of None \<Rightarrow> False | Some rt \<Rightarrow> rt_shuttingDown rt)"

definition MaxInflight :: "ApprovalRuntime option \<Rightarrow> int" where
  "MaxInflight r = (case r of None \<Rightarrow> 0 | Some rt \<Rightarrow> rt_maxInflight rt)"

definition InflightCount :: "ApprovalRuntime option \<Rightarrow> int" where
  "InflightCount r = (case r of None \<Rightarrow> 0 | Some rt \<Rightarrow> int (card (dom (rt_inflight rt))))"

definition shutdown_result :: ApprovalResult where
  "shutdown_result = approval_result [] APPROVAL_CANCELLED APPROVAL_ONCE REASON_APPROVAL_RUNTIME_SHUTDOWN"

text \<open>The entry of \<open>Run\<close>: nil receiver, nil function, default key.\<close>

definition run_start :: "ApprovalRuntime option \<Rightarrow> string \<Rightarrow> bool \<Rightarrow> Call" where
  "run_start r key fn_nil =
     (case r of
        None \<Rightarrow> \<lparr>ca_key = key, ca_phase = C_RETURNED
          (approval_result [] APPROVAL_UNAVAILABLE APPROVAL_ONCE REASON_APPROVAL_RUNTIME_SHUTDOWN, None), ca_ctx = None\<rparr>
      | Some _ \<Rightarrow>
          if fn_nil
          then \<lparr>ca_key = key, ca_phase = C_RETURNED
            (approval_result [] APPROVAL_UNAVAILABLE APPROVAL_ONCE ''approval function unavailable'', None), ca_ctx = None\<rparr>
          else \<lparr>ca_key = (if key = [] then ''__approval__'' else key), ca_phase = C_ENTER, ca_ctx = None\<rparr>)"

text \<open>The first locked region.\<close>

definition run_enter :: "ApprovalRuntime \<Rightarrow> string \<Rightarrow> CallPhase" where
  "run_enter rt key =
     (if rt_shuttingDown rt then C_RETURNED (shutdown_result, None)
      else case rt_inflight rt key of
             Some existing \<Rightarrow> C_WAIT existing True
           | None \<Rightarrow> C_SELECT)"

text \<open>The case \<open>ctx.Done()\<close> of the \<open>select\<close> on the semaphore.\<close>

definition select_cancelled :: "CtxCause \<Rightarrow> ApprovalResult" where
  "select_cancelled cause =
     (if cause = DeadlineExceeded
      then approval_result [] APPROVAL_TIMEOUT APPROVAL_ONCE REASON_APPROVAL_INFLIGHT_LIMIT
      else approval_result [] APPROVAL_CANCELLED APPROVAL_ONCE REASON_HUMAN_APPROVAL_CANCELLED)"

text \<open>The send on the semaphore; \<open>None\<close> where it would block.\<close>

definition acquireSlot :: "ApprovalRuntime \<Rightarrow> ApprovalRuntime option" where
  "acquireSlot rt =
     (if int (rt_sem rt) < rt_maxInflight rt then Some (rt\<lparr>rt_sem := rt_sem rt + 1\<rparr>) else None)"

definition releaseSlot :: "ApprovalRuntime \<Rightarrow> ApprovalRuntime" where
  "releaseSlot rt = (if 0 < rt_sem rt then rt\<lparr>rt_sem := rt_sem rt - 1\<rparr> else rt)"

text \<open>
  The second locked region, at the instant \<open>now\<close>; a new worker gets the index \<open>w\<close>.
\<close>

definition run_register ::
    "instant \<Rightarrow> nat \<Rightarrow> string \<Rightarrow> ApprovalRuntime \<Rightarrow>
     CallPhase \<times> ApprovalRuntime \<times> InflightApproval list" where
  "run_register now w key rt =
     (if rt_shuttingDown rt then (C_RELEASE_RETURN (shutdown_result, None), rt, [])
      else case rt_inflight rt key of
             Some existing \<Rightarrow> (C_RELEASE_JOIN existing, rt, [])
           | None \<Rightarrow>
               (C_WAIT w False, rt\<lparr>rt_inflight := (rt_inflight rt)(key \<mapsto> w)\<rparr>,
                [\<lparr>if_Key = key, if_StartedAt = now, if_phase = W_RUNNING,
                  if_result = \<lparr>ar_ActionID = [], ar_Decision = APPROVAL_DECISION_OTHER [],
                    ar_Scope = APPROVAL_SCOPE_OTHER [], ar_Reason = [], ar_ApprovedBy = [],
                    ar_DurationMS = 0\<rparr>,
                  if_err = None\<rparr>]))"

definition approvalFromContext :: "CtxCause \<Rightarrow> ApprovalResult" where
  "approvalFromContext cause =
     (if cause = DeadlineExceeded
      then approval_result [] APPROVAL_TIMEOUT APPROVAL_ONCE REASON_HUMAN_APPROVAL_TIMEOUT
      else approval_result [] APPROVAL_CANCELLED APPROVAL_ONCE REASON_HUMAN_APPROVAL_CANCELLED)"

text \<open>The case \<open>inflight.done\<close> of \<open>waitForResult\<close>.\<close>

definition wait_done :: "InflightApproval \<Rightarrow> bool \<Rightarrow> answer" where
  "wait_done w joined =
     ((if joined \<and> ar_Reason (if_result w) = []
       then (if_result w)\<lparr>ar_Reason := REASON_APPROVAL_DUPLICATE_JOINED\<rparr>
       else if_result w), if_err w)"

text \<open>The case \<open>shutdownCh\<close> of both \<open>select\<close> statements.\<close>

abbreviation shutdown_answer :: answer where
  "shutdown_answer \<equiv> (shutdown_result, None)"

text \<open>
  A worker: the function returns or panics, and \<open>done\<close> is closed; then the key is deleted from
  the table; then the slot is released.
\<close>

datatype FnOutcome = FnReturn ApprovalResult "GoError option" | FnPanic string

definition worker_finish :: "FnOutcome \<Rightarrow> InflightApproval \<Rightarrow> InflightApproval" where
  "worker_finish out w =
     (case out of
        FnReturn res err \<Rightarrow> w\<lparr>if_phase := W_DONE, if_result := res, if_err := err\<rparr>
      | FnPanic txt \<Rightarrow> w\<lparr>if_phase := W_DONE,
          if_result := approval_result [] APPROVAL_UNAVAILABLE APPROVAL_ONCE
            (''approval runtime panic: '' @ txt),
          if_err := None\<rparr>)"

definition worker_delete :: "InflightApproval \<Rightarrow> ApprovalRuntime \<Rightarrow> ApprovalRuntime" where
  "worker_delete w rt = rt\<lparr>rt_inflight := (rt_inflight rt)(if_Key w := None)\<rparr>"

section \<open>Interleavings\<close>

definition set_phase :: "nat \<Rightarrow> CallPhase \<Rightarrow> System \<Rightarrow> System" where
  "set_phase i p s = s\<lparr>sy_calls := (sy_calls s)[i := (sy_calls s ! i)\<lparr>ca_phase := p\<rparr>]\<rparr>"

definition set_worker :: "nat \<Rightarrow> InflightApproval \<Rightarrow> System \<Rightarrow> System" where
  "set_worker w o' s = s\<lparr>sy_workers := (sy_workers s)[w := o']\<rparr>"

definition set_rt :: "ApprovalRuntime \<Rightarrow> System \<Rightarrow> System" where
  "set_rt rt s = s\<lparr>sy_rt := rt\<rparr>"

definition end_ctx :: "nat \<Rightarrow> CtxCause \<Rightarrow> System \<Rightarrow> System" where
  "end_ctx i cause s = s\<lparr>sy_calls := (sy_calls s)[i := (sy_calls s ! i)\<lparr>ca_ctx := Some cause\<rparr>]\<rparr>"

definition phase_of :: "System \<Rightarrow> nat \<Rightarrow> CallPhase option" where
  "phase_of s i = (if i < length (sy_calls s) then Some (ca_phase (sy_calls s ! i)) else None)"

definition worker_of :: "System \<Rightarrow> nat \<Rightarrow> InflightApproval option" where
  "worker_of s w = (if w < length (sy_workers s) then Some (sy_workers s ! w) else None)"

text \<open>\<open>ctx.Err()\<close> of a call: \<open>None\<close> while \<open>ctx.Done()\<close> is open.\<close>

definition ctx_err :: "System \<Rightarrow> nat \<Rightarrow> CtxCause option" where
  "ctx_err s i = ca_ctx (sy_calls s ! i)"

abbreviation key_of :: "System \<Rightarrow> nat \<Rightarrow> string" where
  "key_of s i \<equiv> ca_key (sy_calls s ! i)"

datatype Actor = ANew | ACall nat | AContext nat | AFinish nat FnOutcome | AWorker nat | AShutdown

text \<open>
  One step of the system: a goroutine calls \<open>Run\<close>, a call or a worker executes one critical
  section, the context of a call ends, or \<open>Shutdown\<close> is called. A \<open>select\<close> with several ready cases
  takes any of them; with none it waits.
\<close>

inductive rt_step :: "Actor \<Rightarrow> System \<Rightarrow> System \<Rightarrow> bool" where
  call_Run:
    "rt_step ANew s (s\<lparr>sy_calls := sy_calls s @ [run_start (Some (sy_rt s)) key fn_nil]\<rparr>)"
| context_ends:
    "phase_of s i = Some p \<Longrightarrow> ctx_err s i = None \<Longrightarrow> rt_step (AContext i) s (end_ctx i cause s)"
| call_enter:
    "phase_of s i = Some C_ENTER \<Longrightarrow>
     rt_step (ACall i) s (set_phase i (run_enter (sy_rt s) (key_of s i)) s)"
| select_acquire:
    "phase_of s i = Some C_SELECT \<Longrightarrow> acquireSlot (sy_rt s) = Some rt \<Longrightarrow>
     rt_step (ACall i) s (set_phase i C_HOLDING (set_rt rt s))"
| select_ctx:
    "phase_of s i = Some C_SELECT \<Longrightarrow> ctx_err s i = Some cause \<Longrightarrow>
     rt_step (ACall i) s (set_phase i (C_RETURNED (select_cancelled cause, None)) s)"
| select_shutdown:
    "phase_of s i = Some C_SELECT \<Longrightarrow> rt_shuttingDown (sy_rt s) \<Longrightarrow>
     rt_step (ACall i) s (set_phase i (C_RETURNED shutdown_answer) s)"
| call_register:
    "phase_of s i = Some C_HOLDING \<Longrightarrow>
     run_register now (length (sy_workers s)) (key_of s i) (sy_rt s) = (p, rt, ws) \<Longrightarrow>
     rt_step (ACall i) s (set_phase i p (set_rt rt (s\<lparr>sy_workers := sy_workers s @ ws\<rparr>)))"
| release_return:
    "phase_of s i = Some (C_RELEASE_RETURN a) \<Longrightarrow>
     rt_step (ACall i) s (set_phase i (C_RETURNED a) (set_rt (releaseSlot (sy_rt s)) s))"
| release_join:
    "phase_of s i = Some (C_RELEASE_JOIN w) \<Longrightarrow>
     rt_step (ACall i) s (set_phase i (C_WAIT w True) (set_rt (releaseSlot (sy_rt s)) s))"
| wait_result:
    "phase_of s i = Some (C_WAIT w joined) \<Longrightarrow> worker_of s w = Some wk \<Longrightarrow>
     if_phase wk \<noteq> W_RUNNING \<Longrightarrow>
     rt_step (ACall i) s (set_phase i (C_RETURNED (wait_done wk joined)) s)"
| wait_ctx:
    "phase_of s i = Some (C_WAIT w joined) \<Longrightarrow> ctx_err s i = Some cause \<Longrightarrow>
     rt_step (ACall i) s (set_phase i (C_RETURNED (approvalFromContext cause, None)) s)"
| wait_shutdown:
    "phase_of s i = Some (C_WAIT w joined) \<Longrightarrow> rt_shuttingDown (sy_rt s) \<Longrightarrow>
     rt_step (ACall i) s (set_phase i (C_RETURNED shutdown_answer) s)"
| worker_finishes:
    "worker_of s w = Some wk \<Longrightarrow> if_phase wk = W_RUNNING \<Longrightarrow>
     rt_step (AFinish w out) s (set_worker w (worker_finish out wk) s)"
| worker_deletes:
    "worker_of s w = Some wk \<Longrightarrow> if_phase wk = W_DONE \<Longrightarrow>
     rt_step (AWorker w) s
       (set_worker w (wk\<lparr>if_phase := W_DELETED\<rparr>) (set_rt (worker_delete wk (sy_rt s)) s))"
| worker_releases:
    "worker_of s w = Some wk \<Longrightarrow> if_phase wk = W_DELETED \<Longrightarrow>
     rt_step (AWorker w) s
       (set_worker w (wk\<lparr>if_phase := W_EXITED\<rparr>) (set_rt (releaseSlot (sy_rt s)) s))"
| shutdown:
    "Runtime_Shutdown (Some (sy_rt s)) = Some rt \<Longrightarrow> rt_step AShutdown s (set_rt rt s)"

inductive_cases rt_call_cases: "rt_step (ACall i) s s'"

definition runtime_start :: "int \<Rightarrow> System" where
  "runtime_start n = \<lparr>sy_rt = NewApprovalRuntime n, sy_calls = [], sy_workers = []\<rparr>"

section \<open>The invariant\<close>

fun owns_phase :: "CallPhase \<Rightarrow> bool" where
  "owns_phase C_HOLDING = True"
| "owns_phase (C_RELEASE_RETURN _) = True"
| "owns_phase (C_RELEASE_JOIN _) = True"
| "owns_phase _ = False"

definition owns_slot :: "Call \<Rightarrow> bool" where
  "owns_slot c = owns_phase (ca_phase c)"

definition live :: "InflightApproval \<Rightarrow> bool" where
  "live w \<longleftrightarrow> if_phase w = W_RUNNING \<or> if_phase w = W_DONE"

definition occupies :: "InflightApproval \<Rightarrow> bool" where
  "occupies w \<longleftrightarrow> if_phase w \<noteq> W_EXITED"

definition slots_ok :: "System \<Rightarrow> bool" where
  "slots_ok s \<longleftrightarrow>
     rt_sem (sy_rt s) = countP owns_slot (sy_calls s) + countP occupies (sy_workers s) \<and>
     int (rt_sem (sy_rt s)) \<le> rt_maxInflight (sy_rt s)"

text \<open>The table maps each key to its live worker, and every live worker is in the table.\<close>

definition table_ok :: "System \<Rightarrow> bool" where
  "table_ok s \<longleftrightarrow>
     (\<forall>k w. rt_inflight (sy_rt s) k = Some w \<longleftrightarrow>
        (\<exists>wk. worker_of s w = Some wk \<and> live wk \<and> if_Key wk = k))"

text \<open>
  Every result that a call is about to return, or has returned, is a shutdown or a context answer,
  or the result that a worker of the call's key got from its function.
\<close>

definition own_answer :: "answer \<Rightarrow> bool" where
  "own_answer a \<longleftrightarrow> ar_Decision (fst a) \<noteq> APPROVAL_GRANTED \<and> snd a = None"

definition worker_answer :: "System \<Rightarrow> string \<Rightarrow> answer \<Rightarrow> bool" where
  "worker_answer s k a \<longleftrightarrow>
     (\<exists>w wk joined. worker_of s w = Some wk \<and> if_Key wk = k \<and> if_phase wk \<noteq> W_RUNNING \<and>
        a = wait_done wk joined)"

definition call_ok :: "System \<Rightarrow> Call \<Rightarrow> bool" where
  "call_ok s c = (case ca_phase c of
     C_RELEASE_RETURN a \<Rightarrow> own_answer a
   | C_RELEASE_JOIN w \<Rightarrow> (\<exists>wk. worker_of s w = Some wk \<and> if_Key wk = ca_key c)
   | C_WAIT w joined \<Rightarrow> (\<exists>wk. worker_of s w = Some wk \<and> if_Key wk = ca_key c)
   | C_RETURNED a \<Rightarrow> own_answer a \<or> worker_answer s (ca_key c) a
   | _ \<Rightarrow> True)"

definition calls_ok :: "System \<Rightarrow> bool" where
  "calls_ok s \<longleftrightarrow> (\<forall>i < length (sy_calls s). call_ok s (sy_calls s ! i))"

text \<open>Later states keep the workers, their keys, and the results of the finished ones.\<close>

definition extends :: "System \<Rightarrow> System \<Rightarrow> bool" where
  "extends s s' \<longleftrightarrow>
     (\<forall>w wk. worker_of s w = Some wk \<longrightarrow>
        (\<exists>wk'. worker_of s' w = Some wk' \<and> if_Key wk' = if_Key wk \<and>
           (if_phase wk \<noteq> W_RUNNING \<longrightarrow> if_phase wk' \<noteq> W_RUNNING \<and>
              if_result wk' = if_result wk \<and> if_err wk' = if_err wk)))"

definition runtime_inv :: "System \<Rightarrow> bool" where
  "runtime_inv s \<longleftrightarrow> slots_ok s \<and> table_ok s \<and> calls_ok s"

subsection \<open>Selectors\<close>

lemma set_sel [simp]:
  "sy_rt (set_phase i p s) = sy_rt s" "sy_workers (set_phase i p s) = sy_workers s"
  "length (sy_calls (set_phase i p s)) = length (sy_calls s)"
  "sy_rt (set_worker w x s) = sy_rt s" "sy_calls (set_worker w x s) = sy_calls s"
  "sy_rt (set_rt rt s) = rt" "sy_calls (set_rt rt s) = sy_calls s" "sy_workers (set_rt rt s) = sy_workers s"
  by (simp_all add: set_phase_def set_worker_def set_rt_def)

lemma set_rt_inner [simp]:
  "sy_calls (set_phase i p (set_rt rt s)) = sy_calls (set_phase i p s)"
  "sy_calls (set_phase i p (s\<lparr>sy_workers := ws\<rparr>)) = sy_calls (set_phase i p s)"
  "sy_workers (set_worker w x (set_rt rt s)) = sy_workers (set_worker w x s)"
  "phase_of (set_rt rt s) = phase_of s" "phase_of (set_worker w x s) = phase_of s"
  "phase_of (s\<lparr>sy_workers := ws\<rparr>) = phase_of s"
  by (simp_all add: set_phase_def set_worker_def set_rt_def phase_of_def fun_eq_iff)

lemma worker_of_set [simp]:
  "worker_of (set_phase i p s) = worker_of s" "worker_of (set_rt rt s) = worker_of s"
  "worker_of (s\<lparr>sy_calls := cs\<rparr>) = worker_of s"
  by (simp_all add: worker_of_def fun_eq_iff)

lemma worker_of_set_worker:
  "worker_of s w = Some wk \<Longrightarrow> worker_of (set_worker w x s) v = (if v = w then Some x else worker_of s v)"
  by (auto simp: worker_of_def set_worker_def split: if_splits)

lemma worker_of_append:
  "worker_of (s\<lparr>sy_workers := sy_workers s @ [x]\<rparr>) w =
     (if w = length (sy_workers s) then Some x else worker_of s w)"
  by (auto simp: worker_of_def nth_append)

lemma calls_set_phase:
  "phase_of s i = Some q \<Longrightarrow> j < length (sy_calls s) \<Longrightarrow>
     sy_calls (set_phase i p s) ! j =
       (if j = i then (sy_calls s ! i)\<lparr>ca_phase := p\<rparr> else sy_calls s ! j)"
  by (auto simp: set_phase_def phase_of_def split: if_splits)

lemma phase_of_set_phase:
  "phase_of s i = Some q \<Longrightarrow> phase_of (set_phase i p s) j = (if j = i then Some p else phase_of s j)"
  by (auto simp: phase_of_def calls_set_phase set_phase_def split: if_splits)

lemma count_set_phase:
  assumes "phase_of s i = Some q"
  shows "countP owns_slot (sy_calls (set_phase i p s)) + (if owns_phase q then 1 else 0) =
     countP owns_slot (sy_calls s) + (if owns_phase p then 1 else 0)"
proof -
  have "i < length (sy_calls s)" "ca_phase (sy_calls s ! i) = q"
    using assms by (auto simp: phase_of_def split: if_splits)
  then show ?thesis
    using countP_update [of i "sy_calls s" owns_slot "(sy_calls s ! i)\<lparr>ca_phase := p\<rparr>"]
    by (simp add: set_phase_def owns_slot_def)
qed

lemma count_set_worker:
  assumes "worker_of s w = Some wk"
  shows "countP P (sy_workers (set_worker w x s)) + (if P wk then 1 else 0) =
     countP P (sy_workers s) + (if P x then 1 else 0)"
proof -
  have "w < length (sy_workers s)" "sy_workers s ! w = wk"
    using assms by (auto simp: worker_of_def split: if_splits)
  then show ?thesis
    using countP_update [of w "sy_workers s" P x] by (simp add: set_worker_def)
qed

lemma releaseSlot_sel [simp]:
  "rt_sem (releaseSlot rt) = rt_sem rt - 1" "rt_maxInflight (releaseSlot rt) = rt_maxInflight rt"
  "rt_inflight (releaseSlot rt) = rt_inflight rt"
  "rt_shuttingDown (releaseSlot rt) = rt_shuttingDown rt"
  by (simp_all add: releaseSlot_def)

lemma acquireSlot_Some:
  "acquireSlot rt = Some rt' \<longleftrightarrow>
     int (rt_sem rt) < rt_maxInflight rt \<and> rt' = rt\<lparr>rt_sem := rt_sem rt + 1\<rparr>"
  by (auto simp: acquireSlot_def)

lemma worker_finish_sel [simp]:
  "if_phase (worker_finish out w) = W_DONE" "if_Key (worker_finish out w) = if_Key w"
  by (simp_all add: worker_finish_def split: FnOutcome.split)

lemma worker_delete_sel [simp]:
  "rt_sem (worker_delete w rt) = rt_sem rt" "rt_maxInflight (worker_delete w rt) = rt_maxInflight rt"
  "rt_shuttingDown (worker_delete w rt) = rt_shuttingDown rt"
  "rt_inflight (worker_delete w rt) = (rt_inflight rt)(if_Key w := None)"
  by (simp_all add: worker_delete_def)

lemma Runtime_Shutdown_Some:
  "Runtime_Shutdown (Some rt) = Some rt' \<longleftrightarrow> rt' = rt\<lparr>rt_shuttingDown := True\<rparr>"
  by (cases rt) (auto simp: Runtime_Shutdown_def)

lemma run_start_phase:
  "\<not> owns_slot (run_start r key f)"
  by (simp add: run_start_def owns_slot_def split: option.split)

lemma run_enter_owns [simp]: "\<not> owns_phase (run_enter rt key)"
  by (simp add: run_enter_def split: option.split)

lemma end_ctx_sel [simp]:
  "sy_rt (end_ctx i c s) = sy_rt s" "sy_workers (end_ctx i c s) = sy_workers s"
  "worker_of (end_ctx i c s) = worker_of s" "length (sy_calls (end_ctx i c s)) = length (sy_calls s)"
  by (simp_all add: end_ctx_def)

lemma calls_end_ctx:
  "j < length (sy_calls s) \<Longrightarrow>
     sy_calls (end_ctx i c s) ! j = (if j = i then (sy_calls s ! j)\<lparr>ca_ctx := Some c\<rparr> else sy_calls s ! j)"
  by (auto simp: end_ctx_def)

lemma phase_end_ctx [simp]: "phase_of (end_ctx i c s) = phase_of s"
  by (auto simp: phase_of_def calls_end_ctx fun_eq_iff)

lemma owns_end_ctx [simp]: "countP owns_slot (sy_calls (end_ctx i c s)) = countP owns_slot (sy_calls s)"
proof (cases "i < length (sy_calls s)")
  case True
  then show ?thesis using countP_update [of i "sy_calls s" owns_slot "(sy_calls s ! i)\<lparr>ca_ctx := Some c\<rparr>"]
    by (simp add: end_ctx_def owns_slot_def split: if_splits)
qed (simp add: end_ctx_def list_update_beyond)

text \<open>The three outcomes of the second locked region.\<close>

lemma run_register_cases:
  assumes "run_register now w key rt = (p, rt', ws)"
  obtains (down) "rt_shuttingDown rt" "p = C_RELEASE_RETURN shutdown_answer" "rt' = rt" "ws = []"
  | (join) e where "rt_inflight rt key = Some e" "p = C_RELEASE_JOIN e" "rt' = rt" "ws = []"
  | (fresh) x where "\<not> rt_shuttingDown rt" "rt_inflight rt key = None" "p = C_WAIT w False"
      "rt' = rt\<lparr>rt_inflight := (rt_inflight rt)(key \<mapsto> w)\<rparr>" "ws = [x]"
      "if_Key x = key" "if_phase x = W_RUNNING"
proof (cases "rt_shuttingDown rt")
  case True
  then show thesis using assms by (intro down) (simp_all add: run_register_def)
next
  case False
  show thesis
  proof (cases "rt_inflight rt key")
    case None
    with False show thesis using assms by (intro fresh [of "hd ws"]) (auto simp: run_register_def)
  next
    case (Some e)
    with False show thesis using assms by (intro join [of e]) (simp_all add: run_register_def)
  qed
qed

text \<open>A step of another goroutine leaves the phase of a call.\<close>

lemma phase_of_other:
  "rt_step a s s' \<Longrightarrow> a \<noteq> ACall i \<Longrightarrow> phase_of s i = Some p \<Longrightarrow> phase_of s' i = Some p"
proof (induction rule: rt_step.induct)
  case (call_Run s key fn_nil)
  then show ?case by (auto simp: phase_of_def nth_append split: if_splits)
qed (auto simp: phase_of_set_phase phase_of_set_phase [of "_\<lparr>sy_workers := _\<rparr>"])

subsection \<open>Slots\<close>

text \<open>A step that only moves a call between phases without a slot keeps the account.\<close>

lemma slots_ok_set_phase:
  "slots_ok s \<Longrightarrow> phase_of s i = Some q \<Longrightarrow> \<not> owns_phase q \<Longrightarrow> \<not> owns_phase p \<Longrightarrow>
     slots_ok (set_phase i p s)"
  using count_set_phase [of s i q p] unfolding slots_ok_def by simp

lemma slots_ok_release_call:
  "slots_ok s \<Longrightarrow> phase_of s i = Some q \<Longrightarrow> owns_phase q \<Longrightarrow> \<not> owns_phase p \<Longrightarrow>
     slots_ok (set_phase i p (set_rt (releaseSlot (sy_rt s)) s))"
  using count_set_phase [of s i q p] unfolding slots_ok_def by auto

lemma slots_ok_step:
  assumes "slots_ok s" and "rt_step a s s'"
  shows "slots_ok s'"
  using assms(2)
proof cases
  case (call_Run key f)
  then show ?thesis using assms(1) run_start_phase by (simp add: slots_ok_def)
next
  case (context_ends i p cause)
  then show ?thesis using assms(1) by (simp add: slots_ok_def)
next
  case (select_acquire i rt)
  then show ?thesis using assms(1) count_set_phase [OF select_acquire(3), of C_HOLDING]
    by (simp add: slots_ok_def acquireSlot_Some)
next
  case (call_register i now p rt ws)
  from call_register(4) show ?thesis
  proof (cases rule: run_register_cases)
    case (fresh x)
    then show ?thesis using assms(1) count_set_phase [OF call_register(3), of p] call_register(2)
      by (simp add: slots_ok_def occupies_def)
  qed (use assms(1) count_set_phase [OF call_register(3), of p] call_register(2) in
       \<open>simp_all add: slots_ok_def\<close>)
next
  case (worker_finishes w wk out)
  then show ?thesis using assms(1) count_set_worker [OF worker_finishes(3), of occupies "worker_finish out wk"]
    by (simp add: slots_ok_def occupies_def)
next
  case (worker_deletes w wk)
  then show ?thesis using assms(1) count_set_worker [OF worker_deletes(3), of occupies "wk\<lparr>if_phase := W_DELETED\<rparr>"]
    by (simp add: slots_ok_def occupies_def)
next
  case (worker_releases w wk)
  then show ?thesis using assms(1) count_set_worker [OF worker_releases(3), of occupies "wk\<lparr>if_phase := W_EXITED\<rparr>"]
    by (simp add: slots_ok_def occupies_def)
next
  case (shutdown rt)
  then show ?thesis using assms(1) by (simp add: slots_ok_def Runtime_Shutdown_Some)
qed (use assms(1) in \<open>auto intro: slots_ok_set_phase slots_ok_release_call\<close>)

subsection \<open>The table of workers\<close>

lemma table_ok_cong:
  "rt_inflight (sy_rt s') = rt_inflight (sy_rt s) \<Longrightarrow> worker_of s' = worker_of s \<Longrightarrow>
     table_ok s' = table_ok s"
  by (simp add: table_ok_def)

lemma worker_of_bound: "worker_of s w = Some wk \<Longrightarrow> w < length (sy_workers s)"
  by (simp add: worker_of_def split: if_splits)

text \<open>A worker that stays live, or stays dead, leaves the table right.\<close>

lemma table_ok_set_worker:
  assumes "table_ok s" and "worker_of s w = Some wk" and "if_Key x = if_Key wk" and "live x = live wk"
  shows "table_ok (set_worker w x (set_rt rt s)) = (rt_inflight rt = rt_inflight (sy_rt s))"
proof -
  have "(\<exists>y. worker_of (set_worker w x s) v = Some y \<and> live y \<and> if_Key y = k) =
        (\<exists>y. worker_of s v = Some y \<and> live y \<and> if_Key y = k)" for v k
    using assms(2-4) by (auto simp: worker_of_set_worker)
  moreover have "worker_of (set_worker w x (set_rt rt s)) = worker_of (set_worker w x s)"
    by (simp add: fun_eq_iff worker_of_def)
  ultimately show ?thesis using assms(1)
    by (auto simp: table_ok_def fun_eq_iff) (metis not_Some_eq option.exhaust)
qed

lemma table_unique:
  assumes "table_ok s" and "worker_of s v = Some x" "live x" and "worker_of s w = Some y" "live y"
    and "if_Key x = if_Key y"
  shows "v = w"
proof -
  have "rt_inflight (sy_rt s) (if_Key y) = Some v" "rt_inflight (sy_rt s) (if_Key y) = Some w"
    using assms by (auto simp: table_ok_def)
  then show ?thesis by simp
qed

lemma table_ok_step:
  assumes "table_ok s" and "rt_step a s s'"
  shows "table_ok s'"
  using assms(2)
proof cases
  case (select_acquire i rt)
  then show ?thesis using assms(1) by (simp add: acquireSlot_Some cong: table_ok_cong)
next
  case (call_register i now p rt ws)
  from call_register(4) show ?thesis
  proof (cases rule: run_register_cases)
    case (fresh x)
    let ?n = "length (sy_workers s)"
    have w: "worker_of s' v = (if v = ?n then Some x else worker_of s v)" for v
      using call_register(2) fresh by (simp add: worker_of_append)
    have "worker_of s ?n = None" by (simp add: worker_of_def)
    moreover have "if_Key y \<noteq> key_of s i" if "worker_of s v = Some y" "live y" for v y
      using assms(1) fresh(2) that by (metis option.distinct(1) table_ok_def)
    moreover have "rt_inflight (sy_rt s') = (rt_inflight (sy_rt s))(key_of s i \<mapsto> ?n)" "live x"
      using call_register(2) fresh by (simp_all add: live_def)
    ultimately show ?thesis using assms(1) fresh(6) w by (auto simp: table_ok_def)
  qed (use assms(1) call_register(2) in \<open>simp_all cong: table_ok_cong\<close>)
next
  case (worker_finishes w wk out)
  have "table_ok (set_worker w (worker_finish out wk) (set_rt (sy_rt s) s))"
    using worker_finishes by (subst table_ok_set_worker [OF assms(1)]) (auto simp: live_def)
  then show ?thesis using worker_finishes(2) by (simp add: set_rt_def)
next
  case (worker_deletes w wk)
  have wk: "live wk" using worker_deletes by (simp add: live_def)
  have dead: "\<not> live (wk\<lparr>if_phase := W_DELETED\<rparr>)" by (simp add: live_def)
  have "worker_of s' v = (if v = w then Some (wk\<lparr>if_phase := W_DELETED\<rparr>) else worker_of s v)" for v
    using worker_deletes by (simp add: worker_of_set_worker)
  moreover have "if_Key x \<noteq> if_Key wk" if "worker_of s v = Some x" "live x" "v \<noteq> w" for v x
    using table_unique [OF assms(1) that(1,2) worker_deletes(3) wk] that(3) by blast
  ultimately show ?thesis using assms(1) worker_deletes(2,3) dead by (auto simp: table_ok_def)
next
  case (worker_releases w wk)
  then show ?thesis using table_ok_set_worker [OF assms(1) worker_releases(3)] by (simp add: live_def)
next
  case (shutdown rt)
  then show ?thesis using assms(1) by (simp add: Runtime_Shutdown_Some cong: table_ok_cong)
qed (use assms(1) in \<open>simp_all cong: table_ok_cong\<close>)

subsection \<open>Answers\<close>

lemma extends_refl [simp]: "worker_of s' = worker_of s \<Longrightarrow> extends s s'"
  by (simp add: extends_def)

text \<open>Every step keeps the workers, their keys and the results of the finished ones.\<close>

lemma extends_step: "rt_step a s s' \<Longrightarrow> extends s s'"
proof (induction rule: rt_step.induct)
  case (call_register s i now p rt ws)
  have "worker_of (s\<lparr>sy_workers := sy_workers s @ ws\<rparr>) w = Some wk" if "worker_of s w = Some wk" for w wk
    using that by (auto simp: worker_of_def nth_append split: if_splits)
  then show ?case by (simp add: extends_def)
qed (auto simp: extends_def worker_of_set_worker)

lemma worker_answerI:
  "worker_of s w = Some wk \<Longrightarrow> if_Key wk = k \<Longrightarrow> if_phase wk \<noteq> W_RUNNING \<Longrightarrow>
     worker_answer s k (wait_done wk joined)"
  unfolding worker_answer_def by blast

lemma worker_answer_extends: "extends s s' \<Longrightarrow> worker_answer s k a \<Longrightarrow> worker_answer s' k a"
  unfolding worker_answer_def extends_def wait_done_def by metis

lemma call_ok_extends: "extends s s' \<Longrightarrow> call_ok s c \<Longrightarrow> call_ok s' c"
  using worker_answer_extends [of s s']
  by (auto simp: call_ok_def extends_def split: CallPhase.splits) metis+

lemma own_answers [simp]:
  "own_answer shutdown_answer" "own_answer (select_cancelled c, None)"
  "own_answer (approvalFromContext c, None)"
  by (simp_all add: own_answer_def shutdown_result_def select_cancelled_def approvalFromContext_def)

lemma call_ok_start: "call_ok s (run_start r key f)"
  by (simp add: run_start_def call_ok_def own_answer_def split: option.split)

text \<open>A call whose new phase is right, in a state that extends the old one.\<close>

lemma calls_ok_set_phase:
  assumes "calls_ok s" and "phase_of s i = Some q" and "extends s s'"
    and "sy_calls s' = sy_calls (set_phase i p s)"
    and "call_ok s' ((sy_calls s ! i)\<lparr>ca_phase := p\<rparr>)"
  shows "calls_ok s'"
proof -
  have "call_ok s' (sy_calls s' ! j)" if "j < length (sy_calls s')" for j
    using that assms(4,5) calls_set_phase [OF assms(2), of j p] call_ok_extends [OF assms(3)] assms(1)
    by (auto simp: calls_ok_def)
  then show ?thesis by (simp add: calls_ok_def)
qed

lemma calls_ok_same:
  "calls_ok s \<Longrightarrow> extends s s' \<Longrightarrow> sy_calls s' = sy_calls s \<Longrightarrow> calls_ok s'"
  by (auto simp: calls_ok_def intro: call_ok_extends)

lemma call_ok_at:
  "calls_ok s \<Longrightarrow> phase_of s i = Some p \<Longrightarrow> call_ok s (sy_calls s ! i) \<and> ca_phase (sy_calls s ! i) = p"
  by (auto simp: calls_ok_def phase_of_def split: if_splits)

lemma table_worker:
  "table_ok s \<Longrightarrow> rt_inflight (sy_rt s) k = Some w \<Longrightarrow> \<exists>wk. worker_of s w = Some wk \<and> if_Key wk = k"
  by (auto simp: table_ok_def)

lemma calls_ok_step:
  assumes "calls_ok s" and "table_ok s" and "rt_step a s s'"
  shows "calls_ok s'"
proof -
  note ext = extends_step [OF assms(3)]
  note move = calls_ok_set_phase [OF assms(1) _ ext]
  from assms(3) show ?thesis
  proof cases
    case (call_Run key f)
    have "call_ok s' c" if "c \<in> set (sy_calls s)" for c
      using assms(1) that call_ok_extends [OF ext] by (auto simp: calls_ok_def in_set_conv_nth)
    then show ?thesis using call_Run call_ok_start [of s'] by (auto simp: calls_ok_def nth_append)
  next
    case (context_ends i p cause)
    have "call_ok s' (c\<lparr>ca_ctx := x\<rparr>) = call_ok s' c" for c x
      by (cases "ca_phase c") (simp_all add: call_ok_def)
    moreover have "call_ok s' (sy_calls s ! j)" if "j < length (sy_calls s)" for j
      using assms(1) that call_ok_extends [OF ext] by (simp add: calls_ok_def)
    ultimately show ?thesis using context_ends by (simp add: calls_ok_def calls_end_ctx)
  next
    case (call_enter i)
    then show ?thesis using table_worker [OF assms(2)]
      by (intro move [of i]) (auto simp: call_ok_def run_enter_def split: option.split)
  next
    case (select_acquire i rt)
    then show ?thesis by (intro move [of i]) (auto simp: call_ok_def)
  next
    case (select_ctx i cause)
    then show ?thesis by (intro move [of i]) (auto simp: call_ok_def)
  next
    case (select_shutdown i)
    then show ?thesis by (intro move [of i]) (auto simp: call_ok_def)
  next
    case (call_register i now p rt ws)
    have "call_ok s' ((sy_calls s ! i)\<lparr>ca_phase := p\<rparr>)"
      using call_register(4)
    proof (cases rule: run_register_cases)
      case (join e)
      then show ?thesis using table_worker [OF assms(2), of "key_of s i" e] call_register(2)
        by (simp add: call_ok_def)
    next
      case (fresh x)
      then show ?thesis using call_register(2) by (simp add: call_ok_def worker_of_append)
    qed (simp add: call_ok_def)
    then show ?thesis using call_register by (intro move [of i]) auto
  next
    case (release_return i a)
    then show ?thesis using call_ok_at [OF assms(1) release_return(3)]
      by (intro move [of i]) (auto simp: call_ok_def)
  next
    case (release_join i w)
    then show ?thesis using call_ok_at [OF assms(1) release_join(3)]
      by (intro move [of i]) (auto simp: call_ok_def)
  next
    case (wait_result i w joined wk)
    then have "worker_answer s (key_of s i) (wait_done wk joined)"
      using call_ok_at [OF assms(1) wait_result(3)] by (intro worker_answerI) (auto simp: call_ok_def)
    then have "worker_answer s' (key_of s i) (wait_done wk joined)"
      by (rule worker_answer_extends [OF ext])
    then show ?thesis using wait_result by (intro move [of i]) (auto simp: call_ok_def)
  next
    case (wait_ctx i w joined cause)
    then show ?thesis by (intro move [of i]) (auto simp: call_ok_def)
  next
    case (wait_shutdown i w joined)
    then show ?thesis by (intro move [of i]) (auto simp: call_ok_def)
  qed (use calls_ok_same [OF assms(1) ext] in simp_all)
qed

subsection \<open>The invariant holds in every reachable state\<close>

lemma runtime_inv_start: "runtime_inv (runtime_start n)"
  by (simp add: runtime_inv_def runtime_start_def NewApprovalRuntime_def slots_ok_def table_ok_def
      calls_ok_def worker_of_def normalizeMaxInflight_def)

lemma runtime_inv_step: "runtime_inv s \<Longrightarrow> rt_step a s s' \<Longrightarrow> runtime_inv s'"
  unfolding runtime_inv_def by (blast intro: slots_ok_step table_ok_step calls_ok_step)

interpretation runtime: step_machine "runtime_start n" rt_step runtime_inv
  by unfold_locales (rule runtime_inv_start, rule runtime_inv_step)

abbreviation runtime_run :: "int \<Rightarrow> Actor list \<Rightarrow> System \<Rightarrow> bool" where
  "runtime_run n \<equiv> run (runtime_start n) rt_step"

lemma capacity_step: "rt_step a s s' \<Longrightarrow> rt_maxInflight (sy_rt s') = rt_maxInflight (sy_rt s)"
proof (induction rule: rt_step.induct)
  case (call_register s i now p rt ws)
  from call_register(2) show ?case by (cases rule: run_register_cases) simp_all
qed (auto simp: acquireSlot_Some Runtime_Shutdown_Some)

lemma capacity_run: "runtime_run n ls s \<Longrightarrow> rt_maxInflight (sy_rt s) = normalizeMaxInflight n"
  by (induction rule: run.induct)
     (simp_all add: runtime_start_def NewApprovalRuntime_def capacity_step)

text \<open>The domain of the table has one key per live worker.\<close>

lemma card_dom_table:
  assumes "table_ok s"
  shows "finite (dom (rt_inflight (sy_rt s))) \<and>
    card (dom (rt_inflight (sy_rt s))) \<le> countP live (sy_workers s)"
proof -
  have sub: "dom (rt_inflight (sy_rt s)) \<subseteq> if_Key ` set (filter live (sy_workers s))"
  proof
    fix k assume "k \<in> dom (rt_inflight (sy_rt s))"
    then obtain w wk where "worker_of s w = Some wk" "live wk" "if_Key wk = k"
      using assms by (auto simp: table_ok_def)
    then show "k \<in> if_Key ` set (filter live (sy_workers s))"
      by (auto simp: worker_of_def split: if_splits)
  qed
  have "card (if_Key ` set (filter live (sy_workers s))) \<le> countP live (sy_workers s)"
    unfolding countP_def by (metis List.finite_set card_image_le card_length order_trans)
  with card_mono [OF _ sub] show ?thesis using finite_subset [OF sub] by fastforce
qed

lemma live_keys_distinct:
  assumes "table_ok s"
  shows "distinct (map if_Key (filter live (sy_workers s)))"
proof -
  have "distinct (map if_Key (filter live xs))"
    if "\<forall>i < length xs. \<forall>j < length xs. live (xs ! i) \<longrightarrow> live (xs ! j) \<longrightarrow>
          if_Key (xs ! i) = if_Key (xs ! j) \<longrightarrow> i = j" for xs
    using that
  proof (induction xs)
    case (Cons y ys)
    have "if_Key y \<noteq> if_Key z" if "live y" "z \<in> set ys" "live z" for z
    proof
      assume k: "if_Key y = if_Key z"
      from that(2) obtain j where j: "j < length ys" "ys ! j = z" by (auto simp: in_set_conv_nth)
      then show False using Cons.prems [rule_format, of 0 "Suc j"] that(1,3) k by simp
    qed
    moreover have "\<forall>i < length ys. \<forall>j < length ys. live (ys ! i) \<longrightarrow> live (ys ! j) \<longrightarrow>
        if_Key (ys ! i) = if_Key (ys ! j) \<longrightarrow> i = j"
      using Cons.prems by (metis Suc_less_eq length_Cons nat.inject nth_Cons_Suc)
    ultimately show ?case using Cons.IH by auto
  qed simp
  moreover have "i = j" if "i < length (sy_workers s)" "j < length (sy_workers s)"
      "live (sy_workers s ! i)" "live (sy_workers s ! j)"
      "if_Key (sy_workers s ! i) = if_Key (sy_workers s ! j)" for i j
    using table_unique [OF assms, of i _ j] that by (simp add: worker_of_def)
  ultimately show ?thesis by blast
qed

text \<open>A grant in a finished worker was returned by its function.\<close>

lemma grant_from_function:
  "runtime_run n ls s \<Longrightarrow> worker_of s w = Some wk \<Longrightarrow> if_phase wk \<noteq> W_RUNNING \<Longrightarrow>
     ar_Decision (if_result wk) = APPROVAL_GRANTED \<Longrightarrow> AFinish w (FnReturn (if_result wk) (if_err wk)) \<in> set ls"
proof (induction arbitrary: w wk rule: run.induct)
  case run_none
  then show ?case by (simp add: runtime_start_def worker_of_def)
next
  case (run_snoc ls s l s')
  from run_snoc.hyps(2) show ?case
  proof cases
    case (call_register i now p rt ws)
    have "worker_of s w = Some wk"
      using call_register(4)
    proof (cases rule: run_register_cases)
      case (fresh x)
      then show ?thesis using run_snoc.prems(1,2) call_register(2)
        by (auto simp: worker_of_append split: if_splits)
    qed (use run_snoc.prems(1) call_register(2) in simp_all)
    then show ?thesis using run_snoc by simp
  next
    case (worker_finishes v x out)
    show ?thesis
    proof (cases "v = w")
      case True
      then have "wk = worker_finish out x"
        using run_snoc.prems(1) worker_finishes by (simp add: worker_of_set_worker)
      then show ?thesis using run_snoc.prems(3) True worker_finishes(1)
        by (cases out) (auto simp: worker_finish_def)
    qed (use run_snoc worker_finishes in \<open>simp add: worker_of_set_worker\<close>)
  next
    case (worker_deletes v x)
    then show ?thesis using run_snoc by (auto simp: worker_of_set_worker split: if_splits)
  next
    case (worker_releases v x)
    then show ?thesis using run_snoc by (auto simp: worker_of_set_worker split: if_splits)
  qed (use run_snoc in simp_all)
qed

section \<open>Properties\<close>

lemma workers_quiet:
  assumes "slots_ok s" and "table_ok s"
    and "list_all (\<lambda>c. \<not> owns_slot c) (sy_calls s)" and "list_all (\<lambda>w. if_phase w = W_EXITED) (sy_workers s)"
  shows "rt_sem (sy_rt s) = 0 \<and> rt_inflight (sy_rt s) = Map.empty"
proof -
  have "countP owns_slot (sy_calls s) = 0" "countP occupies (sy_workers s) = 0"
    using assms(3,4) by (simp_all add: countP_zero list_all_iff occupies_def)
  moreover have "rt_inflight (sy_rt s) k = None" for k
  proof (rule ccontr)
    assume "rt_inflight (sy_rt s) k \<noteq> None"
    then obtain w wk where "worker_of s w = Some wk" "live wk" using assms(2) by (auto simp: table_ok_def)
    then show False using assms(4) by (auto simp: worker_of_def live_def list_all_length split: if_splits)
  qed
  ultimately show ?thesis using assms(1) by (auto simp: slots_ok_def)
qed

text \<open>
  C10. Human prompts are bounded and never duplicated: however calls, workers and the shutdown
  interleave, at most the configured number of workers (4 where it is not positive) run their
  function at the same time, no two of them for the same key, the table never holds more entries
  than that; and once no call owns a slot and every worker has ended, every slot is free
  and the table is empty again, so no slot leaks.
\<close>

theorem approval_workers_bounded:
  assumes "runtime_run n ls s"
  shows "int (countP (\<lambda>w. if_phase w = W_RUNNING) (sy_workers s)) \<le> normalizeMaxInflight n \<and>
    distinct (map if_Key (filter (\<lambda>w. if_phase w = W_RUNNING) (sy_workers s))) \<and>
    InflightCount (Some (sy_rt s)) \<le> normalizeMaxInflight n \<and>
    (list_all (\<lambda>c. \<not> owns_slot c) (sy_calls s) \<and> list_all (\<lambda>w. if_phase w = W_EXITED) (sy_workers s)
       \<longrightarrow> rt_sem (sy_rt s) = 0 \<and> rt_inflight (sy_rt s) = Map.empty)"
proof -
  have inv: "slots_ok s" "table_ok s"
    using runtime.inv_run [OF assms] by (simp_all add: runtime_inv_def)
  have cap: "int (countP occupies (sy_workers s)) \<le> normalizeMaxInflight n"
    using inv(1) capacity_run [OF assms] by (simp add: slots_ok_def)
  have le: "countP (\<lambda>w. if_phase w = W_RUNNING) (sy_workers s) \<le> countP occupies (sy_workers s)"
    "countP live (sy_workers s) \<le> countP occupies (sy_workers s)"
    by (rule countP_mono; auto simp: occupies_def live_def)+
  have eq: "filter (\<lambda>w. if_phase w = W_RUNNING) (sy_workers s) =
      filter (\<lambda>w. if_phase w = W_RUNNING) (filter live (sy_workers s))"
    by (simp add: live_def conj_commute cong: conj_cong)
  have "distinct (map if_Key (filter (\<lambda>w. if_phase w = W_RUNNING) (sy_workers s)))"
    unfolding eq by (rule distinct_map_filter [OF live_keys_distinct [OF inv(2)]])
  then show ?thesis
    using cap le card_dom_table [OF inv(2)] workers_quiet [OF inv] by (simp add: InflightCount_def)
qed

text \<open>
  A run in which the one slot is taken: a call enters, acquires, registers its worker and waits,
  and the human grants the request.
\<close>

definition example_worker :: "string \<Rightarrow> InflightApproval" where
  "example_worker k = \<lparr>if_Key = k, if_StartedAt = 5, if_phase = W_RUNNING,
     if_result = \<lparr>ar_ActionID = [], ar_Decision = APPROVAL_DECISION_OTHER [],
       ar_Scope = APPROVAL_SCOPE_OTHER [], ar_Reason = [], ar_ApprovedBy = [], ar_DurationMS = 0\<rparr>,
     if_err = None\<rparr>"

definition example_grant :: ApprovalResult where
  "example_grant = approval_result ''a'' APPROVAL_GRANTED APPROVAL_ONCE ''ok''"

definition busy_state :: "string \<Rightarrow> CallPhase \<Rightarrow> InflightApproval \<Rightarrow> System" where
  "busy_state k p w =
     \<lparr>sy_rt = \<lparr>rt_shuttingDown = False, rt_maxInflight = 1, rt_sem = 1,
        rt_inflight = Map.empty(k \<mapsto> 0)\<rparr>,
      sy_calls = [\<lparr>ca_key = k, ca_phase = p, ca_ctx = None\<rparr>], sy_workers = [w]\<rparr>"

definition busy_labels :: "Actor list" where
  "busy_labels = [ANew, ACall 0, ACall 0, ACall 0]"

definition granted_labels :: "Actor list" where
  "granted_labels = busy_labels @ [AFinish 0 (FnReturn example_grant None), ACall 0]"

lemma busy_run:
  assumes "k \<noteq> []"
  shows "runtime_run 1 busy_labels (busy_state k (C_WAIT 0 False) (example_worker k))"
proof -
  let ?rt = "NewApprovalRuntime 1"
  let ?c = "\<lambda>p rt. \<lparr>sy_rt = rt, sy_calls = [\<lparr>ca_key = k, ca_phase = p, ca_ctx = None\<rparr>], sy_workers = []\<rparr>"
  let ?held = "?rt\<lparr>rt_sem := 1\<rparr>"
  have "runtime_run 1 ([] @ [ANew]) (?c C_ENTER ?rt)"
    by (rule run_snoc [OF run_none])
       (use rt_step.call_Run [of "runtime_start 1" k False] assms in
        \<open>simp add: run_start_def runtime_start_def\<close>)
  then have "runtime_run 1 (([] @ [ANew]) @ [ACall 0]) (?c C_SELECT ?rt)"
    by (rule run_snoc)
       (use rt_step.call_enter [of "?c C_ENTER ?rt" 0] in
        \<open>simp add: phase_of_def set_phase_def run_enter_def NewApprovalRuntime_def\<close>)
  then have "runtime_run 1 ((([] @ [ANew]) @ [ACall 0]) @ [ACall 0]) (?c C_HOLDING ?held)"
    by (rule run_snoc)
       (use rt_step.select_acquire [of "?c C_SELECT ?rt" 0 ?held] in
        \<open>simp add: phase_of_def set_phase_def set_rt_def acquireSlot_def NewApprovalRuntime_def
           normalizeMaxInflight_def\<close>)
  then have "runtime_run 1 (((([] @ [ANew]) @ [ACall 0]) @ [ACall 0]) @ [ACall 0])
      (busy_state k (C_WAIT 0 False) (example_worker k))"
    by (rule run_snoc)
       (use rt_step.call_register [of "?c C_HOLDING ?held" 0 5] in
        \<open>simp add: phase_of_def set_phase_def set_rt_def run_register_def NewApprovalRuntime_def
           normalizeMaxInflight_def busy_state_def example_worker_def\<close>)
  then show ?thesis by (simp add: busy_labels_def)
qed

lemma granted_run:
  assumes "k \<noteq> []"
  shows "runtime_run 1 granted_labels (busy_state k (C_RETURNED (example_grant, None))
     (worker_finish (FnReturn example_grant None) (example_worker k)))"
proof -
  let ?w = "worker_finish (FnReturn example_grant None) (example_worker k)"
  have "runtime_run 1 (busy_labels @ [AFinish 0 (FnReturn example_grant None)])
      (busy_state k (C_WAIT 0 False) ?w)"
    by (rule run_snoc [OF busy_run [OF assms]])
       (use rt_step.worker_finishes [of "busy_state k (C_WAIT 0 False) (example_worker k)" 0 "example_worker k"] in
        \<open>simp add: busy_state_def worker_of_def set_worker_def example_worker_def\<close>)
  then have "runtime_run 1 ((busy_labels @ [AFinish 0 (FnReturn example_grant None)]) @ [ACall 0])
      (busy_state k (C_RETURNED (wait_done ?w False)) ?w)"
    by (rule run_snoc)
       (use rt_step.wait_result [of "busy_state k (C_WAIT 0 False) ?w" 0 0 False ?w] in
        \<open>simp add: busy_state_def worker_of_def set_phase_def phase_of_def\<close>)
  then show ?thesis by (simp add: granted_labels_def wait_done_def worker_finish_def example_worker_def)
qed

theorem approval_workers_bounded_witness:
  "InflightCount (Some (sy_rt (busy_state ''k'' (C_WAIT 0 False) (example_worker ''k'')))) = 1 \<and>
   countP (\<lambda>w. if_phase w = W_RUNNING) (sy_workers (busy_state ''k'' (C_WAIT 0 False) (example_worker ''k''))) = 1 \<and>
   InflightCount (Some (sy_rt (busy_state ''k'' (C_WAIT 0 False) (example_worker ''k'')))) \<le> normalizeMaxInflight 1"
  using approval_workers_bounded [OF busy_run [of "''k''"]]
  by (simp add: busy_state_def InflightCount_def example_worker_def)

lemma returned_grant:
  assumes "runtime_run n ls s" and "phase_of s i = Some (C_RETURNED (res, err))"
    and "ar_Decision res = APPROVAL_GRANTED"
  shows "\<exists>w wk r. worker_of s w = Some wk \<and> if_Key wk = key_of s i \<and>
    AFinish w (FnReturn r err) \<in> set ls \<and>
    (res = r \<or> ar_Reason r = [] \<and> res = r\<lparr>ar_Reason := REASON_APPROVAL_DUPLICATE_JOINED\<rparr>)"
proof -
  have "calls_ok s" using runtime.inv_run [OF assms(1)] by (simp add: runtime_inv_def)
  then have "call_ok s (sy_calls s ! i)" "ca_phase (sy_calls s ! i) = C_RETURNED (res, err)"
    using call_ok_at assms(2) by blast+
  then have "worker_answer s (key_of s i) (res, err)"
    using assms(3) by (simp add: call_ok_def own_answer_def)
  then obtain w wk joined where w: "worker_of s w = Some wk" "if_Key wk = key_of s i"
      "if_phase wk \<noteq> W_RUNNING" "(res, err) = wait_done wk joined"
    unfolding worker_answer_def by blast
  then have g: "ar_Decision (if_result wk) = APPROVAL_GRANTED"
    using assms(3) by (auto simp: wait_done_def split: if_splits)
  have "res = if_result wk \<or>
      ar_Reason (if_result wk) = [] \<and> res = (if_result wk)\<lparr>ar_Reason := REASON_APPROVAL_DUPLICATE_JOINED\<rparr>"
    "err = if_err wk"
    using w(4) by (auto simp: wait_done_def split: if_splits)
  then show ?thesis using w(1,2) g grant_from_function [OF assms(1) w(1,3) g] by blast
qed

text \<open>
  C12. Approvals come from the human: a granting result that a call of \<open>Run\<close> returns, joined or
  not, is the result with which the function of a worker for the same key returned, together with
  that function's error; a panic, a shutdown, an ended context or a full semaphore never grants.
\<close>

theorem runtime_grants_are_human:
  assumes "runtime_run n ls s" and "phase_of s i = Some (C_RETURNED (res, err))"
    and "ar_Decision res = APPROVAL_GRANTED"
  shows "\<exists>w wk r. worker_of s w = Some wk \<and> if_Key wk = key_of s i \<and>
    AFinish w (FnReturn r err) \<in> set ls \<and>
    (res = r \<or> ar_Reason r = [] \<and> res = r\<lparr>ar_Reason := REASON_APPROVAL_DUPLICATE_JOINED\<rparr>)"
  using assms by (rule returned_grant)

theorem runtime_grants_are_human_witness:
  "\<exists>w wk r. worker_of (busy_state ''k'' (C_RETURNED (example_grant, None))
       (worker_finish (FnReturn example_grant None) (example_worker ''k''))) w = Some wk \<and>
     AFinish w (FnReturn r None) \<in> set granted_labels"
proof -
  let ?s = "busy_state ''k'' (C_RETURNED (example_grant, None))
       (worker_finish (FnReturn example_grant None) (example_worker ''k''))"
  have "phase_of ?s 0 = Some (C_RETURNED (example_grant, None))" "ar_Decision example_grant = APPROVAL_GRANTED"
    by (simp_all add: phase_of_def busy_state_def example_grant_def)
  then show ?thesis using runtime_grants_are_human [OF granted_run] by blast
qed

text \<open>The number of its own steps after which a call has returned, once shutdown has begun.\<close>

fun call_rank :: "CallPhase \<Rightarrow> nat" where
  "call_rank C_ENTER = 1"
| "call_rank C_SELECT = 3"
| "call_rank C_HOLDING = 2"
| "call_rank (C_RELEASE_RETURN _) = 1"
| "call_rank (C_RELEASE_JOIN _) = 2"
| "call_rank (C_WAIT _ _) = 1"
| "call_rank (C_RETURNED _) = 0"

text \<open>
  C11. Shutdown is final and releases every caller: it is never undone and no worker is started
  after it; a call that has not returned always has a step to take, whether or not its context
  has ended, a slot is free or its worker has finished, and each step it takes brings it strictly
  closer to returning, so it returns after at most three steps of its own; steps of others do not
  move it. A call whose context is open and that waits for a slot while there is none, or for a
  worker that is still running, returns the shutdown answer, without waiting for a human.
\<close>

theorem shutdown_releases_callers:
  assumes "IsShutdown (Some (sy_rt s))" and "phase_of s i = Some p"
  shows "(0 < call_rank p \<longrightarrow> (\<exists>s'. rt_step (ACall i) s s')) \<and>
    (\<forall>s'. rt_step (ACall i) s s' \<longrightarrow> (\<exists>p'. phase_of s' i = Some p' \<and> call_rank p' < call_rank p)) \<and>
    (\<forall>a s'. rt_step a s s' \<longrightarrow> IsShutdown (Some (sy_rt s')) \<and>
       length (sy_workers s') = length (sy_workers s) \<and>
       (a \<noteq> ACall i \<longrightarrow> phase_of s' i = Some p)) \<and>
    (\<forall>s' w joined. ctx_err s i = None \<and> (p = C_SELECT \<and> acquireSlot (sy_rt s) = None \<or>
         p = C_WAIT w joined \<and> (\<exists>wk. worker_of s w = Some wk \<and> if_phase wk = W_RUNNING)) \<longrightarrow>
       rt_step (ACall i) s s' \<longrightarrow> phase_of s' i = Some (C_RETURNED (shutdown_result, None)))"
proof (intro conjI)
  have down: "rt_shuttingDown (sy_rt s)" using assms(1) by (simp add: IsShutdown_def)
  show "0 < call_rank p \<longrightarrow> (\<exists>s'. rt_step (ACall i) s s')"
  proof (cases p)
    case C_HOLDING
    obtain q rt ws where "run_register 0 (length (sy_workers s)) (key_of s i) (sy_rt s) = (q, rt, ws)"
      by (metis prod_cases3)
    then show ?thesis using rt_step.call_register [of s i] assms(2) C_HOLDING by blast
  qed (use assms(2) down in \<open>auto intro: rt_step.intros\<close>)
  show "\<forall>s'. rt_step (ACall i) s s' \<longrightarrow> (\<exists>p'. phase_of s' i = Some p' \<and> call_rank p' < call_rank p)"
  proof (intro allI impI)
    fix s' assume "rt_step (ACall i) s s'"
    then show "\<exists>p'. phase_of s' i = Some p' \<and> call_rank p' < call_rank p"
      using assms(2) down
      by (elim rt_call_cases)
         (auto simp: phase_of_set_phase run_enter_def run_register_def phase_of_set_phase [of "_\<lparr>sy_workers := _\<rparr>"])
  qed
  show "\<forall>a s'. rt_step a s s' \<longrightarrow> IsShutdown (Some (sy_rt s')) \<and>
       length (sy_workers s') = length (sy_workers s) \<and> (a \<noteq> ACall i \<longrightarrow> phase_of s' i = Some p)"
  proof (intro allI impI)
    fix a s' assume st: "rt_step a s s'"
    have "IsShutdown (Some (sy_rt s')) \<and> length (sy_workers s') = length (sy_workers s)"
      using st down
      by cases (auto simp: IsShutdown_def acquireSlot_Some run_register_def Runtime_Shutdown_Some set_worker_def)
    then show "IsShutdown (Some (sy_rt s')) \<and> length (sy_workers s') = length (sy_workers s) \<and>
        (a \<noteq> ACall i \<longrightarrow> phase_of s' i = Some p)"
      using phase_of_other [OF st] assms(2) by blast
  qed
  show "\<forall>s' w joined. ctx_err s i = None \<and> (p = C_SELECT \<and> acquireSlot (sy_rt s) = None \<or>
         p = C_WAIT w joined \<and> (\<exists>wk. worker_of s w = Some wk \<and> if_phase wk = W_RUNNING)) \<longrightarrow>
       rt_step (ACall i) s s' \<longrightarrow> phase_of s' i = Some (C_RETURNED (shutdown_result, None))"
  proof (intro allI impI)
    fix s' w joined
    assume "ctx_err s i = None \<and> (p = C_SELECT \<and> acquireSlot (sy_rt s) = None \<or>
         p = C_WAIT w joined \<and> (\<exists>wk. worker_of s w = Some wk \<and> if_phase wk = W_RUNNING))"
      and "rt_step (ACall i) s s'"
    then show "phase_of s' i = Some (C_RETURNED (shutdown_result, None))"
      using assms(2) by (elim rt_call_cases) (auto simp: phase_of_set_phase)
  qed
qed

theorem shutdown_releases_callers_witness:
  "\<exists>s'. rt_step (ACall 0) ((busy_state ''k'' (C_WAIT 0 False) (example_worker ''k''))
       \<lparr>sy_rt := (NewApprovalRuntime 1)\<lparr>rt_shuttingDown := True\<rparr>\<rparr>) s' \<and>
     phase_of s' 0 = Some (C_RETURNED (shutdown_result, None))"
proof -
  let ?s = "(busy_state ''k'' (C_WAIT 0 False) (example_worker ''k''))
     \<lparr>sy_rt := (NewApprovalRuntime 1)\<lparr>rt_shuttingDown := True\<rparr>\<rparr>"
  have "IsShutdown (Some (sy_rt ?s))" "phase_of ?s 0 = Some (C_WAIT 0 False)"
    by (simp_all add: busy_state_def IsShutdown_def phase_of_def)
  from shutdown_releases_callers [OF this] obtain s' where "rt_step (ACall 0) ?s s'" by auto
  moreover have "ctx_err ?s 0 = None" "worker_of ?s 0 = Some (example_worker ''k'')"
    "if_phase (example_worker ''k'') = W_RUNNING"
    by (simp_all add: busy_state_def ctx_err_def worker_of_def example_worker_def)
  ultimately show ?thesis
    using shutdown_releases_callers [of ?s 0 "C_WAIT 0 False"] \<open>IsShutdown (Some (sy_rt ?s))\<close>
      \<open>phase_of ?s 0 = Some (C_WAIT 0 False)\<close> by blast
qed

end
