(* ===== verification/Governor.thy ===== *)
theory Governor
  imports GovPolicy ApprovalCache Breaker ExecBudget ApprovalRuntime
begin

text \<open>
  The governor of \<open>pkg/governance/governor.go\<close>: loop detection, the read-only fast path, the
  local policy, the VCSE check behind its circuit breaker, and human approval. What a call
  takes from outside is an argument: the instants it reads, the outcome of the VCSE request, the
  result of the approval runtime, and the durations it reports. A nil component is \<open>None\<close>.
\<close>

record Governor =
  gv_Policy :: Policy
  gv_Budget :: ExecutionBudget
  gv_VCSE :: bool
  gv_Breakers :: "BreakerSet option"
  gv_Progress :: "ProgressTracker option"
  gv_ApprovalHandler :: bool
  gv_ApprovalCache :: "ApprovalCache option"
  gv_ApprovalTimeout :: duration

text \<open>An error of the VCSE client: whether it is a timeout, and its text.\<close>

datatype VcseOutcome = VcseOk | VcseErr bool string

record DecideEnv =
  de_Start :: instant
  de_BreakerNow :: instant
  de_FailNow :: instant
  de_FailNow2 :: instant
  de_Vcse :: VcseOutcome
  de_DurationMS :: int

definition vcseBreaker :: "BreakerSet option \<Rightarrow> CircuitBreaker option" where
  "vcseBreaker s = (case s of None \<Rightarrow> None | Some bs \<Rightarrow> bs_VCSE bs)"

definition set_vcseBreaker :: "CircuitBreaker \<Rightarrow> Governor \<Rightarrow> Governor" where
  "set_vcseBreaker b g =
     g\<lparr>gv_Breakers := map_option (\<lambda>bs. bs\<lparr>bs_VCSE := Some b\<rparr>) (gv_Breakers g)\<rparr>"

definition stateHashFromAction :: "GovernedAction \<Rightarrow> string" where
  "stateHashFromAction action =
     (if ga_Parameters action = None then []
      else (case as_string (map_get (ga_Parameters action) ''state_hash'') of
              Some s \<Rightarrow> TrimSpace s
            | None \<Rightarrow> []))"

definition isHardBlockReason :: "string \<Rightarrow> bool" where
  "isHardBlockReason reason =
     (if prefix ''REASON_DYNAMIC_'' reason \<and>
         reason \<noteq> REASON_DYNAMIC_CAPABILITY_REQUIRES_APPROVAL \<and>
         reason \<noteq> REASON_DYNAMIC_PROMOTION_REQUIRES_APPROVAL
      then True
      else reason = REASON_SELF_MODIFICATION_REQUIRES_MANIFEST)"

text \<open>The proposal sent to VCSE; the rendering of the creation time is the caller's.\<close>

definition BuildCandidateProposal :: "string \<Rightarrow> GovernedAction \<Rightarrow> gomap" where
  "BuildCandidateProposal created_at action =
     [(''proposal_version'', VStr ''1.0''), (''proposal_kind'', VStr ''CANDIDATE_PROPOSAL''),
      (''candidate_kind'', VStr ''FACTUAL_CLAIM_PACK''),
      (''claims'', VList [VMap
         [(''claim_status'', VStr ''PROPOSED''), (''claim_type'', VStr ''TOOL_ACTION''),
          (''claim'', VStr ''Candidate tool action proposed for governance review''),
          (''tool_name'', VStr (ga_ToolName action)),
          (''risk_class'', VStr (risk_string (ga_RiskClass action)))]]),
      (''metadata'', VMap
         [(''action_id'', VStr (ga_ID action)), (''tool_name'', VStr (ga_ToolName action)),
          (''risk_class'', VStr (risk_string (ga_RiskClass action))),
          (''actor'', VStr (ga_Actor action)), (''created_at'', VStr created_at)])]"

section \<open>Deciding\<close>

definition finish :: "DecideEnv \<Rightarrow> GovernanceDecision \<Rightarrow> GovernanceDecision" where
  "finish env d = d\<lparr>gd_DurationMS := de_DurationMS env\<rparr>"

definition stamp :: "DecideEnv \<Rightarrow> GovernedAction \<Rightarrow> GovernedAction" where
  "stamp env action =
     (if IsZero (ga_CreatedAt action) then action\<lparr>ga_CreatedAt := de_Start env\<rparr> else action)"

text \<open>Loop detection: the attempt is recorded, then counted.\<close>

definition check_loop :: "Codec \<Rightarrow> GovernedAction \<Rightarrow> Governor \<Rightarrow> bool \<times> Governor" where
  "check_loop H action g =
     (case gv_Progress g of
        None \<Rightarrow> (False, g)
      | Some p \<Rightarrow>
          (let stateHash = stateHashFromAction action;
               p = snd (RecordAttempt H (ga_ToolName action) (ga_Parameters action) stateHash p)
           in (IsLooping H (ga_ToolName action) (ga_Parameters action) stateHash
                 (eb_MaxRepeatedToolCalls (gv_Budget g)) p,
               g\<lparr>gv_Progress := Some p\<rparr>)))"

definition loop_decision :: "Policy \<Rightarrow> GovernedAction \<Rightarrow> GovernanceDecision" where
  "loop_decision p action =
     (decision_start p action)\<lparr>gd_Allowed := False, gd_FinalStatus := GOVERNANCE_BLOCKED,
        gd_ReasonCode := REASON_REPEATED_ACTION_NO_STATE_PROGRESS,
        gd_Issues := [REASON_REPEATED_ACTION_NO_STATE_PROGRESS]\<rparr>"

definition shouldFailClosed :: "Policy \<Rightarrow> GovernedAction \<Rightarrow> bool" where
  "shouldFailClosed p action \<longleftrightarrow>
     po_Mode p = GOVERNANCE_ENFORCE \<or> po_Mode p = GOVERNANCE_CORRECTNESS \<or>
     (po_Mode p = GOVERNANCE_FAST \<and> ga_RiskClass action \<noteq> RISK_READ_ONLY)"

definition fail_closed :: "GovernanceDecision \<Rightarrow> GovernanceDecision" where
  "fail_closed d =
     d\<lparr>gd_Allowed := False, gd_RequiresHuman := False, gd_FinalStatus := GOVERNANCE_BLOCKED\<rparr>"

definition vcse_breaker_denied :: "Policy \<Rightarrow> GovernedAction \<Rightarrow> GovernanceDecision \<Rightarrow> GovernanceDecision" where
  "vcse_breaker_denied p action d =
     (let d = add_issues [REASON_VCSE_UNAVAILABLE] d
      in if shouldFailClosed p action
         then (fail_closed d)\<lparr>gd_ReasonCode := REASON_VCSE_UNAVAILABLE\<rparr>
         else d\<lparr>gd_FinalStatus := GOVERNANCE_DEGRADED\<rparr>)"

definition vcse_failed ::
    "Policy \<Rightarrow> GovernedAction \<Rightarrow> bool \<Rightarrow> GovernanceDecision \<Rightarrow> GovernanceDecision" where
  "vcse_failed p action is_timeout d =
     (let reason = (if is_timeout then REASON_VCSE_TIMEOUT else REASON_VCSE_UNAVAILABLE);
          d = (add_issues [reason] d)\<lparr>gd_ReasonCode := reason\<rparr>
      in if shouldFailClosed p action then fail_closed d
         else if po_Mode p = GOVERNANCE_AUDIT
         then d\<lparr>gd_Allowed := True, gd_FinalStatus := GOVERNANCE_AUDIT_ONLY,
                gd_ReasonCode := REASON_AUDIT_MODE\<rparr>
         else d\<lparr>gd_Allowed := True, gd_FinalStatus := GOVERNANCE_DEGRADED\<rparr>)"

text \<open>The VCSE check: the breaker first, then the request and its bookkeeping.\<close>

definition check_vcse ::
    "DecideEnv \<Rightarrow> GovernedAction \<Rightarrow> GovernanceDecision \<Rightarrow> Governor \<Rightarrow> GovernanceDecision \<times> Governor" where
  "check_vcse env action d g =
     (let p = gv_Policy g;
          (admitted, g) =
            (case vcseBreaker (gv_Breakers g) of
               None \<Rightarrow> (True, g)
             | Some b \<Rightarrow> (let (ok, b') = Allow (de_BreakerNow env) b in (ok, set_vcseBreaker b' g)))
      in if \<not> admitted then (vcse_breaker_denied p action d, g)
         else
           (case de_Vcse env of
              VcseErr is_timeout txt \<Rightarrow>
                (vcse_failed p action is_timeout d,
                 case vcseBreaker (gv_Breakers g) of
                   None \<Rightarrow> g
                 | Some b \<Rightarrow> set_vcseBreaker (RecordFailure txt (de_FailNow env) (de_FailNow2 env) b) g)
            | VcseOk \<Rightarrow>
                (if gd_Allowed d \<and> gd_ApprovedAction d = None
                 then d\<lparr>gd_ApprovedAction := Some action\<rparr> else d,
                 case vcseBreaker (gv_Breakers g) of
                   None \<Rightarrow> g
                 | Some b \<Rightarrow> set_vcseBreaker (RecordSuccess b) g)))"

definition Decide ::
    "SelfmodEnv \<Rightarrow> DecideEnv \<Rightarrow> GovernedAction \<Rightarrow> Governor \<Rightarrow> GovernanceDecision \<times> Governor" where
  "Decide E env action0 g =
     (let action = stamp env action0; p = gv_Policy g
      in if po_Mode p = GOVERNANCE_OFF
         then (finish env (decision_approve action (decision_start p action)), g)
         else
           (let (looping, g) = check_loop (se_Codec E) action g
            in if looping \<and> po_Mode p \<noteq> GOVERNANCE_AUDIT
               then (finish env (loop_decision p action), g)
               else if ga_RiskClass action = RISK_READ_ONLY \<and> po_AllowReadOnlyFastPath p
               then (finish env (decision_approve action
                       ((decision_start p action)\<lparr>gd_ReasonCode := REASON_FAST_PATH_READ_ONLY\<rparr>)), g)
               else
                 (let d = Policy_Evaluate E p action
                  in if \<not> gd_Allowed d \<and> po_Mode p \<noteq> GOVERNANCE_AUDIT \<and> \<not> gd_RequiresHuman d
                     then (finish env d, g)
                     else if \<not> gv_VCSE g then (finish env d, g)
                     else (let (d, g) = check_vcse env action d g in (finish env d, g)))))"

section \<open>Human approval\<close>

text \<open>
  What \<open>ApprovalRuntime.Run\<close> returns: a result, or an error with whether it is a cancellation
  or an expired deadline and its text.
\<close>

datatype RunOutcome = RunRes ApprovalResult | RunErr bool bool string

record ApprovalEnv =
  ae_Run :: RunOutcome
  ae_CtxCanceled :: bool
  ae_ApprovalCtxExpired :: bool
  ae_DurationMS :: int

definition approvalTimeout :: "Governor \<Rightarrow> duration" where
  "approvalTimeout g =
     (if gv_ApprovalTimeout g \<le> 0 then 30 * Second else gv_ApprovalTimeout g)"

text \<open>The request that the handler receives.\<close>

definition approval_request :: "Governor \<Rightarrow> instant \<Rightarrow> GovernedAction \<Rightarrow> GovernanceDecision \<Rightarrow> ApprovalRequest" where
  "approval_request g now action decision =
     \<lparr>aq_ActionID = ga_ID action, aq_ToolName = ga_ToolName action,
      aq_Capability = ga_Capability action, aq_RiskClass = ga_RiskClass action,
      aq_ReasonCode = gd_ReasonCode decision,
      aq_Summary = ''Governance approval required for '' @ ga_ToolName action @ '' ('' @
        risk_string (ga_RiskClass action) @ '')'',
      aq_Parameters = ga_Parameters action,
      aq_RedactedParams = RedactParams (ga_Parameters action),
      aq_ExpectedEffects = ga_ExpectedEffects action, aq_Rollback = ga_Rollback action,
      aq_CreatedAt = now, aq_Timeout = approvalTimeout g\<rparr>"

text \<open>An answer of the approval runtime, as the governor inspects it.\<close>

definition runtime_outcome :: "answer \<Rightarrow> RunOutcome" where
  "runtime_outcome a =
     (case a of (res, None) \<Rightarrow> RunRes res
      | (res, Some e) \<Rightarrow> RunErr (err_Canceled e) (err_Deadline e) (err_Text e))"

definition run_outcome :: "ApprovalEnv \<Rightarrow> GovernedAction \<Rightarrow> ApprovalResult" where
  "run_outcome env action =
     (case ae_Run env of
        RunRes res \<Rightarrow> res
      | RunErr canceled expired txt \<Rightarrow>
          if canceled \<or> ae_CtxCanceled env
          then approval_result (ga_ID action) APPROVAL_CANCELLED APPROVAL_ONCE txt
          else if expired \<or> ae_ApprovalCtxExpired env
          then approval_result (ga_ID action) APPROVAL_TIMEOUT APPROVAL_ONCE txt
          else approval_result (ga_ID action) APPROVAL_UNAVAILABLE APPROVAL_ONCE txt)"

definition RequestHumanApproval ::
    "Codec \<Rightarrow> ApprovalEnv \<Rightarrow> GovernedAction \<Rightarrow> Governor \<Rightarrow> ApprovalResult \<times> Governor" where
  "RequestHumanApproval H env action g =
     (case (case gv_ApprovalCache g of None \<Rightarrow> None | Some c \<Rightarrow> Cache_Get H action c) of
        Some cached \<Rightarrow> (cached, g)
      | None \<Rightarrow>
          if \<not> gv_ApprovalHandler g
          then (approval_result (ga_ID action) APPROVAL_UNAVAILABLE APPROVAL_ONCE
                  ''approval handler unavailable'', g)
          else
            (let res = (run_outcome env action)\<lparr>ar_DurationMS := ae_DurationMS env\<rparr>;
                 res = (if ar_ActionID res = [] then res\<lparr>ar_ActionID := ga_ID action\<rparr> else res);
                 res = (if ar_Scope res = APPROVAL_SCOPE_OTHER [] then res\<lparr>ar_Scope := APPROVAL_ONCE\<rparr> else res)
             in (res, g\<lparr>gv_ApprovalCache := map_option (Cache_Put H action res) (gv_ApprovalCache g)\<rparr>)))"

definition human_blocked :: "string \<Rightarrow> GovernanceDecision \<Rightarrow> GovernanceDecision" where
  "human_blocked reason d = (fail_closed d)\<lparr>gd_ReasonCode := reason\<rparr>"

definition apply_approval ::
    "GovernedAction \<Rightarrow> ApprovalResult \<Rightarrow> GovernanceDecision \<Rightarrow> GovernanceDecision" where
  "apply_approval action approval d0 =
     (let d = add_issues [''approval_decision='' @ approval_decision_string (ar_Decision approval)] d0
      in case ar_Decision approval of
           APPROVAL_GRANTED \<Rightarrow>
             if ApprovalGranted approval
             then d\<lparr>gd_Allowed := True, gd_RequiresHuman := False, gd_FinalStatus := GOVERNANCE_ALLOWED,
                    gd_ReasonCode := REASON_HUMAN_APPROVAL_GRANTED, gd_ApprovedAction := Some action\<rparr>
             else human_blocked REASON_HUMAN_APPROVAL_DENIED d
         | APPROVAL_DENIED \<Rightarrow> human_blocked REASON_HUMAN_APPROVAL_DENIED d
         | APPROVAL_TIMEOUT \<Rightarrow> human_blocked REASON_HUMAN_APPROVAL_TIMEOUT d
         | APPROVAL_CANCELLED \<Rightarrow> human_blocked REASON_HUMAN_APPROVAL_CANCELLED d
         | APPROVAL_UNAVAILABLE \<Rightarrow> human_blocked REASON_HUMAN_APPROVAL_UNAVAILABLE d
         | _ \<Rightarrow> human_blocked REASON_HUMAN_APPROVAL_UNAVAILABLE d)"

definition DecideAndApprove ::
    "SelfmodEnv \<Rightarrow> DecideEnv \<Rightarrow> ApprovalEnv \<Rightarrow> GovernedAction \<Rightarrow> Governor \<Rightarrow>
     GovernanceDecision \<times> Governor" where
  "DecideAndApprove E env aenv action g =
     (let (d, g) = Decide E env action g
      in if gd_Mode d = GOVERNANCE_OFF then (d, g)
         else if isHardBlockReason (gd_ReasonCode d) then (fail_closed d, g)
         else if \<not> gd_RequiresHuman d then (d, g)
         else if gd_Mode d = GOVERNANCE_AUDIT
         then (d\<lparr>gd_Allowed := True, gd_RequiresHuman := False,
                gd_FinalStatus := GOVERNANCE_AUDIT_ONLY, gd_ReasonCode := REASON_AUDIT_MODE,
                gd_ApprovedAction := (if gd_ApprovedAction d = None then Some action
                                      else gd_ApprovedAction d)\<rparr>, g)
         else
           (let (approval, g) = RequestHumanApproval (se_Codec E) aenv action g
            in (apply_approval action approval d, g)))"

section \<open>The governor's approval runtime\<close>

text \<open>
  \<open>ensureApprovalRuntime\<close> and \<open>Shutdown\<close> on the governor's field \<open>ApprovalRuntime\<close>;
  \<open>maxInflight\<close> is its field \<open>MaxInflightApprovals\<close>.
\<close>

definition ensureApprovalRuntime :: "int \<Rightarrow> ApprovalRuntime option \<Rightarrow> ApprovalRuntime" where
  "ensureApprovalRuntime maxInflight r =
     (case r of Some rt \<Rightarrow> rt | None \<Rightarrow> NewApprovalRuntime maxInflight)"

definition Governor_Shutdown :: "ApprovalRuntime option \<Rightarrow> ApprovalRuntime option" where
  "Governor_Shutdown r = (case r of None \<Rightarrow> None | Some rt \<Rightarrow> Runtime_Shutdown (Some rt))"

section \<open>Lemmas on deciding\<close>

lemma finish_sel [simp]:
  "gd_Allowed (finish env d) = gd_Allowed d" "gd_RequiresHuman (finish env d) = gd_RequiresHuman d"
  "gd_ReasonCode (finish env d) = gd_ReasonCode d" "gd_FinalStatus (finish env d) = gd_FinalStatus d"
  "gd_Mode (finish env d) = gd_Mode d"
  by (simp_all add: finish_def)

lemma fail_closed_sel [simp]:
  "\<not> gd_Allowed (fail_closed d)" "\<not> gd_RequiresHuman (fail_closed d)" "gd_Mode (fail_closed d) = gd_Mode d"
  by (simp_all add: fail_closed_def)

lemma decision_mode [simp]:
  "gd_Mode (decision_start p action) = po_Mode p" "gd_Mode (decision_approve action d) = gd_Mode d"
  "gd_Mode (add_issues is d) = gd_Mode d"
  by (simp_all add: decision_defs)

lemma decision_human [simp]:
  "\<not> gd_RequiresHuman (decision_start p action)"
  "gd_RequiresHuman (decision_approve action d) = gd_RequiresHuman d"
  "gd_RequiresHuman (add_issues is d) = gd_RequiresHuman d"
  by (simp_all add: decision_defs)

lemma stamp_risk [simp]: "ga_RiskClass (stamp env action) = ga_RiskClass action"
  by (simp add: stamp_def)

lemma Policy_Evaluate_mode [simp]: "gd_Mode (Policy_Evaluate E p action) = po_Mode p"
  using Policy_Evaluate_wf [of p action E] by (simp add: decision_wf_def)

lemma Policy_Evaluate_read_only:
  "ga_RiskClass action = RISK_READ_ONLY \<Longrightarrow>
   gd_Allowed (Policy_Evaluate E p action) \<and> \<not> gd_RequiresHuman (Policy_Evaluate E p action)"
  by (simp add: Policy_Evaluate_def Let_def)

lemma check_vcse_mode: "gd_Mode (fst (check_vcse env action d g)) = gd_Mode d"
  by (auto simp: check_vcse_def Let_def vcse_breaker_denied_def vcse_failed_def split: option.splits
      VcseOutcome.splits prod.splits)

text \<open>Where the governor fails closed, VCSE can only confirm the decision of the policy.\<close>

lemma check_vcse_closed:
  assumes "shouldFailClosed (gv_Policy g) action"
  shows "gd_Allowed (fst (check_vcse env action d g)) \<or> gd_RequiresHuman (fst (check_vcse env action d g))
    \<Longrightarrow> de_Vcse env = VcseOk"
    and "gd_Allowed (fst (check_vcse env action d g)) \<Longrightarrow> gd_Allowed d"
    and "gd_RequiresHuman (fst (check_vcse env action d g)) \<Longrightarrow> gd_RequiresHuman d"
  using assms
  by (auto simp: check_vcse_def Let_def vcse_breaker_denied_def vcse_failed_def split: option.splits
      VcseOutcome.splits prod.splits if_splits)

lemma check_vcse_human:
  "gd_RequiresHuman (fst (check_vcse env action d g)) \<Longrightarrow> gd_RequiresHuman d"
  by (auto simp: check_vcse_def Let_def vcse_breaker_denied_def vcse_failed_def split: option.splits
      VcseOutcome.splits prod.splits if_splits)

definition vcse_confirms :: "DecideEnv \<Rightarrow> GovernedAction \<Rightarrow> Governor \<Rightarrow> bool" where
  "vcse_confirms env action g \<longleftrightarrow>
     \<not> gv_VCSE g \<or> \<not> shouldFailClosed (gv_Policy g) action \<or> de_Vcse env = VcseOk"

definition enforcing :: "Mode \<Rightarrow> bool" where
  "enforcing m \<longleftrightarrow> m \<in> {GOVERNANCE_FAST, GOVERNANCE_ENFORCE, GOVERNANCE_CORRECTNESS}"

lemma check_loop_state [simp]:
  "gv_Policy (snd (check_loop H action g)) = gv_Policy g"
  "gv_VCSE (snd (check_loop H action g)) = gv_VCSE g"
  "gv_ApprovalCache (snd (check_loop H action g)) = gv_ApprovalCache g"
  "gv_ApprovalHandler (snd (check_loop H action g)) = gv_ApprovalHandler g"
  "gv_Budget (snd (check_loop H action g)) = gv_Budget g"
  by (auto simp: check_loop_def Let_def split: option.splits)

lemma check_vcse_state [simp]:
  "gv_Policy (snd (check_vcse env action d g)) = gv_Policy g"
  "gv_ApprovalCache (snd (check_vcse env action d g)) = gv_ApprovalCache g"
  "gv_ApprovalHandler (snd (check_vcse env action d g)) = gv_ApprovalHandler g"
  "gv_Progress (snd (check_vcse env action d g)) = gv_Progress g"
  "gv_Budget (snd (check_vcse env action d g)) = gv_Budget g"
  by (auto simp: check_vcse_def Let_def set_vcseBreaker_def split: option.splits VcseOutcome.splits
      prod.splits)

lemma Decide_mode: "gd_Mode (fst (Decide E env action g)) = po_Mode (gv_Policy g)"
  by (auto simp: Decide_def Let_def loop_decision_def check_vcse_mode split: prod.splits
      intro: trans [OF check_vcse_mode] dest!: arg_cong [where f = "\<lambda>x. gd_Mode (fst x)"])

lemma Decide_state:
  "gv_Policy (snd (Decide E env action g)) = gv_Policy g"
  "gv_ApprovalCache (snd (Decide E env action g)) = gv_ApprovalCache g"
  "gv_ApprovalHandler (snd (Decide E env action g)) = gv_ApprovalHandler g"
  using check_loop_state [of "se_Codec E" "stamp env action" g]
    check_vcse_state [of env "stamp env action" _ "snd (check_loop (se_Codec E) (stamp env action) g)"]
  by (simp_all add: Decide_def Let_def case_prod_beta)

text \<open>The decision of an enforcing governor, by what it rests on.\<close>

lemma Decide_closed:
  assumes "enforcing (po_Mode (gv_Policy g))"
  shows "gd_Allowed (fst (Decide E env action g)) \<Longrightarrow>
      \<not> fst (check_loop (se_Codec E) (stamp env action) g) \<and>
      ((ga_RiskClass action = RISK_READ_ONLY \<and> po_AllowReadOnlyFastPath (gv_Policy g)) \<or>
       (gd_Allowed (Policy_Evaluate E (gv_Policy g) (stamp env action)) \<and> vcse_confirms env action g))"
    and "gd_RequiresHuman (fst (Decide E env action g)) \<Longrightarrow>
      \<not> fst (check_loop (se_Codec E) (stamp env action) g) \<and>
      gd_RequiresHuman (Policy_Evaluate E (gv_Policy g) (stamp env action)) \<and> vcse_confirms env action g"
proof -
  let ?a = "stamp env action" and ?p = "gv_Policy g"
  obtain lp g1 where lp: "check_loop (se_Codec E) ?a g = (lp, g1)" by fastforce
  have g1: "gv_Policy g1 = ?p" "gv_VCSE g1 = gv_VCSE g"
    using check_loop_state [of "se_Codec E" ?a g] lp by simp_all
  let ?d = "Policy_Evaluate E ?p ?a"
  have m: "po_Mode ?p \<noteq> GOVERNANCE_OFF" "po_Mode ?p \<noteq> GOVERNANCE_AUDIT"
    using assms by (auto simp: enforcing_def)
  have sfc: "shouldFailClosed ?p action \<or> ga_RiskClass action = RISK_READ_ONLY"
    using assms by (auto simp: shouldFailClosed_def enforcing_def)
  have sfc_a: "shouldFailClosed ?p ?a = shouldFailClosed ?p action" by (simp add: shouldFailClosed_def)
  have D: "fst (Decide E env action g) =
     (if lp then finish env (loop_decision ?p ?a)
      else if ga_RiskClass action = RISK_READ_ONLY \<and> po_AllowReadOnlyFastPath ?p
      then finish env (decision_approve ?a ((decision_start ?p ?a)\<lparr>gd_ReasonCode := REASON_FAST_PATH_READ_ONLY\<rparr>))
      else if \<not> gd_Allowed ?d \<and> \<not> gd_RequiresHuman ?d then finish env ?d
      else if \<not> gv_VCSE g then finish env ?d
      else finish env (fst (check_vcse env ?a ?d g1)))"
    using m g1 by (simp add: Decide_def Let_def lp case_prod_beta)
  have vcse: "gd_Allowed (fst (check_vcse env ?a ?d g1)) \<Longrightarrow> gd_Allowed ?d \<and> vcse_confirms env action g"
    "gd_RequiresHuman (fst (check_vcse env ?a ?d g1)) \<Longrightarrow> gd_RequiresHuman ?d \<and> vcse_confirms env action g"
  proof -
    show "gd_Allowed ?d \<and> vcse_confirms env action g"
      if "gd_Allowed (fst (check_vcse env ?a ?d g1))"
    proof (cases "shouldFailClosed ?p action")
      case True
      then show ?thesis using that check_vcse_closed [of g1 ?a env ?d] sfc_a g1
        by (auto simp: vcse_confirms_def)
    next
      case False
      with sfc Policy_Evaluate_read_only [of ?a E ?p] show ?thesis by (simp add: vcse_confirms_def)
    qed
    show "gd_RequiresHuman ?d \<and> vcse_confirms env action g"
      if "gd_RequiresHuman (fst (check_vcse env ?a ?d g1))"
    proof (cases "shouldFailClosed ?p action")
      case True
      then show ?thesis using that check_vcse_closed [of g1 ?a env ?d] sfc_a g1
        by (auto simp: vcse_confirms_def)
    next
      case False
      with check_vcse_human [OF that] show ?thesis by (simp add: vcse_confirms_def)
    qed
  qed
  have loop: "\<not> gd_Allowed (loop_decision ?p ?a)" "\<not> gd_RequiresHuman (loop_decision ?p ?a)"
    by (simp_all add: loop_decision_def decision_defs)
  show "\<not> fst (check_loop (se_Codec E) ?a g) \<and>
      ((ga_RiskClass action = RISK_READ_ONLY \<and> po_AllowReadOnlyFastPath ?p) \<or>
       (gd_Allowed ?d \<and> vcse_confirms env action g))"
    if "gd_Allowed (fst (Decide E env action g))"
    using that loop vcse(1) unfolding D lp by (auto simp: vcse_confirms_def split: if_splits)
  have fast: "\<not> gd_RequiresHuman (decision_approve ?a ((decision_start ?p ?a)\<lparr>gd_ReasonCode := r\<rparr>))" for r
    by (simp add: decision_defs)
  show "\<not> fst (check_loop (se_Codec E) ?a g) \<and> gd_RequiresHuman ?d \<and> vcse_confirms env action g"
    if "gd_RequiresHuman (fst (Decide E env action g))"
    using that loop fast vcse(2) unfolding D lp by (auto simp: vcse_confirms_def split: if_splits)
qed

lemma apply_approval_allowed:
  "gd_Allowed (apply_approval action r d) \<longleftrightarrow> ApprovalGranted r"
  "\<not> ApprovalGranted r \<Longrightarrow> gd_FinalStatus (apply_approval action r d) = GOVERNANCE_BLOCKED"
  by (auto simp: apply_approval_def human_blocked_def Let_def fail_closed_def ApprovalGranted_def
      split: ApprovalDecision.splits)

lemma RequestHumanApproval_cong:
  assumes "gv_ApprovalCache g' = gv_ApprovalCache g" and "gv_ApprovalHandler g' = gv_ApprovalHandler g"
  shows "fst (RequestHumanApproval H env action g') = fst (RequestHumanApproval H env action g)"
  using assms by (simp add: RequestHumanApproval_def Let_def split: option.split)

text \<open>
  A grant comes from the cache or from the human: the runtime's result, with its scope defaulted.
\<close>

lemma RequestHumanApproval_grant:
  assumes "ApprovalGranted (fst (RequestHumanApproval H env action g))"
  shows "(\<exists>c. gv_ApprovalCache g = Some c \<and>
      Cache_Get H action c = Some (fst (RequestHumanApproval H env action g))) \<or>
    (gv_ApprovalHandler g \<and> (\<exists>r. ae_Run env = RunRes r \<and> ar_Decision r = APPROVAL_GRANTED))"
proof (cases "case gv_ApprovalCache g of None \<Rightarrow> None | Some c \<Rightarrow> Cache_Get H action c")
  case None
  with assms have "gv_ApprovalHandler g \<and> ar_Decision (run_outcome env action) = APPROVAL_GRANTED"
    by (auto simp: RequestHumanApproval_def Let_def dest: ApprovalGranted_decision split: if_splits)
  then show ?thesis by (auto simp: run_outcome_def split: RunOutcome.splits if_splits)
next
  case (Some r)
  then show ?thesis by (auto simp: RequestHumanApproval_def split: option.splits)
qed

text \<open>What an allowed decision of an enforcing governor rests on.\<close>

lemma DecideAndApprove_allowed:
  assumes "enforcing (po_Mode (gv_Policy g))"
    and "gd_Allowed (fst (DecideAndApprove E env aenv action g))"
  shows "\<not> fst (check_loop (se_Codec E) (stamp env action) g) \<and>
    ((ga_RiskClass action = RISK_READ_ONLY \<and> po_AllowReadOnlyFastPath (gv_Policy g)) \<or>
     (gd_Allowed (Policy_Evaluate E (gv_Policy g) (stamp env action)) \<and> vcse_confirms env action g) \<or>
     (gd_RequiresHuman (Policy_Evaluate E (gv_Policy g) (stamp env action)) \<and>
      vcse_confirms env action g \<and>
      ApprovalGranted (fst (RequestHumanApproval (se_Codec E) aenv action g))))"
proof -
  obtain d g1 where D: "Decide E env action g = (d, g1)" by fastforce
  have mode: "gd_Mode d = po_Mode (gv_Policy g)" using Decide_mode [of E env action g] D by simp
  have m: "gd_Mode d \<noteq> GOVERNANCE_OFF" "gd_Mode d \<noteq> GOVERNANCE_AUDIT"
    using assms(1) mode by (auto simp: enforcing_def)
  note closed = Decide_closed [OF assms(1), of E env action, unfolded D fst_conv]
  have same: "fst (RequestHumanApproval (se_Codec E) aenv action g1) =
      fst (RequestHumanApproval (se_Codec E) aenv action g)"
    using Decide_state [of E env action g] D by (intro RequestHumanApproval_cong) simp_all
  show ?thesis
  proof (cases "gd_RequiresHuman d")
    case True
    with assms(2) m have "ApprovalGranted (fst (RequestHumanApproval (se_Codec E) aenv action g1))"
      by (auto simp: DecideAndApprove_def D Let_def apply_approval_allowed case_prod_beta split: if_splits)
    with closed(2) [OF True] same show ?thesis by simp
  next
    case False
    with assms(2) m have "gd_Allowed d" by (auto simp: DecideAndApprove_def D Let_def split: if_splits)
    from closed(1) [OF this] show ?thesis by blast
  qed
qed

section \<open>Properties\<close>

text \<open>
  C1. No allowed action without a ground. In every enforcing mode, an action that
  \<open>DecideAndApprove\<close> allows was no loop, and either took the read-only fast path, or was allowed
  by the local policy, or was one for which the policy asks a human and the human's answer (or a
  cached one) grants it; and in the last two cases a configured VCSE confirmed it wherever the
  governor fails closed: an open breaker, a timeout or an error can only block.
\<close>

theorem allowed_has_ground:
  assumes "enforcing (po_Mode (gv_Policy g))"
    and "gd_Allowed (fst (DecideAndApprove E env aenv action g))"
  shows "\<not> fst (check_loop (se_Codec E) (stamp env action) g) \<and>
    ((ga_RiskClass action = RISK_READ_ONLY \<and> po_AllowReadOnlyFastPath (gv_Policy g)) \<or>
     (gd_Allowed (Policy_Evaluate E (gv_Policy g) (stamp env action)) \<and> vcse_confirms env action g) \<or>
     (gd_RequiresHuman (Policy_Evaluate E (gv_Policy g) (stamp env action)) \<and>
      vcse_confirms env action g \<and>
      ApprovalGranted (fst (RequestHumanApproval (se_Codec E) aenv action g))))"
  using assms by (rule DecideAndApprove_allowed)

definition governor_example :: Governor where
  "governor_example =
     \<lparr>gv_Policy = DefaultPolicy\<lparr>po_Mode := GOVERNANCE_ENFORCE\<rparr>, gv_Budget = DefaultBudget,
      gv_VCSE = True, gv_Breakers = Some NewDefaultBreakerSet, gv_Progress = None,
      gv_ApprovalHandler = True, gv_ApprovalCache = None, gv_ApprovalTimeout = 0\<rparr>"

definition env_example :: DecideEnv where
  "env_example = \<lparr>de_Start = 1, de_BreakerNow = 1, de_FailNow = 2, de_FailNow2 = 2, de_Vcse = VcseOk,
     de_DurationMS = 0\<rparr>"

definition approval_env_example :: ApprovalEnv where
  "approval_env_example = \<lparr>ae_Run = RunRes (approval_result [] APPROVAL_GRANTED APPROVAL_ONCE []),
     ae_CtxCanceled = False, ae_ApprovalCtxExpired = False, ae_DurationMS = 5\<rparr>"

lemma allowed_has_ground_witness:
  "ApprovalGranted (fst (RequestHumanApproval (se_Codec sample_env) approval_env_example cached_action governor_example))"
proof -
  have "enforcing (po_Mode (gv_Policy governor_example))"
    by (simp add: governor_example_def enforcing_def)
  moreover have "\<not> gd_Allowed (Policy_Evaluate sample_env (gv_Policy governor_example) (stamp env_example cached_action))"
    by (simp add: Policy_Evaluate_def Let_def governor_example_def DefaultPolicy_def cached_action_def
        require_human_def stamp_def IsZero_def)
  moreover have "gd_Allowed (fst (DecideAndApprove sample_env env_example approval_env_example cached_action governor_example))"
    by (simp add: DecideAndApprove_def Decide_def Let_def governor_example_def DefaultPolicy_def
        cached_action_def check_loop_def stamp_def IsZero_def Policy_Evaluate_def require_human_def
        check_vcse_def env_example_def vcseBreaker_def NewDefaultBreakerSet_def NewCircuitBreaker_def
        Allow_def set_vcseBreaker_def decision_defs finish_def isHardBlockReason_def code_const
        RequestHumanApproval_def approval_env_example_def run_outcome_def apply_approval_def
        approval_result_def ApprovalGranted_def)
  ultimately show ?thesis
    using allowed_has_ground [of governor_example sample_env env_example approval_env_example cached_action]
    by (simp add: cached_action_def)
qed

lemma evaluate_audit_reason:
  assumes "po_Mode p = GOVERNANCE_AUDIT"
  shows "gd_Allowed (Policy_Evaluate E p action) \<and>
    gd_ReasonCode (Policy_Evaluate E p action) \<in>
      {REASON_POLICY_ALLOWED, REASON_FAST_PATH_READ_ONLY, REASON_AUDIT_MODE}"
  using assms
  by (cases "ga_RiskClass action")
     (simp_all add: Policy_Evaluate_def Let_def require_human_def evaluate_selfmod_def
       evaluate_mutation_def decision_defs)

lemma soft_reasons_not_hard:
  "r \<in> {REASON_POLICY_ALLOWED, REASON_FAST_PATH_READ_ONLY, REASON_AUDIT_MODE} \<Longrightarrow> \<not> isHardBlockReason r"
proof -
  have "\<not> isHardBlockReason REASON_POLICY_ALLOWED" "\<not> isHardBlockReason REASON_FAST_PATH_READ_ONLY"
    "\<not> isHardBlockReason REASON_AUDIT_MODE"
    by (simp_all add: isHardBlockReason_def code_const)
  then show "r \<in> {REASON_POLICY_ALLOWED, REASON_FAST_PATH_READ_ONLY, REASON_AUDIT_MODE} \<Longrightarrow>
      \<not> isHardBlockReason r"
    by blast
qed

lemma check_vcse_cases:
  obtains (denied) "fst (check_vcse env action d g) = vcse_breaker_denied (gv_Policy g) action d"
  | (failed) t where "fst (check_vcse env action d g) = vcse_failed (gv_Policy g) action t d"
  | (confirmed) "fst (check_vcse env action d g) =
      (if gd_Allowed d \<and> gd_ApprovedAction d = None then d\<lparr>gd_ApprovedAction := Some action\<rparr> else d)"
proof -
  let ?answer = "case de_Vcse env of
      VcseErr t txt \<Rightarrow> vcse_failed (gv_Policy g) action t d
    | VcseOk \<Rightarrow> if gd_Allowed d \<and> gd_ApprovedAction d = None
        then d\<lparr>gd_ApprovedAction := Some action\<rparr> else d"
  have "fst (check_vcse env action d g) = vcse_breaker_denied (gv_Policy g) action d \<or>
      fst (check_vcse env action d g) = ?answer"
    by (simp add: check_vcse_def Let_def case_prod_beta set_vcseBreaker_def split: option.split VcseOutcome.split)
  then show thesis using denied failed confirmed by (cases "de_Vcse env") auto
qed

lemma check_vcse_audit:
  assumes "po_Mode (gv_Policy g) = GOVERNANCE_AUDIT" and "gd_Allowed d"
    and "\<not> isHardBlockReason (gd_ReasonCode d)"
  shows "gd_Allowed (fst (check_vcse env action d g)) \<and>
    \<not> isHardBlockReason (gd_ReasonCode (fst (check_vcse env action d g)))"
proof (cases rule: check_vcse_cases [of env action d g])
  case denied
  with assms show ?thesis by (simp add: vcse_breaker_denied_def shouldFailClosed_def add_issues_def Let_def)
next
  case (failed t)
  moreover have "\<not> isHardBlockReason REASON_AUDIT_MODE" by (rule soft_reasons_not_hard) simp
  ultimately show ?thesis using assms by (simp add: vcse_failed_def shouldFailClosed_def Let_def)
next
  case confirmed
  with assms show ?thesis by simp
qed

lemma Decide_audit:
  assumes "po_Mode (gv_Policy g) = GOVERNANCE_AUDIT"
  shows "gd_Allowed (fst (Decide E env action g)) \<and>
    \<not> isHardBlockReason (gd_ReasonCode (fst (Decide E env action g)))"
proof -
  let ?a = "stamp env action" and ?p = "gv_Policy g"
  let ?d = "Policy_Evaluate E ?p ?a"
  have d: "gd_Allowed ?d" "\<not> isHardBlockReason (gd_ReasonCode ?d)"
    using evaluate_audit_reason [OF assms] soft_reasons_not_hard by blast+
  have v: "gd_Allowed (fst (check_vcse env ?a ?d g1)) \<and>
      \<not> isHardBlockReason (gd_ReasonCode (fst (check_vcse env ?a ?d g1)))"
    if "gv_Policy g1 = ?p" for g1
    by (rule check_vcse_audit [OF _ d]) (simp add: that assms)
  have f: "\<not> isHardBlockReason REASON_FAST_PATH_READ_ONLY" by (rule soft_reasons_not_hard) simp
  have g1: "gv_Policy (snd (check_loop (se_Codec E) ?a g)) = ?p" by simp
  show ?thesis
    using assms d v [OF g1] f
    by (simp add: Decide_def Let_def case_prod_beta decision_approve_def decision_start_def)
qed

text \<open>
  Observation never interferes: an off governor allows every action and leaves its own
  state as it was; an auditing one allows every action too, whatever the loop detector, the
  policy, the breaker, VCSE and the human say.
\<close>

theorem observation_never_interferes:
  assumes "po_Mode (gv_Policy g) \<in> {GOVERNANCE_OFF, GOVERNANCE_AUDIT}"
  shows "gd_Allowed (fst (DecideAndApprove E env aenv action g)) \<and>
    (po_Mode (gv_Policy g) = GOVERNANCE_OFF \<longrightarrow> snd (DecideAndApprove E env aenv action g) = g)"
proof (cases "po_Mode (gv_Policy g) = GOVERNANCE_OFF")
  case True
  then show ?thesis by (simp add: DecideAndApprove_def Decide_def Let_def finish_def)
next
  case False
  with assms have audit: "po_Mode (gv_Policy g) = GOVERNANCE_AUDIT" by simp
  from Decide_audit [OF this, of E env action] Decide_mode [of E env action g] audit show ?thesis
    by (simp add: DecideAndApprove_def Let_def case_prod_beta)
qed

lemma observation_never_interferes_witness:
  "gd_Allowed (fst (DecideAndApprove sample_env env_example approval_env_example cached_action
     (governor_example\<lparr>gv_Policy := DefaultPolicy\<rparr>)))"
  using observation_never_interferes [of "governor_example\<lparr>gv_Policy := DefaultPolicy\<rparr>" sample_env
      env_example approval_env_example cached_action]
  by (simp add: DefaultPolicy_def)

section \<open>Histories of decisions\<close>

definition action_fingerprint :: "Codec \<Rightarrow> GovernedAction \<Rightarrow> ActionFingerprint" where
  "action_fingerprint H action =
     attempt_fingerprint H (ga_ToolName action) (ga_Parameters action) (stateHashFromAction action)"

definition decide_step :: "SelfmodEnv \<Rightarrow> DecideEnv \<times> GovernedAction \<Rightarrow> Governor \<Rightarrow> Governor" where
  "decide_step E x g = snd (Decide E (fst x) (snd x) g)"

lemma stamp_fingerprint [simp]:
  "ga_ToolName (stamp env a) = ga_ToolName a" "ga_Parameters (stamp env a) = ga_Parameters a"
  "stateHashFromAction (stamp env a) = stateHashFromAction a"
  by (simp_all add: stamp_def stateHashFromAction_def)

lemma Decide_progress:
  assumes "po_Mode (gv_Policy g) \<noteq> GOVERNANCE_OFF"
  shows "gv_Progress (snd (Decide E env a g)) = gv_Progress (snd (check_loop (se_Codec E) (stamp env a) g))"
    and "gv_Policy (snd (Decide E env a g)) = gv_Policy g"
    and "gv_Budget (snd (Decide E env a g)) = gv_Budget g"
  using assms check_loop_state [of "se_Codec E" "stamp env a" g]
    check_vcse_state [of env "stamp env a" _ "snd (check_loop (se_Codec E) (stamp env a) g)"]
  by (simp_all add: Decide_def Let_def case_prod_beta)

lemma Decide_counts:
  assumes "po_Mode (gv_Policy g) \<noteq> GOVERNANCE_OFF" and "gv_Progress g = Some p"
  obtains p' where "gv_Progress (snd (Decide E env a g)) = Some p'"
    and "\<And>fp. seen_count p' fp = seen_count p fp + (if fp = action_fingerprint (se_Codec E) a then 1 else 0)"
  using assms
  by (auto simp: Decide_progress check_loop_def Let_def RecordAttempt_def action_fingerprint_def
      seen_count_def)

lemma decide_run_counts:
  assumes "po_Mode (gv_Policy g) \<noteq> GOVERNANCE_OFF" and "gv_Progress g = Some p"
  shows "\<exists>p'. gv_Progress (fold (decide_step E) xs g) = Some p' \<and>
      gv_Policy (fold (decide_step E) xs g) = gv_Policy g \<and>
      gv_Budget (fold (decide_step E) xs g) = gv_Budget g \<and>
      (\<forall>fp. seen_count p' fp = seen_count p fp +
         int (count_list (map (\<lambda>x. action_fingerprint (se_Codec E) (snd x)) xs) fp))"
  using assms
proof (induction xs arbitrary: g p)
  case (Cons x xs)
  let ?g = "decide_step E x g"
  obtain p1 where p1: "gv_Progress ?g = Some p1"
    "\<And>fp. seen_count p1 fp = seen_count p fp + (if fp = action_fingerprint (se_Codec E) (snd x) then 1 else 0)"
    using Decide_counts [OF Cons.prems] unfolding decide_step_def by blast
  have state: "gv_Policy ?g = gv_Policy g" "gv_Budget ?g = gv_Budget g"
    using Decide_progress [OF Cons.prems(1)] by (simp_all add: decide_step_def)
  with Cons.prems(1) have "po_Mode (gv_Policy ?g) \<noteq> GOVERNANCE_OFF" by simp
  from Cons.IH [OF this p1(1)] obtain p' where "gv_Progress (fold (decide_step E) xs ?g) = Some p'"
    "gv_Policy (fold (decide_step E) xs ?g) = gv_Policy ?g" "gv_Budget (fold (decide_step E) xs ?g) = gv_Budget ?g"
    "\<forall>fp. seen_count p' fp = seen_count p1 fp +
         int (count_list (map (\<lambda>x. action_fingerprint (se_Codec E) (snd x)) xs) fp)"
    by blast
  then show ?case using state p1(2) by auto
qed simp

text \<open>The decision after the loop check does not depend on the tracker.\<close>

lemma check_vcse_progress:
  "fst (check_vcse env a d (g\<lparr>gv_Progress := p\<rparr>)) = fst (check_vcse env a d g)"
  by (simp add: check_vcse_def Let_def set_vcseBreaker_def split: option.split prod.split VcseOutcome.split)

lemma Decide_not_looping:
  assumes "\<not> fst (check_loop (se_Codec E) (stamp env a) g)"
  shows "fst (Decide E env a g) = fst (Decide E env a (g\<lparr>gv_Progress := None\<rparr>))"
proof -
  obtain p where p: "snd (check_loop (se_Codec E) (stamp env a) g) = g\<lparr>gv_Progress := p\<rparr>"
  proof (cases "gv_Progress g")
    case None
    then show thesis by (intro that [of "gv_Progress g"]) (simp add: check_loop_def)
  next
    case (Some q)
    then show thesis by (intro that) (simp add: check_loop_def Let_def)
  qed
  then have "check_loop (se_Codec E) (stamp env a) g = (False, g\<lparr>gv_Progress := p\<rparr>)"
    using assms by (metis prod.collapse)
  moreover have "check_loop (se_Codec E) (stamp env a) (g\<lparr>gv_Progress := None\<rparr>) = (False, g\<lparr>gv_Progress := None\<rparr>)"
    by (simp add: check_loop_def)
  ultimately show ?thesis
    using check_vcse_progress by (simp add: Decide_def Let_def case_prod_beta)
qed

text \<open>
  C6. Repetition is stopped, exactly: starting from a fresh tracker and after any history of decisions,
  an enforcing governor blocks an action, and says so, if the same action (same tool name up to case,
  same hash of parameters, same reported state) has been decided before at least as often as the budget
  allows; and if it has been decided less often, the decision is the one that a governor without a
  tracker makes, so the loop check stops nothing else.
\<close>

theorem repetition_is_blocked:
  assumes "enforcing (po_Mode (gv_Policy g))" and "gv_Progress g = Some NewProgressTracker"
  shows "(if eb_MaxRepeatedToolCalls (gv_Budget g) \<le>
        int (count_list (map (\<lambda>x. action_fingerprint (se_Codec E) (snd x)) xs)
               (action_fingerprint (se_Codec E) a))
      then \<not> gd_Allowed (fst (Decide E env a (fold (decide_step E) xs g))) \<and>
        gd_ReasonCode (fst (Decide E env a (fold (decide_step E) xs g))) =
          REASON_REPEATED_ACTION_NO_STATE_PROGRESS
      else fst (Decide E env a (fold (decide_step E) xs g)) =
        fst (Decide E env a ((fold (decide_step E) xs g)\<lparr>gv_Progress := None\<rparr>)))"
proof -
  let ?g = "fold (decide_step E) xs g" and ?n = "int (count_list
      (map (\<lambda>x. action_fingerprint (se_Codec E) (snd x)) xs) (action_fingerprint (se_Codec E) a))"
  have m: "po_Mode (gv_Policy g) \<noteq> GOVERNANCE_OFF" "po_Mode (gv_Policy g) \<noteq> GOVERNANCE_AUDIT"
    using assms(1) by (auto simp: enforcing_def)
  from decide_run_counts [OF m(1) assms(2), of E xs] obtain p' where p': "gv_Progress ?g = Some p'"
    "gv_Policy ?g = gv_Policy g" "gv_Budget ?g = gv_Budget g"
    "seen_count p' (action_fingerprint (se_Codec E) a) =
      seen_count NewProgressTracker (action_fingerprint (se_Codec E) a) + ?n"
    by blast
  have "seen_count NewProgressTracker fp = 0" for fp
    by (simp add: NewProgressTracker_def seen_count_def)
  with p'(4) have looping: "fst (check_loop (se_Codec E) (stamp env a) ?g) \<longleftrightarrow>
      eb_MaxRepeatedToolCalls (gv_Budget g) \<le> ?n"
    using p'(1,3)
    by (auto simp: check_loop_def Let_def IsLooping_def RecordAttempt_def action_fingerprint_def
        seen_count_def)
  show ?thesis
  proof (cases "eb_MaxRepeatedToolCalls (gv_Budget g) \<le> ?n")
    case True
    then show ?thesis using looping m p'(2)
      by (simp add: Decide_def Let_def case_prod_beta loop_decision_def)
  next
    case False
    then show ?thesis using Decide_not_looping looping by simp
  qed
qed

lemma repetition_is_blocked_witness:
  "\<not> gd_Allowed (fst (Decide sample_env env_example cached_action
     (fold (decide_step sample_env) [(env_example, cached_action), (env_example, cached_action)]
       (governor_example\<lparr>gv_Progress := Some NewProgressTracker\<rparr>)))) \<and>
   fst (Decide sample_env env_example cached_action (governor_example\<lparr>gv_Progress := Some NewProgressTracker\<rparr>)) =
   fst (Decide sample_env env_example cached_action (governor_example\<lparr>gv_Progress := None\<rparr>))"
proof
  let ?g = "governor_example\<lparr>gv_Progress := Some NewProgressTracker\<rparr>"
  have e: "enforcing (po_Mode (gv_Policy ?g))" and p: "gv_Progress ?g = Some NewProgressTracker"
    and b: "eb_MaxRepeatedToolCalls (gv_Budget ?g) = 2"
    by (simp_all add: governor_example_def enforcing_def DefaultBudget_def)
  note C = repetition_is_blocked [OF e p, where E = sample_env and env = env_example and a = cached_action]
  show "\<not> gd_Allowed (fst (Decide sample_env env_example cached_action
     (fold (decide_step sample_env) [(env_example, cached_action), (env_example, cached_action)] ?g)))"
    using C [of "[(env_example, cached_action), (env_example, cached_action)]"] unfolding b by simp
  show "fst (Decide sample_env env_example cached_action ?g) =
      fst (Decide sample_env env_example cached_action (governor_example\<lparr>gv_Progress := None\<rparr>))"
    using C [of "[]"] unfolding b by simp
qed

text \<open>
  In a mode without a name, such as the empty mode of a zero \<open>Policy\<close>, \<open>Decide\<close> fails
  open: the local policy denies a destructive action and asks for a human, and the failure of
  VCSE turns that denial into an allowed, degraded decision.
\<close>

theorem unnamed_mode_fails_open:
  assumes "gv_Policy g = DefaultPolicy\<lparr>po_Mode := GOVERNANCE_OTHER s\<rparr>" and "gv_VCSE g"
    and "gv_Breakers g = None" and "gv_Progress g = None"
    and "ga_RiskClass a = RISK_DESTRUCTIVE" and "de_Vcse env = VcseErr t detail"
  shows "\<not> gd_Allowed (Policy_Evaluate E (gv_Policy g) (stamp env a)) \<and>
    gd_Allowed (fst (Decide E env a g)) \<and>
    gd_FinalStatus (fst (Decide E env a g)) = GOVERNANCE_DEGRADED"
  using assms
  by (simp add: Decide_def Let_def check_loop_def Policy_Evaluate_def require_human_def
      DefaultPolicy_def check_vcse_def vcseBreaker_def vcse_failed_def shouldFailClosed_def
      decision_defs case_prod_beta)

lemma unnamed_mode_fails_open_witness:
  "gd_Allowed (fst (Decide sample_env (env_example\<lparr>de_Vcse := VcseErr True ''timeout''\<rparr>) cached_action
     (governor_example\<lparr>gv_Policy := DefaultPolicy\<lparr>po_Mode := GOVERNANCE_OTHER []\<rparr>, gv_Breakers := None\<rparr>)))"
  by (rule conjunct1 [OF conjunct2 [OF unnamed_mode_fails_open [where s = "[]" and t = True and detail = "''timeout''"]]])
     (simp_all add: governor_example_def cached_action_def)

end
