(* ===== verification/RenderGuard.thy ===== *)
theory RenderGuard
  imports GovPolicy
begin

text \<open>
  The guard on final answers: \<open>pkg/governance/render_guard.go\<close> and
  \<open>render_guard_service.go\<close>. The VCSE client is a parameter: \<open>None\<close> when it is not
  configured, otherwise its answer to the verification request.
\<close>

definition RENDER_VALID :: string where [code_const]: "RENDER_VALID = ''RENDER_VALID''"
definition RENDER_INVALID :: string where [code_const]: "RENDER_INVALID = ''RENDER_INVALID''"
definition RENDER_NEEDS_CLAIM_MAP :: string where [code_const]: "RENDER_NEEDS_CLAIM_MAP = ''RENDER_NEEDS_CLAIM_MAP''"
definition RENDER_EXCEEDS_VALIDATED_MATERIAL :: string where [code_const]:
  "RENDER_EXCEEDS_VALIDATED_MATERIAL = ''RENDER_EXCEEDS_VALIDATED_MATERIAL''"
definition RENDER_POLICY_BLOCKED :: string where [code_const]: "RENDER_POLICY_BLOCKED = ''RENDER_POLICY_BLOCKED''"

definition render_modes :: "string list" where
  "render_modes = [''CANONICAL_ONLY'', ''NORMALIZED_CANONICAL'', ''EXPLICIT_ALLOWED_RENDERING'']"

record AnswerClaimRef =
  cr_ClaimID :: string
  cr_RenderedText :: string
  cr_SourceSpanIDs :: "string list"

record AnswerDraft =
  an_AnswerID :: string
  an_RenderedText :: string
  an_RenderMode :: string
  an_ClaimRefs :: "AnswerClaimRef list"
  an_UnsupportedSegments :: "string list"
  an_Metadata :: params

record ValidatedClaimView =
  vw_ClaimID :: string
  vw_FinalStatus :: string
  vw_CanonicalText :: string
  vw_AllowedRenderings :: "string list"
  vw_SourceSpanIDs :: "string list"

record RendererGuardPolicy =
  rg_AllowedClaimStatuses :: "string list"
  rg_RenderMode :: string

record RendererGuardDecision =
  rd_AnswerID :: string
  rd_FinalStatus :: string
  rd_Valid :: bool
  rd_ReasonCode :: string
  rd_Issues :: "string list"
  rd_ClaimCount :: int
  rd_AcceptedClaimIDs :: "string list"
  rd_RejectedClaimIDs :: "string list"
  rd_RenderMode :: string

record FinalAnswerVerificationInput =
  fi_AnswerText :: string
  fi_ClaimRefs :: "AnswerClaimRef list"
  fi_ClaimViews :: "ValidatedClaimView list"
  fi_UnsupportedSegments :: "string list"
  fi_RenderMode :: string
  fi_Metadata :: params

definition HasUnsupportedSegments :: "string list \<Rightarrow> bool" where
  "HasUnsupportedSegments segments = list_ex (\<lambda>s. TrimSpace s \<noteq> []) segments"

text \<open>The answer's identifier is made from the clock; the printed instant is an argument.\<close>

definition BuildAnswerDraftFromClaimViews ::
    "string \<Rightarrow> string \<Rightarrow> ValidatedClaimView list \<Rightarrow> string list \<Rightarrow> AnswerDraft" where
  "BuildAnswerDraftFromClaimViews nanos answerText views unsupported =
     \<lparr>an_AnswerID = ''answer-'' @ nanos, an_RenderedText = answerText,
      an_RenderMode = ''CANONICAL_ONLY'',
      an_ClaimRefs = map (\<lambda>v. \<lparr>cr_ClaimID = vw_ClaimID v, cr_RenderedText = vw_CanonicalText v,
        cr_SourceSpanIDs = vw_SourceSpanIDs v\<rparr>) views,
      an_UnsupportedSegments = unsupported, an_Metadata = None\<rparr>"

definition isValidRenderMode :: "string \<Rightarrow> bool" where
  "isValidRenderMode mode = (mode \<in> set render_modes)"

definition metadataCorrectnessRequested :: "params \<Rightarrow> bool" where
  "metadataCorrectnessRequested metadata =
     (case map_get metadata ''correctness_requested'' of
        Some (VBool t) \<Rightarrow> t
      | Some (VStr t) \<Rightarrow>
          (let v = ToLower (TrimSpace t) in v = ''true'' \<or> v = ''1'' \<or> v = ''yes'')
      | _ \<Rightarrow> False)"

definition fallbackString :: "string \<Rightarrow> string \<Rightarrow> string" where
  "fallbackString v fallback = (if TrimSpace v \<noteq> [] then v else fallback)"

definition fallbackInt :: "int \<Rightarrow> int \<Rightarrow> int" where
  "fallbackInt v fallback = (if v > 0 then v else fallback)"

definition ternary :: "bool \<Rightarrow> 'a \<Rightarrow> 'a \<Rightarrow> 'a" where
  "ternary cond a b = (if cond then a else b)"

text \<open>A decision with the fields that the composite literals of the code set.\<close>

definition render_decision ::
    "AnswerDraft \<Rightarrow> string \<Rightarrow> bool \<Rightarrow> string \<Rightarrow> string list \<Rightarrow> RendererGuardDecision" where
  "render_decision draft status valid reason issues =
     \<lparr>rd_AnswerID = an_AnswerID draft, rd_FinalStatus = status, rd_Valid = valid,
      rd_ReasonCode = reason, rd_Issues = issues, rd_ClaimCount = int (length (an_ClaimRefs draft)),
      rd_AcceptedClaimIDs = [], rd_RejectedClaimIDs = [], rd_RenderMode = an_RenderMode draft\<rparr>"

definition renderGuardUnavailableDecision ::
    "Mode \<Rightarrow> string \<Rightarrow> AnswerDraft \<Rightarrow> bool \<Rightarrow> string \<Rightarrow> RendererGuardDecision" where
  "renderGuardUnavailableDecision mode onUnavailable draft requiresGuard reason =
     (let action = ToLower (TrimSpace onUnavailable);
          action = (if action = []
                    then (if mode = GOVERNANCE_AUDIT then ''audit'' else ''downgrade'')
                    else action)
      in if \<not> requiresGuard \<or> action = ''audit''
         then render_decision draft RENDER_VALID True reason [reason]
         else render_decision draft
                (if action = ''block'' then RENDER_POLICY_BLOCKED else RENDER_INVALID)
                False reason [reason])"

record RenderVerifyResponse =
  rv_AnswerID :: string
  rv_FinalStatus :: string
  rv_Valid :: bool
  rv_ReasonCode :: string
  rv_Issues :: "string list"
  rv_ClaimCount :: int
  rv_AcceptedClaimIDs :: "string list"
  rv_RejectedClaimIDs :: "string list"
  rv_RenderMode :: string

text \<open>The client's answer: an error (a timeout or another one) or a response.\<close>

datatype RenderOutcome = RenderErr bool | RenderResp RenderVerifyResponse

definition verified_decision :: "AnswerDraft \<Rightarrow> RenderVerifyResponse \<Rightarrow> RendererGuardDecision" where
  "verified_decision draft resp =
     \<lparr>rd_AnswerID = fallbackString (rv_AnswerID resp) (an_AnswerID draft),
      rd_FinalStatus = fallbackString (rv_FinalStatus resp)
        (ternary (rv_Valid resp) RENDER_VALID RENDER_INVALID),
      rd_Valid = rv_Valid resp,
      rd_ReasonCode = fallbackString (rv_ReasonCode resp)
        (ternary (rv_Valid resp) ''RENDER_GUARD_PASSED'' ''INVALID_RENDER_INPUT''),
      rd_Issues = rv_Issues resp,
      rd_ClaimCount = fallbackInt (rv_ClaimCount resp) (int (length (an_ClaimRefs draft))),
      rd_AcceptedClaimIDs = rv_AcceptedClaimIDs resp,
      rd_RejectedClaimIDs = rv_RejectedClaimIDs resp,
      rd_RenderMode = fallbackString (rv_RenderMode resp) (an_RenderMode draft)\<rparr>"

record RenderGuardConfig =
  rc_Mode :: Mode
  rc_Policy :: RendererGuardPolicy
  rc_OnUnavailable :: string

definition requires_guard :: "RenderGuardConfig \<Rightarrow> FinalAnswerVerificationInput \<Rightarrow> bool" where
  "requires_guard g input \<longleftrightarrow>
     rc_Mode g = GOVERNANCE_CORRECTNESS \<or> metadataCorrectnessRequested (fi_Metadata input)"

definition answer_draft ::
    "RenderGuardConfig \<Rightarrow> string \<Rightarrow> FinalAnswerVerificationInput \<Rightarrow> AnswerDraft" where
  "answer_draft g nanos input =
     (let draft = BuildAnswerDraftFromClaimViews nanos (fi_AnswerText input) (fi_ClaimViews input)
            (fi_UnsupportedSegments input);
          draft = (if fi_ClaimRefs input \<noteq> [] then draft\<lparr>an_ClaimRefs := fi_ClaimRefs input\<rparr> else draft);
          draft = (if TrimSpace (fi_RenderMode input) \<noteq> []
                   then draft\<lparr>an_RenderMode := TrimSpace (fi_RenderMode input)\<rparr> else draft)
      in if rg_RenderMode (rc_Policy g) \<noteq> [] \<and> TrimSpace (fi_RenderMode input) = []
         then draft\<lparr>an_RenderMode := rg_RenderMode (rc_Policy g)\<rparr> else draft)"

definition VerifyFinalAnswer ::
    "RenderGuardConfig \<Rightarrow> RenderOutcome option \<Rightarrow> string \<Rightarrow> FinalAnswerVerificationInput \<Rightarrow>
     RendererGuardDecision" where
  "VerifyFinalAnswer g vcse nanos input =
     (let requiresGuard = requires_guard g input;
          auditObserve = (rc_Mode g = GOVERNANCE_AUDIT)
      in if \<not> requiresGuard \<and> \<not> auditObserve
         then \<lparr>rd_AnswerID = [], rd_FinalStatus = RENDER_VALID, rd_Valid = True,
               rd_ReasonCode = ''RENDER_GUARD_SKIPPED_NOT_CORRECTNESS_MODE'', rd_Issues = [],
               rd_ClaimCount = 0, rd_AcceptedClaimIDs = [], rd_RejectedClaimIDs = [],
               rd_RenderMode = []\<rparr>
         else
           (let draft = answer_draft g nanos input
            in if \<not> isValidRenderMode (an_RenderMode draft)
               then render_decision draft RENDER_INVALID False ''INVALID_RENDER_MODE'' [''invalid render mode'']
               else if TrimSpace (an_RenderedText draft) = []
               then render_decision draft RENDER_INVALID False ''MISSING_RENDERED_TEXT'' [''missing rendered text'']
               else if requiresGuard \<and> HasUnsupportedSegments (an_UnsupportedSegments draft)
               then render_decision draft RENDER_EXCEEDS_VALIDATED_MATERIAL False
                      ''UNSUPPORTED_SEGMENT_PRESENT''
                      (RENDER_EXCEEDS_VALIDATED_MATERIAL # an_UnsupportedSegments draft)
               else if requiresGuard \<and> an_ClaimRefs draft = []
               then render_decision draft RENDER_NEEDS_CLAIM_MAP False ''MISSING_CLAIM_REFS''
                      [''no claim refs provided for correctness mode'']
               else
                 (case vcse of
                    None \<Rightarrow> renderGuardUnavailableDecision (rc_Mode g) (rc_OnUnavailable g) draft
                              requiresGuard ''RENDER_GUARD_UNAVAILABLE''
                  | Some (RenderErr is_timeout) \<Rightarrow>
                      renderGuardUnavailableDecision (rc_Mode g) (rc_OnUnavailable g) draft
                        requiresGuard
                        (if is_timeout then ''RENDER_GUARD_TIMEOUT'' else ''RENDER_GUARD_UNAVAILABLE'')
                  | Some (RenderResp resp) \<Rightarrow> verified_decision draft resp)))"

section \<open>Properties\<close>

lemma render_decision_valid [simp]: "rd_Valid (render_decision draft s v r is) = v"
  by (simp add: render_decision_def)

lemma unavailable_valid:
  "rd_Valid (renderGuardUnavailableDecision mode onU draft True reason) \<longleftrightarrow>
     ToLower (TrimSpace onU) = ''audit'' \<or> (ToLower (TrimSpace onU) = [] \<and> mode = GOVERNANCE_AUDIT)"
  by (simp add: renderGuardUnavailableDecision_def Let_def)

text \<open>
  C19. Where the guard is required, no answer passes unverified: a valid decision means that the
  answer has text, has no unsupported segment, maps to at least one claim in a known render
  mode, and that VCSE verified it; the only exception is a VCSE that is unavailable under a
  configuration that says to audit instead of to block.
\<close>

theorem guarded_answers_are_verified:
  assumes "requires_guard g input" and "rd_Valid (VerifyFinalAnswer g vcse nanos input)"
  shows "TrimSpace (fi_AnswerText input) \<noteq> [] \<and>
    \<not> HasUnsupportedSegments (fi_UnsupportedSegments input) \<and>
    (fi_ClaimRefs input \<noteq> [] \<or> fi_ClaimViews input \<noteq> []) \<and>
    isValidRenderMode (an_RenderMode (answer_draft g nanos input)) \<and>
    (case vcse of
       Some (RenderResp resp) \<Rightarrow> rv_Valid resp
     | _ \<Rightarrow> ToLower (TrimSpace (rc_OnUnavailable g)) = ''audit'' \<or>
           (ToLower (TrimSpace (rc_OnUnavailable g)) = [] \<and> rc_Mode g = GOVERNANCE_AUDIT))"
proof -
  let ?draft = "answer_draft g nanos input"
  have draft: "an_RenderedText ?draft = fi_AnswerText input"
    "an_UnsupportedSegments ?draft = fi_UnsupportedSegments input"
    "an_ClaimRefs ?draft = [] \<longleftrightarrow> fi_ClaimRefs input = [] \<and> fi_ClaimViews input = []"
    by (auto simp: answer_draft_def Let_def BuildAnswerDraftFromClaimViews_def)
  show ?thesis
    using assms draft
    by (auto simp: VerifyFinalAnswer_def Let_def unavailable_valid verified_decision_def
        split: if_splits option.splits RenderOutcome.splits)
qed

definition guard_example :: RenderGuardConfig where
  "guard_example = \<lparr>rc_Mode = GOVERNANCE_CORRECTNESS,
     rc_Policy = \<lparr>rg_AllowedClaimStatuses = [], rg_RenderMode = []\<rparr>, rc_OnUnavailable = ''Audit''\<rparr>"

definition answer_example :: FinalAnswerVerificationInput where
  "answer_example = \<lparr>fi_AnswerText = ''42'', fi_ClaimRefs = [\<lparr>cr_ClaimID = ''c'',
     cr_RenderedText = ''42'', cr_SourceSpanIDs = []\<rparr>], fi_ClaimViews = [],
     fi_UnsupportedSegments = [], fi_RenderMode = [], fi_Metadata = None\<rparr>"

lemma guarded_answers_are_verified_witness:
  "ToLower (TrimSpace (rc_OnUnavailable guard_example)) = ''audit''"
proof -
  have req: "requires_guard guard_example answer_example" by (simp add: requires_guard_def guard_example_def)
  have valid: "rd_Valid (VerifyFinalAnswer guard_example None ''7'' answer_example)" by code_simp
  from guarded_answers_are_verified [OF req valid] show ?thesis by (simp add: guard_example_def)
qed

text \<open>
  Outside the correctness modes the guard never stands in the way: with neither the
  correctness mode, nor a request for correctness in the metadata, nor auditing, every answer is
  valid; and an auditing guard that cannot reach VCSE blocks only what has no text or an unknown
  render mode.
\<close>

theorem unguarded_answers_pass:
  assumes "\<not> requires_guard g input"
  shows "rd_Valid (VerifyFinalAnswer g None nanos input) \<longleftrightarrow>
    rc_Mode g \<noteq> GOVERNANCE_AUDIT \<or>
    (isValidRenderMode (an_RenderMode (answer_draft g nanos input)) \<and> TrimSpace (fi_AnswerText input) \<noteq> [])"
proof -
  have "an_RenderedText (answer_draft g nanos input) = fi_AnswerText input"
    by (simp add: answer_draft_def Let_def BuildAnswerDraftFromClaimViews_def)
  with assms show ?thesis
    by (simp add: VerifyFinalAnswer_def Let_def renderGuardUnavailableDecision_def)
qed

lemma unguarded_answers_pass_witness:
  "\<not> rd_Valid (VerifyFinalAnswer (guard_example\<lparr>rc_Mode := GOVERNANCE_AUDIT\<rparr>) None ''7''
     (answer_example\<lparr>fi_AnswerText := []\<rparr>))"
proof -
  have "\<not> requires_guard (guard_example\<lparr>rc_Mode := GOVERNANCE_AUDIT\<rparr>) (answer_example\<lparr>fi_AnswerText := []\<rparr>)"
    by (simp add: requires_guard_def guard_example_def answer_example_def metadataCorrectnessRequested_def)
  from unguarded_answers_pass [OF this] show ?thesis by simp
qed

end
