(* ===== verification/DagGraph.thy ===== *)
theory DagGraph
  imports Complex_Main GoValues "HOL-Library.Char_ord" "HOL-Library.List_Lexorder"
    "HOL-Library.Multiset"
begin

text \<open>
  The task graph of \<open>pkg/dag/dag.go\<close>: tasks and their life cycle, events, the shared environment
  data, and Kahn's algorithm. A Go map from task identifiers is an association list in the order
  in which an iteration visits it; \<open>sort.Strings\<close> is the library's \<open>sort\<close> in the lexicographic
  order of bytes. Callbacks are functions that cannot be inspected: a task only records whether it
  has them.
\<close>

section \<open>Status\<close>

datatype TaskStatus =
    StatusPending | StatusQueued | StatusRunning | StatusCompleted | StatusFailed
  | StatusSkipped | StatusRolledBack

text \<open>The values of the \<open>iota\<close> block; the type's order is the order of its \<open>int8\<close> values.\<close>

fun status_int8 :: "TaskStatus \<Rightarrow> nat" where
  "status_int8 StatusPending = 0"
| "status_int8 StatusQueued = 1"
| "status_int8 StatusRunning = 2"
| "status_int8 StatusCompleted = 3"
| "status_int8 StatusFailed = 4"
| "status_int8 StatusSkipped = 5"
| "status_int8 StatusRolledBack = 6"

lemma status_int8_inject [simp]: "status_int8 s = status_int8 t \<longleftrightarrow> s = t"
  by (cases s; cases t) simp_all

instantiation TaskStatus :: linorder
begin

definition less_eq_TaskStatus :: "TaskStatus \<Rightarrow> TaskStatus \<Rightarrow> bool" where
  "less_eq_TaskStatus s t \<longleftrightarrow> status_int8 s \<le> status_int8 t"

definition less_TaskStatus :: "TaskStatus \<Rightarrow> TaskStatus \<Rightarrow> bool" where
  "less_TaskStatus s t \<longleftrightarrow> status_int8 s < status_int8 t"

instance
  by standard (auto simp: less_eq_TaskStatus_def less_TaskStatus_def)

end

lemmas status_order = less_eq_TaskStatus_def less_TaskStatus_def

fun TaskStatus_String :: "TaskStatus \<Rightarrow> string" where
  "TaskStatus_String StatusPending = ''pending''"
| "TaskStatus_String StatusQueued = ''queued''"
| "TaskStatus_String StatusRunning = ''running''"
| "TaskStatus_String StatusCompleted = ''completed''"
| "TaskStatus_String StatusFailed = ''failed''"
| "TaskStatus_String StatusSkipped = ''skipped''"
| "TaskStatus_String StatusRolledBack = ''rolled_back''"

text \<open>The glyphs, in UTF-8.\<close>

fun TaskStatus_Icon :: "TaskStatus \<Rightarrow> string" where
  "TaskStatus_Icon StatusPending = [CHR 0xE2, CHR 0x97, CHR 0x8B]"
| "TaskStatus_Icon StatusQueued = [CHR 0xE2, CHR 0x97, CHR 0x8E]"
| "TaskStatus_Icon StatusRunning = [CHR 0xE2, CHR 0x97, CHR 0x8F]"
| "TaskStatus_Icon StatusCompleted = [CHR 0xE2, CHR 0x9C, CHR 0x93]"
| "TaskStatus_Icon StatusFailed = [CHR 0xE2, CHR 0x9C, CHR 0x97]"
| "TaskStatus_Icon StatusSkipped = [CHR 0xE2, CHR 0x8A, CHR 0x98]"
| "TaskStatus_Icon StatusRolledBack = [CHR 0xE2, CHR 0x86, CHR 0xA9]"

definition terminal_status :: "TaskStatus \<Rightarrow> bool" where
  "terminal_status st \<longleftrightarrow> st \<in> {StatusCompleted, StatusFailed, StatusSkipped, StatusRolledBack}"

section \<open>Tasks, events and the graph\<close>

record Task =
  t_ID :: string
  t_Description :: string
  t_Dependencies :: "string list"
  t_Tags :: "string list"
  t_MaxRetries :: int
  t_RetryDelay :: duration
  t_Action :: bool
  t_Rollback :: bool
  t_Status :: TaskStatus
  t_Result :: any
  t_ErrMsg :: string
  t_StartedAt :: instant
  t_CompletedAt :: instant
  t_RetryCount :: int
  t_RCAReport :: string
  t_Progress :: real

definition elapsed :: "instant \<Rightarrow> Task \<Rightarrow> duration" where
  "elapsed now t =
     (if IsZero (t_StartedAt t) then 0
      else if \<not> IsZero (t_CompletedAt t) then t_CompletedAt t - t_StartedAt t
      else now - t_StartedAt t)"

record DagEvent =
  ev_GraphID :: string
  ev_TaskID :: string
  ev_Status :: TaskStatus
  ev_Progress :: real
  ev_Message :: string
  ev_ErrMsg :: string
  ev_At :: instant

text \<open>\<open>g_events\<close> is the content of the buffered channel, oldest first.\<close>

record Graph =
  g_ID :: string
  g_tasks :: "(string \<times> Task) list"
  g_events :: "DagEvent list"

definition NewGraph :: "string \<Rightarrow> Graph" where
  "NewGraph ident = \<lparr>g_ID = ident, g_tasks = [], g_events = []\<rparr>"

text \<open>Errors by what they report; \<open>DagCycle n\<close> counts the unreachable tasks.\<close>

datatype DagError =
    DagTaskExists string
  | DagUnknownTask string string
  | DagCycle int
  | DagCtx
  | DagFailed "(string \<times> string) list"
  | DagRollbackFailed string string

definition Graph_Add :: "Task \<Rightarrow> Graph \<Rightarrow> DagError + Graph" where
  "Graph_Add t g =
     (if map_of (g_tasks g) (t_ID t) \<noteq> None then Inl (DagTaskExists (t_ID t))
      else Inr (g\<lparr>g_tasks := g_tasks g @ [(t_ID t, t\<lparr>t_Status := StatusPending\<rparr>)]\<rparr>))"

definition Graph_Get :: "Graph \<Rightarrow> string \<Rightarrow> Task option" where
  "Graph_Get g ident = map_of (g_tasks g) ident"

definition Graph_All :: "Graph \<Rightarrow> Task list" where
  "Graph_All g = map (\<lambda>ident. the (map_of (g_tasks g) ident)) (sort (map fst (g_tasks g)))"

definition Graph_Snapshot :: "Graph \<Rightarrow> Task list" where
  "Graph_Snapshot g = map snd (g_tasks g)"

text \<open>A send on the channel of capacity 512 that drops the event when the channel is full.\<close>

definition Graph_emit :: "instant \<Rightarrow> DagEvent \<Rightarrow> Graph \<Rightarrow> Graph" where
  "Graph_emit now ev g =
     (if length (g_events g) < 512 then g\<lparr>g_events := g_events g @ [ev\<lparr>ev_At := now\<rparr>]\<rparr> else g)"

definition set_task_status :: "instant \<Rightarrow> TaskStatus \<Rightarrow> string \<Rightarrow> Task \<Rightarrow> Task" where
  "set_task_status now st errMsg t =
     (let t = t\<lparr>t_Status := st\<rparr>;
          t = (if st = StatusRunning then t\<lparr>t_StartedAt := now\<rparr>
               else if terminal_status st then t\<lparr>t_CompletedAt := now\<rparr> else t)
      in if errMsg \<noteq> [] then t\<lparr>t_ErrMsg := errMsg\<rparr> else t)"

definition upd_task :: "string \<Rightarrow> (Task \<Rightarrow> Task) \<Rightarrow> Graph \<Rightarrow> Graph" where
  "upd_task ident f g =
     g\<lparr>g_tasks := map (\<lambda>(k, t). if k = ident then (k, f t) else (k, t)) (g_tasks g)\<rparr>"

text \<open>\<open>setStatus\<close>: the clock is read under the lock (\<open>now\<close>) and when the event is sent (\<open>now'\<close>).\<close>

definition setStatus ::
    "instant \<Rightarrow> instant \<Rightarrow> string \<Rightarrow> TaskStatus \<Rightarrow> string \<Rightarrow> string \<Rightarrow> Graph \<Rightarrow> Graph" where
  "setStatus now now' ident st msg errMsg g =
     (if map_of (g_tasks g) ident = None then g
      else Graph_emit now'
        \<lparr>ev_GraphID = g_ID g, ev_TaskID = ident, ev_Status = st, ev_Progress = 0, ev_Message = msg,
         ev_ErrMsg = errMsg, ev_At = 0\<rparr>
        (upd_task ident (set_task_status now st errMsg) g))"

section \<open>The shared environment\<close>

definition clamp :: "real \<Rightarrow> real \<Rightarrow> real \<Rightarrow> real" where
  "clamp v lo hi = (if v < lo then lo else if v > hi then hi else v)"

record Environment =
  e_data :: "string \<Rightarrow> any option"
  e_progress :: "(string \<times> real) list"

definition Env_Set :: "string \<Rightarrow> any \<Rightarrow> Environment \<Rightarrow> Environment" where
  "Env_Set key v e = e\<lparr>e_data := (e_data e)(key \<mapsto> v)\<rparr>"

definition Env_Get :: "Environment \<Rightarrow> string \<Rightarrow> any option" where
  "Env_Get e key = e_data e key"

definition Env_GetString :: "Environment \<Rightarrow> string \<Rightarrow> string" where
  "Env_GetString e key =
     (case Env_Get e key of None \<Rightarrow> []
      | Some v \<Rightarrow> (case v of VStr s \<Rightarrow> s | _ \<Rightarrow> []))"

definition SetProgress :: "string \<Rightarrow> real \<Rightarrow> Environment \<Rightarrow> Environment" where
  "SetProgress taskID pct e =
     (if length (e_progress e) < 256
      then e\<lparr>e_progress := e_progress e @ [(taskID, clamp pct 0 1)]\<rparr> else e)"

section \<open>Kahn's algorithm\<close>

text \<open>The first unknown dependency in the order of iteration.\<close>

fun unknown_in :: "string list \<Rightarrow> string list \<Rightarrow> string option" where
  "unknown_in known [] = None"
| "unknown_in known (d # ds) = (if d \<notin> set known then Some d else unknown_in known ds)"

fun first_unknown :: "string list \<Rightarrow> (string \<times> Task) list \<Rightarrow> DagError option" where
  "first_unknown known [] = None"
| "first_unknown known ((k, t) # ts) =
     (case unknown_in known (t_Dependencies t) of
        Some d \<Rightarrow> Some (DagUnknownTask (t_ID t) d)
      | None \<Rightarrow> first_unknown known ts)"

text \<open>
  The in-degrees: one per dependency entry of a task, duplicates included. Degrees are a function
  that is zero outside the graph; \<open>inDegree[t.ID]\<close> is only read and written for tasks of it.
\<close>

fun count_degrees :: "(string \<times> Task) list \<Rightarrow> (string \<Rightarrow> int) \<Rightarrow> string \<Rightarrow> int" where
  "count_degrees [] deg = deg"
| "count_degrees ((k, t) # ts) deg =
     count_degrees ts (deg(t_ID t := deg (t_ID t) + int (length (t_Dependencies t))))"

text \<open>The two inner loops: every occurrence of \<open>cur\<close> among the dependencies of a task.\<close>

fun relax_deps :: "string \<Rightarrow> string \<Rightarrow> string list \<Rightarrow> (string \<Rightarrow> int) \<times> string list \<Rightarrow> (string \<Rightarrow> int) \<times> string list" where
  "relax_deps cur ident [] s = s"
| "relax_deps cur ident (d # ds) (deg, queue) =
     relax_deps cur ident ds
       (if d = cur
        then (deg(ident := deg ident - 1),
              if deg ident - 1 = 0 then sort (queue @ [ident]) else queue)
        else (deg, queue))"

fun relax_tasks :: "string \<Rightarrow> (string \<times> Task) list \<Rightarrow> (string \<Rightarrow> int) \<times> string list \<Rightarrow> (string \<Rightarrow> int) \<times> string list" where
  "relax_tasks cur [] s = s"
| "relax_tasks cur ((k, t) # ts) s = relax_tasks cur ts (relax_deps cur (t_ID t) (t_Dependencies t) s)"

text \<open>
  The loop terminates on every graph: an identifier enters the queue when its degree passes from
  1 to 0, so two for each positive degree plus one for each queued identifier decreases.
\<close>

definition positive :: "(string \<times> Task) list \<Rightarrow> (string \<Rightarrow> int) \<Rightarrow> nat" where
  "positive ts deg = countP (\<lambda>(k, t). 0 < deg (t_ID t)) ts"

definition potential :: "(string \<times> Task) list \<Rightarrow> (string \<Rightarrow> int) \<times> string list \<Rightarrow> nat" where
  "potential ts s = 2 * positive ts (fst s) + length (snd s)"

lemma positive_simps [simp]:
  "positive [] deg = 0"
  "positive (x # ts) deg = (if 0 < deg (t_ID (snd x)) then 1 else 0) + positive ts deg"
  by (simp_all add: positive_def case_prod_beta)

lemma positive_mono: "(\<And>i. deg' i \<le> deg i) \<Longrightarrow> positive ts deg' \<le> positive ts deg"
proof (induction ts)
  case (Cons x ts)
  then show ?case using Cons.prems [of "t_ID (snd x)"] by fastforce
qed simp

lemma positive_drop:
  assumes "(k, t) \<in> set ts" and "deg (t_ID t) = 1"
  shows "positive ts (deg(t_ID t := 0)) < positive ts deg"
  using assms(1)
proof (induction ts)
  case (Cons x ts)
  have le: "positive ts (deg(t_ID t := 0)) \<le> positive ts deg"
    by (rule positive_mono) (simp add: assms(2))
  show ?case
  proof (cases "x = (k, t)")
    case True
    then show ?thesis using le assms(2) by (simp add: fun_upd_def)
  next
    case False
    then have "(k, t) \<in> set ts" using Cons.prems by simp
    from Cons.IH [OF this] show ?thesis by (simp add: fun_upd_def)
  qed
qed simp

lemma potential_relax_deps:
  assumes "(k, t) \<in> set ts"
  shows "potential ts (relax_deps cur (t_ID t) ds s) \<le> potential ts s"
proof (induction ds arbitrary: s)
  case (Cons d ds)
  obtain deg queue where s: "s = (deg, queue)" by fastforce
  let ?s = "if d = cur
        then (deg(t_ID t := deg (t_ID t) - 1),
              if deg (t_ID t) - 1 = 0 then sort (queue @ [t_ID t]) else queue)
        else (deg, queue)"
  have "potential ts ?s \<le> potential ts s"
  proof (cases "d = cur \<and> deg (t_ID t) = 1")
    case True
    then show ?thesis using positive_drop [OF assms, of deg] by (simp add: potential_def s)
  next
    case False
    moreover have "positive ts (deg(t_ID t := deg (t_ID t) - 1)) \<le> positive ts deg"
      by (rule positive_mono) simp
    ultimately show ?thesis by (auto simp: potential_def s)
  qed
  then show ?case using Cons.IH [of ?s] by (simp add: s)
qed simp

lemma potential_relax_tasks:
  "set us \<subseteq> set ts \<Longrightarrow> potential ts (relax_tasks cur us s) \<le> potential ts s"
proof (induction us arbitrary: s)
  case (Cons x us)
  obtain k t where x: "x = (k, t)" by fastforce
  then have "(k, t) \<in> set ts" using Cons.prems by simp
  from potential_relax_deps [OF this, of cur "t_Dependencies t" s] Cons show ?case
    by (simp add: x) (meson order_trans)
qed simp

function kahn :: "(string \<times> Task) list \<Rightarrow> (string \<Rightarrow> int) \<Rightarrow> string list \<Rightarrow> string list" where
  "kahn ts deg [] = []"
| "kahn ts deg (cur # queue) =
     (case relax_tasks cur ts (deg, queue) of (deg', queue') \<Rightarrow> cur # kahn ts deg' queue')"
  by pat_completeness auto
termination
proof (relation "measure (\<lambda>(ts, deg, queue). potential ts (deg, queue))", goal_cases)
  case (2 ts deg cur queue deg' queue')
  have "potential ts (deg', queue') \<le> potential ts (deg, queue)"
    using potential_relax_tasks [of ts ts cur "(deg, queue)"] 2 by simp
  then show ?case by (simp add: potential_def)
qed simp

definition TopologicalOrder :: "Graph \<Rightarrow> DagError + Task list" where
  "TopologicalOrder g =
     (let ts = g_tasks g; ids = map fst ts
      in case first_unknown ids ts of
           Some e \<Rightarrow> Inl e
         | None \<Rightarrow>
             (let deg = count_degrees ts (\<lambda>_. 0);
                  order = kahn ts deg (sort (filter (\<lambda>i. deg i = 0) ids))
              in if length order \<noteq> length ts
                 then Inl (DagCycle (int (length ts) - int (length order)))
                 else Inr (map (\<lambda>i. the (map_of ts i)) order)))"

end
