(* ===== verification/DagTopo.thy ===== *)
theory DagTopo
  imports DagGraph
begin

text \<open>
  Correctness of \<open>TopologicalOrder\<close>: it terminates on every graph, returns a permutation of
  the tasks in which dependencies precede dependents exactly when there is one, reports unknown
  dependencies and cycles otherwise, and its result does not depend on the order in which Go
  iterates over the task map.
\<close>

section \<open>Well-formed graphs\<close>

text \<open>The keys are distinct and each task is stored under its own identifier.\<close>

definition tasks_wf :: "(string \<times> Task) list \<Rightarrow> bool" where
  "tasks_wf ts \<longleftrightarrow> distinct (map fst ts) \<and> list_all (\<lambda>(k, t). t_ID t = k) ts"

definition deps_of :: "(string \<times> Task) list \<Rightarrow> string \<Rightarrow> string list" where
  "deps_of ts i = (case map_of ts i of None \<Rightarrow> [] | Some t \<Rightarrow> t_Dependencies t)"

definition deps_known :: "(string \<times> Task) list \<Rightarrow> bool" where
  "deps_known ts \<longleftrightarrow> list_all (\<lambda>(k, t). set (t_Dependencies t) \<subseteq> set (map fst ts)) ts"

definition dep_rel :: "(string \<times> Task) list \<Rightarrow> (string \<times> string) set" where
  "dep_rel ts = {(d, i). i \<in> set (map fst ts) \<and> d \<in> set (deps_of ts i)}"

text \<open>Every element of the list comes after its dependencies.\<close>

fun deps_before :: "(string \<Rightarrow> string list) \<Rightarrow> string list \<Rightarrow> string list \<Rightarrow> bool" where
  "deps_before D done [] = True"
| "deps_before D done (i # is) = (set (D i) \<subseteq> set done \<and> deps_before D (done @ [i]) is)"

lemma deps_before_append:
  "deps_before D done (xs @ ys) \<longleftrightarrow> deps_before D done xs \<and> deps_before D (done @ xs) ys"
  by (induction xs arbitrary: "done") auto

lemma deps_before_nth:
  "deps_before D done xs \<Longrightarrow> j < length xs \<Longrightarrow> set (D (xs ! j)) \<subseteq> set done \<union> set (take j xs)"
proof (induction xs arbitrary: "done" j)
  case (Cons x xs)
  then show ?case by (cases j) fastforce+
qed simp

lemma tasks_wf_Cons:
  "tasks_wf ((k, t) # ts) \<longleftrightarrow> t_ID t = k \<and> k \<notin> set (map fst ts) \<and> tasks_wf ts"
  by (auto simp: tasks_wf_def)

lemma deps_of_Cons: "deps_of ((k, t) # ts) i = (if i = k then t_Dependencies t else deps_of ts i)"
  by (simp add: deps_of_def)

lemma deps_of_outside: "i \<notin> set (map fst ts) \<Longrightarrow> deps_of ts i = []"
  by (simp add: deps_of_def flip: map_of_eq_None_iff)

lemma deps_of_task: "tasks_wf ts \<Longrightarrow> (k, t) \<in> set ts \<Longrightarrow> deps_of ts k = t_Dependencies t"
  by (simp add: deps_of_def tasks_wf_def)

lemma deps_known_iff:
  "tasks_wf ts \<Longrightarrow> deps_known ts \<longleftrightarrow> (\<forall>i. set (deps_of ts i) \<subseteq> set (map fst ts))"
proof
  assume wf: "tasks_wf ts" and known: "\<forall>i. set (deps_of ts i) \<subseteq> set (map fst ts)"
  have "set (t_Dependencies t) \<subseteq> set (map fst ts)" if "(k, t) \<in> set ts" for k t
    using known deps_of_task [OF wf that] by metis
  then show "deps_known ts" by (auto simp: deps_known_def list_all_iff)
next
  assume known: "deps_known ts"
  show "\<forall>i. set (deps_of ts i) \<subseteq> set (map fst ts)"
  proof
    fix i
    show "set (deps_of ts i) \<subseteq> set (map fst ts)"
      using known map_of_SomeD [of ts i]
      by (cases "map_of ts i") (fastforce simp: deps_of_def deps_known_def list_all_iff)+
  qed
qed

lemma unknown_in_None: "unknown_in known ds = None \<longleftrightarrow> set ds \<subseteq> set known"
  by (induction ds) auto

lemma unknown_in_Some: "unknown_in known ds = Some d \<Longrightarrow> d \<in> set ds \<and> d \<notin> set known"
  by (induction ds) (auto split: if_splits)

lemma first_unknown_None:
  "first_unknown known ts = None \<longleftrightarrow> list_all (\<lambda>(k, t). set (t_Dependencies t) \<subseteq> set known) ts"
proof (induction ts)
  case (Cons x ts)
  then show ?case
    by (cases x; cases "unknown_in known (t_Dependencies (snd x))")
       (use unknown_in_None [of known "t_Dependencies (snd x)"] in auto)
qed simp

lemma first_unknown_Some:
  "first_unknown known ts = Some e \<Longrightarrow>
     \<exists>k t d. (k, t) \<in> set ts \<and> e = DagUnknownTask (t_ID t) d \<and> d \<in> set (t_Dependencies t) \<and> d \<notin> set known"
proof (induction ts)
  case (Cons x ts)
  obtain k t where x: "x = (k, t)" by fastforce
  show ?case
  proof (cases "unknown_in known (t_Dependencies t)")
    case None
    with Cons.prems have "first_unknown known ts = Some e" by (simp add: x)
    from Cons.IH [OF this] show ?thesis by (metis list.set_intros(2))
  next
    case (Some d)
    then show ?thesis using Cons.prems unknown_in_Some [OF Some] by (auto simp: x)
  qed
qed simp

section \<open>The loops\<close>

lemma relax_deps_eq:
  assumes "int (count_list ds cur) \<le> deg i"
  shows "relax_deps cur i ds (deg, q) =
    (deg(i := deg i - int (count_list ds cur)),
     if 0 < count_list ds cur \<and> deg i = int (count_list ds cur) then sort (q @ [i]) else q)"
  using assms
proof (induction ds arbitrary: deg q)
  case (Cons d ds)
  show ?case
  proof (cases "d = cur")
    case True
    let ?deg = "deg(i := deg i - 1)"
    have "int (count_list ds cur) \<le> ?deg i" using Cons.prems True by simp
    note IH = Cons.IH [of ?deg, OF this]
    show ?thesis
    proof (cases "deg i = 1")
      case True
      then have "count_list ds cur = 0" using Cons.prems \<open>d = cur\<close> by simp
      with True \<open>d = cur\<close> IH show ?thesis by (auto simp: fun_upd_def)
    next
      case False
      have "(0 < count_list ds cur \<and> ?deg i = int (count_list ds cur)) \<longleftrightarrow>
          deg i = int (count_list (d # ds) cur)"
        using False \<open>d = cur\<close> by auto
      with False \<open>d = cur\<close> IH show ?thesis by (auto simp: fun_upd_def)
    qed
  next
    case False
    with Cons show ?thesis by simp
  qed
qed simp

text \<open>The tasks that one round of relaxation adds to the queue.\<close>

definition released :: "string \<Rightarrow> (string \<times> Task) list \<Rightarrow> (string \<Rightarrow> int) \<Rightarrow> string list" where
  "released cur ts deg = map fst (filter (\<lambda>(k, t). 0 < count_list (t_Dependencies t) cur \<and>
     deg k = int (count_list (t_Dependencies t) cur)) ts)"

lemma relax_tasks_eq:
  assumes "tasks_wf us" and "\<forall>i. int (count_list (deps_of us i) cur) \<le> deg i" and "sorted q"
  shows "\<exists>q'. relax_tasks cur us (deg, q) =
      ((\<lambda>i. deg i - int (count_list (deps_of us i) cur)), q') \<and> sorted q' \<and>
      mset q' = mset q + mset (released cur us deg)"
  using assms
proof (induction us arbitrary: deg q)
  case Nil
  then show ?case by (simp add: deps_of_def released_def)
next
  case (Cons x us)
  obtain k t where x: "x = (k, t)" by fastforce
  let ?c = "int (count_list (t_Dependencies t) cur)"
  let ?deg = "deg(k := deg k - ?c)"
  let ?q = "if 0 < count_list (t_Dependencies t) cur \<and> deg k = ?c then sort (q @ [k]) else q"
  have k: "t_ID t = k" "k \<notin> set (map fst us)" "tasks_wf us"
    using Cons.prems(1) by (simp_all add: x tasks_wf_Cons)
  have outside: "deps_of us k = []" by (rule deps_of_outside [OF k(2)])
  have "?c \<le> deg k" using Cons.prems(2) [rule_format, of k] by (simp add: x deps_of_Cons)
  then have first: "relax_deps cur k (t_Dependencies t) (deg, q) = (?deg, ?q)"
    by (rule relax_deps_eq)
  have "\<forall>i. int (count_list (deps_of us i) cur) \<le> ?deg i"
  proof
    fix i
    show "int (count_list (deps_of us i) cur) \<le> ?deg i"
      using Cons.prems(2) [rule_format, of i] outside by (auto simp: x deps_of_Cons split: if_splits)
  qed
  moreover have "sorted ?q" using Cons.prems(3) by simp
  ultimately obtain q' where q': "relax_tasks cur us (?deg, ?q) =
      ((\<lambda>i. ?deg i - int (count_list (deps_of us i) cur)), q')" "sorted q'"
      "mset q' = mset ?q + mset (released cur us ?deg)"
    using Cons.IH [OF k(3)] by blast
  have "released cur us ?deg = released cur us deg"
    using k(2) by (auto simp: released_def image_iff intro!: arg_cong [where f = "map fst"] filter_cong)
  moreover have "(\<lambda>i. ?deg i - int (count_list (deps_of us i) cur)) =
      (\<lambda>i. deg i - int (count_list (deps_of (x # us) i) cur))"
    by (auto simp: x deps_of_Cons outside)
  ultimately show ?case using q' first k(1) by (auto simp: x released_def)
qed

section \<open>The invariant of the main loop\<close>

definition remaining :: "(string \<times> Task) list \<Rightarrow> string list \<Rightarrow> string \<Rightarrow> int" where
  "remaining ts order i = int (length (filter (\<lambda>d. d \<notin> set order) (deps_of ts i)))"

definition kahn_inv :: "(string \<times> Task) list \<Rightarrow> string list \<Rightarrow> (string \<Rightarrow> int) \<Rightarrow> string list \<Rightarrow> bool" where
  "kahn_inv ts order deg queue \<longleftrightarrow>
     deg = remaining ts order \<and> sorted queue \<and> distinct (order @ queue) \<and>
     set (order @ queue) = {i \<in> set (map fst ts). deg i = 0} \<and> deps_before (deps_of ts) [] order"

lemma remaining_snoc:
  "cur \<notin> set order \<Longrightarrow>
     remaining ts (order @ [cur]) i = remaining ts order i - int (count_list (deps_of ts i) cur)"
proof -
  assume cur: "cur \<notin> set order"
  have "length (filter (\<lambda>d. d \<notin> set (order @ [cur])) ds) + count_list ds cur =
      length (filter (\<lambda>d. d \<notin> set order) ds)" for ds
    using cur by (induction ds) auto
  from this [of "deps_of ts i"] show ?thesis by (simp add: remaining_def)
qed

lemma count_le_remaining:
  assumes "cur \<notin> set order"
  shows "int (count_list (deps_of ts i) cur) \<le> remaining ts order i"
  using remaining_snoc [OF assms, of ts i] by (simp add: remaining_def)

lemma released_set:
  assumes "tasks_wf ts"
  shows "set (released cur ts deg) = {i \<in> set (map fst ts). 0 < count_list (deps_of ts i) cur \<and>
      deg i = int (count_list (deps_of ts i) cur)}"
    and "distinct (released cur ts deg)"
proof -
  show "set (released cur ts deg) = {i \<in> set (map fst ts). 0 < count_list (deps_of ts i) cur \<and>
      deg i = int (count_list (deps_of ts i) cur)}"
    using deps_of_task [OF assms] by (force simp: released_def)
  have "distinct (map fst (filter P ts))" for P
    using assms by (intro distinct_map_filter) (simp add: tasks_wf_def)
  then show "distinct (released cur ts deg)" by (simp add: released_def)
qed

text \<open>One round of the main loop.\<close>

lemma kahn_inv_step:
  assumes wf: "tasks_wf ts" and inv: "kahn_inv ts order deg (cur # queue)"
    and relax: "relax_tasks cur ts (deg, queue) = (deg', queue')"
  shows "kahn_inv ts (order @ [cur]) deg' queue' \<and>
    mset queue' = mset queue + mset (released cur ts deg)"
proof -
  from inv have deg: "deg = remaining ts order" and sq: "sorted queue"
    and dist: "distinct (order @ cur # queue)" and before: "deps_before (deps_of ts) [] order"
    and zero: "set (order @ cur # queue) = {i \<in> set (map fst ts). deg i = 0}"
    by (simp_all add: kahn_inv_def)
  have cur: "cur \<notin> set order" using dist by simp
  obtain q where q: "relax_tasks cur ts (deg, queue) =
      ((\<lambda>i. deg i - int (count_list (deps_of ts i) cur)), q)" "sorted q"
      "mset q = mset queue + mset (released cur ts deg)"
    using relax_tasks_eq [OF wf _ sq, of cur deg] count_le_remaining [OF cur] deg by auto
  with relax have out: "deg' = (\<lambda>i. deg i - int (count_list (deps_of ts i) cur))" "queue' = q"
    by auto
  have deg': "deg' = remaining ts (order @ [cur])"
    using remaining_snoc [OF cur] by (auto simp: out deg)
  have ge: "int (count_list (deps_of ts i) cur) \<le> deg i" for i
    using count_le_remaining [OF cur] by (simp add: deg)
  have set_q: "set q = set queue \<union> set (released cur ts deg)"
    by (metis q(3) set_mset_mset set_mset_union)
  have new: "i \<notin> set (order @ cur # queue)" if "i \<in> set (released cur ts deg)" for i
    using that zero released_set(1) [OF wf, of cur deg] by auto
  have "distinct (queue @ released cur ts deg)"
    using dist new released_set(2) [OF wf, of cur deg] by auto
  then have "distinct q" by (metis mset_append mset_eq_imp_distinct_iff q(3))
  then have dist': "distinct ((order @ [cur]) @ q)" using dist new set_q by auto
  have zero': "set ((order @ [cur]) @ q) = {i \<in> set (map fst ts). deg' i = 0}"
  proof -
    have "deg' i = 0 \<longleftrightarrow> deg i = 0 \<or> 0 < count_list (deps_of ts i) cur \<and>
        deg i = int (count_list (deps_of ts i) cur)" for i
      using ge [of i] by (auto simp: out)
    then have "{i \<in> set (map fst ts). deg' i = 0} =
        {i \<in> set (map fst ts). deg i = 0} \<union> set (released cur ts deg)"
      unfolding released_set(1) [OF wf] by blast
    then show ?thesis using zero set_q by auto
  qed
  have "deg cur = 0" using zero by auto
  then have "set (deps_of ts cur) \<subseteq> set order"
    by (auto simp: deg remaining_def filter_empty_conv)
  then have "deps_before (deps_of ts) [] (order @ [cur])"
    using before by (simp add: deps_before_append)
  then show ?thesis using deg' dist' zero' q(2,3) out(2) by (simp add: kahn_inv_def)
qed

text \<open>The result: everything that can be ordered is ordered.\<close>

lemma kahn_result:
  "tasks_wf ts \<Longrightarrow> kahn_inv ts order deg queue \<Longrightarrow>
     (let full = order @ kahn ts deg queue
      in deps_before (deps_of ts) [] full \<and> distinct full \<and> set full \<subseteq> set (map fst ts) \<and>
         (\<forall>i \<in> set (map fst ts). set (deps_of ts i) \<subseteq> set full \<longrightarrow> i \<in> set full))"
proof (induction ts deg queue arbitrary: order rule: kahn.induct)
  case (1 ts deg)
  then have inv: "deg = remaining ts order" "set order = {i \<in> set (map fst ts). deg i = 0}"
    "distinct order" "deps_before (deps_of ts) [] order"
    by (simp_all add: kahn_inv_def)
  have "i \<in> set order" if "i \<in> set (map fst ts)" "set (deps_of ts i) \<subseteq> set order" for i
  proof -
    have "filter (\<lambda>d. d \<notin> set order) (deps_of ts i) = []"
      using that(2) by (auto simp: filter_empty_conv)
    then have "deg i = 0" unfolding inv(1) remaining_def by simp
    then show ?thesis using inv(2) that(1) by simp
  qed
  then show ?case using inv by auto
next
  case (2 ts deg cur queue)
  obtain deg' queue' where r: "relax_tasks cur ts (deg, queue) = (deg', queue')" by fastforce
  note kahn_inv_step [OF "2.prems" r]
  then have "kahn_inv ts (order @ [cur]) deg' queue'" by blast
  from "2.IH" [OF r [symmetric] "2.prems"(1) this] show ?case by (simp add: r)
qed

section \<open>Start of the algorithm\<close>

lemma count_degrees_eq:
  "tasks_wf ts \<Longrightarrow> count_degrees ts deg i = deg i + int (length (deps_of ts i))"
proof (induction ts arbitrary: deg)
  case (Cons x ts)
  obtain k t where x: "x = (k, t)" by fastforce
  with Cons.prems have k: "t_ID t = k" "k \<notin> set (map fst ts)" "tasks_wf ts"
    by (simp_all add: tasks_wf_Cons)
  then show ?case using Cons.IH [OF k(3)] deps_of_outside [OF k(2)]
    by (auto simp: x deps_of_Cons)
qed (simp add: deps_of_def)

lemma kahn_inv_start:
  assumes "tasks_wf ts" and "deg = count_degrees ts (\<lambda>_. 0)"
  shows "kahn_inv ts [] deg (sort (filter (\<lambda>i. deg i = 0) (map fst ts)))"
proof -
  have "deg = remaining ts []"
    using count_degrees_eq [OF assms(1), of "\<lambda>_. 0"] assms(2) by (auto simp: remaining_def)
  then show ?thesis using assms(1) by (auto simp: kahn_inv_def tasks_wf_def)
qed

lemma tasks_wf_ID: "tasks_wf ts \<Longrightarrow> (k, t) \<in> set ts \<Longrightarrow> t_ID t = k"
  by (auto simp: tasks_wf_def list_all_iff)

lemma map_of_ids:
  assumes "tasks_wf ts"
  shows "map (\<lambda>i. the (map_of ts i)) (map fst ts) = map snd ts"
  using assms by (auto simp: tasks_wf_def)

section \<open>Orders and cycles\<close>

definition position :: "'a list \<Rightarrow> 'a \<Rightarrow> nat" where
  "position xs x = length (takeWhile (\<lambda>y. y \<noteq> x) xs)"

lemma deps_before_position:
  assumes "deps_before D [] xs" and "i \<in> set xs" and "d \<in> set (D i)"
  shows "position xs d < position xs i"
proof -
  obtain ys zs where xs: "xs = ys @ i # zs" "i \<notin> set ys"
    using assms(2) by (meson split_list_first)
  have "d \<in> set ys" using assms(1,3) by (auto simp: xs deps_before_append)
  then have "length (takeWhile (\<lambda>y. y \<noteq> d) ys) < length ys"
    by (metis (mono_tags) length_takeWhile_le nat_less_le takeWhile_eq_all_conv takeWhile_eq_take take_all_iff order_refl)
  moreover have "takeWhile (\<lambda>y. y \<noteq> d) xs = takeWhile (\<lambda>y. y \<noteq> d) ys"
    using \<open>d \<in> set ys\<close> by (simp add: xs takeWhile_append1)
  moreover have "takeWhile (\<lambda>y. y \<noteq> i) xs = ys" using xs(2) by (auto simp: xs(1) takeWhile_tail intro: takeWhile_append2)
  ultimately show ?thesis by (simp add: position_def)
qed

lemma ordered_acyclic:
  assumes "deps_before (deps_of ts) [] xs" and "set (map fst ts) \<subseteq> set xs"
  shows "acyclic (dep_rel ts)"
proof (rule acyclicI_order)
  fix d i
  assume "(d, i) \<in> dep_rel ts"
  then have "position xs d < position xs i"
    using deps_before_position [OF assms(1)] assms(2) by (auto simp: dep_rel_def)
  then show "int (length xs) - int (position xs i) < int (length xs) - int (position xs d)" by simp
qed

lemma finite_dep_rel: "finite (dep_rel ts)"
proof (rule finite_subset)
  show "dep_rel ts \<subseteq> (\<Union>i \<in> set (map fst ts). set (deps_of ts i)) \<times> set (map fst ts)"
    by (auto simp: dep_rel_def)
qed simp

text \<open>A set of tasks each of which depends on one of the set contains a cycle.\<close>

lemma closed_set_cyclic:
  assumes "S \<noteq> {}" and "\<And>i. i \<in> S \<Longrightarrow> \<exists>d \<in> S. (d, i) \<in> dep_rel ts"
  shows "\<not> acyclic (dep_rel ts)"
proof
  assume "acyclic (dep_rel ts)"
  then have "wf (dep_rel ts)" by (rule finite_acyclic_wf [OF finite_dep_rel])
  then obtain z where "z \<in> S" "\<And>y. (y, z) \<in> dep_rel ts \<Longrightarrow> y \<notin> S"
    using assms(1) by (metis wfE_min ex_in_conv)
  then show False using assms(2) by blast
qed

lemma kahn_total:
  assumes wf: "tasks_wf ts" and known: "deps_known ts" and deg: "deg = count_degrees ts (\<lambda>_. 0)"
  defines "order \<equiv> kahn ts deg (sort (filter (\<lambda>i. deg i = 0) (map fst ts)))"
  shows "deps_before (deps_of ts) [] order" and "distinct order" and "set order \<subseteq> set (map fst ts)"
    and "length order = length ts \<longleftrightarrow> set order = set (map fst ts)"
    and "length order \<le> length ts"
    and "set order = set (map fst ts) \<longleftrightarrow> acyclic (dep_rel ts)"
proof -
  have res: "deps_before (deps_of ts) [] order" "distinct order" "set order \<subseteq> set (map fst ts)"
    "\<forall>i \<in> set (map fst ts). set (deps_of ts i) \<subseteq> set order \<longrightarrow> i \<in> set order"
    using kahn_result [OF wf kahn_inv_start [OF wf deg]] by (simp_all add: order_def Let_def)
  show "deps_before (deps_of ts) [] order" "distinct order" "set order \<subseteq> set (map fst ts)"
    using res by simp_all
  have card: "card (set order) = length order" "card (set (map fst ts)) = length ts"
    using res(2) wf distinct_card [of "map fst ts"] by (simp_all add: distinct_card tasks_wf_def)
  show "length order = length ts \<longleftrightarrow> set order = set (map fst ts)"
    using card card_subset_eq [OF _ res(3)] by (metis List.finite_set)
  show "length order \<le> length ts" using card card_mono [OF _ res(3)] by simp
  show "set order = set (map fst ts) \<longleftrightarrow> acyclic (dep_rel ts)"
  proof
    show "acyclic (dep_rel ts)" if "set order = set (map fst ts)"
      using ordered_acyclic [OF res(1)] that by simp
    show "set order = set (map fst ts)" if ac: "acyclic (dep_rel ts)"
    proof (rule ccontr)
      let ?S = "set (map fst ts) - set order"
      assume "set order \<noteq> set (map fst ts)"
      then have "?S \<noteq> {}" using res(3) by blast
      moreover have "\<exists>d \<in> ?S. (d, i) \<in> dep_rel ts" if i: "i \<in> ?S" for i
      proof -
        obtain d where "d \<in> set (deps_of ts i)" "d \<notin> set order" using res(4) i by blast
        moreover have "set (deps_of ts i) \<subseteq> set (map fst ts)" using known deps_known_iff [OF wf] by blast
        ultimately have "d \<in> ?S" "(d, i) \<in> dep_rel ts" using i by (auto simp: dep_rel_def)
        then show ?thesis by blast
      qed
      ultimately have "\<not> acyclic (dep_rel ts)" by (rule closed_set_cyclic)
      with ac show False by contradiction
    qed
  qed
qed

lemma TopologicalOrder_result:
  assumes "tasks_wf (g_tasks g)"
  shows "case TopologicalOrder g of
      Inr order \<Rightarrow>
        deps_known (g_tasks g) \<and> acyclic (dep_rel (g_tasks g)) \<and>
        mset order = mset (Graph_Snapshot g) \<and>
        deps_before (deps_of (g_tasks g)) [] (map t_ID order)
    | Inl (DagUnknownTask i d) \<Rightarrow>
        i \<in> set (map fst (g_tasks g)) \<and> d \<in> set (deps_of (g_tasks g) i) \<and> d \<notin> set (map fst (g_tasks g))
    | Inl (DagCycle n) \<Rightarrow>
        deps_known (g_tasks g) \<and> \<not> acyclic (dep_rel (g_tasks g)) \<and> 0 < n
    | Inl _ \<Rightarrow> False"
proof -
  let ?ts = "g_tasks g" and ?ids = "map fst (g_tasks g)"
  let ?deg = "count_degrees ?ts (\<lambda>_. 0)"
  let ?order = "kahn ?ts ?deg (sort (filter (\<lambda>i. ?deg i = 0) ?ids))"
  show ?thesis
  proof (cases "first_unknown ?ids ?ts")
    case (Some e)
    from first_unknown_Some [OF this] obtain k t d where "(k, t) \<in> set ?ts"
      "e = DagUnknownTask (t_ID t) d" "d \<in> set (t_Dependencies t)" "d \<notin> set ?ids" by blast
    then show ?thesis using Some deps_of_task [OF assms, of k t] tasks_wf_ID [OF assms, of k t]
      by (force simp: TopologicalOrder_def Let_def)
  next
    case None
    then have known: "deps_known ?ts" by (simp add: first_unknown_None deps_known_def)
    note k = kahn_total [OF assms known refl]
    show ?thesis
    proof (cases "length ?order = length ?ts")
      case True
      then have eq: "set ?order = set ?ids" using k(4) by simp
      then have "mset ?order = mset ?ids"
        using k(2) assms set_eq_iff_mset_eq_distinct unfolding tasks_wf_def by blast
      then have "mset (map (\<lambda>i. the (map_of ?ts i)) ?order) = mset (map snd ?ts)"
        by (metis map_of_ids [OF assms] mset_map)
      moreover have "map t_ID (map (\<lambda>i. the (map_of ?ts i)) ?order) = ?order"
      proof -
        have "t_ID (the (map_of ?ts i)) = i" if "i \<in> set ?order" for i
          using that eq assms tasks_wf_ID [OF assms] by (fastforce simp: tasks_wf_def)
        then show ?thesis by (simp add: map_idI)
      qed
      ultimately show ?thesis using None True known k(1,6) eq
        by (simp add: TopologicalOrder_def Let_def Graph_Snapshot_def)
    next
      case False
      then have "\<not> acyclic (dep_rel ?ts)" using k(4,6) by simp
      then show ?thesis using None False known k(5) by (simp add: TopologicalOrder_def Let_def)
    qed
  qed
qed

lemma topological_order_facts:
  assumes "tasks_wf (g_tasks g)" and "TopologicalOrder g = Inr order"
  shows "deps_known (g_tasks g)" and "acyclic (dep_rel (g_tasks g))"
    and "mset order = mset (Graph_Snapshot g)" and "deps_before (deps_of (g_tasks g)) [] (map t_ID order)"
  using TopologicalOrder_result [OF assms(1)] by (simp_all add: assms(2))

section \<open>Properties\<close>

text \<open>
  C16. \<open>TopologicalOrder\<close> is right on every graph and always returns: an order is a permutation of
  the tasks in which every task comes after all its dependencies, and it is returned exactly when
  all dependencies are known and the graph has no cycle; otherwise the error names a task with an
  unknown dependency, or reports a cycle with a positive number of unreachable tasks.
\<close>

theorem topological_order_correct:
  assumes "tasks_wf (g_tasks g)"
  shows "case TopologicalOrder g of
      Inr order \<Rightarrow>
        deps_known (g_tasks g) \<and> acyclic (dep_rel (g_tasks g)) \<and>
        mset order = mset (Graph_Snapshot g) \<and>
        deps_before (deps_of (g_tasks g)) [] (map t_ID order)
    | Inl (DagUnknownTask i d) \<Rightarrow>
        i \<in> set (map fst (g_tasks g)) \<and> d \<in> set (deps_of (g_tasks g) i) \<and> d \<notin> set (map fst (g_tasks g))
    | Inl (DagCycle n) \<Rightarrow>
        deps_known (g_tasks g) \<and> \<not> acyclic (dep_rel (g_tasks g)) \<and> 0 < n
    | Inl _ \<Rightarrow> False"
  using assms by (rule TopologicalOrder_result)

definition example_task :: "string \<Rightarrow> string list \<Rightarrow> Task" where
  "example_task ident deps =
     \<lparr>t_ID = ident, t_Description = [], t_Dependencies = deps, t_Tags = [], t_MaxRetries = 0,
      t_RetryDelay = 0, t_Action = True, t_Rollback = False, t_Status = StatusPending, t_Result = VNil,
      t_ErrMsg = [], t_StartedAt = 0, t_CompletedAt = 0, t_RetryCount = 0, t_RCAReport = [],
      t_Progress = 0\<rparr>"

definition example_graph :: Graph where
  "example_graph = \<lparr>g_ID = ''g'', g_tasks =
     [(''b'', example_task ''b'' [''a'']), (''a'', example_task ''a'' []),
      (''c'', example_task ''c'' [''b'', ''a''])], g_events = []\<rparr>"

definition cyclic_graph :: Graph where
  "cyclic_graph = example_graph\<lparr>g_tasks :=
     [(''a'', example_task ''a'' [''b'']), (''b'', example_task ''b'' [''a''])]\<rparr>"

theorem topological_order_correct_witness:
  "deps_before (deps_of (g_tasks example_graph)) [] [''a'', ''b'', ''c''] \<and>
   \<not> acyclic (dep_rel (g_tasks cyclic_graph))"
proof -
  have wf: "tasks_wf (g_tasks example_graph)" "tasks_wf (g_tasks cyclic_graph)"
    by (simp_all add: tasks_wf_def example_graph_def cyclic_graph_def example_task_def)
  have "case TopologicalOrder example_graph of Inl e \<Rightarrow> False
      | Inr order \<Rightarrow> map t_ID order = [''a'', ''b'', ''c'']" by code_simp
  then have "deps_before (deps_of (g_tasks example_graph)) [] [''a'', ''b'', ''c'']"
    using topological_order_correct [OF wf(1)] by (auto split: sum.splits)
  moreover have "case TopologicalOrder cyclic_graph of Inr order \<Rightarrow> False
      | Inl e \<Rightarrow> (case e of DagCycle n \<Rightarrow> True | _ \<Rightarrow> False)" by code_simp
  then have "\<not> acyclic (dep_rel (g_tasks cyclic_graph))"
    using topological_order_correct [OF wf(2)] by (auto split: sum.splits DagError.splits)
  ultimately show ?thesis by blast
qed

subsection \<open>Independence of the iteration order\<close>

lemma tasks_perm:
  assumes "tasks_wf ts" and "mset us = mset ts"
  shows "tasks_wf us" and "map_of us = map_of ts" and "mset (map fst us) = mset (map fst ts)"
    and "set us = set ts" and "length us = length ts"
proof -
  show sets: "set us = set ts" by (rule mset_eq_setD [OF assms(2)])
  show "length us = length ts" by (rule mset_eq_length [OF assms(2)])
  show keys: "mset (map fst us) = mset (map fst ts)" by (simp add: assms(2))
  have "distinct (map fst us)"
    using assms(1) mset_eq_imp_distinct_iff [OF keys] by (simp add: tasks_wf_def)
  then show "tasks_wf us" using assms(1) sets by (simp add: tasks_wf_def list_all_iff)
  show "map_of us = map_of ts"
    using \<open>distinct (map fst us)\<close> assms(1) sets by (simp add: map_of_inject_set tasks_wf_def)
qed

lemma relax_tasks_perm:
  assumes wf: "tasks_wf ts" "tasks_wf us" and perm: "mset us = mset ts"
    and inv: "kahn_inv ts order deg (cur # queue)"
  shows "relax_tasks cur us (deg, queue) = relax_tasks cur ts (deg, queue)"
proof -
  have deps: "deps_of us = deps_of ts" using tasks_perm(2) [OF wf(1) perm] by (simp add: deps_of_def fun_eq_iff)
  have ge: "\<forall>i. int (count_list (deps_of ts i) cur) \<le> deg i"
    using inv count_le_remaining by (auto simp: kahn_inv_def)
  have sq: "sorted queue" using inv by (simp add: kahn_inv_def)
  have "mset (released cur us deg) = mset (released cur ts deg)"
    by (simp add: released_def perm)
  moreover obtain q where "relax_tasks cur ts (deg, queue) =
      ((\<lambda>i. deg i - int (count_list (deps_of ts i) cur)), q)" "sorted q"
      "mset q = mset queue + mset (released cur ts deg)"
    using relax_tasks_eq [OF wf(1) ge sq] by blast
  moreover obtain q' where "relax_tasks cur us (deg, queue) =
      ((\<lambda>i. deg i - int (count_list (deps_of us i) cur)), q')" "sorted q'"
      "mset q' = mset queue + mset (released cur us deg)"
    using relax_tasks_eq [OF wf(2) ge [folded deps] sq] by blast
  ultimately show ?thesis using deps by (metis properties_for_sort)
qed

lemma kahn_perm:
  "tasks_wf ts \<Longrightarrow> tasks_wf us \<Longrightarrow> mset us = mset ts \<Longrightarrow> kahn_inv ts order deg queue \<Longrightarrow>
     kahn us deg queue = kahn ts deg queue"
proof (induction ts deg queue arbitrary: order rule: kahn.induct)
  case (2 ts deg cur queue)
  obtain deg' queue' where r: "relax_tasks cur ts (deg, queue) = (deg', queue')" by fastforce
  with relax_tasks_perm [OF "2.prems"] have r': "relax_tasks cur us (deg, queue) = (deg', queue')" by simp
  have "kahn_inv ts (order @ [cur]) deg' queue'"
    using kahn_inv_step [OF "2.prems"(1,4) r] by blast
  from "2.IH" [OF r [symmetric] "2.prems"(1-3) this] show ?case by (simp add: r r')
qed simp

text \<open>
  The order is reproducible: it does not depend on the order in which Go happens to iterate
  over the task map. For a graph whose dependencies are known, two iteration orders of the same
  tasks give the same result, error or not.
\<close>

theorem topological_order_deterministic:
  assumes "tasks_wf (g_tasks g)" and "deps_known (g_tasks g)"
    and "mset (g_tasks g') = mset (g_tasks g)"
  shows "TopologicalOrder g' = TopologicalOrder g"
proof -
  let ?ts = "g_tasks g" and ?us = "g_tasks g'"
  note wf = tasks_perm(1) [OF assms(1,3)] and mo = tasks_perm(2) [OF assms(1,3)]
    and sets = tasks_perm(4,5,3) [OF assms(1,3)]
  have none: "first_unknown (map fst ?ts) ?ts = None" "first_unknown (map fst ?us) ?us = None"
    using assms(2) sets(1) by (simp_all add: first_unknown_None deps_known_def list_all_iff)
  have deg: "count_degrees ?us (\<lambda>_. 0) = count_degrees ?ts (\<lambda>_. 0)"
    using count_degrees_eq [OF wf] count_degrees_eq [OF assms(1)] mo by (auto simp: deps_of_def)
  let ?deg = "count_degrees ?ts (\<lambda>_. 0)"
  have "sort (filter (\<lambda>i. ?deg i = 0) (map fst ?us)) = sort (filter (\<lambda>i. ?deg i = 0) (map fst ?ts))"
    by (rule properties_for_sort [symmetric]) (simp_all only: mset_sort mset_filter sets(3) sorted_sort)
  with kahn_perm [OF assms(1) wf assms(3) kahn_inv_start [OF assms(1) refl]] none deg mo sets(2)
  show ?thesis by (simp add: TopologicalOrder_def Let_def)
qed

theorem topological_order_deterministic_witness:
  "TopologicalOrder (example_graph\<lparr>g_tasks := rev (g_tasks example_graph)\<rparr>) = TopologicalOrder example_graph"
  by (rule topological_order_deterministic)
     (simp_all add: tasks_wf_def deps_known_def example_graph_def example_task_def)

end
