(* ===== verification/DagResolver.thy ===== *)
theory DagResolver
  imports DagTopo
begin

text \<open>
  The parallel executor of task graphs, \<open>pkg/dag/resolver.go\<close>: \<open>Run\<close>, the goroutine of each
  task, retries, and the skipping of dependents. Every definition below is what the code does
  between two points at which another goroutine can interleave: a region under the graph's lock,
  one channel operation, one check of the context. \<open>dag_step\<close> interleaves the main loop and the
  goroutines. What a task's action and the AI answer, and when the context is cancelled, is chosen
  by the environment. Clock readings and the text of the retry event, which contains a formatted
  duration, are arbitrary.
\<close>

section \<open>Reading the graph\<close>

definition task_status :: "Graph \<Rightarrow> string \<Rightarrow> TaskStatus option" where
  "task_status g i = map_option t_Status (map_of (g_tasks g) i)"

definition depsCompleted :: "Graph \<Rightarrow> Task \<Rightarrow> bool" where
  "depsCompleted g t = list_all (\<lambda>d. task_status g d = Some StatusCompleted) (t_Dependencies t)"

definition readyTasks :: "Graph \<Rightarrow> string list" where
  "readyTasks g = map (\<lambda>(k, t). t_ID t)
     (filter (\<lambda>(k, t). t_Status t = StatusPending \<and> depsCompleted g t) (g_tasks g))"

definition allTerminal :: "Graph \<Rightarrow> bool" where
  "allTerminal g = list_all (\<lambda>(k, t). terminal_status (t_Status t)) (g_tasks g)"

text \<open>The first loop of \<open>skipDependents\<close>.\<close>

definition to_skip :: "string \<Rightarrow> Graph \<Rightarrow> string list" where
  "to_skip failedID g = map (\<lambda>(k, t). t_ID t)
     (filter (\<lambda>(k, t). t_Status t = StatusPending \<and> failedID \<in> set (t_Dependencies t)) (g_tasks g))"

definition summariseFailures :: "Graph \<Rightarrow> DagError option" where
  "summariseFailures g =
     (let failed = map (\<lambda>(k, t). (t_ID t, t_ErrMsg t))
        (filter (\<lambda>(k, t). t_Status t = StatusFailed) (g_tasks g))
      in if failed = [] then None else Some (DagFailed failed))"

section \<open>Running an action\<close>

text \<open>What the action does: it returns a value and an error, or panics.\<close>

datatype ActionOutcome = OutReturn any "string option" | OutPanic string

definition runAction :: "Codec \<Rightarrow> Task \<Rightarrow> ActionOutcome \<Rightarrow> string + any" where
  "runAction H t out =
     (if \<not> t_Action t then Inl (''task '' @ c_Quote H (t_ID t) @ '' has no Action defined'')
      else case out of
             OutReturn v None \<Rightarrow> Inr v
           | OutReturn v (Some e) \<Rightarrow> Inl e
           | OutPanic p \<Rightarrow> Inl (''panic in task '' @ c_Quote H (t_ID t) @ '': '' @ p))"

definition record_success :: "any \<Rightarrow> Task \<Rightarrow> Task" where
  "record_success v t = t\<lparr>t_Result := v, t_Progress := 1\<rparr>"

definition record_failure :: "nat \<Rightarrow> string \<Rightarrow> string \<Rightarrow> Task \<Rightarrow> Task" where
  "record_failure attempt rca errMsg t =
     t\<lparr>t_RetryCount := int attempt + 1, t_RCAReport := rca, t_ErrMsg := errMsg\<rparr>"

text \<open>Whether the failed attempt (counted from 0) is followed by another.\<close>

definition retries_left :: "int \<Rightarrow> nat \<Rightarrow> bool" where
  "retries_left maxR attempt =
     (if maxR = 0 then False
      else if maxR > 0 \<and> int attempt \<ge> maxR then False
      else True)"

text \<open>
  The delay before the next attempt. The product is computed in \<open>float64\<close>, exactly as long as
  the base is below 2 to the 53 nanoseconds (104 days); the conversion of a value outside the range
  of \<open>int64\<close> depends on the platform and is the parameter \<open>out_of_range\<close>.
\<close>

definition float_to_duration :: "(int \<Rightarrow> duration) \<Rightarrow> int \<Rightarrow> duration" where
  "float_to_duration out_of_range x = (if x < 2 ^ 63 then x else out_of_range x)"

definition backoff_delay :: "(int \<Rightarrow> duration) \<Rightarrow> duration \<Rightarrow> nat \<Rightarrow> duration" where
  "backoff_delay out_of_range retryDelay attempt =
     (let base = (if retryDelay \<le> 0 then Second else retryDelay);
          delay = float_to_duration out_of_range (base * 2 ^ attempt)
      in if delay > 30 * Second then 30 * Second else delay)"

definition shortRCA :: "string \<Rightarrow> string" where
  "shortRCA report =
     (if report = [] then ''no AI analysis available''
      else if length report > 80 then take 77 report @ ''...''
      else report)"

section \<open>The state of an execution\<close>

text \<open>
  \<open>skipDependents\<close> is recursive; the goroutine's stack is a list of pending items: \<open>SkipCall d\<close>
  is a call for \<open>d\<close> that has not read the graph yet, \<open>SkipSet i d\<close> the assignment to the
  dependent \<open>i\<close> of \<open>d\<close> followed by the call for \<open>i\<close>.
\<close>

datatype SkipItem = SkipCall string | SkipSet string string

datatype GoPhase =
    G_ACQUIRE
  | G_LOOP nat
  | G_START nat
  | G_ACTION nat
  | G_SUCCESS any
  | G_COMPLETE
  | G_FAILURE nat string
  | G_BACKOFF nat
  | G_FAIL
  | G_SKIP "SkipItem list"
  | G_SKIPSELF bool string
  | G_RELEASE
  | G_EXIT
  | G_GONE

record Goroutine =
  go_task :: string
  go_phase :: GoPhase

datatype MainPhase =
    M_LOOP
  | M_READY
  | M_CHECK
  | M_POLL
  | M_DISPATCH "string list"
  | M_WAIT
  | M_RETURNED "DagError option"

record Exec =
  x_graph :: Graph
  x_conc :: int
  x_sem :: nat
  x_running :: int
  x_go :: "Goroutine list"
  x_main :: MainPhase
  x_ctx :: bool

text \<open>\<open>WithConcurrency\<close> and \<open>NewResolver\<close>: the capacity of the semaphore.\<close>

definition WithConcurrency :: "int \<Rightarrow> int \<Rightarrow> int" where
  "WithConcurrency n concurrency = (if n > 0 then n else concurrency)"

definition NewResolver :: "(int \<Rightarrow> int) list \<Rightarrow> int" where
  "NewResolver opts = fold (\<lambda>f c. f c) opts 4"

definition dag_start :: "int \<Rightarrow> Graph \<Rightarrow> Exec" where
  "dag_start conc g =
     \<lparr>x_graph = g, x_conc = conc, x_sem = 0, x_running = 0, x_go = [],
      x_main = (case TopologicalOrder g of Inl e \<Rightarrow> M_RETURNED (Some e) | Inr _ \<Rightarrow> M_LOOP),
      x_ctx = False\<rparr>"

section \<open>Steps\<close>

definition go_at :: "Exec \<Rightarrow> nat \<Rightarrow> (string \<times> GoPhase) option" where
  "go_at s j = (if j < length (x_go s) then Some (go_task (x_go s ! j), go_phase (x_go s ! j)) else None)"

definition set_go :: "nat \<Rightarrow> GoPhase \<Rightarrow> Exec \<Rightarrow> Exec" where
  "set_go j p s = s\<lparr>x_go := (x_go s)[j := (x_go s ! j)\<lparr>go_phase := p\<rparr>]\<rparr>"

definition set_graph :: "Graph \<Rightarrow> Exec \<Rightarrow> Exec" where
  "set_graph g s = s\<lparr>x_graph := g\<rparr>"

definition set_main :: "MainPhase \<Rightarrow> Exec \<Rightarrow> Exec" where
  "set_main m s = s\<lparr>x_main := m\<rparr>"

definition spawn :: "string \<Rightarrow> Exec \<Rightarrow> Exec" where
  "spawn i s = s\<lparr>x_running := x_running s + 1, x_go := x_go s @ [\<lparr>go_task = i, go_phase = G_ACQUIRE\<rparr>]\<rparr>"

datatype DagLabel = DMain | DGo nat | DCancel

text \<open>Main loop: \<open>Run\<close>. Goroutine: the function literal of \<open>Run\<close>, \<open>executeTask\<close>, \<open>skipDependents\<close>.\<close>

inductive dag_step :: "Codec \<Rightarrow> DagLabel \<Rightarrow> Exec \<Rightarrow> Exec \<Rightarrow> bool" for H :: Codec where
  cancel:
    "dag_step H DCancel s (s\<lparr>x_ctx := True\<rparr>)"
| main_cancelled:
    "x_main s = M_LOOP \<or> x_main s = M_POLL \<Longrightarrow> x_ctx s \<Longrightarrow>
     dag_step H DMain s (set_main (M_RETURNED (Some DagCtx)) s)"
| main_go_on:
    "x_main s = M_LOOP \<Longrightarrow> \<not> x_ctx s \<Longrightarrow> dag_step H DMain s (set_main M_READY s)"
| main_ready:
    "x_main s = M_READY \<Longrightarrow> readyTasks (x_graph s) \<noteq> [] \<Longrightarrow>
     dag_step H DMain s (set_main (M_DISPATCH (readyTasks (x_graph s))) s)"
| main_none_ready:
    "x_main s = M_READY \<Longrightarrow> readyTasks (x_graph s) = [] \<Longrightarrow> dag_step H DMain s (set_main M_CHECK s)"
| main_check:
    "x_main s = M_CHECK \<Longrightarrow>
     dag_step H DMain s (set_main (if allTerminal (x_graph s) then M_WAIT else M_POLL) s)"
| main_poll:
    "x_main s = M_POLL \<Longrightarrow> dag_step H DMain s (set_main M_LOOP s)"
| main_dispatch:
    "x_main s = M_DISPATCH (i # is) \<Longrightarrow>
     dag_step H DMain s (set_main (M_DISPATCH is)
       (spawn i (set_graph (setStatus now now' i StatusQueued ''queued'' [] (x_graph s)) s)))"
| main_dispatched:
    "x_main s = M_DISPATCH [] \<Longrightarrow> dag_step H DMain s (set_main M_LOOP s)"
| main_wait:
    "x_main s = M_WAIT \<Longrightarrow> list_all (\<lambda>g. go_phase g = G_GONE) (x_go s) \<Longrightarrow>
     dag_step H DMain s (set_main (M_RETURNED (summariseFailures (x_graph s))) s)"
| go_acquire:
    "go_at s j = Some (i, G_ACQUIRE) \<Longrightarrow> int (x_sem s) < x_conc s \<Longrightarrow>
     dag_step H (DGo j) s (set_go j (G_LOOP 0) (s\<lparr>x_sem := x_sem s + 1\<rparr>))"
| go_acquire_cancelled:
    "go_at s j = Some (i, G_ACQUIRE) \<Longrightarrow> x_ctx s \<Longrightarrow>
     dag_step H (DGo j) s (set_go j (G_SKIPSELF False ''context cancelled'') s)"
| go_loop:
    "go_at s j = Some (i, G_LOOP attempt) \<Longrightarrow>
     dag_step H (DGo j) s
       (set_go j (if x_ctx s then G_SKIPSELF True ''context cancelled'' else G_START attempt) s)"
| go_start:
    "go_at s j = Some (i, G_START attempt) \<Longrightarrow>
     dag_step H (DGo j) s (set_go j (G_ACTION attempt)
       (set_graph (setStatus now now' i StatusRunning (''attempt '' @ itoa (attempt + 1)) [] (x_graph s)) s))"
| go_action:
    "go_at s j = Some (i, G_ACTION attempt) \<Longrightarrow> Graph_Get (x_graph s) i = Some t \<Longrightarrow>
     dag_step H (DGo j) s
       (set_go j (case runAction H t out of Inr v \<Rightarrow> G_SUCCESS v | Inl e \<Rightarrow> G_FAILURE attempt e) s)"
| go_success:
    "go_at s j = Some (i, G_SUCCESS v) \<Longrightarrow>
     dag_step H (DGo j) s (set_go j G_COMPLETE
       (set_graph (upd_task i (record_success v) (x_graph s)) s))"
| go_complete:
    "go_at s j = Some (i, G_COMPLETE) \<Longrightarrow>
     dag_step H (DGo j) s (set_go j G_RELEASE
       (set_graph (setStatus now now' i StatusCompleted ''completed'' [] (x_graph s)) s))"
| go_failure:
    "go_at s j = Some (i, G_FAILURE attempt e) \<Longrightarrow> Graph_Get (x_graph s) i = Some t \<Longrightarrow>
     g1 = upd_task i (record_failure attempt rca e) (x_graph s) \<Longrightarrow>
     dag_step H (DGo j) s
       (if retries_left (t_MaxRetries t) attempt
        then set_go j (G_BACKOFF attempt) (set_graph (Graph_emit now ev g1) s)
        else set_go j G_FAIL (set_graph g1 s))"
| go_backoff:
    "go_at s j = Some (i, G_BACKOFF attempt) \<Longrightarrow>
     dag_step H (DGo j) s (set_go j (G_LOOP (attempt + 1)) s)"
| go_backoff_cancelled:
    "go_at s j = Some (i, G_BACKOFF attempt) \<Longrightarrow> x_ctx s \<Longrightarrow>
     dag_step H (DGo j) s (set_go j (G_SKIPSELF True ''context cancelled during retry delay'') s)"
| go_fail:
    "go_at s j = Some (i, G_FAIL) \<Longrightarrow> Graph_Get (x_graph s) i = Some t \<Longrightarrow>
     dag_step H (DGo j) s (set_go j (G_SKIP [SkipCall i])
       (set_graph (setStatus now now' i StatusFailed ''all retries exhausted'' (t_ErrMsg t) (x_graph s)) s))"
| go_skip_call:
    "go_at s j = Some (i, G_SKIP (SkipCall d # stack)) \<Longrightarrow>
     dag_step H (DGo j) s
       (set_go j (G_SKIP (map (\<lambda>k. SkipSet k d) (to_skip d (x_graph s)) @ stack)) s)"
| go_skip_set:
    "go_at s j = Some (i, G_SKIP (SkipSet k d # stack)) \<Longrightarrow>
     dag_step H (DGo j) s (set_go j (G_SKIP (SkipCall k # stack))
       (set_graph (setStatus now now' k StatusSkipped
          (''dependency '' @ c_Quote H d @ '' failed'') [] (x_graph s)) s))"
| go_skip_done:
    "go_at s j = Some (i, G_SKIP []) \<Longrightarrow> dag_step H (DGo j) s (set_go j G_RELEASE s)"
| go_skip_self:
    "go_at s j = Some (i, G_SKIPSELF slot msg) \<Longrightarrow>
     dag_step H (DGo j) s (set_go j (if slot then G_RELEASE else G_EXIT)
       (set_graph (setStatus now now' i StatusSkipped msg [] (x_graph s)) s))"
| go_release:
    "go_at s j = Some (i, G_RELEASE) \<Longrightarrow>
     dag_step H (DGo j) s (set_go j G_EXIT (s\<lparr>x_sem := x_sem s - 1\<rparr>))"
| go_exit:
    "go_at s j = Some (i, G_EXIT) \<Longrightarrow>
     dag_step H (DGo j) s (set_go j G_GONE (s\<lparr>x_running := x_running s - 1\<rparr>))"

inductive_cases dag_main_cases: "dag_step H DMain s s'"
inductive_cases dag_go_cases: "dag_step H (DGo j) s s'"

abbreviation dag_run :: "Codec \<Rightarrow> int \<Rightarrow> Graph \<Rightarrow> DagLabel list \<Rightarrow> Exec \<Rightarrow> bool" where
  "dag_run H conc g \<equiv> run (dag_start conc g) (dag_step H)"

section \<open>Rolling back\<close>

text \<open>
  \<open>RollbackAll\<close>: \<open>undo i\<close> is the error of the rollback function of the task \<open>i\<close>, if any. The clock
  is read twice for each task that is undone.
\<close>

fun rollback_loop ::
    "(string \<Rightarrow> string option) \<Rightarrow> (string \<Rightarrow> instant) \<Rightarrow> Task list \<Rightarrow> Graph \<Rightarrow> DagError list \<times> Graph" where
  "rollback_loop undo clock [] g = ([], g)"
| "rollback_loop undo clock (t # ts) g =
     (if task_status g (t_ID t) \<noteq> Some StatusCompleted \<or> \<not> t_Rollback t
      then rollback_loop undo clock ts g
      else case undo (t_ID t) of
             Some err \<Rightarrow>
               (let (errs, g) = rollback_loop undo clock ts g
                in (DagRollbackFailed (t_ID t) err # errs, g))
           | None \<Rightarrow> rollback_loop undo clock ts
               (setStatus (clock (t_ID t)) (clock (t_ID t)) (t_ID t) StatusRolledBack ''rolled back'' [] g))"

definition RollbackAll ::
    "(string \<Rightarrow> string option) \<Rightarrow> (string \<Rightarrow> instant) \<Rightarrow> Graph \<Rightarrow> DagError list \<times> Graph" where
  "RollbackAll undo clock g =
     (case TopologicalOrder g of
        Inl err \<Rightarrow> ([err], g)
      | Inr order \<Rightarrow> rollback_loop undo clock (rev order) g)"

end
