(* ===== verification/DagRun.thy ===== *)
theory DagRun
  imports DagResolver
begin

text \<open>
  Runs of the graph executor: the invariant of its goroutines, its main loop and its semaphore in
  every interleaving, and what follows for scheduling, skipping, termination and results.
\<close>

section \<open>Effects on the graph\<close>

lemma map_of_upd_task:
  "map_of (g_tasks (upd_task k f g)) i =
     (if i = k then map_option f (map_of (g_tasks g) k) else map_of (g_tasks g) i)"
proof -
  have "map_of (map (\<lambda>(k', t). if k' = k then (k', f t) else (k', t)) ts) i =
      (if i = k then map_option f (map_of ts k) else map_of ts i)" for ts
    by (induction ts) (auto split: if_splits)
  then show ?thesis by (simp add: upd_task_def)
qed

lemma upd_task_keys [simp]: "map fst (g_tasks (upd_task k f g)) = map fst (g_tasks g)"
  by (auto simp: upd_task_def split: if_splits)

lemma upd_task_wf:
  assumes "tasks_wf (g_tasks g)" and "\<And>t. t_ID (f t) = t_ID t"
  shows "tasks_wf (g_tasks (upd_task k f g))"
proof -
  have "list_all (\<lambda>(k', t). t_ID t = k') (map (\<lambda>(k', t). if k' = k then (k', f t) else (k', t)) ts)"
    if "list_all (\<lambda>(k', t). t_ID t = k') ts" for ts
    using that assms(2) by (induction ts) (auto split: if_splits)
  then have "list_all (\<lambda>(k', t). t_ID t = k') (g_tasks (upd_task k f g))"
    using assms(1) by (simp add: tasks_wf_def upd_task_def)
  then show ?thesis using assms(1) unfolding tasks_wf_def upd_task_keys by blast
qed

lemma emit_tasks [simp]: "g_tasks (Graph_emit now ev g) = g_tasks g"
  by (simp add: Graph_emit_def)

lemma set_task_status_sel [simp]:
  "t_ID (set_task_status now st e t) = t_ID t"
  "t_Dependencies (set_task_status now st e t) = t_Dependencies t"
  "t_Status (set_task_status now st e t) = st"
  "t_MaxRetries (set_task_status now st e t) = t_MaxRetries t"
  by (simp_all add: set_task_status_def Let_def)

lemma record_sel [simp]:
  "t_ID (record_success v t) = t_ID t" "t_Dependencies (record_success v t) = t_Dependencies t"
  "t_Status (record_success v t) = t_Status t"
  "t_ID (record_failure n r e t) = t_ID t" "t_Dependencies (record_failure n r e t) = t_Dependencies t"
  "t_Status (record_failure n r e t) = t_Status t"
  by (simp_all add: record_success_def record_failure_def)

lemma setStatus_tasks:
  "g_tasks (setStatus now now' k v m e g) =
     (if map_of (g_tasks g) k = None then g_tasks g
      else g_tasks (upd_task k (set_task_status now v e) g))"
  by (simp add: setStatus_def)

lemma setStatus_status:
  "task_status (setStatus now now' k v m e g) =
     (if task_status g k = None then task_status g else (task_status g)(k \<mapsto> v))"
  by (auto simp: task_status_def setStatus_tasks map_of_upd_task fun_eq_iff)

lemma setStatus_wf: "tasks_wf (g_tasks g) \<Longrightarrow> tasks_wf (g_tasks (setStatus now now' k v m e g))"
  by (simp add: setStatus_tasks upd_task_wf)

lemma deps_of_upd_task:
  "(\<And>t. t_Dependencies (f t) = t_Dependencies t) \<Longrightarrow>
     deps_of (g_tasks (upd_task k f g)) = deps_of (g_tasks g)"
  by (auto simp: deps_of_def fun_eq_iff map_of_upd_task split: option.split)

lemma setStatus_deps [simp]: "deps_of (g_tasks (setStatus now now' k v m e g)) = deps_of (g_tasks g)"
  by (simp add: setStatus_tasks deps_of_upd_task)

lemma upd_task_status:
  "(\<And>t. t_Status (f t) = t_Status t) \<Longrightarrow> task_status (upd_task k f g) = task_status g"
  by (auto simp: task_status_def map_of_upd_task fun_eq_iff option.map_comp comp_def)

lemma emit_status [simp]: "task_status (Graph_emit now ev g) = task_status g"
  by (simp add: task_status_def fun_eq_iff)

lemma status_task:
  "tasks_wf (g_tasks g) \<Longrightarrow> (k, t) \<in> set (g_tasks g) \<Longrightarrow> task_status g k = Some (t_Status t)"
  by (simp add: task_status_def tasks_wf_def)

lemma task_of_status: "task_status g k = Some v \<Longrightarrow> \<exists>t. (k, t) \<in> set (g_tasks g) \<and> t_Status t = v"
  by (auto simp: task_status_def dest: map_of_SomeD)

text \<open>The scans of the code in terms of statuses and dependencies.\<close>

lemma readyTasks_set:
  assumes "tasks_wf (g_tasks g)"
  shows "i \<in> set (readyTasks g) \<longleftrightarrow> task_status g i = Some StatusPending \<and>
    (\<forall>d \<in> set (deps_of (g_tasks g) i). task_status g d = Some StatusCompleted)"
proof
  assume "i \<in> set (readyTasks g)"
  then obtain k t where t: "(k, t) \<in> set (g_tasks g)" "t_Status t = StatusPending" "depsCompleted g t" "i = t_ID t"
    by (auto simp: readyTasks_def)
  moreover have "t_ID t = k" by (rule tasks_wf_ID [OF assms t(1)])
  ultimately show "task_status g i = Some StatusPending \<and>
      (\<forall>d \<in> set (deps_of (g_tasks g) i). task_status g d = Some StatusCompleted)"
    using status_task [OF assms t(1)] deps_of_task [OF assms t(1)]
    by (simp add: depsCompleted_def list_all_iff)
next
  assume i: "task_status g i = Some StatusPending \<and>
    (\<forall>d \<in> set (deps_of (g_tasks g) i). task_status g d = Some StatusCompleted)"
  then obtain t where t: "(i, t) \<in> set (g_tasks g)" "t_Status t = StatusPending"
    using task_of_status by blast
  with i show "i \<in> set (readyTasks g)"
    using deps_of_task [OF assms t(1)] tasks_wf_ID [OF assms t(1)]
    by (force simp: readyTasks_def depsCompleted_def list_all_iff)
qed

lemma readyTasks_distinct: "tasks_wf (g_tasks g) \<Longrightarrow> distinct (readyTasks g)"
proof -
  assume wf: "tasks_wf (g_tasks g)"
  then have "readyTasks g = map fst (filter (\<lambda>(k, t). t_Status t = StatusPending \<and> depsCompleted g t) (g_tasks g))"
    using tasks_wf_ID [OF wf] by (auto simp: readyTasks_def)
  then show ?thesis using wf by (simp add: tasks_wf_def distinct_map_filter)
qed

lemma to_skip_set:
  assumes "tasks_wf (g_tasks g)"
  shows "i \<in> set (to_skip d g) \<longleftrightarrow> task_status g i = Some StatusPending \<and> d \<in> set (deps_of (g_tasks g) i)"
proof
  assume "i \<in> set (to_skip d g)"
  then obtain k t where t: "(k, t) \<in> set (g_tasks g)" "t_Status t = StatusPending" "d \<in> set (t_Dependencies t)" "i = t_ID t"
    by (auto simp: to_skip_def)
  then show "task_status g i = Some StatusPending \<and> d \<in> set (deps_of (g_tasks g) i)"
    using status_task [OF assms t(1)] deps_of_task [OF assms t(1)] tasks_wf_ID [OF assms t(1)] by simp
next
  assume i: "task_status g i = Some StatusPending \<and> d \<in> set (deps_of (g_tasks g) i)"
  then obtain t where t: "(i, t) \<in> set (g_tasks g)" "t_Status t = StatusPending"
    using task_of_status by blast
  with i show "i \<in> set (to_skip d g)"
    using deps_of_task [OF assms t(1)] tasks_wf_ID [OF assms t(1)] by (force simp: to_skip_def)
qed

lemma allTerminal_iff:
  assumes "tasks_wf (g_tasks g)"
  shows "allTerminal g \<longleftrightarrow> (\<forall>i v. task_status g i = Some v \<longrightarrow> terminal_status v)"
  using status_task [OF assms] task_of_status
  by (fastforce simp: allTerminal_def list_all_iff)

section \<open>The invariant\<close>

text \<open>The statuses that the task of a goroutine can have in each phase.\<close>

fun phase_statuses :: "GoPhase \<Rightarrow> TaskStatus set" where
  "phase_statuses G_ACQUIRE = {StatusQueued}"
| "phase_statuses (G_LOOP _) = {StatusQueued, StatusRunning}"
| "phase_statuses (G_START _) = {StatusQueued, StatusRunning}"
| "phase_statuses (G_SKIPSELF slot _) = (if slot then {StatusQueued, StatusRunning} else {StatusQueued})"
| "phase_statuses (G_SKIP _) = {StatusFailed}"
| "phase_statuses G_RELEASE = {StatusCompleted, StatusFailed, StatusSkipped}"
| "phase_statuses G_EXIT = {StatusCompleted, StatusFailed, StatusSkipped}"
| "phase_statuses G_GONE = {StatusCompleted, StatusFailed, StatusSkipped}"
| "phase_statuses _ = {StatusRunning}"

fun holds_slot :: "GoPhase \<Rightarrow> bool" where
  "holds_slot G_ACQUIRE = False"
| "holds_slot (G_SKIPSELF slot _) = slot"
| "holds_slot G_EXIT = False"
| "holds_slot G_GONE = False"
| "holds_slot _ = True"

abbreviation broken :: "(string \<Rightarrow> TaskStatus option) \<Rightarrow> string \<Rightarrow> bool" where
  "broken st d \<equiv> st d = Some StatusFailed \<or> st d = Some StatusSkipped"

fun skip_ok :: "(string \<Rightarrow> TaskStatus option) \<Rightarrow> (string \<Rightarrow> string list) \<Rightarrow> SkipItem \<Rightarrow> bool" where
  "skip_ok st D (SkipCall d) = broken st d"
| "skip_ok st D (SkipSet i d) =
     (d \<in> set (D i) \<and> broken st d \<and> (st i = Some StatusPending \<or> st i = Some StatusSkipped))"

definition go_ok ::
    "bool \<Rightarrow> (string \<Rightarrow> TaskStatus option) \<Rightarrow> (string \<Rightarrow> string list) \<Rightarrow> Goroutine \<Rightarrow> bool" where
  "go_ok ctx st D g \<longleftrightarrow>
     st (go_task g) \<in> Some ` phase_statuses (go_phase g) \<and>
     (\<forall>d \<in> set (D (go_task g)). st d = Some StatusCompleted) \<and>
     (case go_phase g of
        G_SKIP xs \<Rightarrow> list_all (skip_ok st D) xs
      | G_SKIPSELF slot msg \<Rightarrow> ctx
      | _ \<Rightarrow> True)"

text \<open>A status change that the code can make.\<close>

definition legal ::
    "(string \<Rightarrow> TaskStatus option) \<Rightarrow> (string \<Rightarrow> string list) \<Rightarrow> string \<Rightarrow> TaskStatus \<Rightarrow> bool" where
  "legal st D k v \<longleftrightarrow>
     (case st k of
        None \<Rightarrow> False
      | Some StatusPending \<Rightarrow>
          (v = StatusQueued \<and> (\<forall>d \<in> set (D k). st d = Some StatusCompleted)) \<or>
          (v = StatusSkipped \<and> (\<exists>d \<in> set (D k). broken st d))
      | Some StatusQueued \<Rightarrow> v = StatusRunning \<or> v = StatusSkipped
      | Some StatusRunning \<Rightarrow> StatusRunning \<le> v
      | Some StatusSkipped \<Rightarrow> v = StatusSkipped
      | Some _ \<Rightarrow> False)"

lemma legal_mono: "legal st D k v \<Longrightarrow> \<exists>u. st k = Some u \<and> u \<le> v \<and> (terminal_status u \<longrightarrow> v = u)"
  by (auto simp: legal_def status_order terminal_status_def split: option.splits TaskStatus.splits)

lemma legal_not_done: "legal st D k v \<Longrightarrow> st k \<noteq> Some StatusCompleted \<and> st k \<noteq> Some StatusFailed"
  by (auto simp: legal_def split: option.splits TaskStatus.splits)

lemma legal_broken: "legal st D k v \<Longrightarrow> broken st d \<Longrightarrow> broken (st(k \<mapsto> v)) d"
  by (auto simp: legal_def split: option.splits TaskStatus.splits)

lemma skip_ok_legal: "legal st D k v \<Longrightarrow> skip_ok st D x \<Longrightarrow> skip_ok (st(k \<mapsto> v)) D x"
proof (cases x)
  case (SkipCall d)
  assume "legal st D k v" "skip_ok st D x"
  then show ?thesis using legal_broken SkipCall by fastforce
next
  case (SkipSet i d)
  assume l: "legal st D k v" and "skip_ok st D x"
  then have i: "d \<in> set (D i)" "broken st d" "st i = Some StatusPending \<or> st i = Some StatusSkipped"
    using SkipSet by simp_all
  have "v = StatusSkipped" if "k = i"
    using l i that by (auto simp: legal_def split: option.splits TaskStatus.splits)
  then show ?thesis using i legal_broken [OF l i(2)] SkipSet by auto
qed

text \<open>A legal change of another task's status keeps a goroutine in order.\<close>

lemma go_ok_legal:
  assumes "go_ok ctx st D g" and "go_task g \<noteq> k" and "legal st D k v"
  shows "go_ok ctx (st(k \<mapsto> v)) D g"
proof -
  have "st k \<noteq> Some StatusCompleted" using legal_not_done [OF assms(3)] by blast
  moreover have "list_all (skip_ok (st(k \<mapsto> v)) D) xs" if "list_all (skip_ok st D) xs" for xs
    using that skip_ok_legal [OF assms(3)] by (auto simp: list_all_iff)
  ultimately show ?thesis using assms(1,2)
    by (auto simp: go_ok_def split: GoPhase.splits)
qed

definition main_ok ::
    "(string \<Rightarrow> TaskStatus option) \<Rightarrow> (string \<Rightarrow> string list) \<Rightarrow> MainPhase \<Rightarrow> bool" where
  "main_ok st D m \<longleftrightarrow>
     (case m of
        M_DISPATCH is \<Rightarrow> distinct is \<and>
          (\<forall>i \<in> set is. st i = Some StatusPending \<and> (\<forall>d \<in> set (D i). st d = Some StatusCompleted))
      | M_WAIT \<Rightarrow> (\<forall>i v. st i = Some v \<longrightarrow> terminal_status v)
      | _ \<Rightarrow> True)"

lemma main_ok_legal: "main_ok st D m \<Longrightarrow> legal st D k v \<Longrightarrow> v \<noteq> StatusQueued \<Longrightarrow> main_ok (st(k \<mapsto> v)) D m"
proof -
  assume ok: "main_ok st D m" and l: "legal st D k v" and v: "v \<noteq> StatusQueued"
  show ?thesis
  proof (cases m)
    case (M_DISPATCH qs)
    have "k \<notin> set qs"
    proof
      assume "k \<in> set qs"
      then have "st k = Some StatusPending" "\<forall>d \<in> set (D k). st d = Some StatusCompleted"
        using ok by (simp_all add: main_ok_def M_DISPATCH)
      then show False using l v by (auto simp: legal_def)
    qed
    then show ?thesis using ok legal_not_done [OF l] by (auto simp: main_ok_def M_DISPATCH)
  next
    case M_WAIT
    then show ?thesis using ok legal_mono [OF l] by (fastforce simp: main_ok_def)
  qed (simp_all add: main_ok_def)
qed

text \<open>
  The invariant of an execution of a graph with the dependencies \<open>D\<close>. Its last two parts hold
  until the context is cancelled: every pending task with a failed or skipped dependency is on some
  goroutine's list, and every skipped task has such a dependency.
\<close>

definition covers :: "string \<Rightarrow> string \<Rightarrow> Goroutine \<Rightarrow> bool" where
  "covers d i g \<longleftrightarrow> (case go_phase g of
     G_SKIP xs \<Rightarrow> SkipCall d \<in> set xs \<or> (\<exists>e. SkipSet i e \<in> set xs) | _ \<Rightarrow> False)"

definition exec_inv :: "(string \<Rightarrow> string list) \<Rightarrow> Exec \<Rightarrow> bool" where
  "exec_inv D s \<longleftrightarrow>
     (let st = task_status (x_graph s) in
      tasks_wf (g_tasks (x_graph s)) \<and> deps_of (g_tasks (x_graph s)) = D \<and>
      list_all (go_ok (x_ctx s) st D) (x_go s) \<and> distinct (map go_task (x_go s)) \<and>
      (\<forall>i. i \<notin> set (map go_task (x_go s)) \<longrightarrow>
         st i = None \<or> st i = Some StatusPending \<or> st i = Some StatusSkipped) \<and>
      main_ok st D (x_main s) \<and>
      x_sem s = countP (\<lambda>g. holds_slot (go_phase g)) (x_go s) \<and> int (x_sem s) \<le> x_conc s)"

definition skip_inv :: "(string \<Rightarrow> string list) \<Rightarrow> Exec \<Rightarrow> bool" where
  "skip_inv D s \<longleftrightarrow>
     (let st = task_status (x_graph s) in
      \<not> x_ctx s \<longrightarrow>
        (\<forall>d i. d \<in> set (D i) \<and> broken st d \<and> st i = Some StatusPending \<longrightarrow> list_ex (covers d i) (x_go s)) \<and>
        (\<forall>i. st i = Some StatusSkipped \<longrightarrow> (\<exists>d \<in> set (D i). broken st d)))"

section \<open>Preservation\<close>

lemma go_at_Some:
  "go_at s j = Some (i, p) \<longleftrightarrow>
     j < length (x_go s) \<and> go_task (x_go s ! j) = i \<and> go_phase (x_go s ! j) = p"
  by (auto simp: go_at_def)

lemma set_sels [simp]:
  "x_graph (set_go j p s) = x_graph s" "x_sem (set_go j p s) = x_sem s" "x_conc (set_go j p s) = x_conc s"
  "x_main (set_go j p s) = x_main s" "x_ctx (set_go j p s) = x_ctx s"
  "x_go (set_go j p s) = (x_go s)[j := (x_go s ! j)\<lparr>go_phase := p\<rparr>]"
  "x_graph (set_graph g s) = g" "x_sem (set_graph g s) = x_sem s" "x_conc (set_graph g s) = x_conc s"
  "x_main (set_graph g s) = x_main s" "x_ctx (set_graph g s) = x_ctx s" "x_go (set_graph g s) = x_go s"
  "x_graph (set_main m s) = x_graph s" "x_sem (set_main m s) = x_sem s" "x_conc (set_main m s) = x_conc s"
  "x_main (set_main m s) = m" "x_ctx (set_main m s) = x_ctx s" "x_go (set_main m s) = x_go s"
  by (simp_all add: set_go_def set_graph_def set_main_def)

lemma go_tasks_update [simp]:
  "map go_task (gos[j := (gos ! j)\<lparr>go_phase := p\<rparr>]) = map go_task gos"
  by (cases "j < length gos") (simp_all add: map_update list_update_same_conv list_update_beyond)

lemma exec_inv_graph: "exec_inv D s \<Longrightarrow> tasks_wf (g_tasks (x_graph s)) \<and> deps_of (g_tasks (x_graph s)) = D"
  by (simp add: exec_inv_def Let_def)

lemma exec_inv_go:
  "exec_inv D s \<Longrightarrow> go_at s j = Some (i, p) \<Longrightarrow>
     go_ok (x_ctx s) (task_status (x_graph s)) D \<lparr>go_task = i, go_phase = p\<rparr>"
proof -
  assume inv: "exec_inv D s" and j: "go_at s j = Some (i, p)"
  then have "x_go s ! j = \<lparr>go_task = i, go_phase = p\<rparr>" by (cases "x_go s ! j") (simp add: go_at_Some)
  then show ?thesis using inv j unfolding exec_inv_def Let_def go_at_Some list_all_length by metis
qed

text \<open>
  A goroutine moves to another phase, and changes at most one status: its own task's, or, to
  skipped, that of a task that has no goroutine.
\<close>

lemma exec_inv_move:
  assumes inv: "exec_inv D s" and j: "go_at s j = Some (i, p)"
    and s': "x_go s' = x_go (set_go j p' s)" "x_ctx s' = x_ctx s" "x_main s' = x_main s" "x_conc s' = x_conc s"
    and sem: "x_sem s' + (if holds_slot p then 1 else 0) = x_sem s + (if holds_slot p' then 1 else 0)"
      "int (x_sem s') \<le> x_conc s"
    and graph: "tasks_wf (g_tasks (x_graph s'))" "deps_of (g_tasks (x_graph s')) = D"
    and st: "task_status (x_graph s') = task_status (x_graph s) \<or>
      (\<exists>k v. task_status (x_graph s') = (task_status (x_graph s))(k \<mapsto> v) \<and> v \<noteq> StatusQueued \<and>
         legal (task_status (x_graph s)) D k v \<and>
         (k = i \<or> k \<notin> set (map go_task (x_go s)) \<and> v = StatusSkipped))"
    and ok: "go_ok (x_ctx s) (task_status (x_graph s')) D \<lparr>go_task = i, go_phase = p'\<rparr>"
  shows "exec_inv D s'"
proof -
  let ?st = "task_status (x_graph s)" and ?st' = "task_status (x_graph s')" and ?gos = "x_go s"
  let ?gos' = "?gos[j := (?gos ! j)\<lparr>go_phase := p'\<rparr>]"
  have jl: "j < length ?gos" "go_task (?gos ! j) = i" "go_phase (?gos ! j) = p"
    using j by (simp_all add: go_at_Some)
  from inv have old: "list_all (go_ok (x_ctx s) ?st D) ?gos" "distinct (map go_task ?gos)"
    "\<forall>i. i \<notin> set (map go_task ?gos) \<longrightarrow>
       ?st i = None \<or> ?st i = Some StatusPending \<or> ?st i = Some StatusSkipped"
    "main_ok ?st D (x_main s)" "x_sem s = countP (\<lambda>g. holds_slot (go_phase g)) ?gos"
    by (simp_all add: exec_inv_def Let_def)
  have new: "(?gos ! j)\<lparr>go_phase := p'\<rparr> = \<lparr>go_task = i, go_phase = p'\<rparr>" using jl by (cases "?gos ! j") simp
  have "list_all (go_ok (x_ctx s) ?st' D) ?gos'"
    unfolding list_all_length
  proof (intro allI impI)
    fix l assume l: "l < length ?gos'"
    show "go_ok (x_ctx s) ?st' D (?gos' ! l)"
    proof (cases "l = j")
      case True
      then show ?thesis using ok new jl(1) by simp
    next
      case False
      then have g: "?gos' ! l = ?gos ! l" "go_ok (x_ctx s) ?st D (?gos ! l)"
        using l old(1) by (simp_all add: list_all_length)
      have "go_task (?gos ! l) \<noteq> i"
        using False l jl nth_eq_iff_index_eq [OF old(2), of l j] by simp
      moreover have "go_task (?gos ! l) \<in> set (map go_task ?gos)" using l by simp
      ultimately have "go_ok (x_ctx s) ?st' D (?gos ! l)"
        using st g(2) go_ok_legal [of "x_ctx s" ?st D "?gos ! l"] by metis
      then show ?thesis using g(1) by simp
    qed
  qed
  moreover have "main_ok ?st' D (x_main s)" using st old(4) main_ok_legal by metis
  moreover have "?st' l = None \<or> ?st' l = Some StatusPending \<or> ?st' l = Some StatusSkipped"
    if "l \<notin> set (map go_task ?gos)" for l
  proof -
    have "l \<noteq> i" using that jl by auto
    then show ?thesis using st old(3) that by (auto split: if_splits)
  qed
  moreover have "x_sem s' = countP (\<lambda>g. holds_slot (go_phase g)) ?gos'"
    using countP_update [OF jl(1), of "\<lambda>g. holds_slot (go_phase g)" "(?gos ! j)\<lparr>go_phase := p'\<rparr>"]
      sem(1) old(5) jl(3) by (simp split: if_splits)
  ultimately show ?thesis using s' sem(2) graph old(2) by (simp add: exec_inv_def Let_def)
qed

text \<open>The main loop moves without touching the graph.\<close>

lemma exec_inv_main:
  "exec_inv D s \<Longrightarrow> main_ok (task_status (x_graph s)) D m \<Longrightarrow> exec_inv D (set_main m s)"
  by (simp add: exec_inv_def Let_def)

lemma exec_inv_dispatch:
  assumes inv: "exec_inv D s" and m: "x_main s = M_DISPATCH (i # qs)"
  shows "exec_inv D (set_main (M_DISPATCH qs)
    (spawn i (set_graph (setStatus now now' i StatusQueued msg e (x_graph s)) s)))" (is "exec_inv D ?s")
proof -
  let ?st = "task_status (x_graph s)" and ?gos = "x_go s"
  from inv have old: "tasks_wf (g_tasks (x_graph s))" "deps_of (g_tasks (x_graph s)) = D"
    "list_all (go_ok (x_ctx s) ?st D) ?gos" "distinct (map go_task ?gos)"
    "\<forall>i. i \<notin> set (map go_task ?gos) \<longrightarrow>
       ?st i = None \<or> ?st i = Some StatusPending \<or> ?st i = Some StatusSkipped"
    "main_ok ?st D (x_main s)" "x_sem s = countP (\<lambda>g. holds_slot (go_phase g)) ?gos" "int (x_sem s) \<le> x_conc s"
    by (simp_all add: exec_inv_def Let_def)
  from old(6) have i: "i \<notin> set qs" "distinct qs" "?st i = Some StatusPending"
    "\<forall>d \<in> set (D i). ?st d = Some StatusCompleted"
    "\<forall>k \<in> set qs. ?st k = Some StatusPending \<and> (\<forall>d \<in> set (D k). ?st d = Some StatusCompleted)"
    by (simp_all add: main_ok_def m)
  have l: "legal ?st D i StatusQueued" using i(3,4) by (simp add: legal_def)
  have notin: "go_task g \<noteq> i" if "g \<in> set ?gos" for g
  proof
    assume "go_task g = i"
    then have "?st i \<in> Some ` phase_statuses (go_phase g)"
      using old(3) that by (auto simp: list_all_iff go_ok_def)
    then show False using i(3) by (cases "go_phase g") (auto split: if_splits)
  qed
  have "list_all (go_ok (x_ctx s) (?st(i \<mapsto> StatusQueued)) D) ?gos"
    using old(3) notin go_ok_legal [OF _ _ l] by (auto simp: list_all_iff)
  moreover have "go_ok (x_ctx s) (?st(i \<mapsto> StatusQueued)) D \<lparr>go_task = i, go_phase = G_ACQUIRE\<rparr>"
    using i(3,4) by (auto simp: go_ok_def)
  moreover have "main_ok (?st(i \<mapsto> StatusQueued)) D (M_DISPATCH qs)"
    using i by (auto simp: main_ok_def)
  ultimately show ?thesis
    using old notin i(3) by (auto simp: exec_inv_def Let_def setStatus_status spawn_def setStatus_wf)
qed

lemma exec_inv_step:
  assumes inv: "exec_inv D s" and step: "dag_step H l s s'"
  shows "exec_inv D s'"
proof -
  let ?st = "task_status (x_graph s)"
  note wf = exec_inv_graph [OF inv]
  have sem: "int (x_sem s) \<le> x_conc s" using inv by (simp add: exec_inv_def Let_def)
  note go = exec_inv_go [OF inv]
  note move = exec_inv_move [OF inv]
  from step show ?thesis
  proof cases
    case cancel
    have "go_ok True st D g" if "go_ok ctx st D g" for ctx st g
      using that by (simp add: go_ok_def split: GoPhase.splits)
    then show ?thesis using inv cancel(2) by (auto simp: exec_inv_def Let_def list_all_iff)
  next
    case main_ready
    have "main_ok ?st D (M_DISPATCH (readyTasks (x_graph s)))"
      using readyTasks_set readyTasks_distinct wf by (simp add: main_ok_def)
    then show ?thesis using main_ready exec_inv_main [OF inv] by simp
  next
    case main_check
    have "main_ok ?st D (if allTerminal (x_graph s) then M_WAIT else M_POLL)"
      using allTerminal_iff wf by (auto simp: main_ok_def)
    then show ?thesis using main_check exec_inv_main [OF inv] by simp
  next
    case (main_dispatch i qs now now')
    then show ?thesis using exec_inv_dispatch [OF inv] by simp
  next
    case (go_acquire j i)
    then show ?thesis using go [OF go_acquire(3)] wf
      by (intro move [OF go_acquire(3)]) (auto simp: go_ok_def)
  next
    case (go_acquire_cancelled j i)
    then show ?thesis using go [OF go_acquire_cancelled(3)] wf sem
      by (intro move [OF go_acquire_cancelled(3)]) (auto simp: go_ok_def)
  next
    case (go_loop j i attempt)
    then show ?thesis using go [OF go_loop(3)] wf sem
      by (intro move [OF go_loop(3), where p' = "if x_ctx s then _ else _"]) (auto simp: go_ok_def)
  next
    case (go_start j i attempt now now')
    then have st: "?st i = Some StatusQueued \<or> ?st i = Some StatusRunning"
      using go [OF go_start(3)] by (auto simp: go_ok_def)
    then have "legal ?st D i StatusRunning" by (auto simp: legal_def)
    then show ?thesis using go_start go [OF go_start(3)] wf sem st
      by (intro move [OF go_start(3)]) (auto simp: go_ok_def setStatus_status setStatus_wf)
  next
    case (go_action j i attempt t out)
    then show ?thesis using go [OF go_action(3)] wf sem
      by (cases "runAction H t out"; intro move [OF go_action(3)]) (auto simp: go_ok_def)
  next
    case (go_success j i v)
    then show ?thesis using go [OF go_success(3)] wf sem
      by (intro move [OF go_success(3)])
         (auto simp: go_ok_def upd_task_status upd_task_wf deps_of_upd_task)
  next
    case (go_complete j i now now')
    then have st: "?st i = Some StatusRunning" using go [OF go_complete(3)] by (auto simp: go_ok_def)
    then have "legal ?st D i StatusCompleted" by (auto simp: legal_def status_order)
    then show ?thesis using go_complete go [OF go_complete(3)] wf sem st
      by (intro move [OF go_complete(3)]) (auto simp: go_ok_def setStatus_status setStatus_wf)
  next
    case (go_failure j i attempt e t g1 rca now ev)
    then show ?thesis using go [OF go_failure(3)] wf sem
      by (cases "retries_left (t_MaxRetries t) attempt"; intro move [OF go_failure(3)])
         (auto simp: go_ok_def upd_task_status upd_task_wf deps_of_upd_task)
  next
    case (go_backoff j i attempt)
    then show ?thesis using go [OF go_backoff(3)] wf sem
      by (intro move [OF go_backoff(3)]) (auto simp: go_ok_def)
  next
    case (go_backoff_cancelled j i attempt)
    then show ?thesis using go [OF go_backoff_cancelled(3)] wf sem
      by (intro move [OF go_backoff_cancelled(3)]) (auto simp: go_ok_def)
  next
    case (go_fail j i t now now')
    then have st: "?st i = Some StatusRunning" using go [OF go_fail(3)] by (auto simp: go_ok_def)
    then have "legal ?st D i StatusFailed" by (auto simp: legal_def status_order)
    then show ?thesis using go_fail go [OF go_fail(3)] wf sem st
      by (intro move [OF go_fail(3)]) (auto simp: go_ok_def setStatus_status setStatus_wf)
  next
    case (go_skip_call j i d stack)
    then show ?thesis using go [OF go_skip_call(3)] wf sem to_skip_set
      by (intro move [OF go_skip_call(3)]) (auto simp: go_ok_def list_all_iff)
  next
    case (go_skip_set j i k d stack now now')
    have g: "go_ok (x_ctx s) ?st D \<lparr>go_task = i, go_phase = G_SKIP (SkipSet k d # stack)\<rparr>"
      by (rule go [OF go_skip_set(3)])
    then have k: "d \<in> set (D k)" "broken ?st d" "?st k = Some StatusPending \<or> ?st k = Some StatusSkipped"
      and i: "?st i = Some StatusFailed" and rest: "list_all (skip_ok ?st D) stack"
      by (auto simp: go_ok_def)
    have l: "legal ?st D k StatusSkipped" using k by (auto simp: legal_def)
    have "k \<notin> set (map go_task (x_go s))"
    proof
      assume "k \<in> set (map go_task (x_go s))"
      then obtain g where "g \<in> set (x_go s)" "go_task g = k" by auto
      then have "?st d = Some StatusCompleted"
        using inv k(1) by (auto simp: exec_inv_def Let_def list_all_iff go_ok_def)
      then show False using k(2) by auto
    qed
    moreover have "go_ok (x_ctx s) (?st(k \<mapsto> StatusSkipped)) D \<lparr>go_task = i, go_phase = G_SKIP (SkipCall k # stack)\<rparr>"
    proof -
      have "k \<noteq> i" using i k(3) by auto
      then have "go_ok (x_ctx s) (?st(k \<mapsto> StatusSkipped)) D \<lparr>go_task = i, go_phase = G_SKIP stack\<rparr>"
        using g l by (intro go_ok_legal) (auto simp: go_ok_def)
      then show ?thesis by (simp add: go_ok_def)
    qed
    ultimately show ?thesis using go_skip_set wf sem l k(3)
      by (intro move [OF go_skip_set(3)]) (auto simp: setStatus_status setStatus_wf)
  next
    case (go_skip_done j i)
    then show ?thesis using go [OF go_skip_done(3)] wf sem
      by (intro move [OF go_skip_done(3)]) (auto simp: go_ok_def)
  next
    case (go_skip_self j i slot msg now now')
    then have st: "?st i = Some StatusQueued \<or> ?st i = Some StatusRunning"
      using go [OF go_skip_self(3)] by (auto simp: go_ok_def split: if_splits)
    then have "legal ?st D i StatusSkipped" by (auto simp: legal_def status_order)
    then show ?thesis using go_skip_self go [OF go_skip_self(3)] wf sem st
      by (intro move [OF go_skip_self(3), where p' = "if slot then _ else _"])
         (auto simp: go_ok_def setStatus_status setStatus_wf)
  next
    case (go_release j i)
    have "0 < x_sem s"
      using go_release(3) inv countP_pos [of j "x_go s" "\<lambda>g. holds_slot (go_phase g)"]
      by (auto simp: exec_inv_def Let_def go_at_Some)
    then show ?thesis using go_release go [OF go_release(3)] wf sem
      by (intro move [OF go_release(3)]) (auto simp: go_ok_def)
  next
    case (go_exit j i)
    then show ?thesis using go [OF go_exit(3)] wf sem
      by (intro move [OF go_exit(3)]) (auto simp: go_ok_def)
  qed (use exec_inv_main [OF inv] in \<open>simp_all add: main_ok_def\<close>)
qed

section \<open>Skipping\<close>

lemma legal_not_pending: "legal st D k v \<Longrightarrow> v \<noteq> StatusPending"
  by (auto simp: legal_def status_order split: option.splits TaskStatus.splits)

lemma list_ex_update:
  assumes "j < length xs" and "P (xs ! j) \<Longrightarrow> P x" and "list_ex P xs"
  shows "list_ex P (xs[j := x])"
proof -
  obtain l where l: "l < length xs" "P (xs ! l)" using assms(3) by (auto simp: list_ex_length)
  then have "P (xs[j := x] ! l)" using assms(1,2) by (cases "l = j") auto
  then show ?thesis using l(1) by (auto simp: list_ex_length)
qed

lemma skip_inv_move:
  assumes inv: "skip_inv D s" and j: "go_at s j = Some (i, p)"
    and s': "x_go s' = x_go (set_go j p' s)" "x_ctx s' = x_ctx s"
    and cov: "\<And>d k. \<not> x_ctx s \<Longrightarrow> d \<in> set (D k) \<Longrightarrow> broken (task_status (x_graph s)) d \<Longrightarrow>
      task_status (x_graph s') k = Some StatusPending \<Longrightarrow>
      covers d k \<lparr>go_task = i, go_phase = p\<rparr> \<Longrightarrow> covers d k \<lparr>go_task = i, go_phase = p'\<rparr>"
    and st: "\<not> x_ctx s \<Longrightarrow> task_status (x_graph s') = task_status (x_graph s) \<or>
      (\<exists>k v. task_status (x_graph s') = (task_status (x_graph s))(k \<mapsto> v) \<and>
         legal (task_status (x_graph s)) D k v \<and>
         (v = StatusFailed \<or> v = StatusSkipped \<longrightarrow> (\<forall>l. covers k l \<lparr>go_task = i, go_phase = p'\<rparr>)) \<and>
         (v = StatusSkipped \<longrightarrow> (\<exists>d \<in> set (D k). broken (task_status (x_graph s)) d)))"
  shows "skip_inv D s'"
proof (cases "x_ctx s")
  case True
  then show ?thesis using s'(2) by (simp add: skip_inv_def)
next
  case False
  let ?st = "task_status (x_graph s)" and ?st' = "task_status (x_graph s')" and ?gos = "x_go s"
  have jl: "j < length ?gos" "?gos ! j = \<lparr>go_task = i, go_phase = p\<rparr>"
    using j by (cases "?gos ! j", simp add: go_at_Some)+
  have old: "list_ex (covers d k) ?gos" if "d \<in> set (D k)" "broken ?st d" "?st k = Some StatusPending" for d k
    using inv False that unfolding skip_inv_def Let_def by blast
  have reason: "\<exists>d \<in> set (D k). broken ?st d" if "?st k = Some StatusSkipped" for k
    using inv False that unfolding skip_inv_def Let_def by blast
  have new: "x_go s' = ?gos[j := \<lparr>go_task = i, go_phase = p'\<rparr>]" using s'(1) jl by simp
  have keep: "list_ex (covers d k) (x_go s')"
    if "d \<in> set (D k)" "broken ?st d" "?st k = Some StatusPending" "?st' k = Some StatusPending" for d k
    unfolding new using cov [OF False that(1,2,4)] jl
    by (intro list_ex_update old that(1-3)) simp_all
  have here: "list_ex (covers d k) (x_go s')" if "covers d k \<lparr>go_task = i, go_phase = p'\<rparr>" for d k
    unfolding new using jl(1) that by (auto simp: list_ex_length intro!: exI [of _ j])
  from st [OF False] show ?thesis
  proof
    assume "?st' = ?st"
    then show ?thesis using keep reason by (simp add: skip_inv_def Let_def)
  next
    assume "\<exists>k v. ?st' = ?st(k \<mapsto> v) \<and> legal ?st D k v \<and>
      (v = StatusFailed \<or> v = StatusSkipped \<longrightarrow> (\<forall>l. covers k l \<lparr>go_task = i, go_phase = p'\<rparr>)) \<and>
      (v = StatusSkipped \<longrightarrow> (\<exists>d \<in> set (D k). broken ?st d))"
    then obtain k v where k: "?st' = ?st(k \<mapsto> v)" "legal ?st D k v"
      "v = StatusFailed \<or> v = StatusSkipped \<longrightarrow> (\<forall>l. covers k l \<lparr>go_task = i, go_phase = p'\<rparr>)"
      "v = StatusSkipped \<longrightarrow> (\<exists>d \<in> set (D k). broken ?st d)" by blast
    have "list_ex (covers d l) (x_go s')"
      if l: "d \<in> set (D l)" "broken ?st' d" "?st' l = Some StatusPending" for d l
    proof (cases "d = k")
      case True
      then show ?thesis using here k(1,3) l(2) by auto
    next
      case False
      have "l \<noteq> k" using l(3) k(1) legal_not_pending [OF k(2)] by auto
      then show ?thesis using keep l False k(1) by auto
    qed
    moreover have "\<exists>d \<in> set (D l). broken ?st' d" if l: "?st' l = Some StatusSkipped" for l
    proof -
      have "\<exists>d \<in> set (D l). broken ?st d"
        using l k(1,4) reason by (cases "l = k") auto
      then show ?thesis using legal_broken [OF k(2)] k(1) by metis
    qed
    ultimately show ?thesis by (simp add: skip_inv_def Let_def)
  qed
qed

lemma covers_phases [simp]:
  "covers d k \<lparr>go_task = i, go_phase = G_SKIP xs\<rparr> \<longleftrightarrow> SkipCall d \<in> set xs \<or> (\<exists>e. SkipSet k e \<in> set xs)"
  "covers d k \<lparr>go_task = i, go_phase = p\<rparr> \<Longrightarrow> \<exists>xs. p = G_SKIP xs"
  by (auto simp: covers_def split: GoPhase.splits)

lemma covers_none [simp]:
  "\<not> covers d k \<lparr>go_task = i, go_phase = G_ACQUIRE\<rparr>"
  "\<not> covers d k \<lparr>go_task = i, go_phase = G_LOOP n\<rparr>"
  "\<not> covers d k \<lparr>go_task = i, go_phase = G_START n\<rparr>"
  "\<not> covers d k \<lparr>go_task = i, go_phase = G_ACTION n\<rparr>"
  "\<not> covers d k \<lparr>go_task = i, go_phase = G_SUCCESS v\<rparr>"
  "\<not> covers d k \<lparr>go_task = i, go_phase = G_COMPLETE\<rparr>"
  "\<not> covers d k \<lparr>go_task = i, go_phase = G_FAILURE n e\<rparr>"
  "\<not> covers d k \<lparr>go_task = i, go_phase = G_BACKOFF n\<rparr>"
  "\<not> covers d k \<lparr>go_task = i, go_phase = G_FAIL\<rparr>"
  "\<not> covers d k \<lparr>go_task = i, go_phase = G_SKIPSELF b m\<rparr>"
  "\<not> covers d k \<lparr>go_task = i, go_phase = G_RELEASE\<rparr>"
  "\<not> covers d k \<lparr>go_task = i, go_phase = G_EXIT\<rparr>"
  "\<not> covers d k \<lparr>go_task = i, go_phase = G_GONE\<rparr>"
  by (simp_all add: covers_def)

lemma skip_inv_same:
  "skip_inv D s \<Longrightarrow> task_status (x_graph s') = task_status (x_graph s) \<Longrightarrow> x_go s' = x_go s \<Longrightarrow>
     x_ctx s' = x_ctx s \<Longrightarrow> skip_inv D s'"
  by (simp add: skip_inv_def)

lemma skip_inv_step:
  assumes ex: "exec_inv D s" and inv: "skip_inv D s" and step: "dag_step H l s s'"
  shows "skip_inv D s'"
proof -
  let ?st = "task_status (x_graph s)"
  note wf = exec_inv_graph [OF ex]
  note go = exec_inv_go [OF ex]
  note move = skip_inv_move [OF inv]
  from step show ?thesis
  proof cases
    case cancel
    then show ?thesis by (simp add: skip_inv_def)
  next
    case (main_dispatch i qs now now')
    have pend: "?st i = Some StatusPending" "\<forall>d \<in> set (D i). ?st d = Some StatusCompleted"
      using ex main_dispatch(3) by (simp_all add: exec_inv_def Let_def main_ok_def)
    then have st': "task_status (x_graph s') = ?st(i \<mapsto> StatusQueued)"
      using main_dispatch(2) by (simp add: spawn_def setStatus_status)
    have go': "x_go s' = x_go s @ [\<lparr>go_task = i, go_phase = G_ACQUIRE\<rparr>]" "x_ctx s' = x_ctx s"
      using main_dispatch(2) by (simp_all add: spawn_def)
    show ?thesis
    proof (cases "x_ctx s")
      case False
      have "list_ex (covers d k) (x_go s')"
        if "d \<in> set (D k)" "broken (?st(i \<mapsto> StatusQueued)) d" "(?st(i \<mapsto> StatusQueued)) k = Some StatusPending" for d k
        using inv False that go' by (auto simp: skip_inv_def Let_def split: if_splits)
      moreover have "\<exists>d \<in> set (D k). broken (?st(i \<mapsto> StatusQueued)) d"
        if "(?st(i \<mapsto> StatusQueued)) k = Some StatusSkipped" for k
      proof -
        have "\<exists>d \<in> set (D k). broken ?st d"
          using inv False that by (auto simp: skip_inv_def Let_def split: if_splits)
        then show ?thesis using pend(1) by (metis (no_types) TaskStatus.distinct(7,9) fun_upd_other option.inject)
      qed
      ultimately show ?thesis by (simp add: skip_inv_def Let_def st')
    qed (simp add: skip_inv_def go')
  next
    case (go_acquire j i)
    then show ?thesis by (intro move [OF go_acquire(3)]) simp_all
  next
    case (go_acquire_cancelled j i)
    then show ?thesis by (intro move [OF go_acquire_cancelled(3)]) simp_all
  next
    case (go_loop j i attempt)
    then show ?thesis by (intro move [OF go_loop(3), where p' = "if x_ctx s then _ else _"]) simp_all
  next
    case (go_start j i attempt now now')
    then have st: "?st i = Some StatusQueued \<or> ?st i = Some StatusRunning"
      using go [OF go_start(3)] by (auto simp: go_ok_def)
    then have "legal ?st D i StatusRunning" by (auto simp: legal_def)
    then show ?thesis using go_start st
      by (intro move [OF go_start(3)]) (auto simp: setStatus_status)
  next
    case (go_action j i attempt t out)
    then show ?thesis by (cases "runAction H t out"; intro move [OF go_action(3)]) simp_all
  next
    case (go_success j i v)
    then show ?thesis by (intro move [OF go_success(3)]) (simp_all add: upd_task_status)
  next
    case (go_complete j i now now')
    then have st: "?st i = Some StatusRunning" using go [OF go_complete(3)] by (auto simp: go_ok_def)
    then have "legal ?st D i StatusCompleted" by (auto simp: legal_def status_order)
    then show ?thesis using go_complete st by (intro move [OF go_complete(3)]) (auto simp: setStatus_status)
  next
    case (go_failure j i attempt e t g1 rca now ev)
    then show ?thesis
      by (cases "retries_left (t_MaxRetries t) attempt"; intro move [OF go_failure(3)])
         (simp_all add: upd_task_status)
  next
    case (go_backoff j i attempt)
    then show ?thesis by (intro move [OF go_backoff(3)]) simp_all
  next
    case (go_backoff_cancelled j i attempt)
    then show ?thesis by (intro move [OF go_backoff_cancelled(3)]) simp_all
  next
    case (go_fail j i t now now')
    then have st: "?st i = Some StatusRunning" using go [OF go_fail(3)] by (auto simp: go_ok_def)
    then have "legal ?st D i StatusFailed" by (auto simp: legal_def status_order)
    then show ?thesis using go_fail st
      by (intro move [OF go_fail(3)] disjI2 exI [of _ i] exI [of _ StatusFailed]) (auto simp: setStatus_status)
  next
    case (go_skip_call j i d stack)
    then show ?thesis using to_skip_set wf
      by (intro move [OF go_skip_call(3)]) (auto simp: image_iff)
  next
    case (go_skip_set j i k d stack now now')
    have k: "d \<in> set (D k)" "broken ?st d" "?st k = Some StatusPending \<or> ?st k = Some StatusSkipped"
      using go [OF go_skip_set(3)] by (auto simp: go_ok_def)
    have l: "legal ?st D k StatusSkipped" using k by (auto simp: legal_def)
    then show ?thesis using go_skip_set k
      by (intro move [OF go_skip_set(3)] disjI2 exI [of _ k] exI [of _ StatusSkipped])
         (auto simp: setStatus_status split: if_splits)
  next
    case (go_skip_done j i)
    then show ?thesis by (intro move [OF go_skip_done(3)]) simp_all
  next
    case (go_skip_self j i slot msg now now')
    then have "x_ctx s" using go [OF go_skip_self(3)] by (auto simp: go_ok_def)
    then show ?thesis using go_skip_self by (simp add: skip_inv_def)
  next
    case (go_release j i)
    then show ?thesis by (intro move [OF go_release(3)]) simp_all
  next
    case (go_exit j i)
    then show ?thesis by (intro move [OF go_exit(3)]) simp_all
  qed (use skip_inv_same [OF inv] in simp_all)
qed

section \<open>Start, runs and statuses\<close>

text \<open>What \<open>Add\<close> builds: every task pending.\<close>

definition fresh_graph :: "Graph \<Rightarrow> bool" where
  "fresh_graph g \<longleftrightarrow> tasks_wf (g_tasks g) \<and> list_all (\<lambda>(k, t). t_Status t = StatusPending) (g_tasks g)"

lemma fresh_status: "fresh_graph g \<Longrightarrow> task_status g i = None \<or> task_status g i = Some StatusPending"
  by (cases "map_of (g_tasks g) i")
     (auto simp: fresh_graph_def task_status_def list_all_iff dest: map_of_SomeD)

definition dag_inv :: "(string \<Rightarrow> string list) \<Rightarrow> Exec \<Rightarrow> bool" where
  "dag_inv D s \<longleftrightarrow> exec_inv D s \<and> skip_inv D s"

lemma dag_inv_start:
  assumes "fresh_graph g" and "0 < conc"
  shows "dag_inv (deps_of (g_tasks g)) (dag_start conc g)"
proof -
  have st: "task_status g i = None \<or> task_status g i = Some StatusPending" for i
    by (rule fresh_status [OF assms(1)])
  have st': "task_status g i \<noteq> Some v" if "v \<noteq> StatusPending" for i v
    using st [of i] that by auto
  have "x_main (dag_start conc g) = M_LOOP \<or> (\<exists>e. x_main (dag_start conc g) = M_RETURNED e)"
    by (simp add: dag_start_def split: sum.split)
  then have "main_ok (task_status g) (deps_of (g_tasks g)) (x_main (dag_start conc g))"
    by (auto simp: main_ok_def)
  then show ?thesis using assms st st'
    by (simp add: dag_inv_def exec_inv_def skip_inv_def dag_start_def Let_def fresh_graph_def)
qed

lemma dag_inv_step: "dag_inv D s \<Longrightarrow> dag_step H l s s' \<Longrightarrow> dag_inv D s'"
  unfolding dag_inv_def by (blast intro: exec_inv_step skip_inv_step)

interpretation dag: step_machine "dag_start conc g" "dag_step H"
  "\<lambda>s. fresh_graph g \<and> 0 < conc \<longrightarrow> dag_inv (deps_of (g_tasks g)) s"
  by unfold_locales (blast intro: dag_inv_start dag_inv_step)+

lemma dag_inv_run:
  "dag_run H conc g ls s \<Longrightarrow> fresh_graph g \<Longrightarrow> 0 < conc \<Longrightarrow>
     exec_inv (deps_of (g_tasks g)) s \<and> skip_inv (deps_of (g_tasks g)) s"
  using dag.inv_run dag_inv_def by blast

text \<open>What a step does to the statuses.\<close>

lemma step_statuses:
  assumes inv: "exec_inv D s" and step: "dag_step H l s s'"
  shows "task_status (x_graph s') = task_status (x_graph s) \<or>
    (\<exists>k v. task_status (x_graph s') = (task_status (x_graph s))(k \<mapsto> v) \<and>
       legal (task_status (x_graph s)) D k v)"
proof -
  let ?st = "task_status (x_graph s)"
  note go = exec_inv_go [OF inv]
  have one: ?thesis if "task_status (x_graph s') = ?st(k \<mapsto> v)" "legal ?st D k v" for k v
    using that by blast
  from step show ?thesis
  proof cases
    case (main_dispatch i qs now now')
    then have "?st i = Some StatusPending" "legal ?st D i StatusQueued"
      using inv by (auto simp: exec_inv_def Let_def main_ok_def legal_def)
    then show ?thesis using main_dispatch by (intro one) (simp_all add: spawn_def setStatus_status)
  next
    case (go_start j i attempt now now')
    then have st: "?st i = Some StatusQueued \<or> ?st i = Some StatusRunning"
      using go [OF go_start(3)] by (auto simp: go_ok_def)
    then have "legal ?st D i StatusRunning" by (auto simp: legal_def)
    then show ?thesis using go_start st by (intro one) (auto simp: setStatus_status)
  next
    case (go_complete j i now now')
    then have st: "?st i = Some StatusRunning" using go [OF go_complete(3)] by (auto simp: go_ok_def)
    then have "legal ?st D i StatusCompleted" by (auto simp: legal_def status_order)
    then show ?thesis using go_complete st by (intro one) (auto simp: setStatus_status)
  next
    case (go_fail j i t now now')
    then have st: "?st i = Some StatusRunning" using go [OF go_fail(3)] by (auto simp: go_ok_def)
    then have "legal ?st D i StatusFailed" by (auto simp: legal_def status_order)
    then show ?thesis using go_fail st by (intro one) (auto simp: setStatus_status)
  next
    case (go_skip_set j i k d stack now now')
    have k: "d \<in> set (D k)" "broken ?st d" "?st k = Some StatusPending \<or> ?st k = Some StatusSkipped"
      using go [OF go_skip_set(3)] by (auto simp: go_ok_def)
    then have "legal ?st D k StatusSkipped" by (auto simp: legal_def)
    then show ?thesis using go_skip_set k(3) by (intro one) (auto simp: setStatus_status)
  next
    case (go_skip_self j i slot msg now now')
    then have st: "?st i = Some StatusQueued \<or> ?st i = Some StatusRunning"
      using go [OF go_skip_self(3)] by (auto simp: go_ok_def split: if_splits)
    then have "legal ?st D i StatusSkipped" by (auto simp: legal_def status_order)
    then show ?thesis using go_skip_self st by (intro one) (auto simp: setStatus_status)
  qed (simp_all add: upd_task_status)
qed

end
