(* ===== verification/DagPlay.thy ===== *)
theory DagPlay
  imports DagResolver
begin

text \<open>
  A scheduler for the executor of task graphs: it takes the choices that \<open>dag_step\<close> leaves open
  (who moves, which branch of a \<open>select\<close> is taken, what an action returns) as a list and computes
  the state after them. Every clock reading is the zero instant and there is no AI. Everything it
  reaches is reached by \<open>dag_run\<close>, so concrete executions can be computed.
\<close>

text \<open>The flag of a choice takes the branch of \<open>ctx.Done()\<close> where there is one.\<close>

datatype Choice = ChooseMain bool | ChooseGo nat bool ActionOutcome | ChooseCancel

fun choice_label :: "Choice \<Rightarrow> DagLabel" where
  "choice_label (ChooseMain done) = DMain"
| "choice_label (ChooseGo j done out) = DGo j"
| "choice_label ChooseCancel = DCancel"

definition main_next :: "bool \<Rightarrow> Exec \<Rightarrow> Exec option" where
  "main_next done s =
     (case x_main s of
        M_LOOP \<Rightarrow> Some (set_main (if x_ctx s then M_RETURNED (Some DagCtx) else M_READY) s)
      | M_READY \<Rightarrow> Some (set_main (if readyTasks (x_graph s) = [] then M_CHECK
                                  else M_DISPATCH (readyTasks (x_graph s))) s)
      | M_CHECK \<Rightarrow> Some (set_main (if allTerminal (x_graph s) then M_WAIT else M_POLL) s)
      | M_POLL \<Rightarrow> Some (set_main (if done \<and> x_ctx s then M_RETURNED (Some DagCtx) else M_LOOP) s)
      | M_DISPATCH [] \<Rightarrow> Some (set_main M_LOOP s)
      | M_DISPATCH (i # ids) \<Rightarrow> Some (set_main (M_DISPATCH ids)
          (spawn i (set_graph (setStatus 0 0 i StatusQueued ''queued'' [] (x_graph s)) s)))
      | M_WAIT \<Rightarrow> (if list_all (\<lambda>g. go_phase g = G_GONE) (x_go s)
                  then Some (set_main (M_RETURNED (summariseFailures (x_graph s))) s) else None)
      | M_RETURNED r \<Rightarrow> None)"

fun skip_next :: "Codec \<Rightarrow> nat \<Rightarrow> SkipItem list \<Rightarrow> Exec \<Rightarrow> Exec" where
  "skip_next H j [] s = set_go j G_RELEASE s"
| "skip_next H j (SkipCall d # stack) s =
     set_go j (G_SKIP (map (\<lambda>k. SkipSet k d) (to_skip d (x_graph s)) @ stack)) s"
| "skip_next H j (SkipSet k d # stack) s =
     set_go j (G_SKIP (SkipCall k # stack))
       (set_graph (setStatus 0 0 k StatusSkipped (''dependency '' @ c_Quote H d @ '' failed'') [] (x_graph s)) s)"

definition failure_next :: "nat \<Rightarrow> string \<Rightarrow> nat \<Rightarrow> string \<Rightarrow> Task \<Rightarrow> Exec \<Rightarrow> Exec" where
  "failure_next j i attempt e t s =
     (let g1 = upd_task i (record_failure attempt [] e) (x_graph s)
      in if retries_left (t_MaxRetries t) attempt
         then set_go j (G_BACKOFF attempt) (set_graph (Graph_emit 0
           \<lparr>ev_GraphID = g_ID g1, ev_TaskID = i, ev_Status = StatusFailed, ev_Progress = 0,
            ev_Message = [], ev_ErrMsg = e, ev_At = 0\<rparr> g1) s)
         else set_go j G_FAIL (set_graph g1 s))"

definition go_next :: "Codec \<Rightarrow> nat \<Rightarrow> bool \<Rightarrow> ActionOutcome \<Rightarrow> Exec \<Rightarrow> Exec option" where
  "go_next H j done out s =
     (case go_at s j of
        None \<Rightarrow> None
      | Some (i, p) \<Rightarrow>
          (case p of
             G_ACQUIRE \<Rightarrow>
               (if done \<and> x_ctx s then Some (set_go j (G_SKIPSELF False ''context cancelled'') s)
                else if int (x_sem s) < x_conc s
                then Some (set_go j (G_LOOP 0) (s\<lparr>x_sem := x_sem s + 1\<rparr>)) else None)
           | G_LOOP attempt \<Rightarrow> Some (set_go j
               (if x_ctx s then G_SKIPSELF True ''context cancelled'' else G_START attempt) s)
           | G_START attempt \<Rightarrow> Some (set_go j (G_ACTION attempt) (set_graph
               (setStatus 0 0 i StatusRunning (''attempt '' @ itoa (attempt + 1)) [] (x_graph s)) s))
           | G_ACTION attempt \<Rightarrow> map_option (\<lambda>t. set_go j
               (case runAction H t out of Inr v \<Rightarrow> G_SUCCESS v | Inl e \<Rightarrow> G_FAILURE attempt e) s)
               (Graph_Get (x_graph s) i)
           | G_SUCCESS v \<Rightarrow> Some (set_go j G_COMPLETE
               (set_graph (upd_task i (record_success v) (x_graph s)) s))
           | G_COMPLETE \<Rightarrow> Some (set_go j G_RELEASE
               (set_graph (setStatus 0 0 i StatusCompleted ''completed'' [] (x_graph s)) s))
           | G_FAILURE attempt e \<Rightarrow>
               map_option (\<lambda>t. failure_next j i attempt e t s) (Graph_Get (x_graph s) i)
           | G_BACKOFF attempt \<Rightarrow> Some (set_go j
               (if done \<and> x_ctx s then G_SKIPSELF True ''context cancelled during retry delay''
                else G_LOOP (attempt + 1)) s)
           | G_FAIL \<Rightarrow> map_option (\<lambda>t. set_go j (G_SKIP [SkipCall i]) (set_graph
               (setStatus 0 0 i StatusFailed ''all retries exhausted'' (t_ErrMsg t) (x_graph s)) s))
               (Graph_Get (x_graph s) i)
           | G_SKIP stack \<Rightarrow> Some (skip_next H j stack s)
           | G_SKIPSELF slot msg \<Rightarrow> Some (set_go j (if slot then G_RELEASE else G_EXIT)
               (set_graph (setStatus 0 0 i StatusSkipped msg [] (x_graph s)) s))
           | G_RELEASE \<Rightarrow> Some (set_go j G_EXIT (s\<lparr>x_sem := x_sem s - 1\<rparr>))
           | G_EXIT \<Rightarrow> Some (set_go j G_GONE (s\<lparr>x_running := x_running s - 1\<rparr>))
           | G_GONE \<Rightarrow> None))"

fun dag_next :: "Codec \<Rightarrow> Choice \<Rightarrow> Exec \<Rightarrow> Exec option" where
  "dag_next H (ChooseMain done) s = main_next done s"
| "dag_next H (ChooseGo j done out) s = go_next H j done out s"
| "dag_next H ChooseCancel s = Some (s\<lparr>x_ctx := True\<rparr>)"

fun dag_play :: "Codec \<Rightarrow> Choice list \<Rightarrow> Exec \<Rightarrow> Exec option" where
  "dag_play H [] s = Some s"
| "dag_play H (c # cs) s = (case dag_next H c s of None \<Rightarrow> None | Some s' \<Rightarrow> dag_play H cs s')"

section \<open>Soundness\<close>

lemma step_to: "dag_step H l s t \<Longrightarrow> t = s' \<Longrightarrow> dag_step H l s s'"
  by simp

lemma main_next_step: "main_next done s = Some s' \<Longrightarrow> dag_step H DMain s s'"
  by (auto simp: main_next_def split: MainPhase.splits list.splits if_splits
      intro: dag_step.intros step_to [OF dag_step.main_check])

lemma skip_next_step: "go_at s j = Some (i, G_SKIP stack) \<Longrightarrow> dag_step H (DGo j) s (skip_next H j stack s)"
  by (cases "(H, j, stack, s)" rule: skip_next.cases)
     (auto simp del: append_Cons intro: dag_step.go_skip_done dag_step.go_skip_call dag_step.go_skip_set)

lemma failure_next_step:
  assumes "go_at s j = Some (i, G_FAILURE attempt e)" and "Graph_Get (x_graph s) i = Some t"
  shows "dag_step H (DGo j) s (failure_next j i attempt e t s)"
  unfolding failure_next_def Let_def by (rule dag_step.go_failure [OF assms refl])

lemma go_next_step:
  assumes "go_next H j done out s = Some s'"
  shows "dag_step H (DGo j) s s'"
proof -
  from assms obtain i p where j: "go_at s j = Some (i, p)" by (auto simp: go_next_def split: option.splits)
  show ?thesis
  proof (cases p)
    case G_ACQUIRE
    then show ?thesis using assms j
      by (auto simp: go_next_def split: if_splits
          intro: step_to [OF dag_step.go_acquire] dag_step.go_acquire_cancelled)
  next
    case (G_BACKOFF attempt)
    then show ?thesis using assms j
      by (auto simp: go_next_def split: if_splits
          intro: step_to [OF dag_step.go_backoff] dag_step.go_backoff_cancelled)
  qed (use assms j in \<open>auto simp: go_next_def
      intro: dag_step.go_loop step_to [OF dag_step.go_start] dag_step.go_action dag_step.go_success dag_step.go_complete
        failure_next_step dag_step.go_fail skip_next_step dag_step.go_skip_self step_to [OF dag_step.go_release]
        dag_step.go_exit\<close>)
qed

lemma dag_next_step: "dag_next H c s = Some s' \<Longrightarrow> dag_step H (choice_label c) s s'"
  by (cases c) (auto intro: main_next_step go_next_step dag_step.cancel)

lemma dag_play_run_from:
  "dag_play H cs s = Some s' \<Longrightarrow> dag_run H conc g ls s \<Longrightarrow>
   dag_run H conc g (ls @ map choice_label cs) s'"
proof (induction cs arbitrary: s ls)
  case (Cons c cs)
  then obtain s1 where s1: "dag_next H c s = Some s1" "dag_play H cs s1 = Some s'"
    by (auto split: option.splits)
  from run.run_snoc [OF Cons.prems(2) dag_next_step [OF s1(1)]]
  have "dag_run H conc g (ls @ [choice_label c]) s1" .
  from Cons.IH [OF s1(2) this] show ?case by simp
qed simp

lemma dag_play_run:
  "dag_play H cs (dag_start conc g) = Some s \<Longrightarrow> dag_run H conc g (map choice_label cs) s"
  using dag_play_run_from [OF _ run.run_none] by fastforce

lemma dag_play_reaches:
  assumes "case dag_play H cs (dag_start conc g) of None \<Rightarrow> False | Some s \<Rightarrow> P s"
  shows "\<exists>s. dag_run H conc g (map choice_label cs) s \<and> P s"
  using assms by (cases "dag_play H cs (dag_start conc g)") (auto dest: dag_play_run)

section \<open>An example\<close>

text \<open>
  Two tasks, the second of which depends on the first, and the choices that run the first alone, the
  first and the second, and the first with a failing action.
\<close>

definition pair_graph :: Graph where
  "pair_graph = \<lparr>g_ID = ''g'', g_tasks =
     [(''a'', example_task ''a'' []), (''b'', example_task ''b'' [''a''])], g_events = []\<rparr>"

definition alone :: "nat \<Rightarrow> ActionOutcome \<Rightarrow> nat \<Rightarrow> Choice list" where
  "alone j out n = replicate 4 (ChooseMain False) @ replicate n (ChooseGo j False out)"

definition act_ok :: ActionOutcome where
  "act_ok = OutReturn VNil None"

definition act_fails :: ActionOutcome where
  "act_fails = OutReturn VNil (Some ''boom'')"

lemma pair_graph_order: "\<exists>order. TopologicalOrder pair_graph = Inr order"
proof -
  have "case TopologicalOrder pair_graph of Inl e \<Rightarrow> False | Inr order \<Rightarrow> True" by code_simp
  then show ?thesis by (auto split: sum.splits)
qed

end
