(* ===== verification/DagProps.thy ===== *)
theory DagProps
  imports DagRun DagPlay
begin

text \<open>
  What the invariant of the graph executor gives: scheduling, life cycle, absence of deadlock,
  the meaning of the result of \<open>Run\<close>, and where these fail: cancellation that races with the
  end of a run, and graphs restored after a failure.
\<close>

section \<open>What never changes\<close>

lemma dag_conc: "dag_run H conc g ls s \<Longrightarrow> x_conc s = conc"
proof (induction rule: run.induct)
  case (run_snoc ls s l s')
  from run_snoc.hyps(2) run_snoc.IH show ?case by cases (auto simp: spawn_def)
qed (simp add: dag_start_def)

lemma setStatus_keys [simp]: "map fst (g_tasks (setStatus now now' k v m e g)) = map fst (g_tasks g)"
  by (simp add: setStatus_tasks)

lemma dag_keys: "dag_run H conc g ls s \<Longrightarrow> map fst (g_tasks (x_graph s)) = map fst (g_tasks g)"
proof (induction rule: run.induct)
  case (run_snoc ls s l s')
  from run_snoc.hyps(2) run_snoc.IH show ?case by cases (auto simp: spawn_def)
qed (simp add: dag_start_def)

lemma dag_status_known:
  assumes "dag_run H conc g ls s"
  shows "task_status (x_graph s) i \<noteq> None \<longleftrightarrow> i \<in> set (map fst (g_tasks g))"
  using dag_keys [OF assms] by (metis map_of_eq_None_iff map_option_is_None set_map task_status_def)

section \<open>Scheduling\<close>

lemma exec_inv_task:
  assumes "exec_inv D s" and "g \<in> set (x_go s)"
  shows "go_ok (x_ctx s) (task_status (x_graph s)) D g"
  using assms by (simp add: exec_inv_def Let_def list_all_iff)

lemma exec_inv_running:
  assumes "exec_inv D s" and "task_status (x_graph s) i = Some v"
    and "v \<noteq> StatusPending" and "v \<noteq> StatusSkipped"
  shows "\<exists>g \<in> set (x_go s). go_task g = i \<and> v \<in> phase_statuses (go_phase g) \<and>
    (\<forall>d \<in> set (D i). task_status (x_graph s) d = Some StatusCompleted)"
proof -
  have "\<not> (task_status (x_graph s) i = None \<or> task_status (x_graph s) i = Some StatusPending \<or>
      task_status (x_graph s) i = Some StatusSkipped)" using assms(2-4) by simp
  then have "i \<in> set (map go_task (x_go s))" using assms(1) unfolding exec_inv_def Let_def by blast
  then obtain g where g: "g \<in> set (x_go s)" "go_task g = i" by auto
  then show ?thesis using exec_inv_task [OF assms(1) g(1)] assms(2) by (auto simp: go_ok_def)
qed

lemma running_holds_slot: "StatusRunning \<in> phase_statuses p \<Longrightarrow> holds_slot p"
  by (cases p) (auto split: if_splits)

text \<open>
  C8. Started on a graph with every task pending, the executor respects the dependencies and its bound
  in every interleaving of the main loop, the goroutines, retries and cancellation: a task that runs, completed or failed has only completed
  dependencies, no task is ever given to two goroutines, and no more tasks run at the same time
  than the concurrency allows.
\<close>

theorem dag_dependency_safety:
  assumes "dag_run H conc g ls s" and "fresh_graph g" and "0 < conc"
  shows "(\<forall>i v. task_status (x_graph s) i = Some v \<and> v \<in> {StatusRunning, StatusCompleted, StatusFailed} \<longrightarrow>
      (\<forall>d \<in> set (deps_of (g_tasks g) i). task_status (x_graph s) d = Some StatusCompleted)) \<and>
    distinct (map go_task (x_go s)) \<and>
    int (card {i. task_status (x_graph s) i = Some StatusRunning}) \<le> conc"
proof (intro conjI allI impI)
  note inv = conjunct1 [OF dag_inv_run [OF assms]]
  show "\<forall>d \<in> set (deps_of (g_tasks g) i). task_status (x_graph s) d = Some StatusCompleted"
    if "task_status (x_graph s) i = Some v \<and> v \<in> {StatusRunning, StatusCompleted, StatusFailed}" for i v
    using exec_inv_running [OF inv, of i v] that by auto
  show "distinct (map go_task (x_go s))" using inv by (simp add: exec_inv_def Let_def)
  let ?S = "go_task ` set (filter (\<lambda>g. holds_slot (go_phase g)) (x_go s))"
  have "{i. task_status (x_graph s) i = Some StatusRunning} \<subseteq> ?S"
    using exec_inv_running [OF inv, of _ StatusRunning] running_holds_slot by fastforce
  then have "card {i. task_status (x_graph s) i = Some StatusRunning} \<le> card ?S"
    by (intro card_mono) simp_all
  also have "\<dots> \<le> countP (\<lambda>g. holds_slot (go_phase g)) (x_go s)"
    unfolding countP_def by (metis List.finite_set card_image_le card_length order_trans)
  finally have "card {i. task_status (x_graph s) i = Some StatusRunning} \<le> x_sem s"
    using inv by (simp add: exec_inv_def Let_def)
  moreover have "int (x_sem s) \<le> x_conc s" using inv by (simp add: exec_inv_def Let_def)
  moreover have "x_conc s = conc" by (rule dag_conc [OF assms(1)])
  ultimately show "int (card {i. task_status (x_graph s) i = Some StatusRunning}) \<le> conc" by simp
qed

lemma fresh_pair: "fresh_graph pair_graph"
  by (simp add: fresh_graph_def tasks_wf_def pair_graph_def example_task_def)

theorem dag_dependency_safety_witness:
  "\<exists>s :: Exec. task_status (x_graph s) ''b'' = Some StatusRunning \<and>
     task_status (x_graph s) ''a'' = Some StatusCompleted \<and>
     card {i. task_status (x_graph s) i = Some StatusRunning} \<le> 1"
proof -
  let ?cs = "alone 0 act_ok 8 @ alone 1 act_ok 3"
  have "case dag_play sample_codec ?cs (dag_start 1 pair_graph) of None \<Rightarrow> False
      | Some s \<Rightarrow> task_status (x_graph s) ''b'' = Some StatusRunning" by code_simp
  from dag_play_reaches [OF this] obtain s where
    s: "dag_run sample_codec 1 pair_graph (map choice_label ?cs) s"
      "task_status (x_graph s) ''b'' = Some StatusRunning" by blast
  have "''a'' \<in> set (deps_of (g_tasks pair_graph) ''b'')"
    by (simp add: pair_graph_def deps_of_def example_task_def)
  moreover note conc = dag_dependency_safety [OF s(1) fresh_pair zero_less_one]
  ultimately have "task_status (x_graph s) ''a'' = Some StatusCompleted" using s(2) by blast
  moreover have "card {i. task_status (x_graph s) i = Some StatusRunning} \<le> 1" using conc by simp
  ultimately show ?thesis using s(2) by blast
qed

text \<open>
  C35. The life cycle only moves forward: in a run from a graph with every task pending no step takes a task back in the order pending,
  queued, running, completed, failed, skipped, rolled back, and a task that has reached a terminal
  status keeps it.
\<close>

theorem task_life_cycle:
  assumes "dag_run H conc g ls s" and "fresh_graph g" and "0 < conc"
    and "dag_step H l s s'" and "task_status (x_graph s) i = Some u"
  shows "\<exists>v. task_status (x_graph s') i = Some v \<and> u \<le> v \<and> (terminal_status u \<longrightarrow> v = u)"
proof -
  note inv = conjunct1 [OF dag_inv_run [OF assms(1-3)]]
  from step_statuses [OF inv assms(4)] show ?thesis
  proof
    assume "\<exists>k v. task_status (x_graph s') = (task_status (x_graph s))(k \<mapsto> v) \<and>
       legal (task_status (x_graph s)) (deps_of (g_tasks g)) k v"
    then show ?thesis using assms(5) legal_mono by fastforce
  qed (use assms(5) in simp)
qed

theorem task_life_cycle_witness:
  "\<exists>s s'. dag_step sample_codec (DGo 0) s s' \<and> task_status (x_graph s) ''a'' = Some StatusQueued \<and>
     (\<exists>v. task_status (x_graph s') ''a'' = Some v \<and> StatusQueued \<le> v \<and> (terminal_status StatusQueued \<longrightarrow> v = StatusQueued))"
proof -
  let ?cs = "alone 0 act_ok 2"
  have "case dag_play sample_codec ?cs (dag_start 1 pair_graph) of None \<Rightarrow> False
      | Some s \<Rightarrow> task_status (x_graph s) ''a'' = Some StatusQueued \<and>
          go_next sample_codec 0 False act_ok s \<noteq> None" by code_simp
  from dag_play_reaches [OF this] obtain s s' where
    s: "dag_run sample_codec 1 pair_graph (map choice_label ?cs) s"
      "task_status (x_graph s) ''a'' = Some StatusQueued" "go_next sample_codec 0 False act_ok s = Some s'"
    by blast
  note step = go_next_step [OF s(3)]
  show ?thesis using step s(2) task_life_cycle [OF s(1) fresh_pair _ step s(2)] by force
qed

section \<open>No deadlock\<close>

lemma go_enabled:
  assumes inv: "exec_inv D s" and j: "go_at s j = Some (i, p)" and "p \<noteq> G_GONE"
    and "p = G_ACQUIRE \<longrightarrow> int (x_sem s) < x_conc s"
  shows "\<exists>s'. dag_step H (DGo j) s s'"
proof -
  have "go_ok (x_ctx s) (task_status (x_graph s)) D \<lparr>go_task = i, go_phase = p\<rparr>"
    by (rule exec_inv_go [OF inv j])
  then obtain t where t: "Graph_Get (x_graph s) i = Some t"
    by (auto simp: go_ok_def task_status_def Graph_Get_def)
  show ?thesis
  proof (cases p)
    case (G_SKIP xs)
    then show ?thesis using j
      by (cases xs; cases "hd xs") (auto intro: dag_step.go_skip_done dag_step.go_skip_call dag_step.go_skip_set)
  next
    case (G_ACTION n)
    then show ?thesis using j t by (blast intro: dag_step.go_action)
  next
    case (G_FAILURE n e)
    then show ?thesis using j t by (blast intro: dag_step.go_failure)
  next
    case G_FAIL
    then show ?thesis using j t by (blast intro: dag_step.go_fail)
  qed (use j assms(3,4) in \<open>blast intro: dag_step.intros\<close>)+
qed

text \<open>When no goroutine can move, all are gone.\<close>

lemma all_gone:
  assumes inv: "exec_inv D s" and "0 < x_conc s" and stuck: "\<And>j s'. \<not> dag_step H (DGo j) s s'"
  shows "list_all (\<lambda>g. go_phase g = G_GONE) (x_go s)"
proof -
  have idle: "go_phase (x_go s ! j) = G_GONE \<or> (go_phase (x_go s ! j) = G_ACQUIRE \<and> x_conc s \<le> int (x_sem s))"
    if "j < length (x_go s)" for j
  proof -
    have "go_at s j = Some (go_task (x_go s ! j), go_phase (x_go s ! j))" using that by (simp add: go_at_def)
    then show ?thesis using go_enabled [OF inv] stuck by (meson not_le)
  qed
  have "x_sem s = 0"
  proof -
    have "\<forall>g \<in> set (x_go s). \<not> holds_slot (go_phase g)"
      using idle by (fastforce simp: in_set_conv_nth)
    then have "countP (\<lambda>g. holds_slot (go_phase g)) (x_go s) = 0" by (simp add: countP_zero)
    then show ?thesis using inv by (simp add: exec_inv_def Let_def)
  qed
  then show ?thesis using idle assms(2) by (fastforce simp: list_all_length)
qed

lemma gone_stuck: "list_all (\<lambda>g. go_phase g = G_GONE) (x_go s) \<Longrightarrow> \<not> dag_step H (DGo j) s s'"
  by (auto elim!: dag_go_cases simp: go_at_Some list_all_length)

lemma gone_status:
  assumes inv: "exec_inv D s" and "list_all (\<lambda>g. go_phase g = G_GONE) (x_go s)"
    and "task_status (x_graph s) i = Some v"
  shows "v \<in> {StatusPending, StatusSkipped, StatusCompleted, StatusFailed}"
  using exec_inv_running [OF inv assms(3)] assms(2) by (fastforce simp: list_all_iff)

text \<open>
  C9. No deadlock: in a run over a graph as it is built, with every task pending and a topological order,
  with a positive concurrency and as long as it is not cancelled, whenever no goroutine can move every
  goroutine has ended, and the main loop finds either a task to start or
  every task in a terminal status. (A graph restored from a saved state is not of this kind and can wait
  forever, as shown apart.) So polling can wait only for goroutines that can still move, and no
  dependent of a failed task is forgotten.
\<close>

theorem dag_no_deadlock:
  assumes "dag_run H conc g ls s" and "fresh_graph g" and "0 < conc"
    and "TopologicalOrder g = Inr order" and "\<not> x_ctx s"
    and "\<And>j s'. \<not> dag_step H (DGo j) s s'"
  shows "list_all (\<lambda>g. go_phase g = G_GONE) (x_go s) \<and>
    (readyTasks (x_graph s) \<noteq> [] \<or> allTerminal (x_graph s))"
proof -
  let ?st = "task_status (x_graph s)" and ?D = "deps_of (g_tasks g)" and ?ts = "g_tasks g"
  have inv: "exec_inv ?D s" "skip_inv ?D s" using dag_inv_run [OF assms(1-3)] by simp_all
  have wf: "tasks_wf (g_tasks (x_graph s))" "deps_of (g_tasks (x_graph s)) = ?D"
    using exec_inv_graph [OF inv(1)] by simp_all
  have "0 < x_conc s" using dag_conc [OF assms(1)] assms(3) by simp
  with inv(1) assms(6) have gone: "list_all (\<lambda>g. go_phase g = G_GONE) (x_go s)" by (blast intro: all_gone)
  have wf0: "tasks_wf ?ts" using assms(2) by (simp add: fresh_graph_def)
  note topo = topological_order_facts(1,2) [OF wf0 assms(4)]
  have "allTerminal (x_graph s)" if none: "readyTasks (x_graph s) = []"
  proof (rule ccontr)
    let ?S = "{i. ?st i = Some StatusPending}"
    assume "\<not> allTerminal (x_graph s)"
    then obtain i v where "?st i = Some v" "\<not> terminal_status v" using allTerminal_iff [OF wf(1)] by blast
    then have "?S \<noteq> {}" using gone_status [OF inv(1) gone] by (auto simp: terminal_status_def)
    moreover have "\<exists>d \<in> ?S. (d, i) \<in> dep_rel ?ts" if i: "i \<in> ?S" for i
    proof -
      have "\<not> (\<forall>d \<in> set (?D i). ?st d = Some StatusCompleted)"
        using i none readyTasks_set [OF wf(1), of i] wf(2) by auto
      then obtain d where d: "d \<in> set (?D i)" "?st d \<noteq> Some StatusCompleted" by blast
      have "\<not> broken ?st d"
      proof
        assume "broken ?st d"
        then have "list_ex (covers d i) (x_go s)"
          using inv(2) assms(5) d(1) i unfolding skip_inv_def Let_def by blast
        then show False using gone by (auto simp: list_ex_iff list_all_iff covers_def)
      qed
      moreover have "?st d \<noteq> None" and "i \<in> set (map fst ?ts)"
        using dag_status_known [OF assms(1)] topo(1) d(1) i unfolding deps_known_iff [OF wf0] by blast+
      ultimately have "?st d = Some StatusPending"
        using gone_status [OF inv(1) gone] d(2) by blast
      then show ?thesis using d(1) \<open>i \<in> set (map fst ?ts)\<close> by (auto simp: dep_rel_def)
    qed
    ultimately have "\<not> acyclic (dep_rel ?ts)" by (rule closed_set_cyclic)
    with topo(2) show False by contradiction
  qed
  then show ?thesis using gone by blast
qed

theorem dag_no_deadlock_witness:
  "\<exists>s :: Exec. list_all (\<lambda>g. go_phase g = G_GONE) (x_go s) \<and> readyTasks (x_graph s) = [] \<and> allTerminal (x_graph s)"
proof -
  let ?cs = "alone 0 act_fails 12"
  have "case dag_play sample_codec ?cs (dag_start 1 pair_graph) of None \<Rightarrow> False
      | Some s \<Rightarrow> \<not> x_ctx s \<and> list_all (\<lambda>g. go_phase g = G_GONE) (x_go s) \<and>
          readyTasks (x_graph s) = []" by code_simp
  from dag_play_reaches [OF this] obtain s where
    s: "dag_run sample_codec 1 pair_graph (map choice_label ?cs) s" "\<not> x_ctx s"
      "list_all (\<lambda>g. go_phase g = G_GONE) (x_go s)" "readyTasks (x_graph s) = []" by blast
  obtain order where "TopologicalOrder pair_graph = Inr order" using pair_graph_order by blast
  from dag_no_deadlock [OF s(1) fresh_pair zero_less_one this s(2) gone_stuck [OF s(3)]] s(4)
  show ?thesis by blast
qed

section \<open>The result of a run\<close>

definition result_ok :: "Graph \<Rightarrow> Exec \<Rightarrow> bool" where
  "result_ok g s \<longleftrightarrow>
     (\<forall>r. x_main s = M_RETURNED r \<longrightarrow>
        r = Some DagCtx \<or> (\<exists>e. TopologicalOrder g = Inl e \<and> r = Some e) \<or>
        (list_all (\<lambda>g. go_phase g = G_GONE) (x_go s) \<and> r = summariseFailures (x_graph s) \<and>
         allTerminal (x_graph s)))"

lemma result_ok_step:
  assumes inv: "exec_inv D s" and ok: "result_ok g s" and step: "dag_step H l s s'"
  shows "result_ok g s'"
proof -
  have busy: "result_ok g s'"
    if j: "go_at s j = Some (i, p)" "p \<noteq> G_GONE" and m: "x_main s' = x_main s" for j i p
  proof -
    have "\<not> list_all (\<lambda>g. go_phase g = G_GONE) (x_go s)" using j by (auto simp: go_at_Some list_all_length)
    then show ?thesis using ok m by (auto simp: result_ok_def)
  qed
  from step show ?thesis
  proof cases
    case main_wait
    then have "main_ok (task_status (x_graph s)) D M_WAIT" using inv by (simp add: exec_inv_def Let_def)
    then have "allTerminal (x_graph s)"
      using allTerminal_iff exec_inv_graph [OF inv] by (auto simp: main_ok_def)
    then show ?thesis using main_wait by (simp add: result_ok_def)
  qed (use ok busy in \<open>auto simp: result_ok_def spawn_def\<close>)
qed

lemma result_ok_run:
  assumes "dag_run H conc g ls s" and "fresh_graph g" and "0 < conc"
  shows "result_ok g s"
  using assms(1)
proof (induction rule: run.induct)
  case run_none
  show ?case by (simp add: result_ok_def dag_start_def split: sum.split)
next
  case (run_snoc ls s l s')
  have "exec_inv (deps_of (g_tasks g)) s" using dag_inv_run [OF run_snoc.hyps(1) assms(2,3)] by simp
  then show ?case using result_ok_step run_snoc by blast
qed

lemma summariseFailures_None:
  assumes "tasks_wf (g_tasks g)"
  shows "summariseFailures g = None \<longleftrightarrow> (\<forall>i. task_status g i \<noteq> Some StatusFailed)"
proof -
  have "summariseFailures g = None \<longleftrightarrow> (\<forall>(k, t) \<in> set (g_tasks g). t_Status t \<noteq> StatusFailed)"
    by (auto simp: summariseFailures_def Let_def filter_empty_conv)
  also have "\<dots> \<longleftrightarrow> (\<forall>i. task_status g i \<noteq> Some StatusFailed)"
  proof
    assume none: "\<forall>(k, t) \<in> set (g_tasks g). t_Status t \<noteq> StatusFailed"
    show "\<forall>i. task_status g i \<noteq> Some StatusFailed" using none task_of_status by blast
  next
    assume none: "\<forall>i. task_status g i \<noteq> Some StatusFailed"
    show "\<forall>(k, t) \<in> set (g_tasks g). t_Status t \<noteq> StatusFailed"
    proof (intro ballI, clarify)
      fix k t assume "(k, t) \<in> set (g_tasks g)" "t_Status t = StatusFailed"
      with status_task [OF assms this(1)] none show False by simp
    qed
  qed
  finally show ?thesis .
qed

lemma skip_inv_reason:
  assumes "skip_inv D s" and "\<not> x_ctx s" and "task_status (x_graph s) i = Some StatusSkipped"
  shows "\<exists>d \<in> set (D i). broken (task_status (x_graph s)) d"
  using assms unfolding skip_inv_def Let_def by blast

text \<open>
  C15. What \<open>Run\<close> reports is what happened, for a graph as it is built, with every task pending and a
  topological order (so without a cycle or an unknown dependency, for which \<open>Run\<close> returns the error before
  it starts anything), and a positive concurrency: when it returns something other than the context's error,
  every task is in a terminal status and the result is an error exactly when a task failed; and if the
  context was never cancelled, it returns without an error exactly when every task of the graph
  completed, and every skipped task has a dependency that failed or was itself skipped.
\<close>

theorem run_result:
  assumes "dag_run H conc g ls s" and "fresh_graph g" and "0 < conc"
    and "TopologicalOrder g = Inr order" and "x_main s = M_RETURNED r" and "r \<noteq> Some DagCtx"
  shows "allTerminal (x_graph s) \<and>
    (r = None \<longleftrightarrow> (\<forall>i. task_status (x_graph s) i \<noteq> Some StatusFailed)) \<and>
    (\<not> x_ctx s \<longrightarrow>
       (r = None \<longleftrightarrow> (\<forall>i \<in> set (map fst (g_tasks g)). task_status (x_graph s) i = Some StatusCompleted)) \<and>
       (\<forall>i. task_status (x_graph s) i = Some StatusSkipped \<longrightarrow>
          (\<exists>d \<in> set (deps_of (g_tasks g) i). broken (task_status (x_graph s)) d)))"
proof -
  let ?st = "task_status (x_graph s)" and ?ids = "set (map fst (g_tasks g))" and ?D = "deps_of (g_tasks g)"
  have inv: "exec_inv ?D s" "skip_inv ?D s" using dag_inv_run [OF assms(1-3)] by simp_all
  have wf: "tasks_wf (g_tasks (x_graph s))" using exec_inv_graph [OF inv(1)] by simp
  have res: "list_all (\<lambda>g. go_phase g = G_GONE) (x_go s)" "r = summariseFailures (x_graph s)" "allTerminal (x_graph s)"
    using result_ok_run [OF assms(1-3)] assms(4-6) by (auto simp: result_ok_def)
  have wf0: "tasks_wf (g_tasks g)" using assms(2) by (simp add: fresh_graph_def)
  note topo = topological_order_facts(1,2) [OF wf0 assms(4)]
  have failed: "r = None \<longleftrightarrow> (\<forall>i. ?st i \<noteq> Some StatusFailed)"
    using res(2) summariseFailures_None [OF wf] by simp
  have known: "?st i \<noteq> None \<longleftrightarrow> i \<in> ?ids" for i by (rule dag_status_known [OF assms(1)])
  have final: "?st i \<in> {Some StatusCompleted, Some StatusFailed, Some StatusSkipped}" if "i \<in> ?ids" for i
  proof -
    have "?st i \<noteq> None" using known [of i] that by simp
    then obtain v where v: "?st i = Some v" by auto
    have "terminal_status v" using res(3) v by (simp add: allTerminal_iff [OF wf])
    then show ?thesis using v gone_status [OF inv(1) res(1) v] by (auto simp: terminal_status_def)
  qed
  have reason: "\<exists>d \<in> set (?D i). broken ?st d" if c: "\<not> x_ctx s" and "?st i = Some StatusSkipped" for i
    by (rule skip_inv_reason [OF inv(2) that])
  have "?st i = Some StatusCompleted" if c: "\<not> x_ctx s" "r = None" and i: "i \<in> ?ids" for i
  proof (rule ccontr)
    let ?S = "{i \<in> ?ids. ?st i = Some StatusSkipped}"
    assume "?st i \<noteq> Some StatusCompleted"
    then have "?st i = Some StatusSkipped" using final [OF i] failed c(2) by simp
    then have "?S \<noteq> {}" using i by blast
    moreover have "\<exists>d \<in> ?S. (d, k) \<in> dep_rel (g_tasks g)" if k: "k \<in> ?S" for k
    proof -
      obtain d where d: "d \<in> set (?D k)" "broken ?st d" using reason [OF c(1)] k by blast
      have st: "?st d = Some StatusSkipped" using d(2) failed c(2) by simp
      then have "d \<in> ?ids" using known [of d] by simp
      moreover have "(d, k) \<in> dep_rel (g_tasks g)" using d(1) k by (simp add: dep_rel_def)
      ultimately show ?thesis using st by blast
    qed
    ultimately have "\<not> acyclic (dep_rel (g_tasks g))" by (rule closed_set_cyclic)
    with topo(2) show False by contradiction
  qed
  moreover have "r = None" if "\<forall>i \<in> ?ids. ?st i = Some StatusCompleted"
  proof -
    have "?st i \<noteq> Some StatusFailed" for i using known [of i] that by (cases "i \<in> ?ids") auto
    then show ?thesis by (simp add: failed)
  qed
  ultimately have all_done: "\<not> x_ctx s \<longrightarrow> (r = None \<longleftrightarrow> (\<forall>i \<in> ?ids. ?st i = Some StatusCompleted))" by metis
  show ?thesis using res(3) failed all_done reason by simp
qed

theorem run_result_witness:
  "\<exists>(s :: Exec) r. x_main s = M_RETURNED r \<and> r \<noteq> None \<and> task_status (x_graph s) ''a'' = Some StatusFailed \<and>
     task_status (x_graph s) ''b'' = Some StatusSkipped \<and> allTerminal (x_graph s)"
proof -
  let ?cs = "alone 0 act_fails 12 @ replicate 4 (ChooseMain False)"
  have "case dag_play sample_codec ?cs (dag_start 1 pair_graph) of None \<Rightarrow> False
      | Some s \<Rightarrow> task_status (x_graph s) ''a'' = Some StatusFailed \<and>
          task_status (x_graph s) ''b'' = Some StatusSkipped \<and>
          (\<exists>r \<in> {Some (DagFailed [(''a'', ''boom'')])}. x_main s = M_RETURNED r)" by code_simp
  from dag_play_reaches [OF this] obtain s where
    s: "dag_run sample_codec 1 pair_graph (map choice_label ?cs) s"
      "task_status (x_graph s) ''a'' = Some StatusFailed" "task_status (x_graph s) ''b'' = Some StatusSkipped"
      "x_main s = M_RETURNED (Some (DagFailed [(''a'', ''boom'')]))" by blast
  obtain order where "TopologicalOrder pair_graph = Inr order" using pair_graph_order by blast
  from run_result [OF s(1) fresh_pair zero_less_one this s(4)] s(2,3,4) show ?thesis by fastforce
qed

section \<open>Cancellation\<close>

text \<open>
  A cancelled run can report success: on a graph of a single task there is an execution in which
  the context is cancelled, the task never runs and is skipped, and \<open>Run\<close> returns no error. The
  main loop checks the context only at its head and while it polls; when the goroutine's skip falls
  between that check and the scan for terminal tasks, \<open>summariseFailures\<close> finds no failed task.
\<close>

theorem cancelled_run_reports_success:
  "\<exists>ls s. dag_run H 1 (pair_graph\<lparr>g_tasks := [(''a'', example_task ''a'' [])]\<rparr>) ls s \<and>
     x_ctx s \<and> x_main s = M_RETURNED None \<and> task_status (x_graph s) ''a'' = Some StatusSkipped \<and>
     list_all (\<lambda>ev. ev_Status ev \<noteq> StatusRunning) (g_events (x_graph s))"
proof -
  let ?cs = "replicate 6 (ChooseMain False) @ [ChooseCancel] @ replicate 3 (ChooseGo 0 True act_ok) @
    replicate 2 (ChooseMain False)"
  have "case dag_play H ?cs (dag_start 1 (pair_graph\<lparr>g_tasks := [(''a'', example_task ''a'' [])]\<rparr>)) of
      None \<Rightarrow> False
    | Some s \<Rightarrow> x_ctx s \<and> x_main s = M_RETURNED None \<and> task_status (x_graph s) ''a'' = Some StatusSkipped \<and>
        list_all (\<lambda>ev. ev_Status ev \<noteq> StatusRunning) (g_events (x_graph s))" by code_simp
  from dag_play_reaches [OF this] show ?thesis by blast
qed

section \<open>Rolling back\<close>

text \<open>What rolling back undoes: completed tasks with a rollback function that succeeds.\<close>

definition undone :: "(string \<Rightarrow> string option) \<Rightarrow> Graph \<Rightarrow> Task \<Rightarrow> bool" where
  "undone undo g t \<longleftrightarrow> task_status g (t_ID t) = Some StatusCompleted \<and> t_Rollback t \<and> undo (t_ID t) = None"

definition undo_fails :: "(string \<Rightarrow> string option) \<Rightarrow> Graph \<Rightarrow> Task \<Rightarrow> bool" where
  "undo_fails undo g t \<longleftrightarrow> task_status g (t_ID t) = Some StatusCompleted \<and> t_Rollback t \<and> undo (t_ID t) \<noteq> None"

lemma rollback_loop_effect:
  assumes "distinct (map t_ID ts)"
  shows "rollback_loop undo clock ts g = (errs, g') \<Longrightarrow>
    (\<forall>i. task_status g' i =
       (if \<exists>t \<in> set ts. t_ID t = i \<and> undone undo g t then Some StatusRolledBack else task_status g i)) \<and>
    errs = map (\<lambda>t. DagRollbackFailed (t_ID t) (the (undo (t_ID t)))) (filter (undo_fails undo g) ts)"
  using assms
proof (induction ts arbitrary: g errs)
  case (Cons t ts)
  note IH = Cons.IH
  have other: "t_ID u \<noteq> t_ID t" if "u \<in> set ts" for u
    using Cons.prems(2) imageI [OF that, of t_ID] by (metis distinct.simps(2) list.simps(9) set_map)
  consider (undo) "undone undo g t" | (fail) "undo_fails undo g t"
    | (skip) "\<not> undone undo g t" "\<not> undo_fails undo g t" by blast
  then show ?case
  proof cases
    case undo
    let ?g = "setStatus (clock (t_ID t)) (clock (t_ID t)) (t_ID t) StatusRolledBack ''rolled back'' [] g"
    have "rollback_loop undo clock ts ?g = (errs, g')"
      using Cons.prems(1) undo by (simp add: undone_def)
    note rec = IH [OF this] Cons.prems(2)
    have st: "task_status ?g = (task_status g)(t_ID t \<mapsto> StatusRolledBack)"
      using undo by (simp add: setStatus_status undone_def)
    have same: "undone undo ?g u = undone undo g u" "undo_fails undo ?g u = undo_fails undo g u"
      if "u \<in> set ts" for u
      using other [OF that] by (simp_all add: undone_def undo_fails_def st)
    have "\<not> undo_fails undo g t" using undo by (simp add: undone_def undo_fails_def)
    moreover have "filter (undo_fails undo ?g) ts = filter (undo_fails undo g) ts"
      by (rule filter_cong) (simp_all add: same(2))
    ultimately show ?thesis using rec undo same(1) st by auto
  next
    case fail
    then obtain e errs' where "undo (t_ID t) = Some e" "rollback_loop undo clock ts g = (errs', g')"
      "errs = DagRollbackFailed (t_ID t) e # errs'"
      using Cons.prems(1) by (auto simp: undo_fails_def Let_def split: prod.splits)
    moreover have "\<not> undone undo g t" using fail by (simp add: undone_def undo_fails_def)
    ultimately show ?thesis using IH [of g errs'] Cons.prems(2) fail by auto
  next
    case skip
    then have "rollback_loop undo clock ts g = (errs, g')"
      using Cons.prems(1) by (auto simp: undone_def undo_fails_def)
    then show ?thesis using IH [of g errs] Cons.prems(2) skip by auto
  qed
qed simp

text \<open>
  \<open>RollbackAll\<close> undoes exactly the completed tasks whose rollback function exists and succeeds: they
  become rolled back and every other task keeps its status. It reports exactly the rollbacks that
  failed, and goes through the tasks in reverse of an order in which dependencies come first, so a
  task is undone before the tasks that it depends on.
\<close>

theorem rollback_all_effect:
  assumes "tasks_wf (g_tasks g)" and "TopologicalOrder g = Inr order"
    and "RollbackAll undo clock g = (errs, g')"
  shows "(\<forall>i. task_status g' i =
      (if \<exists>t. map_of (g_tasks g) i = Some t \<and> undone undo g t then Some StatusRolledBack else task_status g i)) \<and>
    errs = map (\<lambda>t. DagRollbackFailed (t_ID t) (the (undo (t_ID t)))) (filter (undo_fails undo g) (rev order)) \<and>
    deps_before (deps_of (g_tasks g)) [] (map t_ID order)"
proof -
  note topo = topological_order_facts [OF assms(1,2)]
  have ids: "mset (map t_ID order) = mset (map fst (g_tasks g))"
  proof -
    have "map t_ID (Graph_Snapshot g) = map fst (g_tasks g)"
      using assms(1) by (auto simp: Graph_Snapshot_def tasks_wf_def list_all_iff)
    moreover have "mset (map t_ID order) = mset (map t_ID (Graph_Snapshot g))" by (simp only: mset_map topo(3))
    ultimately show ?thesis by (simp only:)
  qed
  have "distinct (map fst (g_tasks g))" using assms(1) by (simp add: tasks_wf_def)
  then have dist: "distinct (map t_ID (rev order))" using mset_eq_imp_distinct_iff [OF ids] by (simp flip: rev_map)
  have tasks: "set order = snd ` set (g_tasks g)"
    using topo(3) by (metis Graph_Snapshot_def list.set_map set_mset_mset)
  have "(\<exists>t \<in> set (rev order). t_ID t = i \<and> P t) \<longleftrightarrow> (\<exists>t. map_of (g_tasks g) i = Some t \<and> P t)" for i P
  proof -
    have key: "map_of (g_tasks g) (t_ID t) = Some t" if "t \<in> set order" for t
      using that tasks assms(1) by (auto simp: tasks_wf_def list_all_iff)
    have "t \<in> set order \<and> t_ID t = i" if "map_of (g_tasks g) i = Some t" for t
      using map_of_SomeD [OF that] tasks_wf_ID [OF assms(1)] by (force simp: tasks)
    then show ?thesis using key by auto
  qed
  moreover have "rollback_loop undo clock (rev order) g = (errs, g')"
    using assms(2,3) by (simp add: RollbackAll_def)
  note rollback_loop_effect [OF dist this]
  ultimately show ?thesis using topo(4) by simp
qed

text \<open>Both tasks are completed and can be rolled back; the rollback of the first fails.\<close>

definition done_graph :: Graph where
  "done_graph = pair_graph\<lparr>g_tasks :=
     [(''a'', (example_task ''a'' [])\<lparr>t_Status := StatusCompleted, t_Rollback := True\<rparr>),
      (''b'', (example_task ''b'' [''a''])\<lparr>t_Status := StatusCompleted, t_Rollback := True\<rparr>)]\<rparr>"

theorem rollback_all_effect_witness:
  "let (errs, g') = RollbackAll (\<lambda>i. if i = ''a'' then Some ''busy'' else None) (\<lambda>i. 0) done_graph
   in task_status g' ''b'' = Some StatusRolledBack \<and> task_status g' ''a'' = Some StatusCompleted"
proof -
  let ?undo = "\<lambda>i. if i = ''a'' then Some ''busy'' else None"
  have "\<not> isl (TopologicalOrder done_graph)" by code_simp
  then obtain order where order: "TopologicalOrder done_graph = Inr order"
    by (cases "TopologicalOrder done_graph") auto
  have wf: "tasks_wf (g_tasks done_graph)"
    by (simp add: tasks_wf_def done_graph_def pair_graph_def example_task_def)
  obtain errs g' where r: "RollbackAll ?undo (\<lambda>i. 0) done_graph = (errs, g')" by fastforce
  have st: "task_status g' i =
      (if \<exists>t. map_of (g_tasks done_graph) i = Some t \<and> undone ?undo done_graph t
       then Some StatusRolledBack else task_status done_graph i)" for i
    using rollback_all_effect [OF wf order r] by blast
  obtain ta tb where t: "map_of (g_tasks done_graph) ''a'' = Some ta" "map_of (g_tasks done_graph) ''b'' = Some tb"
    by (simp add: done_graph_def)
  have "\<not> undone ?undo done_graph (the (map_of (g_tasks done_graph) ''a''))"
    "undone ?undo done_graph (the (map_of (g_tasks done_graph) ''b''))"
    "task_status done_graph ''a'' = Some StatusCompleted" by code_simp+
  then show ?thesis unfolding r Let_def by (simp add: st t)
qed

section \<open>The delay between attempts\<close>

text \<open>
  The delay before a retry is the base doubled for each attempt and capped at thirty seconds, as long
  as the product fits 63 bits. Beyond that, where the platform converts a value out of range to the
  least \<open>int64\<close> as amd64 does, the cap fails: the delay is negative, so \<open>time.After\<close> fires at once
  and a task with unlimited retries is retried without any pause.
\<close>

theorem retry_delay:
  assumes "\<And>x. 2 ^ 63 \<le> x \<Longrightarrow> out_of_range x = - (2 ^ 63)"
  shows "backoff_delay out_of_range d n =
    (let base = (if d \<le> 0 then Second else d)
     in if base * 2 ^ n < 2 ^ 63 then min (base * 2 ^ n) (30 * Second) else - (2 ^ 63))"
  using assms by (auto simp: backoff_delay_def float_to_duration_def Let_def min_def)

theorem retry_delay_witness:
  "backoff_delay (\<lambda>x. - (2 ^ 63)) 0 33 = 30 * Second \<and> backoff_delay (\<lambda>x. - (2 ^ 63)) 0 34 < 0"
  using retry_delay [of "\<lambda>x. - (2 ^ 63)" 0 33] retry_delay [of "\<lambda>x. - (2 ^ 63)" 0 34]
  by (simp add: Let_def)

end
