(* ===== verification/GoFiles.thy ===== *)
theory GoFiles
  imports GoPath "HOL-Library.AList" "HOL-Library.Char_ord" "HOL-Library.List_Lexorder"
begin

text \<open>
  The file operations of Go's package \<open>os\<close> that the code uses. A file system is an association list
  of regular files, keyed by the path as the code spells it, and the list of the directories that
  exist; two spellings of one path are two keys, so the statements about it are for paths that the
  code builds and uses in one spelling. Any operation may fail for a reason outside the model; a
  fault gives the error and, for \<open>WriteFile\<close>, the content that a partial write leaves. What fails
  changes nothing else. The errors of a path whose parent is missing or that is a directory are such
  faults: they are not derived from the directories that exist, so a statement without faults is one
  for runs in which these errors do not occur. File modes are left out.
\<close>

section \<open>State and faults\<close>

record FS =
  fs_files :: "(string \<times> string) list"
  fs_dirs :: "string list"

datatype FsOp =
    OpMkdirAll string
  | OpWriteFile string
  | OpReadFile string
  | OpRename string string
  | OpRemove string
  | OpRemoveAll string
  | OpReadDir string
  | OpStat string

type_synonym faults = "FsOp \<Rightarrow> (string \<times> string option) option"

definition no_faults :: faults where
  "no_faults = (\<lambda>x. None)"

text \<open>What an operation that reads gives: a value, \<open>os.IsNotExist\<close>, or another error.\<close>

datatype 'a io = IoOk 'a | IoNotExist | IoErr string

definition content :: "FS \<Rightarrow> string \<Rightarrow> string option" where
  "content fs p = map_of (fs_files fs) p"

text \<open>What the paths below a directory begin with.\<close>

definition stem :: "string \<Rightarrow> string" where
  "stem d = (if d = ''/'' then d else d @ ''/'')"

definition below :: "string \<Rightarrow> string \<Rightarrow> bool" where
  "below d p = prefix (stem d) p"

section \<open>Operations\<close>

definition os_ReadFile :: "faults \<Rightarrow> string \<Rightarrow> FS \<Rightarrow> string io" where
  "os_ReadFile ft p fs =
     (case ft (OpReadFile p) of Some (e, partial) \<Rightarrow> IoErr e
      | None \<Rightarrow> (case content fs p of None \<Rightarrow> IoNotExist | Some s \<Rightarrow> IoOk s))"

definition os_WriteFile :: "faults \<Rightarrow> string \<Rightarrow> string \<Rightarrow> FS \<Rightarrow> string option \<times> FS" where
  "os_WriteFile ft p s fs =
     (case ft (OpWriteFile p) of
        Some (e, None) \<Rightarrow> (Some e, fs)
      | Some (e, Some part) \<Rightarrow> (Some e, fs\<lparr>fs_files := AList.update p part (fs_files fs)\<rparr>)
      | None \<Rightarrow> (None, fs\<lparr>fs_files := AList.update p s (fs_files fs)\<rparr>))"

definition os_Remove :: "faults \<Rightarrow> string \<Rightarrow> FS \<Rightarrow> unit io \<times> FS" where
  "os_Remove ft p fs =
     (case ft (OpRemove p) of Some (e, partial) \<Rightarrow> (IoErr e, fs)
      | None \<Rightarrow> (case content fs p of
            None \<Rightarrow> (IoNotExist, fs)
          | Some s \<Rightarrow> (IoOk (), fs\<lparr>fs_files := AList.delete p (fs_files fs)\<rparr>)))"

text \<open>\<open>Rename\<close> replaces the target, as POSIX does.\<close>

definition os_Rename :: "faults \<Rightarrow> string \<Rightarrow> string \<Rightarrow> FS \<Rightarrow> unit io \<times> FS" where
  "os_Rename ft p q fs =
     (case ft (OpRename p q) of Some (e, partial) \<Rightarrow> (IoErr e, fs)
      | None \<Rightarrow> (case content fs p of
            None \<Rightarrow> (IoNotExist, fs)
          | Some s \<Rightarrow> (IoOk (), fs\<lparr>fs_files := AList.update q s (AList.delete p (fs_files fs))\<rparr>)))"

definition os_RemoveAll :: "faults \<Rightarrow> string \<Rightarrow> FS \<Rightarrow> string option \<times> FS" where
  "os_RemoveAll ft d fs =
     (case ft (OpRemoveAll d) of Some (e, partial) \<Rightarrow> (Some e, fs)
      | None \<Rightarrow> (None,
          fs\<lparr>fs_files := filter (\<lambda>(p, s). p \<noteq> d \<and> \<not> below d p) (fs_files fs),
             fs_dirs := filter (\<lambda>p. p \<noteq> d \<and> \<not> below d p) (fs_dirs fs)\<rparr>))"

text \<open>The directory itself and all its ancestors, from the outermost.\<close>

definition ancestors :: "string \<Rightarrow> string list" where
  "ancestors d = filter (\<lambda>p. p = d \<or> p \<noteq> [] \<and> below p d) (prefixes d)"

definition os_MkdirAll :: "faults \<Rightarrow> string \<Rightarrow> FS \<Rightarrow> string option \<times> FS" where
  "os_MkdirAll ft d fs =
     (case ft (OpMkdirAll d) of Some (e, partial) \<Rightarrow> (Some e, fs)
      | None \<Rightarrow> (None, fs\<lparr>fs_dirs := remdups (fs_dirs fs @ ancestors d)\<rparr>))"

definition os_Stat_dir :: "faults \<Rightarrow> string \<Rightarrow> FS \<Rightarrow> unit io" where
  "os_Stat_dir ft d fs =
     (case ft (OpStat d) of Some (e, partial) \<Rightarrow> IoErr e
      | None \<Rightarrow> if d \<in> set (fs_dirs fs) then IoOk () else IoNotExist)"

text \<open>The names directly below a directory, in order, each with whether it is a directory.\<close>

definition entry_name :: "string \<Rightarrow> string \<Rightarrow> string option" where
  "entry_name d p =
     (let name = drop (length (stem d)) p
      in if below d p \<and> name \<noteq> [] \<and> CHR ''/'' \<notin> set name then Some name else None)"

definition entries :: "string \<Rightarrow> FS \<Rightarrow> string list" where
  "entries d fs =
     sort (remdups (List.map_filter (entry_name d) (map fst (fs_files fs) @ fs_dirs fs)))"

definition os_ReadDir :: "faults \<Rightarrow> string \<Rightarrow> FS \<Rightarrow> (string \<times> bool) list io" where
  "os_ReadDir ft d fs =
     (case ft (OpReadDir d) of Some (e, partial) \<Rightarrow> IoErr e
      | None \<Rightarrow>
          if d \<in> set (fs_dirs fs)
          then IoOk (map (\<lambda>n. (n, stem d @ n \<in> set (fs_dirs fs))) (entries d fs))
          else IoNotExist)"

section \<open>Paths\<close>

text \<open>\<open>filepath.Base\<close>.\<close>

definition Base :: "string \<Rightarrow> string" where
  "Base p =
     (if p = [] then ''.''
      else let e = last (split_slash (rev (dropWhile (\<lambda>c. c = CHR ''/'') (rev p))))
           in if e = [] then ''/'' else e)"

section \<open>Lemmas\<close>

lemma content_write [simp]:
  "content (fs\<lparr>fs_files := AList.update p s (fs_files fs')\<rparr>) q = (if q = p then Some s else content fs' q)"
  by (simp add: content_def update_conv')

lemma content_delete [simp]:
  "content (fs\<lparr>fs_files := AList.delete p (fs_files fs')\<rparr>) q = (if q = p then None else content fs' q)"
  by (simp add: content_def delete_conv')

lemma content_dirs [simp]: "content (fs\<lparr>fs_dirs := ds\<rparr>) q = content fs q"
  by (simp add: content_def)

lemma map_of_filter_key: "map_of (filter (\<lambda>(k, v). P k) xs) q = (if P q then map_of xs q else None)"
  by (induction xs) auto

lemma no_faults_simps [simp]:
  "os_ReadFile no_faults p fs = (case content fs p of None \<Rightarrow> IoNotExist | Some s \<Rightarrow> IoOk s)"
  "os_WriteFile no_faults p s fs = (None, fs\<lparr>fs_files := AList.update p s (fs_files fs)\<rparr>)"
  "os_Remove no_faults p fs =
     (case content fs p of
        None \<Rightarrow> (IoNotExist, fs)
      | Some s \<Rightarrow> (IoOk (), fs\<lparr>fs_files := AList.delete p (fs_files fs)\<rparr>))"
  "os_MkdirAll no_faults d fs = (None, fs\<lparr>fs_dirs := remdups (fs_dirs fs @ ancestors d)\<rparr>)"
  by (simp_all add: os_ReadFile_def os_WriteFile_def os_Remove_def os_MkdirAll_def no_faults_def)

lemma content_RemoveAll:
  "content (snd (os_RemoveAll no_faults d fs)) q = (if q = d \<or> below d q then None else content fs q)"
  using map_of_filter_key [of "\<lambda>p. p \<noteq> d \<and> \<not> below d p" "fs_files fs" q]
  by (simp add: os_RemoveAll_def no_faults_def content_def)

lemma ancestor_self: "d \<in> set (ancestors d)"
  by (simp add: ancestors_def)

lemma entry_name_Some:
  "entry_name d p = Some n \<longleftrightarrow> p = stem d @ n \<and> n \<noteq> [] \<and> CHR ''/'' \<notin> set n"
  by (auto simp: entry_name_def below_def Let_def prefix_def)

lemma entries_iff:
  "n \<in> set (entries d fs) \<longleftrightarrow>
     n \<noteq> [] \<and> CHR ''/'' \<notin> set n \<and> (content fs (stem d @ n) \<noteq> None \<or> stem d @ n \<in> set (fs_dirs fs))"
proof -
  have "n \<in> set (List.map_filter (entry_name d) ps) \<longleftrightarrow> (\<exists>p \<in> set ps. entry_name d p = Some n)" for ps
    by (induction ps) (auto simp: map_filter_simps split: option.split)
  moreover have "content fs p \<noteq> None \<longleftrightarrow> p \<in> set (map fst (fs_files fs))" for p
    by (simp add: content_def map_of_eq_None_iff)
  ultimately show ?thesis
    by (simp add: entries_def entry_name_Some del: not_None_eq) argo
qed

lemma distinct_entries [simp]: "distinct (entries d fs)"
  by (simp add: entries_def)

section \<open>What the operations leave alone\<close>

lemma content_MkdirAll: "os_MkdirAll ft d fs = (r, fs') \<Longrightarrow> content fs' = content fs"
  by (auto simp: os_MkdirAll_def split: option.splits)

lemma content_WriteFile:
  "os_WriteFile ft p s fs = (r, fs') \<Longrightarrow> (q \<noteq> p \<longrightarrow> content fs' q = content fs q) \<and>
    (r = None \<longrightarrow> content fs' p = Some s)"
  by (auto simp: os_WriteFile_def split: option.splits)

lemma content_Remove: "os_Remove ft p fs = (r, fs') \<Longrightarrow> q \<noteq> p \<Longrightarrow> content fs' q = content fs q"
  by (auto simp: os_Remove_def split: option.splits)

lemma content_Rename:
  "os_Rename ft p q fs = (r, fs') \<Longrightarrow>
     (if r = IoOk () then content fs p \<noteq> None \<and> content fs' = (content fs)(p := None, q := content fs p)
      else fs' = fs)"
  by (auto simp: os_Rename_def content_def update_conv' delete_conv' split: option.splits if_splits)

end
