(* ===== verification/DagState.thy ===== *)
theory DagState
  imports DagProps GoFiles
begin

text \<open>
  Saving and resuming an execution, \<open>pkg/dag/state.go\<close>. The encoding of \<open>encoding/gob\<close> is a parameter
  whose documented law is that decoding gives what was encoded without its function fields. Proved
  here: the round trip, that a failed save leaves the last state alone, and that a run resumed from a
  state saved between a failure and the skipping of the dependents waits forever.
\<close>

section \<open>The code\<close>

record PersistedState =
  ps_SchemaVersion :: int
  ps_GraphID :: string
  ps_SavedAt :: instant
  ps_EnvData :: "string \<Rightarrow> any option"
  ps_Tasks :: "Task list"

record Gob =
  gob_encode :: "PersistedState \<Rightarrow> string + string"
  gob_decode :: "string \<Rightarrow> string + PersistedState"

datatype StateError =
    StMkdir string
  | StEncode string
  | StWrite string
  | StRename string
  | StRead string
  | StDecode string
  | StVersion int

definition persisted :: "instant \<Rightarrow> Graph \<Rightarrow> Environment \<Rightarrow> PersistedState" where
  "persisted now g env =
     \<lparr>ps_SchemaVersion = 1, ps_GraphID = g_ID g, ps_SavedAt = now, ps_EnvData = e_data env,
      ps_Tasks = Graph_Snapshot g\<rparr>"

definition SaveState ::
    "faults \<Rightarrow> Gob \<Rightarrow> instant \<Rightarrow> string \<Rightarrow> Graph \<Rightarrow> Environment \<Rightarrow> FS \<Rightarrow> StateError option \<times> FS" where
  "SaveState ft G now path g env fs =
     (case os_MkdirAll ft (Dir path) fs of
        (Some e, fs) \<Rightarrow> (Some (StMkdir e), fs)
      | (None, fs) \<Rightarrow>
          (case gob_encode G (persisted now g env) of
             Inl e \<Rightarrow> (Some (StEncode e), fs)
           | Inr buf \<Rightarrow>
               (let tmp = path @ ''.tmp''
                in case os_WriteFile ft tmp buf fs of
                     (Some e, fs) \<Rightarrow> (Some (StWrite e), fs)
                   | (None, fs) \<Rightarrow>
                       (case os_Rename ft tmp path fs of
                          (IoOk u, fs) \<Rightarrow> (None, fs)
                        | (IoNotExist, fs) \<Rightarrow>
                            (Some (StRename ''file does not exist''), snd (os_Remove ft tmp fs))
                        | (IoErr e, fs) \<Rightarrow> (Some (StRename e), snd (os_Remove ft tmp fs))))))"

definition LoadState :: "faults \<Rightarrow> Gob \<Rightarrow> string \<Rightarrow> FS \<Rightarrow> StateError + PersistedState" where
  "LoadState ft G path fs =
     (case os_ReadFile ft path fs of
        IoErr e \<Rightarrow> Inl (StRead e)
      | IoNotExist \<Rightarrow> Inl (StRead ''file does not exist'')
      | IoOk data \<Rightarrow>
          (case gob_decode G data of
             Inl e \<Rightarrow> Inl (StDecode e)
           | Inr state \<Rightarrow>
               if ps_SchemaVersion state \<noteq> 1 then Inl (StVersion (ps_SchemaVersion state)) else Inr state))"

definition reset_interrupted :: "Task \<Rightarrow> Task" where
  "reset_interrupted t =
     (if t_Status t = StatusRunning \<or> t_Status t = StatusQueued
      then t\<lparr>t_Status := StatusPending, t_StartedAt := 0, t_CompletedAt := 0\<rparr> else t)"

definition RestoreGraph :: "PersistedState \<Rightarrow> Graph" where
  "RestoreGraph state =
     (NewGraph (ps_GraphID state))\<lparr>g_tasks :=
        fold (\<lambda>t ts. AList.update (t_ID t) (reset_interrupted t) ts) (ps_Tasks state) []\<rparr>"

definition RestoreEnv :: "PersistedState \<Rightarrow> Environment \<Rightarrow> Environment" where
  "RestoreEnv state env = env\<lparr>e_data := e_data env ++ ps_EnvData state\<rparr>"

text \<open>A registry gives, for an identifier, which of the two callbacks are not nil.\<close>

definition RegisterActions :: "(string \<Rightarrow> (bool \<times> bool) option) \<Rightarrow> Graph \<Rightarrow> Graph" where
  "RegisterActions reg g =
     g\<lparr>g_tasks := map (\<lambda>(k, t).
        (k, case reg k of None \<Rightarrow> t | Some (a, r) \<Rightarrow> t\<lparr>t_Action := a, t_Rollback := r\<rparr>)) (g_tasks g)\<rparr>"

definition DefaultStatePath :: "string \<Rightarrow> string \<Rightarrow> string" where
  "DefaultStatePath configDir graphID = Join_path [configDir, ''dag'', Base graphID @ ''.gob'']"

section \<open>The round trip\<close>

definition no_callbacks :: "Task \<Rightarrow> Task" where
  "no_callbacks t = t\<lparr>t_Action := False, t_Rollback := False\<rparr>"

definition gob_laws :: "Gob \<Rightarrow> bool" where
  "gob_laws G \<longleftrightarrow>
     (\<forall>s buf. gob_encode G s = Inr buf \<longrightarrow> gob_decode G buf = Inr (s\<lparr>ps_Tasks := map no_callbacks (ps_Tasks s)\<rparr>))"

text \<open>The callbacks of a graph, as a registry.\<close>

definition callbacks :: "Graph \<Rightarrow> string \<Rightarrow> (bool \<times> bool) option" where
  "callbacks g i = map_option (\<lambda>t. (t_Action t, t_Rollback t)) (map_of (g_tasks g) i)"

lemma SaveState_ok:
  assumes "SaveState ft G now path g env fs = (None, fs')"
  shows "\<exists>buf. gob_encode G (persisted now g env) = Inr buf \<and> content fs' path = Some buf"
  using assms
  by (fastforce simp: SaveState_def Let_def dest!: content_WriteFile content_Rename
      split: option.splits sum.splits io.splits prod.splits)

lemma restore_tasks:
  fixes f :: "Task \<Rightarrow> Task"
  assumes "distinct (map t_ID ts)" and "fst ` set us \<inter> t_ID ` set ts = {}"
  shows "fold (\<lambda>t us. AList.update (t_ID t) (f t) us) ts us = us @ map (\<lambda>t. (t_ID t, f t)) ts"
  using assms
proof (induction ts arbitrary: us)
  case (Cons t ts)
  have "AList.update k v us = us @ [(k, v)]" if "k \<notin> fst ` set us" for k v and us :: "(string \<times> Task) list"
    using that by (induction us) auto
  then have "AList.update (t_ID t) (f t) us = us @ [(t_ID t, f t)]" using Cons.prems by auto
  moreover have "fst ` set (us @ [(t_ID t, f t)]) \<inter> t_ID ` set ts = {}" using Cons.prems by auto
  ultimately show ?case using Cons.IH [of "us @ [(t_ID t, f t)]"] Cons.prems(1) by simp
qed simp

lemma RestoreGraph_tasks:
  assumes "tasks_wf (g_tasks g)"
  shows "g_tasks (RestoreGraph ((persisted now g env)\<lparr>ps_Tasks := map no_callbacks (Graph_Snapshot g)\<rparr>)) =
    map (\<lambda>(k, t). (k, reset_interrupted (no_callbacks t))) (g_tasks g)"
proof -
  have "map t_ID (map no_callbacks (Graph_Snapshot g)) = map fst (g_tasks g)"
    using assms by (auto simp: tasks_wf_def list_all_iff Graph_Snapshot_def no_callbacks_def)
  moreover have "distinct (map fst (g_tasks g))" using assms by (simp add: tasks_wf_def)
  ultimately have "distinct (map t_ID (map no_callbacks (Graph_Snapshot g)))" by (simp only:)
  from restore_tasks [OF this, of "[]" reset_interrupted]
  have "g_tasks (RestoreGraph ((persisted now g env)\<lparr>ps_Tasks := map no_callbacks (Graph_Snapshot g)\<rparr>)) =
    map (\<lambda>t. (t_ID t, reset_interrupted t)) (map no_callbacks (Graph_Snapshot g))"
    by (simp add: RestoreGraph_def)
  also have "\<dots> = map (\<lambda>(k, t). (k, reset_interrupted (no_callbacks t))) (g_tasks g)"
    using assms by (auto simp: Graph_Snapshot_def no_callbacks_def tasks_wf_def list_all_iff)
  finally show ?thesis .
qed

text \<open>
  C18. Saving and resuming loses nothing but interruptions: when \<open>SaveState\<close> reports no error,
  \<open>LoadState\<close> of the file succeeds, and the restored graph, once the callbacks are registered again,
  has the same identifier and the same tasks with all their fields, except that a task that was
  queued or running is pending again without start and end times. The environment's data is
  restored into an empty environment exactly.
\<close>

theorem state_round_trip:
  assumes "gob_laws G" and "tasks_wf (g_tasks g)" and "SaveState ft G now path g env fs = (None, fs')"
  shows "\<exists>state. LoadState no_faults G path fs' = Inr state \<and>
    RegisterActions (callbacks g) (RestoreGraph state) =
      \<lparr>g_ID = g_ID g, g_tasks = map (\<lambda>(k, t). (k, reset_interrupted t)) (g_tasks g), g_events = []\<rparr> \<and>
    e_data (RestoreEnv state \<lparr>e_data = (\<lambda>k. None), e_progress = []\<rparr>) = e_data env"
proof -
  from SaveState_ok [OF assms(3)] obtain buf where
    buf: "gob_encode G (persisted now g env) = Inr buf" "content fs' path = Some buf" by blast
  define state where "state = (persisted now g env)\<lparr>ps_Tasks := map no_callbacks (Graph_Snapshot g)\<rparr>"
  have "gob_decode G buf = Inr state"
    using assms(1) buf(1) by (simp add: gob_laws_def state_def persisted_def)
  then have load: "LoadState no_faults G path fs' = Inr state"
    by (simp add: LoadState_def buf(2) state_def persisted_def)
  have "RegisterActions (callbacks g) (RestoreGraph state) =
      \<lparr>g_ID = g_ID g, g_tasks = map (\<lambda>(k, t). (k, reset_interrupted t)) (g_tasks g), g_events = []\<rparr>"
  proof -
    have "map_of (g_tasks g) k = Some t" if "(k, t) \<in> set (g_tasks g)" for k t
      using assms(2) that by (simp add: tasks_wf_def)
    then have "g_tasks (RegisterActions (callbacks g) (RestoreGraph state)) =
        map (\<lambda>(k, t). (k, reset_interrupted t)) (g_tasks g)"
      using RestoreGraph_tasks [OF assms(2), of now env]
      by (auto simp: RegisterActions_def state_def callbacks_def no_callbacks_def reset_interrupted_def)
    then show ?thesis by (simp add: RegisterActions_def RestoreGraph_def NewGraph_def state_def persisted_def)
  qed
  moreover have "e_data (RestoreEnv state \<lparr>e_data = (\<lambda>k. None), e_progress = []\<rparr>) = e_data env"
    by (simp add: RestoreEnv_def state_def persisted_def map_add_def fun_eq_iff split: option.splits)
  ultimately show ?thesis using load by blast
qed

definition resumed_env :: Environment where
  "resumed_env = \<lparr>e_data = [''k'' \<mapsto> VBool True], e_progress = []\<rparr>"

definition sample_gob :: "Graph \<Rightarrow> Gob" where
  "sample_gob g =
     \<lparr>gob_encode = (\<lambda>s. if s = persisted 0 g resumed_env then Inr ''gob'' else Inl ''type not registered''),
      gob_decode = (\<lambda>b. if b = ''gob''
        then Inr ((persisted 0 g resumed_env)\<lparr>ps_Tasks := map no_callbacks (Graph_Snapshot g)\<rparr>)
        else Inl ''EOF'')\<rparr>"

lemma sample_gob_laws: "gob_laws (sample_gob g)"
  by (auto simp: gob_laws_def sample_gob_def persisted_def)

abbreviation "empty_fs \<equiv> \<lparr>fs_files = [], fs_dirs = []\<rparr>"

lemma sample_save:
  "SaveState no_faults (sample_gob g) 0 ''/c/g.gob'' g resumed_env empty_fs =
     (None, snd (SaveState no_faults (sample_gob g) 0 ''/c/g.gob'' g resumed_env empty_fs))"
  by (simp add: SaveState_def Let_def sample_gob_def os_Rename_def no_faults_def os_WriteFile_def
      os_MkdirAll_def content_def update_conv')

text \<open>The second task was running when the state was saved.\<close>

definition half_done :: Graph where
  "half_done = pair_graph\<lparr>g_tasks :=
     [(''a'', (example_task ''a'' [])\<lparr>t_Status := StatusCompleted\<rparr>),
      (''b'', (example_task ''b'' [''a''])\<lparr>t_Status := StatusRunning\<rparr>)]\<rparr>"

theorem state_round_trip_witness:
  "\<exists>fs' state. LoadState no_faults (sample_gob half_done) ''/c/g.gob'' fs' = Inr state \<and>
     task_status (RegisterActions (callbacks half_done) (RestoreGraph state)) ''a'' = Some StatusCompleted \<and>
     task_status (RegisterActions (callbacks half_done) (RestoreGraph state)) ''b'' = Some StatusPending"
proof -
  have "tasks_wf (g_tasks half_done)"
    by (simp add: half_done_def pair_graph_def tasks_wf_def example_task_def)
  from state_round_trip [OF sample_gob_laws this sample_save]
  show ?thesis
    by (force simp: half_done_def pair_graph_def task_status_def reset_interrupted_def example_task_def)
qed

text \<open>
  C36. Saving is atomic: whichever operation fails, and whatever a partial write leaves, a save that
  reports an error leaves the state file as it was, so \<open>LoadState\<close> still gives the last state that was
  saved; no other file changes but the temporary one next to it.
\<close>

theorem failed_save_keeps_state:
  assumes "SaveState ft G now path g env fs = (Some e, fs')"
  shows "(\<forall>q. q \<noteq> path @ ''.tmp'' \<longrightarrow> content fs' q = content fs q) \<and>
    LoadState ft' G' path fs' = LoadState ft' G' path fs"
proof -
  have same: "content fs' q = content fs q" if "q \<noteq> path @ ''.tmp''" for q
  proof -
    have "content (snd (os_Remove ft (path @ ''.tmp'') fs1)) q = content fs1 q" for fs1
      using content_Remove [OF surjective_pairing that] by simp
    then show ?thesis using assms that
      by (fastforce simp: SaveState_def Let_def dest!: content_WriteFile [where q = q] content_Rename content_MkdirAll
          split: option.splits sum.splits io.splits prod.splits if_splits)
  qed
  then have "content fs' path = content fs path" by simp
  then have "LoadState ft' G' path fs' = LoadState ft' G' path fs"
    unfolding LoadState_def os_ReadFile_def by (simp only:)
  with same show ?thesis by blast
qed

theorem failed_save_keeps_state_witness:
  "LoadState no_faults (sample_gob pair_graph) ''/c/g.gob''
     (snd (SaveState (\<lambda>x. if x = OpWriteFile ''/c/g.gob.tmp'' then Some (''no space'', Some ''g'') else None)
       (sample_gob pair_graph) 0 ''/c/g.gob'' pair_graph resumed_env \<lparr>fs_files = [(''/c/g.gob'', ''gob'')], fs_dirs = []\<rparr>)) =
   Inr ((persisted 0 pair_graph resumed_env)\<lparr>ps_Tasks := map no_callbacks (Graph_Snapshot pair_graph)\<rparr>)"
proof -
  let ?ft = "\<lambda>x. if x = OpWriteFile ''/c/g.gob.tmp'' then Some (''no space'', Some ''g'') else None"
  let ?fs = "\<lparr>fs_files = [(''/c/g.gob'', ''gob'')], fs_dirs = []\<rparr>"
  let ?r = "SaveState ?ft (sample_gob pair_graph) 0 ''/c/g.gob'' pair_graph resumed_env ?fs"
  have "?r = (Some (StWrite ''no space''), snd ?r)"
    by (simp add: SaveState_def Let_def sample_gob_def os_WriteFile_def os_MkdirAll_def)
  from failed_save_keeps_state [OF this]
  have "LoadState no_faults (sample_gob pair_graph) ''/c/g.gob'' (snd ?r) =
    LoadState no_faults (sample_gob pair_graph) ''/c/g.gob'' ?fs" by blast
  then show ?thesis by (simp add: LoadState_def content_def sample_gob_def persisted_def)
qed

section \<open>Resuming after a failure\<close>

text \<open>A graph in which nothing is ready and something is not terminal, and a run over it.\<close>

definition idle_stuck :: "Graph \<Rightarrow> Exec \<Rightarrow> bool" where
  "idle_stuck g s \<longleftrightarrow>
     x_graph s = g \<and> x_go s = [] \<and> \<not> x_ctx s \<and> x_main s \<in> {M_LOOP, M_READY, M_CHECK, M_POLL}"

lemma idle_stuck_step:
  assumes "idle_stuck g s" and "dag_step H l s s'" and "l \<noteq> DCancel"
    and "readyTasks g = []" and "\<not> allTerminal g"
  shows "idle_stuck g s'"
  using assms(2,1,3-5) by cases (auto simp: idle_stuck_def go_at_def)

lemma idle_stuck_run:
  assumes "dag_run H conc g ls s" and "DCancel \<notin> set ls" and "TopologicalOrder g = Inr order"
    and "readyTasks g = []" and "\<not> allTerminal g"
  shows "idle_stuck g s"
  using assms(1,2)
proof (induction rule: run.induct)
  case run_none
  show ?case by (simp add: idle_stuck_def dag_start_def assms(3))
next
  case (run_snoc ls s l s')
  then show ?case using idle_stuck_step [OF _ run_snoc.hyps(2) _ assms(4,5)] by auto
qed

definition resumed_graph :: "Graph \<Rightarrow> Graph" where
  "resumed_graph g = RegisterActions (callbacks g) (RestoreGraph (persisted 0 g resumed_env))"

text \<open>
  C39. A run that is resumed from a state saved while a failure was being handled never ends. There is an
  execution over two tasks whose first task has failed and whose dependent is about to be skipped;
  the graph restored from the state of that moment has a topological order, and yet in every
  execution over it that is not cancelled, with any concurrency, \<open>Run\<close> never returns and the
  dependent stays pending: it is neither ready nor terminal, and nothing will skip it.
\<close>

theorem resumed_run_waits_forever:
  "\<exists>ls s. dag_run H 1 pair_graph ls s \<and> \<not> x_ctx s \<and>
     task_status (x_graph s) ''a'' = Some StatusFailed \<and>
     (\<exists>order. TopologicalOrder (resumed_graph (x_graph s)) = Inr order) \<and>
     (\<forall>conc ls' s'. dag_run H conc (resumed_graph (x_graph s)) ls' s' \<longrightarrow> DCancel \<notin> set ls' \<longrightarrow>
        (\<forall>r. x_main s' \<noteq> M_RETURNED r) \<and> task_status (x_graph s') ''b'' = Some StatusPending)"
proof -
  let ?cs = "alone 0 act_fails 6"
  have "case dag_play H ?cs (dag_start 1 pair_graph) of None \<Rightarrow> False
      | Some s \<Rightarrow> \<not> x_ctx s \<and> task_status (x_graph s) ''a'' = Some StatusFailed \<and>
          \<not> isl (TopologicalOrder (resumed_graph (x_graph s))) \<and>
          readyTasks (resumed_graph (x_graph s)) = [] \<and> \<not> allTerminal (resumed_graph (x_graph s)) \<and>
          task_status (resumed_graph (x_graph s)) ''b'' = Some StatusPending" by code_simp
  from dag_play_reaches [OF this] obtain s where
    s: "dag_run H 1 pair_graph (map choice_label ?cs) s" "\<not> x_ctx s"
      "task_status (x_graph s) ''a'' = Some StatusFailed" "readyTasks (resumed_graph (x_graph s)) = []"
      "\<not> allTerminal (resumed_graph (x_graph s))"
      "task_status (resumed_graph (x_graph s)) ''b'' = Some StatusPending"
    and "\<not> isl (TopologicalOrder (resumed_graph (x_graph s)))" by blast
  then obtain order where order: "TopologicalOrder (resumed_graph (x_graph s)) = Inr order"
    by (cases "TopologicalOrder (resumed_graph (x_graph s))") auto
  have "(\<forall>r. x_main s' \<noteq> M_RETURNED r) \<and> task_status (x_graph s') ''b'' = Some StatusPending"
    if "dag_run H conc (resumed_graph (x_graph s)) ls' s'" "DCancel \<notin> set ls'" for conc ls' s'
    using idle_stuck_run [OF that order s(4,5)] s(6) by (auto simp: idle_stuck_def)
  with s order show ?thesis by blast
qed

theorem resumed_run_waits_forever_witness:
  "\<exists>(s :: Exec) s'. task_status (x_graph s) ''a'' = Some StatusFailed \<and>
     dag_run sample_codec 4 (resumed_graph (x_graph s)) [] s' \<and>
     task_status (x_graph s') ''b'' = Some StatusPending"
proof -
  from resumed_run_waits_forever [of sample_codec] obtain s :: Exec where
    s: "task_status (x_graph s) ''a'' = Some StatusFailed"
      "\<And>s'. dag_run sample_codec 4 (resumed_graph (x_graph s)) [] s' \<Longrightarrow>
         task_status (x_graph s') ''b'' = Some StatusPending"
    by fastforce
  with run.run_none [of "dag_start 4 (resumed_graph (x_graph s))" "dag_step sample_codec"] show ?thesis
    by blast
qed

end
