(* ===== verification/DagRollback.thy ===== *)
theory DagRollback
  imports GoFiles
begin

text \<open>
  The rollback store of \<open>pkg/dag/rollback.go\<close>: \<open>Snapshot\<close> copies files into a directory of the task,
  \<open>Rollback\<close> writes them back. The content of \<open>meta.json\<close>, a JSON text with the time, is the
  parameter \<open>meta\<close>; nothing reads it. The round trip and its limits are proved here.
\<close>

section \<open>The code\<close>

datatype RbError =
    RbMkdir string
  | RbSentinel string string
  | RbRead string string
  | RbCache string string
  | RbNoSnapshot string
  | RbReadDir string
  | RbRemove string string
  | RbReadCache string
  | RbRestoreMkdir string
  | RbRestore string string
  | RbRemoveAll string

text \<open>U+29F8 in UTF-8.\<close>

definition rb_glyph :: string where
  "rb_glyph = [CHR 0xE2, CHR 0xA7, CHR 0xB8]"

definition encodeRBName :: "string \<Rightarrow> string" where
  "encodeRBName path = ReplaceAll ''/'' rb_glyph path"

definition decodeRBName :: "string \<Rightarrow> string" where
  "decodeRBName name = ReplaceAll rb_glyph ''/'' name"

definition taskDir :: "string \<Rightarrow> string \<Rightarrow> string" where
  "taskDir cacheDir taskID = Join_path [cacheDir, Base taskID]"

definition NewRollbackStore :: "faults \<Rightarrow> string \<Rightarrow> FS \<Rightarrow> RbError option \<times> FS" where
  "NewRollbackStore ft cacheDir fs =
     (case os_MkdirAll ft cacheDir fs of (Some e, fs) \<Rightarrow> (Some (RbMkdir e), fs) | (None, fs) \<Rightarrow> (None, fs))"

fun snapshot_loop :: "faults \<Rightarrow> string \<Rightarrow> string list \<Rightarrow> FS \<Rightarrow> RbError option \<times> FS" where
  "snapshot_loop ft dir [] fs = (None, fs)"
| "snapshot_loop ft dir (p # ps) fs =
     (case os_ReadFile ft p fs of
        IoNotExist \<Rightarrow>
          (case os_WriteFile ft (Join_path [dir, encodeRBName p @ ''.new'']) [] fs of
             (Some e, fs) \<Rightarrow> (Some (RbSentinel p e), fs)
           | (None, fs) \<Rightarrow> snapshot_loop ft dir ps fs)
      | IoErr e \<Rightarrow> (Some (RbRead p e), fs)
      | IoOk data \<Rightarrow>
          (case os_WriteFile ft (Join_path [dir, encodeRBName p]) data fs of
             (Some e, fs) \<Rightarrow> (Some (RbCache p e), fs)
           | (None, fs) \<Rightarrow> snapshot_loop ft dir ps fs))"

definition Rb_Snapshot ::
    "faults \<Rightarrow> string \<Rightarrow> string \<Rightarrow> string \<Rightarrow> string list \<Rightarrow> FS \<Rightarrow> RbError option \<times> FS" where
  "Rb_Snapshot ft meta cacheDir taskID paths fs =
     (let dir = taskDir cacheDir taskID
      in case os_MkdirAll ft dir fs of
           (Some e, fs) \<Rightarrow> (Some (RbMkdir e), fs)
         | (None, fs) \<Rightarrow>
             (case snapshot_loop ft dir paths fs of
                (Some e, fs) \<Rightarrow> (Some e, fs)
              | (None, fs) \<Rightarrow> (None, snd (os_WriteFile ft (Join_path [dir, ''meta.json'']) meta fs))))"

text \<open>The body of the loop over the entries, and the loop.\<close>

definition restore_entry :: "faults \<Rightarrow> string \<Rightarrow> string \<Rightarrow> FS \<Rightarrow> RbError option \<times> FS" where
  "restore_entry ft dir name fs =
     (if name = ''meta.json'' then (None, fs)
      else if suffix ''.new'' name then
        (let orig = decodeRBName (take (length name - 4) name)
         in case os_Remove ft orig fs of
              (IoErr e, fs) \<Rightarrow> (Some (RbRemove orig e), fs)
            | (IoNotExist, fs) \<Rightarrow> (None, fs)
            | (IoOk u, fs) \<Rightarrow> (None, fs))
      else
        (case os_ReadFile ft (Join_path [dir, name]) fs of
           IoErr e \<Rightarrow> (Some (RbReadCache e), fs)
         | IoNotExist \<Rightarrow> (Some (RbReadCache ''file does not exist''), fs)
         | IoOk data \<Rightarrow>
             (let orig = decodeRBName name
              in case os_MkdirAll ft (Dir orig) fs of
                   (Some e, fs) \<Rightarrow> (Some (RbRestoreMkdir e), fs)
                 | (None, fs) \<Rightarrow>
                     (case os_WriteFile ft orig data fs of
                        (Some e, fs) \<Rightarrow> (Some (RbRestore orig e), fs)
                      | (None, fs) \<Rightarrow> (None, fs)))))"

fun restore_loop :: "faults \<Rightarrow> string \<Rightarrow> string list \<Rightarrow> FS \<Rightarrow> RbError option \<times> FS" where
  "restore_loop ft dir [] fs = (None, fs)"
| "restore_loop ft dir (name # names) fs =
     (case restore_entry ft dir name fs of
        (Some e, fs) \<Rightarrow> (Some e, fs)
      | (None, fs) \<Rightarrow> restore_loop ft dir names fs)"

definition Rb_Rollback :: "faults \<Rightarrow> string \<Rightarrow> string \<Rightarrow> FS \<Rightarrow> RbError option \<times> FS" where
  "Rb_Rollback ft cacheDir taskID fs =
     (let dir = taskDir cacheDir taskID
      in if os_Stat_dir ft dir fs = IoNotExist then (Some (RbNoSnapshot taskID), fs)
         else case os_ReadDir ft dir fs of
           IoErr e \<Rightarrow> (Some (RbReadDir e), fs)
         | IoNotExist \<Rightarrow> (Some (RbReadDir ''file does not exist''), fs)
         | IoOk es \<Rightarrow>
             (case restore_loop ft dir (map fst es) fs of
                (Some e, fs) \<Rightarrow> (Some e, fs)
              | (None, fs) \<Rightarrow> map_prod (map_option RbRemoveAll) id (os_RemoveAll ft dir fs)))"

definition Rb_Discard :: "faults \<Rightarrow> string \<Rightarrow> string \<Rightarrow> FS \<Rightarrow> RbError option \<times> FS" where
  "Rb_Discard ft cacheDir taskID fs =
     map_prod (map_option RbRemoveAll) id (os_RemoveAll ft (taskDir cacheDir taskID) fs)"

definition ListSnapshots :: "faults \<Rightarrow> string \<Rightarrow> FS \<Rightarrow> RbError + string list" where
  "ListSnapshots ft cacheDir fs =
     (case os_ReadDir ft cacheDir fs of
        IoNotExist \<Rightarrow> Inr []
      | IoErr e \<Rightarrow> Inl (RbReadDir e)
      | IoOk es \<Rightarrow> Inr (map fst (filter snd es)))"

section \<open>Names\<close>

lemma ReplaceAll_concat: "ReplaceAll [a] new s = concat (map (\<lambda>c. if c = a then new else [c]) s)"
  by (induction s) auto

lemma encode_Nil [simp]: "encodeRBName [] = []"
  by (simp add: encodeRBName_def)

lemma encode_append [simp]: "encodeRBName (p @ q) = encodeRBName p @ encodeRBName q"
  by (simp add: encodeRBName_def ReplaceAll_concat)

lemma encode_Cons: "encodeRBName (c # p) = (if c = CHR ''/'' then rb_glyph else [c]) @ encodeRBName p"
  by (simp add: encodeRBName_def ReplaceAll_concat)

lemma encode_slashless: "CHR ''/'' \<notin> set (encodeRBName p)"
  by (induction p) (auto simp: encode_Cons rb_glyph_def)

text \<open>A byte that is not the first of the glyph is in front of the encoding only if it is in front of the path.\<close>

lemma encode_hd:
  assumes "encodeRBName p = c # s" and "c \<noteq> CHR 0xE2"
  shows "\<exists>q. p = c # q \<and> encodeRBName q = s"
proof (cases p)
  case (Cons d q)
  then show ?thesis using assms by (auto simp: encode_Cons rb_glyph_def split: if_splits)
qed (use assms in simp)

lemma encode_glyph_hd:
  assumes "prefix rb_glyph (c # encodeRBName p)" and "c \<noteq> CHR ''/''"
  shows "prefix rb_glyph (c # p)"
proof -
  from assms(1) obtain s where s: "c = CHR 0xE2" "encodeRBName p = CHR 0xA7 # CHR 0xB8 # s"
    by (auto simp: rb_glyph_def prefix_def)
  from encode_hd [OF s(2)] obtain q where q: "p = CHR 0xA7 # q" "encodeRBName q = CHR 0xB8 # s" by auto
  from encode_hd [OF q(2)] obtain r where "q = CHR 0xB8 # r" by auto
  then show ?thesis by (simp add: s(1) q(1) rb_glyph_def)
qed

lemma decode_encode:
  "\<not> sublist rb_glyph p \<Longrightarrow> decodeRBName (encodeRBName p) = p"
proof (induction p)
  case (Cons c p)
  have p: "\<not> sublist rb_glyph p" "\<not> prefix rb_glyph (c # p)"
    using Cons.prems by (auto simp: sublist_Cons_right)
  show ?case
  proof (cases "c = CHR ''/''")
    case True
    have "decodeRBName (rb_glyph @ encodeRBName p) = CHR ''/'' # decodeRBName (encodeRBName p)"
      by (simp add: decodeRBName_def rb_glyph_def)
    then show ?thesis using Cons.IH [OF p(1)] True by (simp add: encode_Cons)
  next
    case False
    then have "\<not> prefix rb_glyph (c # encodeRBName p)" using encode_glyph_hd p(2) by blast
    then have "decodeRBName (c # encodeRBName p) = c # decodeRBName (encodeRBName p)"
      by (simp add: decodeRBName_def)
    then show ?thesis using Cons.IH [OF p(1)] False by (simp add: encode_Cons)
  qed
qed (simp add: decodeRBName_def)

lemma encode_snoc:
  assumes "encodeRBName p = s @ [c]" and "c \<notin> set rb_glyph"
  shows "\<exists>q. p = q @ [c] \<and> encodeRBName q = s"
proof (cases p rule: rev_cases)
  case (snoc q d)
  then have "encodeRBName q @ (if d = CHR ''/'' then rb_glyph else [d]) = s @ [c]"
    using assms(1) by (simp add: encode_Cons)
  then show ?thesis using assms(2) snoc by (auto simp: rb_glyph_def split: if_splits)
qed (use assms in simp)

lemma encode_suffix:
  "encodeRBName p = s @ t \<Longrightarrow> set t \<inter> set rb_glyph = {} \<Longrightarrow> \<exists>q. p = q @ t \<and> encodeRBName q = s"
proof (induction t arbitrary: p rule: rev_induct)
  case (snoc c t)
  from snoc.prems have "encodeRBName p = (s @ t) @ [c]" "c \<notin> set rb_glyph" by auto
  from encode_snoc [OF this] obtain q where q: "p = q @ [c]" "encodeRBName q = s @ t" by blast
  from snoc.IH [OF q(2)] snoc.prems(2) q(1) show ?case by auto
qed simp

lemma encode_new: "suffix ''.new'' (encodeRBName p) \<Longrightarrow> suffix ''.new'' p"
  using encode_suffix [of p _ "''.new''"] by (auto simp: suffix_def rb_glyph_def)

section \<open>Directories\<close>

definition clean_dir :: "string \<Rightarrow> bool" where
  "clean_dir d \<longleftrightarrow> (\<exists>es. es \<noteq> [] \<and> list_all proper es \<and> d = CHR ''/'' # join_slash es)"

lemma Clean_rooted:
  assumes "es \<noteq> []" and "list_all proper es"
  shows "Clean (CHR ''/'' # join_slash es) = CHR ''/'' # join_slash es"
proof -
  have "split_slash (CHR ''/'' # join_slash es) = [] # es"
    using split_join_slash [OF assms(1) proper_slashless [OF assms(2)]] by simp
  then show ?thesis
    using clean_elems_proper [OF assms(2), of True "[]"] by (simp add: Clean_def Clean_elems_def IsAbs_def)
qed

lemma clean_dir_join:
  assumes "clean_dir d" and "proper n"
  shows "Join_path [d, n] = stem d @ n" and "clean_dir (stem d @ n)" and "stem d = d @ ''/''"
proof -
  from assms(1) obtain es where es: "es \<noteq> []" "list_all proper es" "d = CHR ''/'' # join_slash es"
    by (auto simp: clean_dir_def)
  have "join_slash es \<noteq> []" by (rule join_proper_not_abs(2) [OF es(1,2)])
  then have "stem d = CHR ''/'' # join_slash es @ ''/''" by (simp add: stem_def es(3))
  then show stem: "stem d = d @ ''/''" by (simp add: es(3))
  have all: "list_all proper (es @ [n])" using es(2) assms(2) by simp
  have d: "stem d @ n = CHR ''/'' # join_slash (es @ [n])"
    using es(1) by (simp only: stem) (simp add: es(3) join_slash_append)
  have "n \<noteq> []" using assms(2) by (simp add: proper_def)
  then have "Join_path [d, n] = Clean (stem d @ n)" by (simp only: stem) (simp add: Join_path_def es(3))
  also have "\<dots> = stem d @ n" unfolding d by (rule Clean_rooted [OF _ all]) simp
  finally show "Join_path [d, n] = stem d @ n" .
  show "clean_dir (stem d @ n)" unfolding clean_dir_def using d all by blast
qed

lemma Base_proper:
  assumes "proper n"
  shows "Base n = n"
proof -
  have n: "CHR ''/'' \<notin> set n" "n \<noteq> []" using assms by (simp_all add: proper_def slashless_def)
  then have "last n \<noteq> CHR ''/''" using last_in_set [of n] by metis
  then have "dropWhile (\<lambda>c. c = CHR ''/'') (rev n) = rev n"
    using n(2) by (cases "rev n") (auto simp: rev_eq_Cons_iff)
  then show ?thesis using assms by (simp add: Base_def proper_def split_slash_id)
qed

lemma taskDir_clean:
  assumes "clean_dir cacheDir" and "proper taskID"
  shows "clean_dir (taskDir cacheDir taskID)"
  using clean_dir_join [OF assms] by (simp add: taskDir_def Base_proper [OF assms(2)])

text \<open>A path of the workspace: absolute and clean, outside the directory of the task, without the glyph.\<close>

definition ws_path :: "string \<Rightarrow> string \<Rightarrow> bool" where
  "ws_path dir p \<longleftrightarrow> clean_dir p \<and> \<not> sublist rb_glyph p \<and> p \<noteq> dir \<and> \<not> below dir p"

lemma clean_dir_abs: "clean_dir p \<Longrightarrow> IsAbs p"
  by (auto simp: clean_dir_def IsAbs_def)

lemma encode_proper:
  assumes "IsAbs p"
  shows "proper (encodeRBName p @ ''.new'')" "proper (encodeRBName p)" "encodeRBName p \<noteq> ''meta.json''"
    "encodeRBName p @ ''.new'' \<noteq> ''meta.json''"
  using assms encode_slashless [of p]
  by (auto simp: IsAbs_def prefix_def encode_Cons rb_glyph_def proper_def slashless_def)

lemma proper_meta: "proper ''meta.json''"
  by (simp add: proper_def slashless_def)

section \<open>What a snapshot holds\<close>

definition rb_name :: "FS \<Rightarrow> string \<Rightarrow> string" where
  "rb_name fs p = encodeRBName p @ (if content fs p = None then ''.new'' else [])"

definition rb_data :: "FS \<Rightarrow> string \<Rightarrow> string" where
  "rb_data fs p = (case content fs p of None \<Rightarrow> [] | Some s \<Rightarrow> s)"

lemma rb_name_proper: "IsAbs p \<Longrightarrow> proper (rb_name fs p) \<and> rb_name fs p \<noteq> ''meta.json''"
  using encode_proper [of p] by (simp add: rb_name_def)

lemma below_stem [simp]: "below d (stem d @ n)"
  by (simp add: below_def)

lemma ws_path_not_stored: "ws_path dir p \<Longrightarrow> p \<noteq> stem dir @ n"
  by (auto simp: ws_path_def)

lemma snapshot_loop_content:
  assumes "clean_dir dir"
  shows "(\<And>p. p \<in> set ps \<Longrightarrow> ws_path dir p \<and> content fs p = content fs0 p) \<Longrightarrow>
    \<exists>fs'. snapshot_loop no_faults dir ps fs = (None, fs') \<and> fs_dirs fs' = fs_dirs fs \<and>
      content fs' = content fs ++ map_of (rev (map (\<lambda>p. (stem dir @ rb_name fs0 p, rb_data fs0 p)) ps))"
proof (induction ps arbitrary: fs)
  case (Cons p ps)
  let ?k = "stem dir @ rb_name fs0 p" and ?v = "rb_data fs0 p"
  define fs1 where "fs1 = fs\<lparr>fs_files := AList.update ?k ?v (fs_files fs)\<rparr>"
  have fs1: "content fs1 = (content fs)(?k \<mapsto> ?v)" "fs_dirs fs1 = fs_dirs fs"
    by (auto simp: fs1_def)
  have abs: "IsAbs p" using Cons.prems [of p] by (simp add: ws_path_def clean_dir_abs)
  have join: "Join_path [dir, rb_name fs0 p] = ?k"
    by (rule clean_dir_join(1) [OF assms]) (simp add: rb_name_proper [OF abs])
  have step: "snapshot_loop no_faults dir (p # ps) fs = snapshot_loop no_faults dir ps fs1"
    using join Cons.prems [of p]
    by (cases "content fs0 p") (auto simp: rb_name_def rb_data_def fs1_def)
  have "ws_path dir q \<and> content fs1 q = content fs0 q" if "q \<in> set ps" for q
    using Cons.prems [of q] that ws_path_not_stored by (auto simp: fs1)
  from Cons.IH [OF this] obtain fs' where fs': "snapshot_loop no_faults dir ps fs1 = (None, fs')"
    "fs_dirs fs' = fs_dirs fs1"
    "content fs' = content fs1 ++ map_of (rev (map (\<lambda>p. (stem dir @ rb_name fs0 p, rb_data fs0 p)) ps))"
    by blast
  have "content fs1 = content fs ++ [?k \<mapsto> ?v]" by (simp add: fs1)
  then show ?case using fs' step fs1(2) by (simp add: map_add_assoc)
qed simp

section \<open>What a rollback does\<close>

text \<open>The path that an entry stands for, and what it becomes.\<close>

definition rb_target :: "string \<Rightarrow> string" where
  "rb_target n = decodeRBName (if suffix ''.new'' n then take (length n - 4) n else n)"

lemma rb_target_name:
  assumes "\<not> sublist rb_glyph p" and "content fs p \<noteq> None \<longrightarrow> \<not> suffix ''.new'' p"
  shows "rb_target (rb_name fs p) = p" and "suffix ''.new'' (rb_name fs p) \<longleftrightarrow> content fs p = None"
  using assms decode_encode [of p] encode_new [of p]
  by (auto simp: rb_target_def rb_name_def suffix_def)

lemma restore_entry_ok:
  assumes "clean_dir dir" and "proper n" and "n \<noteq> ''meta.json''"
    and "suffix ''.new'' n \<or> content fs (stem dir @ n) \<noteq> None"
  shows "\<exists>fs'. restore_entry no_faults dir n fs = (None, fs') \<and> set (fs_dirs fs) \<subseteq> set (fs_dirs fs') \<and>
    content fs' = (content fs)(rb_target n := if suffix ''.new'' n then None else content fs (stem dir @ n))"
  using assms(3,4) clean_dir_join(1) [OF assms(1,2)]
  by (auto simp: restore_entry_def rb_target_def Let_def split: option.splits)

definition rb_val :: "string \<Rightarrow> FS \<Rightarrow> string \<Rightarrow> string option" where
  "rb_val dir fs n = (if suffix ''.new'' n then None else content fs (stem dir @ n))"

definition rb_entry_ok :: "string \<Rightarrow> FS \<Rightarrow> string \<Rightarrow> bool" where
  "rb_entry_ok dir fs n \<longleftrightarrow> proper n \<and> \<not> below dir (rb_target n) \<and>
     (suffix ''.new'' n \<or> content fs (stem dir @ n) \<noteq> None)"

lemma restore_loop_ok:
  assumes "clean_dir dir"
  shows "(\<And>n. n \<in> set ns \<Longrightarrow> n \<noteq> ''meta.json'' \<Longrightarrow> rb_entry_ok dir fs n) \<Longrightarrow>
    \<exists>fs'. restore_loop no_faults dir ns fs = (None, fs') \<and>
      (\<forall>q v. (\<forall>n \<in> set ns. n \<noteq> ''meta.json'' \<and> rb_target n = q \<longrightarrow> rb_val dir fs n = v) \<longrightarrow>
         (\<exists>n \<in> set ns. n \<noteq> ''meta.json'' \<and> rb_target n = q) \<or> content fs q = v \<longrightarrow> content fs' q = v)"
proof (induction ns arbitrary: fs)
  case (Cons n ns)
  show ?case
  proof (cases "n = ''meta.json''")
    case True
    then have step: "restore_loop no_faults dir (n # ns) fs = restore_loop no_faults dir ns fs"
      by (simp add: restore_entry_def)
    show ?thesis using Cons.IH [OF Cons.prems] True unfolding step by auto
  next
    case False
    have n: "proper n" "\<not> below dir (rb_target n)" "suffix ''.new'' n \<or> content fs (stem dir @ n) \<noteq> None"
      using Cons.prems [of n] False by (simp_all add: rb_entry_ok_def)
    from restore_entry_ok [OF assms n(1) False n(3)] obtain fs1 where
      fs1: "restore_entry no_faults dir n fs = (None, fs1)" "content fs1 = (content fs)(rb_target n := rb_val dir fs n)"
      unfolding rb_val_def by blast
    have stored: "content fs1 (stem dir @ m) = content fs (stem dir @ m)" for m
      using n(2) fs1(2) by (metis below_stem fun_upd_other)
    have val: "rb_val dir fs1 m = rb_val dir fs m" for m by (simp add: rb_val_def stored)
    have "rb_entry_ok dir fs1 m" if "m \<in> set ns" "m \<noteq> ''meta.json''" for m
      using Cons.prems [of m] that by (simp add: rb_entry_ok_def stored)
    from Cons.IH [OF this] obtain fs' where fs': "restore_loop no_faults dir ns fs1 = (None, fs')"
      "\<And>q v. (\<forall>n \<in> set ns. n \<noteq> ''meta.json'' \<and> rb_target n = q \<longrightarrow> rb_val dir fs n = v) \<Longrightarrow>
         (\<exists>n \<in> set ns. n \<noteq> ''meta.json'' \<and> rb_target n = q) \<or> content fs1 q = v \<Longrightarrow> content fs' q = v"
      unfolding val by blast
    have "content fs' q = v"
      if "\<forall>m \<in> set (n # ns). m \<noteq> ''meta.json'' \<and> rb_target m = q \<longrightarrow> rb_val dir fs m = v"
        "(\<exists>m \<in> set (n # ns). m \<noteq> ''meta.json'' \<and> rb_target m = q) \<or> content fs q = v" for q v
      using that False by (intro fs'(2)) (auto simp: fs1(2))
    then show ?thesis using fs1(1) fs'(1) by simp
  qed
qed simp

section \<open>What a failed rollback leaves\<close>

lemma Dir_prefix:
  assumes "clean_dir p"
  shows "prefix (Dir p) p"
proof -
  from assms obtain es where es: "es \<noteq> []" "list_all proper es" "p = CHR ''/'' # join_slash es"
    by (auto simp: clean_dir_def)
  obtain fs e where fs: "es = fs @ [e]" using es(1) by (cases es rule: rev_cases) auto
  have "slashless e" using es(2) fs by (simp add: proper_def)
  then have cut: "dropWhile (\<lambda>c. c \<noteq> CHR ''/'') (rev (a @ CHR ''/'' # e)) = CHR ''/'' # rev a" for a
    by (induction e rule: rev_induct) (auto simp: slashless_def)
  show ?thesis
  proof (cases "fs = []")
    case True
    then have "Dir p = Clean ''/''" using cut [of "[]"] by (simp add: Dir_def es(3) fs)
    then show ?thesis by (simp add: es(3) Clean_def Clean_elems_def IsAbs_def)
  next
    case False
    have p: "p = (CHR ''/'' # join_slash fs) @ CHR ''/'' # e"
      using False by (simp add: es(3) fs join_slash_append)
    have "Dir p = Clean ((CHR ''/'' # join_slash fs) @ ''/'')"
      unfolding Dir_def p cut by simp
    also have "\<dots> = CHR ''/'' # join_slash fs"
    proof -
      have all: "list_all proper fs" using es(2) fs by simp
      have "split_slash ((CHR ''/'' # join_slash fs) @ ''/'') = ([] # fs) @ [[]]"
        using split_join_slash [OF False proper_slashless [OF all]]
          split_slash_slash [of "CHR ''/'' # join_slash fs" "[]"] by simp
      moreover have "clean_elems True st (fs @ [[]]) = rev st @ fs" for st
        using all by (induction fs arbitrary: st) (auto simp: proper_def)
      ultimately show ?thesis by (simp add: Clean_def Clean_elems_def IsAbs_def)
    qed
    finally show ?thesis by (simp add: p)
  qed
qed

lemma restore_entry_frame:
  assumes "restore_entry ft dir n fs = (r, fs')"
  shows "(n = ''meta.json'' \<longrightarrow> fs' = fs) \<and> (\<forall>q. q \<noteq> rb_target n \<longrightarrow> content fs' q = content fs q) \<and>
    set (fs_dirs fs) \<subseteq> set (fs_dirs fs') \<and>
    set (fs_dirs fs') \<subseteq> set (fs_dirs fs) \<union> set (ancestors (Dir (rb_target n)))"
  using assms
  by (auto simp: restore_entry_def rb_target_def Let_def os_Remove_def os_ReadFile_def os_MkdirAll_def
      os_WriteFile_def split: if_splits io.splits option.splits prod.splits)

text \<open>
  \<open>rb_holds dir fs0 ps fs\<close>: in the state \<open>fs\<close> the directory holds the snapshot of \<open>ps\<close> that was taken in
  \<open>fs0\<close>, and the files outside \<open>ps\<close> are those of \<open>fs0\<close>.
\<close>

definition rb_holds :: "string \<Rightarrow> FS \<Rightarrow> string list \<Rightarrow> FS \<Rightarrow> bool" where
  "rb_holds dir fs0 ps fs \<longleftrightarrow>
     dir \<in> set (fs_dirs fs) \<and> (\<forall>d \<in> set (fs_dirs fs). \<not> below dir d) \<and>
     (\<forall>q. q \<notin> set ps \<and> \<not> below dir q \<longrightarrow> content fs q = content fs0 q) \<and>
     (\<forall>p \<in> set ps. content fs (stem dir @ rb_name fs0 p) = Some (rb_data fs0 p)) \<and>
     (\<forall>n. content fs (stem dir @ n) \<noteq> None \<longrightarrow> n = ''meta.json'' \<or> n \<in> rb_name fs0 ` set ps)"

text \<open>The paths that can be restored.\<close>

definition rb_path :: "string \<Rightarrow> FS \<Rightarrow> string \<Rightarrow> bool" where
  "rb_path dir fs0 p \<longleftrightarrow> ws_path dir p \<and> (content fs0 p \<noteq> None \<longrightarrow> \<not> suffix ''.new'' p)"

lemma rb_path_target: "rb_path dir fs0 p \<Longrightarrow> rb_target (rb_name fs0 p) = p"
  by (simp add: rb_path_def ws_path_def rb_target_name)

lemma ancestors_below:
  assumes "d \<in> set (ancestors (Dir p))" and "clean_dir p" and "below dir d"
  shows "below dir p"
  using assms Dir_prefix [OF assms(2)] by (auto simp: ancestors_def below_def)

lemma restore_loop_holds:
  assumes "list_all (rb_path dir fs0) ps"
  shows "restore_loop ft dir ns fs = (r, fs') \<Longrightarrow>
    (\<forall>n \<in> set ns. n \<noteq> ''meta.json'' \<longrightarrow> n \<in> rb_name fs0 ` set ps) \<Longrightarrow>
    rb_holds dir fs0 ps fs \<Longrightarrow> rb_holds dir fs0 ps fs'"
proof (induction ns arbitrary: fs)
  case (Cons n ns)
  obtain r1 fs1 where fs1: "restore_entry ft dir n fs = (r1, fs1)" by fastforce
  have "rb_holds dir fs0 ps fs1"
  proof (cases "n = ''meta.json''")
    case True
    then show ?thesis using restore_entry_frame [OF fs1] Cons.prems(3) by simp
  next
    case False
    then obtain p where p: "p \<in> set ps" "n = rb_name fs0 p" using Cons.prems(2) by auto
    then have ok: "rb_path dir fs0 p" using assms by (simp add: list_all_iff)
    have target: "rb_target n = p" using rb_path_target [OF ok] p(2) by simp
    have ws: "clean_dir p" "\<not> below dir p" using ok by (simp_all add: rb_path_def ws_path_def)
    note frame = restore_entry_frame [OF fs1, unfolded target]
    have same: "content fs1 q = content fs q" if "q \<noteq> p" for q using frame that by blast
    have stored: "content fs1 (stem dir @ m) = content fs (stem dir @ m)" for m
      by (rule same) (use ws(2) in auto)
    have "\<not> below dir d" if "d \<in> set (fs_dirs fs1)" for d
    proof -
      have "d \<in> set (fs_dirs fs) \<or> d \<in> set (ancestors (Dir p))" using frame that by blast
      then show ?thesis using Cons.prems(3) ancestors_below [OF _ ws(1)] ws(2) by (auto simp: rb_holds_def)
    qed
    moreover have "dir \<in> set (fs_dirs fs1)" using frame Cons.prems(3) by (auto simp: rb_holds_def)
    moreover have "content fs1 q = content fs0 q" if "q \<notin> set ps" "\<not> below dir q" for q
      using same [of q] that p(1) Cons.prems(3) by (auto simp: rb_holds_def)
    ultimately show ?thesis using Cons.prems(3) stored by (simp add: rb_holds_def)
  qed
  moreover have "fs' = fs1 \<or> restore_loop ft dir ns fs1 = (r, fs')"
    using Cons.prems(1) fs1 by (cases r1) auto
  ultimately show ?case using Cons.IH [of fs1] Cons.prems(2) by auto
qed simp

lemma entries_holds:
  assumes "rb_holds dir fs0 ps fs" and "n \<in> set (entries dir fs)" and "n \<noteq> ''meta.json''"
  shows "n \<in> rb_name fs0 ` set ps"
  using assms by (auto simp: entries_iff rb_holds_def)

lemma Rollback_failed_holds:
  assumes "list_all (rb_path dir fs0) ps" and "rb_holds dir fs0 ps fs" and "dir = taskDir cacheDir taskID"
    and "Rb_Rollback ft cacheDir taskID fs = (Some e, fs')"
  shows "rb_holds dir fs0 ps fs'"
proof -
  consider "fs' = fs" | r where "restore_loop ft dir (entries dir fs) fs = (r, fs')"
    using assms(4) unfolding Rb_Rollback_def Let_def assms(3) [symmetric]
    by (fastforce simp: os_ReadDir_def os_RemoveAll_def comp_def
        split: if_splits io.splits option.splits prod.splits)
  then show ?thesis
  proof cases
    case 2
    show ?thesis by (rule restore_loop_holds [OF assms(1) 2]) (use entries_holds [OF assms(2)] assms(2) in auto)
  qed (use assms(2) in simp)
qed

section \<open>The round trip\<close>

lemma map_of_rev_unique:
  assumes "x \<in> set xs" and "\<And>y. y \<in> set xs \<Longrightarrow> f y = f x \<Longrightarrow> g y = g x"
  shows "map_of (rev (map (\<lambda>y. (f y, g y)) xs)) (f x) = Some (g x)"
proof -
  have "f x \<in> fst ` set (rev (map (\<lambda>y. (f y, g y)) xs))" using assms(1) by force
  then obtain v where v: "map_of (rev (map (\<lambda>y. (f y, g y)) xs)) (f x) = Some v"
    by (metis map_of_eq_None_iff not_Some_eq)
  from map_of_SomeD [OF v] assms(2) have "v = g x" by auto
  with v show ?thesis by simp
qed

text \<open>A directory for the task that holds nothing yet.\<close>

definition rb_fresh :: "string \<Rightarrow> FS \<Rightarrow> bool" where
  "rb_fresh dir fs \<longleftrightarrow> content fs dir = None \<and> (\<forall>q. below dir q \<longrightarrow> content fs q = None) \<and>
     (\<forall>d \<in> set (fs_dirs fs). \<not> below dir d)"

lemma ancestors_not_below:
  assumes "clean_dir dir" and "d \<in> set (ancestors dir)"
  shows "\<not> below dir d"
proof
  assume "below dir d"
  then have "prefix (dir @ ''/'') d"
    using clean_dir_join(3) [OF assms(1) proper_meta] by (simp add: below_def)
  moreover have "prefix d dir" using assms(2) by (auto simp: ancestors_def)
  ultimately show False by (auto dest!: prefix_length_le)
qed

lemma Snapshot_holds:
  assumes dirs: "clean_dir cacheDir" "proper taskID" "dir = taskDir cacheDir taskID"
    and fresh: "rb_fresh dir fs" and ps: "list_all (rb_path dir fs) ps"
  shows "\<exists>fs1. Rb_Snapshot no_faults meta cacheDir taskID ps fs = (None, fs1) \<and> rb_holds dir fs ps fs1 \<and>
    (\<forall>q. \<not> below dir q \<longrightarrow> content fs1 q = content fs q)"
proof -
  have dir: "clean_dir dir" using taskDir_clean [OF dirs(1,2)] dirs(3) by simp
  define fs0 where "fs0 = fs\<lparr>fs_dirs := remdups (fs_dirs fs @ ancestors dir)\<rparr>"
  let ?L = "map (\<lambda>p. (stem dir @ rb_name fs p, rb_data fs p)) ps"
  have "ws_path dir p \<and> content fs0 p = content fs p" if "p \<in> set ps" for p
    using ps that by (simp add: list_all_iff rb_path_def fs0_def)
  from snapshot_loop_content [OF dir this] obtain fs' where
    fs': "snapshot_loop no_faults dir ps fs0 = (None, fs')" "fs_dirs fs' = fs_dirs fs0"
      "content fs' = content fs0 ++ map_of (rev ?L)" by blast
  let ?meta = "stem dir @ ''meta.json''"
  define fs1 where "fs1 = fs'\<lparr>fs_files := AList.update ?meta meta (fs_files fs')\<rparr>"
  have "Rb_Snapshot no_faults meta cacheDir taskID ps fs = (None, fs1)"
    using fs'(1) clean_dir_join(1) [OF dir proper_meta]
    by (simp add: Rb_Snapshot_def Let_def dirs(3) [symmetric] fs0_def [symmetric] fs1_def)
  moreover have stored: "map_of (rev ?L) q = None \<longleftrightarrow> q \<notin> (\<lambda>p. stem dir @ rb_name fs p) ` set ps" for q
    by (simp add: map_of_eq_None_iff image_image)
  have out: "content fs1 q = content fs q" if "\<not> below dir q" for q
  proof -
    have "q \<noteq> ?meta" "q \<notin> (\<lambda>p. stem dir @ rb_name fs p) ` set ps" using that by auto
    then show ?thesis using stored [of q] by (simp add: fs1_def fs'(3) map_add_def fs0_def)
  qed
  moreover have "rb_holds dir fs ps fs1"
    unfolding rb_holds_def
  proof (intro conjI ballI allI impI)
    show "dir \<in> set (fs_dirs fs1)" by (simp add: fs1_def fs'(2) fs0_def ancestor_self)
    show "\<not> below dir d" if "d \<in> set (fs_dirs fs1)" for d
      using that fresh ancestors_not_below [OF dir] by (auto simp: fs1_def fs'(2) fs0_def rb_fresh_def)
    show "content fs1 q = content fs q" if "q \<notin> set ps \<and> \<not> below dir q" for q using out that by simp
  next
    fix p assume p: "p \<in> set ps"
    have "y = p" if "y \<in> set ps" "stem dir @ rb_name fs y = stem dir @ rb_name fs p" for y
    proof -
      have "rb_target (rb_name fs y) = rb_target (rb_name fs p)" using that(2) by simp
      moreover have "rb_path dir fs y" "rb_path dir fs p" using ps p that(1) by (simp_all add: list_all_iff)
      ultimately show ?thesis by (simp add: rb_path_target)
    qed
    then have "map_of (rev ?L) (stem dir @ rb_name fs p) = Some (rb_data fs p)"
      by (intro map_of_rev_unique [OF p]) blast
    moreover have "rb_name fs p \<noteq> ''meta.json''"
      using ps p rb_name_proper [of p fs] by (auto simp: list_all_iff rb_path_def ws_path_def clean_dir_abs)
    ultimately show "content fs1 (stem dir @ rb_name fs p) = Some (rb_data fs p)"
      by (simp add: fs1_def fs'(3) map_add_def)
  next
    fix n assume n: "content fs1 (stem dir @ n) \<noteq> None"
    have "content fs (stem dir @ n) = None" using fresh by (simp add: rb_fresh_def)
    then show "n = ''meta.json'' \<or> n \<in> rb_name fs ` set ps"
      using n stored [of "stem dir @ n"] by (auto simp: fs1_def fs'(3) map_add_def fs0_def split: if_splits)
  qed
  ultimately show ?thesis by blast
qed

lemma Rollback_restores:
  assumes dirs: "clean_dir cacheDir" "proper taskID" "dir = taskDir cacheDir taskID"
    and fresh: "rb_fresh dir fs0" and ps: "list_all (rb_path dir fs0) ps" and held: "rb_holds dir fs0 ps fs"
  shows "\<exists>fs'. Rb_Rollback no_faults cacheDir taskID fs = (None, fs') \<and> content fs' = content fs0"
proof -
  have dir: "clean_dir dir" using taskDir_clean [OF dirs(1,2)] dirs(3) by simp
  let ?ns = "entries dir fs"
  have entry: "\<exists>p \<in> set ps. n = rb_name fs0 p \<and> rb_target n = p \<and> rb_val dir fs n = content fs0 p"
    if n: "n \<in> set ?ns" "n \<noteq> ''meta.json''" for n
  proof -
    from entries_holds [OF held n] obtain p where p: "p \<in> set ps" "n = rb_name fs0 p" by blast
    have ok: "rb_path dir fs0 p" using ps p(1) by (simp add: list_all_iff)
    then have "suffix ''.new'' n \<longleftrightarrow> content fs0 p = None"
      using rb_target_name(2) by (simp add: p(2) rb_path_def ws_path_def)
    moreover have "content fs (stem dir @ n) = Some (rb_data fs0 p)"
      using held p by (simp add: rb_holds_def)
    ultimately show ?thesis
      using p rb_path_target [OF ok] by (auto simp: rb_val_def rb_data_def)
  qed
  have "rb_entry_ok dir fs n" if n: "n \<in> set ?ns" "n \<noteq> ''meta.json''" for n
  proof -
    from entry [OF n] obtain p where p: "p \<in> set ps" "n = rb_name fs0 p" "rb_target n = p" by blast
    then have "ws_path dir p" using ps by (simp add: list_all_iff rb_path_def)
    then show ?thesis using p rb_name_proper [of p fs0] held
      by (auto simp: rb_entry_ok_def rb_holds_def ws_path_def clean_dir_abs)
  qed
  from restore_loop_ok [OF dir this] obtain fs1 where
    fs1: "restore_loop no_faults dir ?ns fs = (None, fs1)"
      "\<And>q v. (\<forall>n \<in> set ?ns. n \<noteq> ''meta.json'' \<and> rb_target n = q \<longrightarrow> rb_val dir fs n = v) \<Longrightarrow>
         (\<exists>n \<in> set ?ns. n \<noteq> ''meta.json'' \<and> rb_target n = q) \<or> content fs q = v \<Longrightarrow> content fs1 q = v"
    by blast
  have restored: "content fs1 q = content fs0 q" if q: "\<not> below dir q" for q
  proof (rule fs1(2))
    show "\<forall>n \<in> set ?ns. n \<noteq> ''meta.json'' \<and> rb_target n = q \<longrightarrow> rb_val dir fs n = content fs0 q"
      using entry by blast
    show "(\<exists>n \<in> set ?ns. n \<noteq> ''meta.json'' \<and> rb_target n = q) \<or> content fs q = content fs0 q"
    proof (cases "q \<in> set ps")
      case True
      then have ok: "rb_path dir fs0 q" using ps by (simp add: list_all_iff)
      have "proper (rb_name fs0 q) \<and> rb_name fs0 q \<noteq> ''meta.json''"
        by (rule rb_name_proper) (use ok in \<open>simp add: rb_path_def ws_path_def clean_dir_abs\<close>)
      moreover have "content fs (stem dir @ rb_name fs0 q) \<noteq> None" using held True by (simp add: rb_holds_def)
      ultimately have "rb_name fs0 q \<in> set ?ns" "rb_name fs0 q \<noteq> ''meta.json''"
        by (auto simp: entries_iff proper_def slashless_def)
      then show ?thesis using rb_path_target [OF ok] by blast
    next
      case False
      then show ?thesis using held q by (simp add: rb_holds_def)
    qed
  qed
  define fs' where "fs' = snd (os_RemoveAll no_faults dir fs1)"
  have "dir \<in> set (fs_dirs fs)" using held by (simp add: rb_holds_def)
  then have "Rb_Rollback no_faults cacheDir taskID fs = (None, fs')"
    using fs1(1) by (simp add: Rb_Rollback_def Let_def dirs(3) [symmetric] os_Stat_dir_def os_ReadDir_def
        no_faults_def comp_def os_RemoveAll_def fs'_def)
  moreover have "content fs' = content fs0"
    using restored fresh by (auto simp: fs'_def content_RemoveAll rb_fresh_def)
  ultimately show ?thesis by blast
qed

text \<open>
  What a task may do between the snapshot and the rollback: change, create or delete the files that it
  named, and create directories, but nothing in the store.
\<close>

definition task_effect :: "string \<Rightarrow> string list \<Rightarrow> FS \<Rightarrow> FS \<Rightarrow> bool" where
  "task_effect dir ps fs fs' \<longleftrightarrow>
     (\<forall>q. q \<notin> set ps \<longrightarrow> content fs' q = content fs q) \<and> set (fs_dirs fs) \<subseteq> set (fs_dirs fs') \<and>
     (\<forall>d \<in> set (fs_dirs fs'). d \<in> set (fs_dirs fs) \<or> \<not> below dir d)"

lemma task_effect_holds:
  assumes "rb_holds dir fs0 ps fs" and "list_all (rb_path dir fs0) ps" and "task_effect dir ps fs fs'"
  shows "rb_holds dir fs0 ps fs'"
proof -
  have "stem dir @ n \<notin> set ps" for n
    using assms(2) by (auto simp: list_all_iff rb_path_def ws_path_def)
  then show ?thesis using assms(1,3) by (auto simp: rb_holds_def task_effect_def)
qed

text \<open>
  C17. A rollback undoes what the task did. Let a snapshot be taken of absolute clean paths, none of them
  below the snapshot directory or with the separator glyph in it, those of existing files not ending
  in \<open>.new\<close>, into a directory that held nothing, and let no file operation of the snapshot and of the
  rollback fail; in particular the task removes no directory that a restored file needs. The snapshot changes no file outside its directory;
  and whatever the task then does to the files it named, \<open>Rollback\<close> succeeds and every file of the
  whole file system has its old content again, or is gone if it did not exist, the store included.
\<close>

theorem rollback_round_trip:
  assumes "clean_dir cacheDir" and "proper taskID" and "dir = taskDir cacheDir taskID"
    and "rb_fresh dir fs" and "list_all (rb_path dir fs) ps"
    and "Rb_Snapshot no_faults meta cacheDir taskID ps fs = (r, fs1)" and "task_effect dir ps fs1 fs2"
  shows "r = None \<and> (\<forall>q. \<not> below dir q \<longrightarrow> content fs1 q = content fs q) \<and>
    (\<exists>fs3. Rb_Rollback no_faults cacheDir taskID fs2 = (None, fs3) \<and> content fs3 = content fs)"
proof -
  from Snapshot_holds [OF assms(1-5), of meta] assms(6) have held: "r = None" "rb_holds dir fs ps fs1"
    "\<forall>q. \<not> below dir q \<longrightarrow> content fs1 q = content fs q" by auto
  from Rollback_restores [OF assms(1-5) task_effect_holds [OF held(2) assms(5,7)]] held show ?thesis by simp
qed

text \<open>
  A rollback that fails can be repeated: whatever operation fails, with whatever partial write,
  the snapshot is still complete, and a later rollback without a failure restores every file.
\<close>

theorem failed_rollback_can_be_retried:
  assumes "clean_dir cacheDir" and "proper taskID" and "dir = taskDir cacheDir taskID"
    and "rb_fresh dir fs" and "list_all (rb_path dir fs) ps"
    and "Rb_Snapshot no_faults meta cacheDir taskID ps fs = (r, fs1)" and "task_effect dir ps fs1 fs2"
    and "Rb_Rollback ft cacheDir taskID fs2 = (Some e, fs3)"
  shows "\<exists>fs4. Rb_Rollback no_faults cacheDir taskID fs3 = (None, fs4) \<and> content fs4 = content fs"
proof -
  from Snapshot_holds [OF assms(1-5), of meta] assms(6) have "rb_holds dir fs ps fs1" by auto
  from task_effect_holds [OF this assms(5,7)] have "rb_holds dir fs ps fs2" .
  from Rollback_restores [OF assms(1-5) Rollback_failed_holds [OF assms(5) this assms(3,8)]] show ?thesis .
qed

section \<open>Examples\<close>

definition rb_example :: FS where
  "rb_example = \<lparr>fs_files = [(''/w/a'', ''old'')], fs_dirs = [''/'', ''/w'']\<rparr>"

abbreviation "rb_paths \<equiv> [''/w/a'', ''/w/b'']"

lemma clean_dir_eval:
  "list_all proper es \<Longrightarrow> es \<noteq> [] \<Longrightarrow> d = CHR ''/'' # join_slash es \<Longrightarrow> clean_dir d"
  by (auto simp: clean_dir_def)

lemma rb_example_dirs:
  "clean_dir ''/c''" "proper ''t''" "taskDir ''/c'' ''t'' = ''/c/t''" "rb_fresh ''/c/t'' rb_example"
  "list_all (rb_path ''/c/t'' rb_example) rb_paths"
proof -
  show "clean_dir ''/c''" by (rule clean_dir_eval [of "[''c'']"]) (simp_all add: proper_def slashless_def)
  show "proper ''t''" by (simp add: proper_def slashless_def)
  show "taskDir ''/c'' ''t'' = ''/c/t''" by code_simp
  show "rb_fresh ''/c/t'' rb_example"
    by (auto simp: rb_fresh_def rb_example_def content_def below_def stem_def)
  have "clean_dir ''/w/a''" "clean_dir ''/w/b''"
    by (rule clean_dir_eval [of "[''w'', ''a'']"] clean_dir_eval [of "[''w'', ''b'']"];
        simp add: proper_def slashless_def)+
  then show "list_all (rb_path ''/c/t'' rb_example) rb_paths"
    by (simp add: rb_path_def ws_path_def rb_example_def content_def below_def stem_def rb_glyph_def
        sublist_Cons_right suffix_def)
qed

definition rb_taken :: FS where
  "rb_taken = snd (Rb_Snapshot no_faults ''{}'' ''/c'' ''t'' rb_paths rb_example)"

text \<open>The task overwrites the first file and creates the second.\<close>

definition rb_changed :: FS where
  "rb_changed = snd (os_WriteFile no_faults ''/w/b'' ''b'' (snd (os_WriteFile no_faults ''/w/a'' ''new'' rb_taken)))"

lemma rb_changed:
  "content rb_changed = (content rb_taken)(''/w/a'' \<mapsto> ''new'', ''/w/b'' \<mapsto> ''b'')"
  "fs_dirs rb_changed = fs_dirs rb_taken"
  by (auto simp: rb_changed_def content_def update_conv')

lemma rb_changed_effect: "task_effect ''/c/t'' rb_paths rb_taken rb_changed"
  by (simp add: task_effect_def rb_changed)

lemma rb_example_content: "content rb_example = [''/w/a'' \<mapsto> ''old'']"
  by (auto simp: rb_example_def content_def)

theorem rollback_round_trip_witness:
  "content rb_changed ''/w/a'' = Some ''new'' \<and> content rb_changed ''/w/b'' = Some ''b'' \<and>
   (\<exists>fs3. Rb_Rollback no_faults ''/c'' ''t'' rb_changed = (None, fs3) \<and>
      content fs3 ''/w/a'' = Some ''old'' \<and> content fs3 ''/w/b'' = None)"
  using rollback_round_trip [OF rb_example_dirs(1,2) rb_example_dirs(3) [symmetric] rb_example_dirs(4,5)
      surjective_pairing rb_changed_effect [unfolded rb_taken_def]]
  by (auto simp: rb_changed rb_example_content)

text \<open>Writing back the first file fails and truncates it.\<close>

definition rb_disk_full :: faults where
  "rb_disk_full = (\<lambda>x. if x = OpWriteFile ''/w/a'' then Some (''disk full'', Some []) else None)"

theorem failed_rollback_can_be_retried_witness:
  "\<exists>fs3 fs4. Rb_Rollback rb_disk_full ''/c'' ''t'' rb_changed =
       (Some (RbRestore ''/w/a'' ''disk full''), fs3) \<and> content fs3 ''/w/a'' = Some [] \<and>
     Rb_Rollback no_faults ''/c'' ''t'' fs3 = (None, fs4) \<and> content fs4 ''/w/a'' = Some ''old''"
proof -
  define fs3 where "fs3 = snd (Rb_Rollback rb_disk_full ''/c'' ''t'' rb_changed)"
  have "fst (Rb_Rollback rb_disk_full ''/c'' ''t'' rb_changed) = Some (RbRestore ''/w/a'' ''disk full'') \<and>
    content fs3 ''/w/a'' = Some []" unfolding fs3_def by code_simp
  then have failed: "Rb_Rollback rb_disk_full ''/c'' ''t'' rb_changed =
      (Some (RbRestore ''/w/a'' ''disk full''), fs3)" "content fs3 ''/w/a'' = Some []"
    by (auto simp: fs3_def prod_eq_iff)
  from failed_rollback_can_be_retried [OF rb_example_dirs(1,2) rb_example_dirs(3) [symmetric] rb_example_dirs(4,5)
      surjective_pairing rb_changed_effect [unfolded rb_taken_def] failed(1)]
  obtain fs4 where "Rb_Rollback no_faults ''/c'' ''t'' fs3 = (None, fs4)" "content fs4 = content rb_example"
    by blast
  then show ?thesis using failed by (auto simp: rb_example_content)
qed

text \<open>
  The sentinel is a name that a file can have: for an existing file that ends in \<open>.new\<close> the saved
  copy is taken for a sentinel, and \<open>Rollback\<close> removes the file without that ending, which the task
  never named, does not restore the named one, and reports success.
\<close>

theorem new_suffix_is_mistaken:
  "\<exists>fs r fs1 fs2. content fs ''/w/x'' = Some ''precious'' \<and> content fs ''/w/x.new'' = Some ''old'' \<and>
     Rb_Snapshot no_faults ''{}'' ''/c'' ''t'' [''/w/x.new''] fs = (None, fs1) \<and>
     os_WriteFile no_faults ''/w/x.new'' ''changed'' fs1 = (None, fs2) \<and>
     (\<exists>fs3. Rb_Rollback no_faults ''/c'' ''t'' fs2 = (None, fs3) \<and>
        content fs3 ''/w/x'' = None \<and> content fs3 ''/w/x.new'' = Some ''changed'')"
proof -
  let ?fs = "\<lparr>fs_files = [(''/w/x'', ''precious''), (''/w/x.new'', ''old'')], fs_dirs = [''/'', ''/w'']\<rparr>"
  let ?s1 = "Rb_Snapshot no_faults ''{}'' ''/c'' ''t'' [''/w/x.new''] ?fs"
  let ?s2 = "os_WriteFile no_faults ''/w/x.new'' ''changed'' (snd ?s1)"
  let ?s3 = "Rb_Rollback no_faults ''/c'' ''t'' (snd ?s2)"
  have "fst ?s1 = None \<and> fst ?s2 = None \<and> fst ?s3 = None \<and>
    content (snd ?s3) ''/w/x'' = None \<and> content (snd ?s3) ''/w/x.new'' = Some ''changed''" by code_simp
  moreover have "content ?fs ''/w/x'' = Some ''precious''" "content ?fs ''/w/x.new'' = Some ''old''"
    by (simp_all add: content_def)
  ultimately show ?thesis by (metis prod.collapse)
qed

text \<open>
  The base name of a task identifier can be the parent directory: discarding the task \<open>..\<close> removes
  the directory that contains the store.
\<close>

theorem discard_can_leave_the_store:
  assumes "clean_dir d" and "proper n" and "below d q"
  shows "content (snd (Rb_Discard no_faults (stem d @ n) ''..'' fs)) q = None"
proof -
  from assms(1) obtain es where es: "es \<noteq> []" "list_all proper es" "d = CHR ''/'' # join_slash es"
    by (auto simp: clean_dir_def)
  have all: "list_all proper (es @ [n])" using es(2) assms(2) by simp
  have dir: "stem d @ n = CHR ''/'' # join_slash (es @ [n])"
    using es(1) by (simp only: clean_dir_join(3) [OF assms(1,2)]) (simp add: es(3) join_slash_append)
  have base: "Base ''..'' = ''..''" by code_simp
  have "split_slash ((stem d @ n) @ CHR ''/'' # ''..'') = [] # es @ [n, ''..'']"
    using split_join_slash [OF _ proper_slashless [OF all]]
    by (simp only: split_slash_slash dir) simp
  moreover have "clean_elems True st (es @ [n, ''..'']) = rev st @ es" for st
    using all by (induction es arbitrary: st) (auto simp: proper_def)
  moreover have "IsAbs ((stem d @ n) @ CHR ''/'' # ''..'')" by (simp only: dir) (simp add: IsAbs_def)
  ultimately have "Clean ((stem d @ n) @ CHR ''/'' # ''..'') = d"
    by (simp add: Clean_def Clean_elems_def es(3) del: append_assoc)
  moreover have "stem d @ n \<noteq> []" using dir by simp
  ultimately have "taskDir (stem d @ n) ''..'' = d"
    by (simp add: taskDir_def base Join_path_def del: append_assoc)
  then show ?thesis using content_RemoveAll [of d fs q] assms(3) by (simp add: Rb_Discard_def)
qed

theorem discard_can_leave_the_store_witness:
  "taskDir ''/cfg/tmp'' ''..'' = ''/cfg'' \<and>
   content (snd (Rb_Discard no_faults ''/cfg/tmp'' ''..''
     \<lparr>fs_files = [(''/cfg/settings.json'', ''{}'')], fs_dirs = []\<rparr>)) ''/cfg/settings.json'' = None"
proof -
  have "taskDir ''/cfg/tmp'' ''..'' = ''/cfg''" by code_simp
  moreover have "clean_dir ''/cfg''"
    by (rule clean_dir_eval [of "[''cfg'']"]) (simp_all add: proper_def slashless_def)
  from discard_can_leave_the_store [OF this, of "''tmp''" "''/cfg/settings.json''"]
  have "content (snd (Rb_Discard no_faults ''/cfg/tmp'' ''..'' fs)) ''/cfg/settings.json'' = None" for fs
    by (simp add: proper_def slashless_def below_def stem_def)
  ultimately show ?thesis by blast
qed

end
