(* ===== verification/DagPruner.thy ===== *)
theory DagPruner
  imports GoValues
begin

text \<open>
  The compression of verbose outputs, \<open>pkg/dag/pruner.go\<close>. Lines are kept when they match a regular
  expression of error words, when they are among the last, or from the front while there is room;
  the rest becomes markers. Proved here: the bound on the length, that inputs within the budget and
  the error lines survive, and that the number of lines is not bounded.
\<close>

section \<open>Lines\<close>

text \<open>\<open>strings.Split(s, "\n")\<close> and \<open>strings.Join(lines, "\n")\<close>.\<close>

abbreviation newline :: char where
  "newline \<equiv> CHR 0x0A"

fun split_lines :: "string \<Rightarrow> string list" where
  "split_lines [] = [[]]"
| "split_lines (c # s) =
     (if c = newline then [] # split_lines s
      else (case split_lines s of [] \<Rightarrow> [[c]] | l # ls \<Rightarrow> (c # l) # ls))"

fun join_lines :: "string list \<Rightarrow> string" where
  "join_lines [] = []"
| "join_lines [l] = l"
| "join_lines (l # m # ls) = l @ newline # join_lines (m # ls)"

definition count_newlines :: "string \<Rightarrow> nat" where
  "count_newlines s = length (filter (\<lambda>c. c = newline) s)"

section \<open>The regular expression\<close>

text \<open>
  \<open>errorLineRe\<close>: one of the words, in any case, between word boundaries. Under \<open>(?i)\<close> the letters k
  and s also match the Kelvin sign and the long s. A word character is a letter, a digit or an
  underscore of ASCII.
\<close>

definition error_words :: "string list" where
  "error_words =
     [''error'', ''err:'', ''fatal'', ''panic'', ''failed'', ''exception'', ''denied'', ''timeout'',
      ''refused'', ''traceback'', ''cannot'', ''could not'', ''no such'', ''permission'',
      ''unauthorized'', ''invalid'', ''unexpected'']"

definition word_char :: "char \<Rightarrow> bool" where
  "word_char c \<longleftrightarrow> is_upper_byte c \<or> is_lower_byte c \<or> c \<in> set ''0123456789_''"

definition at_word :: "string \<Rightarrow> bool" where
  "at_word s \<longleftrightarrow> s \<noteq> [] \<and> word_char (hd s)"

fun match_word :: "string \<Rightarrow> string \<Rightarrow> string option" where
  "match_word [] s = Some s"
| "match_word (p # ps) s =
     (case s of
        [] \<Rightarrow> None
      | c # t \<Rightarrow>
          if lower_byte c = p then match_word ps t
          else if p = CHR ''k'' \<and> prefix [CHR 0xE2, CHR 0x84, CHR 0xAA] s then match_word ps (drop 3 s)
          else if p = CHR ''s'' \<and> prefix [CHR 0xC5, CHR 0xBF] s then match_word ps (drop 2 s)
          else None)"

text \<open>A match of one of the words at this position, after a word character or not.\<close>

definition match_here :: "bool \<Rightarrow> string \<Rightarrow> bool" where
  "match_here prev s \<longleftrightarrow>
     prev \<noteq> at_word s \<and>
     list_ex (\<lambda>w. case match_word w s of None \<Rightarrow> False | Some r \<Rightarrow> word_char (last w) \<noteq> at_word r) error_words"

fun search_from :: "bool \<Rightarrow> string \<Rightarrow> bool" where
  "search_from prev [] = match_here prev []"
| "search_from prev (c # s) = (match_here prev (c # s) \<or> search_from (word_char c) s)"

definition error_line :: "string \<Rightarrow> bool" where
  "error_line l = search_from False l"

section \<open>Compression\<close>

record Pruner =
  MaxLines :: int
  MaxChars :: int

definition DefaultMaxLines :: int where
  "DefaultMaxLines = 10"

definition DefaultMaxChars :: int where
  "DefaultMaxChars = 2000"

definition NewPruner :: "int \<Rightarrow> int \<Rightarrow> Pruner" where
  "NewPruner maxLines maxChars =
     \<lparr>MaxLines = (if maxLines \<le> 0 then DefaultMaxLines else maxLines),
      MaxChars = (if maxChars \<le> 0 then DefaultMaxChars else maxChars)\<rparr>"

text \<open>The indices of the error lines and of the tail.\<close>

definition signal_indices :: "string list \<Rightarrow> nat list" where
  "signal_indices ls = filter (\<lambda>i. error_line (ls ! i)) [0..<length ls]"

definition tail_indices :: "int \<Rightarrow> nat \<Rightarrow> nat list" where
  "tail_indices maxLines n =
     (let tailCount = (if maxLines div 2 < 1 then 1 else maxLines div 2);
          start = (if int n - tailCount < 0 then 0 else int n - tailCount)
      in [nat start..<n])"

text \<open>Filling up from the head: the keys of the map \<open>selected\<close> as a list without duplicates.\<close>

function fill_head :: "int \<Rightarrow> nat \<Rightarrow> nat \<Rightarrow> nat list \<Rightarrow> nat list" where
  "fill_head maxLines n i sel =
     (if i < n \<and> int (length sel) < maxLines then fill_head maxLines n (i + 1) (List.insert i sel) else sel)"
  by pat_completeness auto
termination by (relation "measure (\<lambda>(maxLines, n, i, sel). n - i)") auto

declare fill_head.simps [simp del]

definition omitted :: "nat \<Rightarrow> string" where
  "omitted k = ''  [... '' @ itoa k @ '' lines omitted ...]''"

fun keep_lines :: "nat list \<Rightarrow> nat \<Rightarrow> int \<Rightarrow> string list \<Rightarrow> string list" where
  "keep_lines sel i lastKept [] = []"
| "keep_lines sel i lastKept (l # ls) =
     (if i \<notin> set sel then keep_lines sel (i + 1) lastKept ls
      else (if lastKept \<ge> 0 \<and> int i > lastKept + 1
            then [omitted (nat (int i - lastKept - 1))] else []) @ l # keep_lines sel (i + 1) (int i) ls)"

definition kept_lines :: "Pruner \<Rightarrow> string list \<Rightarrow> string list" where
  "kept_lines p ls =
     keep_lines
       (fill_head (MaxLines p) (length ls) 0
         (remdups (signal_indices ls @ tail_indices (MaxLines p) (length ls)))) 0 (-1) ls"

text \<open>\<open>None\<close> is the panic of slicing with a negative bound.\<close>

definition Compress :: "Pruner \<Rightarrow> string \<Rightarrow> string option" where
  "Compress p output =
     (if output = [] then Some []
      else if int (length (split_lines output)) \<le> MaxLines p \<and> int (length output) \<le> MaxChars p
      then Some output
      else
        (let result = join_lines (kept_lines p (split_lines output))
         in if int (length result) > MaxChars p
            then (if MaxChars p < 3 then None else Some (take (nat (MaxChars p - 3)) result @ ''...''))
            else Some result))"

text \<open>The dash of the header in UTF-8.\<close>

definition CompressWithHeader :: "Pruner \<Rightarrow> string \<Rightarrow> string \<Rightarrow> string option" where
  "CompressWithHeader p label output =
     (case Compress p output of
        None \<Rightarrow> None
      | Some compressed \<Rightarrow>
          (let total = count_newlines output + 1; shown = count_newlines compressed + 1
           in if shown \<ge> total then Some compressed
              else Some (''['' @ label @ '' '' @ [CHR 0xE2, CHR 0x80, CHR 0x94] @ '' showing '' @ itoa shown @
                '' of '' @ itoa total @ '' lines]'' @ [newline] @ compressed)))"

section \<open>Lemmas\<close>

lemma split_lines_not_Nil [simp]: "split_lines s \<noteq> []"
  by (cases s) (auto split: list.splits)

lemma join_split_lines: "join_lines (split_lines s) = s"
proof (induction s)
  case (Cons c s)
  then show ?case by (cases "split_lines s" rule: join_lines.cases) auto
qed simp

lemma fill_head_mono: "set sel \<subseteq> set (fill_head m n i sel)"
proof (induction m n i sel rule: fill_head.induct)
  case (1 m n i sel)
  then show ?case by (subst fill_head.simps) auto
qed

lemma keep_lines_subseq:
  assumes "\<And>j. j < length ls \<Longrightarrow> P (ls ! j) \<Longrightarrow> i + j \<in> set sel"
  shows "subseq (filter P ls) (keep_lines sel i k ls)"
  using assms
proof (induction ls arbitrary: i k)
  case (Cons l ls)
  have "i + 1 + j \<in> set sel" if "j < length ls" "P (ls ! j)" for j
    using Cons.prems [of "j + 1"] that by simp
  note rest = Cons.IH [OF this]
  show ?case
  proof (cases "i \<in> set sel")
    case True
    then show ?thesis using rest [of "int i"] by (auto intro: subseq_Cons')
  next
    case False
    then have "\<not> P l" using Cons.prems [of 0] by auto
    then show ?thesis using rest [of k] False by simp
  qed
qed simp

lemma keep_lines_all:
  "(\<And>j. j < length ls \<Longrightarrow> i + j \<in> set sel) \<Longrightarrow> k = int i - 1 \<Longrightarrow> keep_lines sel i k ls = ls"
proof (induction ls arbitrary: i k)
  case (Cons l ls)
  have "i \<in> set sel" using Cons.prems(1) [of 0] by simp
  moreover have "i + 1 + j \<in> set sel" if "j < length ls" for j using Cons.prems(1) [of "j + 1"] that by simp
  note Cons.IH [OF this]
  ultimately show ?case using Cons.prems(2) by simp
qed simp

lemma split_lines_clean: "l \<in> set (split_lines s) \<Longrightarrow> newline \<notin> set l"
  by (induction s arbitrary: l) (auto split: list.splits if_splits)

lemma split_lines_line: "newline \<notin> set l \<Longrightarrow> split_lines l = [l]"
  by (induction l) auto

lemma split_lines_append: "newline \<notin> set l \<Longrightarrow> split_lines (l @ newline # s) = l # split_lines s"
  by (induction l) auto

lemma split_join_lines:
  "ls \<noteq> [] \<Longrightarrow> \<forall>l \<in> set ls. newline \<notin> set l \<Longrightarrow> split_lines (join_lines ls) = ls"
  by (induction ls rule: join_lines.induct) (auto simp: split_lines_line split_lines_append)

lemma itoa_digits: "set (itoa n) \<subseteq> set ''0123456789''"
proof (induction n rule: itoa.induct)
  case (1 n)
  have digit: "digit_char d \<in> set ''0123456789''" if "d < 10" for d
    unfolding digit_char.simps by (rule nth_mem) (use that in simp)
  show ?case
  proof (cases "n < 10")
    case True
    then show ?thesis using digit [OF True] by (subst itoa.simps) (simp del: digit_char.simps)
  next
    case False
    then show ?thesis using 1 digit [of "n mod 10"] by (subst itoa.simps) (simp del: digit_char.simps)
  qed
qed

lemma omitted_clean: "newline \<notin> set (omitted k)"
  using itoa_digits [of k] by (auto simp: omitted_def)

lemma keep_lines_clean:
  "\<forall>l \<in> set ls. newline \<notin> set l \<Longrightarrow> l \<in> set (keep_lines sel i k ls) \<Longrightarrow> newline \<notin> set l"
  by (induction ls arbitrary: i k) (auto simp: omitted_clean split: if_splits)

lemma kept_signals: "subseq (filter error_line ls) (kept_lines p ls)"
proof -
  have "j \<in> set (fill_head (MaxLines p) (length ls) 0 (remdups (signal_indices ls @ tail_indices (MaxLines p) (length ls))))"
    if "j < length ls" "error_line (ls ! j)" for j
    by (rule subsetD [OF fill_head_mono]) (use that in \<open>simp add: signal_indices_def\<close>)
  then show ?thesis unfolding kept_lines_def by (intro keep_lines_subseq) simp
qed

section \<open>What compression keeps\<close>

lemma tail_indices_last: "0 < n \<Longrightarrow> n - 1 \<in> set (tail_indices m n)"
  by (auto simp: tail_indices_def Let_def)

lemma keep_lines_last: "i + length ls - 1 \<in> set sel \<Longrightarrow> ls \<noteq> [] \<Longrightarrow> keep_lines sel i k ls \<noteq> []"
proof (induction ls arbitrary: i k)
  case (Cons l ls)
  then show ?case by (cases "ls = []") auto
qed simp

lemma kept_lines_split:
  assumes "ls = split_lines out"
  shows "split_lines (join_lines (kept_lines p ls)) = kept_lines p ls"
proof (rule split_join_lines)
  have "0 < length ls" using assms by simp
  then have "0 + length ls - 1 \<in>
      set (fill_head (MaxLines p) (length ls) 0 (remdups (signal_indices ls @ tail_indices (MaxLines p) (length ls))))"
    using tail_indices_last by (intro subsetD [OF fill_head_mono]) simp
  then show "kept_lines p ls \<noteq> []" unfolding kept_lines_def by (rule keep_lines_last) (simp add: assms)
  show "\<forall>l \<in> set (kept_lines p ls). newline \<notin> set l"
    unfolding kept_lines_def using keep_lines_clean split_lines_clean assms by blast
qed

text \<open>
  Compression is bounded and keeps the errors: with a limit of at least three characters it never
  panics, its result has at most \<open>MaxChars\<close> bytes, and unless the limit on characters cuts the result
  off, every line of the output that matches the error expression is a line of the result, in the
  same order.
\<close>

theorem compression_keeps_errors:
  assumes "3 \<le> MaxChars p"
  shows "\<exists>r. Compress p out = Some r \<and> (out = [] \<or> int (length r) \<le> MaxChars p) \<and>
    (int (length (join_lines (kept_lines p (split_lines out)))) \<le> MaxChars p \<longrightarrow>
       subseq (filter error_line (split_lines out)) (split_lines r))"
proof -
  let ?ls = "split_lines out" and ?r = "join_lines (kept_lines p (split_lines out))"
  have split: "split_lines ?r = kept_lines p ?ls" by (rule kept_lines_split [OF refl])
  consider "out = []" | "out \<noteq> []" "int (length ?ls) \<le> MaxLines p \<and> int (length out) \<le> MaxChars p"
    | "out \<noteq> []" "\<not> (int (length ?ls) \<le> MaxLines p \<and> int (length out) \<le> MaxChars p)" by blast
  then show ?thesis
  proof cases
    case 1
    then show ?thesis by (simp add: Compress_def)
  next
    case 2
    then show ?thesis by (simp add: Compress_def subseq_filter_left)
  next
    case 3
    then have "Compress p out = Some (if int (length ?r) > MaxChars p
        then take (nat (MaxChars p - 3)) ?r @ ''...'' else ?r)"
      unfolding Compress_def using assms by (auto simp: Let_def)
    moreover have "int (length (take (nat (MaxChars p - 3)) ?r @ ''...'')) \<le> MaxChars p" using assms by simp
    ultimately show ?thesis using kept_signals [of ?ls p] split by auto
  qed
qed

text \<open>
  The number of lines is not bounded: an output of error lines alone comes back unchanged, however
  many lines it has, as long as it keeps to the limit on characters. \<open>Compress\<close> is documented to
  return at most \<open>MaxLines\<close> lines.
\<close>

theorem pruner_exceeds_line_limit:
  assumes "list_all error_line (split_lines out)" and "int (length out) \<le> MaxChars p"
  shows "Compress p out = Some out"
proof -
  let ?ls = "split_lines out"
  have "set (signal_indices ?ls) = {0..<length ?ls}"
    using assms(1) by (auto simp: signal_indices_def list_all_length)
  then have "kept_lines p ?ls = ?ls"
    unfolding kept_lines_def
    by (intro keep_lines_all) (auto intro: subsetD [OF fill_head_mono])
  then show ?thesis using assms(2) by (simp add: Compress_def Let_def join_split_lines)
qed

theorem pruner_exceeds_line_limit_witness:
  "Compress (NewPruner 1 2000) (''error'' @ [newline] @ ''fatal'' @ [newline] @ ''panic'') =
     Some (''error'' @ [newline] @ ''fatal'' @ [newline] @ ''panic'') \<and>
   MaxLines (NewPruner 1 2000) = 1"
proof -
  have "list_all error_line (split_lines (''error'' @ [newline] @ ''fatal'' @ [newline] @ ''panic''))"
    by code_simp
  from pruner_exceeds_line_limit [OF this, of "NewPruner 1 2000"] show ?thesis
    by (simp add: NewPruner_def)
qed

theorem compression_keeps_errors_witness:
  "\<exists>r. Compress (NewPruner 2 60) (''a'' @ [newline] @ ''go: Error 3'' @ [newline] @ ''b'' @ [newline] @ ''c'') = Some r \<and>
     length r \<le> 60 \<and> subseq [''go: Error 3''] (split_lines r)"
proof -
  let ?out = "''a'' @ [newline] @ ''go: Error 3'' @ [newline] @ ''b'' @ [newline] @ ''c''"
  have "int (length (join_lines (kept_lines (NewPruner 2 60) (split_lines ?out)))) \<le> MaxChars (NewPruner 2 60) \<and>
    filter error_line (split_lines ?out) = [''go: Error 3''] \<and> MaxChars (NewPruner 2 60) = 60" by code_simp
  with compression_keeps_errors [of "NewPruner 2 60" ?out] show ?thesis by auto
qed

end
