(* ===== verification/DagExecutor.thy ===== *)
theory DagExecutor
  imports GoFiles
begin

text \<open>
  The file operations behind the interface \<open>Executor\<close> of \<open>pkg/dag/executor.go\<close>, for Unix and for
  Windows. What a caller relies on is the locale \<open>file_executor\<close>. The Unix executor meets it; the
  Windows executor does not, because it edits line by line. Running commands is left out.
\<close>

section \<open>Replacing and scanning\<close>

text \<open>The parts before and after the first occurrence: \<open>bytes.Contains\<close> and \<open>bytes.Replace(..., 1)\<close>.\<close>

fun cut :: "string \<Rightarrow> string \<Rightarrow> (string \<times> string) option" where
  "cut old [] = (if old = [] then Some ([], []) else None)"
| "cut old (c # s) =
     (if prefix old (c # s) then Some ([], drop (length old) (c # s))
      else map_option (\<lambda>(a, b). (c # a, b)) (cut old s))"

definition replace_first :: "string \<Rightarrow> string \<Rightarrow> string \<Rightarrow> string option" where
  "replace_first old new s = map_option (\<lambda>(a, b). a @ new @ b) (cut old s)"

text \<open>
  The tokens of a \<open>bufio.Scanner\<close>: lines without their end, \<open>\n\<close> or \<open>\r\n\<close>, and no empty line at the
  end. A line of 65536 bytes or more stops it with an error.
\<close>

fun raw_lines :: "string \<Rightarrow> string \<Rightarrow> string list" where
  "raw_lines l [] = (if l = [] then [] else [rev l])"
| "raw_lines l (c # s) = (if c = CHR 0x0A then rev l # raw_lines [] s else raw_lines (c # l) s)"

definition drop_cr :: "string \<Rightarrow> string" where
  "drop_cr l = (if l \<noteq> [] \<and> last l = CHR 0x0D then butlast l else l)"

definition scan_lines :: "string \<Rightarrow> string list option" where
  "scan_lines s =
     (if list_ex (\<lambda>l. int (length l) \<ge> 65536) (raw_lines [] s) then None else Some (map drop_cr (raw_lines [] s)))"

section \<open>The Unix executor\<close>

datatype ExecError = ExRead string string | ExMkdir string | ExWrite string string | ExRename string
  | ExOpen string | ExNotFound string | ExScan string

definition io_error :: "'a io \<Rightarrow> string" where
  "io_error r = (case r of IoErr e \<Rightarrow> e | _ \<Rightarrow> ''no such file or directory'')"

definition Unix_ReadFile :: "faults \<Rightarrow> string \<Rightarrow> FS \<Rightarrow> ExecError + string" where
  "Unix_ReadFile ft path fs =
     (case os_ReadFile ft path fs of IoOk b \<Rightarrow> Inr b | r \<Rightarrow> Inl (ExRead path (io_error r)))"

text \<open>Writing the temporary file and renaming it, the end of \<open>WriteFile\<close> and of \<open>EditFile\<close>.\<close>

definition replace_file :: "faults \<Rightarrow> string \<Rightarrow> string \<Rightarrow> FS \<Rightarrow> ExecError option \<times> FS" where
  "replace_file ft path s fs =
     (let tmp = path @ ''.dag.tmp''
      in case os_WriteFile ft tmp s fs of
           (Some e, fs) \<Rightarrow> (Some (ExWrite path e), fs)
         | (None, fs) \<Rightarrow>
             (case os_Rename ft tmp path fs of
                (IoOk u, fs) \<Rightarrow> (None, fs)
              | (r, fs) \<Rightarrow> (Some (ExRename (io_error r)), fs)))"

definition Unix_WriteFile :: "faults \<Rightarrow> string \<Rightarrow> string \<Rightarrow> FS \<Rightarrow> ExecError option \<times> FS" where
  "Unix_WriteFile ft path s fs =
     (case os_MkdirAll ft (Dir path) fs of
        (Some e, fs) \<Rightarrow> (Some (ExMkdir e), fs)
      | (None, fs) \<Rightarrow> replace_file ft path s fs)"

text \<open>Opening with \<open>O_APPEND\<close> and writing at the end.\<close>

definition Unix_AppendFile :: "faults \<Rightarrow> string \<Rightarrow> string \<Rightarrow> FS \<Rightarrow> ExecError option \<times> FS" where
  "Unix_AppendFile ft path s fs =
     (case os_MkdirAll ft (Dir path) fs of
        (Some e, fs) \<Rightarrow> (Some (ExMkdir e), fs)
      | (None, fs) \<Rightarrow>
          (case os_WriteFile ft path ((case content fs path of None \<Rightarrow> [] | Some b \<Rightarrow> b) @ s) fs of
             (Some e, fs) \<Rightarrow> (Some (ExOpen e), fs)
           | (None, fs) \<Rightarrow> (None, fs)))"

definition Unix_EditFile :: "faults \<Rightarrow> string \<Rightarrow> string \<Rightarrow> string \<Rightarrow> FS \<Rightarrow> ExecError option \<times> FS" where
  "Unix_EditFile ft path old new fs =
     (case os_ReadFile ft path fs of
        IoOk data \<Rightarrow>
          (case replace_first old new data of
             None \<Rightarrow> (Some (ExNotFound path), fs)
           | Some replaced \<Rightarrow> replace_file ft path replaced fs)
      | r \<Rightarrow> (Some (ExRead path (io_error r)), fs))"

section \<open>The Windows executor\<close>

fun edit_lines :: "bool \<Rightarrow> string \<Rightarrow> string \<Rightarrow> string list \<Rightarrow> bool \<times> string" where
  "edit_lines found old new [] = (found, [])"
| "edit_lines found old new (l # ls) =
     (let (found', l') = (case (if found then None else replace_first old new l) of
            None \<Rightarrow> (found, l) | Some r \<Rightarrow> (True, r));
          (found'', buf) = edit_lines found' old new ls
      in (found'', l' @ [CHR 0x0D, CHR 0x0A] @ buf))"

definition Windows_EditFile :: "faults \<Rightarrow> string \<Rightarrow> string \<Rightarrow> string \<Rightarrow> FS \<Rightarrow> ExecError option \<times> FS" where
  "Windows_EditFile ft path old new fs =
     (case os_ReadFile ft path fs of
        IoOk data \<Rightarrow>
          (case scan_lines data of
             None \<Rightarrow> (Some (ExScan path), fs)
           | Some ls \<Rightarrow>
               (case edit_lines False old new ls of
                  (False, buf) \<Rightarrow> (Some (ExNotFound path), fs)
                | (True, buf) \<Rightarrow> replace_file ft path buf fs))
      | r \<Rightarrow> (Some (ExRead path (io_error r)), fs))"

section \<open>The interface\<close>

text \<open>
  What a caller of \<open>Executor\<close> relies on: a successful write is what is read afterwards; a successful
  edit replaced the first occurrence and only it; a failed write or edit left the file alone.
\<close>

definition occurs_first :: "string \<Rightarrow> string \<Rightarrow> string \<Rightarrow> string \<Rightarrow> bool" where
  "occurs_first old a b s \<longleftrightarrow> s = a @ old @ b \<and> (\<forall>k < length a. \<not> prefix old (drop k s))"

locale file_executor =
  fixes WriteFile :: "faults \<Rightarrow> string \<Rightarrow> string \<Rightarrow> FS \<Rightarrow> ExecError option \<times> FS"
    and EditFile :: "faults \<Rightarrow> string \<Rightarrow> string \<Rightarrow> string \<Rightarrow> FS \<Rightarrow> ExecError option \<times> FS"
  assumes write_ok: "WriteFile ft p s fs = (None, fs') \<Longrightarrow> content fs' p = Some s"
    and write_failed: "WriteFile ft p s fs = (Some e, fs') \<Longrightarrow> content fs' p = content fs p"
    and edit_ok: "EditFile ft p old new fs = (None, fs') \<Longrightarrow>
      \<exists>a b s. content fs p = Some s \<and> occurs_first old a b s \<and> content fs' p = Some (a @ new @ b)"
    and edit_failed: "EditFile ft p old new fs = (Some e, fs') \<Longrightarrow> content fs' p = content fs p"
    and edit_found: "content fs p = Some s \<Longrightarrow> sublist old s \<Longrightarrow> \<exists>fs'. EditFile no_faults p old new fs = (None, fs')"
begin

text \<open>A file is never lost: after any edit it holds its old content or that content edited.\<close>

lemma edit_all_or_nothing:
  assumes "EditFile ft p old new fs = (r, fs')" and "content fs p = Some s"
  shows "\<exists>t. content fs' p = Some t \<and> (t = s \<or> (\<exists>a b. occurs_first old a b s \<and> t = a @ new @ b))"
  using assms edit_failed edit_ok by (cases r) fastforce+

lemma write_then_edit:
  assumes "WriteFile ft p (a @ old @ b) fs = (None, fs1)"
  shows "\<exists>fs2 c d. EditFile no_faults p old new fs1 = (None, fs2) \<and>
    occurs_first old c d (a @ old @ b) \<and> content fs2 p = Some (c @ new @ d)"
proof -
  have held: "content fs1 p = Some (a @ old @ b)" by (rule write_ok [OF assms])
  moreover have "sublist old (a @ old @ b)" by simp
  ultimately obtain fs2 where fs2: "EditFile no_faults p old new fs1 = (None, fs2)" using edit_found by blast
  from edit_ok [OF this] held fs2 show ?thesis by auto
qed

end

section \<open>The Unix executor meets the interface\<close>

lemma cut_first: "cut old s = Some (a, b) \<Longrightarrow> occurs_first old a b s"
proof (induction s arbitrary: a)
  case (Cons c s)
  show ?case
  proof (cases "prefix old (c # s)")
    case True
    then show ?thesis using Cons.prems by (auto simp: occurs_first_def prefix_def)
  next
    case False
    then obtain a' where a: "a = c # a'" "cut old s = Some (a', b)" using Cons.prems by auto
    from Cons.IH [OF a(2)] have first: "occurs_first old a' b s" .
    have "\<not> prefix old (drop k (c # s))" if "k < length a" for k
      using first that False by (cases k) (auto simp: occurs_first_def a(1))
    then show ?thesis using first by (simp add: occurs_first_def a(1))
  qed
qed (auto simp: occurs_first_def split: if_splits)

lemma cut_found: "sublist old s \<Longrightarrow> cut old s \<noteq> None"
  by (induction s) (auto simp: sublist_Cons_right)

lemma replace_file_content:
  assumes "replace_file ft p s fs = (r, fs')"
  shows "content fs' p = (if r = None then Some s else content fs p)"
proof -
  let ?tmp = "p @ ''.dag.tmp''"
  obtain w fs1 where w: "os_WriteFile ft ?tmp s fs = (w, fs1)" by fastforce
  obtain q fs2 where q: "os_Rename ft ?tmp p fs1 = (q, fs2)" by fastforce
  have "content fs1 p = content fs p" "w = None \<longrightarrow> content fs1 ?tmp = Some s"
    using content_WriteFile [OF w, of p] content_WriteFile [OF w, of ?tmp] by simp_all
  then show ?thesis using assms w q content_Rename [OF q]
    by (auto simp: replace_file_def Let_def split: option.splits io.splits)
qed

lemma replace_file_no_faults: "fst (replace_file no_faults p s fs) = None"
  by (simp add: replace_file_def Let_def os_Rename_def no_faults_def os_WriteFile_def content_def update_conv')

interpretation unix: file_executor Unix_WriteFile Unix_EditFile
proof (unfold_locales, goal_cases)
  case (1 ft p s fs fs')
  then show ?case by (auto simp: Unix_WriteFile_def dest: replace_file_content split: option.splits prod.splits)
next
  case (2 ft p s fs e fs')
  then show ?case
    by (auto simp: Unix_WriteFile_def dest!: replace_file_content content_MkdirAll split: option.splits prod.splits)
next
  case (3 ft p old new fs fs')
  then obtain s a b where s: "os_ReadFile ft p fs = IoOk s" "cut old s = Some (a, b)"
    "replace_file ft p (a @ new @ b) fs = (None, fs')"
    by (auto simp: Unix_EditFile_def replace_first_def split: io.splits option.splits)
  then have "content fs p = Some s" by (auto simp: os_ReadFile_def split: option.splits)
  then show ?case using cut_first [OF s(2)] replace_file_content [OF s(3)] by auto
next
  case (4 ft p old new fs e fs')
  then show ?case
    by (auto simp: Unix_EditFile_def dest: replace_file_content split: io.splits option.splits)
next
  case (5 fs p s old new)
  then obtain a b where "cut old s = Some (a, b)" using cut_found by fastforce
  then have "Unix_EditFile no_faults p old new fs = replace_file no_faults p (a @ new @ b) fs"
    using 5 by (simp add: Unix_EditFile_def replace_first_def)
  then show ?case using replace_file_no_faults [of p "a @ new @ b" fs] by (metis prod.collapse)
qed

section \<open>Properties\<close>

text \<open>
  An edit on Unix is all or nothing: whatever operation fails, the file holds its old content or that
  content with exactly the first occurrence replaced, the latter if no error is reported.
\<close>

theorem unix_edit_all_or_nothing:
  assumes "Unix_EditFile ft p old new fs = (r, fs')" and "content fs p = Some s"
  shows "\<exists>t. content fs' p = Some t \<and> (t = s \<or> (\<exists>a b. occurs_first old a b s \<and> t = a @ new @ b)) \<and>
    (r = None \<longrightarrow> (\<exists>a b. occurs_first old a b s \<and> t = a @ new @ b))"
  using unix.edit_all_or_nothing [OF assms] unix.edit_ok [of ft p old new fs fs'] assms by (cases r) auto

theorem unix_edit_all_or_nothing_witness:
  "\<exists>fs' a b. Unix_EditFile no_faults ''/f'' ''x'' ''yy'' \<lparr>fs_files = [(''/f'', ''axbx'')], fs_dirs = []\<rparr> = (None, fs') \<and>
     occurs_first ''x'' a b ''axbx'' \<and> content fs' ''/f'' = Some (a @ ''yy'' @ b)"
proof -
  let ?fs = "\<lparr>fs_files = [(''/f'', ''axbx'')], fs_dirs = []\<rparr>"
  have "fst (Unix_EditFile no_faults ''/f'' ''x'' ''yy'' ?fs) = None" by code_simp
  then obtain fs' where fs': "Unix_EditFile no_faults ''/f'' ''x'' ''yy'' ?fs = (None, fs')" by (metis prod.collapse)
  from unix_edit_all_or_nothing [OF this, of "''axbx''"] fs' show ?thesis by (auto simp: content_def)
qed

text \<open>
  On Windows the same operation does not keep to the interface: a text that spans two lines is reported
  as not found although the file contains it, and a successful edit changes more than the first
  occurrence, since every line gets a carriage return and the last line a line end.
\<close>

theorem windows_edit_breaks_contract:
  "\<not> file_executor Unix_WriteFile Windows_EditFile \<and>
   fst (Windows_EditFile no_faults ''/f'' (''a'' @ [CHR 0x0A] @ ''b'') []
     \<lparr>fs_files = [(''/f'', ''a'' @ [CHR 0x0A] @ ''b'')], fs_dirs = []\<rparr>) = Some (ExNotFound ''/f'') \<and>
   content (snd (Windows_EditFile no_faults ''/f'' ''b'' ''c''
     \<lparr>fs_files = [(''/f'', ''a'' @ [CHR 0x0A] @ ''b'')], fs_dirs = []\<rparr>)) ''/f'' =
     Some (''a'' @ [CHR 0x0D, CHR 0x0A] @ ''c'' @ [CHR 0x0D, CHR 0x0A])"
proof -
  let ?s = "''a'' @ [CHR 0x0A] @ ''b''" let ?fs = "\<lparr>fs_files = [(''/f'', ?s)], fs_dirs = []\<rparr>"
  have lost: "fst (Windows_EditFile no_faults ''/f'' ?s [] ?fs) = Some (ExNotFound ''/f'')" by code_simp
  have "\<not> file_executor Unix_WriteFile Windows_EditFile"
  proof
    assume "file_executor Unix_WriteFile Windows_EditFile"
    then obtain fs' where "Windows_EditFile no_faults ''/f'' ?s [] ?fs = (None, fs')"
      using file_executor.edit_found [of Unix_WriteFile Windows_EditFile ?fs "''/f''" ?s ?s "[]"]
      by (auto simp: content_def)
    with lost show False by simp
  qed
  moreover have "content (snd (Windows_EditFile no_faults ''/f'' ''b'' ''c'' ?fs)) ''/f'' =
     Some (''a'' @ [CHR 0x0D, CHR 0x0A] @ ''c'' @ [CHR 0x0D, CHR 0x0A])" by code_simp
  ultimately show ?thesis using lost by blast
qed

end
