(* ===== verification/Trajectory.thy ===== *)
theory Trajectory
  imports Trace "HOL-Library.Char_ord" "HOL-Library.List_Lexorder" "HOL-Library.Product_Lexorder"
begin

text \<open>
  Trajectories of \<open>pkg/trace\<close>, and what the packages that consume traces share: differences of
  instants, decimal rendering, tables of named values, and sorted references.
\<close>

section \<open>Instants\<close>

text \<open>\<open>time.Time.Sub\<close> saturates at the ends of the 64-bit range; \<open>Milliseconds\<close> rounds to zero.\<close>

definition time_Sub :: "instant \<Rightarrow> instant \<Rightarrow> duration" where
  "time_Sub t u = max (- (2 ^ 63)) (min (2 ^ 63 - 1) (t - u))"

definition Milliseconds :: "duration \<Rightarrow> int" where
  "Milliseconds d = (if d < 0 then - ((- d) div Millisecond) else d div Millisecond)"

text \<open>Wrap-around of \<open>int64\<close>.\<close>

definition wrap64 :: "int \<Rightarrow> int" where
  "wrap64 x = (x + 2 ^ 63) mod 2 ^ 64 - 2 ^ 63"

lemma wrap64_id: "- (2 ^ 63) \<le> x \<Longrightarrow> x < 2 ^ 63 \<Longrightarrow> wrap64 x = x"
  by (simp add: wrap64_def)

lemma Milliseconds_nonneg [simp]: "0 \<le> d \<Longrightarrow> 0 \<le> Milliseconds d"
  by (simp add: Milliseconds_def pos_imp_zdiv_nonneg_iff)

lemma time_Sub_nonneg [simp]: "u \<le> t \<Longrightarrow> 0 \<le> time_Sub t u"
  by (simp add: time_Sub_def)

text \<open>\<open>strconv.FormatInt\<close> and \<open>Itoa\<close> in base 10.\<close>

definition FormatInt :: "int \<Rightarrow> string" where
  "FormatInt n = (if n < 0 then CHR ''-'' # itoa (nat (- n)) else itoa (nat n))"

section \<open>Tables of named values\<close>

text \<open>
  The shape of the \<open>Normalize\<close> functions: the trimmed, lower-case form where the table has it,
  and a default otherwise.
\<close>

definition one_of :: "string list \<Rightarrow> string \<Rightarrow> string \<Rightarrow> string" where
  "one_of valid dflt raw =
     (let s = ToLower (TrimSpace raw) in if s \<in> set valid then s else dflt)"

text \<open>A table whose words are all trimmed and in lower case.\<close>

definition clean_words :: "string list \<Rightarrow> bool" where
  "clean_words valid = list_all (\<lambda>w. ToLower (TrimSpace w) = w) valid"

lemma one_of_range: "one_of valid dflt raw \<in> insert dflt (set valid)"
  by (simp add: one_of_def Let_def)

lemma one_of_member: "clean_words valid \<Longrightarrow> w \<in> set valid \<Longrightarrow> one_of valid dflt w = w"
  by (simp add: one_of_def clean_words_def list_all_iff)

lemma one_of_idem:
  "clean_words valid \<Longrightarrow> dflt \<in> set valid \<Longrightarrow>
     one_of valid dflt (one_of valid dflt raw) = one_of valid dflt raw"
  using one_of_range [of valid dflt raw] by (auto simp: one_of_member)

lemma one_of_lower [simp]: "one_of valid dflt (ToLower (TrimSpace raw)) = one_of valid dflt raw"
  by (simp add: one_of_def)

section \<open>Sorted references\<close>

text \<open>
  The code sorts references by kind, then by reference, then by hash, with \<open>sort.Slice\<close>. The
  order of references that agree in all three is left open by Go; here it is the order of the
  input.
\<close>

definition ref_key :: "Ref \<Rightarrow> string \<times> string \<times> string" where
  "ref_key r = (r_Kind r, r_Ref r, r_Hash r)"

definition sort_refs :: "Ref list \<Rightarrow> Ref list" where
  "sort_refs rs = sort_key ref_key rs"

lemma set_sort_refs [simp]: "set (sort_refs rs) = set rs"
  by (simp add: sort_refs_def)

lemma length_sort_refs [simp]: "length (sort_refs rs) = length rs"
  by (simp add: sort_refs_def)

lemma sorted_sort_refs: "sorted (map ref_key (sort_refs rs))"
  by (simp add: sort_refs_def)

section \<open>Trajectories\<close>

record CostSummary =
  cs_TokenUsage :: TokenUsage
  cs_CostEstimate :: CostEstimate

definition no_summary :: CostSummary where
  "no_summary = \<lparr>cs_TokenUsage = no_tokens, cs_CostEstimate = no_cost\<rparr>"

record Trajectory =
  t_TrajectoryID :: string
  t_SessionID :: string
  t_ParentTrajectoryID :: string
  t_ObjectiveHash :: string
  t_ObjectiveSummary :: string
  t_ModeProfile :: string
  t_OperatorPath :: "string list"
  t_StartStateHash :: string
  t_EndStateHash :: string
  t_EventRefs :: "string list"
  t_ArtifactRefs :: "Ref list"
  t_ValidationRefs :: "Ref list"
  t_DecisionRefs :: "Ref list"
  t_ReceiptRefs :: "Ref list"
  t_Locks :: "string list"
  t_Outcome :: string
  t_CostSummary :: CostSummary
  t_StartedAt :: instant
  t_FinishedAt :: instant
  t_Duration :: int
  t_Status :: string
  t_Metadata :: metadata

text \<open>The zero value of the type.\<close>

definition no_trajectory :: Trajectory where
  "no_trajectory =
     \<lparr>t_TrajectoryID = [], t_SessionID = [], t_ParentTrajectoryID = [], t_ObjectiveHash = [],
      t_ObjectiveSummary = [], t_ModeProfile = [], t_OperatorPath = [], t_StartStateHash = [],
      t_EndStateHash = [], t_EventRefs = [], t_ArtifactRefs = [], t_ValidationRefs = [],
      t_DecisionRefs = [], t_ReceiptRefs = [], t_Locks = [], t_Outcome = [],
      t_CostSummary = no_summary, t_StartedAt = 0, t_FinishedAt = 0, t_Duration = 0,
      t_Status = [], t_Metadata = []\<rparr>"

definition NewTrajectory ::
    "Codec \<Rightarrow> string \<Rightarrow> instant \<Rightarrow> string \<Rightarrow> string \<Rightarrow> string \<Rightarrow> Trajectory" where
  "NewTrajectory H uuid now sessionID objectiveSummary modeProfile =
     no_trajectory
       \<lparr>t_TrajectoryID := NewTrajectoryID uuid,
        t_SessionID := RedactString sessionID 256,
        t_ObjectiveSummary := RedactString objectiveSummary 256,
        t_ObjectiveHash := StableHash H [objectiveSummary],
        t_ModeProfile := RedactString modeProfile 256,
        t_StartedAt := now\<rparr>"

definition valid_operator :: "string \<Rightarrow> string" where
  "valid_operator op = (if Operator_Valid op then op else ''unknown'')"

text \<open>
  The two loops over \<open>EventRefs\<close> and \<open>OperatorPath\<close> write into the backing array, so the code
  also changes the elements of the caller's slices; the value returned is this one.
\<close>

definition Trajectory_Normalized :: "string \<Rightarrow> instant \<Rightarrow> Trajectory \<Rightarrow> Trajectory" where
  "Trajectory_Normalized uuid now t =
     t\<lparr>t_TrajectoryID := (if TrimSpace (t_TrajectoryID t) = [] then NewTrajectoryID uuid
                          else t_TrajectoryID t),
       t_StartedAt := (if IsZero (t_StartedAt t) then now else t_StartedAt t),
       t_SessionID := RedactString (t_SessionID t) 256,
       t_ParentTrajectoryID := RedactString (t_ParentTrajectoryID t) 256,
       t_ObjectiveHash := RedactString (t_ObjectiveHash t) 128,
       t_ObjectiveSummary := RedactString (t_ObjectiveSummary t) 256,
       t_ModeProfile := RedactString (t_ModeProfile t) 256,
       t_StartStateHash := RedactString (t_StartStateHash t) 128,
       t_EndStateHash := RedactString (t_EndStateHash t) 128,
       t_Outcome := RedactString (t_Outcome t) 256,
       t_Status := RedactString (t_Status t) 64,
       t_Metadata := BoundMetadata (t_Metadata t),
       t_ArtifactRefs := boundRefs (t_ArtifactRefs t),
       t_ValidationRefs := boundRefs (t_ValidationRefs t),
       t_DecisionRefs := boundRefs (t_DecisionRefs t),
       t_ReceiptRefs := boundRefs (t_ReceiptRefs t),
       t_EventRefs := map (\<lambda>r. RedactString r 256) (take 256 (t_EventRefs t)),
       t_OperatorPath := map valid_operator (take 64 (t_OperatorPath t)),
       t_Duration := nonneg (t_Duration t)\<rparr>"

definition Trajectory_Validate :: "Trajectory \<Rightarrow> string option" where
  "Trajectory_Validate t =
     (if TrimSpace (t_TrajectoryID t) = [] then Some ''trajectory requires trajectory_id''
      else if IsZero (t_StartedAt t) then Some ''trajectory requires started_at''
      else if length (t_EventRefs t) > 256 then Some ''trajectory event refs exceed bound''
      else if length (t_OperatorPath t) > 64 then Some ''trajectory operator path exceeds bound''
      else if \<not> list_all Operator_Valid (t_OperatorPath t)
      then Some ''trajectory contains invalid operator''
      else None)"

definition LinkEventToTrajectory :: "Event \<Rightarrow> string \<Rightarrow> string \<Rightarrow> string \<Rightarrow> Event" where
  "LinkEventToTrajectory e trajectoryID parentEventID op =
     e\<lparr>ev_TrajectoryID := RedactString trajectoryID 256,
       ev_ParentEventID := RedactString parentEventID 256,
       ev_Operator := (if Operator_Valid op then op
                       else if \<not> Operator_Valid (ev_Operator e) then ''unknown''
                       else ev_Operator e)\<rparr>"

definition AppendOperatorPath :: "string list \<Rightarrow> string \<Rightarrow> string list" where
  "AppendOperatorPath path op =
     (let op = (if \<not> Operator_Valid op then ''unknown'' else op)
      in if length path \<ge> 64 then path else path @ [op])"

definition FinalizeTrajectory ::
    "string \<Rightarrow> instant \<Rightarrow> Trajectory \<Rightarrow> string \<Rightarrow> string \<Rightarrow> string \<Rightarrow> instant \<Rightarrow> CostSummary \<Rightarrow> Trajectory"
where
  "FinalizeTrajectory uuid now t endStateHash outcome status finishedAt summary =
     (let finishedAt = (if IsZero finishedAt then now else finishedAt);
          startedAt = (if IsZero (t_StartedAt t) then finishedAt else t_StartedAt t);
          finishedAt = (if finishedAt < startedAt then startedAt else finishedAt)
      in Trajectory_Normalized uuid now
           (t\<lparr>t_FinishedAt := finishedAt, t_StartedAt := startedAt,
              t_Duration := Milliseconds (time_Sub finishedAt startedAt),
              t_EndStateHash := RedactString endStateHash 128,
              t_Outcome := RedactString outcome 256,
              t_Status := RedactString status 64,
              t_CostSummary := summary\<rparr>))"

section \<open>Lemmas\<close>

lemma Operator_Valid_unknown [simp]: "Operator_Valid ''unknown''"
  by (simp add: Operator_Valid_def validOperators_def)

lemma valid_operator_Valid [simp]: "Operator_Valid (valid_operator op)"
  by (simp add: valid_operator_def)

lemma valid_operator_fix [simp]: "Operator_Valid op \<Longrightarrow> valid_operator op = op"
  by (simp add: valid_operator_def)

lemma not_blank_ascii_head:
  assumes "solid c"
  shows "TrimSpace (c # s) \<noteq> []"
proof -
  have *: "strip_lead wide_spaces (c # s) = None"
    using assms by (simp add: strip_lead_def solid_def)
  then have "TrimSpace (c # s) = TrimRightSpace (c # s)"
    by (simp add: TrimSpace_def TrimLeftSpace_def trim_lead_fix)
  with TrimRightSpace_not_Nil [OF _ *] show ?thesis by simp
qed

lemma NewTrajectoryID_not_blank [simp]: "TrimSpace (NewTrajectoryID uuid) \<noteq> []"
  by (simp add: NewTrajectoryID_def not_blank_ascii_head solid_def is_ascii_def ascii_spaces_def)

text \<open>Normalisation repairs everything that validation looks at.\<close>

lemma Normalized_trajectory_valid:
  "now \<noteq> 0 \<Longrightarrow> Trajectory_Validate (Trajectory_Normalized uuid now t) = None"
  by (simp add: Trajectory_Validate_def Trajectory_Normalized_def IsZero_def list_all_iff)

text \<open>A path built by \<open>AppendOperatorPath\<close> from a valid one is valid.\<close>

definition path_ok :: "string list \<Rightarrow> bool" where
  "path_ok path = (length path \<le> 64 \<and> list_all Operator_Valid path)"

lemma AppendOperatorPath_ok: "path_ok path \<Longrightarrow> path_ok (AppendOperatorPath path op)"
  by (simp add: path_ok_def AppendOperatorPath_def Let_def)

interpretation operator_path: op_machine "[]" "\<lambda>op path. AppendOperatorPath path op" path_ok
  by unfold_locales (simp add: path_ok_def, rule AppendOperatorPath_ok)

text \<open>
  A finalised trajectory is valid whatever the trajectory and the clock: its end is never before
  its start, and its duration is never negative, also where the difference overflows.
\<close>

theorem finalized_trajectory_valid:
  assumes "now \<noteq> 0"
  shows "Trajectory_Validate (FinalizeTrajectory uuid now t h out st fin sm) = None \<and>
    t_StartedAt (FinalizeTrajectory uuid now t h out st fin sm)
      \<le> t_FinishedAt (FinalizeTrajectory uuid now t h out st fin sm) \<and>
    0 \<le> t_Duration (FinalizeTrajectory uuid now t h out st fin sm) \<and>
    t_CostSummary (FinalizeTrajectory uuid now t h out st fin sm) = sm"
proof -
  have start: "IsZero (if IsZero a then b else a) \<longleftrightarrow> IsZero a \<and> IsZero b" for a b
    by (simp add: IsZero_def)
  show ?thesis
    unfolding FinalizeTrajectory_def Let_def
    using assms by (simp add: Normalized_trajectory_valid)
      (auto simp: Trajectory_Normalized_def nonneg_def IsZero_def)
qed

lemma finalized_trajectory_valid_witness:
  "Trajectory_Validate (FinalizeTrajectory ''u'' 9 no_trajectory [] ''ok'' ''done'' 0 no_summary) = None"
  using finalized_trajectory_valid [of 9 "''u''" no_trajectory "[]" "''ok''" "''done''" 0 no_summary]
  by simp

end
