(* ===== verification/Evidence.thy ===== *)
theory Evidence
  imports Trajectory
begin

text \<open>
  The evidence model of \<open>pkg/evidence\<close>: the named values, bounded references and metadata,
  the assessment of an operation under a policy, records, and receipts that aggregate them.
  The named string types are strings, as in the code, because every operation accepts any string
  and normalises it. \<open>UTC\<close> does not change an instant.
\<close>

section \<open>Named values\<close>

definition ev_statuses :: "string list" where
  "ev_statuses = [''pass'', ''fail'', ''warn'', ''inconclusive'', ''unavailable'', ''skipped'',
     ''invalid'', ''unknown'']"

definition NormalizeStatus :: "string \<Rightarrow> string" where
  "NormalizeStatus raw =
     (let s = ToLower (TrimSpace raw)
      in if s \<in> set ev_statuses then s else if s = [] then ''unknown'' else ''invalid'')"

definition Status_Valid :: "string \<Rightarrow> bool" where
  "Status_Valid s = (let n = NormalizeStatus s in n \<noteq> ''invalid'' \<and> n \<noteq> ''unknown'')"

definition ev_kinds :: "string list" where
  "ev_kinds = [''trace_event'', ''trajectory'', ''replay_result'', ''harness_report'',
     ''validation_report'', ''state_lock'', ''paradox_report'', ''policy_absence'',
     ''governance_decision'', ''research_receipt'', ''selfmod_receipt'', ''tool_action'',
     ''release_gate'', ''user_approval'', ''hard_invariant'', ''unknown'']"

definition NormalizeKind :: "string \<Rightarrow> string" where
  "NormalizeKind raw = one_of ev_kinds ''unknown'' raw"

definition ev_risks :: "string list" where
  "ev_risks = [''low'', ''medium'', ''sensitive'', ''unknown'']"

definition NormalizeRisk :: "string \<Rightarrow> string" where
  "NormalizeRisk raw = one_of ev_risks ''unknown'' raw"

definition sensitive_operations :: "string list" where
  "sensitive_operations = [''credential_access'', ''network_egress'', ''private_network_access'',
     ''file_mutation'', ''selfmod_promotion'', ''tool_installation'', ''shell_execution'',
     ''release_publish'', ''host_bridge'', ''workspace_escape'']"

definition NormalizeSensitiveOperation :: "string \<Rightarrow> string" where
  "NormalizeSensitiveOperation raw = one_of sensitive_operations ''unknown'' raw"

definition IsSensitiveOperation :: "string \<Rightarrow> bool" where
  "IsSensitiveOperation operation \<longleftrightarrow> NormalizeSensitiveOperation operation \<noteq> ''unknown''"

definition lowRiskOperations :: "string list" where
  "lowRiskOperations = [''help'', ''version'', ''status_metadata'', ''list_non_secret_modes'',
     ''validate_in_memory_artifact'', ''replay_fixture_compare'', ''manifest_count'',
     ''public_source_inventory'', ''format_user_text'', ''plan_only'', ''read_metadata'',
     ''read_trace'', ''list_locks'', ''replay_compare'', ''harness_report_read'']"

definition mediumRiskOperations :: "string list" where
  "mediumRiskOperations = [''provider_selection'', ''decision_change'', ''policy_update'',
     ''validation_override'']"

definition IsExplicitLowRiskOperation :: "string \<Rightarrow> bool" where
  "IsExplicitLowRiskOperation operation \<longleftrightarrow>
     ToLower (TrimSpace operation) \<in> set lowRiskOperations"

definition ClassifyOperationRisk :: "string \<Rightarrow> string" where
  "ClassifyOperationRisk operation =
     (let op = ToLower (TrimSpace operation)
      in if op = [] then ''unknown''
         else if IsSensitiveOperation op then ''sensitive''
         else if op \<in> set lowRiskOperations then ''low''
         else if op \<in> set mediumRiskOperations then ''medium''
         else ''unknown'')"

definition ev_authorities :: "string list" where
  "ev_authorities = [''none'', ''audit_only'', ''policy_match'', ''policy_enforced'',
     ''human_approval'', ''hard_invariant'', ''override'', ''unknown'']"

definition NormalizeAuthority :: "string \<Rightarrow> string" where
  "NormalizeAuthority raw =
     (let a = ToLower (TrimSpace raw)
      in if a \<in> set ev_authorities then a else if a = [] then ''none'' else ''unknown'')"

definition AllowsSensitiveByAuthority :: "string \<Rightarrow> bool" where
  "AllowsSensitiveByAuthority authority \<longleftrightarrow>
     NormalizeAuthority authority
       \<in> {''policy_match'', ''policy_enforced'', ''human_approval'', ''override''}"

definition policy_states :: "string list" where
  "policy_states = [''policy_off'', ''policy_not_configured'', ''policy_unavailable'',
     ''policy_no_match'', ''policy_invalid'', ''policy_matched'', ''policy_enforced'',
     ''policy_audit_only'']"

definition NormalizePolicyState :: "string \<Rightarrow> string" where
  "NormalizePolicyState raw = one_of policy_states ''policy_invalid'' raw"

definition IsPolicyAbsent :: "string \<Rightarrow> bool" where
  "IsPolicyAbsent state \<longleftrightarrow>
     NormalizePolicyState state \<in> {''policy_off'', ''policy_not_configured'',
       ''policy_unavailable'', ''policy_no_match'', ''policy_invalid''}"

definition IsPolicyAuthoritative :: "string \<Rightarrow> bool" where
  "IsPolicyAuthoritative state \<longleftrightarrow>
     (let s = NormalizePolicyState state
      in s = ''policy_matched'' \<or> s = ''policy_enforced'' \<or> s = ''policy_audit_only'')"

definition AllowsSensitiveOperation :: "string \<Rightarrow> bool" where
  "AllowsSensitiveOperation state \<longleftrightarrow>
     (let s = NormalizePolicyState state in s = ''policy_matched'' \<or> s = ''policy_enforced'')"

definition RequiresApprovalForSensitive :: "string \<Rightarrow> bool" where
  "RequiresApprovalForSensitive state \<longleftrightarrow>
     (let s = NormalizePolicyState state
      in if s = ''policy_audit_only'' then True else IsPolicyAbsent s)"

section \<open>Bounds\<close>

text \<open>The Unix epoch, counted from Go's zero instant.\<close>

definition zeroTime :: instant where
  "zeroTime = 62135596800 * Second"

definition boundString :: "string \<Rightarrow> int \<Rightarrow> string" where
  "boundString raw mx =
     (let clean = TrimSpace raw
      in if mx \<le> 0 then [] else if int (length clean) \<le> mx then clean else take (nat mx) clean)"

definition bounded_ref :: "Ref \<Rightarrow> Ref" where
  "bounded_ref r =
     (let ref = NewRef (r_Kind r) (r_Ref r) (r_Hash r) (r_SizeBytes r)
      in if r_SizeBytes ref < 0 then ref\<lparr>r_SizeBytes := 0\<rparr> else ref)"

definition ev_boundRefs :: "Ref list \<Rightarrow> nat \<Rightarrow> Ref list" where
  "ev_boundRefs rs limit =
     sort_refs (filter (\<lambda>r. r_Ref r \<noteq> []) (map bounded_ref (take limit rs)))"

text \<open>
  The map that \<open>boundMetadata\<close> returns, in the order of its keys: the first \<open>limit\<close> keys in that
  order are kept.
\<close>

definition boundMetadata :: "metadata \<Rightarrow> nat \<Rightarrow> metadata" where
  "boundMetadata kvs limit = take limit (sort_key fst (BoundMetadata kvs))"

definition stableMetadataHash :: "Codec \<Rightarrow> metadata \<Rightarrow> string" where
  "stableMetadataHash H meta =
     (if meta = [] then []
      else StableHash H (concat (map (\<lambda>(k, v). [k, v]) (sort_key fst meta))))"

definition stableRefsHash :: "Codec \<Rightarrow> Ref list \<Rightarrow> string" where
  "stableRefsHash H rs =
     (if rs = [] then []
      else StableHash H
        (concat (map (\<lambda>r. [r_Kind r, r_Ref r, r_Hash r, FormatInt (r_SizeBytes r)]) rs)))"

section \<open>Assessments\<close>

text \<open>An error is one of the package's sentinels and the text that is wrapped around it.\<close>

datatype EvidenceError =
    ErrInvalidStatus string
  | ErrInvalidKind string
  | ErrInvalidRecord string
  | ErrInvalidReceipt string
  | ErrInvalidAssessment string

definition evidence_error_text :: "EvidenceError \<Rightarrow> string" where
  "evidence_error_text e =
     (case e of
        ErrInvalidStatus s \<Rightarrow> ''invalid evidence status: '' @ s
      | ErrInvalidKind s \<Rightarrow> ''invalid evidence kind: '' @ s
      | ErrInvalidRecord s \<Rightarrow> ''invalid evidence record: '' @ s
      | ErrInvalidReceipt s \<Rightarrow> ''invalid evidence receipt: '' @ s
      | ErrInvalidAssessment s \<Rightarrow> ''invalid assessment: '' @ s)"

definition Status_Validate :: "Codec \<Rightarrow> string \<Rightarrow> EvidenceError option" where
  "Status_Validate H s =
     (let n = NormalizeStatus s
      in if n = ''invalid'' \<or> n = ''unknown'' then Some (ErrInvalidStatus (c_Quote H s)) else None)"

definition Kind_Validate :: "Codec \<Rightarrow> string \<Rightarrow> EvidenceError option" where
  "Kind_Validate H k =
     (if NormalizeKind k = ''unknown'' then Some (ErrInvalidKind (c_Quote H k)) else None)"

record Assessment =
  as_ID :: string
  as_PolicyState :: string
  as_Risk :: string
  as_Operation :: string
  as_SensitiveClass :: string
  as_ExplicitLowRisk :: bool
  as_Authority :: string
  as_Status :: string
  as_Decision :: string
  as_ReasonCode :: string
  as_EvidenceRefs :: "Ref list"
  as_Metadata :: metadata

definition ev_decisions :: "string list" where
  "ev_decisions = [''allow_low_risk'', ''audit_only'', ''require_approval'', ''deny_sensitive'',
     ''deny_invalid'', ''inconclusive'']"

definition NormalizeDecision :: "string \<Rightarrow> string" where
  "NormalizeDecision raw =
     (let d = boundString raw 128 in if d \<in> set ev_decisions then d else ''inconclusive'')"

definition ev_boolString :: "bool \<Rightarrow> string" where
  "ev_boolString v = (if v then ''true'' else ''false'')"

definition isAllowDecision :: "string \<Rightarrow> bool" where
  "isAllowDecision decision \<longleftrightarrow> decision = ''allow_low_risk'' \<or> decision = ''audit_only''"

definition assessment_id :: "Codec \<Rightarrow> Assessment \<Rightarrow> string" where
  "assessment_id H a =
     ''assessment_'' @ StableHash H
       [as_PolicyState a, as_Risk a, as_Operation a, as_SensitiveClass a,
        ev_boolString (as_ExplicitLowRisk a), as_Authority a, as_Decision a, as_ReasonCode a,
        stableRefsHash H (as_EvidenceRefs a), stableMetadataHash H (as_Metadata a)]"

definition Assessment_Normalized :: "Codec \<Rightarrow> Assessment \<Rightarrow> Assessment" where
  "Assessment_Normalized H a =
     (let operation = boundString (as_Operation a) 128;
          class = NormalizeSensitiveOperation (as_SensitiveClass a);
          out = a\<lparr>as_PolicyState := NormalizePolicyState (as_PolicyState a),
            as_Risk := NormalizeRisk (as_Risk a),
            as_Operation := operation,
            as_SensitiveClass :=
              (if class = ''unknown'' \<and> IsSensitiveOperation operation
               then NormalizeSensitiveOperation operation else class),
            as_Authority := NormalizeAuthority (as_Authority a),
            as_Status := NormalizeStatus (as_Status a),
            as_Decision := NormalizeDecision (as_Decision a),
            as_ReasonCode := boundString (as_ReasonCode a) 128,
            as_EvidenceRefs := ev_boundRefs (as_EvidenceRefs a) 64,
            as_Metadata := boundMetadata (as_Metadata a) 16\<rparr>
      in if as_ID out = [] then out\<lparr>as_ID := assessment_id H out\<rparr> else out)"

definition Assessment_Validate :: "Codec \<Rightarrow> Assessment \<Rightarrow> EvidenceError option" where
  "Assessment_Validate H a =
     (let n = Assessment_Normalized H a
      in if as_ID n = [] then Some (ErrInvalidAssessment ''missing id'')
         else if as_Risk n = ''sensitive'' \<and> as_Decision n = ''allow_low_risk''
         then Some (ErrInvalidAssessment ''sensitive risk cannot allow_low_risk'')
         else if as_Risk n = ''medium'' \<and> as_Decision n = ''allow_low_risk''
         then Some (ErrInvalidAssessment ''medium risk cannot allow_low_risk'')
         else if as_Risk n = ''unknown'' \<and> isAllowDecision (as_Decision n)
         then Some (ErrInvalidAssessment ''unknown risk cannot use allow-like decisions'')
         else if as_PolicyState n = ''policy_invalid'' \<and> isAllowDecision (as_Decision n)
         then Some (ErrInvalidAssessment ''invalid policy cannot use allow-like decisions'')
         else if as_Risk n = ''sensitive'' \<and> isAllowDecision (as_Decision n) \<and>
           (as_Authority n = ''none'' \<or> as_Authority n = ''unknown'')
         then Some (ErrInvalidAssessment
           ''sensitive allow-like decision requires authoritative allow'')
         else if as_Decision n = ''deny_invalid'' \<and> as_Status n = ''pass''
         then Some (ErrInvalidAssessment ''deny_invalid cannot be pass'')
         else None)"

text \<open>The three fields that a branch of \<open>Evaluate\<close> assigns.\<close>

definition decided :: "string \<Rightarrow> string \<Rightarrow> string \<Rightarrow> Assessment \<Rightarrow> Assessment" where
  "decided decision status reason n =
     n\<lparr>as_Decision := decision, as_Status := status, as_ReasonCode := reason\<rparr>"

definition evaluate_low :: "Assessment \<Rightarrow> Assessment" where
  "evaluate_low n =
     (if IsPolicyAbsent (as_PolicyState n) then
        (if as_ExplicitLowRisk n
         then decided ''allow_low_risk'' ''pass'' ''low_risk_explicit_absent_policy'' n
         else decided ''audit_only'' ''warn'' ''low_risk_not_explicit'' n)
      else if as_PolicyState n = ''policy_audit_only''
      then decided ''audit_only'' ''warn'' ''policy_audit_only'' n
      else decided ''allow_low_risk'' ''pass'' ''low_risk_policy_bound'' n)"

definition evaluate_medium :: "Assessment \<Rightarrow> Assessment" where
  "evaluate_medium n =
     (if IsPolicyAbsent (as_PolicyState n)
      then decided ''audit_only'' ''warn'' ''medium_policy_absent'' n
      else if as_PolicyState n = ''policy_audit_only''
      then decided ''audit_only'' ''warn'' ''medium_policy_audit_only'' n
      else decided ''audit_only'' ''warn'' ''medium_policy_bound'' n)"

definition evaluate_sensitive :: "Assessment \<Rightarrow> Assessment" where
  "evaluate_sensitive n =
     (if as_PolicyState n = ''policy_invalid''
      then decided ''deny_sensitive'' ''fail'' ''policy_invalid_sensitive'' n
      else if IsPolicyAbsent (as_PolicyState n)
      then decided ''require_approval'' ''warn'' ''policy_absent_sensitive'' n
      else if as_PolicyState n = ''policy_audit_only''
      then decided ''require_approval'' ''warn'' ''policy_audit_only'' n
      else if AllowsSensitiveOperation (as_PolicyState n) \<and>
        AllowsSensitiveByAuthority (as_Authority n)
      then decided ''audit_only'' ''warn'' ''sensitive_policy_bound'' n
      else decided ''require_approval'' ''warn'' ''sensitive_missing_authority'' n)"

text \<open>The statements after the four risks, which no normalised assessment reaches.\<close>

definition evaluate_rest :: "Assessment \<Rightarrow> Assessment" where
  "evaluate_rest n =
     (if as_PolicyState n = ''policy_audit_only''
      then decided ''audit_only'' ''warn'' ''policy_audit_only'' n
      else if IsPolicyAbsent (as_PolicyState n)
      then decided ''require_approval'' ''warn'' ''low_risk_not_explicit'' n
      else
        n\<lparr>as_Status := (if as_Status n = ''unknown'' \<or> as_Status n = ''invalid''
                       then ''inconclusive'' else as_Status n),
          as_Decision := (if as_Decision n = ''inconclusive'' then ''audit_only''
                          else as_Decision n),
          as_ReasonCode := (if as_ReasonCode n = [] then ''policy_audit_only''
                            else as_ReasonCode n)\<rparr>)"

definition Assessment_Evaluate :: "Codec \<Rightarrow> Assessment \<Rightarrow> Assessment" where
  "Assessment_Evaluate H a =
     (let n = Assessment_Normalized H a
      in if as_Authority n = ''hard_invariant''
         then decided ''deny_sensitive'' ''fail'' ''hard_invariant'' n
         else if as_Risk n = ''unknown''
         then decided ''deny_invalid'' ''invalid'' ''unknown_risk'' n
         else if as_Risk n = ''low'' then evaluate_low n
         else if as_Risk n = ''medium'' then evaluate_medium n
         else if as_Risk n = ''sensitive'' then evaluate_sensitive n
         else evaluate_rest n)"

section \<open>Records and receipts\<close>

record EvRecord =
  rc_ID :: string
  rc_Kind :: string
  rc_Status :: string
  rc_Subject :: string
  rc_Summary :: string
  rc_Source :: string
  rc_PolicyState :: string
  rc_Risk :: string
  rc_Authority :: string
  rc_EvidenceRefs :: "Ref list"
  rc_CreatedAt :: instant
  rc_Metadata :: metadata

definition record_id :: "Codec \<Rightarrow> EvRecord \<Rightarrow> string" where
  "record_id H r =
     ''record_'' @ StableHash H
       [rc_Kind r, rc_Status r, rc_Subject r, rc_Summary r, rc_Source r, rc_PolicyState r,
        rc_Risk r, rc_Authority r, stableRefsHash H (rc_EvidenceRefs r),
        stableMetadataHash H (rc_Metadata r)]"

definition Record_Normalized :: "Codec \<Rightarrow> EvRecord \<Rightarrow> EvRecord" where
  "Record_Normalized H r =
     (let out = r\<lparr>rc_Kind := NormalizeKind (rc_Kind r),
            rc_Status := NormalizeStatus (rc_Status r),
            rc_Subject := boundString (rc_Subject r) 256,
            rc_Summary := boundString (rc_Summary r) 256,
            rc_Source := boundString (rc_Source r) 160,
            rc_PolicyState := NormalizePolicyState (rc_PolicyState r),
            rc_Risk := NormalizeRisk (rc_Risk r),
            rc_Authority := NormalizeAuthority (rc_Authority r),
            rc_EvidenceRefs := ev_boundRefs (rc_EvidenceRefs r) 64,
            rc_Metadata := boundMetadata (rc_Metadata r) 16,
            rc_CreatedAt := (if IsZero (rc_CreatedAt r) then zeroTime else rc_CreatedAt r)\<rparr>
      in if rc_ID out = [] then out\<lparr>rc_ID := record_id H out\<rparr> else out)"

definition Record_Validate :: "Codec \<Rightarrow> EvRecord \<Rightarrow> EvidenceError option" where
  "Record_Validate H r =
     (let n = Record_Normalized H r
      in if rc_ID n = [] then Some (ErrInvalidRecord ''missing id'')
         else if rc_Kind n = ''unknown'' then Some (ErrInvalidRecord ''kind unknown'')
         else if rc_Subject n = [] then Some (ErrInvalidRecord ''subject required'')
         else if rc_Summary n = [] then Some (ErrInvalidRecord ''summary required'')
         else if rc_Status n = ''invalid'' \<or> rc_Status n = ''unknown''
         then Some (ErrInvalidRecord ''status invalid'')
         else None)"

definition indeterminate :: "string \<Rightarrow> bool" where
  "indeterminate s \<longleftrightarrow> s = ''skipped'' \<or> s = ''unavailable'' \<or> s = ''inconclusive''"

definition allRecordsIndeterminate :: "EvRecord list \<Rightarrow> bool" where
  "allRecordsIndeterminate records =
     (if records = [] then False
      else list_all (\<lambda>r. indeterminate (NormalizeStatus (rc_Status r))) records)"

fun derive_loop :: "bool \<Rightarrow> bool \<Rightarrow> EvRecord list \<Rightarrow> string" where
  "derive_loop seenWarn seenPass [] =
     (if seenWarn then ''warn'' else if seenPass then ''pass'' else ''inconclusive'')"
| "derive_loop seenWarn seenPass (r # rs) =
     (let s = NormalizeStatus (rc_Status r)
      in if s = ''fail'' then ''fail''
         else if s = ''warn'' then derive_loop True seenPass rs
         else if s = ''pass'' then derive_loop seenWarn True rs
         else derive_loop seenWarn seenPass rs)"

definition deriveReceiptStatus :: "EvRecord list \<Rightarrow> string" where
  "deriveReceiptStatus records =
     (if records = [] then ''inconclusive'' else derive_loop False False records)"

record EvReceipt =
  rp_ID :: string
  rp_Records :: "EvRecord list"
  rp_Assessment :: Assessment
  rp_Status :: string
  rp_Summary :: string
  rp_EvidenceRefs :: "Ref list"
  rp_StartedAt :: instant
  rp_FinishedAt :: instant
  rp_DurationMS :: int
  rp_Metadata :: metadata

definition receipt_id :: "Codec \<Rightarrow> EvReceipt \<Rightarrow> string" where
  "receipt_id H r =
     ''receipt_'' @ StableHash H
       [StableHash H (map rc_ID (rp_Records r)), as_ID (rp_Assessment r), rp_Status r,
        rp_Summary r, stableRefsHash H (rp_EvidenceRefs r), stableMetadataHash H (rp_Metadata r)]"

definition normalized_records :: "Codec \<Rightarrow> EvRecord list \<Rightarrow> EvRecord list" where
  "normalized_records H rs = map (Record_Normalized H) (take 64 rs)"

definition receipt_status :: "string \<Rightarrow> EvRecord list \<Rightarrow> string" where
  "receipt_status raw records =
     (let status = NormalizeStatus raw;
          status = (if records \<noteq> [] \<and> allRecordsIndeterminate records \<and> status = ''pass''
                    then ''inconclusive'' else status)
      in if status = ''unknown'' \<or> status = ''invalid'' then deriveReceiptStatus records
         else status)"

definition receipt_duration :: "int \<Rightarrow> instant \<Rightarrow> instant \<Rightarrow> int" where
  "receipt_duration ms startedAt finishedAt =
     (let ms = nonneg ms
      in if ms = 0 then nonneg (Milliseconds (time_Sub finishedAt startedAt)) else ms)"

definition Receipt_Normalized :: "Codec \<Rightarrow> EvReceipt \<Rightarrow> EvReceipt" where
  "Receipt_Normalized H r =
     (let records = normalized_records H (rp_Records r);
          startedAt = (if IsZero (rp_StartedAt r) then zeroTime else rp_StartedAt r);
          finishedAt = (if IsZero (rp_FinishedAt r) \<or> rp_FinishedAt r < startedAt then startedAt
                        else rp_FinishedAt r);
          out = r\<lparr>rp_Records := records,
            rp_Assessment := Assessment_Evaluate H (rp_Assessment r),
            rp_Status := receipt_status (rp_Status r) records,
            rp_Summary := boundString (rp_Summary r) 256,
            rp_EvidenceRefs := ev_boundRefs (rp_EvidenceRefs r) 64,
            rp_Metadata := boundMetadata (rp_Metadata r) 16,
            rp_StartedAt := startedAt,
            rp_FinishedAt := finishedAt,
            rp_DurationMS := receipt_duration (rp_DurationMS r) startedAt finishedAt\<rparr>
      in if rp_ID out = [] then out\<lparr>rp_ID := receipt_id H out\<rparr> else out)"

text \<open>
  The records are normalised in place: after the call the caller's slice holds the normalised
  records in its first 64 positions, and the rest as it was.
\<close>

definition records_after_normalization :: "Codec \<Rightarrow> EvRecord list \<Rightarrow> EvRecord list" where
  "records_after_normalization H rs = normalized_records H rs @ drop 64 rs"

fun first_record_error :: "Codec \<Rightarrow> nat \<Rightarrow> EvRecord list \<Rightarrow> EvidenceError option" where
  "first_record_error H i [] = None"
| "first_record_error H i (r # rs) =
     (case Record_Validate H r of
        Some e \<Rightarrow> Some (ErrInvalidReceipt
          (''record['' @ itoa i @ '']: '' @ evidence_error_text e))
      | None \<Rightarrow> first_record_error H (Suc i) rs)"

definition Receipt_Validate :: "Codec \<Rightarrow> EvReceipt \<Rightarrow> EvidenceError option" where
  "Receipt_Validate H r =
     (let n = Receipt_Normalized H r
      in if rp_ID n = [] then Some (ErrInvalidReceipt ''missing id'')
         else if rp_DurationMS n < 0 then Some (ErrInvalidReceipt ''negative duration'')
         else case Assessment_Validate H (rp_Assessment n) of
           Some e \<Rightarrow> Some (ErrInvalidReceipt (evidence_error_text e))
         | None \<Rightarrow>
             (case first_record_error H 0 (rp_Records n) of
                Some e \<Rightarrow> Some e
              | None \<Rightarrow>
                  if rp_Status n = ''pass'' \<and> allRecordsIndeterminate (rp_Records n)
                  then Some (ErrInvalidReceipt
                    ''pass with only skipped/unavailable/inconclusive'')
                  else None))"

definition Report_Normalized :: "Codec \<Rightarrow> EvReceipt \<Rightarrow> EvReceipt" where
  "Report_Normalized H receipt = Receipt_Normalized H receipt"

section \<open>References to evidence\<close>

definition RecordRef :: "Codec \<Rightarrow> EvRecord \<Rightarrow> Ref" where
  "RecordRef H r =
     (let n = Record_Normalized H r
      in NewRef ''evidence_record'' (''record:'' @ rc_ID n)
           (StableHash H [rc_ID n, rc_Kind n, rc_Status n, rc_Subject n])
           (int (length (rc_EvidenceRefs n))))"

definition ReceiptRef :: "Codec \<Rightarrow> EvReceipt \<Rightarrow> Ref" where
  "ReceiptRef H r =
     (let n = Receipt_Normalized H r
      in NewRef ''evidence_receipt'' (''receipt:'' @ rp_ID n)
           (StableHash H [rp_ID n, rp_Status n, as_ID (rp_Assessment n)])
           (int (length (rp_Records n)) + int (length (rp_EvidenceRefs n))))"

definition AssessmentRef :: "Codec \<Rightarrow> Assessment \<Rightarrow> Ref" where
  "AssessmentRef H a =
     (let n = Assessment_Evaluate H a
      in NewRef ''evidence_assessment'' (''assessment:'' @ as_ID n)
           (StableHash H [as_ID n, as_PolicyState n, as_Risk n, as_Decision n, as_ReasonCode n])
           (int (length (as_EvidenceRefs n))))"

end
