(* ===== verification/EvidenceProps.thy ===== *)
theory EvidenceProps
  imports Evidence
begin

text \<open>
  Properties of \<open>pkg/evidence\<close>: normalisation is stable, the decision of \<open>Evaluate\<close> on every
  combination of risk, policy and authority, what \<open>Validate\<close> makes of an evaluated assessment,
  and which status a receipt ends up with.
\<close>

section \<open>Normalisation is stable\<close>

lemma clean_tables [simp]:
  "clean_words ev_statuses" "clean_words ev_kinds" "clean_words ev_risks"
  "clean_words sensitive_operations" "clean_words ev_authorities" "clean_words policy_states"
  by code_simp+

lemma NormalizeStatus_range: "NormalizeStatus raw \<in> set ev_statuses"
  by (simp add: NormalizeStatus_def Let_def ev_statuses_def)

lemma NormalizeStatus_member: "s \<in> set ev_statuses \<Longrightarrow> NormalizeStatus s = s"
  using clean_tables(1) by (simp add: NormalizeStatus_def clean_words_def list_all_iff)

lemma NormalizeStatus_idem [simp]: "NormalizeStatus (NormalizeStatus raw) = NormalizeStatus raw"
  by (rule NormalizeStatus_member [OF NormalizeStatus_range])

lemma NormalizeAuthority_range: "NormalizeAuthority raw \<in> set ev_authorities"
  by (simp add: NormalizeAuthority_def Let_def ev_authorities_def)

lemma NormalizeAuthority_idem [simp]:
  "NormalizeAuthority (NormalizeAuthority raw) = NormalizeAuthority raw"
  using NormalizeAuthority_range [of raw] clean_tables(5)
  by (simp add: NormalizeAuthority_def [of "NormalizeAuthority raw"] clean_words_def list_all_iff)

lemma NormalizeRisk_idem [simp]: "NormalizeRisk (NormalizeRisk raw) = NormalizeRisk raw"
  unfolding NormalizeRisk_def by (rule one_of_idem) (simp, simp add: ev_risks_def)

lemma NormalizePolicyState_idem [simp]:
  "NormalizePolicyState (NormalizePolicyState raw) = NormalizePolicyState raw"
  unfolding NormalizePolicyState_def by (rule one_of_idem) (simp, simp add: policy_states_def)

lemma policy_absent_idem [simp]: "IsPolicyAbsent (NormalizePolicyState raw) = IsPolicyAbsent raw"
  by (simp add: IsPolicyAbsent_def)

lemma NormalizeRisk_cases:
  "NormalizeRisk raw = ''low'' \<or> NormalizeRisk raw = ''medium'' \<or>
   NormalizeRisk raw = ''sensitive'' \<or> NormalizeRisk raw = ''unknown''"
  using one_of_range [of ev_risks "''unknown''" raw] by (auto simp: NormalizeRisk_def ev_risks_def)

lemma NormalizePolicyState_cases:
  "NormalizePolicyState raw \<in> set policy_states"
  using one_of_range [of policy_states "''policy_invalid''" raw]
  by (auto simp: NormalizePolicyState_def policy_states_def)

section \<open>Assessments\<close>

lemma boundString_eq: "boundString raw mx = RedactString raw mx"
  by (simp add: boundString_def RedactString_def Let_def)

lemma Assessment_Normalized_fields [simp]:
  "as_PolicyState (Assessment_Normalized H a) = NormalizePolicyState (as_PolicyState a)"
  "as_Risk (Assessment_Normalized H a) = NormalizeRisk (as_Risk a)"
  "as_ExplicitLowRisk (Assessment_Normalized H a) = as_ExplicitLowRisk a"
  "as_Authority (Assessment_Normalized H a) = NormalizeAuthority (as_Authority a)"
  "as_Status (Assessment_Normalized H a) = NormalizeStatus (as_Status a)"
  "as_Decision (Assessment_Normalized H a) = NormalizeDecision (as_Decision a)"
  "as_ReasonCode (Assessment_Normalized H a) = boundString (as_ReasonCode a) 128"
  "as_ID (Assessment_Normalized H a) \<noteq> []"
  "as_ID a \<noteq> [] \<Longrightarrow> as_ID (Assessment_Normalized H a) = as_ID a"
  by (simp_all add: Assessment_Normalized_def Let_def assessment_id_def)

lemma decided_fields [simp]:
  "as_Decision (decided d s r n) = d" "as_Status (decided d s r n) = s"
  "as_ReasonCode (decided d s r n) = r" "as_PolicyState (decided d s r n) = as_PolicyState n"
  "as_Risk (decided d s r n) = as_Risk n" "as_Authority (decided d s r n) = as_Authority n"
  "as_ExplicitLowRisk (decided d s r n) = as_ExplicitLowRisk n" "as_ID (decided d s r n) = as_ID n"
  "as_SensitiveClass (decided d s r n) = as_SensitiveClass n"
  by (simp_all add: decided_def)

text \<open>What the decision depends on, and the three words that it assigns.\<close>

definition assessment_verdict :: "string \<Rightarrow> string \<Rightarrow> bool \<Rightarrow> string \<Rightarrow> string \<times> string \<times> string" where
  "assessment_verdict policy risk explicit authority =
     (if authority = ''hard_invariant'' then (''deny_sensitive'', ''fail'', ''hard_invariant'')
      else if risk = ''unknown'' then (''deny_invalid'', ''invalid'', ''unknown_risk'')
      else if risk = ''low'' then
        (if IsPolicyAbsent policy then
           (if explicit then (''allow_low_risk'', ''pass'', ''low_risk_explicit_absent_policy'')
            else (''audit_only'', ''warn'', ''low_risk_not_explicit''))
         else if policy = ''policy_audit_only'' then (''audit_only'', ''warn'', ''policy_audit_only'')
         else (''allow_low_risk'', ''pass'', ''low_risk_policy_bound''))
      else if risk = ''medium'' then
        (''audit_only'', ''warn'',
         if IsPolicyAbsent policy then ''medium_policy_absent''
         else if policy = ''policy_audit_only'' then ''medium_policy_audit_only''
         else ''medium_policy_bound'')
      else if policy = ''policy_invalid'' then (''deny_sensitive'', ''fail'', ''policy_invalid_sensitive'')
      else if AllowsSensitiveOperation policy \<and> AllowsSensitiveByAuthority authority
      then (''audit_only'', ''warn'', ''sensitive_policy_bound'')
      else (''require_approval'', ''warn'',
            if IsPolicyAbsent policy then ''policy_absent_sensitive''
            else if policy = ''policy_audit_only'' then ''policy_audit_only''
            else ''sensitive_missing_authority''))"

lemma policy_classes:
  "IsPolicyAbsent state \<Longrightarrow> \<not> AllowsSensitiveOperation state"
  "\<not> AllowsSensitiveOperation ''policy_audit_only''" "\<not> IsPolicyAbsent ''policy_audit_only''"
  "IsPolicyAbsent ''policy_invalid''"
  by (auto simp: AllowsSensitiveOperation_def IsPolicyAbsent_def Let_def NormalizePolicyState_def
      one_of_member policy_states_def
      one_of_member [OF clean_tables(6), unfolded policy_states_def])

lemma Assessment_Evaluate_fields:
  "as_PolicyState (Assessment_Evaluate H a) = NormalizePolicyState (as_PolicyState a)"
  "as_Risk (Assessment_Evaluate H a) = NormalizeRisk (as_Risk a)"
  "as_ExplicitLowRisk (Assessment_Evaluate H a) = as_ExplicitLowRisk a"
  "as_Authority (Assessment_Evaluate H a) = NormalizeAuthority (as_Authority a)"
  "as_ID (Assessment_Evaluate H a) = as_ID (Assessment_Normalized H a)"
  "as_SensitiveClass (Assessment_Evaluate H a) = as_SensitiveClass (Assessment_Normalized H a)"
  by (simp_all add: Assessment_Evaluate_def Let_def evaluate_low_def evaluate_medium_def
      evaluate_sensitive_def evaluate_rest_def)

lemma Assessment_Evaluate_verdict:
  "(as_Decision (Assessment_Evaluate H a), as_Status (Assessment_Evaluate H a),
    as_ReasonCode (Assessment_Evaluate H a)) =
   assessment_verdict (NormalizePolicyState (as_PolicyState a)) (NormalizeRisk (as_Risk a))
     (as_ExplicitLowRisk a) (NormalizeAuthority (as_Authority a))"
  using NormalizeRisk_cases [of "as_Risk a"]
  by (auto simp: Assessment_Evaluate_def assessment_verdict_def Let_def evaluate_low_def
      evaluate_medium_def evaluate_sensitive_def policy_classes)

lemma verdict_parts:
  "as_Decision (Assessment_Evaluate H a) =
     fst (assessment_verdict (NormalizePolicyState (as_PolicyState a)) (NormalizeRisk (as_Risk a))
       (as_ExplicitLowRisk a) (NormalizeAuthority (as_Authority a)))"
  "as_Status (Assessment_Evaluate H a) =
     fst (snd (assessment_verdict (NormalizePolicyState (as_PolicyState a)) (NormalizeRisk (as_Risk a))
       (as_ExplicitLowRisk a) (NormalizeAuthority (as_Authority a))))"
  "as_ReasonCode (Assessment_Evaluate H a) =
     snd (snd (assessment_verdict (NormalizePolicyState (as_PolicyState a)) (NormalizeRisk (as_Risk a))
       (as_ExplicitLowRisk a) (NormalizeAuthority (as_Authority a))))"
  by (simp_all add: Assessment_Evaluate_verdict [of H a, symmetric])

text \<open>
  C32. \<open>Evaluate\<close> lets an operation through only where it may. Nothing under a hard invariant and
  nothing of unknown risk is allowed, not even audited; a sensitive operation is never
  \<open>allow_low_risk\<close> and goes on without approval (\<open>audit_only\<close>) exactly when the policy matched
  or is enforced and the authority is a policy, a human or an override; a low-risk one is allowed
  exactly under a matching policy or, without a policy, when it is marked as explicitly low-risk;
  and the status \<open>pass\<close> means \<open>allow_low_risk\<close>.
\<close>

theorem evaluation_safety:
  assumes "e = Assessment_Evaluate H a" and "risk = NormalizeRisk (as_Risk a)"
    and "authority = NormalizeAuthority (as_Authority a)"
    and "policy = NormalizePolicyState (as_PolicyState a)"
  shows "(authority = ''hard_invariant'' \<longrightarrow> as_Decision e = ''deny_sensitive'') \<and>
    (risk = ''unknown'' \<longrightarrow> \<not> isAllowDecision (as_Decision e)) \<and>
    (risk = ''sensitive'' \<longrightarrow>
      as_Decision e \<noteq> ''allow_low_risk'' \<and>
      (as_Decision e = ''audit_only'' \<longleftrightarrow>
        (policy = ''policy_matched'' \<or> policy = ''policy_enforced'') \<and>
        authority \<in> {''policy_match'', ''policy_enforced'', ''human_approval'', ''override''})) \<and>
    (as_Decision e = ''allow_low_risk'' \<longleftrightarrow>
      authority \<noteq> ''hard_invariant'' \<and> risk = ''low'' \<and>
      (policy = ''policy_matched'' \<or> policy = ''policy_enforced'' \<or>
       IsPolicyAbsent policy \<and> as_ExplicitLowRisk a)) \<and>
    (as_Status e = ''pass'' \<longleftrightarrow> as_Decision e = ''allow_low_risk'')"
proof -
  have pol: "AllowsSensitiveOperation policy \<longleftrightarrow> policy = ''policy_matched'' \<or> policy = ''policy_enforced''"
    by (simp add: AllowsSensitiveOperation_def Let_def assms(4))
  have auth: "AllowsSensitiveByAuthority authority \<longleftrightarrow>
      authority \<in> {''policy_match'', ''policy_enforced'', ''human_approval'', ''override''}"
    by (simp add: AllowsSensitiveByAuthority_def assms(3))
  note v = verdict_parts [of H a, folded assms]
  have absent: "IsPolicyAbsent policy \<longleftrightarrow>
      \<not> (policy = ''policy_matched'' \<or> policy = ''policy_enforced'' \<or> policy = ''policy_audit_only'')"
    using NormalizePolicyState_cases [of "as_PolicyState a"]
    by (auto simp: assms(4) policy_states_def IsPolicyAbsent_def)
  show ?thesis
    by (intro conjI) (auto simp: v assessment_verdict_def isAllowDecision_def pol auth absent)
qed

lemma evaluation_safety_witness:
  "as_Decision (Assessment_Evaluate sample_codec
     \<lparr>as_ID = ''a'', as_PolicyState = ''policy_matched'', as_Risk = ''Sensitive '', as_Operation = [],
      as_SensitiveClass = [], as_ExplicitLowRisk = True, as_Authority = ''none'', as_Status = [],
      as_Decision = ''allow_low_risk'', as_ReasonCode = [], as_EvidenceRefs = [],
      as_Metadata = []\<rparr>) \<noteq> ''audit_only''"
proof -
  let ?a = "\<lparr>as_ID = ''a'', as_PolicyState = ''policy_matched'', as_Risk = ''Sensitive '',
      as_Operation = [], as_SensitiveClass = [], as_ExplicitLowRisk = True, as_Authority = ''none'',
      as_Status = [], as_Decision = ''allow_low_risk'', as_ReasonCode = [], as_EvidenceRefs = [],
      as_Metadata = []\<rparr>"
  have "NormalizeRisk ''Sensitive '' = ''sensitive''" "NormalizeAuthority ''none'' = ''none''"
    by code_simp+
  with evaluation_safety [of _ sample_codec ?a, OF refl refl refl refl] show ?thesis by simp
qed


lemma isAllowDecision_simps [simp]:
  "isAllowDecision ''allow_low_risk''" "isAllowDecision ''audit_only''"
  "\<not> isAllowDecision ''require_approval''" "\<not> isAllowDecision ''deny_sensitive''"
  "\<not> isAllowDecision ''deny_invalid''" "\<not> isAllowDecision ''inconclusive''"
  by (simp_all add: isAllowDecision_def)

lemma NormalizeDecision_member: "d \<in> set ev_decisions \<Longrightarrow> NormalizeDecision d = d"
proof -
  have "list_all (\<lambda>d. NormalizeDecision d = d) ev_decisions" by code_simp
  then show "d \<in> set ev_decisions \<Longrightarrow> NormalizeDecision d = d" by (simp add: list_all_iff)
qed

lemma verdict_decision: "fst (assessment_verdict p r x au) \<in> set ev_decisions"
  by (simp add: assessment_verdict_def ev_decisions_def)

lemma verdict_status: "fst (snd (assessment_verdict p r x au)) \<in> set ev_statuses"
  by (simp add: assessment_verdict_def ev_statuses_def)

lemma evaluated_normalized [simp]:
  "as_Decision (Assessment_Normalized H (Assessment_Evaluate H a)) = as_Decision (Assessment_Evaluate H a)"
  "as_Status (Assessment_Normalized H (Assessment_Evaluate H a)) = as_Status (Assessment_Evaluate H a)"
  "as_Risk (Assessment_Normalized H (Assessment_Evaluate H a)) = NormalizeRisk (as_Risk a)"
  "as_PolicyState (Assessment_Normalized H (Assessment_Evaluate H a)) = NormalizePolicyState (as_PolicyState a)"
  "as_Authority (Assessment_Normalized H (Assessment_Evaluate H a)) = NormalizeAuthority (as_Authority a)"
  by (simp_all add: Assessment_Evaluate_fields verdict_parts NormalizeDecision_member verdict_decision
      NormalizeStatus_member verdict_status)

text \<open>
  Evaluation is a fixed point: evaluating an evaluated assessment again, as the normalisation
  of a receipt does each time it is called, changes neither the identifier nor the decision, the
  status or the reason.
\<close>

theorem evaluation_is_stable:
  "as_ID (Assessment_Evaluate H (Assessment_Evaluate H a)) = as_ID (Assessment_Evaluate H a) \<and>
   as_Decision (Assessment_Evaluate H (Assessment_Evaluate H a)) = as_Decision (Assessment_Evaluate H a) \<and>
   as_Status (Assessment_Evaluate H (Assessment_Evaluate H a)) = as_Status (Assessment_Evaluate H a) \<and>
   as_ReasonCode (Assessment_Evaluate H (Assessment_Evaluate H a)) = as_ReasonCode (Assessment_Evaluate H a)"
  by (simp add: verdict_parts Assessment_Evaluate_fields)

text \<open>
  \<open>Validate\<close> refuses an evaluated assessment exactly when the policy state is invalid (an
  empty or unknown word is), the risk is low or medium and no hard invariant is involved:
  \<open>Evaluate\<close> counts an invalid policy as an absent one and decides allow-like, which
  \<open>Validate\<close> rejects.
\<close>

lemma evaluated_validity:
  "Assessment_Validate H (Assessment_Evaluate H a) =
     (if NormalizePolicyState (as_PolicyState a) = ''policy_invalid'' \<and>
        NormalizeAuthority (as_Authority a) \<noteq> ''hard_invariant'' \<and>
        (NormalizeRisk (as_Risk a) = ''low'' \<or> NormalizeRisk (as_Risk a) = ''medium'')
      then Some (ErrInvalidAssessment ''invalid policy cannot use allow-like decisions'') else None)"
proof -
  define p where "p = NormalizePolicyState (as_PolicyState a)"
  define r where "r = NormalizeRisk (as_Risk a)"
  define au where "au = NormalizeAuthority (as_Authority a)"
  define d where "d = fst (assessment_verdict p r (as_ExplicitLowRisk a) au)"
  define st where "st = fst (snd (assessment_verdict p r (as_ExplicitLowRisk a) au))"
  note defs = d_def st_def assessment_verdict_def
  have g: "\<not> (r = ''sensitive'' \<and> d = ''allow_low_risk'')" "\<not> (r = ''medium'' \<and> d = ''allow_low_risk'')"
    "\<not> (r = ''unknown'' \<and> isAllowDecision d)" "\<not> (d = ''deny_invalid'' \<and> st = ''pass'')"
    by (simp_all add: defs split: if_splits)
  have auth: "\<not> (r = ''sensitive'' \<and> isAllowDecision d \<and> (au = ''none'' \<or> au = ''unknown''))"
  proof
    assume *: "r = ''sensitive'' \<and> isAllowDecision d \<and> (au = ''none'' \<or> au = ''unknown'')"
    then have "AllowsSensitiveByAuthority au" by (simp add: defs split: if_splits)
    moreover have "NormalizeAuthority au = au" by (simp add: au_def)
    ultimately show False using * by (auto simp: AllowsSensitiveByAuthority_def)
  qed
  have inv: "(p = ''policy_invalid'' \<and> isAllowDecision d) =
      (p = ''policy_invalid'' \<and> au \<noteq> ''hard_invariant'' \<and> (r = ''low'' \<or> r = ''medium''))"
    using NormalizeRisk_cases [of "as_Risk a"]
    by (simp add: defs policy_classes(4) r_def [symmetric] cong: conj_cong)
  show ?thesis
    unfolding Assessment_Validate_def Let_def evaluated_normalized verdict_parts
      p_def [symmetric] r_def [symmetric] au_def [symmetric] d_def [symmetric] st_def [symmetric]
    using g auth by (simp only: inv Assessment_Normalized_fields(8) simp_thms if_True if_False)
qed

section \<open>Records and receipts\<close>

lemma Record_Normalized_fields [simp]:
  "rc_Kind (Record_Normalized H r) = NormalizeKind (rc_Kind r)"
  "rc_Status (Record_Normalized H r) = NormalizeStatus (rc_Status r)"
  "rc_Subject (Record_Normalized H r) = boundString (rc_Subject r) 256"
  "rc_Summary (Record_Normalized H r) = boundString (rc_Summary r) 256"
  "rc_ID (Record_Normalized H r) \<noteq> []"
  by (simp_all add: Record_Normalized_def Let_def record_id_def)

lemma boundString_Nil_iff: "0 < mx \<Longrightarrow> boundString s mx = [] \<longleftrightarrow> TrimSpace s = []"
  by (auto simp: boundString_def Let_def)

lemma boundString_blank: "0 < mx \<Longrightarrow> TrimSpace (boundString s mx) = [] \<longleftrightarrow> TrimSpace s = []"
  using trunc_trim_blank [of mx s] by (simp add: trunc_trim_def truncateString_def boundString_def Let_def)

lemma NormalizeKind_idem [simp]: "NormalizeKind (NormalizeKind raw) = NormalizeKind raw"
  unfolding NormalizeKind_def by (rule one_of_idem) (simp, simp add: ev_kinds_def)

lemma Record_Validate_normalized [simp]:
  "Record_Validate H (Record_Normalized H r) = Record_Validate H r"
  by (simp add: Record_Validate_def Let_def boundString_Nil_iff boundString_blank)

text \<open>The statuses of the records that a receipt keeps.\<close>

definition kept_statuses :: "EvReceipt \<Rightarrow> string set" where
  "kept_statuses r = (\<lambda>x. NormalizeStatus (rc_Status x)) ` set (take 64 (rp_Records r))"

definition worst_status :: "string set \<Rightarrow> string" where
  "worst_status S = (if ''fail'' \<in> S then ''fail'' else if ''warn'' \<in> S then ''warn''
     else if ''pass'' \<in> S then ''pass'' else ''inconclusive'')"

lemma derive_loop_eq:
  "derive_loop w p rs = (let S = (\<lambda>x. NormalizeStatus (rc_Status x)) ` set rs
     in if ''fail'' \<in> S then ''fail'' else if w \<or> ''warn'' \<in> S then ''warn''
        else if p \<or> ''pass'' \<in> S then ''pass'' else ''inconclusive'')"
proof (induction w p rs rule: derive_loop.induct)
  case (2 w p r rs)
  let ?s = "NormalizeStatus (rc_Status r)"
  consider "?s = ''fail''" | "?s = ''warn''" | "?s = ''pass''"
    | "?s \<noteq> ''fail''" "?s \<noteq> ''warn''" "?s \<noteq> ''pass''" by blast
  then show ?case
    using 2 by cases (simp_all add: Let_def)
qed simp

lemma deriveReceiptStatus_eq:
  "deriveReceiptStatus rs = worst_status ((\<lambda>x. NormalizeStatus (rc_Status x)) ` set rs)"
  by (simp add: deriveReceiptStatus_def derive_loop_eq worst_status_def Let_def)

lemma Receipt_Normalized_fields:
  "rp_Records (Receipt_Normalized H r) = normalized_records H (rp_Records r)"
  "rp_Assessment (Receipt_Normalized H r) = Assessment_Evaluate H (rp_Assessment r)"
  "rp_Status (Receipt_Normalized H r) =
     receipt_status (rp_Status r) (normalized_records H (rp_Records r))"
  "rp_ID (Receipt_Normalized H r) \<noteq> []"
  by (simp_all add: Receipt_Normalized_def Let_def receipt_id_def)

lemma nonneg_ge [simp]: "0 \<le> nonneg n"
  by (simp add: nonneg_def)

lemma receipt_duration_nonneg: "0 \<le> receipt_duration ms s f"
  unfolding receipt_duration_def Let_def by simp

lemma rp_DurationMS_nonneg: "0 \<le> rp_DurationMS (Receipt_Normalized H r)"
  by (simp add: Receipt_Normalized_def Let_def receipt_duration_nonneg)

lemma normalized_records_status:
  "(\<lambda>x. NormalizeStatus (rc_Status x)) ` set (normalized_records H (rp_Records r)) = kept_statuses r"
  by (simp add: normalized_records_def kept_statuses_def image_image)

lemma normalized_records_indeterminate:
  "allRecordsIndeterminate (normalized_records H (rp_Records r)) \<longleftrightarrow>
     rp_Records r \<noteq> [] \<and> (\<forall>s \<in> kept_statuses r. indeterminate s)"
  by (auto simp: allRecordsIndeterminate_def normalized_records_def kept_statuses_def list_all_iff)

text \<open>
  The status of a normalised receipt: an unknown or invalid status is replaced by the worst
  status of the kept records, \<open>pass\<close> over nothing but skipped, unavailable or inconclusive
  records becomes \<open>inconclusive\<close>, and every other status is kept as it was given.
\<close>

lemma receipt_status_eq:
  "rp_Status (Receipt_Normalized H r) =
     (let s = NormalizeStatus (rp_Status r)
      in if s = ''unknown'' \<or> s = ''invalid'' then worst_status (kept_statuses r)
         else if s = ''pass'' \<and> rp_Records r \<noteq> [] \<and> kept_statuses r \<subseteq> {s. indeterminate s}
         then ''inconclusive'' else s)"
proof -
  have nil: "normalized_records H (rp_Records r) = [] \<longleftrightarrow> rp_Records r = []"
    by (simp add: normalized_records_def)
  show ?thesis
    unfolding Receipt_Normalized_fields receipt_status_def deriveReceiptStatus_eq
      normalized_records_status normalized_records_indeterminate nil Let_def
    by auto
qed

lemma first_record_error_None:
  "first_record_error H i rs = None \<longleftrightarrow> list_all (\<lambda>x. Record_Validate H x = None) rs"
  by (induction H i rs rule: first_record_error.induct) (auto split: option.splits)

text \<open>
  A receipt is valid exactly when its first 64 records are valid on their own and its
  assessment is not the one that \<open>Evaluate\<close> decides and \<open>Validate\<close> refuses: low or medium risk
  under an invalid policy state (an empty or unknown word is one), outside hard invariants. The
  status plays no part: the last check of \<open>Validate\<close> never sees a \<open>pass\<close> that it could refuse,
  and a \<open>pass\<close> over failed records is valid.
\<close>

theorem receipt_validity:
  "Receipt_Validate H r = None \<longleftrightarrow>
     \<not> (NormalizePolicyState (as_PolicyState (rp_Assessment r)) = ''policy_invalid'' \<and>
        NormalizeAuthority (as_Authority (rp_Assessment r)) \<noteq> ''hard_invariant'' \<and>
        NormalizeRisk (as_Risk (rp_Assessment r)) \<in> {''low'', ''medium''}) \<and>
     list_all (\<lambda>x. Record_Validate H x = None) (take 64 (rp_Records r))"
proof -
  let ?n = "Receipt_Normalized H r"
  have "list_all (\<lambda>x. Record_Validate H x = None) (rp_Records ?n) \<longleftrightarrow>
      list_all (\<lambda>x. Record_Validate H x = None) (take 64 (rp_Records r))"
    by (simp add: Receipt_Normalized_fields normalized_records_def list_all_iff)
  moreover have "\<not> (rp_Status ?n = ''pass'' \<and> allRecordsIndeterminate (rp_Records ?n))"
  proof
    assume *: "rp_Status ?n = ''pass'' \<and> allRecordsIndeterminate (rp_Records ?n)"
    then have "rp_Records r \<noteq> []" "kept_statuses r \<subseteq> {s. indeterminate s}"
      by (auto simp: Receipt_Normalized_fields normalized_records_indeterminate)
    moreover from this have "worst_status (kept_statuses r) \<noteq> ''pass''"
      by (auto simp: worst_status_def indeterminate_def)
    ultimately have "rp_Status ?n \<noteq> ''pass''"
      unfolding receipt_status_eq Let_def by auto
    with * show False by simp
  qed
  moreover have "\<not> rp_DurationMS ?n < 0"
    using rp_DurationMS_nonneg [of H r] by simp
  ultimately have "Receipt_Validate H r = None \<longleftrightarrow>
      Assessment_Validate H (Assessment_Evaluate H (rp_Assessment r)) = None \<and>
      list_all (\<lambda>x. Record_Validate H x = None) (take 64 (rp_Records r))"
    unfolding Receipt_Validate_def Let_def Receipt_Normalized_fields(2)
    using Receipt_Normalized_fields(4) [of H r]
    by (cases "Assessment_Validate H (Assessment_Evaluate H (rp_Assessment r))";
        cases "first_record_error H 0 (rp_Records ?n)")
       (simp_all add: first_record_error_None [where i = 0, symmetric])
  then show ?thesis by (auto simp: evaluated_validity)
qed


lemma sensitive_words:
  "list_all (\<lambda>op. boundString op 128 = op \<and> NormalizeSensitiveOperation op = op \<and>
     IsSensitiveOperation op \<and> ClassifyOperationRisk op = ''sensitive'') sensitive_operations"
  by code_simp

lemma sensitive_word:
  assumes "op \<in> set sensitive_operations"
  shows "boundString op 128 = op" "NormalizeSensitiveOperation op = op" "IsSensitiveOperation op"
    "ClassifyOperationRisk op = ''sensitive''"
  using sensitive_words assms by (simp_all add: list_all_iff)

text \<open>
  The class of a sensitive operation is recorded, not consulted: without a policy and without
  an authority, an assessment that calls any of the sensitive operations explicitly low-risk is
  allowed with status \<open>pass\<close> and valid, although the class it records and the classifier of
  operations both say that the operation is sensitive.
\<close>

theorem sensitive_class_not_consulted:
  assumes "op \<in> set sensitive_operations"
    and "e = Assessment_Evaluate H (a\<lparr>as_Operation := op, as_SensitiveClass := [],
      as_Risk := ''low'', as_PolicyState := ''policy_off'', as_Authority := ''none'',
      as_ExplicitLowRisk := True\<rparr>)"
  shows "as_Decision e = ''allow_low_risk'' \<and> as_Status e = ''pass'' \<and>
    as_SensitiveClass e = op \<and> ClassifyOperationRisk op = ''sensitive'' \<and>
    Assessment_Validate H e = None"
proof -
  have words: "NormalizeRisk ''low'' = ''low''" "NormalizeAuthority ''none'' = ''none''"
    "NormalizePolicyState ''policy_off'' = ''policy_off''" "IsPolicyAbsent ''policy_off''"
    "NormalizeSensitiveOperation [] = ''unknown''"
    by code_simp+
  have "as_SensitiveClass e = op"
    by (simp add: assms(2) Assessment_Evaluate_fields)
       (simp add: Assessment_Normalized_def Let_def words sensitive_word [OF assms(1)])
  then show ?thesis
    unfolding assms(2)
    by (simp add: verdict_parts assessment_verdict_def words sensitive_word [OF assms(1)]
        evaluated_validity)
qed

lemma sensitive_class_not_consulted_witness:
  "as_Decision (Assessment_Evaluate sample_codec
     \<lparr>as_ID = [], as_PolicyState = ''policy_off'', as_Risk = ''low'', as_Operation = ''shell_execution'',
      as_SensitiveClass = [], as_ExplicitLowRisk = True, as_Authority = ''none'', as_Status = [],
      as_Decision = [], as_ReasonCode = [], as_EvidenceRefs = [], as_Metadata = []\<rparr>) = ''allow_low_risk''"
  using sensitive_class_not_consulted [of "''shell_execution''" _ sample_codec
      "\<lparr>as_ID = [], as_PolicyState = [], as_Risk = [], as_Operation = [],
      as_SensitiveClass = [], as_ExplicitLowRisk = True, as_Authority = [], as_Status = [],
      as_Decision = [], as_ReasonCode = [], as_EvidenceRefs = [], as_Metadata = []\<rparr>", OF _ refl]
  by (simp add: sensitive_operations_def)

definition failed_run :: EvReceipt where
  "failed_run =
     \<lparr>rp_ID = ''r'', rp_Records =
        [\<lparr>rc_ID = ''x'', rc_Kind = ''tool_action'', rc_Status = ''fail'', rc_Subject = ''s'',
          rc_Summary = ''s'', rc_Source = [], rc_PolicyState = [], rc_Risk = [], rc_Authority = [],
          rc_EvidenceRefs = [], rc_CreatedAt = 0, rc_Metadata = []\<rparr>],
      rp_Assessment =
        \<lparr>as_ID = ''a'', as_PolicyState = ''policy_matched'', as_Risk = ''low'', as_Operation = [],
         as_SensitiveClass = [], as_ExplicitLowRisk = False, as_Authority = [], as_Status = [],
         as_Decision = [], as_ReasonCode = [], as_EvidenceRefs = [], as_Metadata = []\<rparr>,
      rp_Status = ''pass'', rp_Summary = ''s'', rp_EvidenceRefs = [], rp_StartedAt = 0,
      rp_FinishedAt = 0, rp_DurationMS = 0, rp_Metadata = []\<rparr>"

text \<open>
  A receipt given as \<open>pass\<close> whose only record failed keeps its status and is valid, although
  the status derived from its records is \<open>fail\<close>.
\<close>

theorem pass_over_failed_record:
  "rp_Status (Receipt_Normalized sample_codec failed_run) = ''pass'' \<and>
   Receipt_Validate sample_codec failed_run = None \<and>
   deriveReceiptStatus (rp_Records failed_run) = ''fail''"
  by (intro conjI; code_simp)

end
