(* ===== verification/Replay.thy ===== *)
theory Replay
  imports Evidence
begin

text \<open>
  Deterministic replay of \<open>pkg/replay\<close>: cases (a recorded trajectory, a candidate and what is
  expected of it), the outcome that is read off a trajectory and its events, the comparison of a
  candidate with the baseline. \<open>trace.Event.Normalized\<close> draws a UUID and reads the clock for
  events without an identifier or a timestamp: \<open>draws\<close> gives both for the event at a position.
\<close>

type_synonym draws = "nat \<Rightarrow> string \<times> instant"

section \<open>Errors\<close>

datatype ReplayError =
    ErrInvalidCase string
  | ErrMissingTrajectory
  | ErrUnsupportedCandidate string
  | ErrInconclusive
  | ErrEvaluator string

text \<open>The last constructor stands for any error of an evaluator outside the package.\<close>

definition replay_error_text :: "ReplayError \<Rightarrow> string" where
  "replay_error_text e =
     (case e of
        ErrInvalidCase s \<Rightarrow> (if s = [] then ''replay: invalid case'' else ''replay: invalid case: '' @ s)
      | ErrMissingTrajectory \<Rightarrow> ''replay: missing trajectory''
      | ErrUnsupportedCandidate s \<Rightarrow> ''replay: unsupported candidate: '' @ s
      | ErrInconclusive \<Rightarrow> ''replay: inconclusive''
      | ErrEvaluator s \<Rightarrow> s)"

section \<open>Cases\<close>

definition rp_truncate :: "string \<Rightarrow> int \<Rightarrow> string" where
  "rp_truncate s n = (if n \<le> 0 then [] else if int (length s) \<le> n then s else take (nat n) s)"

definition validCandidateKinds :: "string list" where
  "validCandidateKinds = [''policy'', ''skill'', ''harness'', ''route'', ''profile'', ''unknown'']"

record CandidateSpec =
  cd_ID :: string
  cd_Kind :: string
  cd_Version :: string
  cd_Description :: string
  cd_Metadata :: metadata

definition CandidateSpec_Normalized :: "CandidateSpec \<Rightarrow> CandidateSpec" where
  "CandidateSpec_Normalized c =
     c\<lparr>cd_ID := rp_truncate (TrimSpace (cd_ID c)) 128,
       cd_Version := rp_truncate (TrimSpace (cd_Version c)) 128,
       cd_Description := rp_truncate (TrimSpace (cd_Description c)) 256,
       cd_Kind := (if cd_Kind c \<notin> set validCandidateKinds then ''unknown'' else cd_Kind c),
       cd_Metadata := BoundMetadata (cd_Metadata c)\<rparr>"

definition CandidateSpec_Validate :: "Codec \<Rightarrow> CandidateSpec \<Rightarrow> ReplayError option" where
  "CandidateSpec_Validate H c =
     (if TrimSpace (cd_ID c) = [] then Some (ErrInvalidCase ''candidate id required'')
      else if cd_Kind c \<notin> set validCandidateKinds
      then Some (ErrUnsupportedCandidate (''candidate kind '' @ c_Quote H (cd_Kind c)))
      else None)"

record Expectations =
  ex_RequiredOperators :: "string list"
  ex_ForbiddenOperators :: "string list"
  ex_RequiredEventKinds :: "string list"
  ex_ForbiddenEventKinds :: "string list"
  ex_MaxCostIncreaseMicros :: int
  ex_MaxDurationIncreaseMS :: int

text \<open>
  Both loops keep the first occurrence of each word (\<open>seen\<close> holds those kept so far), and the
  result is sorted.
\<close>

fun dedup_loop :: "string list \<Rightarrow> string list \<Rightarrow> string list" where
  "dedup_loop seen [] = []"
| "dedup_loop seen (x # xs) =
     (if x \<in> set seen then dedup_loop seen xs else x # dedup_loop (x # seen) xs)"

definition normalizeOperators :: "string list \<Rightarrow> string list" where
  "normalizeOperators ops = sort (dedup_loop [] (map valid_operator ops))"

definition clean_kinds :: "string list \<Rightarrow> string list" where
  "clean_kinds ks = map (\<lambda>k. rp_truncate k 64) (filter (\<lambda>k. k \<noteq> []) (map (\<lambda>k. ToLower (TrimSpace k)) ks))"

definition normalizeKinds :: "string list \<Rightarrow> string list" where
  "normalizeKinds ks = sort (dedup_loop [] (clean_kinds ks))"

definition Expectations_Normalized :: "Expectations \<Rightarrow> Expectations" where
  "Expectations_Normalized e =
     \<lparr>ex_RequiredOperators = normalizeOperators (ex_RequiredOperators e),
      ex_ForbiddenOperators = normalizeOperators (ex_ForbiddenOperators e),
      ex_RequiredEventKinds = normalizeKinds (ex_RequiredEventKinds e),
      ex_ForbiddenEventKinds = normalizeKinds (ex_ForbiddenEventKinds e),
      ex_MaxCostIncreaseMicros = nonneg (ex_MaxCostIncreaseMicros e),
      ex_MaxDurationIncreaseMS = nonneg (ex_MaxDurationIncreaseMS e)\<rparr>"

text \<open>
  Events are normalised, those without an identifier are dropped (none is, as \<open>Normalized\<close> makes
  one up), and sorted by time, then by identifier.
\<close>

definition normalized_events :: "draws \<Rightarrow> Event list \<Rightarrow> Event list" where
  "normalized_events dr evs =
     map (\<lambda>(i, e). Event_Normalized (fst (dr i)) (snd (dr i)) e) (enumerate 0 evs)"

definition normalizeEvents :: "draws \<Rightarrow> Event list \<Rightarrow> Event list" where
  "normalizeEvents dr evs =
     sort_key (\<lambda>e. (ev_Timestamp e, ev_EventID e))
       (filter (\<lambda>e. ev_EventID e \<noteq> []) (normalized_events dr evs))"

text \<open>
  The references of the trajectory are left as they are. The loop over \<open>EventRefs\<close> writes into
  the caller's slice, as in the code of \<open>pkg/trace\<close>.
\<close>

definition sanitizeTrajectory :: "Trajectory \<Rightarrow> Trajectory" where
  "sanitizeTrajectory t =
     t\<lparr>t_TrajectoryID := rp_truncate (TrimSpace (t_TrajectoryID t)) 256,
       t_SessionID := RedactString (t_SessionID t) 256,
       t_ParentTrajectoryID := RedactString (t_ParentTrajectoryID t) 256,
       t_ObjectiveHash := RedactString (t_ObjectiveHash t) 128,
       t_ObjectiveSummary := RedactString (t_ObjectiveSummary t) 256,
       t_ModeProfile := RedactString (t_ModeProfile t) 256,
       t_StartStateHash := RedactString (t_StartStateHash t) 128,
       t_EndStateHash := RedactString (t_EndStateHash t) 128,
       t_Outcome := RedactString (t_Outcome t) 256,
       t_Status := RedactString (t_Status t) 64,
       t_Metadata := BoundMetadata (t_Metadata t),
       t_OperatorPath := normalizeOperators (t_OperatorPath t),
       t_EventRefs := map (\<lambda>r. RedactString r 256) (take 256 (t_EventRefs t)),
       t_Duration := nonneg (t_Duration t)\<rparr>"

record Case =
  ca_ID :: string
  ca_Name :: string
  ca_TrajectoryID :: string
  ca_Baseline :: Trajectory
  ca_BaselineEvents :: "Event list"
  ca_Candidate :: CandidateSpec
  ca_Expectations :: Expectations
  ca_Metadata :: metadata

definition Case_Normalized :: "Codec \<Rightarrow> draws \<Rightarrow> Case \<Rightarrow> Case" where
  "Case_Normalized H dr c =
     (let baseline = sanitizeTrajectory (ca_Baseline c);
          candidate = CandidateSpec_Normalized (ca_Candidate c);
          tid = rp_truncate (TrimSpace (ca_TrajectoryID c)) 256;
          tid = (if tid = [] then t_TrajectoryID baseline else tid);
          cid = rp_truncate (TrimSpace (ca_ID c)) 128
      in \<lparr>ca_ID = (if cid = [] \<and> tid \<noteq> []
                   then ''case_'' @ rp_truncate (StableHash H [tid, cd_ID candidate]) 32 else cid),
          ca_Name = rp_truncate (TrimSpace (ca_Name c)) 256,
          ca_TrajectoryID = tid,
          ca_Baseline = baseline,
          ca_BaselineEvents = normalizeEvents dr (ca_BaselineEvents c),
          ca_Candidate = candidate,
          ca_Expectations = Expectations_Normalized (ca_Expectations c),
          ca_Metadata = BoundMetadata (ca_Metadata c)\<rparr>)"

definition Case_Validate :: "Codec \<Rightarrow> Case \<Rightarrow> ReplayError option" where
  "Case_Validate H c =
     (if TrimSpace (t_TrajectoryID (ca_Baseline c)) = [] then Some ErrMissingTrajectory
      else if TrimSpace (ca_TrajectoryID c) = [] then Some ErrMissingTrajectory
      else case CandidateSpec_Validate H (ca_Candidate c) of
        Some e \<Rightarrow> Some e
      | None \<Rightarrow>
          if TrimSpace (ca_ID c) = [] then Some (ErrInvalidCase ''case id required'')
          else if ca_TrajectoryID c \<noteq> t_TrajectoryID (ca_Baseline c)
          then Some (ErrInvalidCase ''trajectory id mismatch'')
          else case Trajectory_Validate (ca_Baseline c) of
            Some e \<Rightarrow> Some (ErrInvalidCase e)
          | None \<Rightarrow> None)"

definition no_expectations :: Expectations where
  "no_expectations =
     \<lparr>ex_RequiredOperators = [], ex_ForbiddenOperators = [], ex_RequiredEventKinds = [],
      ex_ForbiddenEventKinds = [], ex_MaxCostIncreaseMicros = 0, ex_MaxDurationIncreaseMS = 0\<rparr>"

definition CaseFromTrajectory ::
    "Codec \<Rightarrow> draws \<Rightarrow> string \<Rightarrow> string \<Rightarrow> Trajectory \<Rightarrow> CandidateSpec \<Rightarrow>
     Expectations \<Rightarrow> metadata \<Rightarrow> ReplayError + Case"
where
  "CaseFromTrajectory H dr cid name baseline candidate expectations meta =
     (let c = Case_Normalized H dr
            \<lparr>ca_ID = cid, ca_Name = name, ca_TrajectoryID = t_TrajectoryID baseline,
             ca_Baseline = baseline, ca_BaselineEvents = [], ca_Candidate = candidate,
             ca_Expectations = expectations, ca_Metadata = meta\<rparr>
      in case Case_Validate H c of Some e \<Rightarrow> Inl e | None \<Rightarrow> Inr c)"

definition NewCaseFromTrajectory ::
    "Codec \<Rightarrow> draws \<Rightarrow> string \<Rightarrow> Trajectory \<Rightarrow> CandidateSpec \<Rightarrow> Expectations \<Rightarrow>
     ReplayError + Case"
where
  "NewCaseFromTrajectory H dr name baseline candidate expectations =
     CaseFromTrajectory H dr [] name baseline candidate expectations []"

definition TrajectorySummaryToCase ::
    "Codec \<Rightarrow> draws \<Rightarrow> string \<Rightarrow> Trajectory \<Rightarrow> CandidateSpec \<Rightarrow> ReplayError + Case"
where
  "TrajectorySummaryToCase H dr cid baseline candidate =
     CaseFromTrajectory H dr cid [] baseline candidate no_expectations []"

section \<open>Outcomes\<close>

record Outcome =
  oc_TrajectoryID :: string
  oc_Status :: string
  oc_Decision :: string
  oc_ErrorClass :: string
  oc_Outcome :: string
  oc_CostSummary :: CostSummary
  oc_DurationMS :: int
  oc_OperatorPath :: "string list"
  oc_EventKinds :: "string list"
  oc_ValidationRefs :: "Ref list"
  oc_ReceiptRefs :: "Ref list"
  oc_Retries :: int
  oc_RepairOperations :: int
  oc_Success :: bool
  oc_HasSuccessSignal :: bool
  oc_Invalid :: bool
  oc_InvalidReason :: string

definition no_outcome :: Outcome where
  "no_outcome =
     \<lparr>oc_TrajectoryID = [], oc_Status = [], oc_Decision = [], oc_ErrorClass = [], oc_Outcome = [],
      oc_CostSummary = no_summary, oc_DurationMS = 0, oc_OperatorPath = [], oc_EventKinds = [],
      oc_ValidationRefs = [], oc_ReceiptRefs = [], oc_Retries = 0, oc_RepairOperations = 0,
      oc_Success = False, oc_HasSuccessSignal = False, oc_Invalid = False, oc_InvalidReason = []\<rparr>"

definition rp_normalizeRefs :: "Ref list \<Rightarrow> Ref list" where
  "rp_normalizeRefs rs =
     sort_refs (filter (\<lambda>r. r_Ref r \<noteq> [])
       (map (\<lambda>r. NewRef (r_Kind r) (r_Ref r) (r_Hash r) (r_SizeBytes r)) rs))"

definition lower_field :: "string \<Rightarrow> int \<Rightarrow> string" where
  "lower_field s n = rp_truncate (ToLower (TrimSpace s)) n"

definition nonneg_summary :: "CostSummary \<Rightarrow> CostSummary" where
  "nonneg_summary c =
     c\<lparr>cs_CostEstimate := (cs_CostEstimate c)
         \<lparr>ce_TotalMicros := nonneg (ce_TotalMicros (cs_CostEstimate c)),
          ce_InputMicros := nonneg (ce_InputMicros (cs_CostEstimate c)),
          ce_OutputMicros := nonneg (ce_OutputMicros (cs_CostEstimate c))\<rparr>,
       cs_TokenUsage := (cs_TokenUsage c)
         \<lparr>tu_InputTokens := nonneg (tu_InputTokens (cs_TokenUsage c)),
          tu_OutputTokens := nonneg (tu_OutputTokens (cs_TokenUsage c)),
          tu_CachedInputToken := nonneg (tu_CachedInputToken (cs_TokenUsage c))\<rparr>\<rparr>"

definition normalizeOutcome :: "Outcome \<Rightarrow> Outcome" where
  "normalizeOutcome ou =
     ou\<lparr>oc_TrajectoryID := rp_truncate (TrimSpace (oc_TrajectoryID ou)) 256,
       oc_Status := lower_field (oc_Status ou) 64,
       oc_Decision := lower_field (oc_Decision ou) 64,
       oc_ErrorClass := lower_field (oc_ErrorClass ou) 64,
       oc_Outcome := lower_field (oc_Outcome ou) 256,
       oc_EventKinds := normalizeKinds (oc_EventKinds ou),
       oc_OperatorPath := normalizeOperators (oc_OperatorPath ou),
       oc_DurationMS := nonneg (oc_DurationMS ou),
       oc_CostSummary := nonneg_summary (oc_CostSummary ou),
       oc_Retries := nonneg (oc_Retries ou),
       oc_RepairOperations := nonneg (oc_RepairOperations ou),
       oc_ValidationRefs := rp_normalizeRefs (oc_ValidationRefs ou),
       oc_ReceiptRefs := rp_normalizeRefs (oc_ReceiptRefs ou)\<rparr>"

definition success_words :: "string list" where
  "success_words = [''success'', ''succeeded'', ''pass'', ''passed'', ''ok'', ''completed'']"

definition failure_words :: "string list" where
  "failure_words = [''failure'', ''failed'', ''fail'', ''error'', ''errored'', ''invalid'']"

definition inconclusive_words :: "string list" where
  "inconclusive_words = [''inconclusive'', ''unknown'', ''skipped'', ''missing'']"

text \<open>A signal is \<open>None\<close> when there is none (the second result is false).\<close>

definition classifySignal :: "string \<Rightarrow> bool option" where
  "classifySignal v =
     (let s = ToLower (TrimSpace v)
      in if s = [] then None
         else if s \<in> set success_words then Some True
         else if s \<in> set failure_words then Some False
         else if s \<in> set inconclusive_words then Some False
         else None)"

definition successSignal :: "string \<Rightarrow> string \<Rightarrow> bool option" where
  "successSignal status outcome =
     (case classifySignal status of
        Some v \<Rightarrow> Some v
      | None \<Rightarrow> classifySignal outcome)"

text \<open>The body of the loop over the events: the outcome so far and its references.\<close>

definition outcome_event :: "Event \<Rightarrow> Outcome \<Rightarrow> Outcome" where
  "outcome_event ev ou =
     ou\<lparr>oc_Decision := (if ev_Decision ev \<noteq> [] then ToLower (TrimSpace (ev_Decision ev))
                       else oc_Decision ou),
       oc_ErrorClass := (if ev_ErrorClass ev \<noteq> [] then ToLower (TrimSpace (ev_ErrorClass ev))
                         else oc_ErrorClass ou),
       oc_EventKinds := (if ev_EventKind ev \<noteq> [] then oc_EventKinds ou @ [ev_EventKind ev]
                         else oc_EventKinds ou),
       oc_ValidationRefs := oc_ValidationRefs ou @ ev_ValidationRefs ev,
       oc_ReceiptRefs := oc_ReceiptRefs ou @ ev_ReceiptRefs ev,
       oc_RepairOperations := (if ev_Operator ev = ''repair'' then oc_RepairOperations ou + 1
                               else oc_RepairOperations ou),
       oc_Retries := (if sublist ''retry'' (ToLower (ev_EventKind ev)) then oc_Retries ou + 1
                      else oc_Retries ou)\<rparr>"

definition count_repairs :: "string list \<Rightarrow> int" where
  "count_repairs path = int (length (filter (\<lambda>op. op = ''repair'') path))"

definition outcomeFromTrajectory ::
    "draws \<Rightarrow> Trajectory \<Rightarrow> Event list \<Rightarrow> Outcome"
where
  "outcomeFromTrajectory dr t events =
     (let tn = sanitizeTrajectory t;
          out = no_outcome
            \<lparr>oc_TrajectoryID := t_TrajectoryID tn,
             oc_Status := ToLower (TrimSpace (t_Status tn)),
             oc_Outcome := ToLower (TrimSpace (t_Outcome tn)),
             oc_CostSummary := t_CostSummary tn,
             oc_DurationMS := t_Duration tn,
             oc_OperatorPath := t_OperatorPath tn\<rparr>
      in case Trajectory_Validate tn of
        Some err \<Rightarrow> normalizeOutcome (out\<lparr>oc_Invalid := True, oc_InvalidReason := err\<rparr>)
      | None \<Rightarrow>
          (let out = (if oc_DurationMS out = 0 \<and> \<not> IsZero (t_FinishedAt tn) \<and>
                 \<not> IsZero (t_StartedAt tn) \<and> \<not> t_FinishedAt tn < t_StartedAt tn
               then out\<lparr>oc_DurationMS := Milliseconds (time_Sub (t_FinishedAt tn) (t_StartedAt tn))\<rparr>
               else out);
               out = fold outcome_event (normalized_events dr events)
                 (out\<lparr>oc_ValidationRefs := t_ValidationRefs tn,
                      oc_ReceiptRefs := t_ReceiptRefs tn\<rparr>);
               out = (if oc_RepairOperations out = 0
                 then out\<lparr>oc_RepairOperations := count_repairs (t_OperatorPath tn)\<rparr> else out);
               sig = successSignal (oc_Status out) (oc_Outcome out)
           in normalizeOutcome
                (out\<lparr>oc_Success := (case sig of Some v \<Rightarrow> v | None \<Rightarrow> False),
                     oc_HasSuccessSignal := (sig \<noteq> None)\<rparr>)))"

text \<open>The sum of two costs may leave the range of \<open>int64\<close>, so it wraps around.\<close>

definition totalMicros :: "CostSummary \<Rightarrow> int" where
  "totalMicros c =
     (if ce_TotalMicros (cs_CostEstimate c) > 0 then ce_TotalMicros (cs_CostEstimate c)
      else wrap64 (nonneg (ce_InputMicros (cs_CostEstimate c)) +
             nonneg (ce_OutputMicros (cs_CostEstimate c))))"

section \<open>Comparison\<close>

datatype Verdict =
    VerdictPass | VerdictFail | VerdictRegression | VerdictImprovement | VerdictInconclusive
  | VerdictInvalid | VerdictOther string

definition verdict_word :: "Verdict \<Rightarrow> string" where
  "verdict_word v =
     (case v of
        VerdictPass \<Rightarrow> ''pass'' | VerdictFail \<Rightarrow> ''fail'' | VerdictRegression \<Rightarrow> ''regression''
      | VerdictImprovement \<Rightarrow> ''improvement'' | VerdictInconclusive \<Rightarrow> ''inconclusive''
      | VerdictInvalid \<Rightarrow> ''invalid'' | VerdictOther s \<Rightarrow> s)"

text \<open>A regression or an improvement: its code and its message.\<close>

type_synonym remark = "string \<times> string"

record Comparison =
  cmp_BaselineOutcome :: Outcome
  cmp_CandidateOutcome :: Outcome
  cmp_Regressions :: "remark list"
  cmp_Improvements :: "remark list"
  cmp_Verdict :: Verdict

definition note_if :: "bool \<Rightarrow> string \<Rightarrow> string \<Rightarrow> remark list" where
  "note_if b code message = (if b then [(code, message)] else [])"

definition stringSet :: "string list \<Rightarrow> string set" where
  "stringSet ks = (\<lambda>k. ToLower (TrimSpace k)) ` set ks"

definition regressions_of :: "Expectations \<Rightarrow> Outcome \<Rightarrow> Outcome \<Rightarrow> remark list" where
  "regressions_of expect base cand =
     note_if (oc_HasSuccessSignal base \<and> oc_Success base \<and> oc_HasSuccessSignal cand \<and> \<not> oc_Success cand)
       ''outcome_worsened'' ''baseline succeeded while candidate failed'' @
     note_if (oc_HasSuccessSignal base \<and> oc_Success base \<and> \<not> oc_HasSuccessSignal cand)
       ''missing_required_outcome'' ''candidate outcome signal is missing'' @
     concat (map (\<lambda>op. note_if (op \<notin> set (oc_OperatorPath cand)) ''required_operator_missing''
       (''required operator missing: '' @ op)) (ex_RequiredOperators expect)) @
     concat (map (\<lambda>op. note_if (op \<in> set (oc_OperatorPath cand)) ''forbidden_operator_introduced''
       (''forbidden operator introduced: '' @ op)) (ex_ForbiddenOperators expect)) @
     concat (map (\<lambda>k. note_if (k \<notin> stringSet (oc_EventKinds cand)) ''required_event_missing''
       (''required event missing: '' @ k)) (ex_RequiredEventKinds expect)) @
     concat (map (\<lambda>k. note_if (k \<in> stringSet (oc_EventKinds cand)) ''forbidden_event_introduced''
       (''forbidden event introduced: '' @ k)) (ex_ForbiddenEventKinds expect)) @
     note_if (length (oc_ValidationRefs base) > length (oc_ValidationRefs cand))
       ''validation_refs_worsened'' ''candidate has fewer validation refs than baseline'' @
     note_if (length (oc_ReceiptRefs base) > length (oc_ReceiptRefs cand))
       ''receipt_refs_worsened'' ''candidate has fewer receipt refs than baseline'' @
     note_if (ex_MaxCostIncreaseMicros expect > 0 \<and>
         wrap64 (totalMicros (oc_CostSummary cand) - totalMicros (oc_CostSummary base))
           > ex_MaxCostIncreaseMicros expect)
       ''cost_regression'' ''candidate cost exceeds allowed threshold'' @
     note_if (ex_MaxDurationIncreaseMS expect > 0 \<and>
         oc_DurationMS cand - oc_DurationMS base > ex_MaxDurationIncreaseMS expect)
       ''duration_regression'' ''candidate duration exceeds allowed threshold''"

definition improvements_of :: "Outcome \<Rightarrow> Outcome \<Rightarrow> remark list" where
  "improvements_of base cand =
     (if oc_HasSuccessSignal base \<and> oc_Success base \<and> oc_HasSuccessSignal cand \<and> oc_Success cand then
        note_if (totalMicros (oc_CostSummary cand) < totalMicros (oc_CostSummary base))
          ''cost_improved'' ''success preserved with lower cost'' @
        note_if (oc_DurationMS cand < oc_DurationMS base)
          ''duration_improved'' ''success preserved with lower duration'' @
        note_if (oc_RepairOperations cand < oc_RepairOperations base)
          ''repair_operations_reduced'' ''fewer repair operations'' @
        note_if (oc_Retries cand < oc_Retries base) ''retries_reduced'' ''fewer retries'' @
        note_if (length (oc_ValidationRefs cand) > length (oc_ValidationRefs base))
          ''validation_strengthened'' ''stronger validation reference coverage''
      else [])"

record CandidateOutcome =
  co_Trajectory :: Trajectory
  co_Events :: "Event list"

definition Compare ::
    "draws \<Rightarrow> draws \<Rightarrow> Case \<Rightarrow> CandidateOutcome \<Rightarrow> Comparison"
where
  "Compare dr dr' c candidate =
     (let base = outcomeFromTrajectory dr (ca_Baseline c) (ca_BaselineEvents c);
          cand = outcomeFromTrajectory dr' (co_Trajectory candidate) (co_Events candidate);
          cmp = \<lparr>cmp_BaselineOutcome = base, cmp_CandidateOutcome = cand, cmp_Regressions = [],
            cmp_Improvements = [], cmp_Verdict = VerdictPass\<rparr>
      in if oc_Invalid base
         then cmp\<lparr>cmp_Regressions := [(''baseline_invalid'', oc_InvalidReason base)],
                  cmp_Verdict := VerdictInvalid\<rparr>
         else if oc_Invalid cand
         then cmp\<lparr>cmp_Regressions := (''candidate_invalid'', oc_InvalidReason cand) #
                    note_if (oc_HasSuccessSignal base \<and> oc_Success base)
                      ''baseline_pass_candidate_invalid''
                      ''baseline succeeded while candidate is invalid'',
                  cmp_Verdict := VerdictInvalid\<rparr>
         else
           (let regressions = regressions_of (Expectations_Normalized (ca_Expectations c)) base cand;
                improvements = improvements_of base cand;
                cmp = cmp\<lparr>cmp_Regressions := regressions, cmp_Improvements := improvements\<rparr>
            in if \<not> (oc_HasSuccessSignal base \<or> oc_HasSuccessSignal cand \<or>
                 regressions \<noteq> [] \<or> improvements \<noteq> [])
               then cmp\<lparr>cmp_Verdict := VerdictInconclusive\<rparr>
               else if regressions \<noteq> [] then cmp\<lparr>cmp_Verdict := VerdictRegression\<rparr>
               else if improvements \<noteq> [] then cmp\<lparr>cmp_Verdict := VerdictImprovement\<rparr>
               else cmp\<lparr>cmp_Verdict := VerdictPass\<rparr>))"

end
