(* ===== verification/ReplayRun.thy ===== *)
theory ReplayRun
  imports Replay "HOL-Library.AList"
begin

text \<open>
  The runner of \<open>pkg/replay\<close>, its evaluators and its in-memory store, and what replay
  guarantees. A nil evaluator or comparator is \<open>None\<close>; the clock readings at the start and at the
  end of a run are arguments. The store holds the mutex for the whole of each operation. Copies of
  slices and maps (the \<open>clone\<close> functions) are the values themselves.
\<close>

section \<open>Runner\<close>

record Result =
  rr_CaseID :: string
  rr_TrajectoryID :: string
  rr_CandidateID :: string
  rr_BaselineOutcome :: Outcome
  rr_CandidateOutcome :: Outcome
  rr_Regressions :: "remark list"
  rr_Improvements :: "remark list"
  rr_Verdict :: Verdict
  rr_StartedAt :: instant
  rr_FinishedAt :: instant
  rr_Duration :: duration

type_synonym evaluator = "Case \<Rightarrow> ReplayError + CandidateOutcome"

definition BaselineEvaluator :: evaluator where
  "BaselineEvaluator c = Inr \<lparr>co_Trajectory = ca_Baseline c, co_Events = ca_BaselineEvents c\<rparr>"

definition NoopEvaluator :: evaluator where
  "NoopEvaluator c = Inr \<lparr>co_Trajectory = ca_Baseline c, co_Events = []\<rparr>"

definition StaticEvaluator :: "CandidateOutcome \<Rightarrow> ReplayError option \<Rightarrow> evaluator" where
  "StaticEvaluator outcome err c = (case err of Some e \<Rightarrow> Inl e | None \<Rightarrow> Inr outcome)"

definition FixtureEvaluator :: "(string \<times> CandidateOutcome) list \<Rightarrow> evaluator" where
  "FixtureEvaluator fixtures c =
     (case map_of fixtures (ca_ID c) of Some out \<Rightarrow> Inr out | None \<Rightarrow> Inl ErrInconclusive)"

text \<open>The result of a run that stopped early: a verdict and one regression.\<close>

definition stopped_result :: "Case \<Rightarrow> Verdict \<Rightarrow> remark \<Rightarrow> instant \<Rightarrow> instant \<Rightarrow> Result" where
  "stopped_result c verdict rm started finished =
     \<lparr>rr_CaseID = ca_ID c, rr_TrajectoryID = ca_TrajectoryID c,
      rr_CandidateID = cd_ID (ca_Candidate c), rr_BaselineOutcome = no_outcome,
      rr_CandidateOutcome = no_outcome, rr_Regressions = [rm], rr_Improvements = [],
      rr_Verdict = verdict, rr_StartedAt = started, rr_FinishedAt = finished,
      rr_Duration = time_Sub finished started\<rparr>"

definition Runner_Run ::
    "Codec \<Rightarrow> draws \<Rightarrow> (Case \<Rightarrow> CandidateOutcome \<Rightarrow> Comparison) option \<Rightarrow> draws \<Rightarrow> draws \<Rightarrow>
     evaluator option \<Rightarrow> instant \<Rightarrow> instant \<Rightarrow> Case \<Rightarrow> Result \<times> ReplayError option"
where
  "Runner_Run H dr comparator dr1 dr2 evaluator started finished c =
     (let norm = Case_Normalized H dr c
      in case Case_Validate H norm of
        Some err \<Rightarrow>
          (stopped_result norm VerdictInvalid (''invalid_case'', replay_error_text err) started finished,
           Some (ErrInvalidCase (replay_error_text err)))
      | None \<Rightarrow>
          (case (case evaluator of None \<Rightarrow> BaselineEvaluator | Some ev \<Rightarrow> ev) norm of
             Inl err \<Rightarrow>
               (stopped_result norm VerdictInconclusive
                  (''candidate_evaluation_failed'', replay_error_text err) started finished,
                Some err)
           | Inr candidate \<Rightarrow>
               (let candidate = (if t_TrajectoryID (co_Trajectory candidate) = []
                      then candidate\<lparr>co_Trajectory := ca_Baseline norm\<rparr> else candidate);
                    cmp = (case comparator of None \<Rightarrow> Compare dr1 dr2 | Some f \<Rightarrow> f) norm candidate
                in (\<lparr>rr_CaseID = ca_ID norm, rr_TrajectoryID = ca_TrajectoryID norm,
                     rr_CandidateID = cd_ID (ca_Candidate norm),
                     rr_BaselineOutcome = cmp_BaselineOutcome cmp,
                     rr_CandidateOutcome = cmp_CandidateOutcome cmp,
                     rr_Regressions = cmp_Regressions cmp,
                     rr_Improvements = cmp_Improvements cmp,
                     rr_Verdict = cmp_Verdict cmp, rr_StartedAt = started,
                     rr_FinishedAt = finished, rr_Duration = time_Sub finished started\<rparr>,
                    None))))"

section \<open>Store\<close>

text \<open>The tables are association lists in the order of one iteration of Go's maps.\<close>

record ReplayStore =
  ms_cases :: "(string \<times> Case) list"
  ms_results :: "(string \<times> Result) list"

definition NewReplayStore :: ReplayStore where
  "NewReplayStore = \<lparr>ms_cases = [], ms_results = []\<rparr>"

definition SaveCase ::
    "Codec \<Rightarrow> draws \<Rightarrow> Case \<Rightarrow> ReplayStore \<Rightarrow> ReplayError option \<times> ReplayStore"
where
  "SaveCase H dr c s =
     (let norm = Case_Normalized H dr c
      in case Case_Validate H norm of
        Some err \<Rightarrow> (Some err, s)
      | None \<Rightarrow> (None, s\<lparr>ms_cases := AList.update (ca_ID norm) norm (ms_cases s)\<rparr>))"

definition LoadCase :: "Codec \<Rightarrow> string \<Rightarrow> ReplayStore \<Rightarrow> ReplayError + Case" where
  "LoadCase H cid s =
     (let key = TrimSpace cid
      in if key = [] then Inl (ErrInvalidCase ''case id required'')
         else case map_of (ms_cases s) key of
           None \<Rightarrow> Inl (ErrInvalidCase (''case '' @ c_Quote H key @ '' not found''))
         | Some c \<Rightarrow> Inr c)"

record CaseSummary =
  sm_ID :: string
  sm_Name :: string
  sm_TrajectoryID :: string
  sm_CandidateID :: string

definition summary_of :: "Case \<Rightarrow> CaseSummary" where
  "summary_of c = \<lparr>sm_ID = ca_ID c, sm_Name = ca_Name c, sm_TrajectoryID = ca_TrajectoryID c,
     sm_CandidateID = cd_ID (ca_Candidate c)\<rparr>"

definition ListCases :: "ReplayStore \<Rightarrow> CaseSummary list" where
  "ListCases s = sort_key sm_ID (map (\<lambda>(k, c). summary_of c) (ms_cases s))"

definition SaveResult :: "Result \<Rightarrow> ReplayStore \<Rightarrow> ReplayError option \<times> ReplayStore" where
  "SaveResult r s =
     (let key = TrimSpace (rr_CaseID r)
      in if key = [] then (Some (ErrInvalidCase ''result case id required''), s)
         else (None, s\<lparr>ms_results := AList.update key
           (r\<lparr>rr_CaseID := key,
              rr_BaselineOutcome := normalizeOutcome (rr_BaselineOutcome r),
              rr_CandidateOutcome := normalizeOutcome (rr_CandidateOutcome r)\<rparr>) (ms_results s)\<rparr>))"

definition LoadResult :: "Codec \<Rightarrow> string \<Rightarrow> ReplayStore \<Rightarrow> ReplayError + Result" where
  "LoadResult H rid s =
     (let key = TrimSpace rid
      in if key = [] then Inl (ErrInvalidCase ''result id required'')
         else case map_of (ms_results s) key of
           None \<Rightarrow> Inl (ErrInvalidCase (''result '' @ c_Quote H key @ '' not found''))
         | Some r \<Rightarrow> Inr r)"

end
