(* ===== verification/KeyedStore.thy ===== *)
theory KeyedStore
  imports GoStrings
begin

text \<open>
  The contract that the in-memory stores of the packages share: a value is normalised, refused
  with an error that leaves the store as it was, or stored under a key of its own; a lookup cleans
  the key it is given. The clients rely on what a lookup returns after any sequence of saves.
\<close>

locale cleaned_store =
  fixes put :: "'a \<Rightarrow> 's \<Rightarrow> 'e option \<times> 's"
    and get :: "string \<Rightarrow> 's \<Rightarrow> 'e + 'b"
    and refused :: "'a \<Rightarrow> 'e option"
    and key :: "'a \<Rightarrow> string"
    and stored :: "'a \<Rightarrow> 'b"
    and clean :: "string \<Rightarrow> string"
  assumes put_refused: "refused x = Some e \<Longrightarrow> put x s = (Some e, s)"
    and put_accepted: "refused x = None \<Longrightarrow> fst (put x s) = None"
    and get_same: "refused x = None \<Longrightarrow> clean k = key x \<Longrightarrow> get k (snd (put x s)) = Inr (stored x)"
    and get_other: "clean k \<noteq> key x \<Longrightarrow> get k (snd (put x s)) = get k s"
begin

definition saved :: "string \<Rightarrow> 'a \<Rightarrow> bool" where
  "saved k x \<longleftrightarrow> refused x = None \<and> key x = clean k"

lemma get_put: "get k (snd (put x s)) = (if saved k x then Inr (stored x) else get k s)"
proof (cases "refused x")
  case None
  then show ?thesis
    by (cases "clean k = key x") (auto simp: saved_def get_same get_other)
qed (simp add: saved_def put_refused)

lemma put_result: "fst (put x s) = refused x"
  by (cases "refused x") (simp_all add: put_refused put_accepted)

text \<open>After any sequence of saves a lookup returns the last value accepted under its key.\<close>

lemma get_after_puts:
  "get k (fold (\<lambda>x s. snd (put x s)) xs s) =
     (case find (saved k) (rev xs) of Some x \<Rightarrow> Inr (stored x) | None \<Rightarrow> get k s)"
proof (induction xs rule: rev_induct)
  case (snoc x xs)
  then show ?case by (simp add: get_put)
qed simp

end

text \<open>The stores whose lookups trim the key.\<close>

locale keyed_store = cleaned_store put get refused key stored TrimSpace
  for put :: "'a \<Rightarrow> 's \<Rightarrow> 'e option \<times> 's"
    and get :: "string \<Rightarrow> 's \<Rightarrow> 'e + 'b"
    and refused :: "'a \<Rightarrow> 'e option"
    and key :: "'a \<Rightarrow> string"
    and stored :: "'a \<Rightarrow> 'b"
begin

text \<open>A value can be loaded under some key exactly when its key has no space at its ends.\<close>

lemma loadable:
  assumes "refused x = None"
  shows "(\<exists>k. get k (snd (put x s)) = Inr (stored x) \<and> TrimSpace k = key x) \<longleftrightarrow> TrimSpace (key x) = key x"
proof
  assume "\<exists>k. get k (snd (put x s)) = Inr (stored x) \<and> TrimSpace k = key x"
  then show "TrimSpace (key x) = key x" by (metis TrimSpace_idem)
qed (auto intro: get_same [OF assms])

end

text \<open>A method of a store that is there.\<close>

definition present :: "('s option \<Rightarrow> 'e \<times> 's option) \<Rightarrow> 's \<Rightarrow> 'e \<times> 's" where
  "present f s = (case f (Some s) of (e, st) \<Rightarrow> (e, the st))"

end
