(* ===== verification/ReplayProps.thy ===== *)
theory ReplayProps
  imports ReplayRun KeyedStore
begin

text \<open>
  Properties of \<open>pkg/replay\<close>: the contract of its store, which trajectories make a case, what an
  accepted candidate guarantees, and what a run makes of the baseline itself.
\<close>


section \<open>What the store promises\<close>

lemma case_id_not_blank:
  assumes "Case_Validate H c = None"
  shows "TrimSpace (ca_ID c) \<noteq> []"
  using assms by (auto simp: Case_Validate_def split: if_splits option.splits)

interpretation case_store: keyed_store "SaveCase H dr" "LoadCase H"
  "\<lambda>c. Case_Validate H (Case_Normalized H dr c)" "\<lambda>c. ca_ID (Case_Normalized H dr c)"
  "Case_Normalized H dr" for H dr
proof unfold_locales
  fix k x s
  assume *: "Case_Validate H (Case_Normalized H dr x) = None"
    and k: "TrimSpace k = ca_ID (Case_Normalized H dr x)"
  then have "TrimSpace k \<noteq> []" using case_id_not_blank [OF *] by auto
  then show "LoadCase H k (snd (SaveCase H dr x s)) = Inr (Case_Normalized H dr x)"
    using * k by (simp add: SaveCase_def LoadCase_def Let_def update_conv')
qed (auto simp: SaveCase_def LoadCase_def Let_def update_conv' split: option.splits)


section \<open>Normalisation\<close>

lemma rp_truncate_eq: "rp_truncate s n = truncateString s n"
  by (simp add: rp_truncate_def truncateString_def)

lemma rp_truncate_blank: "0 < n \<Longrightarrow> TrimSpace (rp_truncate (TrimSpace s) n) = [] \<longleftrightarrow> TrimSpace s = []"
  using trunc_trim_blank [of n s] by (simp add: rp_truncate_eq trunc_trim_def)

lemma set_dedup_loop: "set (dedup_loop seen xs) = set xs - set seen"
  by (induction seen xs rule: dedup_loop.induct) auto

lemma distinct_dedup_loop: "distinct (dedup_loop seen xs)"
  by (induction seen xs rule: dedup_loop.induct) (auto simp: set_dedup_loop)

lemma set_normalizeOperators [simp]: "set (normalizeOperators ops) = valid_operator ` set ops"
  by (simp add: normalizeOperators_def set_dedup_loop)

lemma distinct_normalizeOperators: "distinct (normalizeOperators ops)"
  by (simp add: normalizeOperators_def distinct_dedup_loop)

lemma valid_operator_idem [simp]: "valid_operator (valid_operator op) = valid_operator op"
  by (simp add: valid_operator_def)

lemma normalizeOperators_length: "length (normalizeOperators ops) \<le> 12"
proof -
  have "set (normalizeOperators ops) \<subseteq> set validOperators"
    using valid_operator_Valid by (auto simp: Operator_Valid_def)
  then have "card (set (normalizeOperators ops)) \<le> card (set validOperators)"
    by (intro card_mono) auto
  also have "\<dots> \<le> 12" using card_length [of validOperators] by (simp add: validOperators_def)
  finally show ?thesis
    by (simp only: distinct_card [OF distinct_normalizeOperators])
qed

lemma sanitizeTrajectory_fields [simp]:
  "TrimSpace (t_TrajectoryID (sanitizeTrajectory t)) = [] \<longleftrightarrow> TrimSpace (t_TrajectoryID t) = []"
  "t_StartedAt (sanitizeTrajectory t) = t_StartedAt t"
  "t_OperatorPath (sanitizeTrajectory t) = normalizeOperators (t_OperatorPath t)"
  by (simp_all add: sanitizeTrajectory_def rp_truncate_blank)

lemma sanitized_valid:
  "Trajectory_Validate (sanitizeTrajectory t) = None \<longleftrightarrow>
     TrimSpace (t_TrajectoryID t) \<noteq> [] \<and> t_StartedAt t \<noteq> 0"
proof -
  have "\<not> 64 < length (normalizeOperators (t_OperatorPath t))"
    using normalizeOperators_length [of "t_OperatorPath t"] by simp
  moreover have "length (t_EventRefs (sanitizeTrajectory t)) \<le> 256"
    by (simp add: sanitizeTrajectory_def)
  ultimately show ?thesis
    by (simp add: Trajectory_Validate_def IsZero_def list_all_iff)
qed

lemma Case_Normalized_fields [simp]:
  "ca_Baseline (Case_Normalized H dr c) = sanitizeTrajectory (ca_Baseline c)"
  "ca_Candidate (Case_Normalized H dr c) = CandidateSpec_Normalized (ca_Candidate c)"
  "ca_Expectations (Case_Normalized H dr c) = Expectations_Normalized (ca_Expectations c)"
  "ca_BaselineEvents (Case_Normalized H dr c) = normalizeEvents dr (ca_BaselineEvents c)"
  by (simp_all add: Case_Normalized_def Let_def)

lemma CandidateSpec_Validate_normalized:
  "CandidateSpec_Validate H (CandidateSpec_Normalized c) =
     (if TrimSpace (cd_ID c) = [] then Some (ErrInvalidCase ''candidate id required'') else None)"
  by (simp add: CandidateSpec_Validate_def CandidateSpec_Normalized_def rp_truncate_blank
      validCandidateKinds_def)

text \<open>
  Making a case from a trajectory fails for three reasons only: no trajectory identifier, no
  candidate identifier, no start time, in this order. Over-long paths, unknown operators, unknown
  candidate kinds and missing case identifiers are repaired.
\<close>

theorem case_from_trajectory:
  "(case CaseFromTrajectory H dr cid name t cand exps meta of Inl e \<Rightarrow> Some e | Inr c \<Rightarrow> None) =
     (if TrimSpace (t_TrajectoryID t) = [] then Some ErrMissingTrajectory
      else if TrimSpace (cd_ID cand) = [] then Some (ErrInvalidCase ''candidate id required'')
      else if t_StartedAt t = 0 then Some (ErrInvalidCase ''trajectory requires started_at'')
      else None)"
proof -
  define c where "c = Case_Normalized H dr
    \<lparr>ca_ID = cid, ca_Name = name, ca_TrajectoryID = t_TrajectoryID t, ca_Baseline = t,
     ca_BaselineEvents = [], ca_Candidate = cand, ca_Expectations = exps, ca_Metadata = meta\<rparr>"
  have base: "t_TrajectoryID (ca_Baseline c) = ca_TrajectoryID c"
    by (simp add: c_def Case_Normalized_def Let_def sanitizeTrajectory_def)
  have blank: "TrimSpace (ca_TrajectoryID c) = [] \<longleftrightarrow> TrimSpace (t_TrajectoryID t) = []"
    by (simp add: base [symmetric]) (simp add: c_def)
  have cid: "TrimSpace (ca_ID c) \<noteq> []" if "TrimSpace (t_TrajectoryID t) \<noteq> []"
  proof -
    have "ca_TrajectoryID c \<noteq> []" using that blank by auto
    then have "ca_ID c = rp_truncate (TrimSpace cid) 128 \<and> TrimSpace cid \<noteq> [] \<or> (\<exists>x. ca_ID c = ''case_'' @ x)"
      by (auto simp: c_def Case_Normalized_def Let_def rp_truncate_def)
    then show ?thesis
      using rp_truncate_blank [of 128 cid]
      by (auto simp: not_blank_ascii_head solid_def is_ascii_def ascii_spaces_def)
  qed
  have traj: "Trajectory_Validate (ca_Baseline c) =
      (if TrimSpace (t_TrajectoryID t) = [] then Some ''trajectory requires trajectory_id''
       else if t_StartedAt t = 0 then Some ''trajectory requires started_at'' else None)"
    using sanitized_valid [of t] by (simp add: c_def) (auto simp: Trajectory_Validate_def IsZero_def)
  have cnd: "CandidateSpec_Validate H (ca_Candidate c) =
      (if TrimSpace (cd_ID cand) = [] then Some (ErrInvalidCase ''candidate id required'') else None)"
    by (simp add: c_def CandidateSpec_Validate_normalized)
  have "CaseFromTrajectory H dr cid name t cand exps meta =
      (case Case_Validate H c of Some e \<Rightarrow> Inl e | None \<Rightarrow> Inr c)"
    unfolding CaseFromTrajectory_def c_def Let_def by (rule refl)
  moreover have "Case_Validate H c =
     (if TrimSpace (t_TrajectoryID t) = [] then Some ErrMissingTrajectory
      else if TrimSpace (cd_ID cand) = [] then Some (ErrInvalidCase ''candidate id required'')
      else if t_StartedAt t = 0 then Some (ErrInvalidCase ''trajectory requires started_at'')
      else None)"
    using cid blank
    by (auto simp: Case_Validate_def base traj cnd)
  ultimately show ?thesis by simp
qed


section \<open>Outcomes\<close>

text \<open>What an outcome is read from does not depend on the identifiers that are drawn.\<close>

lemma outcome_event_draws:
  "outcome_event (Event_Normalized u n e) = outcome_event (Event_Normalized u' n' e)"
  by (rule ext) (simp add: outcome_event_def Event_Normalized_def)

lemma fold_outcome_draws:
  "fold outcome_event (map (\<lambda>(i, e). Event_Normalized (fst (dr i)) (snd (dr i)) e) (enumerate n evs)) o1 =
   fold outcome_event (map (\<lambda>(i, e). Event_Normalized (fst (dr' i)) (snd (dr' i)) e) (enumerate n evs)) o1"
proof (induction evs arbitrary: n o1)
  case (Cons e evs)
  then show ?case
    by (simp add: outcome_event_draws [of "fst (dr n)" "snd (dr n)" e "fst (dr' n)" "snd (dr' n)"])
qed simp

lemma outcome_draws: "outcomeFromTrajectory dr t evs = outcomeFromTrajectory dr' t evs"
  unfolding outcomeFromTrajectory_def normalized_events_def Let_def
    fold_outcome_draws [of dr 0 evs _ dr'] by (rule refl)

lemma outcome_invalid:
  "oc_Invalid (outcomeFromTrajectory dr t evs) \<longleftrightarrow>
     TrimSpace (t_TrajectoryID t) = [] \<or> t_StartedAt t = 0"
proof -
  have [simp]: "oc_Invalid (fold outcome_event es ou) = oc_Invalid ou" for es ou
    by (induction es arbitrary: ou) (simp_all add: outcome_event_def)
  show ?thesis
    using sanitized_valid [of t]
    by (auto simp: outcomeFromTrajectory_def Let_def normalizeOutcome_def no_outcome_def split: option.splits)
qed

lemma outcome_path:
  "set (oc_OperatorPath (outcomeFromTrajectory dr t evs)) = valid_operator ` set (t_OperatorPath t)"
proof -
  have [simp]: "oc_OperatorPath (fold outcome_event es ou) = oc_OperatorPath ou" for es ou
    by (induction es arbitrary: ou) (simp_all add: outcome_event_def)
  show ?thesis
    by (auto simp: outcomeFromTrajectory_def Let_def normalizeOutcome_def image_image split: option.splits)
qed

lemma note_if_Nil [simp]: "note_if b c m = [] \<longleftrightarrow> \<not> b"
  by (simp add: note_if_def)

lemma no_improvement_over_itself: "improvements_of ou ou = []"
  by (simp add: improvements_of_def)

text \<open>
  C31. What an accepted candidate guarantees. When the comparison ends in \<open>pass\<close> or
  \<open>improvement\<close>, baseline and candidate are both valid, a successful baseline has a successful
  candidate, every required operator is on the candidate's path and no forbidden one is, every
  required kind of event occurs and no forbidden one does, the candidate has at least as many references
  to validations and to receipts as the baseline (the code compares the numbers only, so they need not
  be the same references), the increase of the duration is within the bound that the case sets, if it
  sets one, and so is that of the cost, as the 64-bit difference that the code computes.
\<close>

theorem accepted_candidate:
  assumes "cmp_Verdict (Compare dr dr' c cand) \<in> {VerdictPass, VerdictImprovement}"
    and "base = outcomeFromTrajectory dr (ca_Baseline c) (ca_BaselineEvents c)"
    and "out = outcomeFromTrajectory dr' (co_Trajectory cand) (co_Events cand)"
    and "exps = ca_Expectations c"
  shows "\<not> oc_Invalid base \<and> \<not> oc_Invalid out \<and>
    (oc_HasSuccessSignal base \<and> oc_Success base \<longrightarrow> oc_HasSuccessSignal out \<and> oc_Success out) \<and>
    valid_operator ` set (ex_RequiredOperators exps) \<subseteq> valid_operator ` set (t_OperatorPath (co_Trajectory cand)) \<and>
    valid_operator ` set (ex_ForbiddenOperators exps) \<inter> valid_operator ` set (t_OperatorPath (co_Trajectory cand)) = {} \<and>
    set (normalizeKinds (ex_RequiredEventKinds exps)) \<subseteq> stringSet (oc_EventKinds out) \<and>
    set (normalizeKinds (ex_ForbiddenEventKinds exps)) \<inter> stringSet (oc_EventKinds out) = {} \<and>
    length (oc_ValidationRefs base) \<le> length (oc_ValidationRefs out) \<and>
    length (oc_ReceiptRefs base) \<le> length (oc_ReceiptRefs out) \<and>
    (0 < ex_MaxDurationIncreaseMS exps \<longrightarrow>
       oc_DurationMS out - oc_DurationMS base \<le> ex_MaxDurationIncreaseMS exps) \<and>
    (0 < ex_MaxCostIncreaseMicros exps \<longrightarrow>
       wrap64 (totalMicros (oc_CostSummary out) - totalMicros (oc_CostSummary base))
         \<le> ex_MaxCostIncreaseMicros exps)"
proof -
  have valid: "\<not> oc_Invalid base" "\<not> oc_Invalid out"
    and none: "regressions_of (Expectations_Normalized exps) base out = []"
    using assms(1) unfolding Compare_def Let_def assms(2-4) [symmetric]
    by (auto split: if_splits)
  have path: "set (oc_OperatorPath out) = valid_operator ` set (t_OperatorPath (co_Trajectory cand))"
    unfolding assms(3) by (rule outcome_path)
  have ops: "\<forall>op \<in> valid_operator ` set (ex_RequiredOperators exps). op \<in> set (oc_OperatorPath out)"
    "\<forall>op \<in> valid_operator ` set (ex_ForbiddenOperators exps). op \<notin> set (oc_OperatorPath out)"
    using none by (auto simp: regressions_of_def Expectations_Normalized_def)
  have kinds: "\<forall>k \<in> set (normalizeKinds (ex_RequiredEventKinds exps)). k \<in> stringSet (oc_EventKinds out)"
    "\<forall>k \<in> set (normalizeKinds (ex_ForbiddenEventKinds exps)). k \<notin> stringSet (oc_EventKinds out)"
    using none by (auto simp: regressions_of_def Expectations_Normalized_def)
  have rest: "oc_HasSuccessSignal base \<and> oc_Success base \<longrightarrow> oc_HasSuccessSignal out \<and> oc_Success out"
    "length (oc_ValidationRefs base) \<le> length (oc_ValidationRefs out)"
    "length (oc_ReceiptRefs base) \<le> length (oc_ReceiptRefs out)"
    "0 < ex_MaxDurationIncreaseMS exps \<longrightarrow>
       oc_DurationMS out - oc_DurationMS base \<le> ex_MaxDurationIncreaseMS exps"
    "0 < ex_MaxCostIncreaseMicros exps \<longrightarrow>
       wrap64 (totalMicros (oc_CostSummary out) - totalMicros (oc_CostSummary base))
         \<le> ex_MaxCostIncreaseMicros exps"
    using none by (auto simp: regressions_of_def Expectations_Normalized_def nonneg_def)
  show ?thesis using valid ops kinds rest unfolding path by blast
qed


text \<open>The case that the runner compares, when the evaluator returns the baseline itself.\<close>

lemma self_comparison:
  assumes "\<not> oc_Invalid (outcomeFromTrajectory dr (ca_Baseline c) (ca_BaselineEvents c))"
    and "out = outcomeFromTrajectory dr (ca_Baseline c) (ca_BaselineEvents c)"
  shows "Compare dr dr' c \<lparr>co_Trajectory = ca_Baseline c, co_Events = ca_BaselineEvents c\<rparr> =
    \<lparr>cmp_BaselineOutcome = out, cmp_CandidateOutcome = out,
     cmp_Regressions = regressions_of (Expectations_Normalized (ca_Expectations c)) out out,
     cmp_Improvements = [],
     cmp_Verdict = (if regressions_of (Expectations_Normalized (ca_Expectations c)) out out \<noteq> []
       then VerdictRegression else if oc_HasSuccessSignal out then VerdictPass else VerdictInconclusive)\<rparr>"
  using assms
  by (simp add: Compare_def Let_def outcome_draws [of dr' _ _ dr] no_improvement_over_itself)

lemma Case_valid_baseline:
  assumes "Case_Validate H c = None"
  shows "\<not> oc_Invalid (outcomeFromTrajectory dr (ca_Baseline c) evs)"
  using assms
  by (auto simp: Case_Validate_def outcome_invalid Trajectory_Validate_def IsZero_def
      split: if_splits option.splits)

lemma Case_valid_id:
  assumes "Case_Validate H c = None"
  shows "t_TrajectoryID (ca_Baseline c) \<noteq> []"
  using assms by (auto simp: Case_Validate_def split: if_splits)

lemma Expectations_none [simp]: "Expectations_Normalized no_expectations = no_expectations"
  by (simp add: Expectations_Normalized_def no_expectations_def normalizeOperators_def
      normalizeKinds_def clean_kinds_def nonneg_def)

lemma no_regression_against_itself: "regressions_of no_expectations ou ou = []"
  by (simp add: regressions_of_def no_expectations_def)

text \<open>
  Replaying a valid case with the default evaluator compares the baseline with itself: the run
  returns no error and no improvement, and without expectations no regression; the verdict is
  \<open>pass\<close> where the recorded status or outcome is a known word, and \<open>inconclusive\<close> otherwise.
\<close>

theorem baseline_replays_to_itself:
  assumes "Case_Validate H (Case_Normalized H dr c) = None"
    and "Runner_Run H dr None dr1 dr2 None started finished c = (res, err)"
  shows "err = None \<and> rr_Improvements res = [] \<and> rr_BaselineOutcome res = rr_CandidateOutcome res \<and>
    (ca_Expectations c = no_expectations \<longrightarrow>
       rr_Regressions res = [] \<and>
       rr_Verdict res = (if oc_HasSuccessSignal (rr_BaselineOutcome res) then VerdictPass
         else VerdictInconclusive))"
proof -
  let ?n = "Case_Normalized H dr c"
  have id: "t_TrajectoryID (ca_Baseline ?n) \<noteq> []"
    by (rule Case_valid_id [OF assms(1)])
  note cmp = self_comparison [OF Case_valid_baseline [OF assms(1)] refl, of dr1 dr2]
  have "(res, err) = Runner_Run H dr None dr1 dr2 None started finished c" using assms(2) by simp
  then show ?thesis
    using id by (simp add: Runner_Run_def Let_def assms(1) BaselineEvaluator_def cmp [simplified]
        no_regression_against_itself)
qed

text \<open>
  An evaluator that returns an empty outcome is judged by the baseline: for a case without
  baseline events the run ends exactly as if the baseline had been replayed, so a successful
  baseline gives \<open>pass\<close> to a candidate that produced nothing.
\<close>

theorem empty_candidate_counts_as_baseline:
  assumes "ca_BaselineEvents c = []" and "t_TrajectoryID (co_Trajectory out) = []" and "co_Events out = []"
  shows "Runner_Run H dr None dr1 dr2 (Some (StaticEvaluator out None)) started finished c =
    Runner_Run H dr None dr1 dr2 None started finished c"
proof -
  have "out\<lparr>co_Trajectory := b\<rparr> = \<lparr>co_Trajectory = b, co_Events = []\<rparr>" for b
    using assms(3) by (cases out) simp
  moreover have "ca_BaselineEvents (Case_Normalized H dr c) = []"
    by (simp add: assms(1) normalizeEvents_def normalized_events_def)
  ultimately show ?thesis
    using assms(2) by (simp add: Runner_Run_def Let_def StaticEvaluator_def BaselineEvaluator_def
        split: option.splits)
qed

text \<open>
  Repairs that are not events are counted on the sanitised path, which names an operator at most
  once: however often a trajectory repaired, the outcome says one.
\<close>

lemma outcome_repairs:
  "oc_RepairOperations (outcomeFromTrajectory dr t []) \<le> 1"
proof -
  have "count_repairs (normalizeOperators ops) \<le> 1" for ops
  proof -
    have "distinct (filter (\<lambda>op. op = ''repair'') (normalizeOperators ops))"
      by (intro distinct_filter distinct_normalizeOperators)
    moreover have "set (filter (\<lambda>op. op = ''repair'') (normalizeOperators ops)) \<subseteq> {''repair''}" by auto
    ultimately have "length (filter (\<lambda>op. op = ''repair'') (normalizeOperators ops)) \<le> 1"
      by (metis card.empty card.insert card_mono distinct_card finite.emptyI
          finite.insertI One_nat_def empty_iff)
    then show ?thesis by (simp add: count_repairs_def)
  qed
  then show ?thesis
    by (auto simp: outcomeFromTrajectory_def Let_def normalizeOutcome_def no_outcome_def
        normalized_events_def nonneg_def split: option.splits)
qed


section \<open>The store\<close>

text \<open>
  A saved case can be loaded again, normalised, under its own identifier, whatever was saved
  since under other identifiers; only a refused case leaves the store as it was. The identifier
  must not be longer than 128 bytes.
\<close>

theorem saved_case_is_loaded:
  assumes "Case_Validate H (Case_Normalized H dr c) = None"
    and "TrimSpace (ca_ID c) \<noteq> []" and "length (TrimSpace (ca_ID c)) \<le> 128"
    and "\<forall>x \<in> set later. Case_Validate H (Case_Normalized H dr x) = None \<longrightarrow>
      ca_ID (Case_Normalized H dr x) \<noteq> TrimSpace (ca_ID c)"
  shows "LoadCase H (ca_ID c) (fold (\<lambda>x s. snd (SaveCase H dr x s)) (c # later) s) =
    Inr (Case_Normalized H dr c)"
proof -
  have id: "ca_ID (Case_Normalized H dr c) = TrimSpace (ca_ID c)"
    using assms(2,3) by (auto simp: Case_Normalized_def Let_def rp_truncate_def)
  have "case_store.saved H dr (ca_ID c) c"
    using assms(1) id by (simp add: case_store.saved_def)
  moreover have "find (case_store.saved H dr (ca_ID c)) (rev later) = None"
    using assms(4) by (auto simp: find_None_iff case_store.saved_def)
  ultimately show ?thesis
    unfolding fold.simps comp_apply case_store.get_after_puts
    by (simp add: case_store.get_put)
qed


definition stored_result :: "Result \<Rightarrow> Result" where
  "stored_result r = r\<lparr>rr_CaseID := TrimSpace (rr_CaseID r),
     rr_BaselineOutcome := normalizeOutcome (rr_BaselineOutcome r),
     rr_CandidateOutcome := normalizeOutcome (rr_CandidateOutcome r)\<rparr>"

interpretation result_store: keyed_store SaveResult "LoadResult H"
  "\<lambda>r. if TrimSpace (rr_CaseID r) = [] then Some (ErrInvalidCase ''result case id required'') else None"
  "\<lambda>r. TrimSpace (rr_CaseID r)" stored_result for H
  by unfold_locales
    (auto simp: SaveResult_def LoadResult_def Let_def update_conv' stored_result_def
      split: if_splits option.splits)

text \<open>
  Unlike a case, a result is always found: its key is trimmed and never cut, so the last result
  saved for a case is what \<open>LoadResult\<close> returns, with both outcomes normalised.
\<close>

theorem last_result_is_loaded:
  assumes "TrimSpace (rr_CaseID r) \<noteq> []"
    and "\<forall>x \<in> set later. TrimSpace (rr_CaseID x) \<noteq> TrimSpace (rr_CaseID r)"
  shows "LoadResult H (rr_CaseID r) (fold (\<lambda>x s. snd (SaveResult x s)) (r # later) s) =
    Inr (stored_result r)"
proof -
  have "result_store.saved (rr_CaseID r) r" using assms(1) by (simp add: result_store.saved_def)
  moreover have "find (result_store.saved (rr_CaseID r)) (rev later) = None"
    using assms(2) by (auto simp: find_None_iff result_store.saved_def)
  ultimately show ?thesis
    unfolding fold.simps comp_apply result_store.get_after_puts
    by (simp add: result_store.get_put)
qed


section \<open>Witnesses\<close>

definition sample_draws :: draws where
  "sample_draws i = (''u'', 7)"

definition sample_case :: Case where
  "sample_case =
     \<lparr>ca_ID = ''case-1'', ca_Name = [], ca_TrajectoryID = ''t1'',
      ca_Baseline = no_trajectory\<lparr>t_TrajectoryID := ''t1'', t_StartedAt := 5, t_Status := ''passed'',
        t_OperatorPath := [''plan'', ''execute'']\<rparr>,
      ca_BaselineEvents = [],
      ca_Candidate = \<lparr>cd_ID = ''cand'', cd_Kind = ''policy'', cd_Version = [], cd_Description = [],
        cd_Metadata = []\<rparr>,
      ca_Expectations = no_expectations, ca_Metadata = []\<rparr>"

lemma sample_case_valid: "Case_Validate sample_codec (Case_Normalized sample_codec sample_draws sample_case) = None"
  by code_simp

lemma sample_signal:
  "successSignal (ToLower (TrimSpace (RedactString ''passed'' 64))) [] = Some True"
  by code_simp

lemma accepted_candidate_witness:
  "oc_Success (outcomeFromTrajectory sample_draws (ca_Baseline sample_case) [])"
proof -
  let ?cand = "\<lparr>co_Trajectory = ca_Baseline sample_case, co_Events = []\<rparr>"
  let ?out = "outcomeFromTrajectory sample_draws (ca_Baseline sample_case) []"
  have ok: "oc_HasSuccessSignal ?out \<and> oc_Success ?out" by code_simp
  have "cmp_Verdict (Compare sample_draws sample_draws sample_case ?cand) \<in> {VerdictPass, VerdictImprovement}"
    by code_simp
  from accepted_candidate [OF this refl refl refl] ok
  show ?thesis by (simp add: sample_case_def)
qed

lemma baseline_replays_to_itself_witness:
  "rr_Verdict (fst (Runner_Run sample_codec sample_draws None sample_draws sample_draws None 1 2 sample_case))
     \<noteq> VerdictRegression"
proof -
  obtain res err where run: "Runner_Run sample_codec sample_draws None sample_draws sample_draws None 1 2 sample_case
      = (res, err)" by fastforce
  from baseline_replays_to_itself [OF sample_case_valid run] run show ?thesis
    by (auto simp: sample_case_def)
qed

lemma empty_candidate_counts_as_baseline_witness:
  "Runner_Run sample_codec sample_draws None sample_draws sample_draws
     (Some (StaticEvaluator \<lparr>co_Trajectory = no_trajectory, co_Events = []\<rparr> None)) 1 2 sample_case =
   Runner_Run sample_codec sample_draws None sample_draws sample_draws None 1 2 sample_case"
  by (rule empty_candidate_counts_as_baseline) (simp_all add: sample_case_def no_trajectory_def)

lemma saved_case_is_loaded_witness:
  "LoadCase sample_codec ''case-1'' (snd (SaveCase sample_codec sample_draws sample_case NewReplayStore)) =
     Inr (Case_Normalized sample_codec sample_draws sample_case)"
proof -
  have "TrimSpace ''case-1'' = ''case-1''" by code_simp
  then show ?thesis
    using saved_case_is_loaded [of sample_codec sample_draws sample_case "[]" NewReplayStore] sample_case_valid
    by (simp add: sample_case_def)
qed

lemma last_result_is_loaded_witness:
  "\<exists>r s. LoadResult sample_codec ''x'' s = Inr r"
proof -
  have "TrimSpace ''x'' = ''x''" by code_simp
  then show ?thesis
    using last_result_is_loaded [of "(stopped_result sample_case VerdictPass ([], []) 1 2)\<lparr>rr_CaseID := ''x''\<rparr>"
        "[]" sample_codec NewReplayStore] by auto
qed

end
