(* ===== verification/Harness.thy ===== *)
theory Harness
  imports Trajectory SelfmodValidator
begin

text \<open>
  The validation harness of \<open>pkg/harness\<close>: artifacts, assertions and their evaluation, reports.
  Regular expressions are a parameter: \<open>compile\<close> gives the text of an error or the matcher.
  The named string types are strings, as every operation normalises them. An artifact is the
  record that the self-modification validator builds (theory SelfmodValidator).
\<close>

type_synonym regex = "string \<Rightarrow> string + (string \<Rightarrow> bool)"

section \<open>Errors and bounded lists\<close>

datatype HarnessError =
    ErrInvalidArtifact string
  | ErrInvalidAssertion string
  | ErrDuplicateAssertion string
  | ErrUnsupportedAssertion string
  | ErrArtifactTooLarge string
  | ErrTooManyAssertions string
  | ErrInvalidHarnessDocument string
  | ErrHarnessRuntimeDisabled
  | ErrHarnessAuditUnavailable
  | ErrHarnessAuditFailed

definition harness_error_text :: "HarnessError \<Rightarrow> string" where
  "harness_error_text e =
     (case e of
        ErrInvalidArtifact s \<Rightarrow> ''harness: invalid artifact: '' @ s
      | ErrInvalidAssertion s \<Rightarrow> ''harness: invalid assertion: '' @ s
      | ErrDuplicateAssertion s \<Rightarrow> ''harness: duplicate assertion: '' @ s
      | ErrUnsupportedAssertion s \<Rightarrow> ''harness: unsupported assertion: '' @ s
      | ErrArtifactTooLarge s \<Rightarrow> ''harness: artifact too large: '' @ s
      | ErrTooManyAssertions s \<Rightarrow> ''harness: too many assertions: '' @ s
      | ErrInvalidHarnessDocument s \<Rightarrow> ''harness: invalid harness document: '' @ s
      | ErrHarnessRuntimeDisabled \<Rightarrow> ''harness: runtime disabled''
      | ErrHarnessAuditUnavailable \<Rightarrow> ''harness: audit unavailable''
      | ErrHarnessAuditFailed \<Rightarrow> ''harness: audit failed'')"

definition hn_boundStringList :: "string list \<Rightarrow> nat \<Rightarrow> int \<Rightarrow> string list" where
  "hn_boundStringList xs maxItems maxLen =
     filter (\<lambda>x. x \<noteq> []) (map (\<lambda>x. truncateString (TrimSpace x) maxLen)
       (if 0 < maxItems \<and> maxItems < length xs then take maxItems xs else xs))"

section \<open>Artifacts\<close>

definition validArtifactKinds :: "string list" where
  "validArtifactKinds = [''unknown'', ''text'', ''command'', ''file_path'', ''file_patch'',
     ''tool_call'', ''research_claim'', ''provider_response'', ''selfmod_manifest'',
     ''replay_result'']"

text \<open>
  The references are rewritten in place, so the caller's slice changes as well; the value
  returned is this one.
\<close>

definition Artifact_Normalized :: "Codec \<Rightarrow> Artifact \<Rightarrow> Artifact" where
  "Artifact_Normalized H a =
     (let contentHash = truncateString (TrimSpace (at_ContentHash a)) 128
      in a\<lparr>at_ID := truncateString (TrimSpace (at_ID a)) 128,
           at_Name := truncateString (TrimSpace (at_Name a)) 128,
           at_Kind := one_of validArtifactKinds ''unknown'' (at_Kind a),
           at_Refs := map (\<lambda>r. NewRef (r_Kind r) (r_Ref r) (r_Hash r) (r_SizeBytes r))
             (take 64 (at_Refs a)),
           at_Metadata := BoundMetadata (at_Metadata a),
           at_ContentHash := (if contentHash = [] \<and> TrimSpace (at_Content a) \<noteq> []
             then StableHash H [at_Content a] else contentHash)\<rparr>)"

definition Artifact_Validate :: "Codec \<Rightarrow> Artifact \<Rightarrow> HarnessError option" where
  "Artifact_Validate H a =
     (let norm = Artifact_Normalized H a
      in if at_ID norm = [] then Some (ErrInvalidArtifact ''id is required'')
         else if at_Kind norm \<notin> set validArtifactKinds
         then Some (ErrInvalidArtifact (''invalid kind '' @ c_Quote H (at_Kind norm)))
         else if length (at_Content norm) > 65536
         then Some (ErrArtifactTooLarge (itoa (length (at_Content norm)) @ '' > '' @ itoa 65536))
         else None)"

definition PrimaryScope :: "Codec \<Rightarrow> Artifact \<Rightarrow> string" where
  "PrimaryScope H a =
     (let norm = Artifact_Normalized H a
      in if at_Name norm \<noteq> [] then ToLower (at_Name norm) else at_Kind norm)"

section \<open>Assertions\<close>

record Assertion =
  an_ID :: string
  an_Scope :: string
  an_Severity :: string
  an_Type :: string
  an_Condition :: string
  an_Message :: string
  an_Remediation :: "string list"
  an_Owner :: string
  an_Version :: string
  an_Golden :: "string list"
  an_Poisoned :: "string list"
  an_Metadata :: metadata

definition validSeverities :: "string list" where
  "validSeverities = [''info'', ''warn'', ''hard_fail'']"

definition validAssertionTypes :: "string list" where
  "validAssertionTypes = [''regex_forbid'', ''regex_require'', ''string_forbid'',
     ''string_require'', ''max_length'', ''required_metadata'', ''forbidden_metadata_key'']"

definition normalizeMetadataKey :: "string \<Rightarrow> string" where
  "normalizeMetadataKey raw =
     (let key = ToLower (TrimSpace raw);
          key = ReplaceAll ''-'' ''_'' key;
          key = ReplaceAll '' '' ''_'' key
      in trim_char (CHR ''_'') (collapse_underscores key))"

definition Assertion_Normalized :: "Assertion \<Rightarrow> Assertion" where
  "Assertion_Normalized a =
     \<lparr>an_ID = truncateString (TrimSpace (an_ID a)) 128,
      an_Scope = ToLower (truncateString (TrimSpace (an_Scope a)) 128),
      an_Severity = ToLower (TrimSpace (an_Severity a)),
      an_Type = ToLower (TrimSpace (an_Type a)),
      an_Condition = truncateString (TrimSpace (an_Condition a)) 2048,
      an_Message = truncateString (TrimSpace (an_Message a)) 256,
      an_Remediation = hn_boundStringList (an_Remediation a) 16 256,
      an_Owner = truncateString (TrimSpace (an_Owner a)) 64,
      an_Version = truncateString (TrimSpace (an_Version a)) 32,
      an_Golden = hn_boundStringList (an_Golden a) 32 4096,
      an_Poisoned = hn_boundStringList (an_Poisoned a) 32 4096,
      an_Metadata = BoundMetadata (an_Metadata a)\<rparr>"

text \<open>The last switch of \<open>Validate\<close>: what the condition must be for the type.\<close>

definition condition_error :: "Codec \<Rightarrow> regex \<Rightarrow> Assertion \<Rightarrow> HarnessError option" where
  "condition_error H re a =
     (if an_Type a = ''regex_forbid'' \<or> an_Type a = ''regex_require'' then
        (case re (an_Condition a) of
           Inl err \<Rightarrow> Some (ErrInvalidAssertion
             (''invalid regex for '' @ c_Quote H (an_ID a) @ '': '' @ err))
         | Inr m \<Rightarrow> None)
      else if an_Type a = ''max_length'' then
        (case Atoi (an_Condition a) of
           Some n \<Rightarrow> (if n < 0 then Some (ErrInvalidAssertion
             ''max_length condition must be a non-negative integer'') else None)
         | None \<Rightarrow> Some (ErrInvalidAssertion ''max_length condition must be a non-negative integer''))
      else if an_Type a = ''required_metadata'' \<or> an_Type a = ''forbidden_metadata_key'' then
        (if normalizeMetadataKey (an_Condition a) = []
         then Some (ErrInvalidAssertion ''metadata key condition is required'') else None)
      else None)"

definition Assertion_Validate :: "Codec \<Rightarrow> regex \<Rightarrow> Assertion \<Rightarrow> HarnessError option" where
  "Assertion_Validate H re a =
     (let norm = Assertion_Normalized a
      in if an_ID norm = [] then Some (ErrInvalidAssertion ''id is required'')
         else if an_Scope norm = [] then Some (ErrInvalidAssertion ''scope is required'')
         else if an_Severity norm \<notin> set validSeverities
         then Some (ErrInvalidAssertion (''invalid severity '' @ c_Quote H (an_Severity norm)))
         else if an_Type norm \<notin> set validAssertionTypes
         then Some (ErrUnsupportedAssertion (c_Quote H (an_Type norm)))
         else if an_Condition norm = [] then Some (ErrInvalidAssertion ''condition is required'')
         else condition_error H re norm)"

section \<open>Evaluation\<close>

text \<open>A piece of evidence: its kind and its value.\<close>

type_synonym evidence = "string \<times> string"

record HResult =
  hs_AssertionID :: string
  hs_Status :: string
  hs_Severity :: string
  hs_Message :: string
  hs_Evidence :: "evidence list"
  hs_Remediation :: "string list"
  hs_ReasonCode :: string

definition invalidResult :: "HResult \<Rightarrow> string \<Rightarrow> string \<Rightarrow> HResult" where
  "invalidResult r reasonCode detail =
     r\<lparr>hs_Status := ''invalid'', hs_ReasonCode := reasonCode, hs_Evidence := [(''error'', detail)]\<rparr>"

definition failedResult :: "HResult \<Rightarrow> string \<Rightarrow> string \<Rightarrow> HResult" where
  "failedResult r reasonCode detail =
     r\<lparr>hs_Status := (if hs_Severity r = ''hard_fail'' then ''fail'' else ''warn''),
       hs_ReasonCode := reasonCode, hs_Evidence := [(''check'', detail)]\<rparr>"

text \<open>The loop over a metadata map: a later key with the same normal form overwrites.\<close>

definition normalizedMetadata :: "metadata \<Rightarrow> metadata" where
  "normalizedMetadata meta =
     fold (\<lambda>(k, v) out. if normalizeMetadataKey k = [] then out
       else AList.update (normalizeMetadataKey k) v out) meta []"

text \<open>A check that holds, and one that does not.\<close>

definition passed_with :: "HResult \<Rightarrow> string \<Rightarrow> string \<Rightarrow> HResult" where
  "passed_with r kind value = r\<lparr>hs_Evidence := [(kind, value)]\<rparr>"

definition evaluate_regex :: "regex \<Rightarrow> Artifact \<Rightarrow> Assertion \<Rightarrow> HResult \<Rightarrow> HResult" where
  "evaluate_regex re artifact assertion result =
     (case re (an_Condition assertion) of
        Inl err \<Rightarrow> invalidResult result ''invalid_regex'' err
      | Inr matches \<Rightarrow>
          (if an_Type assertion = ''regex_forbid''
           then (if matches (at_Content artifact)
                 then failedResult result ''regex_forbidden_match'' ''forbidden regex matched''
                 else passed_with result ''regex'' ''forbidden pattern not present'')
           else (if \<not> matches (at_Content artifact)
                 then failedResult result ''regex_required_missing'' ''required regex did not match''
                 else passed_with result ''regex'' ''required pattern present'')))"

definition evaluate_length :: "Artifact \<Rightarrow> Assertion \<Rightarrow> HResult \<Rightarrow> HResult" where
  "evaluate_length artifact assertion result =
     (let n = length (at_Content artifact)
      in case Atoi (an_Condition assertion) of
        None \<Rightarrow> invalidResult result ''invalid_max_length'' ''condition must be a non-negative integer''
      | Some maxLen \<Rightarrow>
          (if maxLen < 0
           then invalidResult result ''invalid_max_length'' ''condition must be a non-negative integer''
           else if int n > maxLen
           then failedResult result ''max_length_exceeded''
             (''content length '' @ itoa n @ '' exceeds max '' @ FormatInt maxLen)
           else passed_with result ''length'' (itoa n @ '' <= '' @ FormatInt maxLen)))"

definition evaluate_metadata :: "Artifact \<Rightarrow> Assertion \<Rightarrow> HResult \<Rightarrow> HResult" where
  "evaluate_metadata artifact assertion result =
     (let key = normalizeMetadataKey (an_Condition assertion);
          present = (map_of (normalizedMetadata (at_Metadata artifact)) key \<noteq> None)
      in if an_Type assertion = ''required_metadata'' then
           (if key = [] then invalidResult result ''invalid_metadata_key'' ''required metadata key missing''
            else if \<not> present
            then failedResult result ''required_metadata_missing'' ''required metadata key missing''
            else passed_with result ''metadata'' ''required metadata key present'')
         else
           (if key = [] then invalidResult result ''invalid_metadata_key'' ''forbidden metadata key missing''
            else if present
            then failedResult result ''forbidden_metadata_present'' ''forbidden metadata key present''
            else passed_with result ''metadata'' ''forbidden metadata key not present''))"

definition evaluateAssertion :: "regex \<Rightarrow> Artifact \<Rightarrow> Assertion \<Rightarrow> HResult" where
  "evaluateAssertion re artifact assertion =
     (let result =
            \<lparr>hs_AssertionID = an_ID assertion, hs_Status = ''pass'',
             hs_Severity = an_Severity assertion,
             hs_Message = (if an_Message assertion = [] then ''assertion '' @ an_ID assertion @ '' failed''
               else an_Message assertion),
             hs_Evidence = [], hs_Remediation = an_Remediation assertion, hs_ReasonCode = []\<rparr>;
          type = an_Type assertion
      in if type = ''regex_forbid'' \<or> type = ''regex_require''
         then evaluate_regex re artifact assertion result
         else if type = ''string_forbid'' then
           (if sublist (an_Condition assertion) (at_Content artifact)
            then failedResult result ''string_forbidden_match'' ''forbidden string present''
            else passed_with result ''string'' ''forbidden string not present'')
         else if type = ''string_require'' then
           (if \<not> sublist (an_Condition assertion) (at_Content artifact)
            then failedResult result ''string_required_missing'' ''required string missing''
            else passed_with result ''string'' ''required string present'')
         else if type = ''max_length'' then evaluate_length artifact assertion result
         else if type = ''required_metadata'' \<or> type = ''forbidden_metadata_key''
         then evaluate_metadata artifact assertion result
         else result\<lparr>hs_Status := ''unsupported'', hs_ReasonCode := ''unsupported_assertion'',
           hs_Evidence := [(''assertion_type'', type)]\<rparr>)"

text \<open>The two loops over the fixtures: the error of the first fixture that misbehaves.\<close>

definition fixture_artifact :: "string \<Rightarrow> nat \<Rightarrow> string \<Rightarrow> Artifact" where
  "fixture_artifact name i content =
     \<lparr>at_ID = name @ itoa i, at_Kind = ''text'', at_Name = [], at_Content = content,
      at_ContentHash = [], at_Refs = [], at_Metadata = []\<rparr>"

fun golden_loop :: "regex \<Rightarrow> Assertion \<Rightarrow> nat \<Rightarrow> string list \<Rightarrow> HarnessError option" where
  "golden_loop re a i [] = None"
| "golden_loop re a i (g # gs) =
     (let st = hs_Status (evaluateAssertion re (fixture_artifact ''fixture-golden-'' i g) a)
      in if st \<noteq> ''pass''
         then Some (ErrInvalidAssertion (''golden fixture '' @ itoa i @ '' did not pass ('' @ st @ '')''))
         else golden_loop re a (Suc i) gs)"

fun poisoned_loop :: "regex \<Rightarrow> Assertion \<Rightarrow> nat \<Rightarrow> string list \<Rightarrow> HarnessError option" where
  "poisoned_loop re a i [] = None"
| "poisoned_loop re a i (p # ps) =
     (let st = hs_Status (evaluateAssertion re (fixture_artifact ''fixture-poisoned-'' i p) a)
      in if st = ''pass''
         then Some (ErrInvalidAssertion (''poisoned fixture '' @ itoa i @ '' unexpectedly passed''))
         else if an_Severity a = ''hard_fail'' \<and> st \<noteq> ''fail''
         then Some (ErrInvalidAssertion (''poisoned fixture '' @ itoa i @ '' expected fail, got '' @ st))
         else if an_Severity a \<noteq> ''hard_fail'' \<and> st \<noteq> ''warn''
         then Some (ErrInvalidAssertion (''poisoned fixture '' @ itoa i @ '' expected warn, got '' @ st))
         else poisoned_loop re a (Suc i) ps)"

definition ValidateAssertionFixtures :: "Codec \<Rightarrow> regex \<Rightarrow> Assertion \<Rightarrow> HarnessError option" where
  "ValidateAssertionFixtures H re assertion =
     (let norm = Assertion_Normalized assertion
      in case Assertion_Validate H re norm of
        Some e \<Rightarrow> Some e
      | None \<Rightarrow>
          (case golden_loop re norm 0 (an_Golden norm) of
             Some e \<Rightarrow> Some e
           | None \<Rightarrow> poisoned_loop re norm 0 (an_Poisoned norm)))"

section \<open>Reports\<close>

record HReport =
  hp_HarnessID :: string
  hp_ArtifactID :: string
  hp_Status :: string
  hp_Results :: "HResult list"
  hp_Evidence :: "evidence list"
  hp_ErrorTrace :: string
  hp_Remediation :: "string list"
  hp_StartedAt :: instant
  hp_FinishedAt :: instant
  hp_Duration :: duration
  hp_Metadata :: metadata

definition NewReport :: "instant \<Rightarrow> string \<Rightarrow> string \<Rightarrow> HReport" where
  "NewReport now harnessID artifactID =
     \<lparr>hp_HarnessID = truncateString (TrimSpace harnessID) 128,
      hp_ArtifactID = truncateString (TrimSpace artifactID) 128, hp_Status = ''inconclusive'',
      hp_Results = [], hp_Evidence = [], hp_ErrorTrace = [], hp_Remediation = [],
      hp_StartedAt = now, hp_FinishedAt = now, hp_Duration = 0, hp_Metadata = []\<rparr>"

definition boundEvidence :: "evidence list \<Rightarrow> evidence list" where
  "boundEvidence es =
     filter (\<lambda>(k, v). v \<noteq> [])
       (map (\<lambda>(k, v). (truncateString (TrimSpace k) 32, truncateString (TrimSpace v) 256)) (take 32 es))"

definition bound_result :: "HResult \<Rightarrow> HResult" where
  "bound_result r =
     r\<lparr>hs_AssertionID := truncateString (TrimSpace (hs_AssertionID r)) 128,
       hs_Message := truncateString (TrimSpace (hs_Message r)) 256,
       hs_ReasonCode := truncateString (TrimSpace (hs_ReasonCode r)) 128,
       hs_Evidence := boundEvidence (hs_Evidence r),
       hs_Remediation := hn_boundStringList (hs_Remediation r) 16 256\<rparr>"

text \<open>Results with the same assertion and reason keep their order here; Go leaves it open.\<close>

definition boundResults :: "HResult list \<Rightarrow> HResult list" where
  "boundResults rs = sort_key (\<lambda>r. (hs_AssertionID r, hs_ReasonCode r)) (map bound_result rs)"

definition HReport_Normalized :: "instant \<Rightarrow> HReport \<Rightarrow> HReport" where
  "HReport_Normalized now r =
     (let startedAt = (if IsZero (hp_StartedAt r) then now else hp_StartedAt r);
          finishedAt = (if IsZero (hp_FinishedAt r) \<or> hp_FinishedAt r < startedAt then startedAt
                        else hp_FinishedAt r)
      in r\<lparr>hp_HarnessID := truncateString (TrimSpace (hp_HarnessID r)) 128,
           hp_ArtifactID := truncateString (TrimSpace (hp_ArtifactID r)) 128,
           hp_ErrorTrace := truncateString (TrimSpace (hp_ErrorTrace r)) 2048,
           hp_Metadata := BoundMetadata (hp_Metadata r),
           hp_Evidence := boundEvidence (hp_Evidence r),
           hp_Remediation := hn_boundStringList (hp_Remediation r) 32 256,
           hp_Results := boundResults (hp_Results r),
           hp_StartedAt := startedAt, hp_FinishedAt := finishedAt,
           hp_Duration := nonneg (time_Sub finishedAt startedAt)\<rparr>)"

definition StableID :: "Codec \<Rightarrow> instant \<Rightarrow> HReport \<Rightarrow> string" where
  "StableID H now r =
     (let norm = HReport_Normalized now r
      in StableHash H ([hp_HarnessID norm, hp_ArtifactID norm, hp_Status norm] @
           concat (map (\<lambda>x. [hs_AssertionID x, hs_Status x, hs_ReasonCode x]) (hp_Results norm))))"

definition ValidationRef :: "Codec \<Rightarrow> instant \<Rightarrow> HReport \<Rightarrow> Ref" where
  "ValidationRef H now r =
     (let norm = HReport_Normalized now r
      in NewRef ''harness_report'' (''harness:'' @ StableID H now norm) (StableID H now norm)
           (int (length (hp_Results norm))))"

text \<open>\<open>mode\<close> is the normalised mode, \<open>audit\<close> or \<open>off\<close>.\<close>

definition Harness_ParseMode :: "string \<Rightarrow> string" where
  "Harness_ParseMode raw = (if ToLower (TrimSpace raw) = ''audit'' then ''audit'' else ''off'')"

definition SummarizeReport :: "Codec \<Rightarrow> instant \<Rightarrow> string \<Rightarrow> HReport \<Rightarrow> AuditSummary" where
  "SummarizeReport H now mode report =
     (let norm = HReport_Normalized now report;
          count = (\<lambda>P. int (length (filter (\<lambda>r. P (hs_Status r)) (hp_Results norm))))
      in \<lparr>as_Mode = Harness_ParseMode mode, as_Status = hp_Status norm,
          as_ReportID = truncateString (StableID H now norm) 128,
          as_HarnessID = truncateString (hp_HarnessID norm) 128,
          as_ArtifactID = truncateString (hp_ArtifactID norm) 128,
          as_FailedCount = count (\<lambda>s. s = ''fail'' \<or> s = ''invalid''),
          as_WarnCount = count (\<lambda>s. s = ''warn''),
          as_DurationMS = nonneg (Milliseconds (hp_Duration norm))\<rparr>)"

end
