(* ===== verification/HarnessRegistry.thy ===== *)
theory HarnessRegistry
  imports Harness
begin

text \<open>
  The registry of assertions (\<open>registry.go\<close>), the runtime wrapper (\<open>runtime.go\<close>) and the loader
  (\<open>loader.go\<close>) of \<open>pkg/harness\<close>. Every method holds the registry's mutex where it reads or
  writes it. \<open>NewRegistry\<close> takes options that may be nil (\<open>None\<close>). The context is a function that
  gives, before the evaluation of the assertion at an index, the text of the context's error or
  \<open>None\<close>. \<open>yaml.v3\<close> is a parameter that decodes a document into assertions.
\<close>

section \<open>Registry\<close>

record RegistryConfig =
  cfg_harnessID :: string
  cfg_maxAssertions :: int
  cfg_failClosedUnsupported :: bool

type_synonym option_fun = "RegistryConfig \<Rightarrow> RegistryConfig"

definition WithHarnessID :: "string \<Rightarrow> option_fun" where
  "WithHarnessID hid cfg = cfg\<lparr>cfg_harnessID := truncateString (TrimSpace hid) 128\<rparr>"

definition WithMaxAssertions :: "int \<Rightarrow> option_fun" where
  "WithMaxAssertions n cfg = cfg\<lparr>cfg_maxAssertions := n\<rparr>"

definition WithFailClosedUnsupported :: "bool \<Rightarrow> option_fun" where
  "WithFailClosedUnsupported enabled cfg = cfg\<lparr>cfg_failClosedUnsupported := enabled\<rparr>"

record Registry =
  hr_byID :: "(string \<times> Assertion) list"
  hr_sortedIDs :: "string list"
  hr_harnessID :: string
  hr_maxEntries :: int
  hr_failClosed :: bool

definition NewRegistry :: "option_fun option list \<Rightarrow> Registry" where
  "NewRegistry opts =
     (let cfg = fold (\<lambda>opt cfg. case opt of None \<Rightarrow> cfg | Some f \<Rightarrow> f cfg) opts
            \<lparr>cfg_harnessID = ''harness.default'', cfg_maxAssertions = 256,
             cfg_failClosedUnsupported = True\<rparr>
      in \<lparr>hr_byID = [], hr_sortedIDs = [],
          hr_harnessID = (if cfg_harnessID cfg = [] then ''harness.default'' else cfg_harnessID cfg),
          hr_maxEntries = (if cfg_maxAssertions cfg \<le> 0 then 256 else cfg_maxAssertions cfg),
          hr_failClosed = cfg_failClosedUnsupported cfg\<rparr>)"

definition rebuildSortedIDs :: "(string \<times> Assertion) list \<Rightarrow> string list" where
  "rebuildSortedIDs byID = sort (map fst byID)"

text \<open>The loop over the new assertions, with the copy of the table built so far.\<close>

fun register_loop ::
    "Codec \<Rightarrow> regex \<Rightarrow> (string \<times> Assertion) list \<Rightarrow> Assertion list \<Rightarrow>
     HarnessError + (string \<times> Assertion) list"
where
  "register_loop H re next [] = Inr next"
| "register_loop H re next (a # rest) =
     (let norm = Assertion_Normalized a
      in case Assertion_Validate H re norm of
        Some e \<Rightarrow> Inl e
      | None \<Rightarrow>
          (if map_of next (an_ID norm) \<noteq> None then Inl (ErrDuplicateAssertion (an_ID norm))
           else register_loop H re (AList.update (an_ID norm) norm next) rest))"

definition RegisterMany ::
    "Codec \<Rightarrow> regex \<Rightarrow> Assertion list \<Rightarrow> Registry \<Rightarrow> HarnessError option \<times> Registry"
where
  "RegisterMany H re assertions r =
     (let n = int (length (hr_byID r)) + int (length assertions)
      in if assertions = [] then (None, r)
         else if n > hr_maxEntries r
         then (Some (ErrTooManyAssertions (FormatInt n @ '' > '' @ FormatInt (hr_maxEntries r))), r)
         else case register_loop H re (hr_byID r) assertions of
           Inl e \<Rightarrow> (Some e, r)
         | Inr next \<Rightarrow> (None, r\<lparr>hr_byID := next, hr_sortedIDs := rebuildSortedIDs next\<rparr>))"

definition Register :: "Codec \<Rightarrow> regex \<Rightarrow> Assertion \<Rightarrow> Registry \<Rightarrow> HarnessError option \<times> Registry" where
  "Register H re assertion r = RegisterMany H re [assertion] r"

text \<open>The zero value, which a lookup of a missing identifier gives.\<close>

definition no_assertion :: Assertion where
  "no_assertion =
     \<lparr>an_ID = [], an_Scope = [], an_Severity = [], an_Type = [], an_Condition = [], an_Message = [],
      an_Remediation = [], an_Owner = [], an_Version = [], an_Golden = [], an_Poisoned = [],
      an_Metadata = []\<rparr>"

definition by_id :: "Registry \<Rightarrow> string \<Rightarrow> Assertion" where
  "by_id r i = (case map_of (hr_byID r) i of Some a \<Rightarrow> a | None \<Rightarrow> no_assertion)"

definition Registry_List :: "Registry \<Rightarrow> Assertion list" where
  "Registry_List r = map (by_id r) (hr_sortedIDs r)"

definition Registry_Find :: "string \<Rightarrow> Registry \<Rightarrow> Assertion list" where
  "Registry_Find scope r =
     (let s = ToLower (TrimSpace scope)
      in if s = [] then []
         else filter (\<lambda>a. EqualFold (an_Scope a) s) (map (by_id r) (hr_sortedIDs r)))"

definition selectAssertions :: "Codec \<Rightarrow> Artifact \<Rightarrow> Registry \<Rightarrow> Assertion list" where
  "selectAssertions H artifact r =
     (let primary = PrimaryScope H artifact;
          kindScope = ToLower (at_Kind artifact)
      in filter (\<lambda>a. let scope = ToLower (TrimSpace (an_Scope a))
                     in scope = ''*'' \<or> scope = primary \<or> scope = kindScope)
           (map (by_id r) (hr_sortedIDs r)))"

section \<open>Validation of an artifact\<close>

definition aggregateStatus :: "string \<Rightarrow> string \<Rightarrow> string" where
  "aggregateStatus current next =
     (if next = ''fail'' then ''fail''
      else if next = ''invalid'' then (if current \<noteq> ''fail'' then ''invalid'' else current)
      else if next = ''warn''
      then (if current \<noteq> ''fail'' \<and> current \<noteq> ''invalid'' then ''warn'' else current)
      else if next = ''unsupported''
      then (if current = ''pass'' \<or> current = ''inconclusive'' then ''unsupported'' else current)
      else current)"

definition reasonCodeForError :: "HarnessError \<Rightarrow> string" where
  "reasonCodeForError e =
     (if sublist ''harness: artifact too large'' (harness_error_text e) then ''artifact_too_large''
      else if sublist ''harness: invalid artifact'' (harness_error_text e) then ''invalid_artifact''
      else ''validation_error'')"

definition statusForError :: "HarnessError \<Rightarrow> string" where
  "statusForError e =
     (if sublist ''harness: artifact too large'' (harness_error_text e) then ''fail'' else ''invalid'')"

definition close_unsupported :: "bool \<Rightarrow> HResult \<Rightarrow> HResult" where
  "close_unsupported closed result =
     (if hs_Status result = ''unsupported'' \<and> closed
      then result\<lparr>hs_Status := ''fail'', hs_Severity := ''hard_fail'',
        hs_ReasonCode := ''unsupported_assertion_fail_closed'',
        hs_Message := ''unsupported assertion type in fail-closed mode''\<rparr>
      else result)"

fun validate_loop ::
    "regex \<Rightarrow> (nat \<Rightarrow> string option) \<Rightarrow> bool \<Rightarrow> Artifact \<Rightarrow> nat \<Rightarrow> Assertion list \<Rightarrow> HReport \<Rightarrow> HReport"
where
  "validate_loop re ctx closed artifact i [] report = report"
| "validate_loop re ctx closed artifact i (a # rest) report =
     (case ctx i of
        Some err \<Rightarrow> report\<lparr>hp_Status := ''inconclusive'', hp_ErrorTrace := truncateString err 256\<rparr>
      | None \<Rightarrow>
          (let result = close_unsupported closed (evaluateAssertion re artifact a)
           in validate_loop re ctx closed artifact (Suc i) rest
                (report\<lparr>hp_Results := hp_Results report @ [result],
                  hp_Remediation := hp_Remediation report @ hs_Remediation result,
                  hp_Evidence := hp_Evidence report @ hs_Evidence result,
                  hp_Status := aggregateStatus (hp_Status report) (hs_Status result)\<rparr>)))"

definition finish_report :: "instant \<Rightarrow> instant \<Rightarrow> HReport \<Rightarrow> HReport" where
  "finish_report started finished report =
     HReport_Normalized finished
       (report\<lparr>hp_FinishedAt := finished, hp_Duration := time_Sub finished started\<rparr>)"

definition Registry_Validate ::
    "Codec \<Rightarrow> regex \<Rightarrow> (nat \<Rightarrow> string option) \<Rightarrow> instant \<Rightarrow> instant \<Rightarrow> Artifact \<Rightarrow> Registry \<Rightarrow> HReport"
where
  "Registry_Validate H re ctx started finished artifact r =
     (let report = NewReport started (hr_harnessID r) (at_ID artifact);
          norm = Artifact_Normalized H artifact
      in case Artifact_Validate H norm of
        Some err \<Rightarrow>
          finish_report started finished
            (report\<lparr>hp_Status := ''invalid'', hp_ErrorTrace := harness_error_text err,
              hp_Results :=
                [\<lparr>hs_AssertionID = [], hs_Status = statusForError err, hs_Severity = ''hard_fail'',
                  hs_Message = ''artifact validation failed'',
                  hs_Evidence = [(''error'', harness_error_text err)], hs_Remediation = [],
                  hs_ReasonCode = reasonCodeForError err\<rparr>]\<rparr>)
      | None \<Rightarrow>
          (let assertions = selectAssertions H norm r
           in if assertions = []
              then finish_report started finished (report\<lparr>hp_Status := ''inconclusive''\<rparr>)
              else finish_report started finished
                (validate_loop re ctx (hr_failClosed r) norm 0 assertions
                  (report\<lparr>hp_Status := ''pass''\<rparr>))))"

section \<open>Runtime\<close>

record Runtime =
  hx_mode :: string
  hx_Registry :: "Registry option"

definition NewRuntime :: "string \<Rightarrow> Registry option \<Rightarrow> Runtime" where
  "NewRuntime mode registry = \<lparr>hx_mode = Harness_ParseMode mode, hx_Registry = registry\<rparr>"

text \<open>The value of \<open>GORKBOT_HARNESS_MODE\<close> is an argument.\<close>

definition NewRuntimeFromEnv :: "string \<Rightarrow> Runtime" where
  "NewRuntimeFromEnv env = NewRuntime (Harness_ParseMode env) None"

text \<open>A nil runtime is \<open>None\<close>.\<close>

definition Runtime_Enabled :: "Runtime option \<Rightarrow> bool" where
  "Runtime_Enabled r = (case r of None \<Rightarrow> False | Some x \<Rightarrow> hx_mode x = ''audit'')"

definition Runtime_Mode :: "Runtime option \<Rightarrow> string" where
  "Runtime_Mode r = (case r of None \<Rightarrow> ''off'' | Some x \<Rightarrow> Harness_ParseMode (hx_mode x))"

definition no_report :: HReport where
  "no_report = \<lparr>hp_HarnessID = [], hp_ArtifactID = [], hp_Status = [], hp_Results = [],
     hp_Evidence = [], hp_ErrorTrace = [], hp_Remediation = [], hp_StartedAt = 0,
     hp_FinishedAt = 0, hp_Duration = 0, hp_Metadata = []\<rparr>"

definition missing_registry_report :: "instant \<Rightarrow> instant \<Rightarrow> Artifact \<Rightarrow> HReport" where
  "missing_registry_report started finished artifact =
     finish_report started finished
       ((NewReport started ''harness.audit.unavailable'' (at_ID artifact))
          \<lparr>hp_Status := ''unsupported'',
           hp_Results :=
             [\<lparr>hs_AssertionID = ''runtime.registry'', hs_Status = ''unsupported'', hs_Severity = ''warn'',
               hs_Message = ''harness audit registry unavailable'',
               hs_Evidence = [(''registry'', ''missing'')], hs_Remediation = [],
               hs_ReasonCode = ''harness_registry_unavailable''\<rparr>],
           hp_Metadata := [(''mode'', ''audit'')]\<rparr>)"

definition Runtime_Validate ::
    "Codec \<Rightarrow> regex \<Rightarrow> (nat \<Rightarrow> string option) \<Rightarrow> instant \<Rightarrow> instant \<Rightarrow> Artifact \<Rightarrow> Runtime option \<Rightarrow>
     HReport \<times> HarnessError option"
where
  "Runtime_Validate H re ctx started finished artifact r =
     (if \<not> Runtime_Enabled r then (no_report, Some ErrHarnessRuntimeDisabled)
      else case (case r of None \<Rightarrow> None | Some x \<Rightarrow> hx_Registry x) of
        None \<Rightarrow> (missing_registry_report started finished artifact, Some ErrHarnessAuditUnavailable)
      | Some registry \<Rightarrow>
          (let report = HReport_Normalized finished
                 (Registry_Validate H re ctx started finished artifact registry);
               report = HReport_Normalized finished
                 (report\<lparr>hp_Metadata := AList.update ''mode'' ''audit'' (hp_Metadata report)\<rparr>)
           in if hp_Status report = ''fail'' \<or> hp_Status report = ''invalid''
              then (report, Some ErrHarnessAuditFailed) else (report, None)))"

section \<open>Loader\<close>

text \<open>
  The reader is the whole of its content, or \<open>None\<close> for a nil reader; a failing read is the
  error text. \<open>decode\<close> gives the assertions of a document, with severity and type as written.
\<close>

fun load_loop :: "Codec \<Rightarrow> regex \<Rightarrow> nat \<Rightarrow> Assertion list \<Rightarrow> HarnessError + Assertion list" where
  "load_loop H re i [] = Inr []"
| "load_loop H re i (entry # rest) =
     (let norm = Assertion_Normalized (entry\<lparr>an_Severity := ToLower (TrimSpace (an_Severity entry)),
            an_Type := ToLower (TrimSpace (an_Type entry))\<rparr>)
      in case Assertion_Validate H re norm of
        Some e \<Rightarrow> Inl (ErrInvalidHarnessDocument
          (''assertion '' @ itoa i @ '': '' @ harness_error_text e))
      | None \<Rightarrow>
          (case load_loop H re (Suc i) rest of Inl e \<Rightarrow> Inl e | Inr out \<Rightarrow> Inr (norm # out)))"

definition loadAssertionsYAML ::
    "Codec \<Rightarrow> regex \<Rightarrow> (string \<Rightarrow> string + Assertion list) \<Rightarrow> (string + string) option \<Rightarrow> int \<Rightarrow>
     HarnessError + Assertion list"
where
  "loadAssertionsYAML H re decode reader maxBytes =
     (case reader of
        None \<Rightarrow> Inl (ErrInvalidHarnessDocument ''nil reader'')
      | Some (Inl err) \<Rightarrow> Inl (ErrInvalidHarnessDocument (''read failed: '' @ err))
      | Some (Inr content) \<Rightarrow>
          (let maxBytes = (if maxBytes \<le> 0 then 524288 else maxBytes);
               raw = take (nat (maxBytes + 1)) content
           in if int (length raw) > maxBytes
              then Inl (ErrInvalidHarnessDocument
                (''document exceeds '' @ FormatInt maxBytes @ '' bytes''))
              else case decode raw of
                Inl err \<Rightarrow> Inl (ErrInvalidHarnessDocument (''yaml parse failed: '' @ err))
              | Inr entries \<Rightarrow>
                  (if entries = [] then Inl (ErrInvalidHarnessDocument ''no assertions'')
                   else if length entries > 256
                   then Inl (ErrTooManyAssertions (itoa (length entries) @ '' > '' @ itoa 256))
                   else load_loop H re 0 entries)))"

definition LoadAssertionsYAML ::
    "Codec \<Rightarrow> regex \<Rightarrow> (string \<Rightarrow> string + Assertion list) \<Rightarrow> string \<Rightarrow> HarnessError + Assertion list"
where
  "LoadAssertionsYAML H re decode data = loadAssertionsYAML H re decode (Some (Inr data)) 524288"

definition LoadAssertionsYAMLReader ::
    "Codec \<Rightarrow> regex \<Rightarrow> (string \<Rightarrow> string + Assertion list) \<Rightarrow> (string + string) option \<Rightarrow> int \<Rightarrow>
     HarnessError + Assertion list"
where
  "LoadAssertionsYAMLReader H re decode reader maxBytes =
     loadAssertionsYAML H re decode reader (if maxBytes \<le> 0 then 524288 else maxBytes)"

end
