(* ===== verification/HarnessProps.thy ===== *)
theory HarnessProps
  imports HarnessRegistry
begin

text \<open>
  Properties of \<open>pkg/harness\<close>: the registry keeps its invariant over any sequence of
  registrations, the status of a report is the worst of its results, and what the audit of a
  self-modification can say.
\<close>

section \<open>The registry\<close>

definition assertion_ok :: "Codec \<Rightarrow> regex \<Rightarrow> Assertion \<Rightarrow> bool" where
  "assertion_ok H re a \<longleftrightarrow> Assertion_Validate H re a = None \<and> a \<in> range Assertion_Normalized"

definition registry_table_ok :: "Codec \<Rightarrow> regex \<Rightarrow> (string \<times> Assertion) list \<Rightarrow> bool" where
  "registry_table_ok H re t \<longleftrightarrow> distinct (map fst t) \<and> (\<forall>(k, a) \<in> set t. k = an_ID a \<and> assertion_ok H re a)"

definition registry_ok :: "Codec \<Rightarrow> regex \<Rightarrow> Registry \<Rightarrow> bool" where
  "registry_ok H re r \<longleftrightarrow> registry_table_ok H re (hr_byID r) \<and> hr_sortedIDs r = rebuildSortedIDs (hr_byID r) \<and>
     int (length (hr_byID r)) \<le> hr_maxEntries r"

lemma map_of_None_set: "map_of t k = None \<longleftrightarrow> k \<notin> fst ` set t"
  by (rule map_of_eq_None_iff)

lemma update_new: "k \<notin> fst ` set t \<Longrightarrow> AList.update k v t = t @ [(k, v)]"
  by (induction t) auto

lemma register_loop_ok:
  assumes "register_loop H re t as = Inr t'" and "registry_table_ok H re t"
  shows "registry_table_ok H re t' \<and> length t' = length t + length as \<and>
    map snd t' = map snd t @ map Assertion_Normalized as"
  using assms
proof (induction H re t as rule: register_loop.induct)
  case (2 H re t a rest)
  let ?n = "Assertion_Normalized a"
  from "2.prems"(1) have ok: "Assertion_Validate H re ?n = None" and new: "map_of t (an_ID ?n) = None"
    and rec: "register_loop H re (AList.update (an_ID ?n) ?n t) rest = Inr t'"
    by (auto simp: Let_def split: option.splits if_splits)
  have upd: "AList.update (an_ID ?n) ?n t = t @ [(an_ID ?n, ?n)]"
    using new by (simp add: map_of_None_set update_new)
  have "registry_table_ok H re (t @ [(an_ID ?n, ?n)])"
    using "2.prems"(2) ok new by (auto simp: registry_table_ok_def assertion_ok_def map_of_None_set)
  with "2.IH" [OF refl ok] new rec show ?case by (simp add: upd)
qed simp

lemma RegisterMany_ok: "registry_ok H re r \<Longrightarrow> registry_ok H re (snd (RegisterMany H re as r))"
  by (auto simp: registry_ok_def RegisterMany_def Let_def split: sum.splits dest: register_loop_ok)

lemma RegisterMany_error: "fst (RegisterMany H re as r) \<noteq> None \<Longrightarrow> snd (RegisterMany H re as r) = r"
  by (auto simp: RegisterMany_def Let_def split: sum.splits)

lemma NewRegistry_ok: "registry_ok H re (NewRegistry opts)"
  by (simp add: registry_ok_def NewRegistry_def Let_def registry_table_ok_def rebuildSortedIDs_def)

interpretation registry: op_machine "NewRegistry opts" "\<lambda>as r. snd (RegisterMany H re as r)"
  "registry_ok H re" for H re opts
  by unfold_locales (rule NewRegistry_ok, rule RegisterMany_ok)

lemma by_id_ok:
  assumes "registry_ok H re r" and "i \<in> set (hr_sortedIDs r)"
  shows "assertion_ok H re (by_id r i)" "an_ID (by_id r i) = i" "by_id r i \<in> snd ` set (hr_byID r)"
proof -
  from assms obtain a where "map_of (hr_byID r) i = Some a"
    by (auto simp: registry_ok_def rebuildSortedIDs_def map_of_None_set [symmetric] image_iff
        dest: weak_map_of_SomeI)
  with assms(1) show "assertion_ok H re (by_id r i)" "an_ID (by_id r i) = i" "by_id r i \<in> snd ` set (hr_byID r)"
    by (auto simp: registry_ok_def registry_table_ok_def by_id_def dest!: map_of_SomeD intro: rev_image_eqI)
qed

lemma List_set:
  assumes "registry_ok H re r"
  shows "set (Registry_List r) = snd ` set (hr_byID r)"
proof -
  have d: "distinct (map fst (hr_byID r))" using assms by (simp add: registry_ok_def registry_table_ok_def)
  have "set (Registry_List r) = by_id r ` fst ` set (hr_byID r)"
    using assms by (simp add: Registry_List_def registry_ok_def rebuildSortedIDs_def)
  also have "\<dots> = snd ` set (hr_byID r)"
    using d by (force simp: by_id_def image_iff)
  finally show ?thesis .
qed

text \<open>
  C30. However a registry was made and whatever was registered since, in any grouping and with any
  refusals, its list has distinct identifiers in ascending order, every listed assertion is
  normalised and valid, and their number is within the maximum; a refused registration, also one
  that is refused at its last assertion, changes nothing.
\<close>

theorem registry_well_formed:
  assumes "r = fold (\<lambda>as r. snd (RegisterMany H re as r)) batches (NewRegistry opts)"
  shows "sorted_wrt (<) (map an_ID (Registry_List r)) \<and>
    list_all (\<lambda>a. Assertion_Validate H re a = None \<and> a \<in> range Assertion_Normalized) (Registry_List r) \<and>
    int (length (Registry_List r)) \<le> hr_maxEntries r \<and>
    (fst (RegisterMany H re extra r) \<noteq> None \<longrightarrow> snd (RegisterMany H re extra r) = r)"
proof -
  have ok: "registry_ok H re r" unfolding assms by (rule registry.good_run)
  have "map an_ID (Registry_List r) = hr_sortedIDs r"
    using by_id_ok(2) [OF ok] by (simp add: Registry_List_def map_idI)
  moreover have "sorted (hr_sortedIDs r)" "distinct (hr_sortedIDs r)"
    "length (hr_sortedIDs r) = length (hr_byID r)"
    using ok by (simp_all add: registry_ok_def rebuildSortedIDs_def registry_table_ok_def)
  moreover have "list_all (assertion_ok H re) (Registry_List r)"
    using by_id_ok(1) [OF ok] by (simp add: Registry_List_def list_all_iff)
  ultimately show ?thesis
    using ok RegisterMany_error [of H re extra r]
    by (simp add: strict_sorted_iff assertion_ok_def registry_ok_def Registry_List_def list_all_iff)
qed


section \<open>What an assertion asks\<close>

text \<open>The meaning of an assertion on an artifact, without statuses.\<close>

definition assertion_holds :: "regex \<Rightarrow> Artifact \<Rightarrow> Assertion \<Rightarrow> bool" where
  "assertion_holds re a x =
     (let c = an_Condition x; text = at_Content a;
          present = (\<lambda>k. map_of (normalizedMetadata (at_Metadata a)) k \<noteq> None);
          key = normalizeMetadataKey c
      in if an_Type x = ''regex_forbid'' then (case re c of Inl e \<Rightarrow> False | Inr m \<Rightarrow> \<not> m text)
         else if an_Type x = ''regex_require'' then (case re c of Inl e \<Rightarrow> False | Inr m \<Rightarrow> m text)
         else if an_Type x = ''string_forbid'' then \<not> sublist c text
         else if an_Type x = ''string_require'' then sublist c text
         else if an_Type x = ''max_length'' then (case Atoi c of None \<Rightarrow> False | Some n \<Rightarrow> int (length text) \<le> n)
         else if an_Type x = ''required_metadata'' then key \<noteq> [] \<and> present key
         else if an_Type x = ''forbidden_metadata_key'' then key \<noteq> [] \<and> \<not> present key
         else False)"

lemma result_status [simp]:
  "hs_Status (failedResult r c d) = (if hs_Severity r = ''hard_fail'' then ''fail'' else ''warn'')"
  "hs_Status (invalidResult r c d) = ''invalid''"
  "hs_Status (passed_with r k v) = hs_Status r"
  by (simp_all add: failedResult_def invalidResult_def passed_with_def)

lemma assertion_types:
  obtains "an_Type x = ''regex_forbid''" | "an_Type x = ''regex_require''"
    | "an_Type x = ''string_forbid''" | "an_Type x = ''string_require''" | "an_Type x = ''max_length''"
    | "an_Type x = ''required_metadata''" | "an_Type x = ''forbidden_metadata_key''"
    | "an_Type x \<notin> set validAssertionTypes"
  by (auto simp: validAssertionTypes_def)

lemma evaluate_pass: "hs_Status (evaluateAssertion re a x) = ''pass'' \<longleftrightarrow> assertion_holds re a x"
proof (cases rule: assertion_types [of x])
  case 5
  then show ?thesis
    by (cases "Atoi (an_Condition x)")
       (auto simp: evaluateAssertion_def assertion_holds_def evaluate_length_def Let_def)
qed (auto simp: evaluateAssertion_def assertion_holds_def evaluate_regex_def evaluate_metadata_def
    Let_def validAssertionTypes_def split: sum.splits)

lemma evaluate_status:
  assumes "an_Type x \<in> set validAssertionTypes"
  shows "hs_Status (evaluateAssertion re a x) \<in>
    {''pass'', ''invalid'', if an_Severity x = ''hard_fail'' then ''fail'' else ''warn''}"
proof (cases rule: assertion_types [of x])
  case 5
  then show ?thesis
    by (cases "Atoi (an_Condition x)") (simp_all add: evaluateAssertion_def evaluate_length_def Let_def)
next
  case 8
  with assms show ?thesis by simp
qed (simp_all add: evaluateAssertion_def evaluate_regex_def evaluate_metadata_def Let_def split: sum.split)

lemma assertion_ok_type: "assertion_ok H re a \<Longrightarrow> an_Type a \<in> set validAssertionTypes"
  by (auto simp: assertion_ok_def Assertion_Validate_def Assertion_Normalized_def Let_def
      split: if_splits)

section \<open>The status of a report\<close>

definition worst_of :: "string set \<Rightarrow> string" where
  "worst_of S = (if ''fail'' \<in> S then ''fail'' else if ''invalid'' \<in> S then ''invalid''
     else if ''warn'' \<in> S then ''warn'' else if ''unsupported'' \<in> S then ''unsupported'' else ''pass'')"

lemma worst_pass:
  "S \<subseteq> {''pass'', ''invalid'', ''fail'', ''warn''} \<Longrightarrow> worst_of S = ''pass'' \<longleftrightarrow> S \<subseteq> {''pass''}"
  by (auto simp: worst_of_def)

definition report_words :: "string set" where
  "report_words = {''pass'', ''unsupported'', ''warn'', ''invalid'', ''fail''}"

lemma aggregate_worst:
  assumes "c \<in> report_words"
  shows "aggregateStatus c n \<in> report_words"
    "worst_of (insert (aggregateStatus c n) S) = worst_of (insert c (insert n S))"
  using assms by (auto simp: report_words_def aggregateStatus_def worst_of_def)

lemma fold_aggregate:
  "c \<in> report_words \<Longrightarrow> fold (\<lambda>n c. aggregateStatus c n) ss c = worst_of (insert c (set ss))"
proof (induction ss arbitrary: c)
  case Nil
  then show ?case by (auto simp: report_words_def worst_of_def)
next
  case (Cons n ss)
  then show ?case using aggregate_worst [OF Cons.prems, of n] by (simp add: insert_commute)
qed

definition result_of :: "regex \<Rightarrow> bool \<Rightarrow> Artifact \<Rightarrow> Assertion \<Rightarrow> HResult" where
  "result_of re closed a x = close_unsupported closed (evaluateAssertion re a x)"

lemma validate_loop_complete:
  assumes "\<forall>j < length xs. ctx (i + j) = None"
  shows "hp_Status (validate_loop re ctx closed a i xs report) =
      fold (\<lambda>n c. aggregateStatus c n) (map (hs_Status \<circ> result_of re closed a) xs) (hp_Status report)
    \<and> hp_Results (validate_loop re ctx closed a i xs report) =
      hp_Results report @ map (result_of re closed a) xs"
  using assms
proof (induction xs arbitrary: i report)
  case (Cons x xs)
  from Cons.prems have "ctx i = None" by force
  moreover have "\<forall>j < length xs. ctx (Suc i + j) = None"
    using Cons.prems by (metis Suc_less_eq add_Suc_shift length_Cons)
  ultimately show ?case using Cons.IH [of "Suc i"] by (simp add: Let_def result_of_def)
qed simp

lemma HReport_status [simp]: "hp_Status (HReport_Normalized now r) = hp_Status r"
  by (simp add: HReport_Normalized_def Let_def)

lemma finish_status [simp]: "hp_Status (finish_report s f r) = hp_Status r"
  by (simp add: finish_report_def)

lemma Runtime_Validate_audit:
  assumes "rt = Some (NewRuntime ''audit'' (Some r))"
  shows "hp_Status (fst (Runtime_Validate H re ctx s f a rt)) = hp_Status (Registry_Validate H re ctx s f a r)"
    "snd (Runtime_Validate H re ctx s f a rt) =
      (if hp_Status (Registry_Validate H re ctx s f a r) \<in> {''fail'', ''invalid''}
       then Some ErrHarnessAuditFailed else None)"
proof -
  have "Harness_ParseMode ''audit'' = ''audit''" by code_simp
  then show "hp_Status (fst (Runtime_Validate H re ctx s f a rt)) = hp_Status (Registry_Validate H re ctx s f a r)"
    "snd (Runtime_Validate H re ctx s f a rt) =
      (if hp_Status (Registry_Validate H re ctx s f a r) \<in> {''fail'', ''invalid''}
       then Some ErrHarnessAuditFailed else None)"
    by (simp_all add: assms Runtime_Validate_def Runtime_Enabled_def NewRuntime_def Let_def)
qed

lemma selected_ok:
  assumes "registry_ok H re r" and "x \<in> set (selectAssertions H a r)"
  shows "assertion_ok H re x"
  using assms by (auto simp: selectAssertions_def Let_def intro: by_id_ok(1))

text \<open>
  C29. What an audit means. For a valid artifact, an uncancelled audit over a well-formed registry
  that has an assertion in scope says \<open>pass\<close> exactly when every assertion in scope holds of the
  artifact in its normalised form; when it returns no error, every hard-fail assertion holds; and when it returns one, it
  is \<open>ErrHarnessAuditFailed\<close> and some assertion does not hold.
\<close>

theorem audit_verdict:
  assumes "registry_ok H re r" and "norm = Artifact_Normalized H a"
    and "Artifact_Validate H norm = None" and "xs = selectAssertions H norm r" and "xs \<noteq> []"
    and "Runtime_Validate H re (\<lambda>i. None) s f a (Some (NewRuntime ''audit'' (Some r))) = (rep, err)"
  shows "(hp_Status rep = ''pass'' \<longleftrightarrow> (\<forall>x \<in> set xs. assertion_holds re norm x)) \<and>
    (err = None \<longrightarrow> (\<forall>x \<in> set xs. an_Severity x = ''hard_fail'' \<longrightarrow> assertion_holds re norm x)) \<and>
    (err \<noteq> None \<longrightarrow> err = Some ErrHarnessAuditFailed \<and> (\<exists>x \<in> set xs. \<not> assertion_holds re norm x))"
proof -
  let ?st = "\<lambda>x. hs_Status (evaluateAssertion re norm x)"
  have type: "an_Type x \<in> set validAssertionTypes" if "x \<in> set xs" for x
    using selected_ok [OF assms(1)] assertion_ok_type that assms(4) by blast
  have sev: "?st x = ''pass'' \<or> ?st x = ''invalid'' \<or> ?st x = (if an_Severity x = ''hard_fail'' then ''fail'' else ''warn'')"
    if "x \<in> set xs" for x
    using evaluate_status [OF type [OF that], of re norm] by simp
  have closed: "result_of re (hr_failClosed r) norm x = evaluateAssertion re norm x" if "x \<in> set xs" for x
    using sev [OF that] by (auto simp: result_of_def close_unsupported_def split: if_splits)
  have "hp_Status (Registry_Validate H re (\<lambda>i. None) s f a r) = worst_of (insert ''pass'' (?st ` set xs))"
    unfolding Registry_Validate_def Let_def assms(2) [symmetric] assms(4) [symmetric]
    by (simp add: assms(3,5) validate_loop_complete fold_aggregate report_words_def closed image_image
        cong: image_cong)
  also have "\<dots> = worst_of (?st ` set xs)" by (auto simp: worst_of_def)
  finally have st: "hp_Status (Registry_Validate H re (\<lambda>i. None) s f a r) = worst_of (?st ` set xs)" .
  note run = Runtime_Validate_audit [OF refl, of H re "\<lambda>i. None" s f a r, unfolded assms(6) st, simplified]
  have bad: "worst_of (?st ` set xs) \<in> {''fail'', ''invalid''} \<longleftrightarrow> ''fail'' \<in> ?st ` set xs \<or> ''invalid'' \<in> ?st ` set xs"
    by (auto simp: worst_of_def)
  have pass: "worst_of (?st ` set xs) = ''pass'' \<longleftrightarrow> (\<forall>x \<in> set xs. ?st x = ''pass'')"
    using worst_pass [of "?st ` set xs"] sev by (fastforce split: if_splits)
  have err: "err = None \<longleftrightarrow> ''fail'' \<notin> ?st ` set xs \<and> ''invalid'' \<notin> ?st ` set xs"
    "err \<noteq> None \<Longrightarrow> err = Some ErrHarnessAuditFailed"
    using run(2) bad by (auto split: if_splits)
  have hard: "?st x = ''pass''" if "err = None" "x \<in> set xs" "an_Severity x = ''hard_fail''" for x
    using sev [OF that(2)] err(1) that by (metis imageI)
  have some: "\<exists>x \<in> set xs. ?st x \<noteq> ''pass''" if "err \<noteq> None"
  proof -
    from that err(1) obtain x where "x \<in> set xs" "?st x = ''fail'' \<or> ?st x = ''invalid''" by fastforce
    then show ?thesis by (intro bexI [of _ x]) auto
  qed
  show ?thesis
    unfolding evaluate_pass [symmetric] using run(1) pass hard some err(2) by simp
qed


lemma validate_loop_cancelled:
  assumes "k < length xs" and "\<forall>j < k. ctx (i + j) = None" and "ctx (i + k) = Some err"
  shows "hp_Status (validate_loop re ctx closed a i xs report) = ''inconclusive'' \<and>
    hp_Results (validate_loop re ctx closed a i xs report) =
      hp_Results report @ map (result_of re closed a) (take k xs)"
  using assms
proof (induction xs arbitrary: i k report)
  case (Cons x xs)
  show ?case
  proof (cases k)
    case 0
    then show ?thesis using Cons.prems by simp
  next
    case (Suc k')
    then have "ctx i = None" "\<forall>j < k'. ctx (Suc i + j) = None" "ctx (Suc i + k') = Some err" "k' < length xs"
      using Cons.prems by (force, metis Suc_less_eq add_Suc_shift, simp, simp)
    with Cons.IH [of k' "Suc i"] Suc show ?thesis by (simp add: Let_def result_of_def)
  qed
qed simp

lemma Registry_Validate_run:
  assumes "Artifact_Validate H (Artifact_Normalized H a) = None"
    and "selectAssertions H (Artifact_Normalized H a) r \<noteq> []"
  shows "hp_Status (Registry_Validate H re ctx s f a r) =
      hp_Status (validate_loop re ctx (hr_failClosed r) (Artifact_Normalized H a) 0
        (selectAssertions H (Artifact_Normalized H a) r)
        ((NewReport s (hr_harnessID r) (at_ID a))\<lparr>hp_Status := ''pass''\<rparr>))"
  using assms by (simp add: Registry_Validate_def Let_def)

text \<open>
  A cancellation hides what was found: if the context ends before the last assertion in scope,
  the audit is \<open>inconclusive\<close> and returns no error, also when an assertion evaluated before had
  failed hard.
\<close>

theorem cancelled_audit_returns_no_error:
  assumes "norm = Artifact_Normalized H a" and "Artifact_Validate H norm = None"
    and "k < length (selectAssertions H norm r)"
    and "\<forall>j < k. ctx j = None" and "ctx k = Some msg"
  shows "hp_Status (fst (Runtime_Validate H re ctx s f a (Some (NewRuntime ''audit'' (Some r))))) = ''inconclusive'' \<and>
    snd (Runtime_Validate H re ctx s f a (Some (NewRuntime ''audit'' (Some r)))) = None"
proof -
  have "selectAssertions H norm r \<noteq> []" using assms(3) by auto
  then have "hp_Status (Registry_Validate H re ctx s f a r) = ''inconclusive''"
    using assms validate_loop_cancelled [of k "selectAssertions H norm r" ctx 0 msg]
    by (simp add: Registry_Validate_run)
  then show ?thesis by (simp add: Runtime_Validate_audit [OF refl])
qed

section \<open>The audit of self-modifications\<close>

text \<open>
  The runtime that both entry points of the program make: audit mode and a registry without any
  assertion, not failing closed.
\<close>

definition shipped_runtime :: Runtime where
  "shipped_runtime = NewRuntime ''audit'' (Some (NewRegistry [Some (WithFailClosedUnsupported False)]))"

definition shipped_audit ::
    "Codec \<Rightarrow> regex \<Rightarrow> instant \<Rightarrow> instant \<Rightarrow> Artifact \<Rightarrow> AuditSummary" where
  "shipped_audit H re started finished a =
     SummarizeReport H finished (Runtime_Mode (Some shipped_runtime))
       (fst (Runtime_Validate H re (\<lambda>i. None) started finished a (Some shipped_runtime)))"

lemma empty_selection: "selectAssertions H a (NewRegistry opts) = []"
  by (simp add: selectAssertions_def NewRegistry_def Let_def)

lemma summary_status: "as_Status (SummarizeReport H now mode r) = hp_Status r"
  by (simp add: SummarizeReport_def Let_def)

lemma Artifact_ID_blank:
  "Artifact_Validate H (Artifact_Normalized H a) = Some (ErrInvalidArtifact ''id is required'') \<longleftrightarrow>
     TrimSpace (at_ID a) = []"
proof -
  have "truncateString (TrimSpace (truncateString (TrimSpace (at_ID a)) 128)) 128 = [] \<longleftrightarrow> TrimSpace (at_ID a) = []"
    using trunc_trim_blank [of 128 "at_ID a"] by (simp add: trunc_trim_def truncateString_Nil_iff)
  then show ?thesis by (simp add: Artifact_Validate_def Artifact_Normalized_def Let_def)
qed

lemma content_fits:
  assumes "length (at_Content a) \<le> 65536" and "TrimSpace (at_ID a) \<noteq> []"
  shows "Artifact_Validate H (Artifact_Normalized H a) = None"
proof -
  have "one_of validArtifactKinds ''unknown'' k \<in> set validArtifactKinds" for k
    by (simp add: one_of_def Let_def validArtifactKinds_def)
  moreover have "truncateString (TrimSpace (truncateString (TrimSpace (at_ID a)) 128)) 128 \<noteq> []"
    using trunc_trim_blank [of 128 "at_ID a"] assms(2) by (simp add: trunc_trim_def truncateString_Nil_iff)
  ultimately show ?thesis
    using assms(1) by (simp add: Artifact_Validate_def Artifact_Normalized_def Let_def)
qed

text \<open>
  The audit that the program ships decides nothing. For every proposal with a receipt, the
  validator of self-modifications records a summary whose status is \<open>inconclusive\<close>, because the
  shipped registry holds no assertion, and the rest of its decision is what it was without an
  audit. (The hash of the operation must not be blank, as a SHA-256 in hex is not.)
\<close>

theorem shipped_audit_decides_nothing:
  assumes "dv_Receipt decision = Some receipt"
    and "\<And>x. TrimSpace (c_Sha256Hex H x) \<noteq> []"
    and "d' = applyHarnessAudit H (Some (shipped_audit H re s f)) input decision"
  shows "map_option as_Status (dv_AuditSummary d') = Some ''inconclusive'' \<and>
    d'\<lparr>dv_AuditSummary := dv_AuditSummary decision, dv_Receipt := dv_Receipt decision\<rparr> = decision"
proof -
  let ?a = "buildHarnessArtifact H input decision receipt"
  have "TrimSpace (at_ID ?a) \<noteq> []" "at_Content ?a = []"
    by (simp_all add: buildHarnessArtifact_def Let_def StableHash_def assms(2))
  then have "Artifact_Validate H (Artifact_Normalized H ?a) = None" by (simp add: content_fits)
  then have "hp_Status (Registry_Validate H re (\<lambda>i. None) s f ?a
      (NewRegistry [Some (WithFailClosedUnsupported False)])) = ''inconclusive''"
    by (simp add: Registry_Validate_def Let_def empty_selection)
  then have "as_Status (shipped_audit H re s f ?a) = ''inconclusive''"
    by (simp add: shipped_audit_def shipped_runtime_def summary_status Runtime_Validate_audit(1) [OF refl])
  then show ?thesis
    by (simp add: assms(1,3) applyHarnessAudit_def Let_def)
qed

section \<open>Metadata beyond the bound\<close>

definition crowded :: "metadata \<Rightarrow> Artifact" where
  "crowded meta = \<lparr>at_ID = ''a'', at_Kind = ''text'', at_Name = [], at_Content = ''x'',
     at_ContentHash = [], at_Refs = [], at_Metadata = meta\<rparr>"

definition filler :: metadata where
  "filler = map (\<lambda>c. ([c], ''v'')) ''abcdefghijklmnopqrstuvwx''"

definition forbid_owner :: Assertion where
  "forbid_owner = no_assertion\<lparr>an_ID := ''r'', an_Scope := ''*'', an_Severity := ''hard_fail'',
     an_Type := ''forbidden_metadata_key'', an_Condition := ''owner''\<rparr>"

text \<open>
  A forbidden metadata key is only seen among the 24 entries that survive the bound: with 24
  other entries the same artifact fails when the iteration of its map meets the forbidden key
  first, and passes when it meets it last.
\<close>

theorem forbidden_key_depends_on_iteration:
  "hs_Status (evaluateAssertion re (Artifact_Normalized sample_codec
     (crowded ((''owner'', ''v'') # filler))) forbid_owner) = ''fail'' \<and>
   hs_Status (evaluateAssertion re (Artifact_Normalized sample_codec
     (crowded (filler @ [(''owner'', ''v'')]))) forbid_owner) = ''pass''"
proof -
  have "normalizeMetadataKey ''owner'' = ''owner''" by code_simp
  moreover have "map_of (normalizedMetadata (BoundMetadata ((''owner'', ''v'') # filler))) ''owner'' = Some ''v''"
    by code_simp
  moreover have "map_of (normalizedMetadata (BoundMetadata (filler @ [(''owner'', ''v'')]))) ''owner'' = None"
    by code_simp
  ultimately show ?thesis
    by (simp add: evaluateAssertion_def evaluate_metadata_def forbid_owner_def no_assertion_def
        Artifact_Normalized_def crowded_def Let_def)
qed


section \<open>Witnesses\<close>

definition any_regex :: regex where
  "any_regex pattern = Inr (\<lambda>s. sublist pattern s)"

definition forbid_rm :: Assertion where
  "forbid_rm = no_assertion\<lparr>an_ID := ''r1'', an_Scope := ''*'', an_Severity := ''hard_fail'',
     an_Type := ''string_forbid'', an_Condition := ''rm''\<rparr>"

definition forbid_dd :: Assertion where
  "forbid_dd = forbid_rm\<lparr>an_ID := ''r2'', an_Condition := ''dd''\<rparr>"

definition sample_registry :: Registry where
  "sample_registry = snd (RegisterMany sample_codec any_regex [forbid_rm, forbid_dd] (NewRegistry []))"

lemma sample_selected:
  "map an_ID (selectAssertions sample_codec (Artifact_Normalized sample_codec (crowded [])) sample_registry)
     = [''r1'', ''r2'']"
  by code_simp

lemma sample_artifact_valid:
  "Artifact_Validate sample_codec (Artifact_Normalized sample_codec (crowded [])) = None"
  by (rule content_fits) (simp_all add: crowded_def not_blank_ascii_head solid_def is_ascii_def ascii_spaces_def)

lemma registry_well_formed_witness: "map an_ID (Registry_List sample_registry) = [''r1'', ''r2''] \<and>
    sorted_wrt (<) (map an_ID (Registry_List sample_registry))"
proof
  show "map an_ID (Registry_List sample_registry) = [''r1'', ''r2'']" by code_simp
  show "sorted_wrt (<) (map an_ID (Registry_List sample_registry))"
    using registry_well_formed [of sample_registry sample_codec any_regex "[[forbid_rm, forbid_dd]]" "[]"]
    by (simp add: sample_registry_def)
qed

lemma audit_verdict_witness:
  "hp_Status (fst (Runtime_Validate sample_codec any_regex (\<lambda>i. None) 1 2 (crowded [])
     (Some (NewRuntime ''audit'' (Some sample_registry))))) = ''pass''"
proof -
  let ?n = "Artifact_Normalized sample_codec (crowded [])"
  let ?xs = "selectAssertions sample_codec ?n sample_registry"
  obtain rep err where run: "Runtime_Validate sample_codec any_regex (\<lambda>i. None) 1 2 (crowded [])
      (Some (NewRuntime ''audit'' (Some sample_registry))) = (rep, err)" by fastforce
  have "registry_ok sample_codec any_regex sample_registry"
    unfolding sample_registry_def by (rule RegisterMany_ok [OF NewRegistry_ok])
  moreover have "?xs \<noteq> []" using sample_selected by auto
  moreover have "list_all (assertion_holds any_regex ?n) ?xs" by code_simp
  ultimately show ?thesis
    using audit_verdict [OF _ refl sample_artifact_valid refl _ run] run by (simp add: list_all_iff)
qed

lemma cancelled_audit_returns_no_error_witness:
  "snd (Runtime_Validate sample_codec any_regex (\<lambda>i. if i = 1 then Some ''context canceled'' else None)
     1 2 (crowded []) (Some (NewRuntime ''audit'' (Some sample_registry)))) = None"
proof -
  have "length (selectAssertions sample_codec (Artifact_Normalized sample_codec (crowded [])) sample_registry) = 2"
    using arg_cong [OF sample_selected, of length] by simp
  then show ?thesis
    using cancelled_audit_returns_no_error [OF refl sample_artifact_valid,
        of 1 sample_registry "\<lambda>i. if i = 1 then Some ''context canceled'' else None" "''context canceled''"]
    by simp
qed

definition sample_input :: ValidateInput where
  "sample_input = \<lparr>vi_OperationID = ''o'', vi_ToolName = ''t'', vi_Mode = [], vi_Parameters = None,
     vi_GeneratedGoSrc = []\<rparr>"

definition sample_decision :: DynamicValidationDecision where
  "sample_decision =
     (let d = \<lparr>dv_Allowed = False, dv_RequiresApproval = False, dv_HardBlock = True,
            dv_ReasonCode = ''x'', dv_Issues = [], dv_Manifest = None, dv_Receipt = None,
            dv_AuditSummary = None\<rparr>
      in d\<lparr>dv_Receipt := Some (receiptFrom sample_codec 5 sample_input None d [])\<rparr>)"

lemma shipped_audit_decides_nothing_witness:
  "map_option as_Status (dv_AuditSummary
     (applyHarnessAudit sample_codec (Some (shipped_audit sample_codec any_regex 1 2)) sample_input sample_decision))
   = Some ''inconclusive''"
proof -
  have "TrimSpace (c_Sha256Hex sample_codec x) \<noteq> []" for x
    by (simp add: sample_codec_def not_blank_ascii_head solid_def is_ascii_def ascii_spaces_def)
  moreover obtain receipt where "dv_Receipt sample_decision = Some receipt"
    by (simp add: sample_decision_def Let_def)
  ultimately show ?thesis
    using shipped_audit_decides_nothing [OF _ _ refl] by blast
qed

end
