(* ===== verification/LockTypes.thy ===== *)
theory LockTypes
  imports Evidence ReplayRun Harness
begin

text \<open>
  The data of \<open>pkg/statelock\<close>: locks on a dimension of the state of a subject, proposed states,
  conflicts, paradox reports, and the conversions from harness reports, replay results and
  trajectories (\<open>helpers.go\<close>). The policy states and risks are those of theory Evidence, as in the
  code. Copies of slices and maps (the \<open>clone\<close> functions) are the values themselves; the clock is
  an argument.
\<close>

datatype LockError =
    ErrInvalidLock string
  | ErrInvalidProposedState string
  | ErrLockConflict
  | ErrInvalidParadoxReport string
  | ErrStoreUnavailable
  | ErrNotFound string
  | ErrOtherStore string

text \<open>The last constructor stands for an error of a store outside the package.\<close>

section \<open>Named values\<close>

definition validScopes :: "string list" where
  "validScopes = [''session'', ''trajectory'', ''artifact'', ''workspace'', ''repository'',
     ''release'', ''unknown'']"

definition validDimensions :: "string list" where
  "validDimensions = [''artifact'', ''decision'', ''permission_scope'', ''provider_selection'',
     ''research_claim'', ''file_patch'', ''validation_result'', ''cost_budget'', ''policy_state'',
     ''unknown'']"

definition validLockStatuses :: "string list" where
  "validLockStatuses = [''active'', ''expired'', ''superseded'', ''released'', ''invalid'']"

definition lockSources :: "string list" where
  "lockSources = [''trace'', ''replay'', ''harness'', ''governance'', ''manual'']"

definition NormalizeScope :: "string \<Rightarrow> string" where
  "NormalizeScope raw = one_of validScopes ''unknown'' raw"

definition NormalizeDimension :: "string \<Rightarrow> string" where
  "NormalizeDimension raw = one_of validDimensions ''unknown'' raw"

definition lk_normalizeStatus :: "string \<Rightarrow> string" where
  "lk_normalizeStatus raw = one_of validLockStatuses ''invalid'' raw"

definition lk_normalizeSource :: "string \<Rightarrow> string" where
  "lk_normalizeSource raw = one_of lockSources ''unknown'' raw"

definition lk_ClassifyOperationRisk :: "string \<Rightarrow> string" where
  "lk_ClassifyOperationRisk operation =
     (let op = ToLower (TrimSpace operation)
      in if op = [] then ''unknown''
         else if IsSensitiveOperation op then ''sensitive''
         else if op \<in> {''provider_selection'', ''decision_change'', ''policy_update'', ''validation_override''}
         then ''medium''
         else ClassifyOperationRisk op)"

text \<open>A trimmed and cut field, as \<open>trace.RedactString(strings.TrimSpace(s), n)\<close> gives it.\<close>

definition field :: "string \<Rightarrow> int \<Rightarrow> string" where
  "field s n = RedactString (TrimSpace s) n"

section \<open>Locks\<close>

definition lk_normalizeRefs :: "Ref list \<Rightarrow> Ref list" where
  "lk_normalizeRefs rs = sort_refs (filter (\<lambda>r. TrimSpace (r_Ref r) \<noteq> []) (map bounded_ref rs))"

definition lk_normalizeMetadata :: "metadata \<Rightarrow> metadata" where
  "lk_normalizeMetadata m = BoundMetadata m"

record Lock =
  lk_ID :: string
  lk_Scope :: string
  lk_Dimension :: string
  lk_Subject :: string
  lk_StateHash :: string
  lk_Status :: string
  lk_Source :: string
  lk_EvidenceRefs :: "Ref list"
  lk_ValidationRefs :: "Ref list"
  lk_PolicyState :: string
  lk_CreatedAt :: instant
  lk_ExpiresAt :: instant
  lk_Metadata :: metadata

definition Lock_Normalized :: "Codec \<Rightarrow> instant \<Rightarrow> Lock \<Rightarrow> Lock" where
  "Lock_Normalized H now l =
     (let createdAt = (if IsZero (lk_CreatedAt l) then now else lk_CreatedAt l);
          out = l\<lparr>lk_ID := field (lk_ID l) 128,
            lk_Scope := NormalizeScope (lk_Scope l),
            lk_Dimension := NormalizeDimension (lk_Dimension l),
            lk_Subject := field (lk_Subject l) 256,
            lk_StateHash := field (lk_StateHash l) 256,
            lk_Status := (if TrimSpace (lk_Status l) = [] then ''active''
                          else lk_normalizeStatus (lk_Status l)),
            lk_Source := lk_normalizeSource (lk_Source l),
            lk_PolicyState := NormalizePolicyState (lk_PolicyState l),
            lk_EvidenceRefs := lk_normalizeRefs (lk_EvidenceRefs l),
            lk_ValidationRefs := lk_normalizeRefs (lk_ValidationRefs l),
            lk_Metadata := lk_normalizeMetadata (lk_Metadata l),
            lk_CreatedAt := createdAt,
            lk_ExpiresAt := (if \<not> IsZero (lk_ExpiresAt l) \<and> lk_ExpiresAt l < createdAt
                             then createdAt else lk_ExpiresAt l)\<rparr>
      in if lk_ID out = [] \<and> lk_Subject out \<noteq> [] \<and> lk_StateHash out \<noteq> []
         then out\<lparr>lk_ID := ''lock_'' @ StableHash H
           [lk_Scope out, lk_Dimension out, lk_Subject out, lk_StateHash out]\<rparr>
         else out)"

definition Lock_Validate :: "Codec \<Rightarrow> instant \<Rightarrow> Lock \<Rightarrow> LockError option" where
  "Lock_Validate H now l =
     (let n = Lock_Normalized H now l
      in if lk_ID n = [] \<or> lk_Subject n = [] \<or> lk_StateHash n = []
         then Some (ErrInvalidLock ''missing id/subject/state_hash'')
         else if lk_Scope n = ''unknown'' then Some (ErrInvalidLock ''unknown scope'')
         else if lk_Dimension n = ''unknown'' then Some (ErrInvalidLock ''unknown dimension'')
         else if lk_Status n = ''invalid'' then Some (ErrInvalidLock ''invalid status'')
         else if IsZero (lk_CreatedAt n) then Some (ErrInvalidLock ''missing created_at'')
         else None)"

section \<open>Proposed states and conflicts\<close>

record ProposedState =
  ps_Scope :: string
  ps_Dimension :: string
  ps_Subject :: string
  ps_StateHash :: string
  ps_PolicyState :: string
  ps_Risk :: string
  ps_EvidenceRefs :: "Ref list"
  ps_Metadata :: metadata

definition ProposedState_Normalized :: "ProposedState \<Rightarrow> ProposedState" where
  "ProposedState_Normalized p =
     \<lparr>ps_Scope = NormalizeScope (ps_Scope p),
      ps_Dimension = NormalizeDimension (ps_Dimension p),
      ps_Subject = field (ps_Subject p) 256,
      ps_StateHash = field (ps_StateHash p) 256,
      ps_PolicyState = NormalizePolicyState (ps_PolicyState p),
      ps_Risk = NormalizeRisk (ps_Risk p),
      ps_EvidenceRefs = lk_normalizeRefs (ps_EvidenceRefs p),
      ps_Metadata = lk_normalizeMetadata (ps_Metadata p)\<rparr>"

definition ProposedState_Validate :: "ProposedState \<Rightarrow> LockError option" where
  "ProposedState_Validate p =
     (let n = ProposedState_Normalized p
      in if ps_Scope n = ''unknown'' \<or> ps_Dimension n = ''unknown''
         then Some (ErrInvalidProposedState ''unknown scope/dimension'')
         else if ps_Subject n = [] \<or> ps_StateHash n = []
         then Some (ErrInvalidProposedState ''missing subject/state_hash'')
         else if ps_Risk n = ''unknown'' then Some (ErrInvalidProposedState ''unknown risk'')
         else None)"

record Conflict =
  cf_ExistingLockID :: string
  cf_Scope :: string
  cf_Dimension :: string
  cf_Subject :: string
  cf_ExistingHash :: string
  cf_ProposedHash :: string
  cf_Severity :: string
  cf_ReasonCode :: string
  cf_EvidenceRefs :: "Ref list"
  cf_Remediation :: "string list"

definition severities :: "string list" where
  "severities = [''low'', ''medium'', ''high'', ''critical'']"

definition normalizeSeverity :: "string \<Rightarrow> string" where
  "normalizeSeverity s = one_of severities ''unknown'' s"

definition severityRank :: "string \<Rightarrow> nat" where
  "severityRank s =
     (let n = normalizeSeverity s
      in if n = ''critical'' then 4 else if n = ''high'' then 3 else if n = ''medium'' then 2
         else if n = ''low'' then 1 else 0)"

definition lk_boundStringList :: "string list \<Rightarrow> nat \<Rightarrow> int \<Rightarrow> string list" where
  "lk_boundStringList xs maxEntries maxLen =
     filter (\<lambda>x. x \<noteq> []) (map (\<lambda>x. field x maxLen) (take maxEntries xs))"

definition newConflict :: "Conflict \<Rightarrow> Conflict" where
  "newConflict c =
     \<lparr>cf_ExistingLockID = field (cf_ExistingLockID c) 128,
      cf_Scope = NormalizeScope (cf_Scope c),
      cf_Dimension = NormalizeDimension (cf_Dimension c),
      cf_Subject = field (cf_Subject c) 256,
      cf_ExistingHash = field (cf_ExistingHash c) 256,
      cf_ProposedHash = field (cf_ProposedHash c) 256,
      cf_Severity = normalizeSeverity (cf_Severity c),
      cf_ReasonCode = RedactString (ToLower (TrimSpace (cf_ReasonCode c))) 128,
      cf_EvidenceRefs = lk_normalizeRefs (cf_EvidenceRefs c),
      cf_Remediation = lk_boundStringList (cf_Remediation c) 16 160\<rparr>"

definition combineRefs :: "Ref list \<Rightarrow> Ref list \<Rightarrow> Ref list" where
  "combineRefs a b = lk_normalizeRefs (a @ b)"

section \<open>Paradox reports\<close>

record Constraint =
  cn_Code :: string
  cn_Summary :: string
  cn_Hard :: bool
  cn_Dimension :: string

record Remediation =
  rm_Kind :: string
  rm_Description :: string

record ParadoxReport =
  pr_ID :: string
  pr_Status :: string
  pr_Summary :: string
  pr_Conflicts :: "Conflict list"
  pr_Constraints :: "Constraint list"
  pr_PolicyState :: string
  pr_Risk :: string
  pr_EvidenceRefs :: "Ref list"
  pr_Remediation :: "Remediation list"
  pr_StartedAt :: instant
  pr_FinishedAt :: instant
  pr_Duration :: duration
  pr_Metadata :: metadata

definition paradox_statuses :: "string list" where
  "paradox_statuses = [''none'', ''possible'', ''confirmed'', ''inconclusive'']"

definition normalizeParadoxStatus :: "string \<Rightarrow> string" where
  "normalizeParadoxStatus s = one_of paradox_statuses ''invalid'' s"

definition normalizeConstraints :: "Constraint list \<Rightarrow> Constraint list" where
  "normalizeConstraints cs =
     filter (\<lambda>c. cn_Code c \<noteq> [] \<and> cn_Summary c \<noteq> [])
       (map (\<lambda>c. \<lparr>cn_Code = field (cn_Code c) 128, cn_Summary = field (cn_Summary c) 256,
                  cn_Hard = cn_Hard c, cn_Dimension = field (cn_Dimension c) 64\<rparr>) (take 24 cs))"

definition remediation_kinds :: "string list" where
  "remediation_kinds = [''request_approval'', ''relax_constraint'', ''change_scope'',
     ''provide_policy'', ''reduce_risk'', ''split_task'', ''abort'']"

definition normalizeRemediationKind :: "string \<Rightarrow> string" where
  "normalizeRemediationKind s = one_of remediation_kinds ''abort'' s"

definition normalizeRemediation :: "Remediation list \<Rightarrow> Remediation list" where
  "normalizeRemediation rs =
     filter (\<lambda>r. rm_Description r \<noteq> [])
       (map (\<lambda>r. \<lparr>rm_Kind = normalizeRemediationKind (rm_Kind r),
                  rm_Description = field (rm_Description r) 160\<rparr>) (take 24 rs))"

definition normalizeConflicts :: "Conflict list \<Rightarrow> Conflict list" where
  "normalizeConflicts cs = map newConflict cs"

definition ParadoxReport_Normalized :: "Codec \<Rightarrow> instant \<Rightarrow> ParadoxReport \<Rightarrow> ParadoxReport" where
  "ParadoxReport_Normalized H now p =
     (let startedAt = (if IsZero (pr_StartedAt p) then now else pr_StartedAt p);
          finishedAt = (if IsZero (pr_FinishedAt p) \<or> pr_FinishedAt p < startedAt then startedAt
                        else pr_FinishedAt p);
          out = \<lparr>pr_ID = field (pr_ID p) 128,
            pr_Status = normalizeParadoxStatus (pr_Status p),
            pr_Summary = field (pr_Summary p) 256,
            pr_Conflicts = normalizeConflicts (pr_Conflicts p),
            pr_Constraints = normalizeConstraints (pr_Constraints p),
            pr_PolicyState = NormalizePolicyState (pr_PolicyState p),
            pr_Risk = NormalizeRisk (pr_Risk p),
            pr_EvidenceRefs = lk_normalizeRefs (pr_EvidenceRefs p),
            pr_Remediation = normalizeRemediation (pr_Remediation p),
            pr_StartedAt = startedAt, pr_FinishedAt = finishedAt,
            pr_Duration = nonneg (time_Sub finishedAt startedAt),
            pr_Metadata = lk_normalizeMetadata (pr_Metadata p)\<rparr>
      in if pr_ID out = []
         then out\<lparr>pr_ID := ''paradox_'' @ StableHash H
           [pr_Summary out, pr_Status out, pr_PolicyState out, pr_Risk out]\<rparr>
         else out)"

definition ParadoxReport_Validate :: "Codec \<Rightarrow> instant \<Rightarrow> ParadoxReport \<Rightarrow> LockError option" where
  "ParadoxReport_Validate H now p =
     (let n = ParadoxReport_Normalized H now p
      in if pr_ID n = [] \<or> pr_Summary n = []
         then Some (ErrInvalidParadoxReport ''missing id/summary'')
         else if pr_Status n = ''invalid'' then Some (ErrInvalidParadoxReport ''invalid status'')
         else if IsZero (pr_StartedAt n) then Some (ErrInvalidParadoxReport ''missing timestamps'')
         else None)"

section \<open>Conversions\<close>

definition LockRef :: "Codec \<Rightarrow> instant \<Rightarrow> Lock \<Rightarrow> Ref" where
  "LockRef H now l =
     (let n = Lock_Normalized H now l
      in NewRef ''state_lock'' (''lock:'' @ lk_ID n) (lk_StateHash n)
           (int (length (lk_ValidationRefs n)) + int (length (lk_EvidenceRefs n))))"

definition ParadoxRef :: "Codec \<Rightarrow> instant \<Rightarrow> ParadoxReport \<Rightarrow> Ref" where
  "ParadoxRef H now p =
     (let n = ParadoxReport_Normalized H now p
      in NewRef ''paradox_report'' (''paradox:'' @ pr_ID n)
           (StableHash H [pr_Summary n, pr_Status n]) (int (length (pr_Conflicts n))))"

text \<open>The lock is returned together with the error of its validation.\<close>

definition LockFromHarnessReport ::
    "Codec \<Rightarrow> instant \<Rightarrow> HReport \<Rightarrow> string \<Rightarrow> string \<Rightarrow> string \<Rightarrow> Lock option \<times> LockError option"
where
  "LockFromHarnessReport H now report scope subject policyState =
     (let norm = HReport_Normalized now report
      in if TrimSpace (hp_HarnessID norm) = [] \<or> TrimSpace subject = []
         then (None, Some (ErrInvalidLock ''harness report missing identity''))
         else
           (let lock =
                  \<lparr>lk_ID = [], lk_Scope = NormalizeScope scope, lk_Dimension = ''validation_result'',
                   lk_Subject = subject,
                   lk_StateHash = StableHash H [hp_Status norm, StableID H now norm],
                   lk_Status = ''active'', lk_Source = ''harness'', lk_EvidenceRefs = [],
                   lk_ValidationRefs = [ValidationRef H now norm],
                   lk_PolicyState = NormalizePolicyState policyState,
                   lk_CreatedAt = (if IsZero (hp_FinishedAt norm) then now else hp_FinishedAt norm),
                   lk_ExpiresAt = 0,
                   lk_Metadata = lk_normalizeMetadata
                     [(''harness_id'', hp_HarnessID norm), (''artifact_id'', hp_ArtifactID norm),
                      (''status'', hp_Status norm), (''validated'', ''true'')]\<rparr>
            in (Some (Lock_Normalized H now lock), Lock_Validate H now lock)))"

definition verdict_of_word :: "string \<Rightarrow> Verdict" where
  "verdict_of_word w =
     (if w = ''pass'' then VerdictPass else if w = ''fail'' then VerdictFail
      else if w = ''regression'' then VerdictRegression
      else if w = ''improvement'' then VerdictImprovement
      else if w = ''inconclusive'' then VerdictInconclusive
      else if w = ''invalid'' then VerdictInvalid else VerdictOther w)"

definition normalizeReplayResult :: "Result \<Rightarrow> Result" where
  "normalizeReplayResult r =
     r\<lparr>rr_CaseID := field (rr_CaseID r) 256,
       rr_TrajectoryID := field (rr_TrajectoryID r) 256,
       rr_Verdict := verdict_of_word (ToLower (TrimSpace (verdict_word (rr_Verdict r)))),
       rr_BaselineOutcome := (rr_BaselineOutcome r)
         \<lparr>oc_ValidationRefs := lk_normalizeRefs (oc_ValidationRefs (rr_BaselineOutcome r))\<rparr>,
       rr_CandidateOutcome := (rr_CandidateOutcome r)
         \<lparr>oc_ValidationRefs := lk_normalizeRefs (oc_ValidationRefs (rr_CandidateOutcome r))\<rparr>\<rparr>"

definition subjectOrFallback :: "string \<Rightarrow> string \<Rightarrow> string \<Rightarrow> string" where
  "subjectOrFallback primary a b =
     (case find (\<lambda>v. TrimSpace v \<noteq> []) [primary, a, b] of
        Some v \<Rightarrow> TrimSpace v
      | None \<Rightarrow> ''unknown_subject'')"

definition ProposedStateFromReplayResult ::
    "Result \<Rightarrow> string \<Rightarrow> string \<Rightarrow> string \<Rightarrow> ProposedState"
where
  "ProposedStateFromReplayResult result scope subject policyState =
     (let norm = normalizeReplayResult result;
          word = verdict_word (rr_Verdict norm);
          policy = NormalizePolicyState policyState;
          risk = (if EqualFold word ''fail'' \<or> EqualFold word ''regression'' then ''sensitive''
                  else ''medium'');
          meta = lk_normalizeMetadata [(''case_id'', rr_CaseID norm),
            (''trajectory_id'', rr_TrajectoryID norm), (''verdict'', word)]
      in ProposedState_Normalized
           \<lparr>ps_Scope = NormalizeScope scope, ps_Dimension = ''validation_result'',
            ps_Subject = subjectOrFallback subject (rr_CaseID norm) (rr_TrajectoryID norm),
            ps_StateHash = word, ps_PolicyState = policy, ps_Risk = risk,
            ps_EvidenceRefs = combineRefs (oc_ValidationRefs (rr_BaselineOutcome norm))
              (oc_ValidationRefs (rr_CandidateOutcome norm)),
            ps_Metadata = (if risk = ''sensitive'' \<and> IsPolicyAbsent policy
              then AList.update ''policy_gap'' ''sensitive_without_policy'' meta else meta)\<rparr>)"

definition ProposedStateFromTraceTrajectory ::
    "Codec \<Rightarrow> string \<Rightarrow> instant \<Rightarrow> Trajectory \<Rightarrow> string \<Rightarrow> string \<Rightarrow> string \<Rightarrow> ProposedState"
where
  "ProposedStateFromTraceTrajectory H uuid now traj scope dimension policyState =
     (let norm = Trajectory_Normalized uuid now traj;
          stateHash = TrimSpace (t_EndStateHash norm);
          stateHash = (if stateHash = []
            then StableHash H [t_TrajectoryID norm, t_Status norm, t_Outcome norm] else stateHash)
      in ProposedState_Normalized
           \<lparr>ps_Scope = NormalizeScope scope, ps_Dimension = NormalizeDimension dimension,
            ps_Subject = subjectOrFallback (t_TrajectoryID norm) (t_SessionID norm) (t_ObjectiveHash norm),
            ps_StateHash = stateHash, ps_PolicyState = NormalizePolicyState policyState,
            ps_Risk = lk_ClassifyOperationRisk ''replay_compare'',
            ps_EvidenceRefs = lk_normalizeRefs (t_ValidationRefs norm),
            ps_Metadata = lk_normalizeMetadata [(''trajectory_id'', t_TrajectoryID norm),
              (''status'', t_Status norm), (''outcome'', t_Outcome norm)]\<rparr>)"

end
