(* ===== verification/LockConflict.thy ===== *)
theory LockConflict
  imports LockTypes EvidenceProps
begin

text \<open>
  \<open>conflict.go\<close> and \<open>report.go\<close> of \<open>pkg/statelock\<close>: which conflicts a proposed state has with the
  active locks and with the policy, and the paradox report that \<open>Evaluator.Check\<close> gives for them.
  \<open>strconv.ParseFloat\<close> is a parameter; it may return a value that no comparison holds for (NaN).
  The order of conflicts that agree in severity, reason and lock is left open by \<open>sort.Slice\<close>; here
  it is the order in which they are found.
\<close>

section \<open>Comparing states\<close>

definition TrimPrefix :: "string \<Rightarrow> string \<Rightarrow> string" where
  "TrimPrefix s p = (if prefix p s then drop (length p) s else s)"

text \<open>The element of a Go map, with the zero value for a missing key.\<close>

definition entry :: "metadata \<Rightarrow> string \<Rightarrow> string" where
  "entry m k = (case map_of m k of None \<Rightarrow> [] | Some v \<Rightarrow> v)"

definition validationDowngrade :: "string \<Rightarrow> string \<Rightarrow> metadata \<Rightarrow> bool" where
  "validationDowngrade existingHash proposedHash m =
     (if EqualFold (TrimSpace (entry m ''override'')) ''true'' then False
      else sublist ''pass'' (ToLower (TrimSpace existingHash)) \<and>
           sublist ''fail'' (ToLower (TrimSpace proposedHash)))"

definition parseBudget :: "(string \<Rightarrow> 'f option) \<Rightarrow> string \<Rightarrow> 'f option" where
  "parseBudget ParseFloat raw =
     (let r = TrimSpace (ToLower raw);
          r = TrimPrefix r ''budget:'';
          r = TrimPrefix r ''usd:''
      in if r = [] then None else ParseFloat r)"

definition costBudgetExceeded :: "(string \<Rightarrow> 'f::ord option) \<Rightarrow> string \<Rightarrow> string \<Rightarrow> bool" where
  "costBudgetExceeded ParseFloat existingHash proposedHash =
     (case (parseBudget ParseFloat existingHash, parseBudget ParseFloat proposedHash) of
        (Some existingBudget, Some proposedBudget) \<Rightarrow> proposedBudget > existingBudget
      | _ \<Rightarrow> False)"

definition researchClaimChangedAfterValidation :: "Lock \<Rightarrow> string \<Rightarrow> bool" where
  "researchClaimChangedAfterValidation lock proposedHash =
     (if \<not> EqualFold (TrimSpace (entry (lk_Metadata lock) ''validated'')) ''true'' then False
      else TrimSpace (lk_StateHash lock) \<noteq> TrimSpace proposedHash)"

definition permissionRank :: "string \<Rightarrow> nat" where
  "permissionRank raw =
     (let s = ToLower (TrimSpace raw);
          s = TrimPrefix s ''scope:'';
          s = TrimPrefix s ''perm:''
      in if s = ''read'' then 1 else if s = ''write'' then 2 else if s = ''admin'' then 3 else 0)"

definition scopeWidened :: "string \<Rightarrow> string \<Rightarrow> bool" where
  "scopeWidened existingHash proposedHash \<longleftrightarrow> permissionRank proposedHash > permissionRank existingHash"

section \<open>Conflicts\<close>

definition containsReason :: "Conflict list \<Rightarrow> string \<Rightarrow> bool" where
  "containsReason conflicts reason = list_ex (\<lambda>c. cf_ReasonCode c = reason) conflicts"

text \<open>The literal of a conflict with the policy, and that of a conflict with a lock.\<close>

definition policy_conflict :: "ProposedState \<Rightarrow> string \<Rightarrow> string \<Rightarrow> Conflict" where
  "policy_conflict p severity reason =
     newConflict \<lparr>cf_ExistingLockID = [], cf_Scope = ps_Scope p, cf_Dimension = ps_Dimension p,
       cf_Subject = ps_Subject p, cf_ExistingHash = [], cf_ProposedHash = ps_StateHash p,
       cf_Severity = severity, cf_ReasonCode = reason, cf_EvidenceRefs = ps_EvidenceRefs p,
       cf_Remediation = [''provide matching policy'', ''request explicit approval'',
         ''reduce operation risk'', ''abort operation'']\<rparr>"

definition lock_conflict ::
    "ProposedState \<Rightarrow> Lock \<Rightarrow> string \<Rightarrow> string \<Rightarrow> Ref list \<Rightarrow> string list \<Rightarrow> Conflict" where
  "lock_conflict p l severity reason refs remediation =
     newConflict \<lparr>cf_ExistingLockID = lk_ID l, cf_Scope = ps_Scope p, cf_Dimension = ps_Dimension p,
       cf_Subject = ps_Subject p, cf_ExistingHash = lk_StateHash l, cf_ProposedHash = ps_StateHash p,
       cf_Severity = severity, cf_ReasonCode = reason,
       cf_EvidenceRefs = combineRefs refs (ps_EvidenceRefs p), cf_Remediation = remediation\<rparr>"

definition policy_conflicts :: "ProposedState \<Rightarrow> Conflict list" where
  "policy_conflicts p =
     (let absent = (if IsPolicyAbsent (ps_PolicyState p) \<and> ps_Risk p \<noteq> ''low''
            then [if ps_Risk p = ''sensitive''
                  then policy_conflict p ''critical'' ''sensitive_operation_without_policy''
                  else policy_conflict p ''medium'' ''policy_absent_non_low_risk'']
            else [])
      in if ps_Risk p = ''sensitive'' \<and> \<not> AllowsSensitiveOperation (ps_PolicyState p) \<and>
            \<not> containsReason absent ''sensitive_operation_without_policy''
         then absent @ [policy_conflict p ''critical'' ''sensitive_operation_without_policy'']
         else absent)"

text \<open>The tests that the loop over the locks makes for one active lock on the same state.\<close>

definition lock_conflicts ::
    "(string \<Rightarrow> 'f::ord option) \<Rightarrow> ProposedState \<Rightarrow> Lock \<Rightarrow> Conflict list" where
  "lock_conflicts ParseFloat p l =
     (if lk_StateHash l \<noteq> ps_StateHash p
      then [lock_conflict p l ''high'' ''state_hash_mismatch'' (lk_EvidenceRefs l)
              [''release or supersede existing lock'', ''change scope to avoid collision'',
               ''split task into compatible steps'']]
      else []) @
     (if ps_Dimension p = ''permission_scope'' \<and> scopeWidened (lk_StateHash l) (ps_StateHash p)
      then [lock_conflict p l ''high'' ''permission_scope_widened'' (lk_EvidenceRefs l)
              [''request approval for widened scope'', ''reduce permission scope'', ''abort operation'']]
      else []) @
     (if ps_Dimension p = ''validation_result'' \<and>
         validationDowngrade (lk_StateHash l) (ps_StateHash p) (ps_Metadata p)
      then [lock_conflict p l ''critical'' ''validation_result_downgrade'' (lk_ValidationRefs l)
              [''attach explicit override receipt'', ''run additional validation'', ''abort downgrade'']]
      else []) @
     (if ps_Dimension p = ''cost_budget'' \<and>
         costBudgetExceeded ParseFloat (lk_StateHash l) (ps_StateHash p)
      then [lock_conflict p l ''medium'' ''cost_budget_exceeded'' (lk_EvidenceRefs l)
              [''reduce budget'', ''request approval for budget increase'']]
      else []) @
     (if ps_Dimension p = ''research_claim'' \<and> researchClaimChangedAfterValidation l (ps_StateHash p)
      then [lock_conflict p l ''high'' ''research_claim_hash_changed'' (lk_ValidationRefs l)
              [''re-validate research claim'', ''provide new policy evidence'',
               ''split claim into separate lock scope'']]
      else [])"

definition same_state :: "ProposedState \<Rightarrow> Lock \<Rightarrow> bool" where
  "same_state p l \<longleftrightarrow>
     lk_Status l = ''active'' \<and>
     lk_Scope l = ps_Scope p \<and> lk_Dimension l = ps_Dimension p \<and> lk_Subject l = ps_Subject p"

definition conflict_key :: "Conflict \<Rightarrow> nat \<times> string \<times> string" where
  "conflict_key c = (4 - severityRank (cf_Severity c), cf_ReasonCode c, cf_ExistingLockID c)"

definition DetectConflicts ::
    "Codec \<Rightarrow> instant \<Rightarrow> (string \<Rightarrow> 'f::ord option) \<Rightarrow> Lock list \<Rightarrow> ProposedState \<Rightarrow> Conflict list" where
  "DetectConflicts H now ParseFloat existing proposed =
     (let p = ProposedState_Normalized proposed
      in sort_key conflict_key
           (policy_conflicts p @
            concat (map (lock_conflicts ParseFloat p)
              (filter (same_state p) (map (Lock_Normalized H now) existing)))))"

section \<open>Paradox report of a check\<close>

definition hasCriticalConflict :: "Conflict list \<Rightarrow> bool" where
  "hasCriticalConflict conflicts = list_ex (\<lambda>c. normalizeSeverity (cf_Severity c) = ''critical'') conflicts"

definition conflictSummary :: "Conflict \<Rightarrow> string" where
  "conflictSummary c =
     RedactString ((if cf_ReasonCode c = [] then ''unknown_conflict'' else cf_ReasonCode c)
       @ '' for '' @ cf_Subject c) 256"

definition remediationKindForReason :: "string \<Rightarrow> string \<Rightarrow> string" where
  "remediationKindForReason reasonCode step =
     (let r = ToLower (TrimSpace reasonCode); s = ToLower (TrimSpace step)
      in if sublist ''policy'' r then
           (if sublist ''approval'' s then ''request_approval''
            else if sublist ''reduce'' s then ''reduce_risk'' else ''provide_policy'')
         else if sublist ''permission_scope'' r then
           (if sublist ''reduce'' s then ''reduce_risk'' else ''request_approval'')
         else if sublist ''validation'' r then ''split_task''
         else if sublist ''budget'' r then
           (if sublist ''approval'' s then ''request_approval'' else ''reduce_risk'')
         else if sublist ''research'' r then ''provide_policy''
         else if sublist ''scope'' s then ''change_scope'' else ''abort'')"

definition paradoxSummaryForStatus :: "string \<Rightarrow> string" where
  "paradoxSummaryForStatus status =
     (let s = normalizeParadoxStatus status
      in if s = ''confirmed'' then ''no valid path under current lock/policy constraints''
         else if s = ''possible''
         then ''potential conflict with current lock/policy constraints; remediation may apply''
         else if s = ''inconclusive''
         then ''insufficient data to confirm valid path under current lock/policy constraints''
         else if s = ''none'' then ''no lock/policy paradox detected under current constraints''
         else ''invalid paradox report/input'')"

definition conflict_constraint :: "Conflict \<Rightarrow> Constraint" where
  "conflict_constraint c =
     \<lparr>cn_Code = cf_ReasonCode c, cn_Summary = conflictSummary c,
      cn_Hard = (cf_Severity c = ''critical'' \<or> cf_Severity c = ''high''), cn_Dimension = cf_Dimension c\<rparr>"

text \<open>The inner loop over the steps of all conflicts, with the keys seen so far.\<close>

fun recommend :: "string list \<Rightarrow> (string \<times> string) list \<Rightarrow> Remediation list" where
  "recommend seen [] = []"
| "recommend seen ((reason, step) # rest) =
     (let kind = remediationKindForReason reason step; key = kind @ '':'' @ ToLower step
      in if key \<in> set seen then recommend seen rest
         else \<lparr>rm_Kind = kind, rm_Description = step\<rparr> # recommend (key # seen) rest)"

definition report_metadata :: "ProposedState \<Rightarrow> Conflict list \<Rightarrow> metadata" where
  "report_metadata proposed conflicts =
     lk_normalizeMetadata [(''subject'', ps_Subject proposed), (''scope'', ps_Scope proposed),
       (''dimension'', ps_Dimension proposed), (''conflict_count'', FormatInt (int (length conflicts)))]"

definition buildParadoxReport ::
    "Codec \<Rightarrow> instant \<Rightarrow> ProposedState \<Rightarrow> Conflict list \<Rightarrow> ParadoxReport" where
  "buildParadoxReport H start proposed conflicts =
     (let status = (if hasCriticalConflict conflicts then ''confirmed'' else ''possible'');
          report =
            \<lparr>pr_ID = [], pr_Status = status, pr_Summary = paradoxSummaryForStatus status,
             pr_Conflicts = conflicts, pr_Constraints = map conflict_constraint conflicts,
             pr_PolicyState = ps_PolicyState proposed, pr_Risk = ps_Risk proposed,
             pr_EvidenceRefs = ps_EvidenceRefs proposed,
             pr_Remediation = recommend []
               (concat (map (\<lambda>c. map (Pair (cf_ReasonCode c)) (cf_Remediation c)) conflicts)),
             pr_StartedAt = start, pr_FinishedAt = start, pr_Duration = 0,
             pr_Metadata = report_metadata proposed conflicts\<rparr>
      in (ParadoxReport_Normalized H start report)\<lparr>pr_Metadata := report_metadata proposed conflicts\<rparr>)"

section \<open>Check\<close>

record LockFilter =
  lf_Scope :: string
  lf_Dimension :: string
  lf_Subject :: string
  lf_Status :: string

record CheckResult =
  ck_Status :: string
  ck_Conflicts :: "Conflict list"
  ck_Paradox :: "ParadoxReport option"
  ck_PolicyState :: string
  ck_Risk :: string
  ck_Recommendations :: "Remediation list"
  ck_Err :: "LockError option"

definition plain_check :: "ProposedState \<Rightarrow> string \<Rightarrow> LockError option \<Rightarrow> CheckResult" where
  "plain_check p status err =
     \<lparr>ck_Status = status, ck_Conflicts = [], ck_Paradox = None, ck_PolicyState = ps_PolicyState p,
      ck_Risk = ps_Risk p, ck_Recommendations = [], ck_Err = err\<rparr>"

text \<open>
  The store is the function \<open>ListLocks\<close>, or absent when the evaluator or its store is nil.
\<close>

definition Evaluator_Check ::
    "Codec \<Rightarrow> instant \<Rightarrow> (string \<Rightarrow> 'f::ord option) \<Rightarrow> (LockFilter \<Rightarrow> LockError + Lock list) option \<Rightarrow>
       ProposedState \<Rightarrow> CheckResult" where
  "Evaluator_Check H now ParseFloat store proposed =
     (let p = ProposedState_Normalized proposed
      in case ProposedState_Validate p of
           Some err \<Rightarrow> plain_check p ''invalid'' (Some err)
         | None \<Rightarrow>
             (case (case store of None \<Rightarrow> Inr []
                    | Some ListLocks \<Rightarrow> ListLocks \<lparr>lf_Scope = ps_Scope p, lf_Dimension = ps_Dimension p,
                        lf_Subject = ps_Subject p, lf_Status = ''active''\<rparr>) of
                Inl err \<Rightarrow> plain_check p ''invalid'' (Some err)
              | Inr locks \<Rightarrow>
                  (let conflicts = DetectConflicts H now ParseFloat locks p
                   in if conflicts = [] then plain_check p ''allowed'' None
                      else
                        (let report = buildParadoxReport H now p conflicts
                         in \<lparr>ck_Status = ''conflict'', ck_Conflicts = conflicts, ck_Paradox = Some report,
                             ck_PolicyState = ps_PolicyState p, ck_Risk = ps_Risk p,
                             ck_Recommendations = pr_Remediation report,
                             ck_Err = Some ErrLockConflict\<rparr>))))"

end
