(* ===== verification/LockStore.thy ===== *)
theory LockStore
  imports LockConflict KeyedStore
begin

text \<open>
  \<open>memory_store.go\<close> of \<open>pkg/statelock\<close>: locks and paradox reports under their identifiers. The
  tables are association lists in the order of one iteration of Go's maps; the mutex makes each
  method one operation. A nil store answers every call with \<open>ErrStoreUnavailable\<close>.
\<close>

record LockStore =
  ls_locks :: "(string \<times> Lock) list"
  ls_paradoxes :: "(string \<times> ParadoxReport) list"

definition NewMemoryStore :: LockStore where
  "NewMemoryStore = \<lparr>ls_locks = [], ls_paradoxes = []\<rparr>"

definition SaveLock :: "Codec \<Rightarrow> instant \<Rightarrow> Lock \<Rightarrow> LockStore option \<Rightarrow> LockError option \<times> LockStore option" where
  "SaveLock H now lock st =
     (case st of None \<Rightarrow> (Some ErrStoreUnavailable, None)
      | Some s \<Rightarrow>
          (let n = Lock_Normalized H now lock
           in case Lock_Validate H now n of
                Some err \<Rightarrow> (Some err, Some s)
              | None \<Rightarrow> (None, Some (s\<lparr>ls_locks := AList.update (lk_ID n) n (ls_locks s)\<rparr>))))"

definition LoadLock :: "Codec \<Rightarrow> string \<Rightarrow> LockStore option \<Rightarrow> LockError + Lock" where
  "LoadLock H lid st =
     (case st of None \<Rightarrow> Inl ErrStoreUnavailable
      | Some s \<Rightarrow>
          (let cleanID = TrimSpace lid
           in case map_of (ls_locks s) cleanID of
                None \<Rightarrow> Inl (ErrNotFound (''lock '' @ c_Quote H cleanID))
              | Some l \<Rightarrow> Inr l))"

definition lock_matches :: "LockFilter \<Rightarrow> Lock \<Rightarrow> bool" where
  "lock_matches f n \<longleftrightarrow>
     (lf_Scope f = [] \<or> lk_Scope n = NormalizeScope (lf_Scope f)) \<and>
     (lf_Dimension f = [] \<or> lk_Dimension n = NormalizeDimension (lf_Dimension f)) \<and>
     (lf_Subject f = [] \<or> lk_Subject n = TrimSpace (lf_Subject f)) \<and>
     (lf_Status f = [] \<or> lk_Status n = lk_normalizeStatus (lf_Status f))"

definition lock_order :: "Lock \<Rightarrow> string \<times> string \<times> string \<times> string" where
  "lock_order l = (lk_Scope l, lk_Dimension l, lk_Subject l, lk_ID l)"

definition ListLocks :: "Codec \<Rightarrow> instant \<Rightarrow> LockStore option \<Rightarrow> LockFilter \<Rightarrow> LockError + Lock list" where
  "ListLocks H now st f =
     (case st of None \<Rightarrow> Inl ErrStoreUnavailable
      | Some s \<Rightarrow>
          Inr (sort_key lock_order
            (filter (lock_matches f) (map (\<lambda>(k, l). Lock_Normalized H now l) (ls_locks s)))))"

definition SaveParadox ::
    "Codec \<Rightarrow> instant \<Rightarrow> ParadoxReport \<Rightarrow> LockStore option \<Rightarrow> LockError option \<times> LockStore option" where
  "SaveParadox H now report st =
     (case st of None \<Rightarrow> (Some ErrStoreUnavailable, None)
      | Some s \<Rightarrow>
          (let n = ParadoxReport_Normalized H now report
           in case ParadoxReport_Validate H now n of
                Some err \<Rightarrow> (Some err, Some s)
              | None \<Rightarrow> (None, Some (s\<lparr>ls_paradoxes := AList.update (pr_ID n) n (ls_paradoxes s)\<rparr>))))"

definition LoadParadox :: "Codec \<Rightarrow> string \<Rightarrow> LockStore option \<Rightarrow> LockError + ParadoxReport" where
  "LoadParadox H pid st =
     (case st of None \<Rightarrow> Inl ErrStoreUnavailable
      | Some s \<Rightarrow>
          (let cleanID = TrimSpace pid
           in case map_of (ls_paradoxes s) cleanID of
                None \<Rightarrow> Inl (ErrNotFound (''paradox '' @ c_Quote H cleanID))
              | Some r \<Rightarrow> Inr r))"

end
