(* ===== verification/LockProps.thy ===== *)
theory LockProps
  imports LockStore HarnessProps ReplayProps
begin

text \<open>
  What a saved lock protects, when a check allows a proposed state, and how locks and paradox
  reports are stored.
\<close>

section \<open>Normalisation\<close>

lemma lock_tables [simp]:
  "clean_words validScopes" "clean_words validDimensions" "clean_words severities"
  "clean_words validLockStatuses" "clean_words paradox_statuses"
  by code_simp+

lemma NormalizeScope_idem [simp]: "NormalizeScope (NormalizeScope s) = NormalizeScope s"
  unfolding NormalizeScope_def by (rule one_of_idem) (simp, simp add: validScopes_def)

lemma NormalizeDimension_idem [simp]: "NormalizeDimension (NormalizeDimension s) = NormalizeDimension s"
  unfolding NormalizeDimension_def by (rule one_of_idem) (simp, simp add: validDimensions_def)

lemma named_not_Nil [simp]: "NormalizeScope s \<noteq> []" "NormalizeDimension s \<noteq> []"
  using one_of_range [of validScopes "''unknown''" s] one_of_range [of validDimensions "''unknown''" s]
  by (auto simp: NormalizeScope_def NormalizeDimension_def validScopes_def validDimensions_def)

lemma status_words [simp]:
  "lk_normalizeStatus ''active'' = ''active''" "TrimSpace ''active'' = ''active''"
  by code_simp+

lemma lk_normalizeStatus_idem [simp]: "lk_normalizeStatus (lk_normalizeStatus s) = lk_normalizeStatus s"
  unfolding lk_normalizeStatus_def by (rule one_of_idem) (simp, simp add: validLockStatuses_def)

text \<open>A cut field may end in a space, so a second normalisation can differ from the first one; the third cannot.\<close>

lemma RedactString_short:
  "0 < n \<Longrightarrow> int (length s) \<le> n \<Longrightarrow> RedactString s n = TrimSpace s"
  using TrimSpace_length [of s] by (simp add: RedactString_def Let_def)

lemma length_field: "0 < n \<Longrightarrow> int (length (field s n)) \<le> n"
  by (auto simp: field_def RedactString_def Let_def)

lemma field_field: "0 < n \<Longrightarrow> field (field s n) n = TrimSpace (field s n)"
  using length_field [of n s] TrimSpace_length [of "field s n"]
  by (subst field_def) (simp add: RedactString_short)

lemma field_Trim [simp]: "field (TrimSpace s) n = field s n"
  by (simp add: field_def)

lemma field_stable [simp]: "0 < n \<Longrightarrow> TrimSpace (field (TrimSpace (field s n)) n) = TrimSpace (field s n)"
  by (simp add: field_field)

lemma Trim_field_Nil [simp]: "0 < n \<Longrightarrow> TrimSpace (field s n) = [] \<longleftrightarrow> TrimSpace s = []"
  using trunc_trim_blank [of n s]
  by (simp add: field_def RedactString_def trunc_trim_def truncateString_def Let_def)

lemma field_Nil [simp]: "0 < n \<Longrightarrow> field s n = [] \<longleftrightarrow> TrimSpace s = []"
  by (auto simp: field_def RedactString_def Let_def)

text \<open>The status under which a lock is stored.\<close>

definition lock_status :: "string \<Rightarrow> string" where
  "lock_status s = (if TrimSpace s = [] then ''active'' else lk_normalizeStatus s)"

lemma lk_normalizeStatus_not_blank [simp]: "TrimSpace (lk_normalizeStatus s) \<noteq> []"
proof -
  have "\<forall>w \<in> set (''invalid'' # validLockStatuses). TrimSpace w \<noteq> []" by code_simp
  then show ?thesis
    using one_of_range [of validLockStatuses "''invalid''" s] by (auto simp: lk_normalizeStatus_def)
qed

lemma lock_status_idem [simp]: "lock_status (lock_status s) = lock_status s"
  by (auto simp: lock_status_def)

lemma Lock_Normalized_fields [simp]:
  "lk_Scope (Lock_Normalized H now l) = NormalizeScope (lk_Scope l)"
  "lk_Dimension (Lock_Normalized H now l) = NormalizeDimension (lk_Dimension l)"
  "lk_Subject (Lock_Normalized H now l) = field (lk_Subject l) 256"
  "lk_StateHash (Lock_Normalized H now l) = field (lk_StateHash l) 256"
  "lk_Status (Lock_Normalized H now l) = lock_status (lk_Status l)"
  "lk_Metadata (Lock_Normalized H now l) = BoundMetadata (lk_Metadata l)"
  by (simp_all add: Lock_Normalized_def Let_def lock_status_def lk_normalizeMetadata_def)

lemma ProposedState_Normalized_fields [simp]:
  "ps_Scope (ProposedState_Normalized p) = NormalizeScope (ps_Scope p)"
  "ps_Dimension (ProposedState_Normalized p) = NormalizeDimension (ps_Dimension p)"
  "ps_Subject (ProposedState_Normalized p) = field (ps_Subject p) 256"
  "ps_StateHash (ProposedState_Normalized p) = field (ps_StateHash p) 256"
  "ps_PolicyState (ProposedState_Normalized p) = NormalizePolicyState (ps_PolicyState p)"
  "ps_Risk (ProposedState_Normalized p) = NormalizeRisk (ps_Risk p)"
  by (simp_all add: ProposedState_Normalized_def)

section \<open>Stores\<close>

lemma fold_present:
  assumes "\<And>x s. snd (f x (Some s)) \<noteq> None"
  shows "fold (\<lambda>x st. snd (f x st)) xs (Some s) = Some (fold (\<lambda>x s. snd (present (f x) s)) xs s)"
proof (induction xs arbitrary: s)
  case (Cons x xs)
  obtain s' where "snd (f x (Some s)) = Some s'" using assms [of x s] by auto
  then show ?case by (simp add: Cons.IH present_def split_beta)
qed simp

lemma saves_present: "snd (SaveLock H now l (Some s)) \<noteq> None" "snd (SaveParadox H now r (Some s)) \<noteq> None"
  by (auto simp: SaveLock_def SaveParadox_def Let_def split: option.splits)

text \<open>The second normalisation of \<open>Validate\<close> included, as the code has it.\<close>

abbreviation lock_key :: "Codec \<Rightarrow> instant \<times> Lock \<Rightarrow> string" where
  "lock_key H x \<equiv> lk_ID (Lock_Normalized H (fst x) (snd x))"

abbreviation lock_refused :: "Codec \<Rightarrow> instant \<times> Lock \<Rightarrow> LockError option" where
  "lock_refused H x \<equiv> Lock_Validate H (fst x) (Lock_Normalized H (fst x) (snd x))"

interpretation lock_table: keyed_store "\<lambda>x. present (SaveLock H (fst x) (snd x))"
  "\<lambda>k s. LoadLock H k (Some s)" "lock_refused H" "lock_key H"
  "\<lambda>x. Lock_Normalized H (fst x) (snd x)" for H
  by unfold_locales
    (auto simp: SaveLock_def LoadLock_def Let_def update_conv' present_def split: option.splits)

section \<open>A saved lock protects its state\<close>

definition save_all :: "Codec \<Rightarrow> (instant \<times> Lock) list \<Rightarrow> LockStore option \<Rightarrow> LockStore option" where
  "save_all H xs st = fold (\<lambda>x st. snd (SaveLock H (fst x) (snd x) st)) xs st"

lemma kept_lock:
  assumes "map_of (ls_locks s) k = Some n" and "\<forall>x \<in> set xs. lock_key H x \<noteq> k"
  shows "\<exists>s'. save_all H xs (Some s) = Some s' \<and> map_of (ls_locks s') k = Some n"
  using assms
proof (induction xs arbitrary: s)
  case (Cons x xs)
  obtain s' where s': "snd (SaveLock H (fst x) (snd x) (Some s)) = Some s'"
    using saves_present(1) [of H "fst x" "snd x" s] by auto
  have "map_of (ls_locks s') k = Some n"
    using s' Cons.prems by (auto simp: SaveLock_def Let_def update_conv' split: option.splits)
  with Cons.IH [of s'] Cons.prems(2) s' show ?case by (simp add: save_all_def)
qed (simp add: save_all_def)

lemma accepted_lock:
  assumes "fst (SaveLock H t l st) = None"
  shows "\<exists>s'. snd (SaveLock H t l st) = Some s' \<and>
    map_of (ls_locks s') (lock_key H (t, l)) = Some (Lock_Normalized H t l)"
  using assms by (auto simp: SaveLock_def Let_def update_conv' split: option.splits)

lemma saved_lock_is_kept:
  assumes "fst (SaveLock H t l st) = None" and "\<forall>x \<in> set later. lock_key H x \<noteq> lock_key H (t, l)"
  shows "\<exists>s'. save_all H ((t, l) # later) st = Some s' \<and>
    Lock_Normalized H t l \<in> snd ` set (ls_locks s')"
proof -
  obtain s1 where s1: "snd (SaveLock H t l st) = Some s1"
    and "map_of (ls_locks s1) (lock_key H (t, l)) = Some (Lock_Normalized H t l)"
    using accepted_lock [OF assms(1)] by auto
  from kept_lock [OF this(2) assms(2)] obtain s' where "save_all H later (Some s1) = Some s'"
    and "map_of (ls_locks s') (lock_key H (t, l)) = Some (Lock_Normalized H t l)" by auto
  with s1 show ?thesis by (force simp: save_all_def dest: map_of_SomeD)
qed

lemma lock_status_active [simp]: "lock_status ''active'' = ''active''"
  by (simp add: lock_status_def)

text \<open>The filter of a check, and what the listing returns for it.\<close>

definition check_filter :: "ProposedState \<Rightarrow> LockFilter" where
  "check_filter p = \<lparr>lf_Scope = ps_Scope p, lf_Dimension = ps_Dimension p, lf_Subject = ps_Subject p,
     lf_Status = ''active''\<rparr>"

lemma listed_lock:
  assumes "l \<in> snd ` set (ls_locks s)" and "lock_matches f (Lock_Normalized H now l)"
  shows "\<exists>ls. ListLocks H now (Some s) f = Inr ls \<and> Lock_Normalized H now l \<in> set ls"
  using assms by (force simp: ListLocks_def)

lemma same_state_matches:
  assumes "same_state (ProposedState_Normalized (ProposedState_Normalized p)) (Lock_Normalized H now l)"
    and "TrimSpace (lk_Subject l) \<noteq> []" 
  shows "lock_matches (check_filter (ProposedState_Normalized p)) (Lock_Normalized H now l)"
  using assms by (simp add: same_state_def lock_matches_def check_filter_def field_field)

lemma in_DetectConflicts:
  "c \<in> set (DetectConflicts H now PF existing p) \<longleftrightarrow>
     c \<in> set (policy_conflicts (ProposedState_Normalized p)) \<or>
     (\<exists>l \<in> set existing. same_state (ProposedState_Normalized p) (Lock_Normalized H now l) \<and>
        c \<in> set (lock_conflicts PF (ProposedState_Normalized p) (Lock_Normalized H now l)))"
  by (auto simp: DetectConflicts_def Let_def)

lemma sort_key_Nil [simp]: "sort_key f xs = [] \<longleftrightarrow> xs = []"
  by (metis length_0_conv length_sort)

lemma DetectConflicts_Nil:
  "DetectConflicts H now PF existing p = [] \<longleftrightarrow>
     policy_conflicts (ProposedState_Normalized p) = [] \<and>
     (\<forall>l \<in> set existing. same_state (ProposedState_Normalized p) (Lock_Normalized H now l) \<longrightarrow>
        lock_conflicts PF (ProposedState_Normalized p) (Lock_Normalized H now l) = [])"
  by (auto simp: DetectConflicts_def Let_def)

lemma severity_words [simp]:
  "normalizeSeverity ''critical'' = ''critical''" "normalizeSeverity ''high'' = ''high''"
  "normalizeSeverity ''medium'' = ''medium''"
  by code_simp+

lemma reason_words [simp]:
  "RedactString (ToLower (TrimSpace ''state_hash_mismatch'')) 128 = ''state_hash_mismatch''"
  "RedactString (ToLower (TrimSpace ''sensitive_operation_without_policy'')) 128 = ''sensitive_operation_without_policy''"
  "RedactString (ToLower (TrimSpace ''policy_absent_non_low_risk'')) 128 = ''policy_absent_non_low_risk''"
  "RedactString (ToLower (TrimSpace ''permission_scope_widened'')) 128 = ''permission_scope_widened''"
  "RedactString (ToLower (TrimSpace ''validation_result_downgrade'')) 128 = ''validation_result_downgrade''"
  "RedactString (ToLower (TrimSpace ''cost_budget_exceeded'')) 128 = ''cost_budget_exceeded''"
  "RedactString (ToLower (TrimSpace ''research_claim_hash_changed'')) 128 = ''research_claim_hash_changed''"
  by code_simp+

lemma lock_conflict_fields [simp]:
  "cf_Severity (lock_conflict p l s r refs rem) = normalizeSeverity s"
  "cf_ReasonCode (lock_conflict p l s r refs rem) = RedactString (ToLower (TrimSpace r)) 128"
  "cf_ExistingHash (lock_conflict p l s r refs rem) = field (lk_StateHash l) 256"
  "cf_ProposedHash (lock_conflict p l s r refs rem) = field (ps_StateHash p) 256"
  "cf_Severity (policy_conflict p s r) = normalizeSeverity s"
  "cf_ReasonCode (policy_conflict p s r) = RedactString (ToLower (TrimSpace r)) 128"
  by (simp_all add: lock_conflict_def policy_conflict_def newConflict_def)

text \<open>The outcome of a check of a valid proposal for which the store answers.\<close>

lemma Check_answered:
  fixes PF :: "string \<Rightarrow> 'f::ord option"
  assumes "ProposedState_Validate (ProposedState_Normalized p) = None"
    and "store = None \<and> locks = [] \<or>
      (\<exists>f. store = Some f \<and> f (check_filter (ProposedState_Normalized p)) = Inr locks)"
    and cs: "cs = DetectConflicts H now PF locks (ProposedState_Normalized p)"
  shows "ck_Status (Evaluator_Check H now PF store p) = (if cs = [] then ''allowed'' else ''conflict'')"
    and "ck_Conflicts (Evaluator_Check H now PF store p) = cs"
    and "ck_Paradox (Evaluator_Check H now PF store p) =
      (if cs = [] then None else Some (buildParadoxReport H now (ProposedState_Normalized p) cs))"
  using assms by (auto simp: Evaluator_Check_def check_filter_def plain_check_def Let_def)

lemma Check_rejected:
  assumes "ProposedState_Validate (ProposedState_Normalized p) \<noteq> None"
  shows "ck_Status (Evaluator_Check H now PF store p) = ''invalid''"
  using assms by (auto simp: Evaluator_Check_def plain_check_def Let_def)

lemma stored_lock_conflicts:
  assumes same: "NormalizeScope (lk_Scope l) = NormalizeScope (ps_Scope p)"
      "NormalizeDimension (lk_Dimension l) = NormalizeDimension (ps_Dimension p)"
      "field (lk_Subject l) 256 = field (ps_Subject p) 256"
    and "lock_status (lk_Status l) = ''active''" and "TrimSpace (lk_Subject l) \<noteq> []"
    and "TrimSpace (field (lk_StateHash l) 256) \<noteq> TrimSpace (field (ps_StateHash p) 256)"
    and "Lock_Normalized H t l \<in> snd ` set (ls_locks s)"
  shows "\<exists>locks. ListLocks H now (Some s) (check_filter (ProposedState_Normalized p)) = Inr locks \<and>
    (\<exists>c \<in> set (DetectConflicts H now PF locks (ProposedState_Normalized p)).
       cf_ReasonCode c = ''state_hash_mismatch'' \<and> cf_Severity c = ''high'' \<and>
       cf_ExistingHash c = TrimSpace (field (lk_StateHash l) 256))"
proof -
  let ?n = "Lock_Normalized H t l" and ?p = "ProposedState_Normalized p"
  have "same_state (ProposedState_Normalized ?p) (Lock_Normalized H now ?n)"
    using assms by (simp add: same_state_def field_field)
  then have "lock_matches (check_filter ?p) (Lock_Normalized H now ?n)"
    by (rule same_state_matches) (use assms(5) in simp)
  from listed_lock [OF assms(7) this] obtain locks
    where locks: "ListLocks H now (Some s) (check_filter ?p) = Inr locks" "Lock_Normalized H now ?n \<in> set locks"
    by auto
  let ?l = "Lock_Normalized H now (Lock_Normalized H now ?n)" and ?q = "ProposedState_Normalized ?p"
  let ?c = "lock_conflict ?q ?l ''high'' ''state_hash_mismatch'' (lk_EvidenceRefs ?l)
      [''release or supersede existing lock'', ''change scope to avoid collision'', ''split task into compatible steps'']"
  have "same_state ?q ?l" using assms by (simp add: same_state_def field_field)
  moreover have "?c \<in> set (lock_conflicts PF ?q ?l)"
    using assms(6) by (simp add: lock_conflicts_def field_field)
  ultimately have "?c \<in> set (DetectConflicts H now PF locks ?p)"
    using locks(2) unfolding in_DetectConflicts by blast
  moreover have "cf_ExistingHash ?c = TrimSpace (field (lk_StateHash l) 256)" by (simp add: field_field)
  ultimately show ?thesis using locks(1) by (intro exI conjI) (auto intro!: bexI [where x = ?c])
qed

lemma valid_lock_fields:
  assumes "fst (SaveLock H t l st) = None"
  shows "TrimSpace (lk_Subject l) \<noteq> []" "TrimSpace (lk_StateHash l) \<noteq> []"
    "NormalizeScope (lk_Scope l) \<noteq> ''unknown''" "NormalizeDimension (lk_Dimension l) \<noteq> ''unknown''"
  using assms by (auto simp: SaveLock_def Lock_Validate_def Let_def split: option.splits if_splits)

text \<open>
  C20. A saved lock protects its state. Once \<open>SaveLock\<close> has accepted an active lock, and whatever is
  saved later under other identifiers, \<open>Check\<close> never allows a proposal for the same scope,
  dimension and subject whose state hash differs; a valid proposal gets the status conflict, with
  a high-severity conflict that names the locked hash and a paradox report. The expiry of the lock
  plays no part: nothing in the package compares \<open>ExpiresAt\<close> with the clock.
\<close>

theorem locked_state_is_protected:
  assumes "fst (SaveLock H t l st) = None"
    and "\<forall>x \<in> set later. lk_ID (Lock_Normalized H (fst x) (snd x)) \<noteq> lk_ID (Lock_Normalized H t l)"
    and "lk_Status l = ''active''"
    and "NormalizeScope (lk_Scope l) = NormalizeScope (ps_Scope p)"
    and "NormalizeDimension (lk_Dimension l) = NormalizeDimension (ps_Dimension p)"
    and "field (lk_Subject l) 256 = field (ps_Subject p) 256"
    and "TrimSpace (field (lk_StateHash l) 256) \<noteq> TrimSpace (field (ps_StateHash p) 256)"
  shows "let st' = fold (\<lambda>x st. snd (SaveLock H (fst x) (snd x) st)) ((t, l) # later) st;
             r = Evaluator_Check H now PF (Some (ListLocks H now st')) p
         in ck_Status r = (if ProposedState_Validate (ProposedState_Normalized p) = None then ''conflict'' else ''invalid'') \<and>
            (ck_Status r = ''conflict'' \<longrightarrow> ck_Paradox r \<noteq> None \<and>
               (\<exists>c \<in> set (ck_Conflicts r). cf_ReasonCode c = ''state_hash_mismatch'' \<and> cf_Severity c = ''high'' \<and>
                  cf_ExistingHash c = TrimSpace (field (lk_StateHash l) 256)))"
proof -
  have "\<forall>x \<in> set later. lock_key H x \<noteq> lock_key H (t, l)" using assms(2) by simp
  from saved_lock_is_kept [OF assms(1) this] obtain s'
    where s': "save_all H ((t, l) # later) st = Some s'" "Lock_Normalized H t l \<in> snd ` set (ls_locks s')"
    by auto
  have "lock_status (lk_Status l) = ''active''" by (simp add: assms(3) lock_status_def)
  from stored_lock_conflicts [OF assms(4-6) this valid_lock_fields(1) [OF assms(1)] assms(7) s'(2)]
  obtain locks c where locks: "ListLocks H now (Some s') (check_filter (ProposedState_Normalized p)) = Inr locks"
    and c: "c \<in> set (DetectConflicts H now PF locks (ProposedState_Normalized p))"
      "cf_ReasonCode c = ''state_hash_mismatch''" "cf_Severity c = ''high''"
      "cf_ExistingHash c = TrimSpace (field (lk_StateHash l) 256)"
    by metis
  have ne: "DetectConflicts H now PF locks (ProposedState_Normalized p) \<noteq> []" using c(1) by auto
  let ?f = "ListLocks H now (Some s')"
  show ?thesis
  proof (cases "ProposedState_Validate (ProposedState_Normalized p)")
    case None
    then have "ck_Status (Evaluator_Check H now PF (Some ?f) p) = ''conflict''"
      "ck_Conflicts (Evaluator_Check H now PF (Some ?f) p) = DetectConflicts H now PF locks (ProposedState_Normalized p)"
      "ck_Paradox (Evaluator_Check H now PF (Some ?f) p) \<noteq> None"
      using Check_answered [OF None, of "Some ?f" locks _ H now PF] locks ne by simp_all
    with s'(1) c None show ?thesis by (auto simp: save_all_def Let_def)
  next
    case (Some err)
    with s'(1) Check_rejected [of p H now PF "Some ?f"] show ?thesis by (simp add: save_all_def Let_def)
  qed
qed

text \<open>
  C22. What a check allows, and nothing else. With a store that answers, a valid proposal is allowed
  exactly if its policy suffices for its risk (low risk needs none, a sensitive operation a policy
  that matched or is enforced, any other risk one that is not absent) and every active lock on the
  same state has its very hash, except that a validation result whose hash contains both pass and
  fail conflicts even with itself unless it is overridden. In the other cases the status is conflict.
\<close>

theorem check_verdict:
  fixes PF :: "string \<Rightarrow> 'f::ord option"
  assumes valid: "ProposedState_Validate (ProposedState_Normalized p) = None"
    and answers: "store \<lparr>lf_Scope = NormalizeScope (ps_Scope p), lf_Dimension = NormalizeDimension (ps_Dimension p),
      lf_Subject = field (ps_Subject p) 256, lf_Status = ''active''\<rparr> = Inr locks"
    and irrefl: "\<forall>x :: 'f. \<not> x < x"
  defines "q \<equiv> ProposedState_Normalized (ProposedState_Normalized p)"
  shows "ck_Status (Evaluator_Check H now PF (Some store) p) =
    (if (ps_Risk q = ''low'' \<or> \<not> IsPolicyAbsent (ps_PolicyState q)) \<and>
        (ps_Risk q = ''sensitive'' \<longrightarrow> AllowsSensitiveOperation (ps_PolicyState q)) \<and>
        (\<forall>l \<in> set locks. same_state q (Lock_Normalized H now l) \<longrightarrow>
           lk_StateHash (Lock_Normalized H now l) = ps_StateHash q \<and>
           \<not> (ps_Dimension q = ''validation_result'' \<and>
              validationDowngrade (ps_StateHash q) (ps_StateHash q) (ps_Metadata q)))
     then ''allowed'' else ''conflict'')"
proof -
  have policy: "policy_conflicts q = [] \<longleftrightarrow>
      (ps_Risk q = ''low'' \<or> \<not> IsPolicyAbsent (ps_PolicyState q)) \<and>
      (ps_Risk q = ''sensitive'' \<longrightarrow> AllowsSensitiveOperation (ps_PolicyState q))"
    by (auto simp: policy_conflicts_def Let_def containsReason_def)
  have lock: "lock_conflicts PF q l = [] \<longleftrightarrow> lk_StateHash l = ps_StateHash q \<and>
      \<not> (ps_Dimension q = ''validation_result'' \<and>
         validationDowngrade (ps_StateHash q) (ps_StateHash q) (ps_Metadata q))" for l
    using irrefl by (auto simp: lock_conflicts_def scopeWidened_def costBudgetExceeded_def
        researchClaimChangedAfterValidation_def split: option.splits)
  let ?d = "DetectConflicts H now PF locks (ProposedState_Normalized p)"
  have "?d = [] \<longleftrightarrow> policy_conflicts q = [] \<and>
      (\<forall>l \<in> set locks. same_state q (Lock_Normalized H now l) \<longrightarrow> lock_conflicts PF q (Lock_Normalized H now l) = [])"
    by (simp only: DetectConflicts_Nil q_def)
  moreover have "ck_Status (Evaluator_Check H now PF (Some store) p) = (if ?d = [] then ''allowed'' else ''conflict'')"
    by (rule Check_answered(1) [OF valid _ refl]) (use answers in \<open>simp add: check_filter_def\<close>)
  ultimately show ?thesis by (simp only: policy lock conj_assoc)
qed

section \<open>Paradox reports\<close>

lemma normalizeSeverity_idem [simp]: "normalizeSeverity (normalizeSeverity s) = normalizeSeverity s"
proof -
  have "normalizeSeverity ''unknown'' = ''unknown''" by code_simp
  then show ?thesis
    using one_of_range [of severities "''unknown''" s]
    by (auto simp: normalizeSeverity_def one_of_member)
qed

lemma paradox_words [simp]:
  "normalizeParadoxStatus ''confirmed'' = ''confirmed''" "normalizeParadoxStatus ''possible'' = ''possible''"
  by code_simp+

lemma conflict_severities:
  "c \<in> set (DetectConflicts H now PF existing p) \<Longrightarrow> normalizeSeverity (cf_Severity c) = cf_Severity c"
  by (auto simp: in_DetectConflicts policy_conflicts_def lock_conflicts_def Let_def split: if_splits)

lemma critical_rank: "4 - severityRank s = 0 \<longleftrightarrow> normalizeSeverity s = ''critical''"
  by (simp add: severityRank_def Let_def)

lemma sorted_hd_least: "sorted (map f xs) \<Longrightarrow> x \<in> set xs \<Longrightarrow> f (hd xs) \<le> (f x :: 'a::linorder)"
  by (cases xs) auto

lemma first_conflict_critical:
  "hasCriticalConflict (DetectConflicts H now PF existing p) \<longleftrightarrow>
     DetectConflicts H now PF existing p \<noteq> [] \<and>
     cf_Severity (hd (DetectConflicts H now PF existing p)) = ''critical''"
proof -
  let ?d = "DetectConflicts H now PF existing p"
  have sorted: "sorted (map conflict_key ?d)" by (simp add: DetectConflicts_def Let_def)
  have "cf_Severity (hd ?d) = ''critical''" if "c \<in> set ?d" "normalizeSeverity (cf_Severity c) = ''critical''" for c
  proof -
    have "conflict_key (hd ?d) \<le> conflict_key c" by (rule sorted_hd_least [OF sorted that(1)])
    then have "4 - severityRank (cf_Severity (hd ?d)) \<le> 4 - severityRank (cf_Severity c)"
      by (auto simp: conflict_key_def less_eq_prod_def)
    moreover have "4 - severityRank (cf_Severity c) = 0" using that(2) by (simp only: critical_rank)
    ultimately have "normalizeSeverity (cf_Severity (hd ?d)) = ''critical''"
      by (simp add: critical_rank [symmetric])
    moreover have "hd ?d \<in> set ?d" using that(1) by (metis hd_in_set empty_iff list.set(1))
    ultimately show ?thesis using conflict_severities by metis
  qed
  moreover have "hasCriticalConflict ?d" if "?d \<noteq> []" "cf_Severity (hd ?d) = ''critical''"
    unfolding hasCriticalConflict_def list_ex_iff
    by (rule bexI [where x = "hd ?d"]) (use that in simp_all)
  moreover have "?d \<noteq> []" if "hasCriticalConflict ?d" using that by (auto simp: hasCriticalConflict_def)
  ultimately show ?thesis unfolding hasCriticalConflict_def list_ex_iff by blast
qed

lemma report_fields [simp]:
  "pr_Status (buildParadoxReport H now p cs) = (if hasCriticalConflict cs then ''confirmed'' else ''possible'')"
  "pr_PolicyState (buildParadoxReport H now p cs) = NormalizePolicyState (ps_PolicyState p)"
  "pr_Risk (buildParadoxReport H now p cs) = NormalizeRisk (ps_Risk p)"
  by (simp_all add: buildParadoxReport_def ParadoxReport_Normalized_def Let_def)

lemma report_id:
  "pr_ID (buildParadoxReport H now p cs) = ''paradox_'' @ StableHash H
     [field (paradoxSummaryForStatus (if hasCriticalConflict cs then ''confirmed'' else ''possible'')) 256,
      if hasCriticalConflict cs then ''confirmed'' else ''possible'',
      NormalizePolicyState (ps_PolicyState p), NormalizeRisk (ps_Risk p)]"
  by (simp add: buildParadoxReport_def ParadoxReport_Normalized_def Let_def)

text \<open>A paradox report of a check.\<close>

lemma checked_paradox:
  assumes "ck_Paradox (Evaluator_Check H now PF store p) = Some r"
  shows "\<exists>locks. ck_Conflicts (Evaluator_Check H now PF store p) = DetectConflicts H now PF locks (ProposedState_Normalized p)
    \<and> ck_Conflicts (Evaluator_Check H now PF store p) \<noteq> [] 
    \<and> r = buildParadoxReport H now (ProposedState_Normalized p) (ck_Conflicts (Evaluator_Check H now PF store p))"
  using assms
  by (auto simp: Evaluator_Check_def plain_check_def Let_def split: option.splits sum.splits if_splits)

lemma sensitive_conflict:
  assumes "NormalizeRisk (ps_Risk p) = ''sensitive''" and "\<not> AllowsSensitiveOperation (ps_PolicyState p)"
  shows "hasCriticalConflict (DetectConflicts H now PF locks (ProposedState_Normalized p))"
proof -
  have "\<exists>c. c \<in> set (policy_conflicts (ProposedState_Normalized (ProposedState_Normalized p)))
      \<and> cf_Severity c = ''critical''"
    using assms NormalizeRisk_idem [of "ps_Risk p"]
    by (auto simp: policy_conflicts_def AllowsSensitiveOperation_def Let_def containsReason_def)
  then obtain c where "c \<in> set (DetectConflicts H now PF locks (ProposedState_Normalized p))"
    "cf_Severity c = ''critical''" unfolding in_DetectConflicts by blast
  then show ?thesis unfolding hasCriticalConflict_def list_ex_iff by (metis conflict_severities)
qed

text \<open>
  A sensitive operation needs a policy. For any store that answers, a valid proposal whose risk
  is sensitive and whose policy neither matched nor is enforced (an audit-only policy included) is
  answered with the status conflict, its first conflict is critical, and the paradox is confirmed.
\<close>

theorem sensitive_needs_policy:
  fixes PF :: "string \<Rightarrow> 'f::ord option"
  assumes "ProposedState_Validate (ProposedState_Normalized p) = None"
    and "NormalizeRisk (ps_Risk p) = ''sensitive''" and "\<not> AllowsSensitiveOperation (ps_PolicyState p)"
    and "\<And>f. \<exists>locks. answer f = Inr locks"
  shows "ck_Status (Evaluator_Check H now PF (Some answer) p) = ''conflict'' \<and>
    cf_Severity (hd (ck_Conflicts (Evaluator_Check H now PF (Some answer) p))) = ''critical'' \<and>
    map_option pr_Status (ck_Paradox (Evaluator_Check H now PF (Some answer) p)) = Some ''confirmed''"
proof -
  obtain locks where "answer (check_filter (ProposedState_Normalized p)) = Inr locks" using assms(4) by blast
  note c = Check_answered [OF assms(1), of "Some answer" locks _ H now PF, OF _ refl]
  let ?d = "DetectConflicts H now PF locks (ProposedState_Normalized p)"
  have crit: "hasCriticalConflict ?d" by (rule sensitive_conflict [OF assms(2,3)])
  then have "?d \<noteq> []" "cf_Severity (hd ?d) = ''critical''" by (auto simp: first_conflict_critical)
  with crit show ?thesis
    using c \<open>answer (check_filter (ProposedState_Normalized p)) = Inr locks\<close> by simp
qed

text \<open>
  A paradox is reported exactly for the conflicts of the check, in the order of their severity,
  and it is confirmed (no valid path) exactly if the first of them is critical, and possible
  otherwise.
\<close>

theorem paradox_confirmed_iff_critical:
  assumes "ck_Paradox (Evaluator_Check H now PF store p) = Some r"
  shows "ck_Conflicts (Evaluator_Check H now PF store p) \<noteq> [] \<and>
    sorted (map (\<lambda>c. 4 - severityRank (cf_Severity c)) (ck_Conflicts (Evaluator_Check H now PF store p))) \<and>
    pr_Status r = (if cf_Severity (hd (ck_Conflicts (Evaluator_Check H now PF store p))) = ''critical''
      then ''confirmed'' else ''possible'')"
proof -
  obtain locks where c: "ck_Conflicts (Evaluator_Check H now PF store p) = DetectConflicts H now PF locks (ProposedState_Normalized p)"
    "ck_Conflicts (Evaluator_Check H now PF store p) \<noteq> []"
    "r = buildParadoxReport H now (ProposedState_Normalized p) (ck_Conflicts (Evaluator_Check H now PF store p))"
    using checked_paradox [OF assms] by blast
  have "sorted (map conflict_key (DetectConflicts H now PF locks (ProposedState_Normalized p)))"
    by (simp add: DetectConflicts_def Let_def)
  then have "sorted (map (fst \<circ> conflict_key) (DetectConflicts H now PF locks (ProposedState_Normalized p)))"
    by (auto simp: sorted_map less_eq_prod_def elim!: sorted_wrt_mono_rel [rotated])
  then show ?thesis
    using c by (simp add: first_conflict_critical conflict_key_def comp_def)
qed

section \<open>Storing locks and paradox reports\<close>

text \<open>What is assumed of SHA-256 in hexadecimal form.\<close>

definition hex_digest :: "Codec \<Rightarrow> bool" where
  "hex_digest H \<longleftrightarrow> (\<forall>s. c_Sha256Hex H s \<noteq> [] \<and> length (c_Sha256Hex H s) \<le> 64 \<and>
     set (c_Sha256Hex H s) \<subseteq> set ''0123456789abcdef'')"

lemma hex_solid: "\<forall>c \<in> set ''0123456789abcdef''. solid c"
  by code_simp

lemma hex_digest_trim:
  assumes "hex_digest H" and "p = [] \<or> solid (hd p)"
  shows "TrimSpace (p @ StableHash H xs) = p @ StableHash H xs"
proof (rule TrimSpace_solid)
  let ?h = "StableHash H xs"
  have h: "?h \<noteq> []" "set ?h \<subseteq> set ''0123456789abcdef''"
    using assms(1) by (simp_all add: hex_digest_def StableHash_def)
  then show "p @ ?h \<noteq> []" by simp
  have "hd ?h \<in> set ?h" "last ?h \<in> set ?h" using h(1) by simp_all
  with h(2) hex_solid have "solid (hd ?h)" "solid (last ?h)" by blast+
  then show "solid (hd (p @ ?h))" "solid (last (p @ ?h))" using h(1) assms(2) by (auto simp: hd_append)
qed

lemma hex_digest_field:
  assumes "hex_digest H" and "p = [] \<or> solid (hd p)" and "length p \<le> 64" and "128 \<le> n"
  shows "field (p @ StableHash H xs) n = p @ StableHash H xs"
proof -
  have "length (StableHash H xs) \<le> 64" using assms(1) by (simp add: hex_digest_def StableHash_def)
  with assms show ?thesis
    by (simp add: field_def RedactString_def hex_digest_trim Let_def)
qed

abbreviation paradox_key :: "Codec \<Rightarrow> instant \<times> ParadoxReport \<Rightarrow> string" where
  "paradox_key H x \<equiv> pr_ID (ParadoxReport_Normalized H (fst x) (snd x))"

interpretation paradox_table: keyed_store "\<lambda>x. present (SaveParadox H (fst x) (snd x))"
  "\<lambda>k s. LoadParadox H k (Some s)"
  "\<lambda>x. ParadoxReport_Validate H (fst x) (ParadoxReport_Normalized H (fst x) (snd x))" "paradox_key H"
  "\<lambda>x. ParadoxReport_Normalized H (fst x) (snd x)" for H
  by unfold_locales
    (auto simp: SaveParadox_def LoadParadox_def Let_def update_conv' present_def split: option.splits)

lemma present_step: "snd (f (Some s)) \<noteq> None \<Longrightarrow> snd (f (Some s)) = Some (snd (present f s))"
  by (auto simp: present_def split: prod.splits)

text \<open>
  A saved lock is loaded as it was normalised, by its identifier and whatever is saved later
  under others, provided that the identifier has no space at its ends (one that is cut at 128 bytes
  can have one, and is then never found).
\<close>

theorem saved_lock_is_loaded:
  assumes "fst (SaveLock H t l (Some s)) = None"
    and "TrimSpace (lk_ID (Lock_Normalized H t l)) = lk_ID (Lock_Normalized H t l)"
    and "\<forall>x \<in> set later. lk_ID (Lock_Normalized H (fst x) (snd x)) \<noteq> lk_ID (Lock_Normalized H t l)"
  shows "LoadLock H (lk_ID (Lock_Normalized H t l))
      (fold (\<lambda>x st. snd (SaveLock H (fst x) (snd x) st)) ((t, l) # later) (Some s)) =
    Inr (Lock_Normalized H t l)"
proof -
  let ?k = "lk_ID (Lock_Normalized H t l)"
  have refused: "lock_refused H (t, l) = None"
    using assms(1) by (auto simp: SaveLock_def Let_def split: option.splits)
  have "find (lock_table.saved H ?k) (rev later) = None"
    using assms(2,3) by (auto simp: find_None_iff lock_table.saved_def)
  moreover have "lock_table.saved H ?k (t, l)"
    using refused assms(2) by (simp add: lock_table.saved_def)
  ultimately have "LoadLock H ?k (Some (fold (\<lambda>x s. snd (present (SaveLock H (fst x) (snd x)) s)) ((t, l) # later) s))
      = Inr (Lock_Normalized H t l)"
    unfolding fold.simps comp_apply lock_table.get_after_puts
    using lock_table.get_put [of H ?k "(t, l)" s] by simp
  then show ?thesis
    unfolding fold_present [where f = "\<lambda>x. SaveLock H (fst x) (snd x)", OF saves_present(1)] .
qed

text \<open>
  The identifier of a paradox report does not depend on what the paradox is about: it hashes the
  summary, the status, the policy and the risk only. So the reports of any two checks with the same
  outcome, policy state and risk share an identifier, whatever their scopes, subjects, hashes and
  conflicts, and saving the second one replaces the first.
\<close>

theorem paradox_ids_collide:
  assumes "ck_Paradox (Evaluator_Check H now1 PF store1 p1) = Some r1"
    and "ck_Paradox (Evaluator_Check H now2 PF store2 p2) = Some r2"
    and "pr_Status r1 = pr_Status r2"
    and "NormalizePolicyState (ps_PolicyState p1) = NormalizePolicyState (ps_PolicyState p2)"
    and "NormalizeRisk (ps_Risk p1) = NormalizeRisk (ps_Risk p2)"
    and "hex_digest H"
    and "fst (SaveParadox H t r2 (Some s)) = None"
  shows "pr_ID r1 = pr_ID r2 \<and>
    LoadParadox H (pr_ID r1) (snd (SaveParadox H t r2 (Some s))) = Inr (ParadoxReport_Normalized H t r2)"
proof -
  obtain cs1 where r1: "r1 = buildParadoxReport H now1 (ProposedState_Normalized p1) cs1"
    using checked_paradox [OF assms(1)] by blast
  obtain cs2 where r2: "r2 = buildParadoxReport H now2 (ProposedState_Normalized p2) cs2"
    using checked_paradox [OF assms(2)] by blast
  have crit: "hasCriticalConflict cs1 = hasCriticalConflict cs2"
    using assms(3) by (simp add: r1 r2 split: if_splits)
  have ids: "pr_ID r1 = pr_ID r2" using assms(4,5) by (simp add: r1 r2 report_id crit)
  obtain xs where xs: "pr_ID r2 = ''paradox_'' @ StableHash H xs" by (auto simp: r2 report_id)
  have solid: "solid CHR ''p''" by code_simp
  have "pr_ID r2 \<noteq> []" by (simp add: xs)
  moreover have trim: "TrimSpace (pr_ID r2) = pr_ID r2"
    unfolding xs by (rule hex_digest_trim [OF assms(6)]) (simp add: solid)
  moreover have "field (pr_ID r2) 128 = pr_ID r2"
    unfolding xs by (rule hex_digest_field [OF assms(6)]) (simp_all add: solid)
  ultimately have "pr_ID (ParadoxReport_Normalized H t r2) = pr_ID r2"
    by (simp add: ParadoxReport_Normalized_def Let_def)
  moreover note trim
  moreover have "ParadoxReport_Validate H t (ParadoxReport_Normalized H t r2) = None"
    using assms(7) by (auto simp: SaveParadox_def Let_def split: option.splits)
  ultimately have "LoadParadox H (pr_ID r2) (Some (snd (present (SaveParadox H t r2) s))) = Inr (ParadoxReport_Normalized H t r2)"
    by (intro paradox_table.get_same [where x = "(t, r2)", simplified]) simp_all
  then show ?thesis
    using ids present_step [of "SaveParadox H t r2" s] saves_present(2) by simp
qed

section \<open>Locks from harness reports and proposals from replays\<close>

definition plain_verdicts :: "Verdict list" where
  "plain_verdicts = [VerdictPass, VerdictFail, VerdictRegression, VerdictImprovement,
     VerdictInconclusive, VerdictInvalid]"

lemma verdict_words:
  "\<forall>v \<in> set plain_verdicts. verdict_of_word (ToLower (verdict_word v)) = v \<and>
     field (verdict_word v) 256 = verdict_word v \<and> TrimSpace (verdict_word v) = verdict_word v \<and>
     \<not> set (verdict_word v) \<subseteq> set ''0123456789abcdef''"
  by code_simp

lemma replay_proposal_fields:
  assumes "rr_Verdict result \<in> set plain_verdicts" and "TrimSpace subject \<noteq> []"
    and p: "p = ProposedStateFromReplayResult result scope subject policy"
  shows "ps_StateHash p = verdict_word (rr_Verdict result)" "ps_Scope p = NormalizeScope scope"
    "ps_Dimension p = ''validation_result''" "ps_Subject p = field subject 256"
proof -
  have dim: "NormalizeDimension ''validation_result'' = ''validation_result''" by code_simp
  show "ps_StateHash p = verdict_word (rr_Verdict result)" "ps_Scope p = NormalizeScope scope"
    "ps_Dimension p = ''validation_result''" "ps_Subject p = field subject 256"
    using assms(1,2) verdict_words
    by (simp_all add: p ProposedStateFromReplayResult_def normalizeReplayResult_def Let_def dim
        subjectOrFallback_def)
qed

lemma harness_lock_fields:
  assumes "LockFromHarnessReport H now report scope subject policy = (Some l, e)" and "hex_digest H"
  shows "lk_Scope l = NormalizeScope scope" "lk_Dimension l = ''validation_result''"
    "lk_Subject l = field subject 256" "lk_Status l = ''active''" "TrimSpace subject \<noteq> []"
    "\<exists>xs. lk_StateHash l = StableHash H xs"
proof -
  have dim: "NormalizeDimension ''validation_result'' = ''validation_result''" by code_simp
  show "lk_Scope l = NormalizeScope scope" "lk_Dimension l = ''validation_result''"
    "lk_Subject l = field subject 256" "lk_Status l = ''active''" "TrimSpace subject \<noteq> []"
    "\<exists>xs. lk_StateHash l = StableHash H xs"
    using assms hex_digest_field [OF assms(2), of "[]"]
    by (auto simp: LockFromHarnessReport_def Let_def dim lock_status_def split: if_splits)
qed


lemma ToLower_hex: "set s \<subseteq> set ''0123456789abcdef'' \<Longrightarrow> ToLower s = s"
proof (induction s)
  case (Cons c s)
  have hex: "\<forall>c \<in> set ''0123456789abcdef''. lower_byte c = c \<and> c \<noteq> CHR 0xE2 \<and> c \<noteq> CHR 0xC4" by code_simp
  with Cons.prems have "lower_byte c = c" "c \<noteq> CHR 0xE2" "c \<noteq> CHR 0xC4" by auto
  with Cons show ?case by (simp add: ToLower_def lower_wide_def)
qed (simp add: ToLower_def)

lemma hash_words:
  assumes "hex_digest H"
  shows "\<not> validationDowngrade (StableHash H xs) h m"
proof -
  have set: "set (StableHash H xs) \<subseteq> set ''0123456789abcdef''"
    using assms by (simp add: hex_digest_def StableHash_def)
  have "CHR ''p'' \<notin> set ''0123456789abcdef''" by code_simp
  with set have "\<not> sublist ''pass'' (StableHash H xs)" by (auto simp: sublist_def)
  then show ?thesis
    using ToLower_hex [OF set] hex_digest_trim [OF assms, of "[]" xs]
    by (simp add: validationDowngrade_def)
qed

lemma downgrade_reason:
  "c \<in> set (lock_conflicts PF q l) \<Longrightarrow> cf_ReasonCode c = ''validation_result_downgrade'' \<Longrightarrow>
     validationDowngrade (lk_StateHash l) (ps_StateHash q) (ps_Metadata q)"
  "c \<in> set (policy_conflicts q) \<Longrightarrow> cf_ReasonCode c \<noteq> ''validation_result_downgrade''"
  by (auto simp: lock_conflicts_def policy_conflicts_def Let_def split: if_splits)

lemma downgrade_conflict:
  assumes "c \<in> set (DetectConflicts H now PF [l] p)"
  shows "cf_ReasonCode c = ''validation_result_downgrade'' \<Longrightarrow>
    validationDowngrade (lk_StateHash (Lock_Normalized H now l)) (ps_StateHash (ProposedState_Normalized p))
      (ps_Metadata (ProposedState_Normalized p))"
  using assms downgrade_reason unfolding in_DetectConflicts by (metis list.set_intros(1) set_ConsD empty_iff list.set(1))

text \<open>
  The lock that \<open>LockFromHarnessReport\<close> makes holds a hash, and the proposal that
  \<open>ProposedStateFromReplayResult\<close> makes for the same scope and subject holds the word of the
  verdict. So they conflict whatever the harness and the replay say: even a replay that passes after
  a harness that passed is a hash mismatch, and the downgrade of a passed validation to a failed one
  is never recognised as such.
\<close>

theorem harness_lock_meets_replay:
  fixes PF :: "string \<Rightarrow> 'f::ord option"
  assumes "LockFromHarnessReport H t report scope subject policy = (Some l, e)"
    and "rr_Verdict result \<in> {VerdictPass, VerdictFail, VerdictRegression, VerdictImprovement,
      VerdictInconclusive, VerdictInvalid}"
    and "hex_digest H"
  shows "let cs = DetectConflicts H now PF [l] (ProposedStateFromReplayResult result scope subject policy2)
    in containsReason cs ''state_hash_mismatch'' \<and> \<not> containsReason cs ''validation_result_downgrade''"
proof -
  let ?p = "ProposedStateFromReplayResult result scope subject policy2"
  let ?cs = "DetectConflicts H now PF [l] ?p"
  let ?q = "ProposedState_Normalized ?p" and ?l = "Lock_Normalized H now l"
  have v: "rr_Verdict result \<in> set plain_verdicts" using assms(2) by (simp add: plain_verdicts_def)
  note l = harness_lock_fields [OF assms(1,3)]
  note p = replay_proposal_fields [OF v l(5) refl, of scope policy2]
  obtain xs where xs: "lk_StateHash l = StableHash H xs" using l(6) by blast
  have dim: "NormalizeDimension ''validation_result'' = ''validation_result''" by code_simp
  have lhash: "lk_StateHash ?l = StableHash H xs"
    using hex_digest_field [OF assms(3), of "[]" 256 xs] by (simp add: xs)
  have phash: "ps_StateHash ?q = verdict_word (rr_Verdict result)"
    using v verdict_words by (simp add: p)
  have "set (StableHash H xs) \<subseteq> set ''0123456789abcdef''"
    using assms(3) by (simp add: hex_digest_def StableHash_def)
  then have ne: "lk_StateHash ?l \<noteq> ps_StateHash ?q" using v verdict_words lhash phash by metis
  have same: "same_state ?q ?l" by (simp add: same_state_def l p dim)
  let ?c = "lock_conflict ?q ?l ''high'' ''state_hash_mismatch'' (lk_EvidenceRefs ?l)
      [''release or supersede existing lock'', ''change scope to avoid collision'', ''split task into compatible steps'']"
  have "?c \<in> set (lock_conflicts PF ?q ?l)" using ne by (simp add: lock_conflicts_def)
  then have "?c \<in> set ?cs" using same by (simp add: in_DetectConflicts)
  then have found: "containsReason ?cs ''state_hash_mismatch''"
    unfolding containsReason_def list_ex_iff by (rule bexI [rotated]) simp
  have "cf_ReasonCode c \<noteq> ''validation_result_downgrade''" if "c \<in> set ?cs" for c
    using downgrade_conflict [OF that] hash_words [OF assms(3)] lhash by auto
  then have "\<not> containsReason ?cs ''validation_result_downgrade''"
    unfolding containsReason_def list_ex_iff by blast
  with found show ?thesis by (simp only: Let_def simp_thms)
qed

section \<open>Witnesses\<close>

definition sample_lock :: Lock where
  "sample_lock = \<lparr>lk_ID = ''lock-1'', lk_Scope = ''workspace'', lk_Dimension = ''artifact'',
     lk_Subject = ''subject-a'', lk_StateHash = ''h1'', lk_Status = ''active'', lk_Source = ''manual'',
     lk_EvidenceRefs = [], lk_ValidationRefs = [], lk_PolicyState = ''policy_matched'',
     lk_CreatedAt = 5, lk_ExpiresAt = 6, lk_Metadata = []\<rparr>"

definition sample_proposal :: ProposedState where
  "sample_proposal = \<lparr>ps_Scope = ''workspace'', ps_Dimension = ''artifact'', ps_Subject = ''subject-a'',
     ps_StateHash = ''h2'', ps_PolicyState = ''policy_audit_only'', ps_Risk = ''sensitive'',
     ps_EvidenceRefs = [], ps_Metadata = []\<rparr>"

abbreviation no_budget :: "string \<Rightarrow> nat option" where
  "no_budget \<equiv> \<lambda>s. None"

lemma sample_lock_accepted: "fst (SaveLock sample_codec 7 sample_lock (Some NewMemoryStore)) = None"
  by code_simp

lemma sample_valid: "ProposedState_Validate (ProposedState_Normalized sample_proposal) = None"
  by code_simp

lemma sample_risk:
  "NormalizeRisk (ps_Risk sample_proposal) = ''sensitive''"
  "\<not> AllowsSensitiveOperation (ps_PolicyState sample_proposal)"
  by code_simp+

lemma sample_same_state:
  "lk_Status sample_lock = ''active''"
  "NormalizeScope (lk_Scope sample_lock) = NormalizeScope (ps_Scope sample_proposal)"
  "NormalizeDimension (lk_Dimension sample_lock) = NormalizeDimension (ps_Dimension sample_proposal)"
  "field (lk_Subject sample_lock) 256 = field (ps_Subject sample_proposal) 256"
  "TrimSpace (field (lk_StateHash sample_lock) 256) \<noteq> TrimSpace (field (ps_StateHash sample_proposal) 256)"
  by code_simp+

lemma locked_state_is_protected_witness:
  "ck_Status (Evaluator_Check sample_codec 9 no_budget
     (Some (ListLocks sample_codec 9 (snd (SaveLock sample_codec 7 sample_lock (Some NewMemoryStore)))))
     sample_proposal) = ''conflict''"
  using locked_state_is_protected [OF sample_lock_accepted _ sample_same_state, of "[]" 9 no_budget]
    sample_valid by (simp add: Let_def)

lemma check_verdict_witness:
  "ck_Status (Evaluator_Check sample_codec 9 no_budget (Some (\<lambda>f. Inr []))
     (sample_proposal\<lparr>ps_PolicyState := ''policy_matched''\<rparr>)) = ''allowed''"
proof -
  let ?p = "sample_proposal\<lparr>ps_PolicyState := ''policy_matched''\<rparr>"
  have valid: "ProposedState_Validate (ProposedState_Normalized ?p) = None" by code_simp
  have "\<not> IsPolicyAbsent (ps_PolicyState (ProposedState_Normalized (ProposedState_Normalized ?p)))"
    "AllowsSensitiveOperation (ps_PolicyState (ProposedState_Normalized (ProposedState_Normalized ?p)))"
    by code_simp+
  with check_verdict [OF valid, of "\<lambda>f. Inr []" "[]" sample_codec 9 no_budget] show ?thesis by simp
qed

lemma sensitive_needs_policy_witness:
  "ck_Status (Evaluator_Check sample_codec 9 no_budget (Some (\<lambda>f. Inr [])) sample_proposal) = ''conflict''"
  using sensitive_needs_policy [OF sample_valid sample_risk, of "\<lambda>f. Inr []" sample_codec 9 no_budget] by simp

lemma sample_paradox:
  assumes "p = sample_proposal \<or> p = sample_proposal\<lparr>ps_Subject := ''other''\<rparr>"
  shows "\<exists>cs. ck_Paradox (Evaluator_Check sample_codec 9 no_budget None p) =
    Some (buildParadoxReport sample_codec 9 (ProposedState_Normalized p) cs) \<and>
    ck_Conflicts (Evaluator_Check sample_codec 9 no_budget None p) = cs \<and>
    cs \<noteq> [] \<and> hasCriticalConflict cs \<and> cf_Severity (hd cs) = ''critical''"
proof -
  have "ProposedState_Validate (ProposedState_Normalized (sample_proposal\<lparr>ps_Subject := ''other''\<rparr>)) = None"
    by code_simp
  with sample_valid assms have valid: "ProposedState_Validate (ProposedState_Normalized p) = None" by auto
  let ?d = "DetectConflicts sample_codec 9 no_budget [] (ProposedState_Normalized p)"
  have crit: "hasCriticalConflict ?d"
    by (rule sensitive_conflict) (use assms sample_risk in auto)
  then have "?d \<noteq> []" "cf_Severity (hd ?d) = ''critical''" by (auto simp: first_conflict_critical)
  with crit Check_answered(2,3) [OF valid, of None "[]" ?d sample_codec 9 no_budget] show ?thesis by simp
qed

lemma paradox_confirmed_iff_critical_witness:
  "\<exists>r. ck_Paradox (Evaluator_Check sample_codec 9 no_budget None sample_proposal) = Some r \<and>
     pr_Status r = ''confirmed''"
proof -
  obtain r where r: "ck_Paradox (Evaluator_Check sample_codec 9 no_budget None sample_proposal) = Some r"
    "cf_Severity (hd (ck_Conflicts (Evaluator_Check sample_codec 9 no_budget None sample_proposal))) = ''critical''"
    using sample_paradox [of sample_proposal] by auto
  with paradox_confirmed_iff_critical [OF r(1)] show ?thesis by simp
qed

lemma saved_lock_is_loaded_witness:
  "LoadLock sample_codec ''lock-1'' (snd (SaveLock sample_codec 7 sample_lock (Some NewMemoryStore))) =
     Inr (Lock_Normalized sample_codec 7 sample_lock)"
proof -
  have "lk_ID (Lock_Normalized sample_codec 7 sample_lock) = ''lock-1'' \<and> TrimSpace ''lock-1'' = ''lock-1''"
    by code_simp
  then show ?thesis using saved_lock_is_loaded [OF sample_lock_accepted, of "[]"] by simp
qed

lemma sample_hex: "hex_digest sample_codec"
  by (simp add: hex_digest_def sample_codec_def)

lemma ParadoxReport_Normalized_fields:
  "pr_ID (ParadoxReport_Normalized H now r) \<noteq> []"
  "pr_Summary (ParadoxReport_Normalized H now r) = field (pr_Summary r) 256"
  "pr_Status (ParadoxReport_Normalized H now r) = normalizeParadoxStatus (pr_Status r)"
  "pr_StartedAt (ParadoxReport_Normalized H now r) = (if pr_StartedAt r = 0 then now else pr_StartedAt r)"
  by (simp_all add: ParadoxReport_Normalized_def IsZero_def Let_def del: field_Nil)

lemma built_summary:
  "pr_Summary (buildParadoxReport H now p cs) =
     field (paradoxSummaryForStatus (if hasCriticalConflict cs then ''confirmed'' else ''possible'')) 256"
  "pr_StartedAt (buildParadoxReport H now p cs) = now"
  unfolding buildParadoxReport_def Let_def by (simp_all add: ParadoxReport_Normalized_fields)

lemma built_report_accepted:
  assumes "now \<noteq> 0"
  shows "fst (SaveParadox H t (buildParadoxReport H now p cs) (Some s)) = None"
proof -
  have w: "TrimSpace (paradoxSummaryForStatus ''confirmed'') \<noteq> []"
    "TrimSpace (paradoxSummaryForStatus ''possible'') \<noteq> []"
    "normalizeParadoxStatus ''confirmed'' \<noteq> ''invalid''" "normalizeParadoxStatus ''possible'' \<noteq> ''invalid''"
    by code_simp+
  have "ParadoxReport_Validate H t (ParadoxReport_Normalized H t (buildParadoxReport H now p cs)) = None"
    unfolding ParadoxReport_Validate_def Let_def ParadoxReport_Normalized_fields built_summary IsZero_def
    using assms w by (simp add: ParadoxReport_Normalized_fields(1))
  then show ?thesis by (simp add: SaveParadox_def Let_def)
qed

lemma paradox_ids_collide_witness:
  "\<exists>r1 r2. ck_Paradox (Evaluator_Check sample_codec 9 no_budget None sample_proposal) = Some r1 \<and>
     ck_Paradox (Evaluator_Check sample_codec 9 no_budget None (sample_proposal\<lparr>ps_Subject := ''other''\<rparr>)) = Some r2 \<and>
     pr_ID r1 = pr_ID r2"
proof -
  let ?p2 = "sample_proposal\<lparr>ps_Subject := ''other''\<rparr>"
  obtain cs1 where r1: "ck_Paradox (Evaluator_Check sample_codec 9 no_budget None sample_proposal) =
      Some (buildParadoxReport sample_codec 9 (ProposedState_Normalized sample_proposal) cs1)" "hasCriticalConflict cs1"
    using sample_paradox [of sample_proposal] by auto
  obtain cs2 where r2: "ck_Paradox (Evaluator_Check sample_codec 9 no_budget None ?p2) =
      Some (buildParadoxReport sample_codec 9 (ProposedState_Normalized ?p2) cs2)" "hasCriticalConflict cs2"
    using sample_paradox [of ?p2] by auto
  from paradox_ids_collide [OF r1(1) r2(1) _ _ _ sample_hex built_report_accepted, of 9 NewMemoryStore]
  show ?thesis using r1 r2 by simp
qed

lemma harness_lock_meets_replay_witness:
  "\<exists>l result. rr_Verdict result = VerdictPass \<and> containsReason
     (DetectConflicts sample_codec 9 no_budget [l]
       (ProposedStateFromReplayResult result ''workspace'' ''a'' ''policy_matched'')) ''state_hash_mismatch''"
proof -
  define rep where "rep = (NewReport 5 ''h'' ''a'')\<lparr>hp_Status := ''pass''\<rparr>"
  let ?h = "LockFromHarnessReport sample_codec 7 rep ''workspace'' ''a'' ''policy_matched''"
  have "fst ?h \<noteq> None" unfolding rep_def by code_simp
  then obtain l e where l: "?h = (Some l, e)" by (cases ?h) auto
  define result where "result = (undefined :: Result)\<lparr>rr_Verdict := VerdictPass\<rparr>"
  have "rr_Verdict result = VerdictPass" by (simp add: result_def)
  with harness_lock_meets_replay [OF l, of result 9 no_budget "''policy_matched''"] sample_hex
  show ?thesis by (intro exI [of _ l] exI [of _ result]) (simp add: Let_def)
qed

end
