(* ===== verification/Profile.thy ===== *)
theory Profile
  imports Harness Evidence
begin

text \<open>
  The data of \<open>pkg/profile\<close>: modes, surfaces of authority, capabilities, and the configuration of an
  operator profile with its defaults and its identifier. Named string types are strings, and their
  tables are lists of words; a Go map is an association list in the order of one iteration.
\<close>

datatype ProfileError =
    ErrInvalidConfig string
  | ErrCustomProfileNotMarked
  | ErrUnknownCapability
  | ErrUnknownAuthoritySurface
  | ErrAssessment EvidenceError
  | ErrInvalidCapabilityAssessment

section \<open>Named values\<close>

definition pf_profiles :: "string list" where
  "pf_profiles = [''beginner'', ''standard'', ''power_user'', ''expert'', ''lab'', ''enterprise'', ''custom'']"

definition NormalizeProfile :: "string \<Rightarrow> string" where
  "NormalizeProfile raw = one_of pf_profiles ''unknown'' raw"

definition pf_modes :: "string list" where
  "pf_modes = [''off'', ''audit'', ''warn'', ''approval_required'', ''allow_configured'', ''enforce'', ''disabled'']"

definition NormalizeMode :: "string \<Rightarrow> string" where
  "NormalizeMode raw = one_of pf_modes ''unknown'' raw"

definition conservativeMode :: "string \<Rightarrow> string" where
  "conservativeMode m = (let n = NormalizeMode m in if n = ''unknown'' then ''approval_required'' else n)"

definition automation_modes :: "string list" where
  "automation_modes = [''disabled'', ''audit_only'', ''staged'', ''approval_required'', ''allow_low_risk'',
     ''allow_configured'', ''session_local'']"

definition NormalizeAutomationMode :: "string \<Rightarrow> string" where
  "NormalizeAutomationMode raw = one_of automation_modes ''unknown'' raw"

definition authority_modes :: "string list" where
  "authority_modes = [''disabled'', ''audit_only'', ''prompt_once'', ''prompt_session'', ''prompt_always'',
     ''allow_configured'', ''allow'', ''deny'']"

definition NormalizeAuthorityMode :: "string \<Rightarrow> string" where
  "NormalizeAuthorityMode raw = one_of authority_modes ''unknown'' raw"

definition authorizesDirectly :: "string \<Rightarrow> bool" where
  "authorizesDirectly mode \<longleftrightarrow> NormalizeAuthorityMode mode = ''allow''"

definition requiresPrompt :: "string \<Rightarrow> bool" where
  "requiresPrompt mode \<longleftrightarrow>
     (let n = NormalizeAuthorityMode mode
      in n = ''prompt_once'' \<or> n = ''prompt_session'' \<or> n = ''prompt_always'')"

definition capabilities :: "string list" where
  "capabilities = [''tool_execute'', ''file_read'', ''file_mutate'', ''network_egress'',
     ''private_network_egress'', ''shell_execute'', ''selfmod_validate'', ''selfmod_promote'',
     ''skill_stage'', ''skill_promote'', ''planner_mutate_session'', ''planner_mutate_persistent'',
     ''release_publish'', ''vector_retrieve'', ''vector_assert_truth'']"

definition NormalizeCapability :: "string \<Rightarrow> string" where
  "NormalizeCapability raw = one_of capabilities ''unknown'' raw"

section \<open>Configuration\<close>

record AuthorityConfig =
  au_Tool :: string
  au_File :: string
  au_Network :: string
  au_PrivateNetwork :: string
  au_Shell :: string
  au_Selfmod :: string
  au_Promotion :: string
  au_PlannerMutation :: string
  au_Release :: string
  au_HostBridge :: string
  au_WorkspaceEscape :: string
  au_VectorRetrieval :: string

definition AuthorityConfig_Normalized :: "AuthorityConfig \<Rightarrow> AuthorityConfig" where
  "AuthorityConfig_Normalized c =
     \<lparr>au_Tool = NormalizeAuthorityMode (au_Tool c), au_File = NormalizeAuthorityMode (au_File c),
      au_Network = NormalizeAuthorityMode (au_Network c),
      au_PrivateNetwork = NormalizeAuthorityMode (au_PrivateNetwork c),
      au_Shell = NormalizeAuthorityMode (au_Shell c), au_Selfmod = NormalizeAuthorityMode (au_Selfmod c),
      au_Promotion = NormalizeAuthorityMode (au_Promotion c),
      au_PlannerMutation = NormalizeAuthorityMode (au_PlannerMutation c),
      au_Release = NormalizeAuthorityMode (au_Release c),
      au_HostBridge = NormalizeAuthorityMode (au_HostBridge c),
      au_WorkspaceEscape = NormalizeAuthorityMode (au_WorkspaceEscape c),
      au_VectorRetrieval = NormalizeAuthorityMode (au_VectorRetrieval c)\<rparr>"

definition SurfaceMode :: "AuthorityConfig \<Rightarrow> string \<Rightarrow> string" where
  "SurfaceMode c surface =
     (if surface = ''tool_authority'' then au_Tool c
      else if surface = ''file_authority'' then au_File c
      else if surface = ''network_authority'' then au_Network c
      else if surface = ''private_network_authority'' then au_PrivateNetwork c
      else if surface = ''shell_authority'' then au_Shell c
      else if surface = ''selfmod_authority'' then au_Selfmod c
      else if surface = ''promotion_authority'' then au_Promotion c
      else if surface = ''planner_mutation_authority'' then au_PlannerMutation c
      else if surface = ''release_authority'' then au_Release c
      else if surface = ''host_bridge_authority'' then au_HostBridge c
      else if surface = ''workspace_escape_authority'' then au_WorkspaceEscape c
      else if surface = ''vector_retrieval_authority'' then au_VectorRetrieval c
      else ''unknown'')"

record AutomationConfig =
  am_AutoPromotion :: string
  am_AutoRepair :: string
  am_AutoRetry :: string
  am_PlannerMutation :: string
  am_MemoryWrite :: string
  am_SkillWrite :: string
  am_ToolInstall :: string
  am_Release :: string

definition AutomationConfig_Normalized :: "AutomationConfig \<Rightarrow> AutomationConfig" where
  "AutomationConfig_Normalized c =
     \<lparr>am_AutoPromotion = NormalizeAutomationMode (am_AutoPromotion c),
      am_AutoRepair = NormalizeAutomationMode (am_AutoRepair c),
      am_AutoRetry = NormalizeAutomationMode (am_AutoRetry c),
      am_PlannerMutation = NormalizeAutomationMode (am_PlannerMutation c),
      am_MemoryWrite = NormalizeAutomationMode (am_MemoryWrite c),
      am_SkillWrite = NormalizeAutomationMode (am_SkillWrite c),
      am_ToolInstall = NormalizeAutomationMode (am_ToolInstall c),
      am_Release = NormalizeAutomationMode (am_Release c)\<rparr>"

text \<open>The \<open>Normalized\<close> methods of the next two types return the value itself.\<close>

record ApprovalConfig =
  ap_Sensitive :: bool
  ap_PolicyAbsence :: bool
  ap_Release :: bool
  ap_Network :: bool
  ap_PrivateNetwork :: bool
  ap_Shell :: bool
  ap_Selfmod :: bool
  ap_Promotion :: bool
  ap_IrreversibleMutat :: bool

record EvidenceConfig =
  vc_EvidenceReceipt :: bool
  vc_TraceRef :: bool
  vc_HarnessReport :: bool
  vc_ReplayNoRegression :: bool
  vc_StateLockCheck :: bool
  vc_ParadoxCheck :: bool
  vc_RollbackPlan :: bool
  vc_DisablePath :: bool
  vc_VectorCandidateOnly :: bool

record PConfig =
  pc_Profile :: string
  pc_Description :: string
  pc_Authority :: AuthorityConfig
  pc_Automation :: AutomationConfig
  pc_Approval :: ApprovalConfig
  pc_Evidence :: EvidenceConfig
  pc_TraceMode :: string
  pc_HarnessMode :: string
  pc_StateLockMode :: string
  pc_ReplayMode :: string
  pc_CustomProfileConfigured :: bool
  pc_ConfiguredCapabilities :: "(string \<times> bool) list"
  pc_Metadata :: metadata

definition trace_mode_word :: "TraceMode \<Rightarrow> string" where
  "trace_mode_word m = (case m of ModeOff \<Rightarrow> ''off'' | ModeMinimal \<Rightarrow> ''minimal'' | ModeAudit \<Rightarrow> ''audit''
     | ModeDebug \<Rightarrow> ''debug''
     | ModeReplay \<Rightarrow> ''replay'' | ModeOther s \<Rightarrow> s)"

definition pf_boundMetadata :: "metadata \<Rightarrow> metadata" where
  "pf_boundMetadata m = take 16 (sort_key fst (BoundMetadata m))"

fun capability_loop :: "(string \<times> bool) list \<Rightarrow> (string \<times> bool) list \<Rightarrow> (string \<times> bool) list" where
  "capability_loop out [] = out"
| "capability_loop out ((capValue, allowed) # rest) =
     (if \<not> allowed then capability_loop out rest
      else (let norm = NormalizeCapability capValue
            in if norm = ''unknown'' then capability_loop out rest
               else capability_loop (AList.update norm True out) rest))"

definition normalizeConfiguredCapabilities :: "(string \<times> bool) list \<Rightarrow> (string \<times> bool) list" where
  "normalizeConfiguredCapabilities m = capability_loop [] m"

definition defaultDescription :: "string \<Rightarrow> string" where
  "defaultDescription profile =
     (if profile = ''beginner'' then ''Conservative approval-heavy profile with explicit visibility.''
      else if profile = ''standard''
      then ''Balanced profile with conservative sensitive-operation boundaries.''
      else if profile = ''power_user''
      then ''Broader local authority with auditable controls and rollback expectations.''
      else if profile = ''expert''
      then ''Explicit policy-pack driven advanced profile with auditability.''
      else if profile = ''lab''
      then ''High-automation lab profile requiring explicit receipts for sensitive actions.''
      else if profile = ''enterprise''
      then ''Strict centrally managed profile prioritizing approval and compliance.''
      else if profile = ''custom''
      then ''Custom explicit profile requiring an acknowledged configuration marker.''
      else ''Unknown profile fallback using conservative beginner posture.'')"

definition PConfig_Normalized :: "PConfig \<Rightarrow> PConfig" where
  "PConfig_Normalized c =
     (let profile = NormalizeProfile (pc_Profile c);
          profile = (if profile = ''unknown'' then ''beginner'' else profile);
          description = RedactString (TrimSpace (pc_Description c)) 256
      in \<lparr>pc_Profile = profile,
          pc_Description = (if description = [] then defaultDescription profile else description),
          pc_Authority = AuthorityConfig_Normalized (pc_Authority c),
          pc_Automation = AutomationConfig_Normalized (pc_Automation c),
          pc_Approval = pc_Approval c,
          pc_Evidence = pc_Evidence c,
          pc_TraceMode = trace_mode_word (Trace_ParseMode (pc_TraceMode c)),
          pc_HarnessMode = Harness_ParseMode (pc_HarnessMode c),
          pc_StateLockMode = conservativeMode (pc_StateLockMode c),
          pc_ReplayMode = conservativeMode (pc_ReplayMode c),
          pc_CustomProfileConfigured = (profile = ''custom'' \<and> pc_CustomProfileConfigured c),
          pc_ConfiguredCapabilities = normalizeConfiguredCapabilities (pc_ConfiguredCapabilities c),
          pc_Metadata = pf_boundMetadata (pc_Metadata c)\<rparr>)"

definition PConfig_Validate :: "PConfig \<Rightarrow> ProfileError option" where
  "PConfig_Validate c =
     (let n = PConfig_Normalized c
      in if pc_Profile n = ''custom'' \<and> \<not> pc_CustomProfileConfigured n then Some ErrCustomProfileNotMarked
         else if pc_Description n = [] then Some (ErrInvalidConfig ''description required'')
         else None)"

definition AllowsConfigured :: "PConfig \<Rightarrow> string \<Rightarrow> bool" where
  "AllowsConfigured c capability \<longleftrightarrow>
     map_of (pc_ConfiguredCapabilities (PConfig_Normalized c)) (NormalizeCapability capability) \<noteq> None"

end
