(* ===== verification/ProfileEval.thy ===== *)
theory ProfileEval
  imports Profile
begin

text \<open>
  The default configurations of the profiles (\<open>config.go\<close>), the identifier of a configuration
  (\<open>refs.go\<close>) and what a configuration says of a capability (\<open>evaluate.go\<close>).
\<close>

section \<open>Defaults\<close>

definition defaultTraceMode :: "string \<Rightarrow> string" where
  "defaultTraceMode profile =
     (if profile = ''beginner'' then ''minimal''
      else if profile = ''standard'' then ''audit''
      else if profile = ''power_user'' then ''audit''
      else if profile = ''expert'' then ''debug''
      else if profile = ''lab'' then ''replay''
      else if profile = ''enterprise'' then ''audit''
      else if profile = ''custom'' then ''audit''
      else ''minimal'')"

definition defaultHarnessMode :: "string \<Rightarrow> string" where
  "defaultHarnessMode profile = ''audit''"

definition defaultStateLockMode :: "string \<Rightarrow> string" where
  "defaultStateLockMode profile =
     (if profile = ''expert'' \<or> profile = ''enterprise'' then ''enforce''
      else if profile = ''lab'' then ''warn''
      else if profile = ''power_user'' then ''allow_configured''
      else ''approval_required'')"

definition defaultReplayMode :: "string \<Rightarrow> string" where
  "defaultReplayMode profile =
     (if profile = ''expert'' \<or> profile = ''lab'' \<or> profile = ''enterprise'' then ''audit''
      else if profile = ''power_user'' then ''warn''
      else ''approval_required'')"

definition base_authority :: AuthorityConfig where
  "base_authority =
     \<lparr>au_Tool = ''prompt_always'', au_File = ''prompt_always'', au_Network = ''prompt_always'',
      au_PrivateNetwork = ''deny'', au_Shell = ''prompt_always'', au_Selfmod = ''prompt_always'',
      au_Promotion = ''prompt_always'', au_PlannerMutation = ''disabled'', au_Release = ''deny'',
      au_HostBridge = ''deny'', au_WorkspaceEscape = ''deny'', au_VectorRetrieval = ''prompt_once''\<rparr>"

definition defaultAuthority :: "string \<Rightarrow> AuthorityConfig" where
  "defaultAuthority profile =
     (let base = base_authority; cfg = ''allow_configured''
      in if profile = ''beginner'' then base
         else if profile = ''standard''
         then base\<lparr>au_Tool := ''prompt_session'', au_File := ''prompt_session'', au_VectorRetrieval := ''allow''\<rparr>
         else if profile = ''power_user''
         then base\<lparr>au_Tool := cfg, au_File := cfg, au_Network := ''prompt_session'',
           au_Shell := ''prompt_session'', au_PlannerMutation := ''prompt_session'',
           au_VectorRetrieval := ''allow''\<rparr>
         else if profile = ''expert''
         then base\<lparr>au_Tool := cfg, au_File := cfg, au_Network := cfg,
           au_PrivateNetwork := ''prompt_always'', au_Shell := cfg, au_Selfmod := cfg,
           au_Promotion := cfg, au_PlannerMutation := cfg, au_Release := cfg,
           au_VectorRetrieval := ''allow''\<rparr>
         else if profile = ''lab''
         then base\<lparr>au_Tool := cfg, au_File := cfg, au_Network := cfg, au_PrivateNetwork := cfg,
           au_Shell := cfg, au_Selfmod := cfg, au_Promotion := cfg, au_PlannerMutation := cfg,
           au_Release := cfg, au_VectorRetrieval := ''allow''\<rparr>
         else if profile = ''enterprise''
         then base\<lparr>au_Tool := ''prompt_always'', au_File := ''prompt_always'',
           au_Network := ''prompt_always'', au_PrivateNetwork := ''deny'',
           au_Shell := ''prompt_always'', au_Selfmod := ''prompt_always'',
           au_Promotion := ''prompt_always'', au_PlannerMutation := ''disabled'',
           au_Release := ''deny'', au_VectorRetrieval := ''allow''\<rparr>
         else if profile = ''custom''
         then base\<lparr>au_Tool := cfg, au_File := cfg, au_Network := cfg, au_PrivateNetwork := cfg,
           au_Shell := cfg, au_Selfmod := cfg, au_Promotion := cfg, au_PlannerMutation := cfg,
           au_Release := cfg, au_VectorRetrieval := cfg\<rparr>
         else base)"

definition base_automation :: AutomationConfig where
  "base_automation =
     \<lparr>am_AutoPromotion = ''disabled'', am_AutoRepair = ''audit_only'', am_AutoRetry = ''allow_low_risk'',
      am_PlannerMutation = ''disabled'', am_MemoryWrite = ''approval_required'',
      am_SkillWrite = ''approval_required'', am_ToolInstall = ''disabled'', am_Release = ''disabled''\<rparr>"

definition defaultAutomation :: "string \<Rightarrow> AutomationConfig" where
  "defaultAutomation profile =
     (let base = base_automation; cfg = ''allow_configured''
      in if profile = ''beginner'' \<or> profile = ''standard'' then base
         else if profile = ''power_user''
         then base\<lparr>am_AutoPromotion := ''staged'', am_PlannerMutation := ''session_local'',
           am_MemoryWrite := ''allow_low_risk'', am_SkillWrite := ''approval_required''\<rparr>
         else if profile = ''expert''
         then base\<lparr>am_AutoPromotion := cfg, am_AutoRepair := cfg, am_PlannerMutation := cfg,
           am_MemoryWrite := cfg, am_SkillWrite := cfg, am_ToolInstall := ''approval_required'',
           am_Release := ''approval_required''\<rparr>
         else if profile = ''lab''
         then base\<lparr>am_AutoPromotion := cfg, am_AutoRepair := cfg, am_PlannerMutation := cfg,
           am_MemoryWrite := cfg, am_SkillWrite := cfg, am_ToolInstall := cfg,
           am_Release := ''approval_required''\<rparr>
         else if profile = ''enterprise''
         then base\<lparr>am_AutoPromotion := ''disabled'', am_AutoRepair := ''audit_only'',
           am_AutoRetry := ''approval_required'', am_PlannerMutation := ''disabled'',
           am_MemoryWrite := ''approval_required'', am_SkillWrite := ''approval_required'',
           am_ToolInstall := ''disabled'', am_Release := ''disabled''\<rparr>
         else if profile = ''custom''
         then base\<lparr>am_AutoPromotion := cfg, am_AutoRepair := cfg, am_AutoRetry := cfg,
           am_PlannerMutation := cfg, am_MemoryWrite := cfg, am_SkillWrite := cfg,
           am_ToolInstall := cfg, am_Release := cfg\<rparr>
         else base)"

definition base_approval :: ApprovalConfig where
  "base_approval = \<lparr>ap_Sensitive = True, ap_PolicyAbsence = True, ap_Release = True, ap_Network = True,
     ap_PrivateNetwork = True, ap_Shell = True, ap_Selfmod = True, ap_Promotion = True,
     ap_IrreversibleMutat = True\<rparr>"

definition defaultApproval :: "string \<Rightarrow> ApprovalConfig" where
  "defaultApproval profile =
     (let base = base_approval
      in if profile = ''power_user'' then base\<lparr>ap_Shell := False\<rparr>
         else if profile = ''expert'' then base\<lparr>ap_Shell := False, ap_Network := False\<rparr>
         else if profile = ''lab''
         then base\<lparr>ap_Network := False, ap_Shell := False, ap_PrivateNetwork := False\<rparr>
         else if profile = ''custom''
         then base\<lparr>ap_Network := False, ap_Shell := False, ap_PrivateNetwork := False\<rparr>
         else base)"

definition defaultEvidence :: "string \<Rightarrow> EvidenceConfig" where
  "defaultEvidence profile = \<lparr>vc_EvidenceReceipt = True, vc_TraceRef = True, vc_HarnessReport = True,
     vc_ReplayNoRegression = True, vc_StateLockCheck = True, vc_ParadoxCheck = True,
     vc_RollbackPlan = True, vc_DisablePath = True, vc_VectorCandidateOnly = True\<rparr>"

definition pf_DefaultConfig :: "string \<Rightarrow> PConfig" where
  "pf_DefaultConfig profile =
     (let norm = NormalizeProfile profile;
          norm = (if norm = ''unknown'' then ''beginner'' else norm);
          cfg = \<lparr>pc_Profile = norm, pc_Description = defaultDescription norm,
            pc_Authority = defaultAuthority norm, pc_Automation = defaultAutomation norm,
            pc_Approval = defaultApproval norm, pc_Evidence = defaultEvidence norm,
            pc_TraceMode = defaultTraceMode norm, pc_HarnessMode = defaultHarnessMode norm,
            pc_StateLockMode = defaultStateLockMode norm, pc_ReplayMode = defaultReplayMode norm,
            pc_CustomProfileConfigured = False, pc_ConfiguredCapabilities = [],
            pc_Metadata = [(''profile'', norm)]\<rparr>;
          cfg = (if profile = ''custom''
            then cfg\<lparr>pc_Profile := ''custom'', pc_Description := defaultDescription ''custom''\<rparr> else cfg);
          cfg = (if profile = ''unknown''
            then cfg\<lparr>pc_Profile := ''unknown'', pc_Description := defaultDescription ''unknown'',
              pc_Metadata := [(''profile'', ''unknown''), (''fallback'', ''beginner'')]\<rparr> else cfg)
      in PConfig_Normalized cfg)"

section \<open>Identifier\<close>

definition authority_parts :: "AuthorityConfig \<Rightarrow> string list" where
  "authority_parts a = [au_Tool a, au_File a, au_Network a, au_PrivateNetwork a, au_Shell a, au_Selfmod a,
     au_Promotion a, au_PlannerMutation a, au_Release a, au_HostBridge a, au_WorkspaceEscape a,
     au_VectorRetrieval a]"

definition automation_parts :: "AutomationConfig \<Rightarrow> string list" where
  "automation_parts a = [am_AutoPromotion a, am_AutoRepair a, am_AutoRetry a, am_PlannerMutation a,
     am_MemoryWrite a, am_SkillWrite a, am_ToolInstall a, am_Release a]"

definition approval_parts :: "ApprovalConfig \<Rightarrow> bool list" where
  "approval_parts a = [ap_Sensitive a, ap_PolicyAbsence a, ap_Release a, ap_Network a, ap_PrivateNetwork a,
     ap_Shell a, ap_Selfmod a, ap_Promotion a, ap_IrreversibleMutat a]"

definition evidence_parts :: "EvidenceConfig \<Rightarrow> bool list" where
  "evidence_parts e = [vc_EvidenceReceipt e, vc_TraceRef e, vc_HarnessReport e, vc_ReplayNoRegression e,
     vc_StateLockCheck e, vc_ParadoxCheck e, vc_RollbackPlan e, vc_DisablePath e,
     vc_VectorCandidateOnly e]"

definition ConfigID :: "Codec \<Rightarrow> PConfig \<Rightarrow> string" where
  "ConfigID H config =
     (let n = PConfig_Normalized config
      in ''profile_'' @ StableHash H
           ([pc_Profile n, pc_Description n, pc_TraceMode n, pc_HarnessMode n, pc_StateLockMode n,
             pc_ReplayMode n, ev_boolString (pc_CustomProfileConfigured n)] @
            authority_parts (pc_Authority n) @ automation_parts (pc_Automation n) @
            map ev_boolString (approval_parts (pc_Approval n)) @
            map ev_boolString (evidence_parts (pc_Evidence n)) @
            sort (map fst (pc_ConfiguredCapabilities n)) @
            concat (map (\<lambda>(k, v). [k, v]) (sort_key fst (pc_Metadata n)))))"

definition ConfigRef :: "Codec \<Rightarrow> PConfig \<Rightarrow> Ref" where
  "ConfigRef H config =
     (let n = PConfig_Normalized config; cid = ConfigID H n
      in NewRef ''profile_config'' cid
           (StableHash H [cid, pc_Profile n, pc_TraceMode n, pc_HarnessMode n])
           (int (length (pc_Metadata n)) + int (length (pc_ConfiguredCapabilities n))))"

section \<open>Capabilities\<close>

record capabilityRule =
  cr_surface :: string
  cr_risk :: string
  cr_sensitive :: string
  cr_explicitLow :: bool
  cr_needsRelease :: bool
  cr_needsPromo :: bool
  cr_needsNetwork :: bool
  cr_needsPrivate :: bool
  cr_needsShell :: bool
  cr_needsSelfmod :: bool
  cr_irreversible :: bool

definition rule_of :: "string \<Rightarrow> string \<Rightarrow> string \<Rightarrow> capabilityRule" where
  "rule_of surface risk sensitive =
     \<lparr>cr_surface = surface, cr_risk = risk, cr_sensitive = sensitive, cr_explicitLow = False,
      cr_needsRelease = False, cr_needsPromo = False, cr_needsNetwork = False, cr_needsPrivate = False,
      cr_needsShell = False, cr_needsSelfmod = False, cr_irreversible = False\<rparr>"

definition capabilityRules :: "(string \<times> capabilityRule) list" where
  "capabilityRules =
     [(''tool_execute'', rule_of ''tool_authority'' ''medium'' []),
      (''file_read'', (rule_of ''file_authority'' ''low'' [])\<lparr>cr_explicitLow := True\<rparr>),
      (''file_mutate'', (rule_of ''file_authority'' ''sensitive'' ''file_mutation'')\<lparr>cr_irreversible := True\<rparr>),
      (''network_egress'', (rule_of ''network_authority'' ''sensitive'' ''network_egress'')\<lparr>cr_needsNetwork := True\<rparr>),
      (''private_network_egress'', (rule_of ''private_network_authority'' ''sensitive'' ''private_network_access'')
         \<lparr>cr_needsNetwork := True, cr_needsPrivate := True\<rparr>),
      (''shell_execute'', (rule_of ''shell_authority'' ''sensitive'' ''shell_execution'')\<lparr>cr_needsShell := True\<rparr>),
      (''selfmod_validate'', (rule_of ''selfmod_authority'' ''medium'' [])\<lparr>cr_needsSelfmod := True\<rparr>),
      (''selfmod_promote'', (rule_of ''promotion_authority'' ''sensitive'' ''selfmod_promotion'')
         \<lparr>cr_needsSelfmod := True, cr_needsPromo := True, cr_irreversible := True\<rparr>),
      (''skill_stage'', (rule_of ''selfmod_authority'' ''medium'' [])\<lparr>cr_needsSelfmod := True\<rparr>),
      (''skill_promote'', (rule_of ''promotion_authority'' ''sensitive'' ''selfmod_promotion'')
         \<lparr>cr_needsSelfmod := True, cr_needsPromo := True, cr_irreversible := True\<rparr>),
      (''planner_mutate_session'', rule_of ''planner_mutation_authority'' ''medium'' []),
      (''planner_mutate_persistent'', (rule_of ''planner_mutation_authority'' ''sensitive'' ''file_mutation'')
         \<lparr>cr_irreversible := True\<rparr>),
      (''release_publish'', (rule_of ''release_authority'' ''sensitive'' ''release_publish'')
         \<lparr>cr_needsRelease := True, cr_irreversible := True\<rparr>),
      (''vector_retrieve'', (rule_of ''vector_retrieval_authority'' ''low'' [])\<lparr>cr_explicitLow := True\<rparr>)]"

definition approvalRequired :: "PConfig \<Rightarrow> capabilityRule \<Rightarrow> bool \<Rightarrow> bool" where
  "approvalRequired cfg rule explicitAllowed \<longleftrightarrow>
     (let a = pc_Approval cfg
      in cr_risk rule = ''sensitive'' \<and> ap_Sensitive a \<or>
         \<not> explicitAllowed \<and> ap_PolicyAbsence a \<or>
         cr_needsRelease rule \<and> ap_Release a \<or>
         cr_needsNetwork rule \<and> ap_Network a \<or>
         cr_needsPrivate rule \<and> ap_PrivateNetwork a \<or>
         cr_needsShell rule \<and> ap_Shell a \<or>
         cr_needsSelfmod rule \<and> ap_Selfmod a \<or>
         cr_needsPromo rule \<and> ap_Promotion a \<or>
         cr_irreversible rule \<and> ap_IrreversibleMutat a)"

text \<open>The policy state and the authority that the mode of a surface stands for.\<close>

definition policy_of_surface :: "string \<Rightarrow> bool \<Rightarrow> string \<times> string" where
  "policy_of_surface surfaceMode explicitConfigured =
     (if surfaceMode = ''allow'' then (''policy_matched'', ''policy_match'')
      else if surfaceMode = ''allow_configured''
      then (if explicitConfigured then (''policy_matched'', ''policy_match'')
            else (''policy_not_configured'', ''none''))
      else if surfaceMode = ''audit_only'' then (''policy_audit_only'', ''audit_only'')
      else if surfaceMode = ''prompt_once'' \<or> surfaceMode = ''prompt_session'' \<or> surfaceMode = ''prompt_always''
      then (''policy_no_match'', ''human_approval'')
      else if surfaceMode = ''unknown'' then (''policy_invalid'', ''unknown'')
      else if surfaceMode = ''disabled'' \<or> surfaceMode = ''deny'' then (''policy_no_match'', ''none'')
      else (''policy_invalid'', ''unknown''))"

definition fixed_assessment ::
    "string \<Rightarrow> string \<Rightarrow> string \<Rightarrow> string \<Rightarrow> string \<Rightarrow> string \<Rightarrow> string \<Rightarrow> metadata \<Rightarrow> Assessment" where
  "fixed_assessment policy risk operation authority status decision reason meta =
     \<lparr>as_ID = [], as_PolicyState = policy, as_Risk = risk, as_Operation = operation,
      as_SensitiveClass = [], as_ExplicitLowRisk = False, as_Authority = authority, as_Status = status,
      as_Decision = decision, as_ReasonCode = reason, as_EvidenceRefs = [], as_Metadata = meta\<rparr>"

text \<open>The statements after the evaluation: releases, approvals, and what an irreversible change needs.\<close>

definition release_guard :: "string \<Rightarrow> bool \<Rightarrow> Assessment \<Rightarrow> Assessment" where
  "release_guard capValue explicitAllowed a =
     (if capValue = ''release_publish'' \<and> \<not> explicitAllowed
      then a\<lparr>as_PolicyState := ''policy_not_configured'', as_Authority := ''none'', as_Status := ''fail'',
             as_Decision := ''deny_sensitive'', as_ReasonCode := ''release_authority_explicit_required''\<rparr>
      else a)"

definition approval_guard :: "bool \<Rightarrow> Assessment \<Rightarrow> Assessment" where
  "approval_guard requiresApproval a =
     (if requiresApproval \<and> as_Risk a = ''sensitive''
      then a\<lparr>as_Status := ''warn'', as_Decision := ''require_approval'',
             as_ReasonCode := (if as_ReasonCode a = [] \<or> as_ReasonCode a = ''sensitive_policy_bound''
               then ''sensitive_requires_approval'' else as_ReasonCode a)\<rparr>
      else if requiresApproval \<and> as_Risk a = ''medium''
      then a\<lparr>as_Status := ''warn'', as_Decision := ''require_approval'', as_ReasonCode := ''medium_requires_approval''\<rparr>
      else a)"

definition evidence_guards :: "EvidenceConfig \<Rightarrow> capabilityRule \<Rightarrow> Assessment \<Rightarrow> Assessment" where
  "evidence_guards e rule a =
     (let binding = cr_needsPromo rule \<or> cr_needsRelease rule \<or> cr_irreversible rule;
          guard = (\<lambda>missing reason a. if binding \<and> missing
            then decided ''require_approval'' ''warn'' reason a else a)
      in guard (\<not> vc_DisablePath e) ''disable_path_required''
           (guard (\<not> vc_RollbackPlan e) ''rollback_plan_required''
             (guard (\<not> vc_EvidenceReceipt e) ''evidence_receipt_required'' a)))"

definition EvaluateCapability :: "Codec \<Rightarrow> PConfig \<Rightarrow> string \<Rightarrow> Assessment" where
  "EvaluateCapability H config capability =
     (let cfg = PConfig_Normalized config; capValue = NormalizeCapability capability
      in if capValue = ''vector_assert_truth''
         then Assessment_Normalized H (fixed_assessment ''policy_enforced'' ''sensitive'' capValue
           ''hard_invariant'' ''fail'' ''deny_sensitive'' ''vector_assert_truth_forbidden''
           [(''profile'', pc_Profile cfg), (''capability'', capValue),
            (''invariant'', ''no_vector_truth_authority'')])
         else case map_of capabilityRules capValue of
           None \<Rightarrow> Assessment_Normalized H (fixed_assessment ''policy_invalid'' ''unknown'' capValue
             ''unknown'' ''invalid'' ''deny_invalid'' ''unknown_capability''
             [(''profile'', pc_Profile cfg), (''capability'', capability)])
         | Some rule \<Rightarrow>
             (let surfaceMode = NormalizeAuthorityMode (SurfaceMode (pc_Authority cfg) (cr_surface rule));
                  explicitConfigured = (surfaceMode = ''allow_configured'' \<and> AllowsConfigured cfg capValue);
                  explicitAllowed = (authorizesDirectly surfaceMode \<or> explicitConfigured);
                  requiresApproval = (requiresPrompt surfaceMode \<or> approvalRequired cfg rule explicitAllowed);
                  (policyState, authority) = policy_of_surface surfaceMode explicitConfigured;
                  assessment =
                    \<lparr>as_ID = [], as_PolicyState = policyState, as_Risk = cr_risk rule, as_Operation = capValue,
                     as_SensitiveClass = cr_sensitive rule, as_ExplicitLowRisk = cr_explicitLow rule,
                     as_Authority = authority, as_Status = ''unknown'', as_Decision = ''inconclusive'',
                     as_ReasonCode = [], as_EvidenceRefs = [],
                     as_Metadata = [(''profile'', pc_Profile cfg), (''capability'', capValue),
                       (''surface'', cr_surface rule), (''surface_mode'', surfaceMode),
                       (''allow_configured_match'', ev_boolString explicitConfigured),
                       (''vector_candidate_only'', ev_boolString (vc_VectorCandidateOnly (pc_Evidence cfg)))]\<rparr>;
                  assessed = evidence_guards (pc_Evidence cfg) rule
                    (approval_guard requiresApproval
                      (release_guard capValue explicitAllowed (Assessment_Evaluate H assessment)));
                  assessed = (if capValue = ''vector_retrieve''
                    then assessed\<lparr>as_Metadata := AList.update ''vector_role'' ''candidate_only'' (as_Metadata assessed)\<rparr>
                    else assessed)
              in Assessment_Normalized H assessed))"

text \<open>The assessment comes with an error; the zero value that some errors come with is \<open>None\<close>.\<close>

definition EvaluateCapabilityStrict ::
    "Codec \<Rightarrow> PConfig \<Rightarrow> string \<Rightarrow> Assessment option \<times> ProfileError option" where
  "EvaluateCapabilityStrict H config capability =
     (if NormalizeCapability capability = ''unknown'' then (None, Some ErrUnknownCapability)
      else
        (let assessment = EvaluateCapability H config capability
         in case Assessment_Validate H assessment of
              Some err \<Rightarrow> (None, Some (ErrAssessment err))
            | None \<Rightarrow>
                (if as_Decision assessment = ''deny_invalid''
                 then (Some assessment, Some ErrInvalidCapabilityAssessment) else (Some assessment, None))))"

end
