(* ===== verification/ProfileProps.thy ===== *)
theory ProfileProps
  imports ProfileEval EvidenceProps
begin

text \<open>What a configuration decides of a capability, and what the default profiles decide.\<close>

section \<open>Modes\<close>

lemma profile_tables [simp]:
  "clean_words pf_profiles" "clean_words pf_modes" "clean_words automation_modes"
  "clean_words authority_modes" "clean_words capabilities"
  by code_simp+

lemma NormalizeAuthorityMode_idem [simp]:
  "NormalizeAuthorityMode (NormalizeAuthorityMode m) = NormalizeAuthorityMode m"
proof -
  have "NormalizeAuthorityMode ''unknown'' = ''unknown''" by code_simp
  then show ?thesis
    using one_of_range [of authority_modes "''unknown''" m]
    by (auto simp: NormalizeAuthorityMode_def one_of_member)
qed

lemma NormalizeAuthorityMode_cases:
  "NormalizeAuthorityMode m \<in> {''disabled'', ''audit_only'', ''prompt_once'', ''prompt_session'',
     ''prompt_always'', ''allow_configured'', ''allow'', ''deny'', ''unknown''}"
  using one_of_range [of authority_modes "''unknown''" m]
  by (auto simp: NormalizeAuthorityMode_def authority_modes_def)

lemma SurfaceMode_Normalized [simp]:
  "NormalizeAuthorityMode (SurfaceMode (AuthorityConfig_Normalized a) s) = NormalizeAuthorityMode (SurfaceMode a s)"
proof -
  have "NormalizeAuthorityMode ''unknown'' = ''unknown''" by code_simp
  then show ?thesis by (simp add: SurfaceMode_def AuthorityConfig_Normalized_def)
qed

lemma PConfig_Normalized_fields [simp]:
  "pc_Authority (PConfig_Normalized c) = AuthorityConfig_Normalized (pc_Authority c)"
  "pc_Approval (PConfig_Normalized c) = pc_Approval c"
  "pc_Evidence (PConfig_Normalized c) = pc_Evidence c"
  "pc_ConfiguredCapabilities (PConfig_Normalized c) = normalizeConfiguredCapabilities (pc_ConfiguredCapabilities c)"
  by (simp_all add: PConfig_Normalized_def Let_def)

text \<open>Which capabilities are configured.\<close>

lemma NormalizeCapability_idem [simp]: "NormalizeCapability (NormalizeCapability c) = NormalizeCapability c"
proof -
  have "NormalizeCapability ''unknown'' = ''unknown''" by code_simp
  then show ?thesis
    using one_of_range [of capabilities "''unknown''" c]
    by (auto simp: NormalizeCapability_def one_of_member)
qed

lemma capability_loop_dom:
  "fst ` set (capability_loop out m) =
     fst ` set out \<union> (NormalizeCapability ` {c. (c, True) \<in> set m} - {''unknown''})"
proof (induction out m rule: capability_loop.induct)
  case (2 out c allowed rest)
  then show ?case by (auto simp: Let_def dom_update)
qed simp

lemma configured_iff:
  "map_of (normalizeConfiguredCapabilities m) c \<noteq> None \<longleftrightarrow>
     c \<in> NormalizeCapability ` {c. (c, True) \<in> set m} - {''unknown''}"
  by (simp add: normalizeConfiguredCapabilities_def map_of_eq_None_iff capability_loop_dom)

text \<open>A capability that a configuration names as allowed.\<close>

definition configured :: "PConfig \<Rightarrow> string \<Rightarrow> bool" where
  "configured cfg c \<longleftrightarrow> NormalizeCapability c \<noteq> ''unknown'' \<and>
     (\<exists>(k, allowed) \<in> set (pc_ConfiguredCapabilities cfg). allowed \<and> NormalizeCapability k = NormalizeCapability c)"

lemma update_True: "(\<forall>x \<in> set out. snd x) \<Longrightarrow> \<forall>x \<in> set (AList.update k True out). snd x"
  by (induction out) auto

lemma capability_loop_True: "(\<forall>x \<in> set out. snd x) \<Longrightarrow> \<forall>x \<in> set (capability_loop out m). snd x"
  by (induction out m rule: capability_loop.induct) (auto simp: Let_def update_True)

lemma allowed_in_normalized:
  "{c. (c, True) \<in> set (normalizeConfiguredCapabilities m)} =
     NormalizeCapability ` {c. (c, True) \<in> set m} - {''unknown''}"
proof -
  have "{c. (c, True) \<in> set (capability_loop [] m)} = fst ` set (capability_loop [] m)"
    using capability_loop_True [of "[]" m] by force
  then show ?thesis by (simp add: normalizeConfiguredCapabilities_def capability_loop_dom)
qed

lemma Bex_True: "(\<exists>(k, a) \<in> S. a \<and> P k) \<longleftrightarrow> (\<exists>k. (k, True) \<in> S \<and> P k)"
  by auto

lemma member_image_minus:
  "g c \<in> g ` {k. (k, True) \<in> S} - {u} \<longleftrightarrow> g c \<noteq> u \<and> (\<exists>k. (k, True) \<in> S \<and> g k = g c)"
  by (auto simp: image_iff intro: sym)

lemma AllowsConfigured_iff: "AllowsConfigured (PConfig_Normalized cfg) c \<longleftrightarrow> configured cfg c"
proof -
  let ?A = "NormalizeCapability ` {k. (k, True) \<in> set (pc_ConfiguredCapabilities cfg)} - {''unknown''}"
  have "NormalizeCapability y = y" if "y \<in> ?A" for y using that by auto
  then have "NormalizeCapability ` ?A = id ` ?A" by (intro image_cong refl) (simp only: id_apply)
  then have "NormalizeCapability ` ?A = ?A" by (simp only: image_id id_apply)
  then have "AllowsConfigured (PConfig_Normalized cfg) c \<longleftrightarrow> NormalizeCapability c \<in> ?A"
    unfolding AllowsConfigured_def PConfig_Normalized_fields configured_iff allowed_in_normalized
    by (simp only: Diff_idemp)
  also have "\<dots> \<longleftrightarrow> configured cfg c" unfolding configured_def Bex_True by (rule member_image_minus)
  finally show ?thesis .
qed

section \<open>Decisions\<close>

lemma decision_words [simp]:
  "NormalizeDecision ''require_approval'' = ''require_approval''"
  "NormalizeDecision ''deny_sensitive'' = ''deny_sensitive''" "NormalizeDecision ''deny_invalid'' = ''deny_invalid''"
  "NormalizeDecision ''audit_only'' = ''audit_only''" "NormalizeDecision ''allow_low_risk'' = ''allow_low_risk''"
  by code_simp+

lemma profile_words [simp]:
  "NormalizePolicyState ''policy_matched'' = ''policy_matched''"
  "NormalizePolicyState ''policy_not_configured'' = ''policy_not_configured''"
  "NormalizePolicyState ''policy_audit_only'' = ''policy_audit_only''"
  "NormalizePolicyState ''policy_no_match'' = ''policy_no_match''"
  "NormalizePolicyState ''policy_invalid'' = ''policy_invalid''"
  "NormalizeAuthority ''policy_match'' = ''policy_match''" "NormalizeAuthority ''none'' = ''none''"
  "NormalizeAuthority ''audit_only'' = ''audit_only''"
  "NormalizeAuthority ''human_approval'' = ''human_approval''" "NormalizeAuthority ''unknown'' = ''unknown''"
  "NormalizeRisk ''low'' = ''low''" "NormalizeRisk ''medium'' = ''medium''"
  "NormalizeRisk ''sensitive'' = ''sensitive''"
  by code_simp+

lemma profile_policies [simp]:
  "\<not> IsPolicyAbsent ''policy_matched''" "IsPolicyAbsent ''policy_not_configured''"
  "\<not> IsPolicyAbsent ''policy_audit_only''" "IsPolicyAbsent ''policy_no_match''" "IsPolicyAbsent ''policy_invalid''"
  "AllowsSensitiveOperation ''policy_matched''" "AllowsSensitiveByAuthority ''policy_match''"
  "\<not> AllowsSensitiveOperation ''policy_not_configured''" "\<not> AllowsSensitiveOperation ''policy_audit_only''"
  "\<not> AllowsSensitiveOperation ''policy_no_match''"
  by (simp_all add: IsPolicyAbsent_def AllowsSensitiveOperation_def AllowsSensitiveByAuthority_def)

definition binding :: "capabilityRule \<Rightarrow> bool" where
  "binding r \<longleftrightarrow> cr_needsPromo r \<or> cr_needsRelease r \<or> cr_irreversible r"

lemma evidence_guards_decision:
  "as_Decision (evidence_guards e r a) =
     (if binding r \<and> \<not> (vc_EvidenceReceipt e \<and> vc_RollbackPlan e \<and> vc_DisablePath e)
      then ''require_approval'' else as_Decision a)"
  by (cases "binding r"; cases "vc_EvidenceReceipt e"; cases "vc_RollbackPlan e"; cases "vc_DisablePath e")
    (simp_all add: evidence_guards_def binding_def decided_def Let_def)

lemma guards_decision:
  "as_Decision (approval_guard q a) =
     (if q \<and> (as_Risk a = ''sensitive'' \<or> as_Risk a = ''medium'') then ''require_approval'' else as_Decision a)"
  "as_Decision (release_guard c x a) =
     (if c = ''release_publish'' \<and> \<not> x then ''deny_sensitive'' else as_Decision a)"
  "as_Risk (release_guard c x a) = as_Risk a"
  by (auto simp: approval_guard_def release_guard_def)

lemma rule_cases:
  assumes "map_of capabilityRules c = Some r"
  shows "cr_risk r \<in> {''low'', ''medium'', ''sensitive''} \<and> (cr_explicitLow r \<longleftrightarrow> cr_risk r = ''low'')"
proof -
  have "\<forall>(c, r) \<in> set capabilityRules.
      cr_risk r \<in> {''low'', ''medium'', ''sensitive''} \<and> (cr_explicitLow r \<longleftrightarrow> cr_risk r = ''low'')"
    by code_simp
  with map_of_SomeD [OF assms] show ?thesis by blast
qed

text \<open>What a surface says of a risk, before the guards.\<close>

definition surface_decision :: "string \<Rightarrow> string \<Rightarrow> bool \<Rightarrow> string" where
  "surface_decision risk m explicit =
     (if risk = ''low'' then (if m = ''audit_only'' then ''audit_only'' else ''allow_low_risk'')
      else if risk = ''medium'' then ''audit_only''
      else if m = ''unknown'' then ''deny_sensitive''
      else if explicit then ''audit_only'' else ''require_approval'')"

lemma policy_verdicts:
  assumes "risk = ''low'' \<or> risk = ''medium'' \<or> risk = ''sensitive''"
  shows
    "fst (assessment_verdict ''policy_matched'' risk (risk = ''low'') ''policy_match'') = surface_decision risk ''allow'' True"
    "fst (assessment_verdict ''policy_not_configured'' risk (risk = ''low'') ''none'') = surface_decision risk ''deny'' False"
    "fst (assessment_verdict ''policy_no_match'' risk (risk = ''low'') ''none'') = surface_decision risk ''deny'' False"
    "fst (assessment_verdict ''policy_no_match'' risk (risk = ''low'') ''human_approval'') = surface_decision risk ''deny'' False"
    "fst (assessment_verdict ''policy_audit_only'' risk (risk = ''low'') ''audit_only'') = surface_decision risk ''audit_only'' False"
    "fst (assessment_verdict ''policy_invalid'' risk (risk = ''low'') ''unknown'') = surface_decision risk ''unknown'' False"
  by (rule disjE [OF assms], simp add: assessment_verdict_def surface_decision_def,
      erule disjE, simp add: assessment_verdict_def surface_decision_def,
      simp add: assessment_verdict_def surface_decision_def)+

lemma surface_decision_modes:
  "m \<noteq> ''audit_only'' \<Longrightarrow> m \<noteq> ''unknown'' \<Longrightarrow> surface_decision risk m x = surface_decision risk ''deny'' x"
  by (simp add: surface_decision_def)

lemma surface_verdict:
  assumes "m = NormalizeAuthorityMode x" and "risk = ''low'' \<or> risk = ''medium'' \<or> risk = ''sensitive''"
    and "policy_of_surface m conf = (ps, au)" and "conf \<longrightarrow> m = ''allow_configured''"
  shows "fst (assessment_verdict (NormalizePolicyState ps) risk (risk = ''low'') (NormalizeAuthority au)) =
    surface_decision risk m (m = ''allow'' \<or> conf)"
proof -
  note v = policy_verdicts [OF assms(2)] and d = surface_decision_modes
  consider "m = ''allow''" | "m = ''allow_configured''" | "m = ''audit_only''"
    | "m = ''prompt_once'' \<or> m = ''prompt_session'' \<or> m = ''prompt_always''" | "m = ''unknown''"
    | "m = ''disabled'' \<or> m = ''deny''"
    using NormalizeAuthorityMode_cases [of x] unfolding assms(1) [symmetric] insert_iff empty_iff by argo
  then show ?thesis
  proof cases
    case 1
    then show ?thesis using assms(3,4) v(1) by (auto simp: policy_of_surface_def)
  next
    case 2
    then show ?thesis using assms(3) v(1,2) d [of "''allow_configured''"] d [of "''allow''"]
      by (cases conf) (auto simp: policy_of_surface_def)
  next
    case 3
    then show ?thesis using assms(3,4) v(5) by (auto simp: policy_of_surface_def)
  next
    case 4
    then have "m \<noteq> ''audit_only''" "m \<noteq> ''unknown''" "m \<noteq> ''allow''" "m \<noteq> ''allow_configured''"
      "policy_of_surface m conf = (''policy_no_match'', ''human_approval'')"
      by (auto simp: policy_of_surface_def)
    then show ?thesis using assms(3,4) v(4) d [of m] by auto
  next
    case 5
    then show ?thesis using assms(3,4) v(6) by (auto simp: policy_of_surface_def)
  next
    case 6
    then have "m \<noteq> ''audit_only''" "m \<noteq> ''unknown''" "m \<noteq> ''allow''" "m \<noteq> ''allow_configured''"
      "policy_of_surface m conf = (''policy_no_match'', ''none'')"
      by (auto simp: policy_of_surface_def)
    then show ?thesis using assms(3,4) v(3) d [of m] by auto
  qed
qed

lemma capability_decision:
  assumes rule: "map_of capabilityRules (NormalizeCapability c) = Some r"
  shows "as_Decision (EvaluateCapability H cfg c) =
    (let m = NormalizeAuthorityMode (SurfaceMode (pc_Authority cfg) (cr_surface r));
         explicit = (m = ''allow'' \<or> m = ''allow_configured'' \<and> configured cfg c);
         e = pc_Evidence cfg
     in if (cr_needsPromo r \<or> cr_needsRelease r \<or> cr_irreversible r) \<and>
           \<not> (vc_EvidenceReceipt e \<and> vc_RollbackPlan e \<and> vc_DisablePath e) then ''require_approval''
        else if cr_risk r \<noteq> ''low'' \<and> (requiresPrompt m \<or> approvalRequired cfg r explicit) then ''require_approval''
        else if NormalizeCapability c = ''release_publish'' \<and> \<not> explicit then ''deny_sensitive''
        else if cr_risk r = ''low'' then (if m = ''audit_only'' then ''audit_only'' else ''allow_low_risk'')
        else if cr_risk r = ''medium'' then ''audit_only''
        else if m = ''unknown'' then ''deny_sensitive''
        else if explicit then ''audit_only'' else ''require_approval'')"
proof -
  let ?cap = "NormalizeCapability c"
  let ?m = "NormalizeAuthorityMode (SurfaceMode (pc_Authority cfg) (cr_surface r))"
  let ?conf = "?m = ''allow_configured'' \<and> configured cfg c"
  let ?x = "?m = ''allow'' \<or> ?conf"
  have known: "?cap \<noteq> ''vector_assert_truth''"
  proof
    assume "?cap = ''vector_assert_truth''"
    moreover have "map_of capabilityRules ''vector_assert_truth'' = None" by code_simp
    ultimately show False using rule by simp
  qed
  have conf: "AllowsConfigured (PConfig_Normalized cfg) ?cap = configured cfg c"
    by (simp add: AllowsConfigured_iff configured_def)
  obtain ps au where pa: "policy_of_surface ?m ?conf = (ps, au)" by fastforce
  have risk: "NormalizeRisk (cr_risk r) = cr_risk r" using rule_cases [OF rule] by auto
  have low: "cr_explicitLow r = (cr_risk r = ''low'')" using rule_cases [OF rule] by simp
  have direct: "authorizesDirectly ?m = (?m = ''allow'')" by (simp add: authorizesDirectly_def)
  have approval: "approvalRequired (PConfig_Normalized cfg) r ?x = approvalRequired cfg r ?x"
    by (simp add: approvalRequired_def)
  define a where "a =
    \<lparr>as_ID = [], as_PolicyState = ps, as_Risk = cr_risk r, as_Operation = ?cap,
     as_SensitiveClass = cr_sensitive r, as_ExplicitLowRisk = cr_explicitLow r,
     as_Authority = au, as_Status = ''unknown'', as_Decision = ''inconclusive'',
     as_ReasonCode = [], as_EvidenceRefs = [],
     as_Metadata = [(''profile'', pc_Profile (PConfig_Normalized cfg)), (''capability'', ?cap),
       (''surface'', cr_surface r), (''surface_mode'', ?m),
       (''allow_configured_match'', ev_boolString ?conf),
       (''vector_candidate_only'', ev_boolString (vc_VectorCandidateOnly (pc_Evidence cfg)))]\<rparr>"
  define b where "b = evidence_guards (pc_Evidence cfg) r
    (approval_guard (requiresPrompt ?m \<or> approvalRequired cfg r ?x)
      (release_guard ?cap ?x (Assessment_Evaluate H a)))"
  have "as_Decision (EvaluateCapability H cfg c) = NormalizeDecision (as_Decision b)"
    unfolding EvaluateCapability_def Let_def rule option.case PConfig_Normalized_fields
      SurfaceMode_Normalized NormalizeAuthorityMode_idem conf direct approval pa prod.case
    using known by (simp add: a_def b_def)
  moreover have "as_Decision (Assessment_Evaluate H a) = surface_decision (cr_risk r) ?m ?x"
    unfolding verdict_parts using surface_verdict [OF refl _ pa, of "cr_risk r"] rule_cases [OF rule]
    by (simp add: a_def risk low)
  moreover have "as_Risk (Assessment_Evaluate H a) = cr_risk r"
    by (simp add: Assessment_Evaluate_fields a_def risk)
  ultimately show ?thesis
    using rule_cases [OF rule]
    by (auto simp: b_def evidence_guards_decision guards_decision binding_def surface_decision_def Let_def)
qed

text \<open>
  C26. The decision on a capability that has a rule, for every configuration and as a table. A binding change (a
  promotion, a release, an irreversible mutation) that the configuration does not back by evidence
  receipts, a rollback plan and a disable path needs approval. So does every capability of medium or
  sensitive risk whose surface prompts or for which an approval setting applies. Past these guards a
  release that is not explicitly allowed is denied; otherwise a low risk is allowed (audited on an
  audit-only surface), a medium risk is audited, and a sensitive one is denied on an unknown surface,
  audited where it is explicitly allowed, and needs approval elsewhere.
\<close>

theorem capability_decision_table:
  assumes rule: "map_of capabilityRules (NormalizeCapability c) = Some r"
  shows "as_Decision (EvaluateCapability H cfg c) =
    (let m = NormalizeAuthorityMode (SurfaceMode (pc_Authority cfg) (cr_surface r));
         explicit = (m = ''allow'' \<or> m = ''allow_configured'' \<and> configured cfg c);
         e = pc_Evidence cfg
     in if (cr_needsPromo r \<or> cr_needsRelease r \<or> cr_irreversible r) \<and>
           \<not> (vc_EvidenceReceipt e \<and> vc_RollbackPlan e \<and> vc_DisablePath e) then ''require_approval''
        else if cr_risk r \<noteq> ''low'' \<and> (requiresPrompt m \<or> approvalRequired cfg r explicit) then ''require_approval''
        else if NormalizeCapability c = ''release_publish'' \<and> \<not> explicit then ''deny_sensitive''
        else if cr_risk r = ''low'' then (if m = ''audit_only'' then ''audit_only'' else ''allow_low_risk'')
        else if cr_risk r = ''medium'' then ''audit_only''
        else if m = ''unknown'' then ''deny_sensitive''
        else if explicit then ''audit_only'' else ''require_approval'')"
  by (rule capability_decision [OF rule])

lemma decision_outside_rules:
  assumes "map_of capabilityRules (NormalizeCapability c) = None"
  shows "as_Decision (EvaluateCapability H cfg c) =
    (if NormalizeCapability c = ''vector_assert_truth'' then ''deny_sensitive'' else ''deny_invalid'')"
  using assms by (simp add: EvaluateCapability_def Let_def fixed_assessment_def)

text \<open>
  Reading a file is decided without the authority over files. Whatever a configuration says of
  the file surface (denied, disabled, always prompting, or a mode that is not known) and of
  approvals, \<open>file_read\<close> is allowed; only an audit-only surface turns that into an audit.
\<close>

theorem file_read_ignores_authority:
  "as_Decision (EvaluateCapability H cfg ''file_read'') =
     (if NormalizeAuthorityMode (au_File (pc_Authority cfg)) = ''audit_only'' then ''audit_only''
      else ''allow_low_risk'')"
proof -
  have cap: "NormalizeCapability ''file_read'' = ''file_read''" by code_simp
  have "map_of capabilityRules ''file_read'' = Some ((rule_of ''file_authority'' ''low'' [])\<lparr>cr_explicitLow := True\<rparr>)"
    by (simp add: capabilityRules_def)
  then have "map_of capabilityRules (NormalizeCapability ''file_read'') =
      Some ((rule_of ''file_authority'' ''low'' [])\<lparr>cr_explicitLow := True\<rparr>)" by (simp only: cap)
  from capability_decision [OF this, of H cfg] show ?thesis
    by (simp add: Let_def rule_of_def SurfaceMode_def cap)
qed

text \<open>
  A surface that is denied or disabled denies nothing, releases apart. Under it a sensitive
  capability needs approval like any other without a policy, a medium one needs approval or, with
  no approval setting that applies, goes on under audit, and a low one is allowed.
\<close>

theorem denied_surface_never_denies:
  assumes "map_of capabilityRules (NormalizeCapability c) = Some r"
    and "NormalizeCapability c \<noteq> ''release_publish''"
    and "NormalizeAuthorityMode (SurfaceMode (pc_Authority cfg) (cr_surface r)) = ''deny'' \<or>
      NormalizeAuthorityMode (SurfaceMode (pc_Authority cfg) (cr_surface r)) = ''disabled''"
  shows "as_Decision (EvaluateCapability H cfg c) \<noteq> ''deny_sensitive'' \<and>
    as_Decision (EvaluateCapability H cfg c) \<noteq> ''deny_invalid'' \<and>
    (cr_risk r = ''sensitive'' \<longrightarrow> as_Decision (EvaluateCapability H cfg c) = ''require_approval'') \<and>
    (cr_risk r = ''medium'' \<and> \<not> ap_PolicyAbsence (pc_Approval cfg) \<and> \<not> ap_Selfmod (pc_Approval cfg) \<longrightarrow>
       as_Decision (EvaluateCapability H cfg c) = ''audit_only'')"
proof -
  have prompt: "\<not> requiresPrompt ''deny''" "\<not> requiresPrompt ''disabled''" by code_simp+
  have medium: "\<forall>(c, r) \<in> set capabilityRules. cr_risk r = ''medium'' \<longrightarrow>
      \<not> (cr_needsPromo r \<or> cr_needsRelease r \<or> cr_irreversible r \<or> cr_needsNetwork r \<or>
         cr_needsPrivate r \<or> cr_needsShell r)" by code_simp
  then have m: "cr_risk r = ''medium'' \<Longrightarrow> \<not> (cr_needsPromo r \<or> cr_needsRelease r \<or> cr_irreversible r \<or>
      cr_needsNetwork r \<or> cr_needsPrivate r \<or> cr_needsShell r)"
    using map_of_SomeD [OF assms(1)] by blast
  from assms(3) show ?thesis
    unfolding capability_decision [OF assms(1)] Let_def
    by (elim disjE) (use rule_cases [OF assms(1)] assms(2) prompt m in \<open>auto simp: approvalRequired_def Let_def\<close>)
qed

section \<open>Default profiles\<close>

lemma default_surfaces:
  "\<forall>p \<in> set pf_profiles. let a = defaultAuthority p in
     NormalizeAuthorityMode (au_Tool a) \<noteq> ''allow'' \<and> NormalizeAuthorityMode (au_Selfmod a) \<noteq> ''allow'' \<and>
     NormalizeAuthorityMode (au_PlannerMutation a) \<noteq> ''allow'' \<and>
     NormalizeAuthorityMode (au_File a) \<noteq> ''audit_only'' \<and>
     NormalizeAuthorityMode (au_VectorRetrieval a) \<noteq> ''audit_only''"
  by code_simp

text \<open>The profile whose defaults a name stands for.\<close>

definition default_profile :: "string \<Rightarrow> string" where
  "default_profile p = (if NormalizeProfile p = ''unknown'' then ''beginner'' else NormalizeProfile p)"

lemma default_profile_range: "default_profile p \<in> set pf_profiles"
  using one_of_range [of pf_profiles "''unknown''" p]
  by (auto simp: default_profile_def NormalizeProfile_def pf_profiles_def)

lemma DefaultConfig_fields:
  "pc_Authority (pf_DefaultConfig p) = AuthorityConfig_Normalized (defaultAuthority (default_profile p))"
  "pc_Approval (pf_DefaultConfig p) = defaultApproval (default_profile p)"
  "pc_Evidence (pf_DefaultConfig p) = defaultEvidence (default_profile p)"
  "pc_ConfiguredCapabilities (pf_DefaultConfig p) = []"
  by (simp_all add: pf_DefaultConfig_def default_profile_def normalizeConfiguredCapabilities_def Let_def)

lemma default_approval [simp]:
  "ap_Sensitive (defaultApproval p)" "ap_PolicyAbsence (defaultApproval p)" "ap_Selfmod (defaultApproval p)"
  by (simp_all add: defaultApproval_def base_approval_def Let_def)

lemma low_risk_rules:
  "\<forall>(c, r) \<in> set capabilityRules. if cr_risk r = ''low''
     then (c = ''file_read'' \<and> cr_surface r = ''file_authority'' \<or>
           c = ''vector_retrieve'' \<and> cr_surface r = ''vector_retrieval_authority'')
     else c \<noteq> ''file_read'' \<and> c \<noteq> ''vector_retrieve''"
  by code_simp

lemma medium_risk_rules:
  "\<forall>(c, r) \<in> set capabilityRules. cr_risk r = ''medium'' \<longrightarrow>
     cr_surface r = ''tool_authority'' \<or> cr_surface r = ''selfmod_authority'' \<or>
     cr_surface r = ''planner_mutation_authority''"
  by code_simp

lemma binding_low: "\<forall>(c, r) \<in> set capabilityRules. cr_risk r = ''low'' \<longrightarrow> \<not> binding r"
  by code_simp

lemma default_medium:
  assumes "(c, r) \<in> set capabilityRules" and "cr_risk r = ''medium''" and "p \<in> set pf_profiles"
  shows "NormalizeAuthorityMode (SurfaceMode (defaultAuthority p) (cr_surface r)) \<noteq> ''allow''"
proof -
  have "cr_surface r = ''tool_authority'' \<or> cr_surface r = ''selfmod_authority'' \<or>
      cr_surface r = ''planner_mutation_authority''" using medium_risk_rules assms(1,2) by blast
  moreover from default_surfaces assms(3) have
    "NormalizeAuthorityMode (au_Tool (defaultAuthority p)) \<noteq> ''allow''"
    "NormalizeAuthorityMode (au_Selfmod (defaultAuthority p)) \<noteq> ''allow''"
    "NormalizeAuthorityMode (au_PlannerMutation (defaultAuthority p)) \<noteq> ''allow''"
    unfolding Let_def by blast+
  ultimately show ?thesis by (elim disjE) (simp_all add: SurfaceMode_def)
qed

lemma default_low:
  assumes "(c, r) \<in> set capabilityRules" and "cr_risk r = ''low''" and "p \<in> set pf_profiles"
  shows "NormalizeAuthorityMode (SurfaceMode (defaultAuthority p) (cr_surface r)) \<noteq> ''audit_only''"
proof -
  have "cr_surface r = ''file_authority'' \<or> cr_surface r = ''vector_retrieval_authority''"
    using low_risk_rules assms(1,2) by fastforce
  moreover from default_surfaces assms(3) have
    "NormalizeAuthorityMode (au_File (defaultAuthority p)) \<noteq> ''audit_only''"
    "NormalizeAuthorityMode (au_VectorRetrieval (defaultAuthority p)) \<noteq> ''audit_only''"
    unfolding Let_def by blast+
  ultimately show ?thesis by (elim disjE) (simp_all add: SurfaceMode_def)
qed

text \<open>
  C34. The default profiles decide alike. Whatever profile is asked for, from beginner to lab, its
  default configuration allows reading files and retrieving vectors, denies that vectors assert
  truth, refuses what is no capability, and requires approval for all the rest. What tells the
  profiles apart only counts once capabilities are configured or settings are changed.
\<close>

theorem default_profiles_decide_alike:
  "as_Decision (EvaluateCapability H (pf_DefaultConfig p) c) =
     (if NormalizeCapability c = ''vector_assert_truth'' then ''deny_sensitive''
      else if NormalizeCapability c = ''unknown'' then ''deny_invalid''
      else if NormalizeCapability c = ''file_read'' \<or> NormalizeCapability c = ''vector_retrieve''
      then ''allow_low_risk'' else ''require_approval'')"
proof (cases "map_of capabilityRules (NormalizeCapability c)")
  case None
  have "\<forall>c \<in> set capabilities. c \<noteq> ''vector_assert_truth'' \<longrightarrow> map_of capabilityRules c \<noteq> None" by code_simp
  then have "NormalizeCapability c = ''vector_assert_truth'' \<or> NormalizeCapability c = ''unknown''"
    using None one_of_range [of capabilities "''unknown''" c] unfolding NormalizeCapability_def by blast
  then show ?thesis by (elim disjE) (simp_all add: decision_outside_rules [OF None])
next
  case (Some r)
  let ?d = "default_profile p" and ?m = "NormalizeAuthorityMode (SurfaceMode (pc_Authority (pf_DefaultConfig p)) (cr_surface r))"
  have m: "?m = NormalizeAuthorityMode (SurfaceMode (defaultAuthority ?d) (cr_surface r))"
    by (simp add: DefaultConfig_fields)
  have "\<forall>(c, r) \<in> set capabilityRules. c \<noteq> ''vector_assert_truth'' \<and> c \<noteq> ''unknown''" by code_simp
  then have known: "NormalizeCapability c \<noteq> ''vector_assert_truth''" "NormalizeCapability c \<noteq> ''unknown''"
    using map_of_SomeD [OF Some] by blast+
  have unconfigured: "\<not> configured (pf_DefaultConfig p) c" by (simp add: configured_def DefaultConfig_fields)
  have evid: "vc_EvidenceReceipt (pc_Evidence (pf_DefaultConfig p))" "vc_RollbackPlan (pc_Evidence (pf_DefaultConfig p))"
    "vc_DisablePath (pc_Evidence (pf_DefaultConfig p))"
    by (simp_all add: DefaultConfig_fields defaultEvidence_def)
  note decision = capability_decision [OF Some, of H "pf_DefaultConfig p", unfolded Let_def]
  have low: "if cr_risk r = ''low'' then NormalizeCapability c = ''file_read'' \<or> NormalizeCapability c = ''vector_retrieve''
      else NormalizeCapability c \<noteq> ''file_read'' \<and> NormalizeCapability c \<noteq> ''vector_retrieve''"
    using low_risk_rules map_of_SomeD [OF Some] by (fastforce split: if_splits)
  consider "cr_risk r = ''low''" | "cr_risk r = ''medium''" | "cr_risk r = ''sensitive''"
    using rule_cases [OF Some] by auto
  then show ?thesis
  proof cases
    case 1
    have "?m \<noteq> ''audit_only''"
      unfolding m by (rule default_low [OF map_of_SomeD [OF Some] 1 default_profile_range])
    moreover have "NormalizeCapability c \<noteq> ''release_publish''" using low 1 by auto
    ultimately show ?thesis using 1 low known evid by (simp add: decision)
  next
    case 2
    have "?m \<noteq> ''allow''"
      unfolding m by (rule default_medium [OF map_of_SomeD [OF Some] 2 default_profile_range])
    then have "approvalRequired (pf_DefaultConfig p) r (?m = ''allow'' \<or> ?m = ''allow_configured'' \<and> configured (pf_DefaultConfig p) c)"
      using unconfigured by (simp add: approvalRequired_def DefaultConfig_fields Let_def)
    then show ?thesis using 2 low known evid by (simp add: decision)
  next
    case 3
    have "approvalRequired (pf_DefaultConfig p) r x" for x
      using 3 by (simp add: approvalRequired_def DefaultConfig_fields Let_def)
    then show ?thesis using 3 low known evid by (simp add: decision)
  qed
qed

section \<open>Witnesses\<close>

lemma tool_execute_rule:
  "map_of capabilityRules (NormalizeCapability ''tool_execute'') = Some (rule_of ''tool_authority'' ''medium'' [])"
proof -
  have "NormalizeCapability ''tool_execute'' = ''tool_execute''" by code_simp
  then show ?thesis by (simp add: capabilityRules_def)
qed

lemma capability_decision_table_witness:
  "as_Decision (EvaluateCapability sample_codec (pf_DefaultConfig ''lab'') ''tool_execute'') = ''require_approval''"
proof -
  have "NormalizeAuthorityMode (SurfaceMode (pc_Authority (pf_DefaultConfig ''lab'')) ''tool_authority'') = ''allow_configured''"
    by code_simp
  then show ?thesis
    using capability_decision_table [OF tool_execute_rule, of sample_codec "pf_DefaultConfig ''lab''"]
    by (simp add: Let_def rule_of_def approvalRequired_def DefaultConfig_fields configured_def)
qed

definition denying_config :: PConfig where
  "denying_config = (pf_DefaultConfig ''lab'')\<lparr>pc_Authority := base_authority\<lparr>au_Tool := ''deny''\<rparr>,
     pc_Approval := base_approval\<lparr>ap_PolicyAbsence := False, ap_Selfmod := False\<rparr>\<rparr>"

lemma denied_surface_never_denies_witness:
  "as_Decision (EvaluateCapability sample_codec denying_config ''tool_execute'') = ''audit_only''"
proof -
  have *: "NormalizeCapability ''tool_execute'' = ''tool_execute''"
    "NormalizeAuthorityMode (SurfaceMode (pc_Authority denying_config) (cr_surface (rule_of ''tool_authority'' ''medium'' []))) = ''deny''"
    by code_simp+
  show ?thesis
    using denied_surface_never_denies [OF tool_execute_rule _ disjI1 [OF *(2)]] *(1)
    by (simp add: rule_of_def denying_config_def)
qed

end
