(* ===== verification/Research.thy ===== *)
theory Research
  imports Trajectory HarnessRegistry
begin

text \<open>
  Requests, policy and URL checks of \<open>pkg/researchgate\<close>. \<open>url.Parse\<close>, \<open>URL.String\<close> and
  \<open>netip.ParseAddr\<close> are parameters; \<open>net.SplitHostPort\<close>, \<open>net.JoinHostPort\<close> and the methods of
  \<open>netip.Addr\<close> and \<open>url.URL\<close> that take hosts apart are written out, as what they leave of a host decides
  what is blocked and where a connection goes. The reason and status words are the code's constants.
\<close>

section \<open>Hosts\<close>

fun index_of :: "char \<Rightarrow> string \<Rightarrow> nat option" where
  "index_of c [] = None"
| "index_of c (d # s) = (if d = c then Some 0 else map_option Suc (index_of c s))"

definition last_index_of :: "char \<Rightarrow> string \<Rightarrow> nat option" where
  "last_index_of c s = map_option (\<lambda>i. length s - 1 - i) (index_of c (rev s))"

text \<open>\<open>net.SplitHostPort\<close>, with \<open>None\<close> for its error.\<close>

definition SplitHostPort :: "string \<Rightarrow> (string \<times> string) option" where
  "SplitHostPort s =
     (case last_index_of CHR '':'' s of
        None \<Rightarrow> None
      | Some i \<Rightarrow>
          (if take 1 s = ''[''
           then (case index_of CHR '']'' s of
                   None \<Rightarrow> None
                 | Some e \<Rightarrow>
                     if e + 1 \<noteq> i then None
                     else if CHR ''['' \<in> set (drop 1 s) \<or> CHR '']'' \<in> set (drop (e + 1) s) then None
                     else Some (take (e - 1) (drop 1 s), drop (i + 1) s))
           else (if CHR '':'' \<in> set (take i s) then None
                 else if CHR ''['' \<in> set s \<or> CHR '']'' \<in> set s then None
                 else Some (take i s, drop (i + 1) s))))"

definition JoinHostPort :: "string \<Rightarrow> string \<Rightarrow> string" where
  "JoinHostPort host port =
     (if CHR '':'' \<in> set host then ''['' @ host @ '']:'' @ port else host @ '':'' @ port)"

definition TrimSuffix :: "string \<Rightarrow> string \<Rightarrow> string" where
  "TrimSuffix s p = (if suffix p s then take (length s - length p) s else s)"

definition normalizedHost :: "string \<Rightarrow> string" where
  "normalizedHost host =
     (let h = TrimSpace (ToLower host)
      in if h = [] then []
         else
           (let h = (case SplitHostPort h of
                  Some (parsed, port) \<Rightarrow> parsed
                | None \<Rightarrow>
                    if prefix ''['' h then
                      (case index_of CHR '']'' h of
                         Some e \<Rightarrow> if e > 0 then take (e - 1) (drop 1 h) else h
                       | None \<Rightarrow> h)
                    else h);
                h = TrimSuffix h ''.''
            in if prefix ''['' h \<and> suffix '']'' h then drop 1 (TrimSuffix h '']'') else h))"

text \<open>\<open>Hostname\<close> and \<open>Port\<close> of a \<open>url.URL\<close>, from its host field: where the client connects to.\<close>

definition validOptionalPort :: "string \<Rightarrow> bool" where
  "validOptionalPort s \<longleftrightarrow>
     s = [] \<or> (hd s = CHR '':'' \<and> list_all (\<lambda>c. c \<in> set ''0123456789'') (tl s))"

definition url_splitHostPort :: "string \<Rightarrow> string \<times> string" where
  "url_splitHostPort h =
     (let (host, port) =
        (case last_index_of CHR '':'' h of
           Some i \<Rightarrow> if validOptionalPort (drop i h) then (take i h, drop (i + 1) h) else (h, [])
         | None \<Rightarrow> (h, []))
      in (if prefix ''['' host \<and> suffix '']'' host then take (length host - 2) (drop 1 host) else host, port))"

section \<open>Addresses\<close>

text \<open>A \<open>netip.Addr\<close>: 4 bytes, or 16 bytes with a zone.\<close>

datatype addr = V4 "nat list" | V6 "nat list" string

definition mapped_prefix :: "nat list" where
  "mapped_prefix = [0, 0, 0, 0, 0, 0, 0, 0, 0, 0, 255, 255]"

definition Unmap :: "addr \<Rightarrow> addr" where
  "Unmap a = (case a of V6 b z \<Rightarrow> if take 12 b = mapped_prefix then V4 (drop 12 b) else a | V4 b \<Rightarrow> a)"

definition addr_IsUnspecified :: "addr \<Rightarrow> bool" where
  "addr_IsUnspecified a \<longleftrightarrow> a = V4 (replicate 4 0) \<or> a = V6 (replicate 16 0) []"

definition addr_IsLoopback :: "addr \<Rightarrow> bool" where
  "addr_IsLoopback a \<longleftrightarrow>
     (case Unmap a of V4 b \<Rightarrow> take 1 b = [127] | V6 b z \<Rightarrow> b = replicate 15 0 @ [1])"

definition addr_IsPrivate :: "addr \<Rightarrow> bool" where
  "addr_IsPrivate a \<longleftrightarrow>
     (case Unmap a of
        V4 b \<Rightarrow> take 1 b = [10] \<or> (take 1 b = [172] \<and> b ! 1 div 16 = 1) \<or> take 2 b = [192, 168]
      | V6 b z \<Rightarrow> b ! 0 div 2 = 126)"

definition addr_IsLinkLocalUnicast :: "addr \<Rightarrow> bool" where
  "addr_IsLinkLocalUnicast a \<longleftrightarrow>
     (case Unmap a of V4 b \<Rightarrow> take 2 b = [169, 254] | V6 b z \<Rightarrow> b ! 0 = 254 \<and> b ! 1 div 64 = 2)"

definition addr_IsLinkLocalMulticast :: "addr \<Rightarrow> bool" where
  "addr_IsLinkLocalMulticast a \<longleftrightarrow>
     (case Unmap a of V4 b \<Rightarrow> take 3 b = [224, 0, 0] | V6 b z \<Rightarrow> b ! 0 = 255 \<and> b ! 1 mod 16 = 2)"

text \<open>\<open>Is6\<close> holds of mapped addresses too.\<close>

definition addr_Is6 :: "addr \<Rightarrow> bool" where
  "addr_Is6 a = (case a of V4 b \<Rightarrow> False | V6 b z \<Rightarrow> True)"

section \<open>URLs\<close>

text \<open>
  The parts of a URL that the code looks at; the rest (user, query and so on) is one string.
\<close>

record PUrl =
  ul_Scheme :: string
  ul_Host :: string
  ul_HasUser :: bool
  ul_Path :: string
  ul_Fragment :: string
  ul_rest :: string

record UrlEnv =
  ue_Parse :: "string \<Rightarrow> PUrl option"
  ue_String :: "PUrl \<Rightarrow> string"
  ue_ParseAddr :: "string \<Rightarrow> addr option"

definition IsPrivateOrLocalHost :: "UrlEnv \<Rightarrow> string \<Rightarrow> bool" where
  "IsPrivateOrLocalHost E host =
     (let h = normalizedHost host
      in if h = [] then True
         else if prefix ''localhost'' h then True
         else if prefix ''127.'' h then True
         else (case ue_ParseAddr E h of
           None \<Rightarrow> False
         | Some a \<Rightarrow>
             addr_IsUnspecified a \<or> addr_IsLoopback a \<or> addr_IsPrivate a \<or> addr_IsLinkLocalUnicast a \<or> addr_IsLinkLocalMulticast a \<or>
             addr_Is6 a \<and> (addr_IsPrivate a \<or> addr_IsLinkLocalUnicast a)))"

definition HostLooksLikeCloudMetadata :: "string \<Rightarrow> bool" where
  "HostLooksLikeCloudMetadata host =
     (let h = normalizedHost host
      in if h = [] then False
         else if h \<in> set [''metadata'', ''instance-data'', ''metadata.google.internal'', ''imds.amazonaws.com'']
         then True
         else suffix ''.metadata.google.internal'' h)"

definition NormalizeURL :: "UrlEnv \<Rightarrow> string \<Rightarrow> string option" where
  "NormalizeURL E raw =
     (let trimmed = TrimSpace raw
      in if trimmed = [] then None
         else case ue_Parse E trimmed of
           None \<Rightarrow> None
         | Some u \<Rightarrow>
             (if ul_Scheme u = [] \<or> ul_Host u = [] then None
              else
                (let host = normalizedHost (ul_Host u); port = snd (url_splitHostPort (ul_Host u))
                 in if host = [] then None
                    else Some (ue_String E
                      (u\<lparr>ul_Scheme := ToLower (TrimSpace (ul_Scheme u)),
                         ul_Host := (if port \<noteq> [] then JoinHostPort host port else host),
                         ul_Path := (if ul_Path u = [] then ''/'' else ul_Path u),
                         ul_Fragment := []\<rparr>)))))"

definition IsSupportedScheme :: "PUrl \<Rightarrow> string list \<Rightarrow> bool" where
  "IsSupportedScheme u allowed =
     (let scheme = ToLower (TrimSpace (ul_Scheme u))
      in list_ex (\<lambda>s. scheme = ToLower (TrimSpace s)) allowed)"

definition IsCredentialedURL :: "PUrl \<Rightarrow> bool" where
  "IsCredentialedURL u = ul_HasUser u"

section \<open>Policy\<close>

record RPolicy =
  po_AllowPublicGET :: bool
  po_AllowHEAD :: bool
  po_AllowSearch :: bool
  po_AllowDownloads :: bool
  po_RequireApprovalForDownload :: bool
  po_AllowCredentials :: bool
  po_AllowPrivateNetworks :: bool
  po_AllowMutatingMethods :: bool
  po_AllowedSchemes :: "string list"
  po_BlockedHosts :: "string list"
  po_AllowedHosts :: "string list"
  po_MaxResponseBytes :: int
  po_MaxDownloadBytes :: int
  po_DefaultTimeout :: duration
  po_MaxTimeout :: duration
  po_RequestsPerMinute :: int

definition rg_DefaultPolicy :: RPolicy where
  "rg_DefaultPolicy =
     \<lparr>po_AllowPublicGET = True, po_AllowHEAD = True, po_AllowSearch = True, po_AllowDownloads = True,
      po_RequireApprovalForDownload = False, po_AllowCredentials = False,
      po_AllowPrivateNetworks = False, po_AllowMutatingMethods = False,
      po_AllowedSchemes = [''http'', ''https''], po_BlockedHosts = [], po_AllowedHosts = [],
      po_MaxResponseBytes = 524288, po_MaxDownloadBytes = 26214400,
      po_DefaultTimeout = 8 * Second, po_MaxTimeout = 20 * Second, po_RequestsPerMinute = 30\<rparr>"

definition isHostBlocked :: "string \<Rightarrow> string list \<Rightarrow> bool" where
  "isHostBlocked host blocked = (let h = normalizedHost host in list_ex (\<lambda>b. h = normalizedHost b) blocked)"

definition isHostAllowed :: "string \<Rightarrow> string list \<Rightarrow> bool" where
  "isHostAllowed host allowed = (let h = normalizedHost host in list_ex (\<lambda>a. h = normalizedHost a) allowed)"

record validatedURL =
  vu_raw :: string
  vu_parsed :: PUrl
  vu_host :: string

text \<open>The reason of a refusal, or the validated URL.\<close>

definition validateResearchURL :: "UrlEnv \<Rightarrow> string \<Rightarrow> RPolicy \<Rightarrow> string + validatedURL" where
  "validateResearchURL E raw policy =
     (case NormalizeURL E raw of
        None \<Rightarrow> Inl ''REASON_URL_INVALID''
      | Some normalized \<Rightarrow>
          (case ue_Parse E normalized of
             None \<Rightarrow> Inl ''REASON_URL_INVALID''
           | Some parsed \<Rightarrow>
               (let host = normalizedHost (ul_Host parsed)
                in if \<not> IsSupportedScheme parsed (po_AllowedSchemes policy)
                   then Inl ''REASON_UNSUPPORTED_SCHEME''
                   else if IsCredentialedURL parsed \<and> \<not> po_AllowCredentials policy
                   then Inl ''REASON_CREDENTIALS_FORBIDDEN''
                   else if host = [] then Inl ''REASON_URL_INVALID''
                   else if isHostBlocked host (po_BlockedHosts policy) then Inl ''REASON_DOMAIN_BLOCKED''
                   else if po_AllowedHosts policy \<noteq> [] \<and> \<not> isHostAllowed host (po_AllowedHosts policy)
                   then Inl ''REASON_DOMAIN_BLOCKED''
                   else if \<not> po_AllowPrivateNetworks policy \<and>
                     (IsPrivateOrLocalHost E host \<or> HostLooksLikeCloudMetadata host)
                   then Inl ''REASON_PRIVATE_NETWORK_BLOCKED''
                   else Inr \<lparr>vu_raw = normalized, vu_parsed = parsed, vu_host = host\<rparr>)))"

section \<open>Requests and decisions\<close>

record ResearchRequest =
  rq_ID :: string
  rq_MissionID :: string
  rq_Kind :: string
  rq_Method :: string
  rq_URL :: string
  rq_Query :: string
  rq_Headers :: metadata
  rq_MaxBytes :: int
  rq_TimeoutMS :: int
  rq_UserAgent :: string
  rq_Metadata :: "(string \<times> any) list"
  rq_CreatedAt :: instant

record ResearchDecision =
  rd_RequestID :: string
  rd_Allowed :: bool
  rd_RequiresHuman :: bool
  rd_FinalStatus :: string
  rd_ReasonCode :: string
  rd_Issues :: "string list"
  rd_RiskClass :: string
  rd_NormalizedURL :: string
  rd_TimeoutMS :: int
  rd_MaxBytes :: int

definition inferredMethod :: "string \<Rightarrow> string" where
  "inferredMethod kind = (if kind = ''HEAD'' then ''HEAD'' else ''GET'')"

definition credentialHeaderKeys :: "string list" where
  "credentialHeaderKeys = [''authorization'', ''cookie'', ''x-api-key'', ''x-auth-token'',
     ''proxy-authorization'', ''api-key'', ''bearer'']"

definition credentialMetaKeys :: "string list" where
  "credentialMetaKeys = [''api_key'', ''api-key'', ''token'', ''secret'', ''password'', ''credential'',
     ''auth'', ''cookie'', ''bearer'']"

definition names_credential :: "string list \<Rightarrow> string \<Rightarrow> bool" where
  "names_credential needles k =
     (let low = ToLower (TrimSpace k) in list_ex (\<lambda>needle. low = needle \<or> sublist needle low) needles)"

definition hasCredentialMaterial :: "metadata \<Rightarrow> (string \<times> any) list \<Rightarrow> bool" where
  "hasCredentialMaterial headers meta \<longleftrightarrow>
     list_ex (\<lambda>(k, v). names_credential credentialHeaderKeys k) headers \<or>
     list_ex (\<lambda>(k, v). names_credential credentialMetaKeys k) meta"

text \<open>Durations are 64-bit: the product of a large number of milliseconds wraps around.\<close>

definition boundedTimeout :: "RPolicy \<Rightarrow> int \<Rightarrow> duration" where
  "boundedTimeout p timeoutMS =
     (let out = (if po_DefaultTimeout p \<le> 0 then 8 * Second else po_DefaultTimeout p);
          out = (if timeoutMS > 0 then wrap64 (timeoutMS * Millisecond) else out);
          mx = (if po_MaxTimeout p \<le> 0 then 20 * Second else po_MaxTimeout p)
      in if out > mx then mx else if out \<le> 0 then 8 * Second else out)"

definition boundedMax :: "int \<Rightarrow> int \<Rightarrow> int" where
  "boundedMax requested policyMax =
     (let mx = (if policyMax \<le> 0 then 524288 else policyMax)
      in if requested \<le> 0 then mx else if requested > mx then mx else requested)"

definition request_method :: "ResearchRequest \<Rightarrow> string" where
  "request_method req =
     (let method = ToUpper (TrimSpace (rq_Method req))
      in if method = [] then inferredMethod (rq_Kind req) else method)"

text \<open>\<open>CreatedAt\<close> is set on a copy of the request and not looked at again.\<close>

definition RPolicy_Evaluate :: "UrlEnv \<Rightarrow> RPolicy \<Rightarrow> ResearchRequest \<Rightarrow> ResearchDecision" where
  "RPolicy_Evaluate E p req =
     (let method = request_method req;
          d = \<lparr>rd_RequestID = rq_ID req, rd_Allowed = False, rd_RequiresHuman = False,
            rd_FinalStatus = ''RESEARCH_BLOCKED'', rd_ReasonCode = ''REASON_METHOD_NOT_ALLOWED'',
            rd_Issues = [], rd_RiskClass = [], rd_NormalizedURL = [],
            rd_TimeoutMS = Milliseconds (boundedTimeout p (rq_TimeoutMS req)),
            rd_MaxBytes = boundedMax (rq_MaxBytes req)
              (if rq_Kind req = ''DOWNLOAD'' then po_MaxDownloadBytes p else po_MaxResponseBytes p)\<rparr>;
          allow = (\<lambda>d. d\<lparr>rd_Allowed := True, rd_FinalStatus := ''RESEARCH_ALLOWED'',
            rd_ReasonCode := ''REASON_RESEARCH_READ_ALLOWED''\<rparr>);
          ask = (\<lambda>reason d. d\<lparr>rd_RequiresHuman := True, rd_FinalStatus := ''RESEARCH_REQUIRES_HUMAN'',
            rd_ReasonCode := reason\<rparr>)
      in if \<not> po_AllowCredentials p \<and> hasCredentialMaterial (rq_Headers req) (rq_Metadata req)
         then d\<lparr>rd_ReasonCode := ''REASON_CREDENTIALS_FORBIDDEN''\<rparr>
         else if rq_Kind req = ''SEARCH'' then (if \<not> po_AllowSearch p then d else allow d)
         else if method \<noteq> ''GET'' \<and> method \<noteq> ''HEAD'' \<and> \<not> po_AllowMutatingMethods p
         then ask ''REASON_EXTERNAL_SIDE_EFFECT_REQUIRES_APPROVAL'' d
         else if method = ''GET'' \<and> \<not> po_AllowPublicGET p then d
         else if method = ''HEAD'' \<and> \<not> po_AllowHEAD p then d
         else case validateResearchURL E (rq_URL req) p of
           Inl reason \<Rightarrow> d\<lparr>rd_ReasonCode := reason\<rparr>
         | Inr safeURL \<Rightarrow>
             (let d = d\<lparr>rd_NormalizedURL := vu_raw safeURL\<rparr>
              in if rq_Kind req = ''DOWNLOAD'' \<and> \<not> po_AllowDownloads p then d
                 else if rq_Kind req = ''DOWNLOAD'' \<and> po_RequireApprovalForDownload p
                 then ask ''REASON_DOWNLOAD_REQUIRES_QUEUE'' d
                 else allow d))"

end
