(* ===== verification/ResearchRun.thy ===== *)
theory ResearchRun
  imports Research
begin

text \<open>
  The gateway of \<open>pkg/researchgate\<close>: its cache, the single place that sends requests, and \<open>Fetch\<close>.
  What a server answers is a parameter (a response, a redirect that the HTTP client derives from one,
  or a failure), as are the UUID and two readings of the clock, at the start and at the end of a
  call. The logger has no effect that the code looks at.
\<close>

section \<open>Results\<close>

record ResearchResult =
  rx_RequestID :: string
  rx_URL :: string
  rx_Query :: string
  rx_StatusCode :: int
  rx_ContentType :: string
  rx_BytesRead :: int
  rx_SHA256 :: string
  rx_StoredAt :: string
  rx_FetchedAt :: instant
  rx_FromCache :: bool
  rx_Metadata :: metadata
  rx_BodyPreview :: string
  rx_AuditSummary :: "AuditSummary option"

datatype FetchError =
    FE_Blocked string
  | FE_InvalidRequest
  | FE_Deadline
  | FE_Redirect string
  | FE_TooManyRedirects
  | FE_Transport string
  | FE_DownloadApproval
  | FE_TooLarge

section \<open>Cache\<close>

record cacheEntry =
  ce_value :: ResearchResult
  ce_expiresAt :: instant

type_synonym rcache = "(string \<times> cacheEntry) list"

definition NewMemoryCache :: rcache where
  "NewMemoryCache = []"

definition rg_Get :: "instant \<Rightarrow> string \<Rightarrow> rcache \<Rightarrow> ResearchResult option \<times> rcache" where
  "rg_Get now key c =
     (case map_of c key of
        None \<Rightarrow> (None, c)
      | Some e \<Rightarrow> if now > ce_expiresAt e then (None, AList.delete key c) else (Some (ce_value e), c))"

definition rg_Put :: "instant \<Rightarrow> string \<Rightarrow> ResearchResult \<Rightarrow> duration \<Rightarrow> rcache \<Rightarrow> rcache" where
  "rg_Put now key v ttl c =
     (if ttl \<le> 0 then c else AList.update key \<lparr>ce_value = v, ce_expiresAt = now + ttl\<rparr> c)"

section \<open>Sending\<close>

record HttpResponse =
  ht_StatusCode :: int
  ht_ContentTypeHeader :: string
  ht_ContentLengthHeader :: string
  ht_ContentLength :: int
  ht_Body :: string
  ht_ReadError :: "FetchError option"

text \<open>
  The body is what a reader of the whole response would get, followed by the error if there is one.
  A redirect carries the method and the URL of the request that the client would send next.
\<close>

datatype reply = Failed FetchError | Answer HttpResponse | Redirect string string

type_synonym sender = "string \<Rightarrow> PUrl \<Rightarrow> metadata \<Rightarrow> string \<Rightarrow> reply"

text \<open>\<open>http.NewRequest\<close>: the method must be a token, and the URL is parsed once more.\<close>

definition token_char :: "char \<Rightarrow> bool" where
  "token_char c \<longleftrightarrow>
     c \<in> set ''!#$%&*+-.^_`|~0123456789ABCDEFGHIJKLMNOPQRSTUVWXYZabcdefghijklmnopqrstuvwxyz'' \<or>
     c = CHR 0x27"

definition removeEmptyPort :: "string \<Rightarrow> string" where
  "removeEmptyPort host =
     (let after = (case last_index_of CHR '']'' host of Some i \<Rightarrow> drop (i + 1) host | None \<Rightarrow> host)
      in if CHR '':'' \<in> set after then TrimSuffix host '':'' else host)"

definition NewRequest :: "UrlEnv \<Rightarrow> string \<Rightarrow> string \<Rightarrow> PUrl option" where
  "NewRequest E method raw =
     (if method = [] \<or> \<not> list_all token_char method then None
      else map_option (\<lambda>u. u\<lparr>ul_Host := removeEmptyPort (ul_Host u)\<rparr>) (ue_Parse E raw))"

text \<open>
  The client's loop: \<open>via\<close> is the number of requests sent so far when a redirect comes in. Next to
  the outcome the requests sent are listed, each with its method and URL.
\<close>

function rg_follow ::
    "UrlEnv \<Rightarrow> RPolicy \<Rightarrow> sender \<Rightarrow> metadata \<Rightarrow> string \<Rightarrow> nat \<Rightarrow> string \<Rightarrow> PUrl \<Rightarrow>
       (FetchError + HttpResponse) \<times> (string \<times> PUrl) list" where
  "rg_follow E p send hs ua via method u =
     (case send method u hs ua of
        Failed e \<Rightarrow> (Inl e, [(method, u)])
      | Answer r \<Rightarrow> (Inr r, [(method, u)])
      | Redirect method2 target \<Rightarrow>
          (if via \<ge> 10 then (Inl FE_TooManyRedirects, [(method, u)])
           else case validateResearchURL E target p of
             Inl reason \<Rightarrow> (Inl (FE_Redirect reason), [(method, u)])
           | Inr v \<Rightarrow>
               (let (res, sent) = rg_follow E p send hs ua (via + 1) method2 (vu_parsed v)
                in (res, (method, u) # sent))))"
  by pat_completeness auto

termination by (relation "measure (\<lambda>(E, p, send, hs, ua, via, method, u). 10 - via)") auto

declare rg_follow.simps [simp del]

definition executeValidatedFetch ::
    "UrlEnv \<Rightarrow> RPolicy \<Rightarrow> sender \<Rightarrow> string \<Rightarrow> validatedURL \<Rightarrow> metadata \<Rightarrow> string \<Rightarrow>
       (FetchError + HttpResponse) \<times> (string \<times> PUrl) list" where
  "executeValidatedFetch E p send method safeURL headers userAgent =
     (case NewRequest E method (vu_raw safeURL) of
        None \<Rightarrow> (Inl FE_InvalidRequest, [])
      | Some u \<Rightarrow> rg_follow E p send headers (TrimSpace userAgent) 1 method u)"

section \<open>Gateway\<close>

record Gateway =
  gw_Policy :: RPolicy
  gw_Cache :: "rcache option"
  gw_HasSink :: bool
  gw_TraceMode :: TraceMode
  gw_HarnessRuntime :: "Runtime option"

definition NewGateway :: "RPolicy \<Rightarrow> Gateway" where
  "NewGateway policy = \<lparr>gw_Policy = policy, gw_Cache = Some NewMemoryCache, gw_HasSink = True,
     gw_TraceMode = ModeOff, gw_HarnessRuntime = Some (NewRuntime ''off'' None)\<rparr>"

text \<open>A nil sink is replaced by one that drops everything, a nil runtime by one that is off.\<close>

definition SetTraceSink :: "TraceMode \<Rightarrow> Gateway \<Rightarrow> Gateway" where
  "SetTraceSink mode g = g\<lparr>gw_HasSink := True, gw_TraceMode := mode\<rparr>"

definition SetHarnessRuntime :: "Runtime option \<Rightarrow> Gateway \<Rightarrow> Gateway" where
  "SetHarnessRuntime runtime g =
     g\<lparr>gw_HarnessRuntime := Some (case runtime of None \<Rightarrow> NewRuntime ''off'' None | Some r \<Rightarrow> r)\<rparr>"

record RunEnv =
  en_E :: UrlEnv
  en_H :: Codec
  en_regex :: regex
  en_uuid :: string
  en_now :: instant
  en_later :: instant
  en_expired :: bool
  en_send :: sender

definition research_host :: "UrlEnv \<Rightarrow> ResearchRequest \<Rightarrow> ResearchDecision \<Rightarrow> string" where
  "research_host E req decision =
     (let host_of = (\<lambda>raw. if raw = [] then [] else case ue_Parse E raw of None \<Rightarrow> [] | Some u \<Rightarrow> normalizedHost (ul_Host u));
          host = host_of (rd_NormalizedURL decision)
      in if host = [] then host_of (rq_URL req) else host)"

definition buildResearchHarnessArtifact ::
    "RunEnv \<Rightarrow> ResearchRequest \<Rightarrow> ResearchDecision \<Rightarrow> ResearchResult \<Rightarrow> duration \<Rightarrow> Artifact" where
  "buildResearchHarnessArtifact N req decision result dur =
     (let H = en_H N;
          urlHash = StableHash H [TrimSpace (rd_NormalizedURL decision)]
      in \<lparr>at_ID = StableHash H [''researchgate-audit'', TrimSpace (rq_ID req), urlHash,
            TrimSpace (rd_ReasonCode decision), FormatInt (rx_StatusCode result)],
          at_Kind = ''research_claim'', at_Name = ''researchgate.egress_decision'', at_Content = [],
          at_ContentHash = rx_SHA256 result,
          at_Refs = [NewRef ''request_id'' (rq_ID req) [] 0, NewRef ''url_hash'' urlHash urlHash 0],
          at_Metadata =
            [(''surface'', ''researchgate''), (''request_kind'', rq_Kind req),
             (''method'', ToUpper (TrimSpace (rq_Method req))), (''host'', research_host (en_E N) req decision),
             (''allowed'', boolString (rd_Allowed decision)), (''final_status'', rd_FinalStatus decision),
             (''reason_code'', rd_ReasonCode decision), (''risk_class'', rd_RiskClass decision),
             (''status_code'', FormatInt (rx_StatusCode result)),
             (''bytes_read'', FormatInt (rx_BytesRead result)),
             (''from_cache'', boolString (rx_FromCache result)),
             (''duration_ms'', FormatInt (Milliseconds dur)), (''url_hash'', urlHash),
             (''content_sha256'', rx_SHA256 result)]\<rparr>)"

definition runHarnessAudit ::
    "RunEnv \<Rightarrow> Gateway \<Rightarrow> ResearchRequest \<Rightarrow> ResearchDecision \<Rightarrow> ResearchResult \<Rightarrow> duration \<Rightarrow> AuditSummary option" where
  "runHarnessAudit N g req decision result dur =
     (if gw_HarnessRuntime g = None \<or> Runtime_Mode (gw_HarnessRuntime g) = ''off'' then None
      else
        (let artifact = buildResearchHarnessArtifact N req decision result dur;
             report = fst (Runtime_Validate (en_H N) (en_regex N) (\<lambda>i. None) (en_later N) (en_later N)
               artifact (gw_HarnessRuntime g))
         in Some (SummarizeReport (en_H N) (en_later N) (Runtime_Mode (gw_HarnessRuntime g)) report)))"

definition research_event ::
    "RunEnv \<Rightarrow> ResearchRequest \<Rightarrow> ResearchDecision \<Rightarrow> ResearchResult \<Rightarrow> duration \<Rightarrow> Event" where
  "research_event N req decision result dur =
     (let ev = (NewEvent (en_uuid N) (en_later N) ''researchgate'' ''research_egress'')
            \<lparr>ev_Operator := ''retrieve'',
             ev_Decision := RedactString (rd_FinalStatus decision) 64,
             ev_ReasonCode := RedactString (rd_ReasonCode decision) 128,
             ev_Duration := Milliseconds dur,
             ev_Status := (if \<not> rd_Allowed decision then ''blocked'' else ''ok''),
             ev_RedactionState := ''redacted'',
             ev_ArtifactRefs := [NewRef ''url'' (rd_NormalizedURL decision) (rx_SHA256 result) (rx_BytesRead result)],
             ev_ReceiptRefs := [NewRef ''request_id'' (rq_ID req) [] 0],
             ev_Metadata := NewMetadata
               [(''kind'', rq_Kind req), (''method'', ToUpper (TrimSpace (rq_Method req))),
                (''status_code'', FormatInt (rx_StatusCode result)),
                (''bytes_read'', FormatInt (rx_BytesRead result)),
                (''from_cache'', boolString (rx_FromCache result)),
                (''content_type'', RedactString (rx_ContentType result) 64)]\<rparr>
      in case rx_AuditSummary result of
           None \<Rightarrow> ev
         | Some s \<Rightarrow> ev\<lparr>ev_ValidationRefs := [NewRef ''harness_report'' (as_ReportID s) [] 0],
             ev_Metadata := AList.update ''harness_mode'' (as_Mode s)
               (AList.update ''harness_status'' (as_Status s) (ev_Metadata ev))\<rparr>)"

definition logDecision ::
    "RunEnv \<Rightarrow> Gateway \<Rightarrow> ResearchRequest \<Rightarrow> ResearchDecision \<Rightarrow> ResearchResult \<Rightarrow> ResearchResult \<times> emission" where
  "logDecision N g req decision result =
     (let dur = time_Sub (en_later N) (en_now N);
          result = (if rx_AuditSummary result = None
            then result\<lparr>rx_AuditSummary := runHarnessAudit N g req decision result dur\<rparr> else result)
      in (result,
          if gw_HasSink g \<and> gw_TraceMode g \<noteq> ModeOff
          then Emit (en_H N) (en_uuid N) (en_later N) True (gw_TraceMode g)
            (research_event N req decision result dur)
          else Dropped))"

section \<open>Fetch\<close>

definition isCredentialedNormalizedURL :: "UrlEnv \<Rightarrow> string \<Rightarrow> bool" where
  "isCredentialedNormalizedURL E raw =
     (if TrimSpace raw = [] then False
      else case ue_Parse E raw of None \<Rightarrow> False | Some u \<Rightarrow> IsCredentialedURL u)"

definition rg_blocked :: "string \<Rightarrow> ResearchDecision \<Rightarrow> ResearchDecision" where
  "rg_blocked reason d =
     d\<lparr>rd_Allowed := False, rd_FinalStatus := ''RESEARCH_BLOCKED'', rd_ReasonCode := reason\<rparr>"

definition evaluateForExecution ::
    "UrlEnv \<Rightarrow> RPolicy \<Rightarrow> ResearchRequest \<Rightarrow> ResearchDecision \<times> validatedURL option" where
  "evaluateForExecution E p req =
     (let decision = RPolicy_Evaluate E p req
      in if \<not> rd_Allowed decision then (decision, None)
         else case validateResearchURL E (rq_URL req) p of
           Inl reason \<Rightarrow> (rg_blocked reason decision, None)
         | Inr safeURL \<Rightarrow> (decision\<lparr>rd_NormalizedURL := vu_raw safeURL\<rparr>, Some safeURL))"

record fetched =
  fo_result :: ResearchResult
  fo_decision :: ResearchDecision
  fo_error :: "FetchError option"
  fo_gateway :: Gateway
  fo_sent :: "(string \<times> PUrl) list"
  fo_event :: emission

text \<open>Every return of \<open>Fetch\<close> logs its decision.\<close>

definition rg_finish ::
    "RunEnv \<Rightarrow> Gateway \<Rightarrow> ResearchRequest \<Rightarrow> (string \<times> PUrl) list \<Rightarrow> ResearchDecision \<Rightarrow> ResearchResult \<Rightarrow>
       FetchError option \<Rightarrow> fetched" where
  "rg_finish N g req sent d result err =
     (let (result, ev) = logDecision N g req d result
      in \<lparr>fo_result = result, fo_decision = d, fo_error = err, fo_gateway = g, fo_sent = sent, fo_event = ev\<rparr>)"

definition start_result :: "RunEnv \<Rightarrow> ResearchRequest \<Rightarrow> ResearchResult" where
  "start_result N req =
     \<lparr>rx_RequestID = rq_ID req, rx_URL = rq_URL req, rx_Query = rq_Query req, rx_StatusCode = 0,
      rx_ContentType = [], rx_BytesRead = 0, rx_SHA256 = [], rx_StoredAt = [], rx_FetchedAt = en_now N,
      rx_FromCache = False, rx_Metadata = [], rx_BodyPreview = [], rx_AuditSummary = None\<rparr>"

definition failed_decision :: "RunEnv \<Rightarrow> FetchError \<Rightarrow> ResearchDecision \<Rightarrow> ResearchDecision" where
  "failed_decision N err d =
     (if err = FE_InvalidRequest then rg_blocked ''REASON_URL_INVALID'' d
      else if en_expired N \<or> err = FE_Deadline then rg_blocked ''REASON_TIMEOUT'' d
      else case err of FE_Redirect reason \<Rightarrow> rg_blocked reason d | _ \<Rightarrow> d)"

text \<open>What \<open>Fetch\<close> does with a response; \<open>cached\<close> is the key under which it may be stored.\<close>

definition read_response ::
    "RunEnv \<Rightarrow> Gateway \<Rightarrow> ResearchRequest \<Rightarrow> string \<Rightarrow> string option \<Rightarrow> (string \<times> PUrl) list \<Rightarrow>
       ResearchDecision \<Rightarrow> ResearchResult \<Rightarrow> HttpResponse \<Rightarrow> fetched" where
  "read_response N g req method cached sent d result resp =
     (let result = result
            \<lparr>rx_URL := rd_NormalizedURL d, rx_StatusCode := ht_StatusCode resp,
             rx_ContentType := TrimSpace (ht_ContentTypeHeader resp),
             rx_Metadata := (let cl = TrimSpace (ht_ContentLengthHeader resp)
               in if cl \<noteq> [] then [(''content_length'', cl)] else [])\<rparr>;
          store = (\<lambda>r. case (gw_Cache g, cached) of
              (Some c, Some key) \<Rightarrow> g\<lparr>gw_Cache := Some (rg_Put (en_later N) key r (300 * Second) c)\<rparr>
            | _ \<Rightarrow> g)
      in if rq_Kind req = ''DOWNLOAD'' \<and>
            (ht_ContentLength resp < 0 \<or> ht_ContentLength resp > rd_MaxBytes d)
         then rg_finish N g req sent
           (d\<lparr>rd_Allowed := False, rd_RequiresHuman := True, rd_FinalStatus := ''RESEARCH_REQUIRES_HUMAN'',
              rd_ReasonCode := ''REASON_DOWNLOAD_REQUIRES_QUEUE''\<rparr>) result (Some FE_DownloadApproval)
         else if method = ''HEAD'' then rg_finish N (store result) req sent d result None
         else
           (let maxBytes = (if rd_MaxBytes d \<le> 0 then 524288 else rd_MaxBytes d);
                limit = nat (wrap64 (maxBytes + 1));
                buf = take limit (ht_Body resp);
                readErr = (if limit \<le> length (ht_Body resp) then None else ht_ReadError resp)
            in case readErr of
                 Some e \<Rightarrow> rg_finish N g req sent (if en_expired N then rg_blocked ''REASON_TIMEOUT'' d else d) result (Some e)
               | None \<Rightarrow>
                   (if int (length buf) > maxBytes
                    then rg_finish N g req sent (rg_blocked ''REASON_RESPONSE_TOO_LARGE'' d)
                      (result\<lparr>rx_BytesRead := maxBytes, rx_BodyPreview := take (nat maxBytes) buf\<rparr>) (Some FE_TooLarge)
                    else
                      (let result = result\<lparr>rx_BytesRead := int (length buf),
                             rx_SHA256 := c_Sha256Hex (en_H N) buf, rx_BodyPreview := buf\<rparr>
                       in rg_finish N (store result) req sent d result None))))"

definition Fetch :: "RunEnv \<Rightarrow> Gateway \<Rightarrow> ResearchRequest \<Rightarrow> fetched" where
  "Fetch N g req =
     (let E = en_E N;
          (decision, safe) = evaluateForExecution E (gw_Policy g) req;
          result = start_result N req
      in case (rd_Allowed decision, safe) of
           (True, Some safeURL) \<Rightarrow>
             (let method = request_method req;
                  cacheKey = method @ '' '' @ rd_NormalizedURL decision;
                  cacheAllowed = (\<not> hasCredentialMaterial (rq_Headers req) (rq_Metadata req) \<and>
                    \<not> isCredentialedNormalizedURL E (rd_NormalizedURL decision));
                  cached = (if cacheAllowed \<and> (rq_Kind req = ''FETCH'' \<or> rq_Kind req = ''HEAD'')
                    then Some cacheKey else None);
                  (hit, g) = (case (gw_Cache g, cached) of
                      (Some c, Some key) \<Rightarrow> (let (hit, c) = rg_Get (en_now N) key c in (hit, g\<lparr>gw_Cache := Some c\<rparr>))
                    | _ \<Rightarrow> (None, g))
              in case hit of
                   Some r \<Rightarrow> rg_finish N g req [] decision (r\<lparr>rx_RequestID := rq_ID req, rx_FromCache := True\<rparr>) None
                 | None \<Rightarrow>
                     (let (res, sent) = executeValidatedFetch E (gw_Policy g) (en_send N) method safeURL
                            (rq_Headers req) (rq_UserAgent req)
                      in case res of
                           Inl err \<Rightarrow> rg_finish N g req sent (failed_decision N err decision) result (Some err)
                         | Inr resp \<Rightarrow> read_response N g req method cached sent decision result resp))
         | _ \<Rightarrow> rg_finish N g req [] decision result (Some (FE_Blocked (rd_ReasonCode decision))))"

end
