(* ===== verification/ResearchProps.thy ===== *)
theory ResearchProps
  imports ResearchRun
begin

text \<open>
  Where the research gateway sends requests, with which methods, how often, and what it gives back.
\<close>

section \<open>Validated URLs\<close>

text \<open>What a URL has that a policy lets through.\<close>

definition permitted :: "UrlEnv \<Rightarrow> RPolicy \<Rightarrow> PUrl \<Rightarrow> bool" where
  "permitted E p w \<longleftrightarrow>
     (let h = normalizedHost (ul_Host w)
      in IsSupportedScheme w (po_AllowedSchemes p) \<and> (ul_HasUser w \<longrightarrow> po_AllowCredentials p) \<and>
         h \<noteq> [] \<and> \<not> isHostBlocked h (po_BlockedHosts p) \<and>
         (po_AllowedHosts p = [] \<or> isHostAllowed h (po_AllowedHosts p)) \<and>
         (po_AllowPrivateNetworks p \<or> \<not> IsPrivateOrLocalHost E h \<and> \<not> HostLooksLikeCloudMetadata h))"

lemma validated_permitted:
  "validateResearchURL E raw p = Inr v \<Longrightarrow>
     permitted E p (vu_parsed v) \<and> ue_Parse E (vu_raw v) = Some (vu_parsed v)"
  by (auto simp: validateResearchURL_def permitted_def IsCredentialedURL_def Let_def
      split: option.splits if_splits)

section \<open>Redirects\<close>

lemma sent_permitted:
  assumes "(m, x) \<in> set (snd (rg_follow E p send hs ua via mt u))"
  shows "x = u \<or> permitted E p x"
  using assms
proof (induction E p send hs ua via mt u rule: rg_follow.induct)
  case (1 E p send hs ua via mt u)
  show ?case
  proof (cases "send mt u hs ua")
    case (Redirect method2 target)
    then show ?thesis
      using 1 validated_permitted
      by (auto simp: rg_follow.simps [of _ _ _ _ _ _ _ u] split: if_splits sum.splits prod.splits)
        (metis snd_conv)+
  qed (use 1(2) in \<open>auto simp: rg_follow.simps [of _ _ _ _ _ _ _ u]\<close>)
qed

lemma sent_length: "via \<le> 10 \<Longrightarrow> length (snd (rg_follow E p send hs ua via mt u)) \<le> 11 - via"
proof (induction E p send hs ua via mt u rule: rg_follow.induct)
  case (1 E p send hs ua via mt u)
  show ?case
  proof (cases "send mt u hs ua")
    case (Redirect method2 target)
    show ?thesis
    proof (cases "10 \<le> via")
      case False
      show ?thesis
      proof (cases "validateResearchURL E target p")
        case (Inr v)
        have "length (snd (rg_follow E p send hs ua (via + 1) method2 (vu_parsed v))) \<le> 11 - (via + 1)"
          using 1 Redirect False Inr by simp
        then show ?thesis
          using Redirect False Inr
          by (simp add: rg_follow.simps [of _ _ _ _ _ _ _ u] split_beta Let_def)
      qed (use Redirect False 1(2) in \<open>simp add: rg_follow.simps [of _ _ _ _ _ _ _ u]\<close>)
    qed (use Redirect 1(2) in \<open>simp add: rg_follow.simps [of _ _ _ _ _ _ _ u]\<close>)
  qed (use 1(2) in \<open>simp_all add: rg_follow.simps [of _ _ _ _ _ _ _ u]\<close>)
qed

lemma first_sent: "\<exists>rest. snd (rg_follow E p send hs ua via mt u) = (mt, u) # rest"
  by (subst rg_follow.simps) (auto split: reply.splits sum.splits prod.splits)


section \<open>Fetch\<close>

lemma finish_fields [simp]:
  "fo_sent (rg_finish N g req sent d r err) = sent" "fo_decision (rg_finish N g req sent d r err) = d"
  "fo_error (rg_finish N g req sent d r err) = err" "fo_gateway (rg_finish N g req sent d r err) = g"
  "rx_BodyPreview (fo_result (rg_finish N g req sent d r err)) = rx_BodyPreview r"
  "rx_FromCache (fo_result (rg_finish N g req sent d r err)) = rx_FromCache r"
  by (simp_all add: rg_finish_def logDecision_def Let_def)

lemma read_response_sent [simp]: "fo_sent (read_response N g req mt cached sent d r resp) = sent"
  by (simp add: read_response_def Let_def split: option.split)

lemma evaluated_request:
  assumes "evaluateForExecution E p req = (d, Some v)"
  shows "rd_Allowed d \<and> rd_Allowed (RPolicy_Evaluate E p req) \<and> validateResearchURL E (rq_URL req) p = Inr v \<and>
    d = (RPolicy_Evaluate E p req)\<lparr>rd_NormalizedURL := vu_raw v\<rparr>"
  using assms by (auto simp: evaluateForExecution_def Let_def split: if_splits sum.splits)

text \<open>What \<open>Fetch\<close> sends, if it sends anything.\<close>

lemma Fetch_sent:
  "fo_sent (Fetch N g req) = [] \<or>
   (\<exists>d v. evaluateForExecution (en_E N) (gw_Policy g) req = (d, Some v) \<and> rd_Allowed d \<and>
      fo_sent (Fetch N g req) = snd (executeValidatedFetch (en_E N) (gw_Policy g) (en_send N)
        (request_method req) v (rq_Headers req) (rq_UserAgent req)))"
proof -
  obtain d safe where ev: "evaluateForExecution (en_E N) (gw_Policy g) req = (d, safe)" by fastforce
  show ?thesis
  proof (cases "rd_Allowed d \<and> safe \<noteq> None")
    case True
    then obtain v where "rd_Allowed d" "safe = Some v" by auto
    then show ?thesis
      unfolding Fetch_def Let_def ev prod.case
      by (auto split: option.split prod.split sum.split)
  next
    case False
    then have "fo_sent (Fetch N g req) = []"
      unfolding Fetch_def Let_def ev prod.case by (auto split: option.split bool.split)
    then show ?thesis ..
  qed
qed

lemma executed_sent:
  assumes "validateResearchURL E raw p = Inr v"
    and "(m, u) \<in> set (snd (executeValidatedFetch E p send mt v hs ua))"
  shows "\<exists>w. permitted E p w \<and> (u = w \<or> u = w\<lparr>ul_Host := removeEmptyPort (ul_Host w)\<rparr>)"
proof -
  note v = validated_permitted [OF assms(1)]
  let ?u = "(vu_parsed v)\<lparr>ul_Host := removeEmptyPort (ul_Host (vu_parsed v))\<rparr>"
  have "NewRequest E mt (vu_raw v) = None \<or> NewRequest E mt (vu_raw v) = Some ?u"
    using v by (simp add: NewRequest_def)
  then have "(m, u) \<in> set (snd (rg_follow E p send hs (TrimSpace ua) 1 mt ?u))"
    using assms(2) by (auto simp: executeValidatedFetch_def)
  from sent_permitted [OF this] v show ?thesis by blast
qed

lemma allowed_without_credentials:
  "rd_Allowed (RPolicy_Evaluate E p req) \<Longrightarrow>
     po_AllowCredentials p \<or> \<not> hasCredentialMaterial (rq_Headers req) (rq_Metadata req)"
  by (auto simp: RPolicy_Evaluate_def Let_def split: if_splits)

text \<open>
  C21. The gateway only contacts what its policy permits. Every request that \<open>Fetch\<close> sends, the first
  one and those that follow redirects, goes to a URL that passed the checks: an allowed scheme, no
  credentials in it, a host that is neither blocked nor outside the list of allowed ones, and unless
  private networks are allowed, one that is not local, private or a metadata service by its text.
  And without the permission to use credentials nothing is sent for a request that carries any.
\<close>

theorem fetch_contacts_permitted:
  assumes "(m, u) \<in> set (fo_sent (Fetch N g req))"
  shows "(\<exists>w. (u = w \<or> u = w\<lparr>ul_Host := removeEmptyPort (ul_Host w)\<rparr>) \<and>
      (let h = normalizedHost (ul_Host w); p = gw_Policy g
       in IsSupportedScheme w (po_AllowedSchemes p) \<and> (ul_HasUser w \<longrightarrow> po_AllowCredentials p) \<and>
          h \<noteq> [] \<and> \<not> isHostBlocked h (po_BlockedHosts p) \<and>
          (po_AllowedHosts p = [] \<or> isHostAllowed h (po_AllowedHosts p)) \<and>
          (po_AllowPrivateNetworks p \<or>
             \<not> IsPrivateOrLocalHost (en_E N) h \<and> \<not> HostLooksLikeCloudMetadata h))) \<and>
    (po_AllowCredentials (gw_Policy g) \<or> \<not> hasCredentialMaterial (rq_Headers req) (rq_Metadata req))"
proof -
  obtain d v where ev: "evaluateForExecution (en_E N) (gw_Policy g) req = (d, Some v)"
    and sent: "(m, u) \<in> set (snd (executeValidatedFetch (en_E N) (gw_Policy g) (en_send N)
        (request_method req) v (rq_Headers req) (rq_UserAgent req)))"
    using Fetch_sent [of N g req] assms by auto
  note e = evaluated_request [OF ev]
  from e have "validateResearchURL (en_E N) (rq_URL req) (gw_Policy g) = Inr v" by simp
  from executed_sent [OF this sent] obtain w where "permitted (en_E N) (gw_Policy g) w"
    "u = w \<or> u = w\<lparr>ul_Host := removeEmptyPort (ul_Host w)\<rparr>" by blast
  moreover have "po_AllowCredentials (gw_Policy g) \<or> \<not> hasCredentialMaterial (rq_Headers req) (rq_Metadata req)"
    using allowed_without_credentials e by blast
  ultimately show ?thesis unfolding permitted_def Let_def by blast
qed

lemma read_response_cached [simp]:
  "rx_FromCache (fo_result (read_response N g req mt cached sent d r resp)) = rx_FromCache r"
  by (simp add: read_response_def Let_def split: option.split)

lemma Fetch_cached:
  assumes "rx_FromCache (fo_result (Fetch N g req))"
  shows "fo_sent (Fetch N g req) = []"
proof -
  obtain d safe where ev: "evaluateForExecution (en_E N) (gw_Policy g) req = (d, safe)" by fastforce
  have fresh: "\<not> rx_FromCache (start_result N req)" by (simp add: start_result_def)
  show ?thesis
  proof (cases "rd_Allowed d \<and> safe \<noteq> None")
    case True
    then obtain v where "rd_Allowed d" "safe = Some v" by auto
    then show ?thesis
      using assms fresh unfolding Fetch_def Let_def ev prod.case
      by (auto split: option.splits prod.splits sum.splits)
  next
    case False
    then show ?thesis
      unfolding Fetch_def Let_def ev prod.case by (auto split: option.split bool.split)
  qed
qed

text \<open>
  C28. \<open>Fetch\<close> ends: however servers answer, redirects in a circle included, it sends at most ten
  requests, and none when it answers from its cache.
\<close>

theorem fetch_sends_at_most_ten:
  "length (fo_sent (Fetch N g req)) \<le> 10 \<and>
   (rx_FromCache (fo_result (Fetch N g req)) \<longrightarrow> fo_sent (Fetch N g req) = [])"
proof
  show "length (fo_sent (Fetch N g req)) \<le> 10"
    using Fetch_sent [of N g req] sent_length [of 1]
    by (auto simp: executeValidatedFetch_def split: option.split)
qed (simp add: Fetch_cached)

section \<open>Limits\<close>

lemma boundedMax_bounds:
  "0 < boundedMax n c \<and> boundedMax n c \<le> (if c \<le> 0 then 524288 else c) \<and> (0 < n \<longrightarrow> boundedMax n c \<le> n)"
  by (auto simp: boundedMax_def Let_def)

lemma boundedTimeout_bounds:
  "0 < boundedTimeout p n \<and>
   boundedTimeout p n \<le> max (8 * Second) (if po_MaxTimeout p \<le> 0 then 20 * Second else po_MaxTimeout p)"
  by (auto simp: boundedTimeout_def Let_def)

lemma Milliseconds_mono: "0 \<le> a \<Longrightarrow> a \<le> b \<Longrightarrow> Milliseconds a \<le> Milliseconds b"
  by (auto simp: Milliseconds_def zdiv_mono1)

text \<open>What every step keeps of the limits of a decision.\<close>

definition same_limits :: "ResearchDecision \<Rightarrow> ResearchDecision \<Rightarrow> bool" where
  "same_limits d d' \<longleftrightarrow> rd_MaxBytes d' = rd_MaxBytes d \<and> rd_TimeoutMS d' = rd_TimeoutMS d"

lemma same_limits_simps [simp]:
  "same_limits d d" "same_limits d (rg_blocked reason d)" "same_limits d (failed_decision N err d)"
  "same_limits d (d\<lparr>rd_Allowed := a, rd_RequiresHuman := b, rd_FinalStatus := s, rd_ReasonCode := c\<rparr>)"
  by (simp_all add: same_limits_def rg_blocked_def failed_decision_def split: FetchError.split)

lemma Evaluate_limits:
  "rd_MaxBytes (RPolicy_Evaluate E p req) = boundedMax (rq_MaxBytes req)
     (if rq_Kind req = ''DOWNLOAD'' then po_MaxDownloadBytes p else po_MaxResponseBytes p)"
  "rd_TimeoutMS (RPolicy_Evaluate E p req) = Milliseconds (boundedTimeout p (rq_TimeoutMS req))"
  by (simp_all add: RPolicy_Evaluate_def Let_def split: sum.split)

lemma evaluateForExecution_limits:
  "same_limits (RPolicy_Evaluate E p req) (fst (evaluateForExecution E p req))"
  by (simp add: evaluateForExecution_def Let_def same_limits_def rg_blocked_def split: sum.split)

lemma read_response_limits:
  assumes "rx_BodyPreview r = []" and "0 < rd_MaxBytes d"
  shows "same_limits d (fo_decision (read_response N g req mt cached sent d r resp)) \<and>
    int (length (rx_BodyPreview (fo_result (read_response N g req mt cached sent d r resp)))) \<le> rd_MaxBytes d"
  using assms by (auto simp: read_response_def Let_def same_limits_def rg_blocked_def split: option.split)

lemma Fetch_limits:
  "same_limits (RPolicy_Evaluate (en_E N) (gw_Policy g) req) (fo_decision (Fetch N g req)) \<and>
   (rx_FromCache (fo_result (Fetch N g req)) \<or>
    int (length (rx_BodyPreview (fo_result (Fetch N g req)))) \<le> rd_MaxBytes (fo_decision (Fetch N g req)))"
proof -
  obtain d safe where ev: "evaluateForExecution (en_E N) (gw_Policy g) req = (d, safe)" by fastforce
  have lim: "same_limits (RPolicy_Evaluate (en_E N) (gw_Policy g) req) d"
    using evaluateForExecution_limits [of "en_E N" "gw_Policy g" req] ev by simp
  have pos: "0 < rd_MaxBytes d"
    using lim boundedMax_bounds by (simp add: same_limits_def Evaluate_limits)
  have empty: "rx_BodyPreview (start_result N req) = []" by (simp add: start_result_def)
  note body = read_response_limits [OF empty pos]
  have goal: "same_limits d (fo_decision (Fetch N g req)) \<and>
    (rx_FromCache (fo_result (Fetch N g req)) \<or>
     int (length (rx_BodyPreview (fo_result (Fetch N g req)))) \<le> rd_MaxBytes (fo_decision (Fetch N g req)))"
  proof (cases "rd_Allowed d \<and> safe \<noteq> None")
    case True
    then obtain v where "rd_Allowed d" "safe = Some v" by auto
    then show ?thesis
      using body pos empty same_limits_simps(3) [of d N] unfolding Fetch_def Let_def ev prod.case
      by (auto split: option.split prod.split sum.split simp: same_limits_def)
  next
    case False
    then show ?thesis
      using pos empty unfolding Fetch_def Let_def ev prod.case by (auto split: option.split bool.split)
  qed
  with lim show ?thesis by (auto simp: same_limits_def)
qed

text \<open>
  C27. The limits of a request hold: the number of bytes that \<open>Fetch\<close> decides on is positive, within
  the policy's limit for the kind of request, and within the request's own where it states one; the
  body handed back is no longer than that unless it comes from the cache; and the timeout is not
  negative and at most the policy's, or eight seconds where the policy allows less.
\<close>

theorem fetch_limits:
  "let d = fo_decision (Fetch N g req); r = fo_result (Fetch N g req); p = gw_Policy g;
       cap = (if rq_Kind req = ''DOWNLOAD'' then po_MaxDownloadBytes p else po_MaxResponseBytes p);
       longest = (if po_MaxTimeout p \<le> 0 then 20 * Second else po_MaxTimeout p)
   in 0 < rd_MaxBytes d \<and> rd_MaxBytes d \<le> (if cap \<le> 0 then 524288 else cap) \<and>
      (rq_MaxBytes req \<le> 0 \<or> rd_MaxBytes d \<le> rq_MaxBytes req) \<and>
      (rx_FromCache r \<or> int (length (rx_BodyPreview r)) \<le> rd_MaxBytes d) \<and>
      0 \<le> rd_TimeoutMS d \<and> rd_TimeoutMS d \<le> Milliseconds (max (8 * Second) longest)"
proof -
  note l = Fetch_limits [of N g req, unfolded same_limits_def Evaluate_limits]
  note t = boundedTimeout_bounds [of "gw_Policy g" "rq_TimeoutMS req"]
  note nonneg = less_imp_le [OF conjunct1 [OF t]]
  note ms = Milliseconds_mono [OF nonneg conjunct2 [OF t]] Milliseconds_nonneg [OF nonneg]
  note bytes = boundedMax_bounds [of "rq_MaxBytes req" "if rq_Kind req = ''DOWNLOAD''
    then po_MaxDownloadBytes (gw_Policy g) else po_MaxResponseBytes (gw_Policy g)"]
  show ?thesis
    unfolding Let_def using l bytes ms by (simp only: linorder_not_less [symmetric]) argo
qed

section \<open>Methods\<close>

lemma executed_first:
  assumes "validateResearchURL E raw p = Inr v" and "mt \<noteq> []" and "list_all token_char mt"
  shows "\<exists>rest. snd (executeValidatedFetch E p send mt v hs ua) =
    (mt, (vu_parsed v)\<lparr>ul_Host := removeEmptyPort (ul_Host (vu_parsed v))\<rparr>) # rest"
  using validated_permitted [OF assms(1)] assms(2,3) first_sent
  by (auto simp: executeValidatedFetch_def NewRequest_def)

text \<open>An allowed request for which there is nothing in the cache is sent to the URL that was checked.\<close>

lemma Fetch_first:
  assumes "evaluateForExecution (en_E N) (gw_Policy g) req = (d, Some v)" and "rd_Allowed d"
    and "list_all token_char (request_method req)"
    and "rq_Kind req \<noteq> ''FETCH'' \<and> rq_Kind req \<noteq> ''HEAD'' \<or> gw_Cache g = None \<or> gw_Cache g = Some []"
  shows "\<exists>rest. fo_sent (Fetch N g req) = (request_method req,
    (vu_parsed v)\<lparr>ul_Host := removeEmptyPort (ul_Host (vu_parsed v))\<rparr>) # rest"
proof -
  have m: "request_method req \<noteq> []"
    by (simp add: request_method_def inferredMethod_def Let_def)
  have "validateResearchURL (en_E N) (rq_URL req) (gw_Policy g) = Inr v"
    using evaluated_request [OF assms(1)] by simp
  from executed_first [OF this m assms(3)] obtain rest where x:
    "snd (executeValidatedFetch (en_E N) (gw_Policy g) (en_send N) (request_method req) v (rq_Headers req)
       (rq_UserAgent req)) = (request_method req, (vu_parsed v)\<lparr>ul_Host := removeEmptyPort (ul_Host (vu_parsed v))\<rparr>) # rest"
    by blast
  show ?thesis
    unfolding Fetch_def Let_def assms(1) prod.case
    using x assms(2,4) by (auto simp: rg_Get_def split: option.split prod.split sum.split)
qed

lemma executed_method:
  "snd (executeValidatedFetch E p send mt v hs ua) = [] \<or>
   fst (hd (snd (executeValidatedFetch E p send mt v hs ua))) = mt"
  using first_sent [of E p send hs "TrimSpace ua" 1 mt]
  by (auto simp: executeValidatedFetch_def split: option.split) (metis fst_conv list.sel(1))

lemma allowed_method:
  assumes "rd_Allowed (RPolicy_Evaluate E p req)" and "\<not> po_AllowMutatingMethods p"
  shows "rq_Kind req = ''SEARCH'' \<or> request_method req \<in> {''GET'', ''HEAD''}"
  using assms by (auto simp: RPolicy_Evaluate_def Let_def split: if_splits)

lemma allowed_search:
  assumes "rq_Kind req = ''SEARCH''" and "po_AllowSearch p" and "rq_Headers req = []" and "rq_Metadata req = []"
    and "validateResearchURL E (rq_URL req) p = Inr v"
  shows "\<exists>d. evaluateForExecution E p req = (d, Some v) \<and> rd_Allowed d"
  using assms
  by (simp add: evaluateForExecution_def RPolicy_Evaluate_def hasCredentialMaterial_def Let_def)

section \<open>Concrete requests\<close>

text \<open>
  The values that \<open>url.Parse\<close>, \<open>URL.String\<close> and \<open>netip.ParseAddr\<close> have on the URLs used below.
\<close>

definition http_url :: "string \<Rightarrow> PUrl" where
  "http_url host = \<lparr>ul_Scheme = ''http'', ul_Host = host, ul_HasUser = False, ul_Path = ''/'',
     ul_Fragment = [], ul_rest = []\<rparr>"

definition simple_parse :: "string \<Rightarrow> PUrl option" where
  "simple_parse raw =
     (if prefix ''http://'' raw \<and> suffix ''/'' raw then Some (http_url (take (length raw - 8) (drop 7 raw))) else None)"

definition simple_string :: "PUrl \<Rightarrow> string" where
  "simple_string u = ul_Scheme u @ ''://'' @ ul_Host u @ ul_Path u"

definition simple_addr :: "string \<Rightarrow> addr option" where
  "simple_addr s =
     (if s = ''::1'' then Some (V6 (replicate 15 0 @ [1]) [])
      else if s = ''::1:80'' then Some (V6 (replicate 12 0 @ [0, 1, 0, 128]) [])
      else None)"

definition simple_env :: UrlEnv where
  "simple_env = \<lparr>ue_Parse = simple_parse, ue_String = simple_string, ue_ParseAddr = simple_addr\<rparr>"

definition simple_request :: "string \<Rightarrow> string \<Rightarrow> string \<Rightarrow> ResearchRequest" where
  "simple_request kind mt raw =
     \<lparr>rq_ID = ''r1'', rq_MissionID = [], rq_Kind = kind, rq_Method = mt, rq_URL = raw, rq_Query = [],
      rq_Headers = [], rq_MaxBytes = 4, rq_TimeoutMS = 0, rq_UserAgent = [], rq_Metadata = [], rq_CreatedAt = 0\<rparr>"

definition simple_answer :: HttpResponse where
  "simple_answer = \<lparr>ht_StatusCode = 200, ht_ContentTypeHeader = [], ht_ContentLengthHeader = [],
     ht_ContentLength = 2, ht_Body = ''ok'', ht_ReadError = None\<rparr>"

text \<open>A server that sends every client round in a circle, and one that answers.\<close>

definition circle :: sender where
  "circle m u hs ua = Redirect m ''http://example.org/''"

definition answering :: sender where
  "answering m u hs ua = Answer simple_answer"

definition simple_run :: "sender \<Rightarrow> RunEnv" where
  "simple_run send = \<lparr>en_E = simple_env, en_H = sample_codec, en_regex = (\<lambda>x. Inl []), en_uuid = ''u'', en_now = 10,
     en_later = 20, en_expired = False, en_send = send\<rparr>"

text \<open>
  Only searches escape the rule on methods. Without the permission to use methods that change
  something, the first request that \<open>Fetch\<close> sends is a GET or a HEAD unless the kind is a search; but
  for a search with a URL that passes the checks every mt is sent, DELETE included.
\<close>

theorem search_sends_any_method:
  assumes "\<not> po_AllowMutatingMethods (gw_Policy g)"
  shows "(fo_sent (Fetch N g req) \<noteq> [] \<longrightarrow>
      rq_Kind req = ''SEARCH'' \<or> fst (hd (fo_sent (Fetch N g req))) \<in> {''GET'', ''HEAD''}) \<and>
    (rq_Kind req = ''SEARCH'' \<and> po_AllowSearch (gw_Policy g) \<and> rq_Headers req = [] \<and> rq_Metadata req = [] \<and>
     validateResearchURL (en_E N) (rq_URL req) (gw_Policy g) = Inr v \<and> list_all token_char (request_method req) \<longrightarrow>
       fo_sent (Fetch N g req) \<noteq> [] \<and> fst (hd (fo_sent (Fetch N g req))) = request_method req)"
proof (intro conjI impI)
  assume sent: "fo_sent (Fetch N g req) \<noteq> []"
  then obtain d v where ev: "evaluateForExecution (en_E N) (gw_Policy g) req = (d, Some v)"
    and x: "fo_sent (Fetch N g req) = snd (executeValidatedFetch (en_E N) (gw_Policy g) (en_send N)
        (request_method req) v (rq_Headers req) (rq_UserAgent req))"
    using Fetch_sent [of N g req] by auto
  have "fst (hd (fo_sent (Fetch N g req))) = request_method req"
    using executed_method sent unfolding x by metis
  moreover have "rd_Allowed (RPolicy_Evaluate (en_E N) (gw_Policy g) req)"
    using evaluated_request [OF ev] by simp
  ultimately show "rq_Kind req = ''SEARCH'' \<or> fst (hd (fo_sent (Fetch N g req))) \<in> {''GET'', ''HEAD''}"
    using allowed_method assms by simp
next
  assume s: "rq_Kind req = ''SEARCH'' \<and> po_AllowSearch (gw_Policy g) \<and> rq_Headers req = [] \<and> rq_Metadata req = [] \<and>
    validateResearchURL (en_E N) (rq_URL req) (gw_Policy g) = Inr v \<and> list_all token_char (request_method req)"
  then obtain d where d: "evaluateForExecution (en_E N) (gw_Policy g) req = (d, Some v)" "rd_Allowed d"
    using allowed_search by blast
  have "\<exists>rest. fo_sent (Fetch N g req) = (request_method req,
    (vu_parsed v)\<lparr>ul_Host := removeEmptyPort (ul_Host (vu_parsed v))\<rparr>) # rest"
    by (rule Fetch_first [OF d]) (use s in simp_all)
  then show "fo_sent (Fetch N g req) \<noteq> []" "fst (hd (fo_sent (Fetch N g req))) = request_method req" by auto
qed


lemma address_facts:
  "TrimSpace ''http://[::1:80]/'' = ''http://[::1:80]/''" "TrimSpace ''http://::1:80/'' = ''http://::1:80/''"
  "normalizedHost ''[::1:80]'' = ''::1:80''" "normalizedHost ''::1:80'' = ''::1:80''" "normalizedHost ''::1'' = ''::1''"
  "snd (url_splitHostPort ''[::1:80]'') = []" "url_splitHostPort ''::1:80'' = (''::1'', ''80'')"
  "ToLower (TrimSpace ''http'') = ''http''" "ToLower (TrimSpace ''https'') = ''https''"
  "removeEmptyPort ''::1:80'' = ''::1:80''" "HostLooksLikeCloudMetadata ''::1:80'' = False"
  by code_simp+

lemma loopback_address: "addr_IsLoopback (V6 (replicate 15 0 @ [1]) [])"
  by code_simp

lemma empty_method: "ToUpper (TrimSpace []) = []"
  by code_simp

lemma default_policy:
  "po_AllowedSchemes rg_DefaultPolicy = [''http'', ''https'']" "po_BlockedHosts rg_DefaultPolicy = []"
  "po_AllowedHosts rg_DefaultPolicy = []" "\<not> po_AllowPrivateNetworks rg_DefaultPolicy"
  "\<not> po_AllowCredentials rg_DefaultPolicy" "po_AllowPublicGET rg_DefaultPolicy"
  by (simp_all add: rg_DefaultPolicy_def)

lemma address_checks:
  assumes "a = V6 (replicate 12 0 @ [0, 1, 0, 128]) []"
  shows "\<not> addr_IsUnspecified a \<and> \<not> addr_IsLoopback a \<and> \<not> addr_IsPrivate a \<and> \<not> addr_IsLinkLocalUnicast a \<and>
    \<not> addr_IsLinkLocalMulticast a"
  unfolding assms by code_simp

text \<open>
  C38. The host that is checked need not be the host that is dialled. The address of
  \<open>http://[::1:80]/\<close> is public, and the default policy accepts it; but the normalised URL has lost
  the brackets, so that its last group is read as a port, and the request goes to port 80 of the
  loopback address \<open>::1\<close>, which the policy blocks. The hypotheses are what \<open>url.Parse\<close>, \<open>URL.String\<close>
  and \<open>netip.ParseAddr\<close> return on these inputs.
\<close>

theorem checked_host_is_not_dialled:
  assumes "ue_Parse E ''http://[::1:80]/'' = Some (http_url ''[::1:80]'')"
    and "ue_String E (http_url ''::1:80'') = ''http://::1:80/''"
    and "ue_Parse E ''http://::1:80/'' = Some (http_url ''::1:80'')"
    and "ue_ParseAddr E ''::1:80'' = Some (V6 (replicate 12 0 @ [0, 1, 0, 128]) [])"
    and "ue_ParseAddr E ''::1'' = Some (V6 (replicate 15 0 @ [1]) [])"
    and "en_E N = E" and "rq_URL req = ''http://[::1:80]/''" and "rq_Kind req = ''FETCH''"
    and "rq_Method req = []" and "rq_Headers req = []" and "rq_Metadata req = []"
  shows "\<exists>u rest. fo_sent (Fetch N (NewGateway rg_DefaultPolicy) req) = (''GET'', u) # rest \<and>
    url_splitHostPort (ul_Host u) = (''::1'', ''80'') \<and> IsPrivateOrLocalHost E ''::1''"
proof -
  let ?v = "\<lparr>vu_raw = ''http://::1:80/'', vu_parsed = http_url ''::1:80'', vu_host = ''::1:80''\<rparr>"
  have norm: "NormalizeURL E ''http://[::1:80]/'' = Some ''http://::1:80/''"
    using assms(1,2) by (simp add: NormalizeURL_def address_facts http_url_def)
  have public: "\<not> IsPrivateOrLocalHost E ''::1:80''"
    using assms(4) address_checks by (simp add: IsPrivateOrLocalHost_def address_facts)
  have v: "validateResearchURL E (rq_URL req) rg_DefaultPolicy = Inr ?v"
    using assms(3,7) norm public
    by (simp add: validateResearchURL_def address_facts IsSupportedScheme_def IsCredentialedURL_def
        http_url_def default_policy isHostBlocked_def Let_def)
  have m: "request_method req = ''GET''"
    using assms(8,9) by (simp add: request_method_def inferredMethod_def empty_method)
  have ev: "\<exists>d. evaluateForExecution E rg_DefaultPolicy req = (d, Some ?v) \<and> rd_Allowed d"
    using v m assms(8,10,11)
    by (simp add: evaluateForExecution_def RPolicy_Evaluate_def hasCredentialMaterial_def Let_def default_policy)
  then obtain d where d: "evaluateForExecution (en_E N) (gw_Policy (NewGateway rg_DefaultPolicy)) req = (d, Some ?v)"
    "rd_Allowed d"
    using assms(6) by (auto simp: NewGateway_def)
  have "list_all token_char (request_method req)"
    unfolding m by code_simp
  from Fetch_first [OF d this]
  have "\<exists>rest. fo_sent (Fetch N (NewGateway rg_DefaultPolicy) req) = (''GET'', http_url ''::1:80'') # rest"
    by (simp add: m NewGateway_def NewMemoryCache_def http_url_def address_facts)
  moreover have "IsPrivateOrLocalHost E ''::1''"
    using assms(5) loopback_address by (simp add: IsPrivateOrLocalHost_def address_facts del: One_nat_def)
  ultimately show ?thesis by (auto simp: http_url_def address_facts)
qed

lemma checked_host_is_not_dialled_witness:
  "\<exists>u rest. fo_sent (Fetch (simple_run answering) (NewGateway rg_DefaultPolicy)
      (simple_request ''FETCH'' [] ''http://[::1:80]/'')) = (''GET'', u) # rest \<and>
    url_splitHostPort (ul_Host u) = (''::1'', ''80'') \<and> IsPrivateOrLocalHost simple_env ''::1''"
proof (rule checked_host_is_not_dialled)
  show "ue_Parse simple_env ''http://[::1:80]/'' = Some (http_url ''[::1:80]'')" by code_simp
  show "ue_String simple_env (http_url ''::1:80'') = ''http://::1:80/''" by code_simp
  show "ue_Parse simple_env ''http://::1:80/'' = Some (http_url ''::1:80'')" by code_simp
  show "ue_ParseAddr simple_env ''::1:80'' = Some (V6 (replicate 12 0 @ [0, 1, 0, 128]) [])" by code_simp
  show "ue_ParseAddr simple_env ''::1'' = Some (V6 (replicate 15 0 @ [1]) [])" by code_simp
qed (simp_all add: simple_run_def simple_request_def)

text \<open>The client goes round the circle ten times, with the method of the search.\<close>

lemma search_sends_any_method_witness:
  "fo_sent (Fetch (simple_run circle) (NewGateway rg_DefaultPolicy)
     (simple_request ''SEARCH'' ''delete'' ''http://example.org/'')) \<noteq> [] \<and>
   fst (hd (fo_sent (Fetch (simple_run circle) (NewGateway rg_DefaultPolicy)
     (simple_request ''SEARCH'' ''delete'' ''http://example.org/'')))) = ''DELETE''"
proof -
  let ?g = "NewGateway rg_DefaultPolicy" and ?req = "simple_request ''SEARCH'' ''delete'' ''http://example.org/''"
  have g: "\<not> po_AllowMutatingMethods (gw_Policy ?g)" by code_simp
  have "validateResearchURL (en_E (simple_run circle)) (rq_URL ?req) (gw_Policy ?g) =
      Inr \<lparr>vu_raw = ''http://example.org/'', vu_parsed = http_url ''example.org'', vu_host = ''example.org''\<rparr>"
    by code_simp
  moreover have "rq_Kind ?req = ''SEARCH''" "po_AllowSearch (gw_Policy ?g)" "rq_Headers ?req = []"
    "rq_Metadata ?req = []" "request_method ?req = ''DELETE''" "list_all token_char ''DELETE''"
    by code_simp+
  ultimately show ?thesis
    using search_sends_any_method [OF g, of "simple_run circle" ?req] by simp
qed

lemma fetch_contacts_permitted_witness:
  "\<exists>w. (http_url ''example.org'' = w \<or> http_url ''example.org'' = w\<lparr>ul_Host := removeEmptyPort (ul_Host w)\<rparr>) \<and>
    normalizedHost (ul_Host w) \<noteq> [] \<and> IsSupportedScheme w [''http'', ''https''] \<and>
    \<not> IsPrivateOrLocalHost simple_env (normalizedHost (ul_Host w))"
proof -
  have "(''GET'', http_url ''example.org'') \<in> set (fo_sent (Fetch (simple_run answering)
      (NewGateway rg_DefaultPolicy) (simple_request ''FETCH'' [] ''http://example.org/'')))"
    by code_simp
  from fetch_contacts_permitted [OF this] show ?thesis
    by (simp add: Let_def NewGateway_def default_policy simple_run_def) blast
qed

lemma fetch_sends_at_most_ten_witness:
  "let o1 = Fetch (simple_run answering) (NewGateway rg_DefaultPolicy) (simple_request ''FETCH'' [] ''http://example.org/'');
       o2 = Fetch (simple_run circle) (fo_gateway o1) (simple_request ''FETCH'' [] ''http://example.org/'')
   in rx_FromCache (fo_result o2) \<and> fo_sent o2 = []"
proof -
  let ?o1 = "Fetch (simple_run answering) (NewGateway rg_DefaultPolicy) (simple_request ''FETCH'' [] ''http://example.org/'')"
  have "rx_FromCache (fo_result (Fetch (simple_run circle) (fo_gateway ?o1) (simple_request ''FETCH'' [] ''http://example.org/'')))"
    by code_simp
  then show ?thesis
    using fetch_sends_at_most_ten [of "simple_run circle" "fo_gateway ?o1"] by (simp add: Let_def)
qed

end
