(* ===== verification/Skill.thy ===== *)
theory Skill
  imports ProfileEval LockStore
begin

text \<open>
  Requests, candidates and results of \<open>pkg/skillruntime\<close>, the life cycle of skills. Named strings
  (operations, statuses) are strings, as every operation accepts any string and normalises it. A
  request carries what other packages found: a replay result, a harness report, a state lock check.
\<close>

section \<open>Errors, operations and statuses\<close>

text \<open>A sentinel of the package with the text that is wrapped around it, or an error of the store.\<close>

datatype SkillError =
    SkErrInvalidOperation string
  | SkErrInvalidCandidate string
  | SkErrInvalidRequest string
  | SkErrInvalidResult string
  | SkErrNotFound string
  | SkErrOther string

definition wrapped :: "string \<Rightarrow> string \<Rightarrow> string" where
  "wrapped sentinel s = (if s = [] then sentinel else sentinel @ '': '' @ s)"

definition skill_error_text :: "SkillError \<Rightarrow> string" where
  "skill_error_text e =
     (case e of
        SkErrInvalidOperation s \<Rightarrow> wrapped ''skillruntime: invalid operation'' s
      | SkErrInvalidCandidate s \<Rightarrow> wrapped ''skillruntime: invalid candidate'' s
      | SkErrInvalidRequest s \<Rightarrow> wrapped ''skillruntime: invalid request'' s
      | SkErrInvalidResult s \<Rightarrow> wrapped ''skillruntime: invalid result'' s
      | SkErrNotFound s \<Rightarrow> wrapped ''skillruntime: not found'' s
      | SkErrOther s \<Rightarrow> s)"

definition sk_operations :: "string list" where
  "sk_operations = [''retrieve'', ''propose'', ''validate'', ''stage'', ''promote'', ''disable'']"

definition NormalizeOperation :: "string \<Rightarrow> string" where
  "NormalizeOperation raw = one_of sk_operations ''unknown'' raw"

definition Operation_Validate :: "Codec \<Rightarrow> string \<Rightarrow> SkillError option" where
  "Operation_Validate H op =
     (if NormalizeOperation op = ''unknown'' then Some (SkErrInvalidOperation (c_Quote H op)) else None)"

definition sk_statuses :: "string list" where
  "sk_statuses = [''allowed'', ''staged'', ''approval_required'', ''config_required'', ''denied'',
     ''disabled'', ''not_found'', ''invalid'']"

definition sk_NormalizeStatus :: "string \<Rightarrow> string" where
  "sk_NormalizeStatus raw =
     (let s = ToLower (TrimSpace raw)
      in if s \<in> set sk_statuses then s else if s = [] then ''unknown'' else ''invalid'')"

definition sk_Status_Validate :: "Codec \<Rightarrow> string \<Rightarrow> SkillError option" where
  "sk_Status_Validate H s =
     (let n = sk_NormalizeStatus s
      in if n = ''invalid'' \<or> n = ''unknown''
         then Some (SkErrInvalidResult (''invalid status '' @ c_Quote H s)) else None)"

section \<open>Bounds\<close>

definition boundID :: "string \<Rightarrow> string" where
  "boundID raw = RedactString (TrimSpace raw) 128"

definition boundHash :: "string \<Rightarrow> string" where
  "boundHash raw = RedactString (TrimSpace raw) 128"

text \<open>The part of a string before a byte, which is all of it where the byte does not occur.\<close>

definition before :: "char \<Rightarrow> string \<Rightarrow> string" where
  "before c s = takeWhile (\<lambda>d. d \<noteq> c) s"

definition boundStringSingleLine :: "string \<Rightarrow> int \<Rightarrow> string" where
  "boundStringSingleLine raw maxLen =
     RedactString (before (CHR 0x0D) (before (CHR 0x0A) (TrimSpace raw))) maxLen"

definition boundWarnings :: "string list \<Rightarrow> string list" where
  "boundWarnings ws =
     sort (filter (\<lambda>v. v \<noteq> []) (map (\<lambda>w. boundStringSingleLine w 160) (take 24 ws)))"

definition sk_boundRefs :: "Ref list \<Rightarrow> nat \<Rightarrow> Ref list" where
  "sk_boundRefs rs limit =
     sort_refs (filter (\<lambda>r. TrimSpace (r_Ref r) \<noteq> []) (map bounded_ref (take limit rs)))"

definition dropNeedles :: "string list" where
  "dropNeedles = [''prompt'', ''model_output'', ''command_output'', ''file_body'', ''diff'',
     ''env_dump'', ''raw_output'']"

definition shouldDropMetadataKey :: "string \<Rightarrow> bool" where
  "shouldDropMetadataKey key =
     (let k = ReplaceAll ''-'' ''_'' (ToLower (TrimSpace key))
      in list_ex (\<lambda>needle. k = needle \<or> sublist needle k) dropNeedles)"

definition sk_boundMetadata :: "metadata \<Rightarrow> nat \<Rightarrow> metadata" where
  "sk_boundMetadata m limit =
     take limit (sort_key fst (filter (\<lambda>(k, v). \<not> shouldDropMetadataKey k) (BoundMetadata m)))"

text \<open>The package has its own copies of the next two functions of \<open>pkg/evidence\<close>.\<close>

definition sk_stableMetadataHash :: "Codec \<Rightarrow> metadata \<Rightarrow> string" where
  "sk_stableMetadataHash H meta =
     (if meta = [] then []
      else StableHash H (concat (map (\<lambda>(k, v). [k, v]) (sort_key fst meta))))"

definition sk_stableRefsHash :: "Codec \<Rightarrow> Ref list \<Rightarrow> string" where
  "sk_stableRefsHash H rs =
     (if rs = [] then []
      else StableHash H
        (concat (map (\<lambda>r. [r_Kind r, r_Ref r, r_Hash r, FormatInt (r_SizeBytes r)]) rs)))"

section \<open>Candidates\<close>

record SkillCandidate =
  kc_ID :: string
  kc_Name :: string
  kc_Version :: string
  kc_Source :: string
  kc_Summary :: string
  kc_Risk :: string
  kc_OperationClass :: string
  kc_Profile :: string
  kc_ArtifactRefs :: "Ref list"
  kc_EvidenceRefs :: "Ref list"
  kc_Metadata :: metadata
  kc_Disabled :: bool

definition candidate_id :: "Codec \<Rightarrow> SkillCandidate \<Rightarrow> string" where
  "candidate_id H c =
     ''candidate_'' @ StableHash H
       [kc_Name c, kc_Version c, kc_Source c, kc_Summary c, kc_Risk c, kc_OperationClass c, kc_Profile c,
        sk_stableRefsHash H (kc_ArtifactRefs c), sk_stableRefsHash H (kc_EvidenceRefs c),
        sk_stableMetadataHash H (kc_Metadata c)]"

definition SkillCandidate_Normalized :: "Codec \<Rightarrow> SkillCandidate \<Rightarrow> SkillCandidate" where
  "SkillCandidate_Normalized H c =
     (let risk = NormalizeRisk (kc_Risk c);
          class = NormalizeSensitiveOperation (kc_OperationClass c);
          profile = NormalizeProfile (kc_Profile c);
          out = c\<lparr>kc_ID := boundID (kc_ID c),
            kc_Name := boundStringSingleLine (kc_Name c) 128,
            kc_Version := boundStringSingleLine (kc_Version c) 64,
            kc_Source := boundStringSingleLine (kc_Source c) 160,
            kc_Summary := boundStringSingleLine (kc_Summary c) 256,
            kc_Risk := (if risk = ''unknown''
                        then (if class \<noteq> ''unknown'' then ''sensitive'' else ''medium'') else risk),
            kc_OperationClass := class,
            kc_Profile := (if profile = ''unknown'' then ''beginner'' else profile),
            kc_ArtifactRefs := sk_boundRefs (kc_ArtifactRefs c) 64,
            kc_EvidenceRefs := sk_boundRefs (kc_EvidenceRefs c) 64,
            kc_Metadata := sk_boundMetadata (kc_Metadata c) 16\<rparr>
      in if kc_ID out = [] then out\<lparr>kc_ID := candidate_id H out\<rparr> else out)"

definition SkillCandidate_Validate :: "Codec \<Rightarrow> SkillCandidate \<Rightarrow> SkillError option" where
  "SkillCandidate_Validate H c =
     (let n = SkillCandidate_Normalized H c
      in if kc_ID n = [] then Some (SkErrInvalidCandidate ''missing id'')
         else if kc_Name n = [] \<and> kc_Source n = []
         then Some (SkErrInvalidCandidate ''missing candidate identity'') else None)"

section \<open>Requests\<close>

record SkillRequest =
  kq_Operation :: string
  kq_Candidate :: SkillCandidate
  kq_Config :: PConfig
  kq_DirectiveHash :: string
  kq_FailureHash :: string
  kq_ReplayResult :: "Result option"
  kq_HarnessReport :: "HReport option"
  kq_StateLockResult :: "CheckResult option"
  kq_EvidenceRefs :: "Ref list"
  kq_Metadata :: metadata

definition normalizeReplayOutcome :: "Outcome \<Rightarrow> Outcome" where
  "normalizeReplayOutcome ou =
     ou\<lparr>oc_DurationMS := nonneg (oc_DurationMS ou),
       oc_Retries := nonneg (oc_Retries ou),
       oc_RepairOperations := nonneg (oc_RepairOperations ou),
       oc_ValidationRefs := sk_boundRefs (oc_ValidationRefs ou) 64,
       oc_ReceiptRefs := sk_boundRefs (oc_ReceiptRefs ou) 64\<rparr>"

definition normalized_replay :: "Result \<Rightarrow> Result" where
  "normalized_replay r =
     r\<lparr>rr_CaseID := RedactString (TrimSpace (rr_CaseID r)) 128,
       rr_TrajectoryID := RedactString (TrimSpace (rr_TrajectoryID r)) 256,
       rr_CandidateID := RedactString (TrimSpace (rr_CandidateID r)) 128,
       rr_BaselineOutcome := normalizeReplayOutcome (rr_BaselineOutcome r),
       rr_CandidateOutcome := normalizeReplayOutcome (rr_CandidateOutcome r),
       rr_Duration := nonneg (rr_Duration r)\<rparr>"

definition normalized_check :: "CheckResult \<Rightarrow> CheckResult" where
  "normalized_check c =
     c\<lparr>ck_PolicyState := ToLower (TrimSpace (ck_PolicyState c)),
       ck_Risk := ToLower (TrimSpace (ck_Risk c))\<rparr>"

text \<open>\<open>now\<close> is what a report without a start gets as one.\<close>

definition SkillRequest_Normalized :: "Codec \<Rightarrow> instant \<Rightarrow> SkillRequest \<Rightarrow> SkillRequest" where
  "SkillRequest_Normalized H now r =
     \<lparr>kq_Operation = NormalizeOperation (kq_Operation r),
      kq_Candidate = SkillCandidate_Normalized H (kq_Candidate r),
      kq_Config = PConfig_Normalized (kq_Config r),
      kq_DirectiveHash = boundHash (kq_DirectiveHash r),
      kq_FailureHash = boundHash (kq_FailureHash r),
      kq_ReplayResult = map_option normalized_replay (kq_ReplayResult r),
      kq_HarnessReport = map_option (HReport_Normalized now) (kq_HarnessReport r),
      kq_StateLockResult = map_option normalized_check (kq_StateLockResult r),
      kq_EvidenceRefs = sk_boundRefs (kq_EvidenceRefs r) 64,
      kq_Metadata = sk_boundMetadata (kq_Metadata r) 16\<rparr>"

definition SkillRequest_Validate :: "Codec \<Rightarrow> instant \<Rightarrow> SkillRequest \<Rightarrow> SkillError option" where
  "SkillRequest_Validate H now r =
     (let n = SkillRequest_Normalized H now r
      in case Operation_Validate H (kq_Operation n) of
           Some e \<Rightarrow> Some (SkErrInvalidRequest (skill_error_text e))
         | None \<Rightarrow>
             (case SkillCandidate_Validate H (kq_Candidate n) of
                Some e \<Rightarrow> Some (SkErrInvalidRequest (skill_error_text e))
              | None \<Rightarrow> None))"

section \<open>Results\<close>

record SkillResult =
  kr_ID :: string
  kr_Operation :: string
  kr_CandidateID :: string
  kr_Status :: string
  kr_Decision :: string
  kr_Assessment :: Assessment
  kr_Receipt :: EvReceipt
  kr_ValidationRefs :: "Ref list"
  kr_ArtifactRefs :: "Ref list"
  kr_Warnings :: "string list"
  kr_Metadata :: metadata

definition result_id :: "Codec \<Rightarrow> SkillResult \<Rightarrow> string" where
  "result_id H r =
     ''result_'' @ StableHash H
       [kr_Operation r, kr_CandidateID r, kr_Status r, kr_Decision r, as_ID (kr_Assessment r),
        rp_ID (kr_Receipt r), sk_stableRefsHash H (kr_ValidationRefs r),
        sk_stableRefsHash H (kr_ArtifactRefs r),
        (if kr_Warnings r = [] then [] else StableHash H (kr_Warnings r)),
        sk_stableMetadataHash H (kr_Metadata r)]"

definition SkillResult_Normalized :: "Codec \<Rightarrow> SkillResult \<Rightarrow> SkillResult" where
  "SkillResult_Normalized H r =
     (let assessment = Assessment_Evaluate H (kr_Assessment r);
          receipt = (if as_ID (rp_Assessment (kr_Receipt r)) = []
            then (kr_Receipt r)\<lparr>rp_Assessment := assessment\<rparr> else kr_Receipt r);
          out = \<lparr>kr_ID = boundID (kr_ID r),
            kr_Operation = NormalizeOperation (kr_Operation r),
            kr_CandidateID = boundID (kr_CandidateID r),
            kr_Status = sk_NormalizeStatus (kr_Status r),
            kr_Decision = NormalizeDecision (kr_Decision r),
            kr_Assessment = assessment,
            kr_Receipt = Receipt_Normalized H receipt,
            kr_ValidationRefs = sk_boundRefs (kr_ValidationRefs r) 64,
            kr_ArtifactRefs = sk_boundRefs (kr_ArtifactRefs r) 64,
            kr_Warnings = boundWarnings (kr_Warnings r),
            kr_Metadata = sk_boundMetadata (kr_Metadata r) 16\<rparr>
      in if kr_ID out = [] then out\<lparr>kr_ID := result_id H out\<rparr> else out)"

definition SkillResult_Validate :: "Codec \<Rightarrow> SkillResult \<Rightarrow> SkillError option" where
  "SkillResult_Validate H r =
     (let n = SkillResult_Normalized H r
      in if kr_ID n = [] then Some (SkErrInvalidResult ''missing id'')
         else case Operation_Validate H (kr_Operation n) of
           Some e \<Rightarrow> Some (SkErrInvalidResult (skill_error_text e))
         | None \<Rightarrow>
             (if kr_CandidateID n = [] then Some (SkErrInvalidResult ''missing candidate id'')
              else case sk_Status_Validate H (kr_Status n) of
                Some e \<Rightarrow> Some e
              | None \<Rightarrow>
                  (case Assessment_Validate H (kr_Assessment n) of
                     Some e \<Rightarrow> Some (SkErrInvalidResult (evidence_error_text e))
                   | None \<Rightarrow>
                       (case Receipt_Validate H (kr_Receipt n) of
                          Some e \<Rightarrow> Some (SkErrInvalidResult (evidence_error_text e))
                        | None \<Rightarrow>
                            if length (kr_Warnings n) > 24
                            then Some (SkErrInvalidResult ''too many warnings'') else None))))"

definition mergeWarningLists :: "string list \<Rightarrow> string list \<Rightarrow> string list" where
  "mergeWarningLists existing added = boundWarnings (existing @ added)"

definition mergeRefs :: "Ref list list \<Rightarrow> Ref list" where
  "mergeRefs parts = sort_refs (sk_boundRefs (concat parts) 64)"

section \<open>References\<close>

definition CandidateRef :: "Codec \<Rightarrow> SkillCandidate \<Rightarrow> Ref" where
  "CandidateRef H candidate =
     (let n = SkillCandidate_Normalized H candidate
      in NewRef ''skill_candidate'' (''candidate:'' @ RedactString (kc_ID n) 128)
           (StableHash H [kc_ID n, kc_Name n, kc_Version n, kc_Risk n, kc_OperationClass n])
           (int (length (kc_ArtifactRefs n)) + int (length (kc_EvidenceRefs n))))"

definition ResultRef :: "Codec \<Rightarrow> SkillResult \<Rightarrow> Ref" where
  "ResultRef H result =
     (let n = SkillResult_Normalized H result
      in NewRef ''skill_result'' (''result:'' @ RedactString (kr_ID n) 128)
           (StableHash H [kr_ID n, kr_Operation n, kr_CandidateID n, kr_Status n, kr_Decision n])
           (int (length (kr_ValidationRefs n)) + int (length (kr_ArtifactRefs n))))"

end
