(* ===== verification/SkillEval.thy ===== *)
theory SkillEval
  imports Skill
begin

text \<open>
  \<open>evaluate.go\<close> of \<open>pkg/skillruntime\<close>: what a request on a skill results in. The gates read and
  extend what has been found so far, a \<open>findings\<close> record that holds the local variables of \<open>Evaluate\<close>.
  The clock only fills in the missing times of a harness or paradox report, none of which is looked at;
  one reading stands for them.
\<close>

section \<open>Statuses\<close>

definition status_rank :: "string \<Rightarrow> nat" where
  "status_rank s =
     (if s = ''allowed'' then 1
      else if s = ''staged'' \<or> s = ''disabled'' then 2
      else if s = ''approval_required'' then 3
      else if s = ''config_required'' then 4
      else if s = ''denied'' then 5
      else if s = ''invalid'' then 6
      else 0)"

definition escalateStatus :: "string \<Rightarrow> string \<Rightarrow> string" where
  "escalateStatus current incoming =
     (let c = sk_NormalizeStatus current; n = sk_NormalizeStatus incoming
      in if status_rank n > status_rank c then n else if c = ''unknown'' then n else c)"

definition statusFromAssessment :: "Codec \<Rightarrow> Assessment \<Rightarrow> string" where
  "statusFromAssessment H a =
     (let an = Assessment_Evaluate H a; d = as_Decision an; s = as_Status an
      in if d = ''deny_invalid'' then ''invalid''
         else if d = ''deny_sensitive'' then ''denied''
         else if d = ''require_approval'' then ''approval_required''
         else if d = ''audit_only'' \<or> d = ''allow_low_risk'' then ''allowed''
         else if s = ''fail'' then ''denied''
         else if s = ''warn'' then ''approval_required''
         else if s = ''pass'' then ''allowed''
         else ''unknown'')"

definition toEvidenceStatus :: "string \<Rightarrow> string" where
  "toEvidenceStatus status =
     (let s = sk_NormalizeStatus status
      in if s = ''allowed'' \<or> s = ''staged'' \<or> s = ''disabled'' then ''pass''
         else if s = ''approval_required'' \<or> s = ''config_required'' then ''warn''
         else if s = ''denied'' \<or> s = ''invalid'' then ''fail''
         else ''inconclusive'')"

definition isPolicyAuthoritative :: "string \<Rightarrow> bool" where
  "isPolicyAuthoritative state \<longleftrightarrow>
     (let n = NormalizePolicyState state
      in n = ''policy_matched'' \<or> n = ''policy_enforced'' \<or> n = ''policy_audit_only'')"

definition needsEvidenceGates :: "string \<Rightarrow> bool" where
  "needsEvidenceGates op \<longleftrightarrow> op = ''validate'' \<or> op = ''stage'' \<or> op = ''promote''"

definition mapCapability :: "string \<Rightarrow> string" where
  "mapCapability op =
     (if op = ''retrieve'' then ''vector_retrieve''
      else if op \<in> set [''propose'', ''validate'', ''stage'', ''disable''] then ''skill_stage''
      else if op = ''promote'' then ''skill_promote''
      else ''unknown'')"

definition mapHarnessStatus :: "string \<Rightarrow> string" where
  "mapHarnessStatus status =
     (let s = ToLower (TrimSpace status)
      in if s = ''pass'' then ''pass''
         else if s = ''fail'' then ''fail''
         else if s \<in> set [''warn'', ''inconclusive'', ''unsupported''] then ''warn''
         else ''inconclusive'')"

definition normalizeReplayVerdict :: "Verdict \<Rightarrow> Verdict" where
  "normalizeReplayVerdict v =
     (case verdict_of_word (ToLower (TrimSpace (verdict_word v))) of
        VerdictOther s \<Rightarrow> VerdictInconclusive
      | w \<Rightarrow> w)"

text \<open>The status of the record, the warning if there is one, and whether the check denies.\<close>

definition evaluateStateLock :: "CheckResult \<Rightarrow> string \<Rightarrow> string \<times> string \<times> bool" where
  "evaluateStateLock check op =
     (let s = ToLower (TrimSpace (ck_Status check))
      in if s = ''allowed'' then (''pass'', [], False)
         else if s = ''conflict''
         then (if op = ''promote'' then (''fail'', ''state lock conflict'', True)
               else (''warn'', ''state lock conflict'', False))
         else (if op = ''promote'' then (''fail'', ''invalid state lock result'', True)
               else (''warn'', ''invalid state lock result'', False)))"

section \<open>Metadata\<close>

definition mergeMetadata :: "metadata \<Rightarrow> metadata \<Rightarrow> metadata" where
  "mergeMetadata base other =
     sk_boundMetadata
       (fold (\<lambda>(k, v) m. if TrimSpace k = [] \<or> TrimSpace v = [] then m else AList.update k v m) other base) 16"

definition hasMetadataKeys :: "metadata \<Rightarrow> string list \<Rightarrow> bool" where
  "hasMetadataKeys meta keys \<longleftrightarrow>
     list_ex (\<lambda>key. let k = ToLower (TrimSpace key)
       in list_ex (\<lambda>(mk, mv). let nmk = ToLower (TrimSpace mk)
         in (nmk = k \<or> sublist k nmk) \<and>
            TrimSpace mv \<noteq> [] \<and> TrimSpace mv \<noteq> ''false'' \<and> TrimSpace mv \<noteq> ''0'') meta) keys"

definition hasAnyMetadata :: "metadata \<Rightarrow> metadata \<Rightarrow> string list \<Rightarrow> bool" where
  "hasAnyMetadata primary secondary keys \<longleftrightarrow> hasMetadataKeys primary keys \<or> hasMetadataKeys secondary keys"

definition hasRollbackEvidence :: "SkillRequest \<Rightarrow> bool" where
  "hasRollbackEvidence req =
     hasAnyMetadata (kq_Metadata req) (kc_Metadata (kq_Candidate req))
       [''rollback'', ''rollback_path'', ''rollback_plan'', ''rollback_ref'']"

definition hasDisablePathEvidence :: "SkillRequest \<Rightarrow> bool" where
  "hasDisablePathEvidence req =
     hasAnyMetadata (kq_Metadata req) (kc_Metadata (kq_Candidate req))
       [''disable'', ''disable_path'', ''disable_plan'', ''disable_ref'']"

section \<open>Zero values and records\<close>

definition no_assessment :: Assessment where
  "no_assessment =
     \<lparr>as_ID = [], as_PolicyState = [], as_Risk = [], as_Operation = [], as_SensitiveClass = [],
      as_ExplicitLowRisk = False, as_Authority = [], as_Status = [], as_Decision = [],
      as_ReasonCode = [], as_EvidenceRefs = [], as_Metadata = []\<rparr>"

definition no_receipt :: EvReceipt where
  "no_receipt =
     \<lparr>rp_ID = [], rp_Records = [], rp_Assessment = no_assessment, rp_Status = [], rp_Summary = [],
      rp_EvidenceRefs = [], rp_StartedAt = 0, rp_FinishedAt = 0, rp_DurationMS = 0, rp_Metadata = []\<rparr>"

definition note_record :: "string \<Rightarrow> string \<Rightarrow> string \<Rightarrow> string \<Rightarrow> EvRecord" where
  "note_record kind status subject summary =
     \<lparr>rc_ID = [], rc_Kind = kind, rc_Status = status, rc_Subject = subject, rc_Summary = summary,
      rc_Source = [], rc_PolicyState = [], rc_Risk = [], rc_Authority = [], rc_EvidenceRefs = [],
      rc_CreatedAt = 0, rc_Metadata = []\<rparr>"

definition judged_record :: "Assessment \<Rightarrow> EvRecord \<Rightarrow> EvRecord" where
  "judged_record a r =
     r\<lparr>rc_PolicyState := as_PolicyState a, rc_Risk := as_Risk a, rc_Authority := as_Authority a\<rparr>"

definition buildReceipt :: "Codec \<Rightarrow> SkillResult \<Rightarrow> SkillRequest \<Rightarrow> EvRecord list \<Rightarrow> EvReceipt" where
  "buildReceipt H result req records =
     Receipt_Normalized H
       (no_receipt\<lparr>rp_Records := records,
          rp_Assessment := kr_Assessment result,
          rp_Status := toEvidenceStatus (kr_Status result),
          rp_Summary := boundStringSingleLine (kr_Operation result @ '' '' @ kr_Status result) 120,
          rp_EvidenceRefs := mergeRefs [kr_ValidationRefs result, kq_EvidenceRefs req],
          rp_Metadata := mergeMetadata (kq_Metadata req)
            [(''candidate_id'', kr_CandidateID result), (''status'', kr_Status result)]\<rparr>)"

definition sk_invalidResult :: "Codec \<Rightarrow> SkillResult \<Rightarrow> SkillRequest \<Rightarrow> string \<Rightarrow> SkillResult" where
  "sk_invalidResult H seed req message =
     (let seed = seed
            \<lparr>kr_Status := ''invalid'', kr_Decision := ''deny_invalid'',
             kr_Assessment := no_assessment
               \<lparr>as_PolicyState := ''policy_invalid'', as_Risk := ''unknown'', as_Operation := kq_Operation req,
                as_Authority := ''unknown'', as_Status := ''invalid'', as_Decision := ''deny_invalid'',
                as_ReasonCode := ''invalid_input'', as_Metadata := [(''detail'', message)]\<rparr>,
             kr_Warnings := mergeWarningLists (kr_Warnings seed) [message]\<rparr>
      in SkillResult_Normalized H (seed\<lparr>kr_Receipt := buildReceipt H seed req []\<rparr>))"

definition buildConfigRequiredAssessment :: "Codec \<Rightarrow> string \<Rightarrow> Assessment" where
  "buildConfigRequiredAssessment H op =
     Assessment_Normalized H (no_assessment
       \<lparr>as_PolicyState := ''policy_not_configured'', as_Risk := ''sensitive'', as_Operation := op,
        as_Authority := ''none'', as_Status := ''warn'', as_Decision := ''require_approval'',
        as_ReasonCode := ''custom_profile_not_marked''\<rparr>)"

section \<open>Gates\<close>

record findings =
  fi_status :: string
  fi_warnings :: "string list"
  fi_records :: "EvRecord list"
  fi_refs :: "Ref list"

definition escalate :: "string \<Rightarrow> findings \<Rightarrow> findings" where
  "escalate s f = f\<lparr>fi_status := escalateStatus (fi_status f) s\<rparr>"

definition warn_with :: "string \<Rightarrow> findings \<Rightarrow> findings" where
  "warn_with w f = f\<lparr>fi_warnings := fi_warnings f @ [w]\<rparr>"

definition record_with :: "Codec \<Rightarrow> EvRecord \<Rightarrow> findings \<Rightarrow> findings" where
  "record_with H r f = f\<lparr>fi_records := fi_records f @ [Record_Normalized H r]\<rparr>"

definition refer_to :: "Ref \<Rightarrow> findings \<Rightarrow> findings" where
  "refer_to r f = f\<lparr>fi_refs := fi_refs f @ [r]\<rparr>"

definition policy_gate :: "Codec \<Rightarrow> Assessment \<Rightarrow> findings \<Rightarrow> findings" where
  "policy_gate H a f =
     (if isPolicyAuthoritative (as_PolicyState a) then f
      else record_with H (judged_record a
             (note_record ''policy_absence'' ''warn'' ''policy_absence'' ''policy absence requires approval/config''))
           (warn_with ''policy absence is not permission for sensitive lifecycle operation''
             (escalate (if as_PolicyState a = ''policy_not_configured'' then ''config_required''
                        else ''approval_required'') f)))"

definition harness_gate :: "Codec \<Rightarrow> instant \<Rightarrow> HReport option \<Rightarrow> findings \<Rightarrow> findings" where
  "harness_gate H now report f =
     (case report of
        None \<Rightarrow>
          record_with H (note_record ''harness_report'' ''warn'' ''harness_report'' ''harness report required'')
            (warn_with ''missing harness report'' (escalate ''approval_required'' f))
      | Some r \<Rightarrow>
          (let nh = HReport_Normalized now r;
               hs = mapHarnessStatus (hp_Status nh);
               f = record_with H ((note_record ''harness_report'' hs (hp_ArtifactID nh) ''harness report consumed'')
                       \<lparr>rc_EvidenceRefs := [ValidationRef H now nh]\<rparr>)
                     (refer_to (ValidationRef H now nh) f)
           in if hs = ''fail'' then warn_with ''harness report indicates failure'' (escalate ''denied'' f)
              else if hs = ''warn'' then escalate ''approval_required'' f
              else f))"

definition replay_gate :: "Codec \<Rightarrow> string \<Rightarrow> Result option \<Rightarrow> findings \<Rightarrow> findings" where
  "replay_gate H op result f =
     (case result of
        None \<Rightarrow>
          record_with H (note_record ''replay_result'' ''warn'' ''replay_result'' ''replay result required'')
            (warn_with ''missing replay result'' (escalate ''approval_required'' f))
      | Some r \<Rightarrow>
          (let v = normalizeReplayVerdict (rr_Verdict r);
               bad = (v = VerdictRegression \<or> v = VerdictFail \<or> v = VerdictInvalid);
               (rs, summary, f) =
                 (if bad
                  then (''fail'', ''replay regression detected'',
                    warn_with ''replay regression or invalid verdict''
                      (escalate (if op = ''promote'' then ''denied'' else ''approval_required'') f))
                  else if v = VerdictInconclusive
                  then (''warn'', ''replay inconclusive'',
                    warn_with ''replay verdict inconclusive'' (escalate ''approval_required'' f))
                  else (''pass'', ''replay result consumed'', f))
           in record_with H ((note_record ''replay_result'' rs (rr_CaseID r) summary)
                \<lparr>rc_Metadata := [(''verdict'', verdict_word v)]\<rparr>) f))"

definition paradox_gate :: "Codec \<Rightarrow> instant \<Rightarrow> ParadoxReport \<Rightarrow> findings \<Rightarrow> findings" where
  "paradox_gate H now report f =
     (let np = ParadoxReport_Normalized H now report;
          ref = ParadoxRef H now np;
          f = refer_to ref f;
          (ps, f) =
            (if pr_Status np = ''confirmed''
             then (''fail'', warn_with ''statelock paradox confirmed'' (escalate ''denied'' f))
             else if pr_Status np = ''possible'' \<or> pr_Status np = ''inconclusive''
             then (''warn'', warn_with ''statelock paradox possible'' (escalate ''approval_required'' f))
             else (''pass'', f))
      in record_with H ((note_record ''paradox_report'' ps (pr_ID np) (pr_Summary np))
           \<lparr>rc_EvidenceRefs := [ref]\<rparr>) f)"

definition lock_gate :: "Codec \<Rightarrow> instant \<Rightarrow> string \<Rightarrow> CheckResult option \<Rightarrow> findings \<Rightarrow> findings" where
  "lock_gate H now op result f =
     (case result of
        None \<Rightarrow>
          record_with H (note_record ''state_lock'' ''warn'' ''statelock_result'' ''state lock result required'')
            (warn_with ''missing state lock check'' (escalate ''approval_required'' f))
      | Some c \<Rightarrow>
          (let (status, warning, deny) = evaluateStateLock c op;
               f = record_with H (note_record ''state_lock'' status (ck_Status c) ''state lock check consumed'') f;
               f = (if warning \<noteq> [] then warn_with warning f else f);
               f = (if deny then escalate ''denied'' f
                    else if status = ''warn'' then escalate ''approval_required'' f else f)
           in case ck_Paradox c of None \<Rightarrow> f | Some report \<Rightarrow> paradox_gate H now report f))"

definition evidence_gates ::
    "Codec \<Rightarrow> instant \<Rightarrow> EvidenceConfig \<Rightarrow> Assessment \<Rightarrow> SkillRequest \<Rightarrow> findings \<Rightarrow> findings" where
  "evidence_gates H now e a n f =
     (if \<not> needsEvidenceGates (kq_Operation n) then f
      else
        (let f = policy_gate H a f;
             f = (if vc_HarnessReport e then harness_gate H now (kq_HarnessReport n) f else f);
             f = (if vc_ReplayNoRegression e then replay_gate H (kq_Operation n) (kq_ReplayResult n) f else f)
         in if vc_StateLockCheck e then lock_gate H now (kq_Operation n) (kq_StateLockResult n) f else f))"

definition promotion_gate :: "PConfig \<Rightarrow> SkillRequest \<Rightarrow> findings \<Rightarrow> findings" where
  "promotion_gate cfg n f =
     (if kq_Operation n \<noteq> ''promote'' then f
      else
        (let f = (if hasRollbackEvidence n then f
                  else warn_with ''promotion requires rollback evidence'' (escalate ''approval_required'' f));
             f = (if hasDisablePathEvidence n then f
                  else warn_with ''promotion requires disable path evidence'' (escalate ''approval_required'' f));
             auto = NormalizeAutomationMode (am_AutoPromotion (pc_Automation cfg));
             allowed = AllowsConfigured cfg ''skill_promote'';
             f = (if auto \<noteq> ''allow_configured'' \<or> \<not> allowed
                  then (if auto = ''allow_configured'' \<and> \<not> allowed then escalate ''config_required'' f
                        else escalate ''approval_required'' f)
                  else f)
         in if fi_status f = ''allowed'' then f\<lparr>fi_status := ''staged''\<rparr> else f))"

section \<open>Evaluate\<close>

definition seed_result :: "SkillRequest \<Rightarrow> SkillResult" where
  "seed_result n =
     \<lparr>kr_ID = [], kr_Operation = kq_Operation n, kr_CandidateID = kc_ID (kq_Candidate n),
      kr_Status = ''unknown'', kr_Decision = ''inconclusive'', kr_Assessment = no_assessment,
      kr_Receipt = no_receipt, kr_ValidationRefs = [], kr_ArtifactRefs = [], kr_Warnings = [],
      kr_Metadata = sk_boundMetadata (kq_Metadata n) 16\<rparr>"

definition first_findings :: "Codec \<Rightarrow> string \<Rightarrow> Assessment \<Rightarrow> SkillRequest \<Rightarrow> findings" where
  "first_findings H capability a n =
     (let status = statusFromAssessment H a;
          status = (if as_PolicyState a = ''policy_not_configured''
                    then escalateStatus status ''config_required'' else status);
          r = (judged_record a (note_record ''validation_report'' (toEvidenceStatus status)
                 (''skillruntime_'' @ kq_Operation n) ''profile capability evaluated''))
              \<lparr>rc_EvidenceRefs := kq_EvidenceRefs n,
               rc_Metadata := [(''capability'', capability), (''operation'', kq_Operation n)]\<rparr>
      in \<lparr>fi_status = status,
          fi_warnings = (if kq_Operation n = ''retrieve''
            then [''vector retrieval is candidate-only'', ''vector retrieval is not truth''] else []),
          fi_records = [Record_Normalized H r],
          fi_refs = kq_EvidenceRefs n\<rparr>)"

definition close_status :: "string \<Rightarrow> string \<Rightarrow> string" where
  "close_status op status =
     (let status = (if op = ''stage'' \<and> status = ''allowed'' then ''staged'' else status)
      in if op = ''disable'' then ''disabled'' else status)"

definition evaluate_normalized :: "Codec \<Rightarrow> instant \<Rightarrow> SkillRequest \<Rightarrow> SkillResult" where
  "evaluate_normalized H now n =
     (let result = seed_result n; op = kq_Operation n; cfg = PConfig_Normalized (kq_Config n)
      in if NormalizeProfile (pc_Profile cfg) = ''custom'' \<and> \<not> pc_CustomProfileConfigured cfg
         then
           (let result = result
                  \<lparr>kr_Status := ''config_required'', kr_Decision := ''deny_invalid'',
                   kr_Warnings := mergeWarningLists [] [''custom profile requires explicit marker''],
                   kr_Assessment := buildConfigRequiredAssessment H op\<rparr>
            in SkillResult_Normalized H (result\<lparr>kr_Receipt := buildReceipt H result n []\<rparr>))
         else
           (let capability = mapCapability op;
                a = EvaluateCapability H cfg capability;
                f = promotion_gate cfg n
                      (evidence_gates H now (pc_Evidence cfg) a n (first_findings H capability a n));
                result = result
                  \<lparr>kr_Status := close_status op (fi_status f),
                   kr_Decision := (if op = ''disable'' \<and> as_Decision a = ''inconclusive''
                     then ''audit_only'' else as_Decision a),
                   kr_Assessment := a,
                   kr_Metadata := (if op = ''retrieve''
                     then mergeMetadata (kr_Metadata result) [(''vector_role'', ''candidate_only'')]
                     else kr_Metadata result),
                   kr_Warnings := mergeWarningLists [] (fi_warnings f),
                   kr_ValidationRefs := mergeRefs [fi_refs f, kc_EvidenceRefs (kq_Candidate n)],
                   kr_ArtifactRefs := mergeRefs [kc_ArtifactRefs (kq_Candidate n), kc_EvidenceRefs (kq_Candidate n)]\<rparr>
            in SkillResult_Normalized H (result\<lparr>kr_Receipt := buildReceipt H result n (fi_records f)\<rparr>)))"

definition Skill_Evaluate :: "Codec \<Rightarrow> instant \<Rightarrow> SkillRequest \<Rightarrow> SkillResult" where
  "Skill_Evaluate H now req =
     (let n = SkillRequest_Normalized H now req; seed = seed_result n
      in if Operation_Validate H (kq_Operation n) \<noteq> None then sk_invalidResult H seed n ''invalid operation''
         else if SkillCandidate_Validate H (kq_Candidate n) \<noteq> None
         then sk_invalidResult H seed n ''invalid candidate''
         else evaluate_normalized H now n)"

end
