(* ===== verification/SkillStore.thy ===== *)
theory SkillStore
  imports SkillEval
begin

text \<open>
  The in-memory store and the facade of \<open>pkg/skillruntime\<close>. A nil store pointer is \<open>None\<close> and answers
  every call with an error; the mutex makes each method one operation; the clones are the values
  themselves. The tables are association lists in the order of one iteration of Go's maps.
\<close>

section \<open>Store\<close>

record SkillMemory =
  km_candidates :: "(string \<times> SkillCandidate) list"
  km_results :: "(string \<times> SkillResult) list"

definition NewSkillMemory :: SkillMemory where
  "NewSkillMemory = \<lparr>km_candidates = [], km_results = []\<rparr>"

definition store_unavailable :: SkillError where
  "store_unavailable = SkErrInvalidRequest ''store unavailable''"

definition SaveCandidate ::
    "Codec \<Rightarrow> SkillCandidate \<Rightarrow> SkillMemory option \<Rightarrow> SkillError option \<times> SkillMemory option" where
  "SaveCandidate H candidate st =
     (case st of None \<Rightarrow> (Some store_unavailable, None)
      | Some s \<Rightarrow>
          (let n = SkillCandidate_Normalized H candidate
           in case SkillCandidate_Validate H n of
                Some err \<Rightarrow> (Some err, Some s)
              | None \<Rightarrow> (None, Some (s\<lparr>km_candidates := AList.update (kc_ID n) n (km_candidates s)\<rparr>))))"

definition LoadCandidate :: "Codec \<Rightarrow> string \<Rightarrow> SkillMemory option \<Rightarrow> SkillError + SkillCandidate" where
  "LoadCandidate H cid st =
     (case st of None \<Rightarrow> Inl store_unavailable
      | Some s \<Rightarrow>
          (let key = boundID cid
           in case map_of (km_candidates s) key of
                None \<Rightarrow> Inl (SkErrNotFound (''candidate '' @ c_Quote H key))
              | Some c \<Rightarrow> Inr c))"

definition ListCandidates :: "SkillMemory option \<Rightarrow> SkillError + SkillCandidate list" where
  "ListCandidates st =
     (case st of None \<Rightarrow> Inl store_unavailable
      | Some s \<Rightarrow> Inr (sort_key kc_ID (map snd (km_candidates s))))"

definition SaveSkillResult ::
    "Codec \<Rightarrow> SkillResult \<Rightarrow> SkillMemory option \<Rightarrow> SkillError option \<times> SkillMemory option" where
  "SaveSkillResult H result st =
     (case st of None \<Rightarrow> (Some store_unavailable, None)
      | Some s \<Rightarrow>
          (let n = SkillResult_Normalized H result
           in case SkillResult_Validate H n of
                Some err \<Rightarrow> (Some err, Some s)
              | None \<Rightarrow> (None, Some (s\<lparr>km_results := AList.update (kr_ID n) n (km_results s)\<rparr>))))"

definition LoadSkillResult :: "Codec \<Rightarrow> string \<Rightarrow> SkillMemory option \<Rightarrow> SkillError + SkillResult" where
  "LoadSkillResult H rid st =
     (case st of None \<Rightarrow> Inl store_unavailable
      | Some s \<Rightarrow>
          (let key = boundID rid
           in case map_of (km_results s) key of
                None \<Rightarrow> Inl (SkErrNotFound (''result '' @ c_Quote H key))
              | Some r \<Rightarrow> Inr r))"

definition DisableCandidate ::
    "Codec \<Rightarrow> string \<Rightarrow> SkillMemory option \<Rightarrow> SkillError option \<times> SkillMemory option" where
  "DisableCandidate H cid st =
     (case st of None \<Rightarrow> (Some store_unavailable, None)
      | Some s \<Rightarrow>
          (let key = TrimSpace cid
           in if key = [] then (Some (SkErrInvalidCandidate ''candidate id required''), Some s)
              else case map_of (km_candidates s) key of
                None \<Rightarrow> (Some (SkErrNotFound (''candidate '' @ c_Quote H key)), Some s)
              | Some c \<Rightarrow>
                  (None, Some (s\<lparr>km_candidates :=
                     AList.update key (c\<lparr>kc_Disabled := True\<rparr>) (km_candidates s)\<rparr>))))"

section \<open>Facade\<close>

definition is_not_found :: "SkillError \<Rightarrow> bool" where
  "is_not_found e = (case e of SkErrNotFound s \<Rightarrow> True | _ \<Rightarrow> False)"

text \<open>
  What \<open>run\<close> does with the store before it evaluates: an error to stop with, or the request to go on
  with. The outer option is the interface value, which may be nil.
\<close>

definition prepare ::
    "Codec \<Rightarrow> string \<Rightarrow> SkillRequest \<Rightarrow> SkillMemory option option \<Rightarrow>
       (SkillError + SkillRequest) \<times> SkillMemory option option" where
  "prepare H op n store =
     (case store of
        None \<Rightarrow> (Inr n, None)
      | Some st \<Rightarrow>
          (if op = ''retrieve''
           then (if kc_ID (kq_Candidate n) \<noteq> []
                 then (case LoadCandidate H (kc_ID (kq_Candidate n)) st of
                         Inr loaded \<Rightarrow> (Inr (n\<lparr>kq_Candidate := loaded\<rparr>), Some st)
                       | Inl err \<Rightarrow> ((if is_not_found err then Inr n else Inl err), Some st))
                 else (Inr n, Some st))
           else if op = ''propose'' \<or> op = ''stage''
           then (case SaveCandidate H (kq_Candidate n) st of
                   (Some err, st) \<Rightarrow> (Inl err, Some st)
                 | (None, st) \<Rightarrow> (Inr n, Some st))
           else if op = ''disable''
           then (if kc_ID (kq_Candidate n) \<noteq> []
                 then (case DisableCandidate H (kc_ID (kq_Candidate n)) st of
                         (Some err, st) \<Rightarrow> ((if is_not_found err then Inr n else Inl err), Some st)
                       | (None, st) \<Rightarrow> (Inr n, Some st))
                 else (Inr n, Some st))
           else (Inr n, Some st)))"

definition sk_run ::
    "Codec \<Rightarrow> instant \<Rightarrow> SkillError option \<Rightarrow> string \<Rightarrow> SkillRequest \<Rightarrow> SkillMemory option option \<Rightarrow>
       (SkillError + SkillResult) \<times> SkillMemory option option" where
  "sk_run H now ctxErr op req store =
     (case ctxErr of
        Some err \<Rightarrow> (Inl err, store)
      | None \<Rightarrow>
          (let n = (SkillRequest_Normalized H now req)\<lparr>kq_Operation := op\<rparr>
           in case Operation_Validate H op of
                Some err \<Rightarrow> (Inl err, store)
              | None \<Rightarrow>
                  (case prepare H op n store of
                     (Inl err, store) \<Rightarrow> (Inl err, store)
                   | (Inr n, store) \<Rightarrow>
                       (let result = Skill_Evaluate H now n;
                            result =
                              (if op = ''disable''
                               then SkillResult_Normalized H (result
                                 \<lparr>kr_Status := ''disabled'',
                                  kr_Decision := (if kr_Decision result = ''inconclusive'' then ''audit_only''
                                                  else kr_Decision result)\<rparr>)
                               else result)
                        in case store of
                             None \<Rightarrow> (Inr result, None)
                           | Some st \<Rightarrow>
                               (case SaveSkillResult H result st of
                                  (Some err, st) \<Rightarrow> (Inl err, Some st)
                                | (None, st) \<Rightarrow> (Inr result, Some st))))))"

definition Retrieve where "Retrieve H now ctxErr = sk_run H now ctxErr ''retrieve''"
definition Propose where "Propose H now ctxErr = sk_run H now ctxErr ''propose''"
definition Validate where "Validate H now ctxErr = sk_run H now ctxErr ''validate''"
definition Stage where "Stage H now ctxErr = sk_run H now ctxErr ''stage''"
definition Promote where "Promote H now ctxErr = sk_run H now ctxErr ''promote''"
definition Disable where "Disable H now ctxErr = sk_run H now ctxErr ''disable''"

definition Facade_Run ::
    "Codec \<Rightarrow> instant \<Rightarrow> SkillError option \<Rightarrow> SkillRequest \<Rightarrow> SkillMemory option option \<Rightarrow>
       (SkillError + SkillResult) \<times> SkillMemory option option" where
  "Facade_Run H now ctxErr req store =
     (let op = NormalizeOperation (kq_Operation req)
      in if op = ''retrieve'' then Retrieve H now ctxErr req store
         else if op = ''propose'' then Propose H now ctxErr req store
         else if op = ''validate'' then Validate H now ctxErr req store
         else if op = ''stage'' then Stage H now ctxErr req store
         else if op = ''promote'' then Promote H now ctxErr req store
         else if op = ''disable'' then Disable H now ctxErr req store
         else (Inl (SkErrInvalidOperation []), store))"

end
