(* ===== verification/SkillGates.thy ===== *)
theory SkillGates
  imports SkillStore ProfileProps
begin

text \<open>
  The gates of \<open>Evaluate\<close> in \<open>pkg/skillruntime\<close>: what a capability contributes under each mode of its
  surface, and under which condition a gate keeps the status \<open>allowed\<close>.
\<close>

section \<open>Normalised configurations\<close>

lemma NormalizeProfile_idem [simp]: "NormalizeProfile (NormalizeProfile p) = NormalizeProfile p"
proof -
  have "NormalizeProfile ''unknown'' = ''unknown''" by code_simp
  then show ?thesis
    using one_of_range [of pf_profiles "''unknown''" p]
    by (auto simp: NormalizeProfile_def one_of_member)
qed

definition custom_unmarked :: "PConfig \<Rightarrow> bool" where
  "custom_unmarked cfg \<longleftrightarrow> NormalizeProfile (pc_Profile cfg) = ''custom'' \<and> \<not> pc_CustomProfileConfigured cfg"

lemma custom_unmarked_Normalized [simp]: "custom_unmarked (PConfig_Normalized cfg) = custom_unmarked cfg"
proof -
  have "NormalizeProfile ''beginner'' = ''beginner''" by code_simp
  then show ?thesis by (auto simp: custom_unmarked_def PConfig_Normalized_def Let_def)
qed

lemma idempotent_image:
  "(\<And>x. f (f x) = f x) \<Longrightarrow> f c \<noteq> u \<Longrightarrow>
     (\<exists>k \<in> f ` S - {u}. f k = f c) \<longleftrightarrow> (\<exists>k \<in> S. f k = f c)"
proof
  assume idem: "\<And>x. f (f x) = f x" and "f c \<noteq> u" and "\<exists>k \<in> S. f k = f c"
  then have "f c \<in> f ` S - {u}" by (auto intro: rev_image_eqI)
  then show "\<exists>k \<in> f ` S - {u}. f k = f c" using idem by blast
qed auto

lemma configured_Normalized [simp]: "configured (PConfig_Normalized cfg) c = configured cfg c"
proof -
  let ?f = NormalizeCapability and ?m = "pc_ConfiguredCapabilities cfg"
  have "(\<exists>k. (k, True) \<in> set (normalizeConfiguredCapabilities ?m) \<and> ?f k = ?f c) \<longleftrightarrow>
      (\<exists>k. (k, True) \<in> set ?m \<and> ?f k = ?f c)" if known: "?f c \<noteq> ''unknown''"
  proof -
    have "(\<exists>k. (k, True) \<in> set (normalizeConfiguredCapabilities ?m) \<and> ?f k = ?f c) \<longleftrightarrow>
        (\<exists>k \<in> ?f ` {k. (k, True) \<in> set ?m} - {''unknown''}. ?f k = ?f c)"
      unfolding allowed_in_normalized [symmetric] by simp
    also have "\<dots> \<longleftrightarrow> (\<exists>k. (k, True) \<in> set ?m \<and> ?f k = ?f c)"
      unfolding idempotent_image [OF NormalizeCapability_idem known] by simp
    finally show ?thesis .
  qed
  then show ?thesis unfolding configured_def Bex_True PConfig_Normalized_fields by blast
qed

section \<open>What a capability contributes\<close>

lemma guards_fields:
  "as_PolicyState (evidence_guards e r a) = as_PolicyState a" "as_Risk (evidence_guards e r a) = as_Risk a"
  "as_ExplicitLowRisk (evidence_guards e r a) = as_ExplicitLowRisk a"
  "as_Authority (evidence_guards e r a) = as_Authority a"
  "as_PolicyState (approval_guard q a) = as_PolicyState a" "as_Risk (approval_guard q a) = as_Risk a"
  "as_ExplicitLowRisk (approval_guard q a) = as_ExplicitLowRisk a"
  "as_Authority (approval_guard q a) = as_Authority a"
  "c \<noteq> ''release_publish'' \<Longrightarrow> release_guard c x a = a"
  by (simp_all add: evidence_guards_def approval_guard_def release_guard_def Let_def)

text \<open>The capabilities that operations on skills need, and the rules for them.\<close>

definition skill_rule :: "string \<Rightarrow> capabilityRule \<Rightarrow> bool" where
  "skill_rule c r \<longleftrightarrow> map_of capabilityRules c = Some r \<and> NormalizeCapability c = c \<and>
     c \<noteq> ''vector_assert_truth'' \<and> c \<noteq> ''vector_retrieve'' \<and> c \<noteq> ''release_publish''"

lemma capability_fields:
  assumes "skill_rule c r" and "m = NormalizeAuthorityMode (SurfaceMode (pc_Authority cfg) (cr_surface r))"
    and "conf \<longleftrightarrow> m = ''allow_configured'' \<and> configured cfg c" and "policy_of_surface m conf = (ps, au)"
  shows "as_PolicyState (EvaluateCapability H (PConfig_Normalized cfg) c) = NormalizePolicyState ps"
    "as_Risk (EvaluateCapability H (PConfig_Normalized cfg) c) = NormalizeRisk (cr_risk r)"
    "as_ExplicitLowRisk (EvaluateCapability H (PConfig_Normalized cfg) c) = cr_explicitLow r"
    "as_Authority (EvaluateCapability H (PConfig_Normalized cfg) c) = NormalizeAuthority au"
proof -
  have known: "NormalizeCapability c \<noteq> ''vector_assert_truth''" and cap: "NormalizeCapability c = c"
    and rule: "map_of capabilityRules c = Some r" and outside: "c \<noteq> ''vector_retrieve''" "c \<noteq> ''release_publish''"
    using assms(1) by (auto simp: skill_rule_def)
  have conf: "AllowsConfigured (PConfig_Normalized (PConfig_Normalized cfg)) c = configured cfg c"
    by (simp add: AllowsConfigured_iff)
  have pa: "policy_of_surface m (m = ''allow_configured'' \<and> configured cfg c) = (ps, au)"
    using assms(3,4) by simp
  note unfold = EvaluateCapability_def Let_def cap rule option.case PConfig_Normalized_fields
    SurfaceMode_Normalized NormalizeAuthorityMode_idem assms(2) [symmetric] conf pa prod.case
  note simps = known [unfolded cap] outside guards_fields Assessment_Evaluate_fields
  show "as_PolicyState (EvaluateCapability H (PConfig_Normalized cfg) c) = NormalizePolicyState ps"
    unfolding unfold by (simp add: simps)
  show "as_Risk (EvaluateCapability H (PConfig_Normalized cfg) c) = NormalizeRisk (cr_risk r)"
    unfolding unfold by (simp add: simps)
  show "as_ExplicitLowRisk (EvaluateCapability H (PConfig_Normalized cfg) c) = cr_explicitLow r"
    unfolding unfold by (simp add: simps)
  show "as_Authority (EvaluateCapability H (PConfig_Normalized cfg) c) = NormalizeAuthority au"
    unfolding unfold by (simp add: simps)
qed

text \<open>
  The status that an assessment stands for is computed from its policy state, its risk and its
  authority alone: the guards of the profile, which change its decision, are lost.
\<close>

lemma skill_capability_status:
  assumes "skill_rule c r" and "m = NormalizeAuthorityMode (SurfaceMode (pc_Authority cfg) (cr_surface r))"
    and "explicit \<longleftrightarrow> m = ''allow'' \<or> m = ''allow_configured'' \<and> configured cfg c"
  shows "statusFromAssessment H (EvaluateCapability H (PConfig_Normalized cfg) c) =
    (if cr_risk r \<noteq> ''sensitive'' then ''allowed'' else if m = ''unknown'' then ''denied''
     else if explicit then ''allowed'' else ''approval_required'')"
proof -
  obtain ps au where pa: "policy_of_surface m (m = ''allow_configured'' \<and> configured cfg c) = (ps, au)" by fastforce
  note f = capability_fields [OF assms(1,2) refl pa, of H]
  have rule: "map_of capabilityRules c = Some r" using assms(1) by (simp add: skill_rule_def)
  note rc = rule_cases [OF rule]
  have risk: "NormalizeRisk (NormalizeRisk (cr_risk r)) = cr_risk r" using rc by auto
  have d: "as_Decision (Assessment_Evaluate H (EvaluateCapability H (PConfig_Normalized cfg) c)) =
      surface_decision (cr_risk r) m explicit"
    unfolding verdict_parts f NormalizePolicyState_idem NormalizeAuthority_idem risk
    using surface_verdict [OF assms(2) _ pa, of "cr_risk r"] rc assms(3) by auto
  show ?thesis
    unfolding statusFromAssessment_def Let_def d using rc
    by (elim conjE insertE emptyE) (simp_all add: surface_decision_def)
qed

lemma surface_policy:
  assumes "policy_of_surface m conf = (ps, au)" and "conf \<longrightarrow> m = ''allow_configured''"
  shows "ps = ''policy_not_configured'' \<longleftrightarrow> m = ''allow_configured'' \<and> \<not> conf"
    and "isPolicyAuthoritative ps \<longleftrightarrow> m = ''allow'' \<or> conf \<or> m = ''audit_only''"
proof -
  have auth: "isPolicyAuthoritative ''policy_matched''" "\<not> isPolicyAuthoritative ''policy_not_configured''"
    "isPolicyAuthoritative ''policy_audit_only''" "\<not> isPolicyAuthoritative ''policy_no_match''"
    "\<not> isPolicyAuthoritative ''policy_invalid''"
    by code_simp+
  have ps: "ps = fst (policy_of_surface m conf)" using assms(1) by simp
  consider "m = ''allow''" | "m = ''allow_configured''" | "m = ''audit_only''"
    | "m \<noteq> ''allow''" "m \<noteq> ''allow_configured''" "m \<noteq> ''audit_only''" by argo
  then have "(ps = ''policy_not_configured'' \<longleftrightarrow> m = ''allow_configured'' \<and> \<not> conf) \<and>
    (isPolicyAuthoritative ps \<longleftrightarrow> m = ''allow'' \<or> conf \<or> m = ''audit_only'')"
  proof cases
    case 4
    then show ?thesis unfolding ps policy_of_surface_def using assms(2) auth by (simp split: if_split)
  qed (use assms(2) auth in \<open>simp_all add: ps policy_of_surface_def\<close>)
  then show "ps = ''policy_not_configured'' \<longleftrightarrow> m = ''allow_configured'' \<and> \<not> conf"
    "isPolicyAuthoritative ps \<longleftrightarrow> m = ''allow'' \<or> conf \<or> m = ''audit_only''" by simp_all
qed

lemma surface_policy_words:
  assumes "policy_of_surface m conf = (ps, au)"
  shows "NormalizePolicyState ps = ps"
proof -
  have "NormalizePolicyState (fst (policy_of_surface m conf)) = fst (policy_of_surface m conf)"
    unfolding policy_of_surface_def by (simp split: if_split)
  then show ?thesis by (simp add: assms)
qed

lemma skill_policy_state:
  assumes "skill_rule c r" and "m = NormalizeAuthorityMode (SurfaceMode (pc_Authority cfg) (cr_surface r))"
  shows "as_PolicyState (EvaluateCapability H (PConfig_Normalized cfg) c) = ''policy_not_configured'' \<longleftrightarrow>
      m = ''allow_configured'' \<and> \<not> configured cfg c"
    "isPolicyAuthoritative (as_PolicyState (EvaluateCapability H (PConfig_Normalized cfg) c)) \<longleftrightarrow>
      m = ''allow'' \<or> m = ''allow_configured'' \<and> configured cfg c \<or> m = ''audit_only''"
proof -
  obtain ps au where pa: "policy_of_surface m (m = ''allow_configured'' \<and> configured cfg c) = (ps, au)" by fastforce
  note f = capability_fields(1) [OF assms refl pa, of H]
  note p = surface_policy [OF pa] surface_policy_words [OF pa]
  show "as_PolicyState (EvaluateCapability H (PConfig_Normalized cfg) c) = ''policy_not_configured'' \<longleftrightarrow>
      m = ''allow_configured'' \<and> \<not> configured cfg c"
    unfolding f p(3) using p(1) by blast
  show "isPolicyAuthoritative (as_PolicyState (EvaluateCapability H (PConfig_Normalized cfg) c)) \<longleftrightarrow>
      m = ''allow'' \<or> m = ''allow_configured'' \<and> configured cfg c \<or> m = ''audit_only''"
    unfolding f p(3) using p(2) by blast
qed

section \<open>Gates\<close>

text \<open>The statuses that the gates work on, and the ones that they escalate to.\<close>

definition open_statuses :: "string list" where
  "open_statuses = [''allowed'', ''approval_required'', ''config_required'', ''denied'', ''invalid'']"

definition demands :: "string list" where
  "demands = [''approval_required'', ''config_required'', ''denied'']"

lemma skill_status_words [simp]:
  "sk_NormalizeStatus ''allowed'' = ''allowed''" "sk_NormalizeStatus ''staged'' = ''staged''"
  "sk_NormalizeStatus ''approval_required'' = ''approval_required''"
  "sk_NormalizeStatus ''config_required'' = ''config_required''" "sk_NormalizeStatus ''denied'' = ''denied''"
  "sk_NormalizeStatus ''disabled'' = ''disabled''" "sk_NormalizeStatus ''invalid'' = ''invalid''"
  by code_simp+

lemma escalate_open:
  assumes "c \<in> set open_statuses" and "i \<in> set demands"
  shows "escalateStatus c i \<in> set open_statuses" "escalateStatus c i \<noteq> ''allowed''"
proof -
  have "\<forall>c \<in> set open_statuses. \<forall>i \<in> set demands.
      escalateStatus c i \<in> set open_statuses \<and> escalateStatus c i \<noteq> ''allowed''"
    by (simp add: open_statuses_def demands_def escalateStatus_def status_rank_def)
  note bspec [OF bspec [OF this assms(1)] assms(2)]
  then show "escalateStatus c i \<in> set open_statuses" "escalateStatus c i \<noteq> ''allowed''" by (rule conjunct1, elim conjunct2)
qed

lemma demand_words [simp]: "''approval_required'' \<in> set demands" "''config_required'' \<in> set demands"
  "''denied'' \<in> set demands"
  by (simp_all add: demands_def)

lemma findings_simps [simp]:
  "fi_status (warn_with w f) = fi_status f" "fi_status (record_with H r f) = fi_status f"
  "fi_status (refer_to x f) = fi_status f" "fi_status (escalate i f) = escalateStatus (fi_status f) i"
  by (simp_all add: warn_with_def record_with_def refer_to_def escalate_def)

text \<open>A gate keeps the status open, and keeps it \<open>allowed\<close> exactly if its condition holds.\<close>

definition gate :: "(findings \<Rightarrow> findings) \<Rightarrow> bool \<Rightarrow> bool" where
  "gate g clears \<longleftrightarrow>
     (\<forall>f. fi_status f \<in> set open_statuses \<longrightarrow>
        fi_status (g f) \<in> set open_statuses \<and>
        (fi_status (g f) = ''allowed'' \<longleftrightarrow> fi_status f = ''allowed'' \<and> clears))"

definition demanded :: "string \<Rightarrow> string \<Rightarrow> bool" where
  "demanded s t \<longleftrightarrow> (\<exists>i \<in> set demands. t = escalateStatus s i)"

lemma demandedI [simp]: "i \<in> set demands \<Longrightarrow> demanded s (escalateStatus s i)"
  by (auto simp: demanded_def)

lemma gateI:
  assumes "\<And>f. clears \<Longrightarrow> fi_status (g f) = fi_status f"
    and "\<And>f. \<not> clears \<Longrightarrow> demanded (fi_status f) (fi_status (g f))"
  shows "gate g clears"
  unfolding gate_def
proof (intro allI impI)
  fix f :: findings
  assume f: "fi_status f \<in> set open_statuses"
  show "fi_status (g f) \<in> set open_statuses \<and>
      (fi_status (g f) = ''allowed'' \<longleftrightarrow> fi_status f = ''allowed'' \<and> clears)"
  proof (cases clears)
    case False
    then obtain i where "i \<in> set demands" "fi_status (g f) = escalateStatus (fi_status f) i"
      using assms(2) unfolding demanded_def by blast
    then show ?thesis using escalate_open [OF f] False by metis
  qed (simp add: assms(1) f)
qed

lemma gate_comp: "gate g a \<Longrightarrow> gate h b \<Longrightarrow> gate (\<lambda>f. h (g f)) (a \<and> b)"
  by (auto simp: gate_def)

lemma gate_when: "(P \<Longrightarrow> gate g a) \<Longrightarrow> gate (\<lambda>f. if P then g f else f) (P \<longrightarrow> a)"
  by (cases P) (simp_all add: gate_def)

lemma policy_gate: "gate (policy_gate H a) (isPolicyAuthoritative (as_PolicyState a))"
  by (rule gateI) (auto simp: policy_gate_def)

definition harness_clears :: "HReport option \<Rightarrow> bool" where
  "harness_clears report \<longleftrightarrow>
     (case report of None \<Rightarrow> False | Some r \<Rightarrow> mapHarnessStatus (hp_Status r) \<notin> {''fail'', ''warn''})"

lemma HReport_Normalized_status [simp]: "hp_Status (HReport_Normalized now r) = hp_Status r"
  by (simp add: HReport_Normalized_def Let_def)

lemma harness_gate: "gate (harness_gate H now report) (harness_clears report)"
  by (rule gateI) (auto simp: harness_gate_def harness_clears_def Let_def split: option.split)

definition replay_clears :: "Result option \<Rightarrow> bool" where
  "replay_clears result \<longleftrightarrow>
     (case result of None \<Rightarrow> False
      | Some r \<Rightarrow> normalizeReplayVerdict (rr_Verdict r) \<in> {VerdictPass, VerdictImprovement})"

lemma replay_verdicts:
  "normalizeReplayVerdict v \<in> {VerdictPass, VerdictFail, VerdictRegression, VerdictImprovement,
     VerdictInconclusive, VerdictInvalid}"
  by (auto simp: normalizeReplayVerdict_def split: Verdict.split)

lemma replay_gate: "gate (replay_gate H op result) (replay_clears result)"
proof (cases result)
  case None
  then show ?thesis by (auto intro!: gateI simp: replay_gate_def replay_clears_def)
next
  case (Some r)
  show ?thesis
    using replay_verdicts [of "rr_Verdict r"]
    by (auto intro!: gateI simp: Some replay_gate_def replay_clears_def Let_def)
qed

definition paradox_clears :: "ParadoxReport \<Rightarrow> bool" where
  "paradox_clears p \<longleftrightarrow> normalizeParadoxStatus (pr_Status p) \<notin> {''confirmed'', ''possible'', ''inconclusive''}"

lemma paradox_gate: "gate (paradox_gate H now p) (paradox_clears p)"
  by (rule gateI) (auto simp: paradox_gate_def paradox_clears_def Let_def ParadoxReport_Normalized_def)

definition lock_clears :: "CheckResult option \<Rightarrow> bool" where
  "lock_clears result \<longleftrightarrow>
     (case result of None \<Rightarrow> False
      | Some c \<Rightarrow> ToLower (TrimSpace (ck_Status c)) = ''allowed'' \<and>
          (case ck_Paradox c of None \<Rightarrow> True | Some p \<Rightarrow> paradox_clears p))"

lemma lock_gate: "gate (lock_gate H now op result) (lock_clears result)"
proof (cases result)
  case None
  then show ?thesis by (auto intro!: gateI simp: lock_gate_def lock_clears_def)
next
  case (Some c)
  let ?s = "ToLower (TrimSpace (ck_Status c))"
  obtain status warning deny where e: "evaluateStateLock c op = (status, warning, deny)" by (cases "evaluateStateLock c op")
  have pass: "?s = ''allowed'' \<Longrightarrow> status = ''pass'' \<and> \<not> deny" and warn: "?s \<noteq> ''allowed'' \<Longrightarrow> deny \<or> status = ''warn''"
    using e by (auto simp: evaluateStateLock_def Let_def split: if_split_asm)
  define first_part where "first_part f =
    (let f = record_with H (note_record ''state_lock'' status (ck_Status c) ''state lock check consumed'') f;
         f = (if warning \<noteq> [] then warn_with warning f else f)
     in if deny then escalate ''denied'' f
        else if status = ''warn'' then escalate ''approval_required'' f else f)" for f :: findings
  have "gate first_part (?s = ''allowed'')"
  proof (rule gateI)
    show "fi_status (first_part f) = fi_status f" if "?s = ''allowed''" for f
      using pass [OF that] by (simp add: first_part_def Let_def)
    show "demanded (fi_status f) (fi_status (first_part f))" if "?s \<noteq> ''allowed''" for f
      using warn [OF that] by (auto simp: first_part_def Let_def)
  qed
  moreover have "gate (\<lambda>f. case ck_Paradox c of None \<Rightarrow> f | Some p \<Rightarrow> paradox_gate H now p f)
      (case ck_Paradox c of None \<Rightarrow> True | Some p \<Rightarrow> paradox_clears p)"
    using paradox_gate by (cases "ck_Paradox c") (simp_all add: gate_def)
  ultimately have "gate (\<lambda>f. case ck_Paradox c of None \<Rightarrow> first_part f | Some p \<Rightarrow> paradox_gate H now p (first_part f))
      (?s = ''allowed'' \<and> (case ck_Paradox c of None \<Rightarrow> True | Some p \<Rightarrow> paradox_clears p))"
    by (rule gate_comp)
  moreover have "lock_gate H now op result =
      (\<lambda>f. case ck_Paradox c of None \<Rightarrow> first_part f | Some p \<Rightarrow> paradox_gate H now p (first_part f))"
    by (rule ext) (simp only: lock_gate_def Some option.case e prod.case first_part_def Let_def)
  ultimately show ?thesis by (simp add: lock_clears_def Some)
qed

definition evidence_clears :: "EvidenceConfig \<Rightarrow> SkillRequest \<Rightarrow> bool" where
  "evidence_clears e req \<longleftrightarrow>
     (vc_HarnessReport e \<longrightarrow> harness_clears (kq_HarnessReport req)) \<and>
     (vc_ReplayNoRegression e \<longrightarrow> replay_clears (kq_ReplayResult req)) \<and>
     (vc_StateLockCheck e \<longrightarrow> lock_clears (kq_StateLockResult req))"

lemma evidence_gates:
  assumes "needsEvidenceGates (kq_Operation n)"
  shows "gate (evidence_gates H now e a n) (isPolicyAuthoritative (as_PolicyState a) \<and> evidence_clears e n)"
proof -
  let ?when = "\<lambda>P (g :: findings \<Rightarrow> findings) f. if P then g f else f"
  note g = gate_comp [OF gate_comp [OF gate_comp [OF policy_gate [of H a]
      gate_when [OF harness_gate [of H now "kq_HarnessReport n"], of "vc_HarnessReport e"]]
      gate_when [OF replay_gate [of H "kq_Operation n" "kq_ReplayResult n"], of "vc_ReplayNoRegression e"]]
      gate_when [OF lock_gate [of H now "kq_Operation n" "kq_StateLockResult n"], of "vc_StateLockCheck e"]]
  have "evidence_gates H now e a n = (\<lambda>f.
      ?when (vc_StateLockCheck e) (lock_gate H now (kq_Operation n) (kq_StateLockResult n))
        (?when (vc_ReplayNoRegression e) (replay_gate H (kq_Operation n) (kq_ReplayResult n))
          (?when (vc_HarnessReport e) (harness_gate H now (kq_HarnessReport n)) (policy_gate H a f))))"
    using assms by (intro ext) (simp only: evidence_gates_def Let_def not_True_eq_False if_False)
  then show ?thesis using g by (simp only: evidence_clears_def conj_assoc)
qed

definition promotion_clears :: "PConfig \<Rightarrow> SkillRequest \<Rightarrow> bool" where
  "promotion_clears cfg n \<longleftrightarrow>
     hasRollbackEvidence n \<and> hasDisablePathEvidence n \<and>
     NormalizeAutomationMode (am_AutoPromotion (pc_Automation cfg)) = ''allow_configured'' \<and>
     AllowsConfigured cfg ''skill_promote''"

lemma promotion_gate:
  assumes "kq_Operation n = ''promote''" and "fi_status f \<in> set open_statuses"
  shows "fi_status (promotion_gate cfg n f) = ''staged'' \<longleftrightarrow>
      fi_status f = ''allowed'' \<and> promotion_clears cfg n"
    "fi_status (promotion_gate cfg n f) \<in> insert ''staged'' (set open_statuses) - {''allowed''}"
proof -
  let ?auto = "NormalizeAutomationMode (am_AutoPromotion (pc_Automation cfg)) = ''allow_configured''"
  let ?conf = "AllowsConfigured cfg ''skill_promote''"
  define pre where "pre f =
    (let f = (if hasRollbackEvidence n then f
              else warn_with ''promotion requires rollback evidence'' (escalate ''approval_required'' f));
         f = (if hasDisablePathEvidence n then f
              else warn_with ''promotion requires disable path evidence'' (escalate ''approval_required'' f))
     in if \<not> ?auto \<or> \<not> ?conf
        then (if ?auto \<and> \<not> ?conf then escalate ''config_required'' f else escalate ''approval_required'' f)
        else f)" for f :: findings
  have "gate (\<lambda>f. if hasRollbackEvidence n then f
      else warn_with ''promotion requires rollback evidence'' (escalate ''approval_required'' f)) (hasRollbackEvidence n)"
    "gate (\<lambda>f. if hasDisablePathEvidence n then f
      else warn_with ''promotion requires disable path evidence'' (escalate ''approval_required'' f)) (hasDisablePathEvidence n)"
    "gate (\<lambda>f. if \<not> ?auto \<or> \<not> ?conf
        then (if ?auto \<and> \<not> ?conf then escalate ''config_required'' f else escalate ''approval_required'' f)
        else f) (?auto \<and> ?conf)"
    by (rule gateI; simp)+
  from gate_comp [OF gate_comp [OF this(1,2)] this(3)] have "gate pre (promotion_clears cfg n)"
    by (simp only: pre_def [abs_def] promotion_clears_def Let_def conj_assoc)
  then have pre: "fi_status (pre f) \<in> set open_statuses"
    "fi_status (pre f) = ''allowed'' \<longleftrightarrow> fi_status f = ''allowed'' \<and> promotion_clears cfg n"
    using assms(2) by (auto simp: gate_def)
  have "promotion_gate cfg n f = (if fi_status (pre f) = ''allowed'' then (pre f)\<lparr>fi_status := ''staged''\<rparr> else pre f)"
    using assms(1) by (simp only: promotion_gate_def pre_def Let_def refl not_True_eq_False if_False)
  then have s: "fi_status (promotion_gate cfg n f) =
      (if fi_status (pre f) = ''allowed'' then ''staged'' else fi_status (pre f))" by simp
  have "''staged'' \<notin> set open_statuses" by (simp add: open_statuses_def)
  then show "fi_status (promotion_gate cfg n f) = ''staged'' \<longleftrightarrow> fi_status f = ''allowed'' \<and> promotion_clears cfg n"
    "fi_status (promotion_gate cfg n f) \<in> insert ''staged'' (set open_statuses) - {''allowed''}"
    unfolding s using pre by auto
qed

section \<open>Evaluation\<close>

lemma skill_result_status [simp]:
  "kr_Status (SkillResult_Normalized H r) = sk_NormalizeStatus (kr_Status r)"
  "kr_Decision (SkillResult_Normalized H r) = NormalizeDecision (kr_Decision r)"
  by (simp_all add: SkillResult_Normalized_def Let_def)

lemma NormalizeOperation_idem [simp]: "NormalizeOperation (NormalizeOperation op) = NormalizeOperation op"
proof -
  have "NormalizeOperation ''unknown'' = ''unknown''" "clean_words sk_operations" by code_simp+
  then show ?thesis
    using one_of_range [of sk_operations "''unknown''" op] by (auto simp: NormalizeOperation_def one_of_member)
qed

lemma Operation_Validate_None: "Operation_Validate H op = None \<longleftrightarrow> NormalizeOperation op \<noteq> ''unknown''"
  by (simp add: Operation_Validate_def)

text \<open>A candidate with an identity: a name or a source, once normalised.\<close>

definition valid_candidate :: "Codec \<Rightarrow> SkillRequest \<Rightarrow> bool" where
  "valid_candidate H req \<longleftrightarrow> SkillCandidate_Validate H (SkillCandidate_Normalized H (kq_Candidate req)) = None"

definition final_findings :: "Codec \<Rightarrow> instant \<Rightarrow> SkillRequest \<Rightarrow> findings" where
  "final_findings H now n =
     (let cfg = PConfig_Normalized (kq_Config n); c = mapCapability (kq_Operation n);
          a = EvaluateCapability H cfg c
      in promotion_gate cfg n (evidence_gates H now (pc_Evidence cfg) a n (first_findings H c a n)))"

lemma Evaluate_status:
  assumes "n = SkillRequest_Normalized H now req" and "NormalizeOperation (kq_Operation req) = op" and "op \<noteq> ''unknown''"
  shows "kr_Status (Skill_Evaluate H now req) =
    (if \<not> valid_candidate H req then ''invalid''
     else if custom_unmarked (kq_Config req) then ''config_required''
     else sk_NormalizeStatus (close_status op (fi_status (final_findings H now n))))"
proof -
  have op: "kq_Operation n = op" and cand: "kq_Candidate n = SkillCandidate_Normalized H (kq_Candidate req)"
    and cfg: "kq_Config n = PConfig_Normalized (kq_Config req)"
    using assms(1,2) by (simp_all add: SkillRequest_Normalized_def)
  have valid: "Operation_Validate H op = None" using assms by (auto simp: Operation_Validate_None)
  have custom: "NormalizeProfile (pc_Profile (PConfig_Normalized (kq_Config n))) = ''custom'' \<and>
      \<not> pc_CustomProfileConfigured (PConfig_Normalized (kq_Config n)) \<longleftrightarrow> custom_unmarked (kq_Config req)"
    unfolding custom_unmarked_def [symmetric] cfg by simp
  show ?thesis
    unfolding Skill_Evaluate_def Let_def assms(1) [symmetric] op valid cand valid_candidate_def [symmetric]
      evaluate_normalized_def custom final_findings_def
    by (simp add: sk_invalidResult_def Let_def seed_result_def op)
qed

end
