(* ===== verification/SkillProps.thy ===== *)
theory SkillProps
  imports SkillGates
begin

text \<open>What the skill runtime decides of a request, and what its store keeps.\<close>

section \<open>Verdicts\<close>

text \<open>Operations and the capability that each needs.\<close>

lemma skill_rules:
  "skill_rule ''skill_stage'' ((rule_of ''selfmod_authority'' ''medium'' [])\<lparr>cr_needsSelfmod := True\<rparr>)"
  "skill_rule ''skill_promote'' ((rule_of ''promotion_authority'' ''sensitive'' ''selfmod_promotion'')
     \<lparr>cr_needsSelfmod := True, cr_needsPromo := True, cr_irreversible := True\<rparr>)"
proof -
  have "NormalizeCapability ''skill_stage'' = ''skill_stage''" "NormalizeCapability ''skill_promote'' = ''skill_promote''"
    by code_simp+
  then show "skill_rule ''skill_stage'' ((rule_of ''selfmod_authority'' ''medium'' [])\<lparr>cr_needsSelfmod := True\<rparr>)"
    "skill_rule ''skill_promote'' ((rule_of ''promotion_authority'' ''sensitive'' ''selfmod_promotion'')
     \<lparr>cr_needsSelfmod := True, cr_needsPromo := True, cr_irreversible := True\<rparr>)"
    by (simp_all add: skill_rule_def capabilityRules_def)
qed

text \<open>The mode of the surface that an operation on skills is under.\<close>

definition skill_mode :: "PConfig \<Rightarrow> string \<Rightarrow> string" where
  "skill_mode cfg op =
     NormalizeAuthorityMode (if op = ''promote'' then au_Promotion (pc_Authority cfg) else au_Selfmod (pc_Authority cfg))"

lemma surface_modes:
  "NormalizeAuthorityMode (SurfaceMode (pc_Authority cfg) ''selfmod_authority'') = NormalizeAuthorityMode (au_Selfmod (pc_Authority cfg))"
  "NormalizeAuthorityMode (SurfaceMode (pc_Authority cfg) ''promotion_authority'') = NormalizeAuthorityMode (au_Promotion (pc_Authority cfg))"
  by (simp_all add: SurfaceMode_def)

lemma stage_capability:
  assumes "m = NormalizeAuthorityMode (au_Selfmod (pc_Authority cfg))" and "conf \<longleftrightarrow> configured cfg ''skill_stage''"
  shows "statusFromAssessment H (EvaluateCapability H (PConfig_Normalized cfg) ''skill_stage'') = ''allowed''"
    "as_PolicyState (EvaluateCapability H (PConfig_Normalized cfg) ''skill_stage'') = ''policy_not_configured'' \<longleftrightarrow>
      m = ''allow_configured'' \<and> \<not> conf"
    "isPolicyAuthoritative (as_PolicyState (EvaluateCapability H (PConfig_Normalized cfg) ''skill_stage'')) \<longleftrightarrow>
      m = ''allow'' \<or> m = ''allow_configured'' \<and> conf \<or> m = ''audit_only''"
  using skill_capability_status [OF skill_rules(1) refl refl, of H cfg]
    skill_policy_state [OF skill_rules(1) refl, of H cfg]
  unfolding assms by (simp_all add: rule_of_def surface_modes)

lemma promote_capability:
  assumes "m = NormalizeAuthorityMode (au_Promotion (pc_Authority cfg))" and "conf \<longleftrightarrow> configured cfg ''skill_promote''"
  shows "statusFromAssessment H (EvaluateCapability H (PConfig_Normalized cfg) ''skill_promote'') =
      (if m = ''unknown'' then ''denied'' else if m = ''allow'' \<or> m = ''allow_configured'' \<and> conf then ''allowed''
       else ''approval_required'')"
    "as_PolicyState (EvaluateCapability H (PConfig_Normalized cfg) ''skill_promote'') = ''policy_not_configured'' \<longleftrightarrow>
      m = ''allow_configured'' \<and> \<not> conf"
    "isPolicyAuthoritative (as_PolicyState (EvaluateCapability H (PConfig_Normalized cfg) ''skill_promote'')) \<longleftrightarrow>
      m = ''allow'' \<or> m = ''allow_configured'' \<and> conf \<or> m = ''audit_only''"
  using skill_capability_status [OF skill_rules(2) refl refl, of H cfg]
    skill_policy_state [OF skill_rules(2) refl, of H cfg]
  unfolding assms by (simp_all add: rule_of_def surface_modes)

lemma first_status:
  assumes "statusFromAssessment H a \<in> set open_statuses"
  shows "fi_status (first_findings H c a n) \<in> set open_statuses"
    "fi_status (first_findings H c a n) = ''allowed'' \<longleftrightarrow>
       statusFromAssessment H a = ''allowed'' \<and> as_PolicyState a \<noteq> ''policy_not_configured''"
  using escalate_open [OF assms, of "''config_required''"] assms
  by (simp_all add: first_findings_def Let_def)

lemma normalized_request:
  assumes "n = SkillRequest_Normalized H now req"
  shows "evidence_clears e n = evidence_clears e req" "kq_Operation n = NormalizeOperation (kq_Operation req)"
    "kq_Config n = PConfig_Normalized (kq_Config req)"
  by (auto simp: assms SkillRequest_Normalized_def evidence_clears_def harness_clears_def replay_clears_def
      lock_clears_def normalized_replay_def normalized_check_def split: option.split)

lemma config_again:
  "NormalizeAuthorityMode (au_Selfmod (pc_Authority (PConfig_Normalized cfg))) = NormalizeAuthorityMode (au_Selfmod (pc_Authority cfg))"
  "NormalizeAuthorityMode (au_Promotion (pc_Authority (PConfig_Normalized cfg))) = NormalizeAuthorityMode (au_Promotion (pc_Authority cfg))"
  "NormalizeAutomationMode (am_AutoPromotion (pc_Automation (PConfig_Normalized cfg))) =
     NormalizeAutomationMode (am_AutoPromotion (pc_Automation cfg))"
  "pc_Evidence (PConfig_Normalized cfg) = pc_Evidence cfg"
proof -
  have "NormalizeAutomationMode ''unknown'' = ''unknown''" "clean_words automation_modes" by code_simp+
  then have "NormalizeAutomationMode (NormalizeAutomationMode x) = NormalizeAutomationMode x" for x
    using one_of_range [of automation_modes "''unknown''" x] by (auto simp: NormalizeAutomationMode_def one_of_member)
  then show "NormalizeAutomationMode (am_AutoPromotion (pc_Automation (PConfig_Normalized cfg))) =
     NormalizeAutomationMode (am_AutoPromotion (pc_Automation cfg))"
    by (simp add: PConfig_Normalized_def AutomationConfig_Normalized_def Let_def)
qed (simp_all add: PConfig_Normalized_def AuthorityConfig_Normalized_def Let_def)

lemma stage_final:
  assumes "n = SkillRequest_Normalized H now req" and "NormalizeOperation (kq_Operation req) = op"
    and "op = ''validate'' \<or> op = ''stage''"
    and "m = NormalizeAuthorityMode (au_Selfmod (pc_Authority (kq_Config req)))"
  shows "fi_status (final_findings H now n) \<in> set open_statuses"
    "fi_status (final_findings H now n) = ''allowed'' \<longleftrightarrow>
      (m = ''allow'' \<or> m = ''allow_configured'' \<and> configured (kq_Config req) ''skill_stage'' \<or> m = ''audit_only'') \<and>
      evidence_clears (pc_Evidence (kq_Config req)) req"
proof -
  let ?cfg = "PConfig_Normalized (PConfig_Normalized (kq_Config req))"
  let ?a = "EvaluateCapability H ?cfg ''skill_stage''"
  have op: "kq_Operation n = op" and cfg: "kq_Config n = PConfig_Normalized (kq_Config req)"
    by (simp_all only: normalized_request(2,3) [OF assms(1)] assms(2))
  have cap: "mapCapability op = ''skill_stage''" and needs: "needsEvidenceGates (kq_Operation n)"
    and no_promotion: "kq_Operation n \<noteq> ''promote''"
    unfolding op using assms(3) by (elim disjE; simp add: mapCapability_def needsEvidenceGates_def)+
  note a = stage_capability [OF refl refl, of H "PConfig_Normalized (kq_Config req)",
      unfolded config_again configured_Normalized assms(4) [symmetric]]
  have "statusFromAssessment H ?a \<in> set open_statuses" by (simp add: a(1) open_statuses_def)
  note first = first_status [OF this, of "''skill_stage''" n]
  have final: "final_findings H now n =
      evidence_gates H now (pc_Evidence (kq_Config req)) ?a n (first_findings H ''skill_stage'' ?a n)"
    unfolding final_findings_def Let_def cfg op cap config_again promotion_gate_def
    using no_promotion op by simp
  have g: "gate (evidence_gates H now (pc_Evidence (kq_Config req)) ?a n)
      (isPolicyAuthoritative (as_PolicyState ?a) \<and> evidence_clears (pc_Evidence (kq_Config req)) req)"
    using evidence_gates [OF needs, of H now "pc_Evidence (kq_Config req)" ?a] by (simp only: normalized_request(1) [OF assms(1)])
  note g' = g [unfolded gate_def, rule_format, OF first(1)]
  show "fi_status (final_findings H now n) \<in> set open_statuses" unfolding final using g' by simp
  show "fi_status (final_findings H now n) = ''allowed'' \<longleftrightarrow>
      (m = ''allow'' \<or> m = ''allow_configured'' \<and> configured (kq_Config req) ''skill_stage'' \<or> m = ''audit_only'') \<and>
      evidence_clears (pc_Evidence (kq_Config req)) req"
    unfolding final conjunct2 [OF g'] first(2) a
    by (cases "m = ''allow''"; cases "m = ''audit_only''"; cases "configured (kq_Config req) ''skill_stage''") simp_all
qed

lemma promote_final:
  assumes "n = SkillRequest_Normalized H now req" and "NormalizeOperation (kq_Operation req) = ''promote''"
    and "m = NormalizeAuthorityMode (au_Promotion (pc_Authority (kq_Config req)))"
  shows "fi_status (final_findings H now n) \<in> insert ''staged'' (set open_statuses) - {''allowed''}"
    "fi_status (final_findings H now n) = ''staged'' \<longleftrightarrow>
      (m = ''allow'' \<or> m = ''allow_configured'' \<and> configured (kq_Config req) ''skill_promote'') \<and>
      evidence_clears (pc_Evidence (kq_Config req)) req \<and>
      hasRollbackEvidence n \<and> hasDisablePathEvidence n \<and>
      NormalizeAutomationMode (am_AutoPromotion (pc_Automation (kq_Config req))) = ''allow_configured'' \<and>
      configured (kq_Config req) ''skill_promote''"
proof -
  let ?cfg = "PConfig_Normalized (PConfig_Normalized (kq_Config req))"
  let ?a = "EvaluateCapability H ?cfg ''skill_promote''"
  have op: "kq_Operation n = ''promote''" and cfg: "kq_Config n = PConfig_Normalized (kq_Config req)"
    by (simp_all only: normalized_request(2,3) [OF assms(1)] assms(2))
  have cap: "mapCapability ''promote'' = ''skill_promote''" and needs: "needsEvidenceGates (kq_Operation n)"
    using op by (simp_all add: mapCapability_def needsEvidenceGates_def)
  note a = promote_capability [OF refl refl, of H "PConfig_Normalized (kq_Config req)",
      unfolded config_again configured_Normalized assms(3) [symmetric]]
  have "statusFromAssessment H ?a \<in> set open_statuses" by (simp add: a(1) open_statuses_def)
  note first = first_status [OF this, of "''skill_promote''" n]
  have final: "final_findings H now n = promotion_gate ?cfg n
      (evidence_gates H now (pc_Evidence (kq_Config req)) ?a n (first_findings H ''skill_promote'' ?a n))"
    unfolding final_findings_def Let_def cfg op cap config_again by (rule refl)
  have g: "gate (evidence_gates H now (pc_Evidence (kq_Config req)) ?a n)
      (isPolicyAuthoritative (as_PolicyState ?a) \<and> evidence_clears (pc_Evidence (kq_Config req)) req)"
    using evidence_gates [OF needs, of H now "pc_Evidence (kq_Config req)" ?a] by (simp only: normalized_request(1) [OF assms(1)])
  note g' = g [unfolded gate_def, rule_format, OF first(1)]
  note p = promotion_gate [OF op conjunct1 [OF g'], of ?cfg]
  show "fi_status (final_findings H now n) \<in> insert ''staged'' (set open_statuses) - {''allowed''}"
    unfolding final by (rule p(2))
  have auto: "AllowsConfigured ?cfg ''skill_promote'' = configured (kq_Config req) ''skill_promote''"
    by (simp add: AllowsConfigured_iff)
  show "fi_status (final_findings H now n) = ''staged'' \<longleftrightarrow>
      (m = ''allow'' \<or> m = ''allow_configured'' \<and> configured (kq_Config req) ''skill_promote'') \<and>
      evidence_clears (pc_Evidence (kq_Config req)) req \<and>
      hasRollbackEvidence n \<and> hasDisablePathEvidence n \<and>
      NormalizeAutomationMode (am_AutoPromotion (pc_Automation (kq_Config req))) = ''allow_configured'' \<and>
      configured (kq_Config req) ''skill_promote''"
    unfolding final p(1) conjunct2 [OF g'] first(2) a promotion_clears_def auto config_again
    by (cases "m = ''unknown''"; cases "m = ''allow''"; cases "m = ''allow_configured''";
        cases "configured (kq_Config req) ''skill_promote''") simp_all
qed

lemma close_open:
  assumes "s \<in> set (''staged'' # open_statuses)"
  shows "sk_NormalizeStatus (close_status ''promote'' s) = s"
    and "s \<noteq> ''staged'' \<Longrightarrow> sk_NormalizeStatus (close_status ''validate'' s) = s"
    and "s \<noteq> ''staged'' \<Longrightarrow>
      sk_NormalizeStatus (close_status ''stage'' s) = (if s = ''allowed'' then ''staged'' else s)"
proof -
  have "\<forall>s \<in> set (''staged'' # open_statuses).
      sk_NormalizeStatus (close_status ''promote'' s) = s \<and>
      (s \<noteq> ''staged'' \<longrightarrow> sk_NormalizeStatus (close_status ''validate'' s) = s \<and>
         sk_NormalizeStatus (close_status ''stage'' s) = (if s = ''allowed'' then ''staged'' else s))"
    by (simp add: open_statuses_def close_status_def)
  note c = bspec [OF this assms]
  show "sk_NormalizeStatus (close_status ''promote'' s) = s" using c by (rule conjunct1)
  show "s \<noteq> ''staged'' \<Longrightarrow> sk_NormalizeStatus (close_status ''validate'' s) = s"
    "s \<noteq> ''staged'' \<Longrightarrow>
      sk_NormalizeStatus (close_status ''stage'' s) = (if s = ''allowed'' then ''staged'' else s)"
    using c by blast+
qed

lemma open_not_staged: "s \<in> set open_statuses \<Longrightarrow> s \<noteq> ''staged'' \<and> s \<in> set (''staged'' # open_statuses)"
proof -
  have "''staged'' \<notin> set open_statuses" by (simp add: open_statuses_def)
  then show "s \<in> set open_statuses \<Longrightarrow> s \<noteq> ''staged'' \<and> s \<in> set (''staged'' # open_statuses)" by auto
qed

text \<open>
  C5. The verdict on a change of a skill. A request to validate, stage or promote gets the best status
  there is for it (\<open>allowed\<close> for a validation, \<open>staged\<close> otherwise) exactly if the candidate has an
  identity, a custom profile is marked as such, the authority allows it (audit suffices, but not to
  promote), every check that the configuration requires is present and clears (a harness report that
  neither fails nor warns, a replay that passes or improves, a state lock check without conflict and
  without a paradox), and for a promotion there is evidence of a rollback and of a way to disable, and
  the configuration names promotion as automatic. Staging and promotion are never plainly allowed.
\<close>

theorem change_verdict:
  assumes "op = NormalizeOperation (kq_Operation req)" and "op \<in> {''validate'', ''stage'', ''promote''}"
    and "c = (if op = ''promote'' then ''skill_promote'' else ''skill_stage'')"
    and "m = NormalizeAuthorityMode (if op = ''promote'' then au_Promotion (pc_Authority (kq_Config req))
      else au_Selfmod (pc_Authority (kq_Config req)))"
    and "e = pc_Evidence (kq_Config req)"
  shows "(kr_Status (Skill_Evaluate H now req) = (if op = ''validate'' then ''allowed'' else ''staged'') \<longleftrightarrow>
      valid_candidate H req \<and> \<not> custom_unmarked (kq_Config req) \<and>
      (m = ''allow'' \<or> m = ''allow_configured'' \<and> configured (kq_Config req) c \<or> op \<noteq> ''promote'' \<and> m = ''audit_only'') \<and>
      (vc_HarnessReport e \<longrightarrow> harness_clears (kq_HarnessReport req)) \<and>
      (vc_ReplayNoRegression e \<longrightarrow> replay_clears (kq_ReplayResult req)) \<and>
      (vc_StateLockCheck e \<longrightarrow> lock_clears (kq_StateLockResult req)) \<and>
      (op = ''promote'' \<longrightarrow>
         hasRollbackEvidence (SkillRequest_Normalized H now req) \<and>
         hasDisablePathEvidence (SkillRequest_Normalized H now req) \<and>
         NormalizeAutomationMode (am_AutoPromotion (pc_Automation (kq_Config req))) = ''allow_configured'' \<and>
         configured (kq_Config req) ''skill_promote'')) \<and>
    (op \<noteq> ''validate'' \<longrightarrow> kr_Status (Skill_Evaluate H now req) \<noteq> ''allowed'')"
proof -
  note status = Evaluate_status [OF refl assms(1) [symmetric], of H now]
  consider "op = ''validate''" | "op = ''stage''" | "op = ''promote''" using assms(2) by blast
  then show ?thesis
  proof cases
    case 1
    note f = stage_final [OF refl assms(1) [symmetric] disjI1 [OF 1] refl, of H now]
    note f1 = open_not_staged [OF f(1)]
    show ?thesis
      using status f close_open(2) [OF conjunct2 [OF f1] conjunct1 [OF f1]] 1
      by (simp add: assms(3,4,5) evidence_clears_def)
  next
    case 2
    note f = stage_final [OF refl assms(1) [symmetric] disjI2 [OF 2] refl, of H now]
    note f1 = open_not_staged [OF f(1)]
    show ?thesis
      using status f close_open(3) [OF conjunct2 [OF f1] conjunct1 [OF f1]] conjunct1 [OF f1] 2
      by (simp add: assms(3,4,5) evidence_clears_def)
  next
    case 3
    note f = promote_final [OF refl assms(1) [symmetric, unfolded 3] refl, of H now]
    have "fi_status (final_findings H now (SkillRequest_Normalized H now req)) \<in> set (''staged'' # open_statuses)"
      using f(1) by simp
    then show ?thesis
      using status f close_open(1) 3
      by (simp add: assms(3,4,5) evidence_clears_def)
  qed
qed

section \<open>Authority over proposals\<close>

lemma decision_again:
  assumes "skill_rule c r"
  shows "as_Decision (EvaluateCapability H (PConfig_Normalized cfg) c) = as_Decision (EvaluateCapability H cfg c)"
proof -
  have rule: "map_of capabilityRules (NormalizeCapability c) = Some r"
    using assms by (simp add: skill_rule_def)
  have mode: "NormalizeAuthorityMode (SurfaceMode (pc_Authority (PConfig_Normalized cfg)) s) =
      NormalizeAuthorityMode (SurfaceMode (pc_Authority cfg) s)" for s
    by (simp only: PConfig_Normalized_fields SurfaceMode_Normalized NormalizeAuthorityMode_idem)
  have approval: "approvalRequired (PConfig_Normalized cfg) r x = approvalRequired cfg r x" for x
    by (simp add: approvalRequired_def)
  show ?thesis
    unfolding capability_decision [OF rule] mode approval configured_Normalized config_again by (rule refl)
qed

lemma NormalizeDecision_idem [simp]: "NormalizeDecision (NormalizeDecision d) = NormalizeDecision d"
proof -
  have "NormalizeDecision ''inconclusive'' = ''inconclusive''" by code_simp
  then show ?thesis
    using NormalizeDecision_member [of "NormalizeDecision d"] by (auto simp: NormalizeDecision_def Let_def)
qed

text \<open>
  C37. Proposing a skill is allowed whatever the authority over self-modification says. With a candidate
  that has an identity and a profile that is not an unmarked custom one, the status is \<open>allowed\<close>
  under every mode (denied, disabled, always prompting, and modes that are not known included), apart
  from \<open>allow_configured\<close> where the capability is not configured; and it stays so when the decision
  of the profile, which the result carries too, is to require approval.
\<close>

theorem proposal_ignores_authority:
  assumes "NormalizeOperation (kq_Operation req) = ''propose''" and "valid_candidate H req"
    and "\<not> custom_unmarked (kq_Config req)"
  shows "kr_Status (Skill_Evaluate H now req) =
      (if NormalizeAuthorityMode (au_Selfmod (pc_Authority (kq_Config req))) = ''allow_configured'' \<and>
          \<not> configured (kq_Config req) ''skill_stage'' then ''config_required'' else ''allowed'') \<and>
    kr_Decision (Skill_Evaluate H now req) =
      as_Decision (EvaluateCapability H (kq_Config req) ''skill_stage'')"
proof
  let ?n = "SkillRequest_Normalized H now req"
  have op: "kq_Operation ?n = ''propose''" and cfg: "kq_Config ?n = PConfig_Normalized (kq_Config req)"
    by (simp_all only: normalized_request(2,3) [OF refl] assms(1))
  show "kr_Status (Skill_Evaluate H now req) =
      (if NormalizeAuthorityMode (au_Selfmod (pc_Authority (kq_Config req))) = ''allow_configured'' \<and>
          \<not> configured (kq_Config req) ''skill_stage'' then ''config_required'' else ''allowed'')"
  proof -
    have known: "''propose'' \<noteq> ''unknown''" by simp
    have final: "fi_status (final_findings H now ?n) =
        (if NormalizeAuthorityMode (au_Selfmod (pc_Authority (kq_Config req))) = ''allow_configured'' \<and>
          \<not> configured (kq_Config req) ''skill_stage'' then ''config_required'' else ''allowed'')"
      unfolding final_findings_def Let_def op cfg promotion_gate_def evidence_gates_def first_findings_def
      using stage_capability [OF refl refl, of H "PConfig_Normalized (kq_Config req)",
        unfolded config_again configured_Normalized]
      by (simp add: needsEvidenceGates_def mapCapability_def escalateStatus_def status_rank_def)
    show ?thesis
      using assms(2,3) unfolding Evaluate_status [OF refl assms(1) known] final
      by (simp add: close_status_def)
  qed
  show "kr_Decision (Skill_Evaluate H now req) = as_Decision (EvaluateCapability H (kq_Config req) ''skill_stage'')"
  proof -
    have valid: "Operation_Validate H ''propose'' = None"
      unfolding Operation_Validate_None by code_simp
    have custom: "\<not> (NormalizeProfile (pc_Profile (PConfig_Normalized (kq_Config ?n))) = ''custom'' \<and>
        \<not> pc_CustomProfileConfigured (PConfig_Normalized (kq_Config ?n)))"
      using assms(3) unfolding custom_unmarked_def [symmetric] cfg by simp
    have cand: "SkillCandidate_Validate H (kq_Candidate ?n) = None"
      using assms(2) by (simp add: valid_candidate_def SkillRequest_Normalized_def)
    have cap: "mapCapability ''propose'' = ''skill_stage''" by (simp add: mapCapability_def)
    have d: "as_Decision (EvaluateCapability H (PConfig_Normalized (PConfig_Normalized (kq_Config req))) ''skill_stage'') =
        as_Decision (EvaluateCapability H (kq_Config req) ''skill_stage'')"
      by (simp only: decision_again [OF skill_rules(1)])
    have words: "NormalizeDecision (as_Decision (EvaluateCapability H (kq_Config req) ''skill_stage'')) =
        as_Decision (EvaluateCapability H (kq_Config req) ''skill_stage'')"
      by (simp add: EvaluateCapability_def Let_def split: option.split prod.split)
    show ?thesis
      unfolding Skill_Evaluate_def Let_def op valid cand evaluate_normalized_def if_not_P [OF custom]
      by (simp add: cap cfg d words op)
  qed
qed

section \<open>Disabled candidates\<close>

text \<open>A request whose candidate has its flag set or cleared.\<close>

definition marked :: "bool \<Rightarrow> SkillRequest \<Rightarrow> SkillRequest" where
  "marked b n = n\<lparr>kq_Candidate := (kq_Candidate n)\<lparr>kc_Disabled := b\<rparr>\<rparr>"

lemma request_marked: "marked b req = req\<lparr>kq_Candidate := (kq_Candidate req)\<lparr>kc_Disabled := b\<rparr>\<rparr>"
  by (simp add: marked_def)

lemma marked_fields [simp]:
  "kq_Operation (marked b n) = kq_Operation n" "kq_Config (marked b n) = kq_Config n"
  "kq_ReplayResult (marked b n) = kq_ReplayResult n" "kq_HarnessReport (marked b n) = kq_HarnessReport n"
  "kq_StateLockResult (marked b n) = kq_StateLockResult n" "kq_EvidenceRefs (marked b n) = kq_EvidenceRefs n"
  "kq_Metadata (marked b n) = kq_Metadata n"
  "kc_ID (kq_Candidate (marked b n)) = kc_ID (kq_Candidate n)"
  "kc_ArtifactRefs (kq_Candidate (marked b n)) = kc_ArtifactRefs (kq_Candidate n)"
  "kc_EvidenceRefs (kq_Candidate (marked b n)) = kc_EvidenceRefs (kq_Candidate n)"
  "kc_Metadata (kq_Candidate (marked b n)) = kc_Metadata (kq_Candidate n)"
  by (simp_all add: marked_def)

lemma candidate_flag [simp]:
  "SkillCandidate_Normalized H (c\<lparr>kc_Disabled := b\<rparr>) = (SkillCandidate_Normalized H c)\<lparr>kc_Disabled := b\<rparr>"
  "SkillCandidate_Validate H (c\<lparr>kc_Disabled := b\<rparr>) = SkillCandidate_Validate H c"
proof -
  show n: "SkillCandidate_Normalized H (c\<lparr>kc_Disabled := b\<rparr>) = (SkillCandidate_Normalized H c)\<lparr>kc_Disabled := b\<rparr>" for c
    by (simp add: SkillCandidate_Normalized_def candidate_id_def Let_def)
  show "SkillCandidate_Validate H (c\<lparr>kc_Disabled := b\<rparr>) = SkillCandidate_Validate H c"
    by (simp add: SkillCandidate_Validate_def n Let_def)
qed

lemma marked_Normalized: "SkillRequest_Normalized H now (marked b req) = marked b (SkillRequest_Normalized H now req)"
  by (simp add: SkillRequest_Normalized_def marked_def)

lemma marked_steps [simp]:
  "seed_result (marked b n) = seed_result n"
  "buildReceipt H r (marked b n) rs = buildReceipt H r n rs"
  "hasRollbackEvidence (marked b n) = hasRollbackEvidence n"
  "hasDisablePathEvidence (marked b n) = hasDisablePathEvidence n"
  by (simp_all add: seed_result_def buildReceipt_def hasRollbackEvidence_def hasDisablePathEvidence_def)

lemma marked_gates [simp]:
  "first_findings H c a (marked b n) = first_findings H c a n"
  "evidence_gates H now e a (marked b n) f = evidence_gates H now e a n f"
  "promotion_gate cfg (marked b n) f = promotion_gate cfg n f"
  "sk_invalidResult H r (marked b n) msg = sk_invalidResult H r n msg"
  by (simp_all only: first_findings_def evidence_gates_def promotion_gate_def sk_invalidResult_def marked_fields marked_steps)

lemma marked_Evaluate: "Skill_Evaluate H now (marked b req) = Skill_Evaluate H now req"
proof -
  have "evaluate_normalized H now (marked b n) = evaluate_normalized H now n" for n
    by (simp only: evaluate_normalized_def marked_fields marked_steps marked_gates)
  moreover have "SkillCandidate_Validate H (kq_Candidate (marked b n)) = SkillCandidate_Validate H (kq_Candidate n)" for n
    by (simp add: marked_def)
  ultimately show ?thesis
    by (simp only: Skill_Evaluate_def marked_Normalized marked_fields marked_steps marked_gates Let_def)
qed

text \<open>Two stores that differ in the flags of candidates and in the results only.\<close>

definition same_candidates :: "SkillMemory \<Rightarrow> SkillMemory \<Rightarrow> bool" where
  "same_candidates s t \<longleftrightarrow>
     (\<forall>k. map_of (km_candidates t) k = map_of (km_candidates s) k \<or>
        (\<exists>c b. map_of (km_candidates s) k = Some c \<and> map_of (km_candidates t) k = Some (c\<lparr>kc_Disabled := b\<rparr>)))"

lemma same_candidates_simps [simp]:
  "same_candidates s s" "same_candidates s (s\<lparr>km_results := rs\<rparr>)"
  by (simp_all add: same_candidates_def)

lemma DisableCandidate_same:
  "snd (DisableCandidate H cid (Some s)) = Some t \<Longrightarrow> same_candidates s t"
  by (auto simp: DisableCandidate_def same_candidates_def Let_def update_conv' split: if_splits option.splits)

lemma SaveSkillResult_present [simp]:
  "fst (SaveSkillResult H r (Some s)) = SkillResult_Validate H (SkillResult_Normalized H r)"
  "\<exists>rs. snd (SaveSkillResult H r (Some s)) = Some (s\<lparr>km_results := rs\<rparr>)"
proof -
  show "fst (SaveSkillResult H r (Some s)) = SkillResult_Validate H (SkillResult_Normalized H r)"
    by (simp add: SaveSkillResult_def Let_def split: option.split)
  have "s = s\<lparr>km_results := km_results s\<rparr>" by simp
  then have "\<exists>rs. s = s\<lparr>km_results := rs\<rparr>" by blast
  then show "\<exists>rs. snd (SaveSkillResult H r (Some s)) = Some (s\<lparr>km_results := rs\<rparr>)"
    by (cases "SkillResult_Validate H (SkillResult_Normalized H r)") (auto simp: SaveSkillResult_def Let_def)
qed

lemma prepare_same:
  assumes "same_candidates s t"
  shows "\<exists>p q s' t'. prepare H op n (Some (Some s)) = (p, Some (Some s')) \<and>
    prepare H op n (Some (Some t)) = (q, Some (Some t')) \<and>
    (q = p \<or> (\<exists>n' b. p = Inr n' \<and> q = Inr (marked b n')))"
proof -
  consider "op = ''retrieve''" | "op = ''propose'' \<or> op = ''stage''" | "op = ''disable''"
    | "op \<noteq> ''retrieve''" "op \<noteq> ''propose''" "op \<noteq> ''stage''" "op \<noteq> ''disable''" by blast
  then show ?thesis
  proof cases
    case 1
    show ?thesis
    proof (cases "kc_ID (kq_Candidate n) = []")
      case False
      note k = assms [unfolded same_candidates_def, rule_format, of "boundID (kc_ID (kq_Candidate n))"]
      show ?thesis
      proof (cases "map_of (km_candidates t) (boundID (kc_ID (kq_Candidate n))) =
          map_of (km_candidates s) (boundID (kc_ID (kq_Candidate n)))")
        case True
        then show ?thesis
          using False by (simp add: prepare_def 1 LoadCandidate_def Let_def split: option.split)
      next
        case unequal: False
        then obtain c b where "map_of (km_candidates s) (boundID (kc_ID (kq_Candidate n))) = Some c"
          "map_of (km_candidates t) (boundID (kc_ID (kq_Candidate n))) = Some (c\<lparr>kc_Disabled := b\<rparr>)"
          using k by blast
        then show ?thesis
          using False by (auto simp: prepare_def 1 LoadCandidate_def Let_def marked_def)
      qed
    qed (simp add: prepare_def 1)
  next
    case 2
    then have "op \<noteq> ''retrieve''" by auto
    then show ?thesis
      using 2 by (cases "SkillCandidate_Validate H (SkillCandidate_Normalized H (kq_Candidate n))")
        (simp_all add: prepare_def SaveCandidate_def Let_def)
  next
    case 3
    note k = assms [unfolded same_candidates_def, rule_format, of "TrimSpace (kc_ID (kq_Candidate n))"]
    have "map_of (km_candidates t) (TrimSpace (kc_ID (kq_Candidate n))) = None \<longleftrightarrow>
        map_of (km_candidates s) (TrimSpace (kc_ID (kq_Candidate n))) = None" using k by auto
    then show ?thesis
      by (auto simp: prepare_def 3 DisableCandidate_def is_not_found_def Let_def split: option.split)
  qed (simp add: prepare_def)
qed

text \<open>The result that \<open>run\<close> saves, and what it returns after that.\<close>

definition final_result :: "Codec \<Rightarrow> instant \<Rightarrow> string \<Rightarrow> SkillRequest \<Rightarrow> SkillResult" where
  "final_result H now op n =
     (let result = Skill_Evaluate H now n
      in if op = ''disable''
         then SkillResult_Normalized H (result
           \<lparr>kr_Status := ''disabled'',
            kr_Decision := (if kr_Decision result = ''inconclusive'' then ''audit_only'' else kr_Decision result)\<rparr>)
         else result)"

lemma run_prepared:
  assumes "Operation_Validate H op = None"
    and "prepare H op ((SkillRequest_Normalized H now req)\<lparr>kq_Operation := op\<rparr>) (Some (Some s)) = (p, Some (Some s'))"
  shows "fst (sk_run H now None op req (Some (Some s))) =
      (case p of Inl err \<Rightarrow> Inl err
       | Inr n \<Rightarrow> (case SkillResult_Validate H (SkillResult_Normalized H (final_result H now op n)) of
           Some err \<Rightarrow> Inl err | None \<Rightarrow> Inr (final_result H now op n)))"
    "\<exists>rs. snd (sk_run H now None op req (Some (Some s))) = Some (Some (s'\<lparr>km_results := rs\<rparr>))"
proof -
  have run: "sk_run H now None op req (Some (Some s)) =
      (case p of Inl err \<Rightarrow> (Inl err, Some (Some s'))
       | Inr n \<Rightarrow> (case SaveSkillResult H (final_result H now op n) (Some s') of
           (Some err, st) \<Rightarrow> (Inl err, Some st) | (None, st) \<Rightarrow> (Inr (final_result H now op n), Some st)))"
    unfolding sk_run_def option.case Let_def assms prod.case final_result_def
    by (cases p) simp_all
  show "fst (sk_run H now None op req (Some (Some s))) =
      (case p of Inl err \<Rightarrow> Inl err
       | Inr n \<Rightarrow> (case SkillResult_Validate H (SkillResult_Normalized H (final_result H now op n)) of
           Some err \<Rightarrow> Inl err | None \<Rightarrow> Inr (final_result H now op n)))"
  proof (cases p)
    case (Inr n)
    show ?thesis
      using SaveSkillResult_present(1) [of H "final_result H now op n" s'] unfolding run Inr
      by (cases "SaveSkillResult H (final_result H now op n) (Some s')") (auto split: option.split)
  qed (simp add: run)
  have keep: "\<exists>rs. s' = s'\<lparr>km_results := rs\<rparr>" by (rule exI [of _ "km_results s'"]) simp
  show "\<exists>rs. snd (sk_run H now None op req (Some (Some s))) = Some (Some (s'\<lparr>km_results := rs\<rparr>))"
  proof (cases p)
    case (Inr n)
    show ?thesis
      using SaveSkillResult_present(2) [of H "final_result H now op n" s'] unfolding run Inr
      by (cases "SaveSkillResult H (final_result H now op n) (Some s')") (auto split: option.split)
  qed (simp add: run keep)
qed

text \<open>An operation answers alike on both stores.\<close>

lemma final_result_marked [simp]: "final_result H now op (marked b n) = final_result H now op n"
  by (simp only: final_result_def marked_Evaluate)

lemma run_same:
  assumes "same_candidates s t"
  shows "fst (sk_run H now ctxErr op req (Some (Some t))) = fst (sk_run H now ctxErr op req (Some (Some s)))"
proof (cases "ctxErr = None \<and> Operation_Validate H op = None")
  case True
  then have c: "ctxErr = None" "Operation_Validate H op = None" by simp_all
  obtain p q s' t' where pq: "prepare H op ((SkillRequest_Normalized H now req)\<lparr>kq_Operation := op\<rparr>) (Some (Some s)) = (p, Some (Some s'))"
    "prepare H op ((SkillRequest_Normalized H now req)\<lparr>kq_Operation := op\<rparr>) (Some (Some t)) = (q, Some (Some t'))"
    "q = p \<or> (\<exists>n' b. p = Inr n' \<and> q = Inr (marked b n'))"
    using prepare_same [OF assms] by meson
  show ?thesis
    using pq(3) unfolding c(1) run_prepared(1) [OF c(2) pq(1)] run_prepared(1) [OF c(2) pq(2)]
    by (elim disjE exE conjE) (simp_all only: sum.case final_result_marked)
next
  case False
  then show ?thesis by (auto simp: sk_run_def Let_def split: option.split)
qed

lemma Disable_same:
  "\<exists>t. snd (sk_run H now ctxErr ''disable'' req (Some (Some s))) = Some (Some t) \<and> same_candidates s t"
proof (cases ctxErr)
  case None
  have valid: "Operation_Validate H ''disable'' = None" unfolding Operation_Validate_None by code_simp
  let ?n = "(SkillRequest_Normalized H now req)\<lparr>kq_Operation := ''disable''\<rparr>"
  obtain p s' where p: "prepare H ''disable'' ?n (Some (Some s)) = (p, Some (Some s'))" and s': "same_candidates s s'"
  proof (cases "kc_ID (kq_Candidate ?n) = []")
    case False
    have "\<exists>e t. DisableCandidate H (kc_ID (kq_Candidate ?n)) (Some s) = (e, Some t)"
      by (auto simp: DisableCandidate_def Let_def split: option.split)
    then obtain e t where d: "DisableCandidate H (kc_ID (kq_Candidate ?n)) (Some s) = (e, Some t)" by blast
    then have "same_candidates s t" using DisableCandidate_same [of H "kc_ID (kq_Candidate ?n)" s t] by simp
    moreover have "\<exists>p. prepare H ''disable'' ?n (Some (Some s)) = (p, Some (Some t))"
      using False d by (cases e) (simp_all add: prepare_def)
    ultimately show thesis using that by blast
  qed (use that [of _ s] in \<open>simp add: prepare_def\<close>)
  from run_prepared(2) [OF valid p] obtain rs where
    "snd (sk_run H now ctxErr ''disable'' req (Some (Some s))) = Some (Some (s'\<lparr>km_results := rs\<rparr>))"
    unfolding None by blast
  moreover have "same_candidates s (s'\<lparr>km_results := rs\<rparr>)" using s' by (simp add: same_candidates_def)
  ultimately show ?thesis by blast
qed (simp add: sk_run_def)

text \<open>
  Disabling a candidate has no effect on what the facade answers later: every operation on every
  request, the retrieval of the disabled candidate included, returns after \<open>Disable\<close> what it would
  have returned without it.
\<close>

theorem disabling_has_no_effect:
  "fst (Facade_Run H later ctxErr req2 (snd (Disable H now ctxErr2 req store))) = fst (Facade_Run H later ctxErr req2 store)"
proof -
  have run: "fst (sk_run H later ctxErr op req2 (snd (Disable H now ctxErr2 req store))) = fst (sk_run H later ctxErr op req2 store)" for op
  proof (cases store)
    case None
    then show ?thesis
      by (simp add: Disable_def sk_run_def prepare_def Let_def split: option.split)
  next
    case (Some st)
    show ?thesis
    proof (cases st)
      case None
      then show ?thesis
        by (auto simp: Some Disable_def sk_run_def prepare_def DisableCandidate_def SaveSkillResult_def Let_def
            store_unavailable_def is_not_found_def split: option.split)
    next
      case (Some s)
      then show ?thesis
        using Disable_same [of H now ctxErr2 req s] run_same \<open>store = Some st\<close> by (auto simp: Disable_def)
    qed
  qed
  show ?thesis
    by (simp add: Facade_Run_def Let_def Retrieve_def Propose_def Validate_def Stage_def Promote_def Disable_def
        run [unfolded Disable_def])
qed

section \<open>Candidates in the store\<close>

text \<open>A lookup cuts the identifier that it is given as a save does.\<close>

interpretation candidate_table: cleaned_store "\<lambda>c. present (SaveCandidate H c)" "\<lambda>k s. LoadCandidate H k (Some s)"
  "\<lambda>c. SkillCandidate_Validate H (SkillCandidate_Normalized H c)" "\<lambda>c. kc_ID (SkillCandidate_Normalized H c)"
  "SkillCandidate_Normalized H" boundID for H
  by unfold_locales
    (auto simp: SaveCandidate_def LoadCandidate_def Let_def update_conv' present_def split: option.splits)

interpretation result_table: cleaned_store "\<lambda>r. present (SaveSkillResult H r)" "\<lambda>k s. LoadSkillResult H k (Some s)"
  "\<lambda>r. SkillResult_Validate H (SkillResult_Normalized H r)" "\<lambda>r. kr_ID (SkillResult_Normalized H r)"
  "SkillResult_Normalized H" boundID for H
  by unfold_locales
    (auto simp: SaveSkillResult_def LoadSkillResult_def Let_def update_conv' present_def split: option.splits)

text \<open>
  After any sequence of saves the candidate that is loaded is the last one accepted under the
  identifier, as it was normalised, and the one there was before if there is none.
\<close>

theorem last_candidate_is_loaded:
  "LoadCandidate H k (Some (fold (\<lambda>c s. snd (present (SaveCandidate H c) s)) cs s)) =
     (case find (\<lambda>c. SkillCandidate_Validate H (SkillCandidate_Normalized H c) = None \<and>
                    kc_ID (SkillCandidate_Normalized H c) = boundID k) (rev cs) of
        Some c \<Rightarrow> Inr (SkillCandidate_Normalized H c)
      | None \<Rightarrow> LoadCandidate H k (Some s))"
  by (rule candidate_table.get_after_puts [unfolded candidate_table.saved_def [abs_def]])

section \<open>Witnesses\<close>

definition sample_candidate :: SkillCandidate where
  "sample_candidate =
     \<lparr>kc_ID = ''adder'', kc_Name = ''adder'', kc_Version = ''1'', kc_Source = [], kc_Summary = [],
      kc_Risk = ''low'', kc_OperationClass = [], kc_Profile = ''lab'', kc_ArtifactRefs = [],
      kc_EvidenceRefs = [], kc_Metadata = [(''rollback_plan'', ''revert''), (''disable_path'', ''flag'')],
      kc_Disabled = False\<rparr>"

text \<open>Promotion is configured and automatic, self-modification is denied, and every check is required.\<close>

definition sample_config :: PConfig where
  "sample_config =
     \<lparr>pc_Profile = ''lab'', pc_Description = ''d'',
      pc_Authority = \<lparr>au_Tool = ''deny'', au_File = ''deny'', au_Network = ''deny'', au_PrivateNetwork = ''deny'',
        au_Shell = ''deny'', au_Selfmod = ''deny'', au_Promotion = ''allow_configured'', au_PlannerMutation = ''deny'',
        au_Release = ''deny'', au_HostBridge = ''deny'', au_WorkspaceEscape = ''deny'', au_VectorRetrieval = ''deny''\<rparr>,
      pc_Automation = \<lparr>am_AutoPromotion = ''allow_configured'', am_AutoRepair = ''disabled'',
        am_AutoRetry = ''disabled'', am_PlannerMutation = ''disabled'', am_MemoryWrite = ''disabled'',
        am_SkillWrite = ''disabled'', am_ToolInstall = ''disabled'', am_Release = ''disabled''\<rparr>,
      pc_Approval = \<lparr>ap_Sensitive = True, ap_PolicyAbsence = True, ap_Release = True, ap_Network = True,
        ap_PrivateNetwork = True, ap_Shell = True, ap_Selfmod = True, ap_Promotion = True,
        ap_IrreversibleMutat = True\<rparr>,
      pc_Evidence = \<lparr>vc_EvidenceReceipt = True, vc_TraceRef = True, vc_HarnessReport = True,
        vc_ReplayNoRegression = True, vc_StateLockCheck = True, vc_ParadoxCheck = True,
        vc_RollbackPlan = True, vc_DisablePath = True, vc_VectorCandidateOnly = True\<rparr>,
      pc_TraceMode = [], pc_HarnessMode = [], pc_StateLockMode = [], pc_ReplayMode = [],
      pc_CustomProfileConfigured = False, pc_ConfiguredCapabilities = [(''skill_promote'', True)],
      pc_Metadata = []\<rparr>"

definition sample_replay :: Result where
  "sample_replay =
     \<lparr>rr_CaseID = ''c'', rr_TrajectoryID = ''t'', rr_CandidateID = ''adder'', rr_BaselineOutcome = no_outcome,
      rr_CandidateOutcome = no_outcome, rr_Regressions = [], rr_Improvements = [],
      rr_Verdict = VerdictPass, rr_StartedAt = 1, rr_FinishedAt = 2, rr_Duration = 1\<rparr>"

definition sample_check :: CheckResult where
  "sample_check =
     \<lparr>ck_Status = ''allowed'', ck_Conflicts = [], ck_Paradox = None, ck_PolicyState = ''policy_matched'',
      ck_Risk = ''low'', ck_Recommendations = [], ck_Err = None\<rparr>"

definition sample_promotion :: "string \<Rightarrow> SkillRequest" where
  "sample_promotion op =
     \<lparr>kq_Operation = op, kq_Candidate = sample_candidate, kq_Config = sample_config, kq_DirectiveHash = [],
      kq_FailureHash = [], kq_ReplayResult = Some sample_replay,
      kq_HarnessReport = Some ((NewReport 1 ''h'' ''a'')\<lparr>hp_Status := ''pass''\<rparr>),
      kq_StateLockResult = Some sample_check, kq_EvidenceRefs = [], kq_Metadata = []\<rparr>"

lemma candidate_fields:
  "kc_ID (SkillCandidate_Normalized H c) \<noteq> []"
  "kc_Name (SkillCandidate_Normalized H c) = boundStringSingleLine (kc_Name c) 128"
  "kc_Metadata (SkillCandidate_Normalized H c) = sk_boundMetadata (kc_Metadata c) 16"
  by (simp_all add: SkillCandidate_Normalized_def candidate_id_def Let_def)

lemma sample_candidate_valid:
  "SkillCandidate_Validate H (SkillCandidate_Normalized H sample_candidate) = None"
proof -
  have "boundStringSingleLine ''adder'' 128 = ''adder''" by code_simp
  then show ?thesis
    by (simp add: SkillCandidate_Validate_def Let_def candidate_fields sample_candidate_def)
qed

lemma sample_facts:
  "NormalizeOperation ''promote'' = ''promote''" "NormalizeOperation ''propose'' = ''propose''"
  "\<not> custom_unmarked sample_config"
  "NormalizeAuthorityMode (au_Promotion (pc_Authority sample_config)) = ''allow_configured''"
  "NormalizeAuthorityMode (au_Selfmod (pc_Authority sample_config)) = ''deny''"
  "NormalizeAutomationMode (am_AutoPromotion (pc_Automation sample_config)) = ''allow_configured''"
  by code_simp+

lemma sample_configured: "configured sample_config ''skill_promote''"
  using skill_rules(2) by (simp add: configured_def sample_config_def skill_rule_def)

lemma sample_evidence:
  "harness_clears (Some ((NewReport 1 ''h'' ''a'')\<lparr>hp_Status := ''pass''\<rparr>))"
  "replay_clears (Some sample_replay)" "lock_clears (Some sample_check)"
  by code_simp+

lemma sample_metadata:
  "sk_boundMetadata (kc_Metadata sample_candidate) 16 = [(''disable_path'', ''flag''), (''rollback_plan'', ''revert'')]"
  by code_simp

lemma sample_keys:
  "hasMetadataKeys [(''disable_path'', ''flag''), (''rollback_plan'', ''revert'')]
     [''rollback'', ''rollback_path'', ''rollback_plan'', ''rollback_ref'']"
  "hasMetadataKeys [(''disable_path'', ''flag''), (''rollback_plan'', ''revert'')]
     [''disable'', ''disable_path'', ''disable_plan'', ''disable_ref'']"
  by code_simp+

lemma change_verdict_witness:
  "kr_Status (Skill_Evaluate sample_codec 5 (sample_promotion ''promote'')) = ''staged''"
proof -
  let ?req = "sample_promotion ''promote''"
  have r: "kq_Operation ?req = ''promote''" "kq_Candidate ?req = sample_candidate" "kq_Config ?req = sample_config"
    "kq_HarnessReport ?req = Some ((NewReport 1 ''h'' ''a'')\<lparr>hp_Status := ''pass''\<rparr>)"
    "kq_ReplayResult ?req = Some sample_replay" "kq_StateLockResult ?req = Some sample_check"
    by (simp_all add: sample_promotion_def)
  have op: "''promote'' = NormalizeOperation (kq_Operation ?req)" by (simp only: r sample_facts)
  have member: "''promote'' \<in> {''validate'', ''stage'', ''promote''}" by simp
  have meta: "hasRollbackEvidence (SkillRequest_Normalized sample_codec 5 ?req)"
    "hasDisablePathEvidence (SkillRequest_Normalized sample_codec 5 ?req)"
    using sample_keys
    by (simp_all add: sample_metadata candidate_fields hasRollbackEvidence_def hasDisablePathEvidence_def hasAnyMetadata_def SkillRequest_Normalized_def r)
  show ?thesis
    using change_verdict [OF op member refl refl refl, of sample_codec 5] meta sample_facts sample_evidence
      sample_candidate_valid sample_configured
    by (simp add: r valid_candidate_def)
qed

text \<open>Self-modification is denied: the decision is to require approval, the status \<open>allowed\<close>.\<close>

lemma proposal_ignores_authority_witness:
  "let r = Skill_Evaluate sample_codec 5 (sample_promotion ''propose'')
   in kr_Status r = ''allowed'' \<and> kr_Decision r = ''require_approval''"
proof -
  let ?req = "sample_promotion ''propose''"
  have cfg: "kq_Config ?req = sample_config" by (simp add: sample_promotion_def)
  have op: "NormalizeOperation (kq_Operation ?req) = ''propose''"
    using sample_facts(2) by (simp add: sample_promotion_def)
  have cand: "valid_candidate sample_codec ?req"
    using sample_candidate_valid by (simp add: valid_candidate_def sample_promotion_def)
  have custom: "\<not> custom_unmarked (kq_Config ?req)" unfolding cfg by (rule sample_facts(3))
  have rule: "map_of capabilityRules (NormalizeCapability ''skill_stage'') =
      Some ((rule_of ''selfmod_authority'' ''medium'' [])\<lparr>cr_needsSelfmod := True\<rparr>)"
    using skill_rules(1) by (simp add: skill_rule_def)
  have "as_Decision (EvaluateCapability sample_codec sample_config ''skill_stage'') = ''require_approval''"
    unfolding capability_decision [OF rule] Let_def
    by (simp add: rule_of_def approvalRequired_def sample_config_def)
  then show ?thesis
    using proposal_ignores_authority [OF op cand custom] sample_facts(5)
    by (simp add: Let_def cfg)
qed

end
