(* ===== verification/Schedule.thy ===== *)
theory Schedule
  imports GoFiles GoValues Trajectory
begin

text \<open>
  The task scheduler of \<open>pkg/scheduler\<close>: the task, the store with its JSON file, the polling loop, the
  dispatcher that runs a task and records its result, and the tools of \<open>pkg/tools/task_schedule.go\<close> that
  create, cancel, pause and resume tasks. The cron library is a parameter, and so are
  \<open>time.ParseDuration\<close>, the RFC 3339 parser and printer, \<open>strconv.Quote\<close> and the JSON encoding of the task table;
  \<open>time.Now\<close> is the sequence of its readings. What is logged is left out. The goroutine of \<open>Start\<close>
  polls one round after another, so a poll is one step; what else happens while a task runs is part of
  the effect of the run.
\<close>

section \<open>Data\<close>

definition ScheduleCron :: string where "ScheduleCron = ''cron''"
definition ScheduleInterval :: string where "ScheduleInterval = ''interval''"
definition ScheduleOnce :: string where "ScheduleOnce = ''once''"

definition ContextSession :: string where "ContextSession = ''session''"
definition ContextIsolated :: string where "ContextIsolated = ''isolated''"

definition TaskActive :: string where "TaskActive = ''active''"
definition TaskPaused :: string where "TaskPaused = ''paused''"
definition TaskCompleted :: string where "TaskCompleted = ''completed''"
definition TaskCancelled :: string where "TaskCancelled = ''cancelled''"

lemmas schedule_words =
  ScheduleCron_def ScheduleInterval_def ScheduleOnce_def TaskActive_def TaskPaused_def
  TaskCompleted_def TaskCancelled_def ContextSession_def ContextIsolated_def

record ScheduledTask =
  sk_ID :: string
  sk_Name :: string
  sk_Prompt :: string
  sk_ScheduleType :: string
  sk_ScheduleValue :: string
  sk_ContextMode :: string
  sk_Status :: string
  sk_CreatedAt :: instant
  sk_NextRun :: "instant option"
  sk_LastRun :: "instant option"
  sk_LastResult :: string
  sk_RunCount :: int
  sk_MaxRetries :: int
  sk_RetryCount :: int
  sk_LastError :: string
  sk_NotifyDiscordChan :: string
  sk_NotifyTelegramChat :: int
  sk_TimeoutSeconds :: int

type_synonym task_table = "(string \<times> ScheduledTask) list"

text \<open>
  What the code is given: the readings of the clock, the order in which an iteration over the map
  visits it (at the given number of readings), the parsers and printers, and the faults of the files.
\<close>

record SchedEnv =
  se_clock :: "nat \<Rightarrow> instant"
  se_order :: "nat \<Rightarrow> ScheduledTask list \<Rightarrow> ScheduledTask list"
  se_cron :: "string \<Rightarrow> string + (instant \<Rightarrow> instant)"
  se_ParseDuration :: "string \<Rightarrow> string + duration"
  se_ParseRFC3339 :: "string \<Rightarrow> string + instant"
  se_FormatRFC3339 :: "instant \<Rightarrow> string"
  se_Quote :: "string \<Rightarrow> string"
  se_Marshal :: "task_table \<Rightarrow> string + string"
  se_Unmarshal :: "string \<Rightarrow> string + task_table"
  se_faults :: faults

text \<open>
  The store, its file, the number of clock readings so far, the notifications sent, and the prompts that
  agents were given, each with its timeout.
\<close>

record SchedWorld =
  sw_path :: string
  sw_tasks :: task_table
  sw_fs :: FS
  sw_reads :: nat
  sw_sent :: "(string \<times> string) list"
  sw_prompts :: "(duration \<times> string) list"

definition time_Now :: "SchedEnv \<Rightarrow> SchedWorld \<Rightarrow> instant \<times> SchedWorld" where
  "time_Now E w = (se_clock E (sw_reads w), w\<lparr>sw_reads := Suc (sw_reads w)\<rparr>)"

section \<open>Store\<close>

definition Store_save :: "SchedEnv \<Rightarrow> SchedWorld \<Rightarrow> string option \<times> SchedWorld" where
  "Store_save E w =
     (case se_Marshal E (sw_tasks w) of
        Inl e \<Rightarrow> (Some (''marshal tasks: '' @ e), w)
      | Inr data \<Rightarrow>
          (case os_MkdirAll (se_faults E) (Dir (sw_path w)) (sw_fs w) of
             (Some e, fs) \<Rightarrow> (Some (''mkdir: '' @ e), w\<lparr>sw_fs := fs\<rparr>)
           | (None, fs) \<Rightarrow>
               (case os_WriteFile (se_faults E) (sw_path w) data fs of
                  (r, fs) \<Rightarrow> (r, w\<lparr>sw_fs := fs\<rparr>))))"

definition Store_load :: "SchedEnv \<Rightarrow> string \<Rightarrow> FS \<Rightarrow> task_table io" where
  "Store_load E path fs =
     (case os_ReadFile (se_faults E) path fs of
        IoNotExist \<Rightarrow> IoNotExist
      | IoErr e \<Rightarrow> IoErr e
      | IoOk data \<Rightarrow> (case se_Unmarshal E data of Inl e \<Rightarrow> IoErr e | Inr ts \<Rightarrow> IoOk ts))"

definition store_path :: "string \<Rightarrow> string" where
  "store_path configDir = Join_path [configDir, ''scheduled_tasks.json'']"

definition NewStore :: "SchedEnv \<Rightarrow> string \<Rightarrow> FS \<Rightarrow> string + task_table" where
  "NewStore E configDir fs =
     (case Store_load E (store_path configDir) fs of
        IoErr e \<Rightarrow> Inl (''scheduler store: load: '' @ e)
      | IoNotExist \<Rightarrow> Inr []
      | IoOk ts \<Rightarrow> Inr ts)"

definition Store_Add :: "SchedEnv \<Rightarrow> ScheduledTask \<Rightarrow> SchedWorld \<Rightarrow> string option \<times> SchedWorld" where
  "Store_Add E task w = Store_save E (w\<lparr>sw_tasks := AList.update (sk_ID task) task (sw_tasks w)\<rparr>)"

definition Store_Get :: "string \<Rightarrow> SchedWorld \<Rightarrow> ScheduledTask option" where
  "Store_Get i w = map_of (sw_tasks w) i"

definition Store_List :: "SchedEnv \<Rightarrow> SchedWorld \<Rightarrow> ScheduledTask list" where
  "Store_List E w = se_order E (sw_reads w) (map snd (sw_tasks w))"

definition Store_Update :: "SchedEnv \<Rightarrow> ScheduledTask \<Rightarrow> SchedWorld \<Rightarrow> string option \<times> SchedWorld" where
  "Store_Update E task w = Store_save E (w\<lparr>sw_tasks := AList.update (sk_ID task) task (sw_tasks w)\<rparr>)"

definition Store_Delete :: "SchedEnv \<Rightarrow> string \<Rightarrow> SchedWorld \<Rightarrow> string option \<times> SchedWorld" where
  "Store_Delete E i w = Store_save E (w\<lparr>sw_tasks := AList.delete i (sw_tasks w)\<rparr>)"

definition Store_SetStatus :: "SchedEnv \<Rightarrow> string \<Rightarrow> string \<Rightarrow> SchedWorld \<Rightarrow> string option \<times> SchedWorld" where
  "Store_SetStatus E i status w =
     (case map_of (sw_tasks w) i of
        None \<Rightarrow> (Some (''task '' @ se_Quote E i @ '' not found''), w)
      | Some t \<Rightarrow> Store_save E (w\<lparr>sw_tasks := AList.update i (t\<lparr>sk_Status := status\<rparr>) (sw_tasks w)\<rparr>))"

section \<open>Scheduler\<close>

definition computeNextRun :: "SchedEnv \<Rightarrow> ScheduledTask \<Rightarrow> SchedWorld \<Rightarrow> (string + instant) \<times> SchedWorld" where
  "computeNextRun E task w =
     (case time_Now E w of (now, w) \<Rightarrow>
        ((if sk_ScheduleType task = ScheduleCron then
            (case se_cron E (sk_ScheduleValue task) of
               Inl e \<Rightarrow> Inl (''invalid cron expression '' @ se_Quote E (sk_ScheduleValue task) @ '': '' @ e)
             | Inr next_after \<Rightarrow> Inr (next_after now))
          else if sk_ScheduleType task = ScheduleInterval then
            (case se_ParseDuration E (sk_ScheduleValue task) of
               Inl e \<Rightarrow> Inl (''invalid interval '' @ se_Quote E (sk_ScheduleValue task) @ '': '' @ e)
             | Inr d \<Rightarrow>
                 (let base = (case sk_LastRun task of Some t \<Rightarrow> t | None \<Rightarrow> sk_CreatedAt task);
                      nxt = base + d
                  in Inr (if nxt < now then now + d else nxt)))
          else if sk_ScheduleType task = ScheduleOnce then
            (case se_ParseRFC3339 E (sk_ScheduleValue task) of
               Inl e \<Rightarrow> Inl (''invalid RFC3339 time '' @ se_Quote E (sk_ScheduleValue task) @ '': '' @ e)
             | Inr t \<Rightarrow> Inr t)
          else Inl (''unknown schedule type: '' @ se_Quote E (sk_ScheduleType task))), w))"

definition ComputeNextRun :: "SchedEnv \<Rightarrow> ScheduledTask \<Rightarrow> SchedWorld \<Rightarrow> (string + instant) \<times> SchedWorld" where
  "ComputeNextRun E task w = computeNextRun E task w"

text \<open>The clock is read only for an active task that has a next run.\<close>

definition isDue :: "SchedEnv \<Rightarrow> ScheduledTask \<Rightarrow> SchedWorld \<Rightarrow> bool \<times> SchedWorld" where
  "isDue E task w =
     (if sk_Status task \<noteq> TaskActive then (False, w)
      else (case sk_NextRun task of
              None \<Rightarrow> (False, w)
            | Some t \<Rightarrow> (case time_Now E w of (now, w) \<Rightarrow> (now > t, w))))"

type_synonym task_runner = "ScheduledTask \<Rightarrow> SchedWorld \<Rightarrow> SchedWorld"

text \<open>The body of the loop after the check: the runner, then the update of the copy of the task.\<close>

definition fire_task :: "SchedEnv \<Rightarrow> task_runner option \<Rightarrow> ScheduledTask \<Rightarrow> SchedWorld \<Rightarrow> SchedWorld" where
  "fire_task E runner task w =
     (let w = (case runner of Some f \<Rightarrow> f task w | None \<Rightarrow> w)
      in case time_Now E w of (now, w) \<Rightarrow>
           (let task = task\<lparr>sk_LastRun := Some now, sk_RunCount := wrap64 (sk_RunCount task + 1)\<rparr>
            in if sk_ScheduleType task = ScheduleOnce
               then snd (Store_Update E (task\<lparr>sk_Status := TaskCompleted, sk_NextRun := None\<rparr>) w)
               else (case computeNextRun E task w of
                       (Inl e, w) \<Rightarrow> snd (Store_Update E task w)
                     | (Inr t, w) \<Rightarrow> snd (Store_Update E (task\<lparr>sk_NextRun := Some t\<rparr>) w))))"

definition due_step :: "SchedEnv \<Rightarrow> task_runner option \<Rightarrow> ScheduledTask \<Rightarrow> SchedWorld \<Rightarrow> SchedWorld" where
  "due_step E runner task w =
     (case isDue E task w of (due, w) \<Rightarrow> if due then fire_task E runner task w else w)"

definition runDueTasks :: "SchedEnv \<Rightarrow> task_runner option \<Rightarrow> SchedWorld \<Rightarrow> SchedWorld" where
  "runDueTasks E runner w = fold (due_step E runner) (Store_List E w) w"

section \<open>Dispatcher\<close>

text \<open>\<open>1<<uint(n)\<close> at the type \<open>time.Duration\<close>.\<close>

definition shl1 :: "int \<Rightarrow> int" where
  "shl1 n = (if 0 \<le> n \<and> n < 64 then wrap64 (2 ^ nat n) else 0)"

definition retry_backoff :: "int \<Rightarrow> duration" where
  "retry_backoff n = wrap64 (shl1 n * Minute)"

definition task_timeout :: "ScheduledTask \<Rightarrow> duration" where
  "task_timeout task =
     (let timeout = wrap64 (sk_TimeoutSeconds task * Second) in if timeout \<le> 0 then 5 * Minute else timeout)"

definition formatResult :: "ScheduledTask \<Rightarrow> string \<Rightarrow> string option \<Rightarrow> string" where
  "formatResult task result err =
     (let status = (case err of
            None \<Rightarrow> [CHR 0xE2, CHR 0x9C, CHR 0x85] @ '' Success''
          | Some e \<Rightarrow> [CHR 0xE2, CHR 0x9D, CHR 0x8C] @ '' Failed ('' @ e @ '')'');
          result = (if length result > 2000 then take 2000 result @ [CHR 0xE2, CHR 0x80, CHR 0xA6] else result)
      in status @ [CHR 0x0A] @ ''Task: '' @ sk_Name task @ [CHR 0x0A] @ ''Prompt: '' @ sk_Prompt task @
         [CHR 0x0A, CHR 0x0A] @ result)"

text \<open>
  The runner gets the timeout of its context and the prompt and gives the result and the error, if
  any, with what it has done to the store. \<open>notify\<close> says whether a notifier is set.
\<close>

type_synonym prompt_runner = "duration \<Rightarrow> string \<Rightarrow> SchedWorld \<Rightarrow> (string \<times> string option) \<times> SchedWorld"

definition Dispatch :: "SchedEnv \<Rightarrow> prompt_runner \<Rightarrow> bool \<Rightarrow> task_runner" where
  "Dispatch E runner notify task w =
     (case runner (task_timeout task) (sk_Prompt task) w of ((result, err), w) \<Rightarrow>
      case time_Now E w of (now, w) \<Rightarrow>
        (let task = task\<lparr>sk_LastRun := Some now, sk_RunCount := wrap64 (sk_RunCount task + 1)\<rparr>
         in if err \<noteq> None \<and> sk_RetryCount task < sk_MaxRetries task
            then (let task = task\<lparr>sk_RetryCount := wrap64 (sk_RetryCount task + 1), sk_LastError := the err\<rparr>
                  in case time_Now E w of (now, w) \<Rightarrow>
                       snd (Store_Update E
                         (task\<lparr>sk_NextRun := Some (now + retry_backoff (sk_RetryCount task))\<rparr>) w))
            else (let result = (case err of None \<Rightarrow> result
                        | Some e \<Rightarrow> ''Failed after '' @ FormatInt (sk_RetryCount task) @ '' retries: '' @ e);
                      task = task\<lparr>sk_LastError := (case err of None \<Rightarrow> [] | Some e \<Rightarrow> e),
                        sk_LastResult := result, sk_RetryCount := 0\<rparr>;
                      w = snd (Store_Update E task w)
                  in if notify
                     then w\<lparr>sw_sent := sw_sent w @ [(''Task: '' @ sk_Name task, formatResult task result err)]\<rparr>
                     else w)))"

section \<open>Tools\<close>

text \<open>The fields of a result that these tools set.\<close>

record ToolResult =
  tr_Success :: bool
  tr_Output :: string
  tr_Error :: string

definition tool_error :: "string \<Rightarrow> ToolResult" where
  "tool_error e = \<lparr>tr_Success = False, tr_Output = [], tr_Error = e\<rparr>"

definition tool_output :: "string \<Rightarrow> ToolResult" where
  "tool_output s = \<lparr>tr_Success = True, tr_Output = s, tr_Error = []\<rparr>"

text \<open>A parameter that is missing or not a string reads as the empty string.\<close>

definition string_param :: "params \<Rightarrow> string \<Rightarrow> string" where
  "string_param ps k = (case as_string (map_get ps k) of Some s \<Rightarrow> s | None \<Rightarrow> [])"

definition hex_digit :: "nat \<Rightarrow> char" where
  "hex_digit d = ''0123456789ABCDEF'' ! d"

text \<open>The control characters are single bytes in UTF-8, so the check can go byte by byte.\<close>

fun security_ValidateInput :: "string \<Rightarrow> string option" where
  "security_ValidateInput [] = None"
| "security_ValidateInput (c # cs) =
     (let r = (of_char c :: nat)
      in if r < 0x20 \<and> c \<noteq> CHR 0x09 \<and> c \<noteq> CHR 0x0A \<and> c \<noteq> CHR 0x0D
         then Some (''invalid character: control character detected (0x'' @
                [hex_digit (r div 16), hex_digit (r mod 16)] @ '')'')
         else security_ValidateInput cs)"

definition UnixNano :: "instant \<Rightarrow> int" where
  "UnixNano t = wrap64 (t - 62135596800 * Second)"

definition task_id :: "instant \<Rightarrow> string" where
  "task_id now = FormatInt (UnixNano now)"

definition new_task :: "instant \<Rightarrow> string \<Rightarrow> string \<Rightarrow> string \<Rightarrow> string \<Rightarrow> string \<Rightarrow> ScheduledTask" where
  "new_task now name prompt schedType schedValue contextMode =
     \<lparr>sk_ID = task_id now, sk_Name = name, sk_Prompt = prompt, sk_ScheduleType = schedType,
      sk_ScheduleValue = schedValue, sk_ContextMode = contextMode, sk_Status = TaskActive,
      sk_CreatedAt = now, sk_NextRun = None, sk_LastRun = None, sk_LastResult = [], sk_RunCount = 0,
      sk_MaxRetries = 0, sk_RetryCount = 0, sk_LastError = [], sk_NotifyDiscordChan = [],
      sk_NotifyTelegramChat = 0, sk_TimeoutSeconds = 0\<rparr>"

text \<open>\<open>avail\<close> says whether the context of the call holds a scheduler.\<close>

definition ScheduleTask_Execute :: "SchedEnv \<Rightarrow> bool \<Rightarrow> params \<Rightarrow> SchedWorld \<Rightarrow> ToolResult \<times> SchedWorld" where
  "ScheduleTask_Execute E avail ps w =
     (let name = string_param ps ''name''; prompt = string_param ps ''prompt'';
          schedType = string_param ps ''schedule_type''; schedValue = string_param ps ''schedule_value'';
          contextMode = (if string_param ps ''context_mode'' = ContextSession then ContextSession else ContextIsolated)
      in if name = [] \<or> prompt = [] \<or> schedType = [] \<or> schedValue = []
         then (tool_error ''name, prompt, schedule_type, and schedule_value are required'', w)
         else if schedType \<noteq> ScheduleCron \<and> schedType \<noteq> ScheduleInterval \<and> schedType \<noteq> ScheduleOnce
         then (tool_error (''invalid schedule_type '' @ se_Quote E schedType @
                 ''; must be cron, interval, or once''), w)
         else if \<not> avail then (tool_error ''scheduler not available'', w)
         else case time_Now E w of (now, w) \<Rightarrow>
           (let task = new_task now name prompt schedType schedValue contextMode
            in case ComputeNextRun E task w of
                 (Inl e, w) \<Rightarrow> (tool_error (''invalid schedule: '' @ e), w)
               | (Inr nxt, w) \<Rightarrow>
                   (case Store_Add E (task\<lparr>sk_NextRun := Some nxt\<rparr>) w of
                      (Some e, w) \<Rightarrow> (tool_error (''failed to save task: '' @ e), w)
                    | (None, w) \<Rightarrow>
                        (tool_output (''Task scheduled.'' @ [CHR 0x0A] @ ''ID: '' @ sk_ID task @ [CHR 0x0A] @
                           ''Name: '' @ name @ [CHR 0x0A] @ ''Schedule: '' @ schedValue @ '' ('' @ schedType @ '')'' @
                           [CHR 0x0A] @ ''Context: '' @ contextMode @ [CHR 0x0A] @ ''Next run: '' @
                           se_FormatRFC3339 E nxt), w))))"

definition CancelScheduledTask_Execute :: "SchedEnv \<Rightarrow> bool \<Rightarrow> params \<Rightarrow> SchedWorld \<Rightarrow> ToolResult \<times> SchedWorld" where
  "CancelScheduledTask_Execute E avail ps w =
     (let i = string_param ps ''id''
      in if i = [] then (tool_error ''id is required'', w)
         else case security_ValidateInput i of
           Some e \<Rightarrow> (tool_error (''invalid id: '' @ e), w)
         | None \<Rightarrow>
             if \<not> avail then (tool_error ''scheduler not available'', w)
             else case Store_SetStatus E i TaskCancelled w of
               (Some e, w) \<Rightarrow> (tool_error (''failed to cancel task: '' @ e), w)
             | (None, w) \<Rightarrow> (tool_output (''Task '' @ i @ '' has been cancelled.''), w))"

definition PauseResume_Execute :: "SchedEnv \<Rightarrow> bool \<Rightarrow> params \<Rightarrow> SchedWorld \<Rightarrow> ToolResult \<times> SchedWorld" where
  "PauseResume_Execute E avail ps w =
     (let i = string_param ps ''id''; action = string_param ps ''action''
      in if i = [] \<or> action = [] then (tool_error ''id and action are required'', w)
         else case security_ValidateInput i of
           Some e \<Rightarrow> (tool_error (''invalid id: '' @ e), w)
         | None \<Rightarrow>
             if \<not> avail then (tool_error ''scheduler not available'', w)
             else if action \<noteq> ''pause'' \<and> action \<noteq> ''resume''
             then (tool_error (''invalid action '' @ se_Quote E action @ ''; must be pause or resume''), w)
             else case Store_SetStatus E i (if action = ''pause'' then TaskPaused else TaskActive) w of
               (Some e, w) \<Rightarrow> (tool_error (''failed to update task: '' @ e), w)
             | (None, w) \<Rightarrow>
                 (tool_output (''Task '' @ i @ '' has been '' @
                    (if action = ''resume'' then ''resumed'' else ''paused'') @ ''.''), w))"

section \<open>Runs\<close>

text \<open>
  An agent that is given a prompt calls tools and then answers; the scheduler's store is changed by
  these calls only, and the prompt is kept on record. A history is a sequence of polls and of tool calls of the other sessions.
\<close>

datatype ToolCall = ScheduleCall params | CancelCall params | PauseResumeCall params

fun tool_call :: "SchedEnv \<Rightarrow> ToolCall \<Rightarrow> SchedWorld \<Rightarrow> SchedWorld" where
  "tool_call E (ScheduleCall ps) w = snd (ScheduleTask_Execute E True ps w)"
| "tool_call E (CancelCall ps) w = snd (CancelScheduledTask_Execute E True ps w)"
| "tool_call E (PauseResumeCall ps) w = snd (PauseResume_Execute E True ps w)"

type_synonym sched_agent = "duration \<Rightarrow> string \<Rightarrow> SchedWorld \<Rightarrow> ToolCall list \<times> string \<times> string option"

definition agent_run :: "SchedEnv \<Rightarrow> sched_agent \<Rightarrow> prompt_runner" where
  "agent_run E agent timeout prompt w =
     (case agent timeout prompt w of (calls, answer) \<Rightarrow>
        (answer, fold (tool_call E) calls (w\<lparr>sw_prompts := sw_prompts w @ [(timeout, prompt)]\<rparr>)))"

definition poll :: "SchedEnv \<Rightarrow> sched_agent \<Rightarrow> SchedWorld \<Rightarrow> SchedWorld" where
  "poll E agent w = runDueTasks E (Some (Dispatch E (agent_run E agent) True)) w"

datatype SchedEvent = Poll | Call ToolCall

fun sched_event :: "SchedEnv \<Rightarrow> sched_agent \<Rightarrow> SchedEvent \<Rightarrow> SchedWorld \<Rightarrow> SchedWorld" where
  "sched_event E agent Poll w = poll E agent w"
| "sched_event E agent (Call c) w = tool_call E c w"

definition sched_history :: "SchedEnv \<Rightarrow> sched_agent \<Rightarrow> SchedEvent list \<Rightarrow> SchedWorld \<Rightarrow> SchedWorld" where
  "sched_history E agent events w = fold (sched_event E agent) events w"

text \<open>The store of a fresh configuration directory.\<close>

definition fresh_world :: "string \<Rightarrow> FS \<Rightarrow> SchedWorld" where
  "fresh_world configDir fs =
     \<lparr>sw_path = store_path configDir, sw_tasks = [], sw_fs = fs, sw_reads = 0, sw_sent = [],
      sw_prompts = []\<rparr>"

end
