(* ===== verification/ScheduleProps.thy ===== *)
theory ScheduleProps
  imports Schedule "HOL-Library.Multiset"
begin

text \<open>
  What the scheduler promises. A poll runs every task that is due, once, and leaves the run counts of
  the others alone; a task for one run runs at most once. The scheduler writes back the copy of the
  task it took before the run, so what the dispatcher and the tools wrote in the meantime is lost: no
  stored task ever has a result, an error or a retry count, and a task that was cancelled while it ran is
  active again.
\<close>

section \<open>The store\<close>

lemma Store_save_frame [simp]:
  "sw_tasks (snd (Store_save E w)) = sw_tasks w"
  "sw_reads (snd (Store_save E w)) = sw_reads w"
  "sw_path (snd (Store_save E w)) = sw_path w"
  "sw_prompts (snd (Store_save E w)) = sw_prompts w"
  by (simp_all add: Store_save_def split: sum.split prod.split option.split)

lemma Store_Update_frame [simp]:
  "sw_tasks (snd (Store_Update E t w)) = AList.update (sk_ID t) t (sw_tasks w)"
  "sw_reads (snd (Store_Update E t w)) = sw_reads w"
  "sw_prompts (snd (Store_Update E t w)) = sw_prompts w"
  by (simp_all add: Store_Update_def)

lemma Store_Add_frame [simp]:
  "sw_tasks (snd (Store_Add E t w)) = AList.update (sk_ID t) t (sw_tasks w)"
  "sw_reads (snd (Store_Add E t w)) = sw_reads w"
  "sw_prompts (snd (Store_Add E t w)) = sw_prompts w"
  by (simp_all add: Store_Add_def)

lemma Store_SetStatus_reads [simp]:
  "sw_reads (snd (Store_SetStatus E i st w)) = sw_reads w"
  "sw_prompts (snd (Store_SetStatus E i st w)) = sw_prompts w"
  by (simp_all add: Store_SetStatus_def split: option.split)

lemma Store_Get_Update [simp]:
  "Store_Get k (snd (Store_Update E t w)) = (if k = sk_ID t then Some t else Store_Get k w)"
  by (simp add: Store_Get_def update_conv')

lemma Store_Get_Add [simp]:
  "Store_Get k (snd (Store_Add E t w)) = (if k = sk_ID t then Some t else Store_Get k w)"
  by (simp add: Store_Get_def update_conv')

lemma Store_Get_SetStatus:
  "Store_Get k (snd (Store_SetStatus E i st w)) =
     (if k = i then map_option (\<lambda>t. t\<lparr>sk_Status := st\<rparr>) (Store_Get i w) else Store_Get k w)"
  by (simp add: Store_SetStatus_def Store_Get_def update_conv' split: option.split)

lemma set_update_subset: "set (AList.update k v al) \<subseteq> insert (k, v) (set al)"
  by (induction al) auto

text \<open>What is saved without an error is what the next start of the program loads.\<close>

definition json_law :: "SchedEnv \<Rightarrow> bool" where
  "json_law E \<longleftrightarrow> (\<forall>ts data. se_Marshal E ts = Inr data \<longrightarrow> se_Unmarshal E data = Inr ts)"

lemma saved_tasks_are_loaded:
  assumes "json_law E" and "sw_path w = store_path dir"
    and "se_faults E (OpReadFile (store_path dir)) = None" and "Store_save E w = (None, w')"
  shows "NewStore E dir (sw_fs w') = Inr (sw_tasks w')"
proof -
  from assms(4) obtain data fs fs' where data: "se_Marshal E (sw_tasks w) = Inr data"
    and wr: "os_WriteFile (se_faults E) (sw_path w) data fs = (None, fs')" and w': "w' = w\<lparr>sw_fs := fs'\<rparr>"
    by (auto simp: Store_save_def split: sum.splits prod.splits option.splits)
  have "content fs' (store_path dir) = Some data" using content_WriteFile [OF wr] assms(2) by simp
  then show ?thesis using assms(1,3) data w'
    by (simp add: NewStore_def Store_load_def os_ReadFile_def json_law_def)
qed

section \<open>One run\<close>

text \<open>What is stored for a task after its run, up to the two instants.\<close>

definition after_run :: "instant \<Rightarrow> instant option \<Rightarrow> ScheduledTask \<Rightarrow> ScheduledTask" where
  "after_run now nxt t =
     t\<lparr>sk_LastRun := Some now, sk_RunCount := wrap64 (sk_RunCount t + 1),
       sk_Status := (if sk_ScheduleType t = ScheduleOnce then TaskCompleted else sk_Status t),
       sk_NextRun := (if sk_ScheduleType t = ScheduleOnce then None else nxt)\<rparr>"

abbreviation run_effect :: "task_runner option \<Rightarrow> ScheduledTask \<Rightarrow> SchedWorld \<Rightarrow> SchedWorld" where
  "run_effect r t w \<equiv> (case r of Some f \<Rightarrow> f t w | None \<Rightarrow> w)"

lemma computeNextRun_reads: "\<exists>x. computeNextRun E t w = (x, w\<lparr>sw_reads := Suc (sw_reads w)\<rparr>)"
  by (simp add: computeNextRun_def time_Now_def)

lemma computeNextRun_cong: "sw_reads w = sw_reads v \<Longrightarrow> fst (computeNextRun E t w) = fst (computeNextRun E t v)"
  by (simp add: computeNextRun_def time_Now_def)

text \<open>
  The next run that is stored: the one computed from the copy of the task after the \<open>n\<close>-th reading of
  the clock, and where that fails the one it had. The store does not enter.
\<close>

definition next_of :: "SchedEnv \<Rightarrow> SchedWorld \<Rightarrow> nat \<Rightarrow> ScheduledTask \<Rightarrow> instant option" where
  "next_of E w n t =
     (case fst (computeNextRun E
          (t\<lparr>sk_LastRun := Some (se_clock E n), sk_RunCount := wrap64 (sk_RunCount t + 1)\<rparr>)
          (w\<lparr>sw_reads := Suc n\<rparr>)) of
        Inl e \<Rightarrow> sk_NextRun t
      | Inr u \<Rightarrow> Some u)"

lemma fire_task_stores:
  "\<exists>m. fire_task E r t w = snd (Store_Update E
     (after_run (se_clock E (sw_reads (run_effect r t w))) (next_of E w (sw_reads (run_effect r t w)) t) t)
     ((run_effect r t w)\<lparr>sw_reads := sw_reads (run_effect r t w) + m\<rparr>))"
proof -
  let ?v = "run_effect r t w"
  let ?now = "se_clock E (sw_reads ?v)" and ?u = "?v\<lparr>sw_reads := Suc (sw_reads ?v)\<rparr>"
  let ?t = "t\<lparr>sk_LastRun := Some ?now, sk_RunCount := wrap64 (sk_RunCount t + 1)\<rparr>"
  let ?nxt = "next_of E w (sw_reads ?v) t"
  show ?thesis
  proof (cases "sk_ScheduleType t = ScheduleOnce")
    case True
    then have "fire_task E r t w = snd (Store_Update E (after_run ?now ?nxt t) (?v\<lparr>sw_reads := sw_reads ?v + 1\<rparr>))"
      by (simp add: fire_task_def time_Now_def after_run_def Let_def)
    then show ?thesis by blast
  next
    case False
    obtain x where x: "computeNextRun E ?t ?u = (x, ?v\<lparr>sw_reads := sw_reads ?v + 2\<rparr>)"
      using computeNextRun_reads [of E ?t ?u] by (auto simp: add_2_eq_Suc')
    have "?nxt = (case x of Inl e \<Rightarrow> sk_NextRun t | Inr u \<Rightarrow> Some u)"
      unfolding next_of_def by (subst computeNextRun_cong [of _ ?u]) (simp_all add: x)
    then have "fire_task E r t w = snd (Store_Update E (after_run ?now ?nxt t) (?v\<lparr>sw_reads := sw_reads ?v + 2\<rparr>))"
      using False x by (simp add: fire_task_def time_Now_def after_run_def Let_def split: sum.split)
    then show ?thesis by blast
  qed
qed

lemma after_run_simps [simp]:
  "sk_ID (after_run now nxt t) = sk_ID t"
  "sk_RunCount (after_run now nxt t) = wrap64 (sk_RunCount t + 1)"
  "sk_LastResult (after_run now nxt t) = sk_LastResult t"
  "sk_LastError (after_run now nxt t) = sk_LastError t"
  "sk_RetryCount (after_run now nxt t) = sk_RetryCount t"
  "sk_ScheduleType (after_run now nxt t) = sk_ScheduleType t"
  "sk_NextRun (after_run now nxt t) = (if sk_ScheduleType t = ScheduleOnce then None else nxt)"
  by (simp_all add: after_run_def)

section \<open>What no run leaves behind\<close>

definition plain_task :: "string \<Rightarrow> ScheduledTask \<Rightarrow> bool" where
  "plain_task k t \<longleftrightarrow>
     sk_ID t = k \<and> sk_LastResult t = [] \<and> sk_LastError t = [] \<and> sk_RetryCount t = 0 \<and>
     (sk_ScheduleType t = ScheduleOnce \<longrightarrow> sk_RunCount t = 0 \<or> sk_RunCount t = 1 \<and> sk_NextRun t = None)"

definition plain_but :: "string set \<Rightarrow> SchedWorld \<Rightarrow> bool" where
  "plain_but K w \<longleftrightarrow>
     distinct (map fst (sw_tasks w)) \<and> (\<forall>k t. Store_Get k w = Some t \<longrightarrow> k \<notin> K \<longrightarrow> plain_task k t)"

abbreviation plain_store :: "SchedWorld \<Rightarrow> bool" where
  "plain_store \<equiv> plain_but {}"

definition fair_order :: "SchedEnv \<Rightarrow> bool" where
  "fair_order E \<longleftrightarrow> (\<forall>n ts. mset (se_order E n ts) = mset ts)"

lemma plain_task_status [simp]: "plain_task k (t\<lparr>sk_Status := st\<rparr>) = plain_task k t"
  by (simp add: plain_task_def)




lemma plain_reads [simp]:
  "plain_but K (w\<lparr>sw_reads := n\<rparr>) = plain_but K w" "plain_but K (w\<lparr>sw_sent := ms\<rparr>) = plain_but K w"
  "plain_but K (w\<lparr>sw_prompts := ps\<rparr>) = plain_but K w"
  by (simp_all add: plain_but_def Store_Get_def)

lemma plain_mono: "plain_but K w \<Longrightarrow> K \<subseteq> L \<Longrightarrow> plain_but L w"
  by (auto simp: plain_but_def)


lemma ScheduleTask_world:
  "(\<exists>n. snd (ScheduleTask_Execute E avail ps w) = w\<lparr>sw_reads := sw_reads w + n\<rparr>) \<or>
   (\<exists>a b c d e nr. snd (ScheduleTask_Execute E avail ps w) =
      snd (Store_Add E ((new_task (se_clock E (sw_reads w)) a b c d e)\<lparr>sk_NextRun := nr\<rparr>)
        (w\<lparr>sw_reads := sw_reads w + 2\<rparr>)))"
proof -
  let ?v = "w\<lparr>sw_reads := Suc (sw_reads w)\<rparr>"
  let ?t = "new_task (se_clock E (sw_reads w)) (string_param ps ''name'') (string_param ps ''prompt'')
    (string_param ps ''schedule_type'') (string_param ps ''schedule_value'')
    (if string_param ps ''context_mode'' = ContextSession then ContextSession else ContextIsolated)"
  obtain x where x: "ComputeNextRun E ?t ?v = (x, w\<lparr>sw_reads := sw_reads w + 2\<rparr>)"
    using computeNextRun_reads [of E ?t ?v] by (auto simp: ComputeNextRun_def add_2_eq_Suc')
  have now: "time_Now E w = (se_clock E (sw_reads w), ?v)" by (simp add: time_Now_def)
  have tail: "snd (case x of Inl e \<Rightarrow> (tool_error (f e), u)
     | Inr nr \<Rightarrow> (case Store_Add E (t nr) u of (Some e, w) \<Rightarrow> (tool_error (g e), w) | (None, w) \<Rightarrow> (tool_output (h nr), w))) =
     (case x of Inl e \<Rightarrow> u | Inr nr \<Rightarrow> snd (Store_Add E (t nr) u))" for f g h u t and x :: "string + instant"
    by (auto split: sum.split prod.split option.split)
  have guard: "snd z = y \<Longrightarrow> snd (if a then (p, u) else if b then (q, u) else if c then (r, u) else z) = u \<or>
      snd (if a then (p, u) else if b then (q, u) else if c then (r, u) else z) = y"
    for a b c and p q r :: ToolResult and u y :: SchedWorld and z
    by auto
  have "snd (ScheduleTask_Execute E avail ps w) = w \<or>
    snd (ScheduleTask_Execute E avail ps w) =
      (case x of Inl e \<Rightarrow> w\<lparr>sw_reads := sw_reads w + 2\<rparr>
       | Inr nr \<Rightarrow> snd (Store_Add E (?t\<lparr>sk_NextRun := Some nr\<rparr>) (w\<lparr>sw_reads := sw_reads w + 2\<rparr>)))"
    unfolding ScheduleTask_Execute_def Let_def now prod.case x
    by (rule guard, rule tail)
  then show ?thesis
  proof
    assume "snd (ScheduleTask_Execute E avail ps w) = w"
    then have "snd (ScheduleTask_Execute E avail ps w) = w\<lparr>sw_reads := sw_reads w + 0\<rparr>" by simp
    then show ?thesis by blast
  qed (cases x; simp only: sum.case; blast)
qed

lemma snd_result [simp]:
  "snd (case y of (Some e, w) \<Rightarrow> (f e, w) | (None, w) \<Rightarrow> (g, w)) = snd y"
  by (simp split: prod.split option.split)

lemma CancelScheduledTask_world:
  "snd (CancelScheduledTask_Execute E avail ps w) = w \<or>
   (\<exists>i st. snd (CancelScheduledTask_Execute E avail ps w) = snd (Store_SetStatus E i st w))"
  by (cases "security_ValidateInput (string_param ps ''id'')") (auto simp: CancelScheduledTask_Execute_def Let_def)

lemma PauseResume_world:
  "snd (PauseResume_Execute E avail ps w) = w \<or>
   (\<exists>i st. snd (PauseResume_Execute E avail ps w) = snd (Store_SetStatus E i st w))"
proof -
  obtain i action where *: "i = string_param ps ''id''" "action = string_param ps ''action''" by blast
  show ?thesis
    unfolding PauseResume_Execute_def Let_def * [symmetric]
    by (cases "security_ValidateInput i"; cases "i = [] \<or> action = []"; cases "action \<noteq> ''pause'' \<and> action \<noteq> ''resume''")
      (auto simp only: option.case if_True if_False snd_result snd_conv split: if_split)
qed

text \<open>A tool call reads the clock, sets a status, or adds a new task under the instant of the call.\<close>

lemma tool_call_world:
  obtains (read) n where "tool_call E c w = w\<lparr>sw_reads := sw_reads w + n\<rparr>"
  | (status) i st where "tool_call E c w = snd (Store_SetStatus E i st w)"
  | (added) a b x d e nr where "tool_call E c w =
      snd (Store_Add E ((new_task (se_clock E (sw_reads w)) a b x d e)\<lparr>sk_NextRun := nr\<rparr>)
        (w\<lparr>sw_reads := sw_reads w + 2\<rparr>))"
proof (cases c)
  case (ScheduleCall ps)
  then show ?thesis using ScheduleTask_world [of E True ps w] read added by (auto; blast)
next
  case (CancelCall ps)
  have "w = w\<lparr>sw_reads := sw_reads w + 0\<rparr>" by simp
  with CancelCall show ?thesis using CancelScheduledTask_world [of E True ps w] read status by (metis tool_call.simps(2))
next
  case (PauseResumeCall ps)
  have "w = w\<lparr>sw_reads := sw_reads w + 0\<rparr>" by simp
  with PauseResumeCall show ?thesis using PauseResume_world [of E True ps w] read status by (metis tool_call.simps(3))
qed



text \<open>The dispatcher runs the prompt, reads the clock and writes one task, under the same identifier.\<close>

lemma Dispatch_world:
  obtains t' n ms where "sk_ID t' = sk_ID t"
    and "Dispatch E runner notify t w =
      (snd (Store_Update E t' ((snd (runner (task_timeout t) (sk_Prompt t) w))
         \<lparr>sw_reads := sw_reads (snd (runner (task_timeout t) (sk_Prompt t) w)) + n\<rparr>)))\<lparr>sw_sent := ms\<rparr>"
proof -
  let ?r = "runner (task_timeout t) (sk_Prompt t) w"
  obtain result err v where r: "?r = ((result, err), v)" by (cases ?r) auto
  let ?now = "se_clock E (sw_reads v)" and ?u = "v\<lparr>sw_reads := Suc (sw_reads v)\<rparr>"
  let ?t = "t\<lparr>sk_LastRun := Some ?now, sk_RunCount := wrap64 (sk_RunCount t + 1)\<rparr>"
  have keep: "w' = w'\<lparr>sw_sent := sw_sent w'\<rparr>" for w' :: SchedWorld by simp
  show ?thesis
  proof (cases "err \<noteq> None \<and> sk_RetryCount t < sk_MaxRetries t")
    case True
    let ?t' = "(?t\<lparr>sk_RetryCount := wrap64 (sk_RetryCount t + 1), sk_LastError := the err\<rparr>)
      \<lparr>sk_NextRun := Some (se_clock E (Suc (sw_reads v)) + retry_backoff (wrap64 (sk_RetryCount t + 1)))\<rparr>"
    have "Dispatch E runner notify t w = snd (Store_Update E ?t' (v\<lparr>sw_reads := sw_reads v + 2\<rparr>))"
      using True by (simp add: Dispatch_def r time_Now_def Let_def add_2_eq_Suc')
    then have "Dispatch E runner notify t w =
        (snd (Store_Update E ?t' (v\<lparr>sw_reads := sw_reads v + 2\<rparr>)))\<lparr>sw_sent := sw_sent (Dispatch E runner notify t w)\<rparr>"
      by simp
    then show ?thesis by (intro that [where t' = ?t' and n = 2]) (simp_all only: r fst_conv snd_conv, simp)
  next
    case False
    let ?t' = "?t\<lparr>sk_LastError := (case err of None \<Rightarrow> [] | Some e \<Rightarrow> e), sk_LastResult := (case err of None \<Rightarrow> result
      | Some e \<Rightarrow> ''Failed after '' @ FormatInt (sk_RetryCount t) @ '' retries: '' @ e), sk_RetryCount := 0\<rparr>"
    have "Dispatch E runner notify t w = (let u = snd (Store_Update E ?t' (v\<lparr>sw_reads := sw_reads v + 1\<rparr>))
      in u\<lparr>sw_sent := sw_sent (Dispatch E runner notify t w)\<rparr>)"
      using False by (cases err) (simp_all add: Dispatch_def r time_Now_def Let_def)
    then show ?thesis by (intro that [where t' = ?t' and n = 1]) (simp_all only: r fst_conv snd_conv Let_def, simp)
  qed
qed




lemma isDue_world:
  "isDue E t w = (d, v) \<Longrightarrow> (d \<longrightarrow> sk_Status t = TaskActive \<and> sk_NextRun t \<noteq> None) \<and>
     (v = w \<or> v = w\<lparr>sw_reads := Suc (sw_reads w)\<rparr>)"
  by (auto simp: isDue_def time_Now_def split: if_splits option.splits)


lemma List_members: "fair_order E \<Longrightarrow> set (Store_List E w) = snd ` set (sw_tasks w)"
  unfolding Store_List_def fair_order_def by (metis list.set_map set_mset_mset)




lemma plain_fresh: "plain_store (fresh_world dir fs)"
  by (simp add: plain_but_def fresh_world_def Store_Get_def)


text \<open>
  C25. The update after a run ignores the run. Whatever the runner does to the store, and if it does nothing,
  what is stored for the task is determined by the copy taken before the run and the number of clock
  readings made during it: that copy with its last run set to the instant after the run, its run count
  increased and, if it was for one run, completed without a next run; otherwise with the next run
  that the schedule gives from that instant on, or the old one if the schedule does not parse. So the
  result, the error, the retry count and the backoff that the dispatcher stores are overwritten, and a
  task that was cancelled, paused or deleted while it ran is there again with the status it had before.
  The other tasks are as the run leaves them.
\<close>

theorem run_record_ignores_the_run:
  "(let n = sw_reads (case runner of Some f \<Rightarrow> f t w | None \<Rightarrow> w);
        copy = t\<lparr>sk_LastRun := Some (se_clock E n), sk_RunCount := wrap64 (sk_RunCount t + 1)\<rparr>
    in Store_Get (sk_ID t) (fire_task E runner t w) = Some
         (if sk_ScheduleType t = ScheduleOnce then copy\<lparr>sk_Status := TaskCompleted, sk_NextRun := None\<rparr>
          else (case fst (computeNextRun E copy (w\<lparr>sw_reads := Suc n\<rparr>)) of
                  Inl e \<Rightarrow> copy
                | Inr next \<Rightarrow> copy\<lparr>sk_NextRun := Some next\<rparr>))) \<and>
   (k = sk_ID t \<or> Store_Get k (fire_task E runner t w) =
      Store_Get k (case runner of Some f \<Rightarrow> f t w | None \<Rightarrow> w))"
proof -
  let ?v = "run_effect runner t w"
  obtain m where eq: "fire_task E runner t w = snd (Store_Update E
      (after_run (se_clock E (sw_reads ?v)) (next_of E w (sw_reads ?v) t) t) (?v\<lparr>sw_reads := sw_reads ?v + m\<rparr>))"
    using fire_task_stores by blast
  have "Store_Get k (?v\<lparr>sw_reads := l\<rparr>) = Store_Get k ?v" for k l by (simp add: Store_Get_def)
  then show ?thesis
    unfolding eq by (simp add: Let_def after_run_def next_of_def split: sum.split)
qed

section \<open>One poll\<close>

definition run_count :: "string \<Rightarrow> SchedWorld \<Rightarrow> int option" where
  "run_count k w = map_option sk_RunCount (Store_Get k w)"

text \<open>No task that is created from now on gets the identifier.\<close>

definition taken :: "SchedEnv \<Rightarrow> string \<Rightarrow> SchedWorld \<Rightarrow> bool" where
  "taken E k w \<longleftrightarrow> (\<forall>n \<ge> sw_reads w. task_id (se_clock E n) \<noteq> k)"

definition well_keyed :: "SchedWorld \<Rightarrow> bool" where
  "well_keyed w \<longleftrightarrow> distinct (map fst (sw_tasks w)) \<and> (\<forall>(k, t) \<in> set (sw_tasks w). sk_ID t = k)"

text \<open>Time passes and, if the identifier is taken, its run count stays.\<close>

definition same_count :: "SchedEnv \<Rightarrow> string \<Rightarrow> SchedWorld \<Rightarrow> SchedWorld \<Rightarrow> bool" where
  "same_count E k w v \<longleftrightarrow> sw_reads w \<le> sw_reads v \<and> (taken E k w \<longrightarrow> run_count k v = run_count k w)"

lemma taken_later: "taken E k w \<Longrightarrow> sw_reads w \<le> sw_reads v \<Longrightarrow> taken E k v"
  by (simp add: taken_def)

lemma same_count_refl [simp]: "same_count E k w w"
  by (simp add: same_count_def)

lemma same_count_trans: "same_count E k u v \<Longrightarrow> same_count E k v w \<Longrightarrow> same_count E k u w"
  by (auto simp: same_count_def dest: taken_later)

lemma same_count_fold: "(\<And>x w. x \<in> set xs \<Longrightarrow> same_count E k w (f x w)) \<Longrightarrow> same_count E k w (fold f xs w)"
proof (induction xs arbitrary: w)
  case (Cons x xs)
  then have "same_count E k w (f x w)" and "same_count E k (f x w) (fold f xs (f x w))" by simp_all
  then show ?case by (simp add: same_count_trans)
qed simp

lemma run_count_reads [simp]:
  "run_count k (w\<lparr>sw_reads := n\<rparr>) = run_count k w" "run_count k (w\<lparr>sw_sent := ms\<rparr>) = run_count k w"
  "run_count k (w\<lparr>sw_prompts := ps\<rparr>) = run_count k w"
  by (simp_all add: run_count_def Store_Get_def)

lemma same_count_reads [simp]: "same_count E k w (w\<lparr>sw_reads := sw_reads w + n\<rparr>)"
  by (simp add: same_count_def)

lemma same_count_Update:
  "sk_ID t \<noteq> k \<Longrightarrow> same_count E k w v \<Longrightarrow>
     same_count E k w (snd (Store_Update E t (v\<lparr>sw_reads := sw_reads v + n\<rparr>)))"
  by (auto simp: same_count_def run_count_def Store_Get_def update_conv')

lemma same_count_tool_call: "same_count E k w (tool_call E c w)"
proof (cases rule: tool_call_world [of E c w])
  case (status i st)
  then show ?thesis
    by (simp add: same_count_def run_count_def Store_Get_SetStatus option.map_comp comp_def)
next
  case (added a b x d e nr)
  have "taken E k w \<Longrightarrow> task_id (se_clock E (sw_reads w)) \<noteq> k" by (simp add: taken_def)
  then show ?thesis using added
    by (auto simp: same_count_def run_count_def new_task_def Store_Get_def update_conv')
qed simp

lemma same_count_agent: "same_count E k w (snd (agent_run E agent to p w))"
proof -
  have "same_count E k v (fold (tool_call E) cs v)" for cs v
    by (intro same_count_fold same_count_tool_call)
  moreover have "same_count E k w (w\<lparr>sw_prompts := ps\<rparr>)" for ps by (simp add: same_count_def)
  ultimately show ?thesis by (auto simp: agent_run_def split: prod.split intro: same_count_trans)
qed

text \<open>A tool call starts no agent; a run of an agent is recorded once.\<close>

lemma prompts_tool_call [simp]: "sw_prompts (tool_call E c w) = sw_prompts w"
  by (cases rule: tool_call_world [of E c w]) simp_all

lemma prompts_agent [simp]: "sw_prompts (snd (agent_run E agent to p w)) = sw_prompts w @ [(to, p)]"
proof -
  have "sw_prompts (fold (tool_call E) cs v) = sw_prompts v" for cs v
    by (induction cs arbitrary: v) simp_all
  then show ?thesis by (simp add: agent_run_def split: prod.split)
qed

abbreviation agent_runner :: "SchedEnv \<Rightarrow> sched_agent \<Rightarrow> task_runner option" where
  "agent_runner E agent \<equiv> Some (Dispatch E (agent_run E agent) True)"

lemma dispatch_count:
  shows "sw_reads w \<le> sw_reads (Dispatch E (agent_run E agent) notify t w)" (is ?reads)
    and "sk_ID t \<noteq> k \<Longrightarrow> same_count E k w (Dispatch E (agent_run E agent) notify t w)" (is "_ \<Longrightarrow> ?same")
    and "sw_prompts (Dispatch E (agent_run E agent) notify t w) = sw_prompts w @ [(task_timeout t, sk_Prompt t)]"
      (is ?prompts)
proof -
  let ?v = "snd (agent_run E agent (task_timeout t) (sk_Prompt t) w)"
  obtain t' n ms where t': "sk_ID t' = sk_ID t" and eq: "Dispatch E (agent_run E agent) notify t w =
      (snd (Store_Update E t' (?v\<lparr>sw_reads := sw_reads ?v + n\<rparr>)))\<lparr>sw_sent := ms\<rparr>"
    by (rule Dispatch_world)
  have v: "same_count E k w ?v" for k by (rule same_count_agent)
  then show ?reads unfolding eq by (simp add: same_count_def trans_le_add1)
  show ?prompts unfolding eq by simp
  assume "sk_ID t \<noteq> k"
  from same_count_Update [of t' k, OF _ v] this t'
  have "same_count E k w (snd (Store_Update E t' (?v\<lparr>sw_reads := sw_reads ?v + n\<rparr>)))" by simp
  then show ?same unfolding eq by (simp add: same_count_def)
qed

lemma fire_count:
  shows "sw_reads w \<le> sw_reads (fire_task E (agent_runner E agent) t w)"
    and "sk_ID t \<noteq> k \<Longrightarrow> same_count E k w (fire_task E (agent_runner E agent) t w)"
    and "run_count (sk_ID t) (fire_task E (agent_runner E agent) t w) = Some (wrap64 (sk_RunCount t + 1))"
    and "sw_prompts (fire_task E (agent_runner E agent) t w) = sw_prompts w @ [(task_timeout t, sk_Prompt t)]"
proof -
  let ?v = "Dispatch E (agent_run E agent) True t w"
  obtain now nxt n where eq: "fire_task E (agent_runner E agent) t w =
      snd (Store_Update E (after_run now nxt t) (?v\<lparr>sw_reads := sw_reads ?v + n\<rparr>))"
    using fire_task_stores [of E "agent_runner E agent" t w] by auto
  show "sw_reads w \<le> sw_reads (fire_task E (agent_runner E agent) t w)"
    unfolding eq using dispatch_count(1) [of w E agent True t] by simp
  show "sk_ID t \<noteq> k \<Longrightarrow> same_count E k w (fire_task E (agent_runner E agent) t w)"
    unfolding eq by (simp add: same_count_Update dispatch_count(2))
  show "run_count (sk_ID t) (fire_task E (agent_runner E agent) t w) = Some (wrap64 (sk_RunCount t + 1))"
    unfolding eq by (simp add: run_count_def)
  show "sw_prompts (fire_task E (agent_runner E agent) t w) = sw_prompts w @ [(task_timeout t, sk_Prompt t)]"
    unfolding eq by (simp add: dispatch_count(3))
qed

lemma same_count_due_step:
  assumes "sk_ID t \<noteq> k"
  shows "same_count E k w (due_step E (agent_runner E agent) t w)"
proof -
  obtain d v where dv: "isDue E t w = (d, v)" by (cases "isDue E t w")
  have "same_count E k w v" using isDue_world [OF dv] by (auto simp: same_count_def)
  then show ?thesis using fire_count(2) [OF assms] by (auto simp: due_step_def dv intro: same_count_trans)
qed

text \<open>Whether a task is due when the clock shows an instant.\<close>

definition due_at :: "instant \<Rightarrow> ScheduledTask \<Rightarrow> bool" where
  "due_at now t \<longleftrightarrow> sk_Status t = TaskActive \<and> (case sk_NextRun t of Some r \<Rightarrow> r < now | None \<Rightarrow> False)"

lemma isDue_due_at: "fst (isDue E t w) = due_at (se_clock E (sw_reads w)) t"
  by (simp add: isDue_def due_at_def time_Now_def split: option.split)

lemma due_step_counts:
  fixes E agent t w
  defines "due \<equiv> due_at (se_clock E (sw_reads w)) t" and "v \<equiv> due_step E (agent_runner E agent) t w"
  shows "run_count (sk_ID t) w = Some (sk_RunCount t) \<Longrightarrow>
      run_count (sk_ID t) v = Some (if due then wrap64 (sk_RunCount t + 1) else sk_RunCount t)"
    and "sw_reads w \<le> sw_reads v"
    and "sw_prompts v = sw_prompts w @ (if due then [(task_timeout t, sk_Prompt t)] else [])"
proof -
  obtain d u where du: "isDue E t w = (d, u)" by (cases "isDue E t w")
  note u = isDue_world [OF du]
  have d: "due = d" using isDue_due_at [of E t w] by (simp add: du due_def)
  have v: "v = (if d then fire_task E (agent_runner E agent) t u else u)" by (simp add: v_def due_step_def du)
  show "run_count (sk_ID t) w = Some (sk_RunCount t) \<Longrightarrow>
      run_count (sk_ID t) v = Some (if due then wrap64 (sk_RunCount t + 1) else sk_RunCount t)"
    unfolding d v using u fire_count(3) by auto
  show "sw_prompts v = sw_prompts w @ (if due then [(task_timeout t, sk_Prompt t)] else [])"
    unfolding d v using u fire_count(4) by auto
  have "sw_reads w \<le> sw_reads u" using u by auto
  also have "sw_reads u \<le> sw_reads v" using fire_count(1) by (simp add: v)
  finally show "sw_reads w \<le> sw_reads v" .
qed

lemma due_at_mono: "due_at now t \<Longrightarrow> now \<le> now' \<Longrightarrow> due_at now' t"
  by (auto simp: due_at_def split: option.splits)

lemma snapshot_ids:
  assumes "fair_order E" and "well_keyed w"
  shows "distinct (map sk_ID (Store_List E w))"
proof -
  have "map sk_ID (map snd (sw_tasks w)) = map fst (sw_tasks w)"
    using assms(2) by (auto simp: well_keyed_def)
  moreover have "mset (map sk_ID (Store_List E w)) = mset (map sk_ID (map snd (sw_tasks w)))"
    using assms(1) unfolding fair_order_def Store_List_def by (metis mset_map)
  ultimately show ?thesis using assms(2) by (metis mset_eq_imp_distinct_iff well_keyed_def)
qed

text \<open>
  What a loop over some tasks runs: each task whose turn comes at a reading of the clock at which it
  is due.
\<close>

definition decided :: "SchedEnv \<Rightarrow> SchedWorld \<Rightarrow> SchedWorld \<Rightarrow> ScheduledTask \<Rightarrow> bool \<Rightarrow> bool" where
  "decided E w v t b \<longleftrightarrow> (\<exists>n. sw_reads w \<le> n \<and> n \<le> sw_reads v \<and> due_at (se_clock E n) t = b)"

lemma decided_wider: "decided E u v t b \<Longrightarrow> sw_reads w \<le> sw_reads u \<Longrightarrow> decided E w v t b"
  unfolding decided_def by (meson order_trans)

definition loop_runs :: "SchedEnv \<Rightarrow> SchedWorld \<Rightarrow> SchedWorld \<Rightarrow> ScheduledTask list \<Rightarrow> ScheduledTask list \<Rightarrow> bool" where
  "loop_runs E w v ts rs \<longleftrightarrow>
     subseq rs ts \<and> sw_reads w \<le> sw_reads v \<and>
     sw_prompts v = sw_prompts w @ map (\<lambda>t. (task_timeout t, sk_Prompt t)) rs \<and>
     (\<forall>t \<in> set ts. decided E w v t (t \<in> set rs)) \<and>
     (\<forall>t \<in> set ts. taken E (sk_ID t) w \<longrightarrow> run_count (sk_ID t) w = Some (sk_RunCount t) \<longrightarrow>
        run_count (sk_ID t) v = Some (if t \<in> set rs then wrap64 (sk_RunCount t + 1) else sk_RunCount t))"

lemma loop_runs_Cons:
  assumes "sk_ID t \<notin> sk_ID ` set ts" and u: "u = due_step E (agent_runner E agent) t w"
    and v: "v = fold (due_step E (agent_runner E agent)) ts u" and rs: "loop_runs E u v ts rs"
  shows "loop_runs E w v (t # ts) (if due_at (se_clock E (sw_reads w)) t then t # rs else rs)"
proof -
  let ?due = "due_at (se_clock E (sw_reads w)) t"
  let ?rs = "if ?due then t # rs else rs"
  note step = due_step_counts [where t = t and w = w and E = E and agent = agent, folded u] and rs' = rs [unfolded loop_runs_def]
  have other: "sk_ID x \<noteq> sk_ID t" if "x \<in> set ts" for x using assms(1) that by (metis imageI)
  have wv: "sw_reads w \<le> sw_reads v" using step(2) rs' by linarith
  have "set rs \<subseteq> set ts" using rs' by (metis subseq_conv_nths set_nths_subset)
  then have "t \<notin> set rs" using assms(1) by auto
  then have mem: "t \<in> set ?rs \<longleftrightarrow> ?due" "x \<in> set ts \<Longrightarrow> x \<in> set ?rs \<longleftrightarrow> x \<in> set rs" for x
    using assms(1) by auto
  have later: "same_count E (sk_ID t) u v"
    unfolding v using other by (intro same_count_fold same_count_due_step) simp
  have now: "same_count E (sk_ID x) w u" if "x \<in> set ts" for x
    unfolding u using other [OF that] by (intro same_count_due_step) simp
  show ?thesis
    unfolding loop_runs_def
  proof (intro conjI ballI impI)
    fix x assume x: "x \<in> set (t # ts)"
    show "decided E w v x (x \<in> set ?rs)"
    proof (cases "x = t")
      case True
      then show ?thesis using wv mem(1) by (auto simp: decided_def)
    next
      case False
      then show ?thesis using x mem(2) rs' step(2) by (auto intro: decided_wider)
    qed
    assume taken: "taken E (sk_ID x) w" and count: "run_count (sk_ID x) w = Some (sk_RunCount x)"
    show "run_count (sk_ID x) v = Some (if x \<in> set ?rs then wrap64 (sk_RunCount x + 1) else sk_RunCount x)"
    proof (cases "x = t")
      case True
      then show ?thesis using later step(1,2) mem(1) taken count taken_later by (auto simp: same_count_def)
    next
      case False
      then have "x \<in> set ts" using x by simp
      then show ?thesis using now [of x] taken count mem(2) rs' taken_later step(2) by (auto simp: same_count_def)
    qed
  qed (use rs' wv step(3) in auto)
qed

lemma loop_runs_fold:
  "distinct (map sk_ID ts) \<Longrightarrow>
     \<exists>rs. loop_runs E w (fold (due_step E (agent_runner E agent)) ts w) ts rs"
proof (induction ts arbitrary: w)
  case Nil
  then show ?case by (intro exI [of _ "[]"]) (simp add: loop_runs_def)
next
  case (Cons t ts)
  let ?u = "due_step E (agent_runner E agent) t w"
  obtain rs where "loop_runs E ?u (fold (due_step E (agent_runner E agent)) ts ?u) ts rs"
    using Cons by auto
  from loop_runs_Cons [OF _ refl refl this] show ?case using Cons.prems by auto
qed

lemma poll_outcome:
  assumes "fair_order E" and "well_keyed w"
  obtains rs where "loop_runs E w (poll E agent w) (Store_List E w) rs"
  using loop_runs_fold [OF snapshot_ids [OF assms]] that by (auto simp: poll_def runDueTasks_def)

lemma stored_members:
  assumes "fair_order E" and "well_keyed w" and "Store_Get k w = Some t"
  shows "t \<in> set (Store_List E w)" and "sk_ID t = k" and "run_count (sk_ID t) w = Some (sk_RunCount t)"
proof -
  have "(k, t) \<in> set (sw_tasks w)" using assms(3) by (auto simp: Store_Get_def dest: map_of_SomeD)
  then show "t \<in> set (Store_List E w)" and k: "sk_ID t = k"
    using assms(2) by (auto simp: List_members [OF assms(1)] well_keyed_def intro: rev_image_eqI)
  show "run_count (sk_ID t) w = Some (sk_RunCount t)" using assms(3) by (simp add: run_count_def k)
qed

text \<open>
  C23. A poll runs what is due. With a clock that does not go back and an iteration that visits every
  task, there is a list of tasks, taken from the store as it was when the poll began and each in it
  at most once, whose prompts, with their timeouts and in this order, are exactly what agents are
  given during the poll. Every task that is active and whose next run has passed when the poll begins
  is in the list; a task in the list is active, with a next run that has passed when the poll ends; and
  if no task that a tool creates from then on gets the same identifier (identifiers are clock
  readings), the task is still stored afterwards, with a run count increased by one (as a 64-bit
  integer) if it is in the list and the same otherwise. The agents may call any tool while they run: a
  task that one of them cancels still runs, since the poll works on the list it took at its beginning.
\<close>

theorem poll_runs_what_is_due:
  assumes "fair_order E" and "mono (se_clock E)" and "well_keyed w"
  shows "\<exists>rs. subseq rs (Store_List E w) \<and> distinct (map sk_ID rs) \<and>
    sw_prompts (poll E agent w) = sw_prompts w @ map (\<lambda>t. (task_timeout t, sk_Prompt t)) rs \<and>
    (\<forall>k t. Store_Get k w = Some t \<longrightarrow>
       (due_at (se_clock E (sw_reads w)) t \<longrightarrow> t \<in> set rs) \<and>
       (t \<in> set rs \<longrightarrow> due_at (se_clock E (sw_reads (poll E agent w))) t) \<and>
       (taken E k w \<longrightarrow> (\<exists>t'. Store_Get k (poll E agent w) = Some t' \<and>
          sk_RunCount t' = (if t \<in> set rs then wrap64 (sk_RunCount t + 1) else sk_RunCount t))))"
proof -
  obtain rs where "loop_runs E w (poll E agent w) (Store_List E w) rs"
    by (rule poll_outcome [OF assms(1,3)])
  note rs = this [unfolded loop_runs_def]
  obtain N where "rs = nths (Store_List E w) N" using rs by (auto simp: subseq_conv_nths)
  then have "distinct (map sk_ID rs)"
    using snapshot_ids [OF assms(1,3)] by (simp add: nths_map [symmetric] distinct_nthsI)
  moreover have "(due_at (se_clock E (sw_reads w)) t \<longrightarrow> t \<in> set rs) \<and>
      (t \<in> set rs \<longrightarrow> due_at (se_clock E (sw_reads (poll E agent w))) t) \<and>
      (taken E k w \<longrightarrow> (\<exists>t'. Store_Get k (poll E agent w) = Some t' \<and>
         sk_RunCount t' = (if t \<in> set rs then wrap64 (sk_RunCount t + 1) else sk_RunCount t)))"
    if t: "Store_Get k w = Some t" for k t
  proof -
    note st = stored_members [OF assms(1,3) t]
    obtain n where n: "sw_reads w \<le> n" "n \<le> sw_reads (poll E agent w)" "due_at (se_clock E n) t = (t \<in> set rs)"
      using rs st(1) by (auto simp: decided_def)
    then have "due_at (se_clock E (sw_reads w)) t \<Longrightarrow> t \<in> set rs"
      "t \<in> set rs \<Longrightarrow> due_at (se_clock E (sw_reads (poll E agent w))) t"
      using assms(2) due_at_mono by (meson monoD)+
    moreover have "taken E k w \<Longrightarrow> run_count k (poll E agent w) =
        Some (if t \<in> set rs then wrap64 (sk_RunCount t + 1) else sk_RunCount t)"
      using rs st by blast
    ultimately show ?thesis by (auto simp: run_count_def split: if_splits)
  qed
  ultimately show ?thesis using rs by blast
qed

section \<open>Examples\<close>

definition sample_sched :: SchedEnv where
  "sample_sched = \<lparr>se_clock = (\<lambda>n. 62135596800 * Second + int (min n 5)), se_order = (\<lambda>n ts. ts),
     se_cron = (\<lambda>s. Inl ''no cron''), se_ParseDuration = (\<lambda>s. Inr 1), se_ParseRFC3339 = (\<lambda>s. Inr 0),
     se_FormatRFC3339 = (\<lambda>t. ''''), se_Quote = (\<lambda>s. s), se_Marshal = (\<lambda>ts. Inr ''''),
     se_Unmarshal = (\<lambda>s. Inr []), se_faults = no_faults\<rparr>"

definition sample_call :: "string \<Rightarrow> ToolCall" where
  "sample_call ty = ScheduleCall (Some [(''name'', VStr ''n''), (''prompt'', VStr ''p''),
     (''schedule_type'', VStr ty), (''schedule_value'', VStr ''v'')])"

text \<open>An agent that cancels the task it runs and fails.\<close>

definition failing_agent :: sched_agent where
  "failing_agent to p w = ([CancelCall (Some [(''id'', VStr ''0'')])], '''', Some ''failed'')"

definition sample_start :: SchedWorld where
  "sample_start = fresh_world ''/c'' \<lparr>fs_files = [], fs_dirs = []\<rparr>"

text \<open>A store with a task for one run that is due, active and may be retried three times.\<close>

definition sample_due :: SchedWorld where
  "sample_due = (let w = tool_call sample_sched (sample_call ScheduleOnce) sample_start
     in w\<lparr>sw_tasks := map (\<lambda>(k, t). (k, t\<lparr>sk_MaxRetries := 3\<rparr>)) (sw_tasks w)\<rparr>)"

lemma sample_order: "fair_order sample_sched"
  by (simp add: fair_order_def sample_sched_def)

lemma sample_mono: "mono (se_clock sample_sched)"
  by (auto simp: sample_sched_def mono_def)

lemma sample_task:
  "map (\<lambda>t. (sk_ID t, task_timeout t, sk_Prompt t)) (Store_List sample_sched sample_due) =
     [(''0'', 300000000000, ''p'')]"
  "map_option (\<lambda>t. (sk_RunCount t, sk_MaxRetries t, due_at (se_clock sample_sched (sw_reads sample_due)) t))
     (Store_Get ''0'' sample_due) = Some (0, 3, True)"
  "well_keyed sample_due" "sw_reads sample_due = 2" "sw_prompts sample_due = []"
  "list_all (\<lambda>(k, t). plain_task k t) (sw_tasks sample_due)"
  by code_simp+

lemma sample_taken: "taken sample_sched ''0'' sample_due"
proof -
  have "n = 2 \<or> n = 3 \<or> n = 4 \<or> min n 5 = 5" if "n \<ge> 2" for n :: nat using that by auto
  moreover have "\<forall>n \<in> set [2, 3, 4, 5]. task_id (62135596800 * Second + int n) \<noteq> ''0''" by code_simp
  ultimately show ?thesis unfolding taken_def sample_task(4)
    by (fastforce simp: sample_sched_def)
qed




lemma poll_runs_what_is_due_witness:
  "sw_prompts (poll sample_sched failing_agent sample_due) = [(300000000000, ''p'')] \<and>
   map_option sk_RunCount (Store_Get ''0'' (poll sample_sched failing_agent sample_due)) = Some 1"
proof -
  obtain t where t: "Store_Get ''0'' sample_due = Some t" "sk_RunCount t = 0"
    "due_at (se_clock sample_sched (sw_reads sample_due)) t"
    using sample_task(2) by auto
  from sample_task(1) obtain u where u: "Store_List sample_sched sample_due = [u]"
    "(task_timeout u, sk_Prompt u) = (300000000000, ''p'')"
    by auto
  from poll_runs_what_is_due [OF sample_order sample_mono sample_task(3), of failing_agent]
  obtain rs where rs: "subseq rs [u]" "t \<in> set rs"
    "sw_prompts (poll sample_sched failing_agent sample_due) = map (\<lambda>t. (task_timeout t, sk_Prompt t)) rs"
    "\<exists>t'. Store_Get ''0'' (poll sample_sched failing_agent sample_due) = Some t' \<and> sk_RunCount t' = 1"
    using t sample_taken sample_task(5) unfolding u(1) by (fastforce simp: wrap64_def)
  have "rs = [u]" using rs(1,2) by (cases rs) (auto split: if_splits dest: list_emb_length)
  then show ?thesis using rs(3,4) u(2) by auto
qed

text \<open>The backoff doubles with each retry; from the 28th retry on the product leaves \<open>int64\<close>.\<close>

lemma retry_backoff_small: "0 \<le> n \<Longrightarrow> n \<le> 27 \<Longrightarrow> retry_backoff n = 2 ^ nat n * Minute"
proof -
  assume n: "0 \<le> n" "n \<le> 27"
  then have "nat n \<le> 27" by simp
  then have "(2 :: int) ^ nat n \<le> 2 ^ 27" by (rule power_increasing) simp
  then have "(2 :: int) ^ nat n \<le> 134217728" by simp
  define p :: int where "p = 2 ^ nat n"
  have "0 \<le> p" "p \<le> 134217728" using \<open>2 ^ nat n \<le> 134217728\<close> by (simp_all add: p_def)
  then have "wrap64 p = p" "wrap64 (p * Minute) = p * Minute" by (auto intro!: wrap64_id)
  then have "wrap64 (2 ^ nat n) = 2 ^ nat n" "wrap64 (2 ^ nat n * Minute) = 2 ^ nat n * Minute"
    by (simp_all add: p_def)
  then show ?thesis using n by (simp add: retry_backoff_def shl1_def)
qed

lemma retry_backoff_overflow: "retry_backoff 28 < 0" "retry_backoff 64 = 0"
  by (simp_all add: retry_backoff_def shl1_def wrap64_def)

end
