(* ===== verification/Spec2Isabelle.thy ===== *)
theory Spec2Isabelle
  imports Breaker Watchdog Classifier SelfmodValidator GovPolicy Governor RenderGuard ApprovalRuntime
    DagTopo DagProps DagState DagRollback DagPruner DagExecutor EvidenceProps ReplayProps HarnessProps
    LockProps ProfileProps ResearchProps SkillProps ScheduleProps
begin

text \<open>
  A verification development for the governance core, the records of evidence and the task executor
  of Gorkbot (Go module gorkbot, packages under \<open>src/pkg/\<close>). Gorkbot is an agent that lets language models call tools; the
  packages modelled here decide, before a tool call has an effect, whether it may happen, record what
  was decided, and run graphs of tasks in parallel with retries, rollback and persistent state.

  \<^bold>\<open>Parts and how they interact.\<close> A tool call is classified into a risk class
  (\<open>pkg/governance/classifier.go\<close>), put to a deterministic local policy
  (\<open>pkg/governance/policy.go\<close>), which for self-modifications runs the validator of
  \<open>pkg/selfmod\<close>, then confirmed by an external reasoning service (VCSE) behind a circuit breaker
  (\<open>pkg/execution/breaker.go\<close>), checked for repetition (\<open>pkg/execution/progress.go\<close>), and where
  the policy says so put to a human, whose answers are cached
  (\<open>pkg/governance/approval_cache.go\<close>) and whose prompts run in bounded workers
  (\<open>pkg/governance/approval_runtime.go\<close>). \<open>pkg/governance/governor.go\<close> composes these. Final
  answers pass the render guard (\<open>pkg/governance/render_guard_service.go\<close>). Decisions are
  recorded as bounded, redacted trace events (\<open>pkg/trace\<close>), which form trajectories.
  A trajectory becomes a case that a candidate is replayed against (\<open>pkg/replay\<close>); staged artifacts are
  audited by registered assertions (\<open>pkg/harness\<close>), whose report the validator of \<open>pkg/selfmod\<close>
  attaches to its receipt; evidence with its risk, policy state and authority is assessed into
  recommendations and receipts (\<open>pkg/evidence\<close>); and what was validated, replayed or decided can be
  locked, so that a later proposal that contradicts it is a conflict (\<open>pkg/statelock\<close>).
  Whoever runs Gorkbot picks a profile, a configuration that decides which capabilities are allowed,
  audited or need approval, as assessments of \<open>pkg/evidence\<close> (\<open>pkg/profile\<close>); and requests to the
  web go through a gateway that checks URLs, methods, redirects and sizes, caches answers, and reports to
  the trace and the harness (\<open>pkg/researchgate\<close>). A learned skill is proposed, validated, staged and
  promoted through a facade that puts all of this together: the profile's authority, a harness report,
  a replay result and a state lock check decide its status (\<open>pkg/skillruntime\<close>).
  Prompts can be run later: tools store scheduled tasks, a loop polls them and a dispatcher runs those
  that are due (\<open>pkg/scheduler\<close>, \<open>pkg/tools/task_schedule.go\<close>).
  Work in several steps is a graph of tasks (\<open>pkg/dag/dag.go\<close>), run by a main loop and one goroutine
  per task (\<open>resolver.go\<close>). A failing task is retried, then its dependents are skipped; its error
  output is compressed for an analysis (\<open>pruner.go\<close>); files that it changes are restored from a
  snapshot (\<open>rollback.go\<close>); the state of a run is saved and resumed (\<open>state.go\<close>); tasks touch files
  through an interface with a Unix and a Windows provider (\<open>executor.go\<close>).

  \<^bold>\<open>Theories.\<close>
  \<^item> Prelude: rule collections, instants and durations, finite families, runs of a step relation
    (\<open>run\<close>) and the contracts of a concurrent machine (locale \<open>step_machine\<close>) and of a machine
    driven by operations (locale \<open>op_machine\<close>).
  \<^item> GoStrings, GoPath, GoValues, GoFiles: the functions of Go's standard library that the code uses,
    on strings as lists of bytes (\<open>strings.TrimSpace\<close>, \<open>ToLower\<close>, \<open>ReplaceAll\<close>, ...), on slash
    paths (\<open>filepath.Clean\<close>, \<open>IsAbs\<close>, \<open>Base\<close>), the values of \<open>map[string]any\<close>, and files
    (\<open>os.ReadFile\<close>, \<open>WriteFile\<close>, \<open>Rename\<close>, ...), where any operation may fail and a failed write may
    be partial. \<open>Codec\<close> bundles SHA-256, \<open>json.Marshal\<close> and number formatting, which are parameters.
  \<^item> Breaker, ExecBudget, Progress, Watchdog: \<open>pkg/execution\<close>.
  \<^item> GovTypes, Classifier, GovPolicy, ApprovalCache, ApprovalRuntime, Governor, RenderGuard:
    \<open>pkg/governance\<close>, one theory per file (GovTypes holds \<open>action.go\<close>, \<open>risk.go\<close>, \<open>decision.go\<close>,
    \<open>approval.go\<close>, \<open>receipt.go\<close>).
  \<^item> SelfmodPaths, SelfmodManifest, SelfmodValidator: \<open>pkg/selfmod\<close>.
  \<^item> Trace, Trajectory: \<open>pkg/trace\<close>.
  \<^item> Evidence, EvidenceProps: \<open>pkg/evidence\<close>.
  \<^item> Replay (cases, outcomes, \<open>comparator.go\<close>), ReplayRun (\<open>runner.go\<close>, \<open>memory_store.go\<close>), ReplayProps:
    \<open>pkg/replay\<close>.
  \<^item> Harness (artifacts, assertions, evaluation, reports), HarnessRegistry (\<open>registry.go\<close>, \<open>loader.go\<close>,
    \<open>runtime.go\<close>), HarnessProps: \<open>pkg/harness\<close>.
  \<^item> LockTypes (locks, proposed states, paradox reports and the conversions of \<open>helpers.go\<close>),
    LockConflict (\<open>conflict.go\<close>, \<open>report.go\<close>), LockStore (\<open>memory_store.go\<close>), LockProps: \<open>pkg/statelock\<close>.
  \<^item> Profile (profiles, modes, capabilities, configurations and their defaults), ProfileEval
    (\<open>refs.go\<close>, \<open>evaluate.go\<close>), ProfileProps: \<open>pkg/profile\<close>.
  \<^item> Research (\<open>url.go\<close>, \<open>policy.go\<close>), ResearchRun (\<open>cache.go\<close>, \<open>gateway.go\<close>,
    \<open>harness_integration.go\<close>), ResearchProps: \<open>pkg/researchgate\<close>.
  \<^item> Skill (candidates, requests, results), SkillEval (\<open>evaluate.go\<close>), SkillStore (\<open>memory_store.go\<close>,
    \<open>facade.go\<close>), SkillGates (what each gate demands), SkillProps: \<open>pkg/skillruntime\<close>.
  \<^item> Schedule, ScheduleProps: \<open>pkg/scheduler\<close> and the scheduling tools; a history is a sequence of
    polls and tool calls, and the effect of a run on the store is the tool calls its agent makes.
  \<^item> DagGraph (\<open>dag.go\<close>), DagTopo (correctness of the topological order), DagResolver (\<open>resolver.go\<close>
    as the step relation \<open>dag_step\<close>), DagPlay (a scheduler that computes executions), DagRun (the
    invariant of an execution), DagProps (what it gives), DagState (\<open>state.go\<close>), DagRollback
    (\<open>rollback.go\<close>), DagPruner (\<open>pruner.go\<close>), DagExecutor (\<open>executor.go\<close>): \<open>pkg/dag\<close>.

  Structs are records whose fields carry a prefix of the struct's name (\<open>ga_RiskClass\<close> is the
  field \<open>RiskClass\<close> of \<open>GovernedAction\<close>); named string types are datatypes with one constructor per
  constant and one for any other string (\<open>RISK_OTHER s\<close>); a Go map is an association list without
  duplicate keys, visited in any order. A method with a pointer receiver returns the updated
  state. Methods that hold a mutex for their whole body are single operations, and a concurrent
  use is a sequence of them; the approval runtime and the executor of graphs are step relations
  whose steps are the regions between two points at which another goroutine can run. The clock is
  an argument: every reading that a method makes is one.

  \<^bold>\<open>Interfaces.\<close> \<open>op_machine\<close> and \<open>step_machine\<close> (Prelude) are what a component promises of its
  invariant; \<open>call_guard\<close> (Breaker) extends the first by what a caller relies on from a breaker;
  \<open>approval_store\<close> (ApprovalCache) states the laws of a store of approvals, and its lemmas on runs
  carry the properties of the cache; \<open>file_executor\<close> (DagExecutor) is what the callers of \<open>Executor\<close>
  rely on; \<open>cleaned_store\<close> (KeyedStore) is the contract of the in-memory stores, whose lemma on sequences
  of saves carries the round trips of cases, results, locks, paradox reports and candidates, and
  \<open>keyed_store\<close> extends it for those whose lookups trim the key. Each is interpreted on the model's own definitions.

  \<^bold>\<open>What the properties show.\<close> The governor lets nothing through without a ground, stops
  repetitions and never interferes when it only observes; the policy's decision table; the workspace
  check is a check on path elements; self-modification is blocked or satisfies the whole list of
  conditions; staged paths cannot leave the staging directories; scanned source contains none of the
  forbidden imports and calls; the approval cache never turns a refusal into a grant, and redaction
  reaches every depth; the approval runtime bounds its workers, grants only what a human granted, and
  releases its callers on shutdown; the breaker, the tracker, the watchdog and the budgets meet their
  specifications on every run; trace events are bounded and redacted. In every interleaving of the
  graph executor tasks run after their dependencies and within the bound, statuses only move forward,
  no run deadlocks, and the result of a run is what happened; orders are topological and do not depend
  on the iteration of maps; a rollback restores every file and can be repeated after a failure; saving
  is atomic and loses only interruptions. An accepted candidate of a replay meets every expectation of
  its case; a registry of assertions stays well formed and an audit passes exactly if every assertion
  in scope holds; a sensitive operation is never recommended without policy and authority; a saved
  lock protects its state against every differing proposal. What a profile decides of a capability is
  a table, by which the default profiles decide alike. Every request of the research gateway, redirects
  included, goes to a URL that passed the policy's checks, a fetch sends at most ten requests, and sizes
  and timeouts keep to their limits. A skill is staged for promotion exactly if the authority, every
  required check, the evidence of rollback and disabling and the configuration agree. A poll of the
  scheduler runs each task that is due once, but what a run records is lost. Some properties state where the code does
  not do what it means to.

  \<^bold>\<open>Parameters.\<close> Actions and rollback functions of tasks, the AI, VCSE, the human, the clock,
  \<open>encoding/gob\<close> (with the law that decoding gives what was encoded without its functions), the
  conversion of a float out of the range of \<open>int64\<close>, SHA-256, \<open>json.Marshal\<close>, UUIDs, regular
  expressions and YAML decoding, \<open>strconv.ParseFloat\<close>, the cron library, \<open>time.ParseDuration\<close>, the RFC 3339 format, \<open>url.Parse\<close>, \<open>URL.String\<close>, \<open>net.ParseIP\<close>,
  \<open>netip.ParseAddr\<close>, what servers answer, and \<open>go/parser\<close> are arguments of the definitions that use them.

  \<^bold>\<open>Bounds.\<close> No fuel is used: every loop is structural recursion or has a measure (Kahn's algorithm
  decreases twice the number of positive in-degrees plus the length of the queue; a chain of redirects
  counts up to ten). Lengths of
  strings are unbounded, with the bound of Go's 64-bit \<open>int\<close> as a hypothesis where the code's
  arithmetic needs it; counters of the breaker and the tracker are unbounded integers.

  \<^bold>\<open>Not modelled.\<close> Case mapping of \<open>ToLower\<close> and \<open>ToUpper\<close> from letters outside ASCII to letters
  outside ASCII (the code compares with ASCII keys only), the Go parser beyond the kinds of node that
  the scan looks at, the file sink of \<open>pkg/trace\<close>, file modes and symbolic links, running commands, the HTTP client beyond its loop of redirects,
  the listing of scheduled tasks, the nil map that a task file holding \<open>null\<close> decodes to,
  and the user interfaces, tools, providers and databases of the rest of the repository, which are
  dominated by the network, the terminal and the output of language models.
\<close>

section \<open>Properties across components\<close>

lemma runtime_outcome_grant:
  "runtime_outcome a = RunRes r \<Longrightarrow> a = (r, None)"
  by (auto simp: runtime_outcome_def split: prod.splits option.splits)

text \<open>
  C7. From the human to the tool: when an enforcing governor without an approval cache allows an
  action that its policy does not allow by itself, the approval runtime, whatever its interleaving
  of calls, workers and shutdown, answered the call for that action's key with the grant that the
  human handler returned for a worker of the same key, and no error.
\<close>

theorem human_grant_end_to_end:
  assumes "enforcing (po_Mode (gv_Policy g))" and "gv_ApprovalCache g = None"
    and "\<not> gd_Allowed (Policy_Evaluate E (gv_Policy g) (stamp env action))"
    and "ga_RiskClass action \<noteq> RISK_READ_ONLY"
    and "runtime_run n ls s" and "phase_of s i = Some (C_RETURNED a)"
    and "key_of s i = approvalKeyFromAction (se_Codec E) action"
    and "ae_Run aenv = runtime_outcome a"
    and "gd_Allowed (fst (DecideAndApprove E env aenv action g))"
  shows "\<exists>w wk r. worker_of s w = Some wk \<and>
    if_Key wk = approvalKeyFromAction (se_Codec E) action \<and>
    AFinish w (FnReturn r None) \<in> set ls \<and> ar_Decision r = APPROVAL_GRANTED"
proof -
  have "ApprovalGranted (fst (RequestHumanApproval (se_Codec E) aenv action g))"
    using DecideAndApprove_allowed [OF assms(1,9)] assms(3,4) by blast
  then obtain r where r: "ae_Run aenv = RunRes r" "ar_Decision r = APPROVAL_GRANTED"
    using RequestHumanApproval_grant assms(2) by (metis option.distinct(1))
  then have "a = (r, None)" using assms(8) runtime_outcome_grant by metis
  then obtain w wk r' where "worker_of s w = Some wk" "if_Key wk = key_of s i"
      "AFinish w (FnReturn r' None) \<in> set ls"
      "r = r' \<or> ar_Reason r' = [] \<and> r = r'\<lparr>ar_Reason := REASON_APPROVAL_DUPLICATE_JOINED\<rparr>"
    using returned_grant [OF assms(5)] assms(6) r(2) by blast
  moreover from this(4) have "ar_Decision r' = APPROVAL_GRANTED" using r(2) by auto
  ultimately show ?thesis using assms(7) by auto
qed

theorem human_grant_end_to_end_witness:
  "\<exists>w r. AFinish w (FnReturn r None) \<in> set granted_labels \<and> ar_Decision r = APPROVAL_GRANTED"
proof -
  let ?key = "approvalKeyFromAction (se_Codec sample_env) cached_action"
  let ?w = "worker_finish (FnReturn example_grant None) (example_worker ?key)"
  let ?s = "busy_state ?key (C_RETURNED (example_grant, None)) ?w"
  let ?aenv = "approval_env_example\<lparr>ae_Run := RunRes example_grant\<rparr>"
  have "?key \<noteq> []" by (simp add: approvalKeyFromAction_def Let_def)
  then have run: "runtime_run 1 granted_labels ?s" by (rule granted_run)
  have phase: "phase_of ?s 0 = Some (C_RETURNED (example_grant, None))" "key_of ?s 0 = ?key"
    by (simp_all add: phase_of_def busy_state_def)
  have "enforcing (po_Mode (gv_Policy governor_example))" "gv_ApprovalCache governor_example = None"
    by (simp_all add: governor_example_def enforcing_def)
  moreover have "\<not> gd_Allowed (Policy_Evaluate sample_env (gv_Policy governor_example) (stamp env_example cached_action))"
    by (simp add: Policy_Evaluate_def Let_def governor_example_def DefaultPolicy_def cached_action_def
        require_human_def stamp_def IsZero_def)
  moreover have "gd_Allowed (fst (DecideAndApprove sample_env env_example ?aenv cached_action governor_example))"
    by (simp add: DecideAndApprove_def Decide_def Let_def governor_example_def DefaultPolicy_def
        cached_action_def check_loop_def stamp_def IsZero_def Policy_Evaluate_def require_human_def
        check_vcse_def env_example_def vcseBreaker_def NewDefaultBreakerSet_def NewCircuitBreaker_def
        Allow_def set_vcseBreaker_def decision_defs finish_def isHardBlockReason_def code_const
        RequestHumanApproval_def approval_env_example_def run_outcome_def apply_approval_def
        approval_result_def ApprovalGranted_def example_grant_def)
  moreover have "ga_RiskClass cached_action \<noteq> RISK_READ_ONLY" by (simp add: cached_action_def)
  moreover have "ae_Run ?aenv = runtime_outcome (example_grant, None)" by (simp add: runtime_outcome_def)
  ultimately show ?thesis
    using human_grant_end_to_end [of governor_example sample_env env_example cached_action 1
      granted_labels ?s 0 "(example_grant, None)" ?aenv] run phase by blast
qed

end
